(* ===== verification/Prelude.thy ===== *)
theory Prelude
  imports Main "HOL-Library.Char_ord" "HOL-Library.List_Lexorder" "HOL-Library.Product_Lexorder"
begin

text \<open>
  Shared vocabulary of the development: identifiers and instants, the result type in which
  every Python exception is a value, database tables as lists of rows, and the pieces of
  Python's string behaviour (whitespace, stripping, decimal numbers) that several modules use.
  Nothing in this theory models a file of the repository by itself.
\<close>

section \<open>Identifiers, instants, results\<close>

text \<open>
  A UUID is its 128-bit number; \<open>uuid.uuid4()\<close> is never computed, an operation that draws
  one takes it as an argument. An instant is a number of microseconds since the epoch in UTC.
  A Python datetime is naive (no zone) or aware, and an aware one is represented by its instant,
  which is what \<open>astimezone(timezone.utc)\<close> keeps.
\<close>

type_synonym uuid = nat
type_synonym instant = int

datatype datetime = Naive int | Aware instant

named_theorems result_simps "equations and inversions for results"
named_theorems table_simps "lookups and updates of tables"

fun bindR :: "'e + 'a \<Rightarrow> ('a \<Rightarrow> 'e + 'b) \<Rightarrow> 'e + 'b" where
  "bindR (Inl e) f = Inl e"
| "bindR (Inr x) f = f x"

definition guardR :: "bool \<Rightarrow> 'e \<Rightarrow> 'e + unit" where
  "guardR ok e = (if ok then Inr () else Inl e)"

fun mapR :: "('a \<Rightarrow> 'e + 'b) \<Rightarrow> 'a list \<Rightarrow> 'e + 'b list" where
  "mapR f [] = Inr []"
| "mapR f (x # xs) = bindR (f x) (\<lambda>y. bindR (mapR f xs) (\<lambda>ys. Inr (y # ys)))"

fun foldR :: "('s \<Rightarrow> 'a \<Rightarrow> 'e + 's) \<Rightarrow> 's \<Rightarrow> 'a list \<Rightarrow> 'e + 's" where
  "foldR f s [] = Inr s"
| "foldR f s (x # xs) = bindR (f s x) (\<lambda>s'. foldR f s' xs)"

lemma bindR_eq_Inr [result_simps]: "bindR r f = Inr y \<longleftrightarrow> (\<exists>x. r = Inr x \<and> f x = Inr y)"
  by (cases r) auto

lemma bindR_eq_Inl [result_simps]:
  "bindR r f = Inl e \<longleftrightarrow> r = Inl e \<or> (\<exists>x. r = Inr x \<and> f x = Inl e)"
  by (cases r) auto

lemma guardR_eq_Inr [simp]: "guardR ok e = Inr u \<longleftrightarrow> ok"
  by (simp add: guardR_def)

lemma guardR_eq_Inl [simp]: "guardR ok e = Inl e' \<longleftrightarrow> \<not> ok \<and> e' = e"
  by (auto simp: guardR_def)

lemma guardR_True [simp]: "guardR True e = Inr ()"
  by (simp add: guardR_def)

lemma guardR_False [simp]: "guardR False e = Inl e"
  by (simp add: guardR_def)

lemma foldR_append: "foldR f s (xs @ ys) = bindR (foldR f s xs) (\<lambda>s'. foldR f s' ys)"
proof (induction xs arbitrary: s)
  case (Cons x xs)
  then show ?case by (cases "f s x") simp_all
qed simp

lemma foldR_invariant:
  assumes "\<And>s x s'. P s \<Longrightarrow> x \<in> set xs \<Longrightarrow> f s x = Inr s' \<Longrightarrow> P s'"
  shows "P s \<Longrightarrow> foldR f s xs = Inr s' \<Longrightarrow> P s'"
  using assms
proof (induction xs arbitrary: s)
  case Nil
  then show ?case by simp
next
  case (Cons x xs)
  from Cons.prems(2) obtain t where t: "f s x = Inr t" and rest: "foldR f t xs = Inr s'"
    by (auto simp: bindR_eq_Inr)
  have "P t" using Cons.prems(1,3) t by (metis list.set_intros(1))
  then show ?case using Cons.IH rest Cons.prems(3) by (metis list.set_intros(2))
qed

lemma mapR_eq_map:
  assumes "mapR f xs = Inr ys" and "\<And>x y. x \<in> set xs \<Longrightarrow> f x = Inr y \<Longrightarrow> y = g x"
  shows "ys = map g xs"
  using assms by (induction xs arbitrary: ys) (auto simp: bindR_eq_Inr)

lemma mapR_Inr_all: "mapR f xs = Inr ys \<Longrightarrow> x \<in> set xs \<Longrightarrow> \<exists>y \<in> set ys. f x = Inr y"
  by (induction xs arbitrary: ys) (auto simp: bindR_eq_Inr)

section \<open>Tables\<close>

text \<open>
  A database table is the list of its rows. A query by key is \<open>find\<close>, an assignment to the
  attributes of a loaded row is \<open>update_where\<close> on the row's key, \<open>session.add\<close> appends.
\<close>

definition update_where :: "('r \<Rightarrow> bool) \<Rightarrow> ('r \<Rightarrow> 'r) \<Rightarrow> 'r list \<Rightarrow> 'r list" where
  "update_where P f rows = map (\<lambda>r. if P r then f r else r) rows"

lemma update_where_Nil [simp]: "update_where P f [] = []"
  by (simp add: update_where_def)

lemma update_where_Cons [simp]:
  "update_where P f (r # rs) = (if P r then f r else r) # update_where P f rs"
  by (simp add: update_where_def)

lemma length_update_where [simp]: "length (update_where P f rs) = length rs"
  by (simp add: update_where_def)

lemma set_update_where: "set (update_where P f rs) = {(if P r then f r else r) | r. r \<in> set rs}"
  by (auto simp: update_where_def)

lemma in_update_where:
  "x \<in> set rs \<Longrightarrow> \<not> P x \<Longrightarrow> x \<in> set (update_where P f rs)"
  "x \<in> set rs \<Longrightarrow> P x \<Longrightarrow> f x \<in> set (update_where P f rs)"
  by (induction rs) auto

lemma in_update_where_other_key:
  assumes "\<And>x. x \<in> set rs \<Longrightarrow> P x \<Longrightarrow> key x = k \<and> key (f x) = k" and "key r \<noteq> k"
  shows "r \<in> set (update_where P f rs) \<longleftrightarrow> r \<in> set rs"
  using assms unfolding set_update_where by (auto split: if_splits)

lemma update_where_append [simp]:
  "update_where P f (xs @ ys) = update_where P f xs @ update_where P f ys"
  by (simp add: update_where_def)

lemma map_key_update_where:
  "(\<And>r. P r \<Longrightarrow> k (f r) = k r) \<Longrightarrow> map k (update_where P f rs) = map k rs"
  by (simp add: update_where_def)

lemma update_where_id: "(\<And>r. r \<in> set rs \<Longrightarrow> \<not> P r) \<Longrightarrow> update_where P f rs = rs"
  by (induction rs) auto

lemma find_SomeD: "find P xs = Some x \<Longrightarrow> x \<in> set xs \<and> P x"
  by (induction xs) (auto split: if_splits)

lemma find_NoneD: "find P xs = None \<Longrightarrow> x \<in> set xs \<Longrightarrow> \<not> P x"
  by (auto simp: find_None_iff)

text \<open>With a unique key the row a query finds is the only row with that key.\<close>

lemma distinct_key_unique:
  "distinct (map k rs) \<Longrightarrow> r \<in> set rs \<Longrightarrow> r' \<in> set rs \<Longrightarrow> k r = k r' \<Longrightarrow> r = r'"
  by (metis distinct_map inj_onD)

lemma find_unique:
  assumes "distinct (map k rs)" and "r \<in> set rs"
  shows "find (\<lambda>x. k x = k r) rs = Some r"
  using assms by (induction rs) (auto intro: rev_image_eqI)

lemma filter_key_none: "i \<notin> k ` set xs \<Longrightarrow> filter (\<lambda>x. k x = i) xs = []"
  by (induction xs) auto

lemma filter_unique_key:
  "distinct (map k rs) \<Longrightarrow> r \<in> set rs \<Longrightarrow> filter (\<lambda>x. k x = k r) rs = [r]"
proof (induction rs)
  case (Cons x rs)
  show ?case
  proof (cases "k x = k r")
    case True
    then have "filter (\<lambda>y. k y = k r) rs = []"
      by (intro filter_key_none) (use True Cons.prems(1) in simp)
    moreover have "x = r" using True Cons.prems by (auto intro: rev_image_eqI)
    ultimately show ?thesis by simp
  qed (use Cons in auto)
qed simp

lemma find_update_where_same [table_simps]:
  assumes "\<And>r. k (f r) = k r"
  shows "find (\<lambda>x. k x = a) (update_where (\<lambda>x. k x = a) f rs) =
    map_option f (find (\<lambda>x. k x = a) rs)"
  using assms by (induction rs) auto

lemma find_update_where_other [table_simps]:
  assumes "\<And>r. k (f r) = k r" and "a \<noteq> b"
  shows "find (\<lambda>x. k x = a) (update_where (\<lambda>x. k x = b) f rs) = find (\<lambda>x. k x = a) rs"
  using assms by (induction rs) auto

lemma find_append: "find P (xs @ ys) = (case find P xs of Some x \<Rightarrow> Some x | None \<Rightarrow> find P ys)"
  by (induction xs) auto

lemma sort_key_Nil_iff [simp]: "sort_key k xs = [] \<longleftrightarrow> xs = []"
  by (metis length_0_conv length_sort)

lemma distinct_map_sort_key: "distinct (map k (sort_key f xs)) = distinct (map k xs)"
  by (simp add: distinct_map)

text \<open>Updating the one row with a given key of a table with unique keys.\<close>

lemma update_where_split:
  "distinct (map k (ys @ x # zs)) \<Longrightarrow> update_where (\<lambda>r. k r = k x) f (ys @ x # zs) = ys @ f x # zs"
proof -
  assume d: "distinct (map k (ys @ x # zs))"
  have fresh: "k x \<notin> k ` set ys" "k x \<notin> k ` set zs" using d by auto
  have "k r \<noteq> k x" if "r \<in> set ys \<union> set zs" for r
    using fresh that imageI [of r _ k] by (metis Un_iff)
  then have "update_where (\<lambda>r. k r = k x) f ys = ys"
      and "update_where (\<lambda>r. k r = k x) f zs = zs"
    by (auto intro!: update_where_id)
  then show ?thesis by simp
qed

lemma find_split:
  "distinct (map k (ys @ x # zs)) \<Longrightarrow> find (\<lambda>r. k r = k x) (ys @ x # zs) = Some x"
  by (rule find_unique) auto

lemma filter_update_where:
  "(\<And>r. P (f r) = P r) \<Longrightarrow> filter P (update_where Q f rs) = update_where Q f (filter P rs)"
  by (induction rs) auto

lemma find_filter: "find P (filter Q xs) = find (\<lambda>x. P x \<and> Q x) xs"
  by (induction xs) auto

section \<open>Reachable states\<close>

text \<open>
  A system is a start state and a relation; its reachable states are the least set closed under
  steps. The locale \<open>invariant_system\<close> is the contract of an inductive invariant.
\<close>

inductive reachable_from :: "('s \<Rightarrow> bool) \<Rightarrow> ('s \<Rightarrow> 's \<Rightarrow> bool) \<Rightarrow> 's \<Rightarrow> bool"
  for start :: "'s \<Rightarrow> bool" and step :: "'s \<Rightarrow> 's \<Rightarrow> bool" where
  reach_start: "start s \<Longrightarrow> reachable_from start step s"
| reach_step: "reachable_from start step s \<Longrightarrow> step s t \<Longrightarrow> reachable_from start step t"

inductive steps_to :: "('s \<Rightarrow> 's \<Rightarrow> bool) \<Rightarrow> 's \<Rightarrow> 's \<Rightarrow> bool"
  for step :: "'s \<Rightarrow> 's \<Rightarrow> bool" where
  steps_refl: "steps_to step s s"
| steps_more: "steps_to step s t \<Longrightarrow> step t u \<Longrightarrow> steps_to step s u"

lemma steps_one: "step s t \<Longrightarrow> steps_to step s t"
  by (rule steps_more [OF steps_refl])

lemma reachable_steps:
  "steps_to step s t \<Longrightarrow> reachable_from start step s \<Longrightarrow> reachable_from start step t"
  by (induction rule: steps_to.induct) (auto intro: reach_step)

locale invariant_system =
  fixes start :: "'s \<Rightarrow> bool" and step :: "'s \<Rightarrow> 's \<Rightarrow> bool" and inv :: "'s \<Rightarrow> bool"
  assumes inv_start: "start s \<Longrightarrow> inv s"
    and inv_step: "inv s \<Longrightarrow> step s t \<Longrightarrow> inv t"
begin

lemma reachable_inv: "reachable_from start step s \<Longrightarrow> inv s"
  by (induction rule: reachable_from.induct) (auto intro: inv_start inv_step)

lemma steps_inv: "steps_to step s t \<Longrightarrow> inv s \<Longrightarrow> inv t"
  by (induction rule: steps_to.induct) (auto intro: inv_step)

text \<open>A fact that holds once and that every step from an invariant state keeps, holds for ever.\<close>

lemma steps_stable:
  assumes "steps_to step s t" and "inv s" and "P s"
    and "\<And>u v. inv u \<Longrightarrow> P u \<Longrightarrow> step u v \<Longrightarrow> P v"
  shows "P t"
  using assms
proof (induction rule: steps_to.induct)
  case (steps_more s t u)
  then show ?case using steps_inv by blast
qed simp

end

section \<open>Dictionaries in sorted order\<close>

text \<open>
  \<open>{item.key: item for item in items}\<close> keeps the last item of each key, at the place where the key
  was first met; \<open>tuple(d[key] for key in sorted(d))\<close> lists the values by key. The rows of a
  dictionary are kept as an association list.
\<close>

fun dict_put :: "'k \<Rightarrow> 'v \<Rightarrow> ('k \<times> 'v) list \<Rightarrow> ('k \<times> 'v) list" where
  "dict_put k v [] = [(k, v)]"
| "dict_put k v ((k', v') # d) = (if k = k' then (k, v) # d else (k', v') # dict_put k v d)"

definition dict_of :: "('v \<Rightarrow> 'k) \<Rightarrow> 'v list \<Rightarrow> ('k \<times> 'v) list" where
  "dict_of key xs = fold (\<lambda>x d. dict_put (key x) x d) xs []"

definition sorted_values :: "('k::linorder \<times> 'v) list \<Rightarrow> 'v list" where
  "sorted_values d = map snd (sort_key fst d)"

lemma map_of_dict_put [simp]: "map_of (dict_put k v d) = (map_of d)(k \<mapsto> v)"
  by (induction k v d rule: dict_put.induct) auto

lemma keys_dict_put [simp]: "fst ` set (dict_put k v d) = insert k (fst ` set d)"
  by (induction k v d rule: dict_put.induct) auto

lemma distinct_dict_put [simp]: "distinct (map fst (dict_put k v d)) = distinct (map fst d)"
proof (induction d)
  case (Cons p d)
  obtain k' v' where p: "p = (k', v')" by (cases p)
  have "k' \<in> fst ` set (dict_put k v d) \<longleftrightarrow> k' = k \<or> k' \<in> fst ` set d" by simp
  then show ?case using Cons.IH p by (auto simp del: keys_dict_put)
qed simp

lemma set_dict_put: "set (dict_put k v d) \<subseteq> insert (k, v) (set d)"
  by (induction k v d rule: dict_put.induct) auto

lemma dict_put_id: "map_of d k = Some v \<Longrightarrow> dict_put k v d = d"
  by (induction k v d rule: dict_put.induct) (auto split: if_splits)

lemma distinct_dict_of [simp]: "distinct (map fst (dict_of key xs))"
proof -
  have "distinct (map fst d) \<Longrightarrow> distinct (map fst (fold (\<lambda>x d. dict_put (key x) x d) xs d))"
    for d :: "('a \<times> 'b) list"
    by (induction xs arbitrary: d) auto
  then show ?thesis by (simp add: dict_of_def)
qed

lemma keys_dict_of: "fst ` set (dict_of key xs) = key ` set xs"
proof -
  have "fst ` set (fold (\<lambda>x d. dict_put (key x) x d) xs d) = key ` set xs \<union> fst ` set d"
    for d :: "('a \<times> 'b) list"
    by (induction xs arbitrary: d) auto
  then show ?thesis by (simp add: dict_of_def)
qed

lemma set_dict_of: "(k, v) \<in> set (dict_of key xs) \<Longrightarrow> v \<in> set xs \<and> k = key v"
proof -
  have "(k, v) \<in> set (fold (\<lambda>x d. dict_put (key x) x d) xs d) \<Longrightarrow>
      (v \<in> set xs \<and> k = key v) \<or> (k, v) \<in> set d" for d :: "('a \<times> 'b) list"
  proof (induction xs arbitrary: d)
    case (Cons x xs)
    then have "(v \<in> set xs \<and> k = key v) \<or> (k, v) \<in> set (dict_put (key x) x d)" by simp
    then show ?case using set_dict_put by fastforce
  qed simp
  then show "(k, v) \<in> set (dict_of key xs) \<Longrightarrow> v \<in> set xs \<and> k = key v"
    by (fastforce simp: dict_of_def)
qed

lemma map_of_dict_of:
  "distinct (map key xs) \<Longrightarrow> map_of (dict_of key xs) k = find (\<lambda>x. key x = k) xs"
proof -
  have "distinct (map key xs) \<Longrightarrow> map_of (fold (\<lambda>x d. dict_put (key x) x d) xs d) k =
      (case find (\<lambda>x. key x = k) xs of Some x \<Rightarrow> Some x | None \<Rightarrow> map_of d k)"
    for d :: "('a \<times> 'b) list"
    by (induction xs arbitrary: d) (auto dest!: find_SomeD split: option.splits)
  then show "distinct (map key xs) \<Longrightarrow> map_of (dict_of key xs) k = find (\<lambda>x. key x = k) xs"
    by (simp add: dict_of_def split: option.splits)
qed

lemma set_sorted_values [simp]: "set (sorted_values d) = snd ` set d"
  by (simp add: sorted_values_def)

lemma find_sorted_values:
  assumes "distinct (map fst d)" and "\<And>k v. (k, v) \<in> set d \<Longrightarrow> key v = k"
  shows "find (\<lambda>v. key v = k) (sorted_values d) = map_of d k"
proof -
  have keyed: "map key (sorted_values d) = map fst (sort_key fst d)"
    using assms(2) by (auto simp: sorted_values_def)
  have dist: "distinct (map fst (sort_key fst d))"
    using assms(1) by (metis distinct_map distinct_sort inj_on_def set_sort)
  show ?thesis
  proof (cases "map_of d k")
    case None
    then have "k \<notin> fst ` set d" by (simp add: map_of_eq_None_iff)
    then have "k \<notin> key ` set (sorted_values d)"
      using assms(2) by force
    then show ?thesis using None by (auto simp: find_None_iff)
  next
    case (Some v)
    then have "(k, v) \<in> set d" by (rule map_of_SomeD)
    then have "v \<in> set (sorted_values d)" and "key v = k" using assms(2) by force+
    then show ?thesis using Some find_unique [of key "sorted_values d" v] keyed dist by simp
  qed
qed

lemma distinct_sorted_values:
  assumes "distinct (map fst d)" and "\<And>k v. (k, v) \<in> set d \<Longrightarrow> key v = k"
  shows "distinct (map key (sorted_values d))"
proof -
  have "map key (sorted_values d) = map fst (sort_key fst d)"
    using assms(2) by (auto simp: sorted_values_def)
  then show ?thesis using assms(1) by (metis distinct_map distinct_sort inj_on_def set_sort)
qed

text \<open>A dictionary all of whose entries are filed under the key of their value.\<close>

definition keyed_by :: "('v \<Rightarrow> 'k) \<Rightarrow> ('k \<times> 'v) list \<Rightarrow> bool" where
  "keyed_by key d = (distinct (map fst d) \<and> (\<forall>(k, v) \<in> set d. key v = k))"

lemma keyed_by_dict_of [simp]: "keyed_by key (dict_of key xs)"
  by (auto simp: keyed_by_def dest: set_dict_of)

lemma keyed_by_put [simp]: "keyed_by key d \<Longrightarrow> key v = k \<Longrightarrow> keyed_by key (dict_put k v d)"
  using set_dict_put [of k v d] by (fastforce simp: keyed_by_def)

lemma keyed_by_lookup: "keyed_by key d \<Longrightarrow> map_of d k = Some v \<Longrightarrow> key v = k"
  by (auto simp: keyed_by_def dest: map_of_SomeD)

lemma keyed_by_find:
  "keyed_by key d \<Longrightarrow> find (\<lambda>v. key v = k) (sorted_values d) = map_of d k"
  by (rule find_sorted_values) (auto simp: keyed_by_def)

lemma keyed_by_distinct: "keyed_by key d \<Longrightarrow> distinct (map key (sorted_values d))"
  by (rule distinct_sorted_values) (auto simp: keyed_by_def)

lemma keyed_by_in_values:
  "keyed_by key d \<Longrightarrow> v \<in> set (sorted_values d) \<longleftrightarrow> map_of d (key v) = Some v"
  by (force simp: keyed_by_def dest: map_of_SomeD)

lemma keyed_by_lookup_values:
  "keyed_by key d \<Longrightarrow> map_of (dict_of key (sorted_values d)) k = map_of d k"
  by (simp add: map_of_dict_of keyed_by_distinct keyed_by_find)

lemma dict_of_lookup:
  "distinct (map key xs) \<Longrightarrow> x \<in> set xs \<Longrightarrow> map_of (dict_of key xs) (key x) = Some x"
  by (simp add: map_of_dict_of find_unique)

section \<open>Characters and strings\<close>

text \<open>
  A Python string is a list of characters, one per code point; the model covers the code points
  below 256. \<open>py_isspace\<close> is \<open>str.isspace\<close> on them, which is also what \<open>str.strip\<close> removes.
\<close>

definition py_isspace :: "char \<Rightarrow> bool" where
  "py_isspace c = (let n = (of_char c :: nat) in
     (9 \<le> n \<and> n \<le> 13) \<or> (28 \<le> n \<and> n \<le> 32) \<or> n = 133 \<or> n = 160)"

definition py_strip :: "string \<Rightarrow> string" where
  "py_strip s = rev (dropWhile py_isspace (rev (dropWhile py_isspace s)))"

text \<open>\<open>str.lower\<close> on the code points below 256.\<close>

definition lower_char :: "char \<Rightarrow> char" where
  "lower_char c = (let n = (of_char c :: nat) in
     if (65 \<le> n \<and> n \<le> 90) \<or> (192 \<le> n \<and> n \<le> 222 \<and> n \<noteq> 215) then char_of (n + 32) else c)"

definition py_lower :: "string \<Rightarrow> string" where
  "py_lower s = map lower_char s"

text \<open>
  \<open>str.splitlines\<close>: the line ends below 256 are newline, return (with a newline that follows it),
  vertical tab, form feed, the separators 28 to 30 and the next-line character.
\<close>

definition is_line_end :: "char \<Rightarrow> bool" where
  "is_line_end c = (let n = (of_char c :: nat) in (10 \<le> n \<and> n \<le> 13) \<or> (28 \<le> n \<and> n \<le> 30) \<or> n = 133)"

fun splitlines_from :: "string \<Rightarrow> string \<Rightarrow> string list" where
  "splitlines_from line [] = (if line = [] then [] else [rev line])"
| "splitlines_from line [c] = (if is_line_end c then [rev line] else [rev (c # line)])"
| "splitlines_from line (c # d # s) =
     (if c = CHR 0x0D \<and> d = CHR 0x0A then rev line # splitlines_from [] s
      else if is_line_end c then rev line # splitlines_from [] (d # s)
      else splitlines_from (c # line) (d # s))"

definition splitlines :: "string \<Rightarrow> string list" where
  "splitlines s = splitlines_from [] s"

definition is_digit :: "char \<Rightarrow> bool" where
  "is_digit c = (let n = (of_char c :: nat) in 48 \<le> n \<and> n \<le> 57)"

definition is_lower :: "char \<Rightarrow> bool" where
  "is_lower c = (let n = (of_char c :: nat) in 97 \<le> n \<and> n \<le> 122)"

definition is_upper :: "char \<Rightarrow> bool" where
  "is_upper c = (let n = (of_char c :: nat) in 65 \<le> n \<and> n \<le> 90)"

definition is_hex_lower :: "char \<Rightarrow> bool" where
  "is_hex_lower c = (let n = (of_char c :: nat) in (48 \<le> n \<and> n \<le> 57) \<or> (97 \<le> n \<and> n \<le> 102))"

definition is_sha256_hex :: "string \<Rightarrow> bool" where
  "is_sha256_hex s = (length s = 64 \<and> list_all is_hex_lower s)"

text \<open>The shape \<open>[A][B]{lo,hi}\<close>: one character of a first class, then \<open>lo\<close> to \<open>hi\<close> of a second.\<close>

definition head_tail_match ::
  "(char \<Rightarrow> bool) \<Rightarrow> (char \<Rightarrow> bool) \<Rightarrow> nat \<Rightarrow> nat \<Rightarrow> string \<Rightarrow> bool" where
  "head_tail_match A B lo hi s =
     (case s of [] \<Rightarrow> False | c # cs \<Rightarrow> A c \<and> list_all B cs \<and> lo \<le> length cs \<and> length cs \<le> hi)"

lemma dropWhile_snoc:
  "dropWhile P (xs @ [x]) = (if list_all P xs then (if P x then [] else [x]) else dropWhile P xs @ [x])"
  by (induction xs) auto

lemma strip_Nil_iff: "rev (dropWhile P (rev (dropWhile P s))) = [] \<longleftrightarrow> list_all P s"
proof
  assume "rev (dropWhile P (rev (dropWhile P s))) = []"
  then have "\<forall>c \<in> set (dropWhile P s). P c" by (simp add: dropWhile_eq_Nil_conv)
  then have "dropWhile P s = []" by (metis dropWhile_eq_Nil_conv dropWhile_idem)
  then show "list_all P s" by (auto simp: dropWhile_eq_Nil_conv list_all_iff)
next
  assume "list_all P s"
  then have "dropWhile P s = []" by (induction s) auto
  then show "rev (dropWhile P (rev (dropWhile P s))) = []" by (simp only: dropWhile.simps rev.simps)
qed

lemma py_strip_Nil_iff: "py_strip s = [] \<longleftrightarrow> list_all py_isspace s"
  unfolding py_strip_def by (rule strip_Nil_iff)

lemma py_strip_strip [simp]: "py_strip (py_strip s) = py_strip s"
proof -
  define t where "t = dropWhile py_isspace s"
  define u where "u = dropWhile py_isspace (rev t)"
  have "dropWhile py_isspace (rev u) = rev u"
  proof (cases "rev u")
    case Nil
    then show ?thesis by simp
  next
    case (Cons c cs)
    obtain w where "rev t = w @ u" unfolding u_def by (metis takeWhile_dropWhile_id)
    then have "t = rev u @ rev w" by (metis rev_append rev_rev_ident)
    then have "t = c # (cs @ rev w)" using Cons by simp
    then have "\<not> py_isspace c" unfolding t_def
      by (metis hd_dropWhile list.distinct(1) list.sel(1))
    then show ?thesis using Cons by simp
  qed
  moreover have "dropWhile py_isspace u = u" unfolding u_def by (rule dropWhile_idem)
  ultimately show ?thesis by (simp add: py_strip_def t_def [symmetric] u_def [symmetric])
qed

section \<open>Decimal numbers\<close>

definition digit_char :: "nat \<Rightarrow> char" where
  "digit_char d = char_of (48 + d)"

definition digit_val :: "char \<Rightarrow> nat" where
  "digit_val c = of_char c - 48"

text \<open>\<open>str(n)\<close> for a natural number and \<open>int(s)\<close> for a string of digits.\<close>

fun dec_nat :: "nat \<Rightarrow> string" where
  "dec_nat n = (if n < 10 then [digit_char n] else dec_nat (n div 10) @ [digit_char (n mod 10)])"

declare dec_nat.simps [simp del]

definition dec_val :: "string \<Rightarrow> nat" where
  "dec_val s = foldl (\<lambda>a c. a * 10 + digit_val c) 0 s"

definition dec_int :: "int \<Rightarrow> string" where
  "dec_int i = (if i < 0 then CHR ''-'' # dec_nat (nat (- i)) else dec_nat (nat i))"

definition zpad :: "nat \<Rightarrow> nat \<Rightarrow> string" where
  "zpad w n = replicate (w - length (dec_nat n)) CHR ''0'' @ dec_nat n"

lemma digit_val_char [simp]: "d < 10 \<Longrightarrow> digit_val (digit_char d) = d"
  by (simp add: digit_val_def digit_char_def)

lemma digit_char_zero: "digit_char 0 = CHR ''0''"
  by code_simp

lemma is_digit_char [simp]: "d < 10 \<Longrightarrow> is_digit (digit_char d)"
  by (simp add: is_digit_def digit_char_def)

lemma digit_char_val: "is_digit c \<Longrightarrow> digit_char (digit_val c) = c"
  by (auto simp: is_digit_def digit_char_def digit_val_def Let_def)

lemma digit_val_less: "is_digit c \<Longrightarrow> digit_val c < 10"
  by (auto simp: is_digit_def digit_val_def Let_def)

lemma dec_val_snoc [simp]: "dec_val (s @ [c]) = dec_val s * 10 + digit_val c"
  by (simp add: dec_val_def)

lemma dec_val_Nil [simp]: "dec_val [] = 0"
  by (simp add: dec_val_def)

lemma dec_val_singleton [simp]: "dec_val [c] = digit_val c"
  by (simp add: dec_val_def)

lemma dec_val_dec_nat [simp]: "dec_val (dec_nat n) = n"
proof (induction n rule: dec_nat.induct)
  case (1 n)
  show ?case
  proof (cases "n < 10")
    case True
    then show ?thesis by (simp add: dec_nat.simps [of n])
  next
    case False
    with "1.IH" show ?thesis by (simp add: dec_nat.simps [of n])
  qed
qed

lemma dec_nat_inject [simp]: "dec_nat m = dec_nat n \<longleftrightarrow> m = n"
  by (metis dec_val_dec_nat)

lemma dec_nat_nonempty [simp]: "dec_nat n \<noteq> []"
  by (subst dec_nat.simps) simp

lemma dec_nat_digits: "list_all is_digit (dec_nat n)"
proof (induction n rule: dec_nat.induct)
  case (1 n)
  then show ?case by (cases "n < 10") (simp_all add: dec_nat.simps [of n])
qed

lemma dec_nat_hd: "0 < n \<Longrightarrow> hd (dec_nat n) \<noteq> CHR ''0''"
proof (induction n rule: dec_nat.induct)
  case (1 n)
  show ?case
  proof (cases "n < 10")
    case True
    have "digit_char n = CHR ''0'' \<Longrightarrow> n = 0"
      using True digit_val_char [of n] by (simp add: digit_val_def)
    with True "1.prems" show ?thesis by (auto simp: dec_nat.simps [of n])
  next
    case False
    with "1.IH" show ?thesis by (simp add: dec_nat.simps [of n])
  qed
qed

lemma dec_nat_length: "n < 10 ^ w \<Longrightarrow> 0 < w \<Longrightarrow> length (dec_nat n) \<le> w"
proof (induction n arbitrary: w rule: dec_nat.induct)
  case (1 n)
  show ?case
  proof (cases "n < 10")
    case True
    with "1.prems" show ?thesis by (simp add: dec_nat.simps [of n])
  next
    case False
    from False "1.prems" obtain v where w: "w = Suc v" "0 < v"
      by (cases w) (auto simp: not_less, metis One_nat_def Suc_leI leD power_0 mult.right_neutral
        bot_nat_0.not_eq_extremum power_Suc)
    with "1.prems" have "n div 10 < 10 ^ v" by (simp add: less_mult_imp_div_less mult.commute)
    with False "1.IH" [of v] w show ?thesis by (simp add: dec_nat.simps [of n])
  qed
qed

text \<open>A digit string without a leading zero is the decimal form of its value.\<close>

lemma dec_val_pos: "list_all is_digit s \<Longrightarrow> s \<noteq> [] \<Longrightarrow> hd s \<noteq> CHR ''0'' \<Longrightarrow> 0 < dec_val s"
proof (induction s rule: rev_induct)
  case (snoc c s)
  show ?case
  proof (cases "s = []")
    case True
    with snoc.prems have c: "is_digit c" "c \<noteq> CHR ''0''" by auto
    have "digit_val c \<noteq> 0"
    proof
      assume "digit_val c = 0"
      then have "c = digit_char 0" using digit_char_val [OF c(1)] by simp
      then show False using c(2) by (simp add: digit_char_zero)
    qed
    with True show ?thesis by simp
  next
    case False
    with snoc show ?thesis by simp
  qed
qed simp

end
