(* ===== verification/Lifecycle.thy ===== *)
theory Lifecycle
  imports Prelude
begin

text \<open>
  The lifecycle tables of \<open>src/src/ato_service/lifecycle_transitions.py\<close> and the disposition
  guards of \<open>disposition_transitions.py\<close>. The locale \<open>lifecycle\<close> states what a transition table
  promises (only nonterminal states move, every step descends a rank, no nonterminal state is
  stuck); it is interpreted on the two tables of the code, and a client's facts about whole
  histories (bounded length, no return, completion) come from it.
\<close>

section \<open>States and conditions\<close>

datatype package_revision_status =
    PR_UPLOADING | PR_SCANNING | PR_EXTRACTING | PR_AWAITING_CONFIRMATION | PR_READY
  | PR_INVALID | PR_QUARANTINED | PR_ARCHIVED

datatype package_revision_condition =
    NORMAL_PROGRESSION | INVALID_CUSTOMER_INPUT_BEFORE_SCAN | INVALID_CONTENT_NOT_MALWARE
  | INVALID_EXTRACTION_OR_REFERENCE | MALWARE_SCANNER_INFECTED | AUTHORIZED_ARCHIVE

datatype analysis_run_status =
    AR_QUEUED | AR_RUNNING | AR_SUCCEEDED | AR_FAILED | AR_CANCELLED | AR_POLICY_BLOCKED

datatype analysis_run_condition =
    WORKER_CLAIMED | OUTPUTS_COMMITTED | AUTHORIZED_CANCELLATION
  | POLICY_DENIED_BEFORE_EXECUTION | POLICY_DENIED_BEFORE_MODEL | RUN_FAILED

fun package_revision_status_value :: "package_revision_status \<Rightarrow> string" where
  "package_revision_status_value PR_UPLOADING = ''uploading''"
| "package_revision_status_value PR_SCANNING = ''scanning''"
| "package_revision_status_value PR_EXTRACTING = ''extracting''"
| "package_revision_status_value PR_AWAITING_CONFIRMATION = ''awaiting_confirmation''"
| "package_revision_status_value PR_READY = ''ready''"
| "package_revision_status_value PR_INVALID = ''invalid''"
| "package_revision_status_value PR_QUARANTINED = ''quarantined''"
| "package_revision_status_value PR_ARCHIVED = ''archived''"

fun package_revision_condition_value :: "package_revision_condition \<Rightarrow> string" where
  "package_revision_condition_value NORMAL_PROGRESSION = ''normal_progression''"
| "package_revision_condition_value INVALID_CUSTOMER_INPUT_BEFORE_SCAN =
     ''invalid_customer_input_before_scan''"
| "package_revision_condition_value INVALID_CONTENT_NOT_MALWARE = ''invalid_content_not_malware''"
| "package_revision_condition_value INVALID_EXTRACTION_OR_REFERENCE =
     ''invalid_extraction_or_reference''"
| "package_revision_condition_value MALWARE_SCANNER_INFECTED = ''malware_scanner_infected''"
| "package_revision_condition_value AUTHORIZED_ARCHIVE = ''authorized_archive''"

fun analysis_run_status_value :: "analysis_run_status \<Rightarrow> string" where
  "analysis_run_status_value AR_QUEUED = ''queued''"
| "analysis_run_status_value AR_RUNNING = ''running''"
| "analysis_run_status_value AR_SUCCEEDED = ''succeeded''"
| "analysis_run_status_value AR_FAILED = ''failed''"
| "analysis_run_status_value AR_CANCELLED = ''cancelled''"
| "analysis_run_status_value AR_POLICY_BLOCKED = ''policy_blocked''"

fun analysis_run_condition_value :: "analysis_run_condition \<Rightarrow> string" where
  "analysis_run_condition_value WORKER_CLAIMED = ''worker_claimed''"
| "analysis_run_condition_value OUTPUTS_COMMITTED = ''outputs_committed''"
| "analysis_run_condition_value AUTHORIZED_CANCELLATION = ''authorized_cancellation''"
| "analysis_run_condition_value POLICY_DENIED_BEFORE_EXECUTION = ''policy_denied_before_execution''"
| "analysis_run_condition_value POLICY_DENIED_BEFORE_MODEL = ''policy_denied_before_model''"
| "analysis_run_condition_value RUN_FAILED = ''run_failed''"

section \<open>The tables\<close>

definition package_revision_terminal :: "package_revision_status list" where
  "package_revision_terminal = [PR_INVALID, PR_QUARANTINED, PR_ARCHIVED]"

definition analysis_run_terminal :: "analysis_run_status list" where
  "analysis_run_terminal = [AR_SUCCEEDED, AR_FAILED, AR_CANCELLED, AR_POLICY_BLOCKED]"

definition legal_package_revision_transitions ::
  "(package_revision_status \<times> package_revision_status \<times> package_revision_condition) list" where
  "legal_package_revision_transitions =
    [(PR_UPLOADING, PR_SCANNING, NORMAL_PROGRESSION),
     (PR_SCANNING, PR_EXTRACTING, NORMAL_PROGRESSION),
     (PR_EXTRACTING, PR_AWAITING_CONFIRMATION, NORMAL_PROGRESSION),
     (PR_AWAITING_CONFIRMATION, PR_READY, NORMAL_PROGRESSION),
     (PR_UPLOADING, PR_INVALID, INVALID_CUSTOMER_INPUT_BEFORE_SCAN),
     (PR_SCANNING, PR_INVALID, INVALID_CONTENT_NOT_MALWARE),
     (PR_EXTRACTING, PR_INVALID, INVALID_EXTRACTION_OR_REFERENCE),
     (PR_SCANNING, PR_QUARANTINED, MALWARE_SCANNER_INFECTED),
     (PR_UPLOADING, PR_ARCHIVED, AUTHORIZED_ARCHIVE),
     (PR_SCANNING, PR_ARCHIVED, AUTHORIZED_ARCHIVE),
     (PR_EXTRACTING, PR_ARCHIVED, AUTHORIZED_ARCHIVE),
     (PR_AWAITING_CONFIRMATION, PR_ARCHIVED, AUTHORIZED_ARCHIVE),
     (PR_READY, PR_ARCHIVED, AUTHORIZED_ARCHIVE)]"

definition legal_analysis_run_transitions ::
  "(analysis_run_status \<times> analysis_run_status \<times> analysis_run_condition) list" where
  "legal_analysis_run_transitions =
    [(AR_QUEUED, AR_RUNNING, WORKER_CLAIMED),
     (AR_RUNNING, AR_SUCCEEDED, OUTPUTS_COMMITTED),
     (AR_QUEUED, AR_CANCELLED, AUTHORIZED_CANCELLATION),
     (AR_RUNNING, AR_CANCELLED, AUTHORIZED_CANCELLATION),
     (AR_QUEUED, AR_POLICY_BLOCKED, POLICY_DENIED_BEFORE_EXECUTION),
     (AR_RUNNING, AR_POLICY_BLOCKED, POLICY_DENIED_BEFORE_MODEL),
     (AR_RUNNING, AR_FAILED, RUN_FAILED)]"

definition package_revision_status_is_terminal :: "package_revision_status \<Rightarrow> bool" where
  "package_revision_status_is_terminal s = (s \<in> set package_revision_terminal)"

definition analysis_run_status_is_terminal :: "analysis_run_status \<Rightarrow> bool" where
  "analysis_run_status_is_terminal s = (s \<in> set analysis_run_terminal)"

definition is_legal_package_revision_transition ::
  "package_revision_status \<Rightarrow> package_revision_status \<Rightarrow> package_revision_condition \<Rightarrow> bool" where
  "is_legal_package_revision_transition current target condition =
     ((current, target, condition) \<in> set legal_package_revision_transitions)"

definition is_legal_analysis_run_transition ::
  "analysis_run_status \<Rightarrow> analysis_run_status \<Rightarrow> analysis_run_condition \<Rightarrow> bool" where
  "is_legal_analysis_run_transition current target condition =
     ((current, target, condition) \<in> set legal_analysis_run_transitions)"

text \<open>The exception carries the values of the two states and of the condition.\<close>

datatype illegal_state_transition = IllegalStateTransition string string "string option"

definition require_package_revision_transition ::
  "package_revision_status \<Rightarrow> package_revision_status \<Rightarrow> package_revision_condition
    \<Rightarrow> illegal_state_transition + unit" where
  "require_package_revision_transition current target condition =
     (if is_legal_package_revision_transition current target condition then Inr ()
      else Inl (IllegalStateTransition (package_revision_status_value current)
        (package_revision_status_value target)
        (Some (package_revision_condition_value condition))))"

definition require_analysis_run_transition ::
  "analysis_run_status \<Rightarrow> analysis_run_status \<Rightarrow> analysis_run_condition
    \<Rightarrow> illegal_state_transition + unit" where
  "require_analysis_run_transition current target condition =
     (if is_legal_analysis_run_transition current target condition then Inr ()
      else Inl (IllegalStateTransition (analysis_run_status_value current)
        (analysis_run_status_value target)
        (Some (analysis_run_condition_value condition))))"

text \<open>\<open>IllegalStateTransitionError.__str__\<close>; the states are quoted by \<open>repr\<close>, here on plain words.\<close>

fun illegal_state_transition_str :: "illegal_state_transition \<Rightarrow> string" where
  "illegal_state_transition_str (IllegalStateTransition c t None) =
     ''illegal transition from '' @ [char_of (39::nat)] @ c @ [char_of (39::nat)] @ '' to ''
       @ [char_of (39::nat)] @ t @ [char_of (39::nat)]"
| "illegal_state_transition_str (IllegalStateTransition c t (Some k)) =
     ''illegal transition from '' @ [char_of (39::nat)] @ c @ [char_of (39::nat)] @ '' to ''
       @ [char_of (39::nat)] @ t @ [char_of (39::nat)] @ '' with condition ''
       @ [char_of (39::nat)] @ k @ [char_of (39::nat)]"

section \<open>Histories of a lifecycle\<close>

text \<open>A history is the list of states entered, each with the condition it was entered under.\<close>

fun legal_history :: "('s \<Rightarrow> 's \<Rightarrow> 'c \<Rightarrow> bool) \<Rightarrow> 's \<Rightarrow> ('s \<times> 'c) list \<Rightarrow> bool" where
  "legal_history legal s [] = True"
| "legal_history legal s ((t, c) # h) = (legal s t c \<and> legal_history legal t h)"

fun history_end :: "'s \<Rightarrow> ('s \<times> 'c) list \<Rightarrow> 's" where
  "history_end s [] = s"
| "history_end s ((t, c) # h) = history_end t h"

locale lifecycle =
  fixes legal :: "'s \<Rightarrow> 's \<Rightarrow> 'c \<Rightarrow> bool"
    and terminal :: "'s \<Rightarrow> bool"
    and rank :: "'s \<Rightarrow> nat"
  assumes terminal_rests: "legal s t c \<Longrightarrow> \<not> terminal s"
    and rank_descends: "legal s t c \<Longrightarrow> rank t < rank s"
    and nonterminal_moves: "\<not> terminal s \<Longrightarrow> \<exists>t c. legal s t c"
begin

lemma history_rank: "legal_history legal s h \<Longrightarrow> rank (history_end s h) + length h \<le> rank s"
proof (induction h arbitrary: s)
  case (Cons p h)
  obtain t c where "p = (t, c)" by (cases p)
  with Cons.IH [of t] Cons.prems rank_descends [of s t c] show ?case by simp
qed simp

lemma history_bounded: "legal_history legal s h \<Longrightarrow> length h \<le> rank s"
  using history_rank [of s h] by simp

lemma history_no_return: "legal_history legal s h \<Longrightarrow> h \<noteq> [] \<Longrightarrow> history_end s h \<noteq> s"
  using history_rank [of s h] by (cases h) auto

lemma terminal_history: "terminal s \<Longrightarrow> legal_history legal s h \<Longrightarrow> h = []"
  using terminal_rests by (cases h) auto

lemma history_completes: "\<exists>h. legal_history legal s h \<and> terminal (history_end s h)"
proof (induction "rank s" arbitrary: s rule: less_induct)
  case less
  show ?case
  proof (cases "terminal s")
    case True
    then show ?thesis by (intro exI [of _ "[]"]) simp
  next
    case False
    then obtain t c where step: "legal s t c" using nonterminal_moves by blast
    from less [OF rank_descends [OF step]] obtain h
      where "legal_history legal t h" "terminal (history_end t h)" by blast
    with step show ?thesis by (intro exI [of _ "(t, c) # h"]) simp
  qed
qed

end

text \<open>The ranks: how many steps a package revision or a run can still take.\<close>

fun package_revision_rank :: "package_revision_status \<Rightarrow> nat" where
  "package_revision_rank PR_UPLOADING = 5"
| "package_revision_rank PR_SCANNING = 4"
| "package_revision_rank PR_EXTRACTING = 3"
| "package_revision_rank PR_AWAITING_CONFIRMATION = 2"
| "package_revision_rank PR_READY = 1"
| "package_revision_rank _ = 0"

fun analysis_run_rank :: "analysis_run_status \<Rightarrow> nat" where
  "analysis_run_rank AR_QUEUED = 2"
| "analysis_run_rank AR_RUNNING = 1"
| "analysis_run_rank _ = 0"

lemmas package_revision_table = is_legal_package_revision_transition_def
  legal_package_revision_transitions_def package_revision_status_is_terminal_def
  package_revision_terminal_def

lemmas analysis_run_table = is_legal_analysis_run_transition_def
  legal_analysis_run_transitions_def analysis_run_status_is_terminal_def analysis_run_terminal_def

interpretation pr: lifecycle is_legal_package_revision_transition
  package_revision_status_is_terminal package_revision_rank
proof unfold_locales
  fix s t c
  assume "is_legal_package_revision_transition s t c"
  then show "\<not> package_revision_status_is_terminal s"
    and "package_revision_rank t < package_revision_rank s"
    by (auto simp: package_revision_table)
next
  fix s
  assume "\<not> package_revision_status_is_terminal s"
  then show "\<exists>t c. is_legal_package_revision_transition s t c"
    by (cases s) (auto simp: package_revision_table)
qed

interpretation ar: lifecycle is_legal_analysis_run_transition
  analysis_run_status_is_terminal analysis_run_rank
proof unfold_locales
  fix s t c
  assume "is_legal_analysis_run_transition s t c"
  then show "\<not> analysis_run_status_is_terminal s"
    and "analysis_run_rank t < analysis_run_rank s"
    by (auto simp: analysis_run_table)
next
  fix s
  assume "\<not> analysis_run_status_is_terminal s"
  then show "\<exists>t c. is_legal_analysis_run_transition s t c"
    by (cases s) (auto simp: analysis_run_table)
qed

text \<open>Inversions of the tables by the state entered.\<close>

lemma into_ready:
  "is_legal_package_revision_transition s PR_READY c \<longleftrightarrow>
    s = PR_AWAITING_CONFIRMATION \<and> c = NORMAL_PROGRESSION"
  by (auto simp: package_revision_table)

lemma into_awaiting:
  "is_legal_package_revision_transition s PR_AWAITING_CONFIRMATION c \<longleftrightarrow>
    s = PR_EXTRACTING \<and> c = NORMAL_PROGRESSION"
  by (auto simp: package_revision_table)

lemma into_extracting:
  "is_legal_package_revision_transition s PR_EXTRACTING c \<longleftrightarrow>
    s = PR_SCANNING \<and> c = NORMAL_PROGRESSION"
  by (auto simp: package_revision_table)

lemma into_scanning:
  "is_legal_package_revision_transition s PR_SCANNING c \<longleftrightarrow>
    s = PR_UPLOADING \<and> c = NORMAL_PROGRESSION"
  by (auto simp: package_revision_table)

lemma into_quarantined:
  "is_legal_package_revision_transition s PR_QUARANTINED c \<longleftrightarrow>
    s = PR_SCANNING \<and> c = MALWARE_SCANNER_INFECTED"
  by (auto simp: package_revision_table)

lemma not_into_uploading: "\<not> is_legal_package_revision_transition s PR_UPLOADING c"
  by (auto simp: package_revision_table)

lemma from_revision_terminal:
  "\<not> is_legal_package_revision_transition PR_INVALID t c"
  "\<not> is_legal_package_revision_transition PR_QUARANTINED t c"
  "\<not> is_legal_package_revision_transition PR_ARCHIVED t c"
  by (auto simp: package_revision_table)

lemma from_ready:
  "is_legal_package_revision_transition PR_READY t c \<longleftrightarrow> t = PR_ARCHIVED \<and> c = AUTHORIZED_ARCHIVE"
  by (auto simp: package_revision_table)

lemmas package_revision_entries =
  into_ready into_awaiting into_extracting into_scanning into_quarantined not_into_uploading

lemma legal_history_snoc:
  "legal_history legal s (h @ [(t, c)]) \<longleftrightarrow>
    legal_history legal s h \<and> legal (history_end s h) t c"
  by (induction h arbitrary: s) auto

lemma history_end_snoc [simp]: "history_end s (h @ [(t, c)]) = t"
  by (induction h arbitrary: s) auto

lemma history_last:
  "h \<noteq> [] \<Longrightarrow> legal_history legal s h \<Longrightarrow>
    \<exists>h' c. h = h' @ [(history_end s h, c)] \<and> legal_history legal s h' \<and>
      legal (history_end s h') (history_end s h) c"
  by (induction h rule: rev_induct) (auto simp: legal_history_snoc)

lemma history_to_uploading:
  "legal_history is_legal_package_revision_transition s h \<Longrightarrow> history_end s h = PR_UPLOADING \<Longrightarrow>
    h = []"
  using history_last [of h] not_into_uploading by fastforce

text \<open>
  Each forward stage has one entry, so the history of a revision that reached it is determined.
\<close>

lemma history_to_stage:
  assumes "legal_history is_legal_package_revision_transition PR_UPLOADING h"
  shows "history_end PR_UPLOADING h = PR_SCANNING \<Longrightarrow> h = [(PR_SCANNING, NORMAL_PROGRESSION)]"
    and "history_end PR_UPLOADING h = PR_EXTRACTING \<Longrightarrow>
      h = [(PR_SCANNING, NORMAL_PROGRESSION), (PR_EXTRACTING, NORMAL_PROGRESSION)]"
    and "history_end PR_UPLOADING h = PR_AWAITING_CONFIRMATION \<Longrightarrow>
      h = [(PR_SCANNING, NORMAL_PROGRESSION), (PR_EXTRACTING, NORMAL_PROGRESSION),
        (PR_AWAITING_CONFIRMATION, NORMAL_PROGRESSION)]"
proof -
  have scan: "h = [(PR_SCANNING, NORMAL_PROGRESSION)]"
    if "legal_history is_legal_package_revision_transition PR_UPLOADING h"
      "history_end PR_UPLOADING h = PR_SCANNING" for h
    using that history_last [of h is_legal_package_revision_transition PR_UPLOADING]
      history_to_uploading [of PR_UPLOADING] by (cases "h = []") (auto simp: into_scanning)
  have ext: "h = [(PR_SCANNING, NORMAL_PROGRESSION), (PR_EXTRACTING, NORMAL_PROGRESSION)]"
    if "legal_history is_legal_package_revision_transition PR_UPLOADING h"
      "history_end PR_UPLOADING h = PR_EXTRACTING" for h
    using that history_last [of h is_legal_package_revision_transition PR_UPLOADING] scan
    by (cases "h = []") (auto simp: into_extracting)
  show "history_end PR_UPLOADING h = PR_SCANNING \<Longrightarrow> h = [(PR_SCANNING, NORMAL_PROGRESSION)]"
    by (rule scan [OF assms])
  show "history_end PR_UPLOADING h = PR_EXTRACTING \<Longrightarrow>
      h = [(PR_SCANNING, NORMAL_PROGRESSION), (PR_EXTRACTING, NORMAL_PROGRESSION)]"
    by (rule ext [OF assms])
  show "history_end PR_UPLOADING h = PR_AWAITING_CONFIRMATION \<Longrightarrow>
      h = [(PR_SCANNING, NORMAL_PROGRESSION), (PR_EXTRACTING, NORMAL_PROGRESSION),
        (PR_AWAITING_CONFIRMATION, NORMAL_PROGRESSION)]"
    using assms history_last [of h is_legal_package_revision_transition PR_UPLOADING] ext
    by (cases "h = []") (auto simp: into_awaiting)
qed

section \<open>Disposition guards\<close>

datatype disposition_error = DispositionTransitionError string string

definition disposition_decisions :: "string list" where
  "disposition_decisions = [''pending'', ''accepted'', ''edited'', ''rejected'',
     ''evidence_requested'', ''weakness_confirmed'']"

definition require_review_disposition_mutable :: "string \<Rightarrow> disposition_error + unit" where
  "require_review_disposition_mutable review_status =
     (if review_status \<noteq> ''draft''
      then Inl (DispositionTransitionError ''illegal_state_transition''
        ''review revision is not in draft status'')
      else Inr ())"

definition require_disposition_decision :: "string \<Rightarrow> disposition_error + string" where
  "require_disposition_decision decision =
     (if decision \<notin> set disposition_decisions
      then Inl (DispositionTransitionError ''request_schema_invalid''
        ''disposition decision is not supported'')
      else Inr decision)"

definition require_edited_summary_for_edited ::
  "string \<Rightarrow> string option \<Rightarrow> disposition_error + unit" where
  "require_edited_summary_for_edited decision edited_summary =
     (if decision = ''edited'' \<and> (edited_summary = None \<or> edited_summary = Some [])
      then Inl (DispositionTransitionError ''request_schema_invalid''
        ''edited disposition requires edited_summary'')
      else Inr ())"

definition require_decision_compatible_with_matrix_status ::
  "string \<Rightarrow> string \<Rightarrow> disposition_error + unit" where
  "require_decision_compatible_with_matrix_status decision system_status =
     (if decision = ''evidence_requested'' \<and> system_status \<noteq> ''insufficient_evidence''
      then Inl (DispositionTransitionError ''request_schema_invalid''
        ''evidence_requested is allowed only for insufficient_evidence rows'')
      else if decision = ''weakness_confirmed'' \<and>
        system_status \<notin> set [''partial'', ''unsupported'']
      then Inl (DispositionTransitionError ''request_schema_invalid''
        ''weakness_confirmed is allowed only for partial or unsupported rows'')
      else Inr ())"

end
