(* ===== verification/Jobs.thy ===== *)
theory Jobs
  imports Lifecycle
begin

text \<open>
  The lease-safe job queue of \<open>src/src/ato_service/jobs.py\<close> over the tables of
  \<open>db/models.py\<close> (\<open>Job\<close>, \<open>JobAttempt\<close>, the columns of \<open>AnalysisRun\<close> the queue touches, the
  keys of completed run steps). An operation is a function from the tables to an error or to the
  new tables: an exception leaves the transaction to the caller's \<open>session_scope\<close>, which rolls
  it back, so an \<open>Inl\<close> carries no tables. Rows another transaction holds locked are a
  parameter of the two operations that read with \<open>SKIP LOCKED\<close>.
\<close>

section \<open>Rows and tables\<close>

datatype job_status =
  JS_AVAILABLE | JS_LEASED | JS_COMPLETED | JS_FAILED | JS_RECONCILIATION_REQUIRED

datatype job_attempt_status = JA_ACTIVE | JA_SUCCEEDED | JA_FAILED

record job =
  job_id :: uuid
  job_run_id :: uuid
  job_step_key :: string
  step_idempotent :: bool
  job_status :: job_status
  attempt_count :: int
  available_at :: instant
  lease_owner :: "string option"
  lease_expires_at :: "instant option"
  heartbeat_at :: "instant option"
  last_error_code :: "string option"

record job_attempt =
  attempt_id :: uuid
  attempt_job_id :: uuid
  attempt_run_id :: uuid
  attempt_step_key :: string
  attempt_number :: int
  attempt_status :: job_attempt_status
  attempt_lease_owner :: string
  attempt_started_at :: instant
  attempt_completed_at :: "instant option"
  attempt_error_code :: "string option"
  attempt_error_retryable :: "bool option"

record analysis_run =
  run_id :: uuid
  run_status :: analysis_run_status
  run_started_at :: "instant option"
  run_completed_at :: "instant option"
  run_error_code :: "string option"
  run_error_retryable :: "bool option"
  llm_call_count :: int

record job_db =
  jobs :: "job list"
  attempts :: "job_attempt list"
  runs :: "analysis_run list"
  run_steps :: "(uuid \<times> string) list"

record claimed_job =
  claimed_row :: job
  claimed_attempt :: job_attempt
  run_started :: bool

datatype job_error =
    JobValueError string
  | JobLeaseLostError uuid
  | JobInvariantError string
  | JobIllegalTransition illegal_state_transition

definition ERROR_JOB_LEASE_LOST :: string where
  "ERROR_JOB_LEASE_LOST = ''job_lease_lost''"

definition ERROR_DEPENDENCY_ATTEMPTS_EXHAUSTED :: string where
  "ERROR_DEPENDENCY_ATTEMPTS_EXHAUSTED = ''dependency_attempts_exhausted''"

definition ERROR_RUN_DEADLINE_EXCEEDED :: string where
  "ERROR_RUN_DEADLINE_EXCEEDED = ''run_deadline_exceeded''"

section \<open>Argument checks\<close>

fun require_aware_utc :: "datetime \<Rightarrow> string \<Rightarrow> job_error + instant" where
  "require_aware_utc (Naive t) field_name =
     Inl (JobValueError (field_name @ '' must be a timezone-aware datetime''))"
| "require_aware_utc (Aware t) field_name = Inr t"

definition require_positive_int :: "int \<Rightarrow> string \<Rightarrow> job_error + int" where
  "require_positive_int n field_name =
     (if n < 1 then Inl (JobValueError (field_name @ '' must be positive'')) else Inr n)"

definition require_lease_owner :: "string \<Rightarrow> job_error + string" where
  "require_lease_owner owner =
     (if owner = [] \<or> 255 < length owner
      then Inl (JobValueError ''lease_owner must be between 1 and 255 characters'')
      else Inr owner)"

text \<open>The pattern \<open>^[a-z][a-z0-9_]{2,127}$\<close>.\<close>

definition error_code_pattern :: "string \<Rightarrow> bool" where
  "error_code_pattern = head_tail_match is_lower
     (\<lambda>c. is_lower c \<or> is_digit c \<or> c = CHR ''_'') 2 127"

definition require_error_code :: "string \<Rightarrow> job_error + string" where
  "require_error_code code =
     (if \<not> error_code_pattern code
      then Inl (JobValueError ''error_code must match the stable error-code pattern'')
      else Inr code)"

definition lease_is_expired :: "instant option \<Rightarrow> instant \<Rightarrow> bool" where
  "lease_is_expired expires now = (case expires of None \<Rightarrow> True | Some t \<Rightarrow> t \<le> now)"

definition deadline_allows_retry :: "instant \<Rightarrow> instant option \<Rightarrow> bool" where
  "deadline_allows_retry now deadline = (case deadline of None \<Rightarrow> True | Some d \<Rightarrow> now < d)"

definition validate_retry_schedule ::
  "instant \<Rightarrow> datetime option \<Rightarrow> instant option \<Rightarrow> job_error + instant" where
  "validate_retry_schedule now next_available_at deadline =
     (case next_available_at of
        None \<Rightarrow> Inl (JobValueError ''next_available_at is required for a retryable failure'')
      | Some next \<Rightarrow>
          bindR (require_aware_utc next ''next_available_at'') (\<lambda>validated.
          if validated < now
          then Inl (JobValueError ''next_available_at must not be before now'')
          else if (case deadline of None \<Rightarrow> False | Some d \<Rightarrow> d \<le> validated)
          then Inl (JobValueError ''next_available_at must be strictly before run_deadline_at'')
          else Inr validated))"

definition terminal_run_error_code :: "string \<Rightarrow> bool \<Rightarrow> bool \<Rightarrow> bool \<Rightarrow> string" where
  "terminal_run_error_code code transport_retryable can_reclaim deadline_allows =
     (if transport_retryable \<and> \<not> can_reclaim then ERROR_DEPENDENCY_ATTEMPTS_EXHAUSTED
      else if transport_retryable \<and> \<not> deadline_allows then ERROR_RUN_DEADLINE_EXCEEDED
      else code)"

section \<open>Lease fields\<close>

definition clear_lease_fields :: "job \<Rightarrow> job" where
  "clear_lease_fields j = j\<lparr>lease_owner := None, lease_expires_at := None, heartbeat_at := None\<rparr>"

definition set_lease_fields :: "string \<Rightarrow> instant \<Rightarrow> int \<Rightarrow> job \<Rightarrow> job" where
  "set_lease_fields owner now lease_seconds j =
     j\<lparr>lease_owner := Some owner, lease_expires_at := Some (now + 1000000 * lease_seconds),
       heartbeat_at := Some now\<rparr>"

definition assert_valid_lease :: "job \<Rightarrow> string \<Rightarrow> instant \<Rightarrow> job_error + unit" where
  "assert_valid_lease j owner now =
     (if job_status j \<noteq> JS_LEASED \<or> lease_owner j \<noteq> Some owner
         \<or> lease_is_expired (lease_expires_at j) now
      then Inl (JobLeaseLostError (job_id j)) else Inr ())"

section \<open>Queries and updates\<close>

definition load_job :: "job_db \<Rightarrow> uuid \<Rightarrow> job option" where
  "load_job db i = find (\<lambda>j. job_id j = i) (jobs db)"

definition load_run :: "job_db \<Rightarrow> uuid \<Rightarrow> analysis_run option" where
  "load_run db i = find (\<lambda>r. run_id r = i) (runs db)"

definition load_active_attempt :: "job_db \<Rightarrow> uuid \<Rightarrow> job_attempt option" where
  "load_active_attempt db i =
     find (\<lambda>a. attempt_job_id a = i \<and> attempt_status a = JA_ACTIVE) (attempts db)"

definition has_completed_run_step :: "job_db \<Rightarrow> uuid \<Rightarrow> string \<Rightarrow> bool" where
  "has_completed_run_step db r k = ((r, k) \<in> set (run_steps db))"

definition upd_job :: "uuid \<Rightarrow> (job \<Rightarrow> job) \<Rightarrow> job_db \<Rightarrow> job_db" where
  "upd_job i f db = db\<lparr>jobs := update_where (\<lambda>j. job_id j = i) f (jobs db)\<rparr>"

definition upd_attempt :: "uuid \<Rightarrow> (job_attempt \<Rightarrow> job_attempt) \<Rightarrow> job_db \<Rightarrow> job_db" where
  "upd_attempt i f db = db\<lparr>attempts := update_where (\<lambda>a. attempt_id a = i) f (attempts db)\<rparr>"

definition upd_run :: "uuid \<Rightarrow> (analysis_run \<Rightarrow> analysis_run) \<Rightarrow> job_db \<Rightarrow> job_db" where
  "upd_run i f db = db\<lparr>runs := update_where (\<lambda>r. run_id r = i) f (runs db)\<rparr>"

definition eligible :: "job_db \<Rightarrow> instant \<Rightarrow> int \<Rightarrow> job \<Rightarrow> bool" where
  "eligible db now max_attempts j =
     (job_status j = JS_AVAILABLE \<and> available_at j \<le> now \<and> attempt_count j < max_attempts \<and>
      (case load_run db (job_run_id j) of
         None \<Rightarrow> False
       | Some r \<Rightarrow> run_status r = AR_QUEUED \<or> run_status r = AR_RUNNING) \<and>
      \<not> has_completed_run_step db (job_run_id j) (job_step_key j))"

definition claim_select :: "(uuid \<Rightarrow> bool) \<Rightarrow> job_db \<Rightarrow> instant \<Rightarrow> int \<Rightarrow> job option" where
  "claim_select locked db now max_attempts =
     (case sort_key (\<lambda>j. (available_at j, job_id j))
        (filter (\<lambda>j. eligible db now max_attempts j \<and> \<not> locked (job_id j)) (jobs db)) of
        [] \<Rightarrow> None | j # _ \<Rightarrow> Some j)"

definition recover_select :: "(uuid \<Rightarrow> bool) \<Rightarrow> job_db \<Rightarrow> instant \<Rightarrow> int \<Rightarrow> job list" where
  "recover_select locked db now batch_size =
     take (nat batch_size) (sort_key (\<lambda>j. (the (lease_expires_at j), job_id j))
       (filter (\<lambda>j. job_status j = JS_LEASED \<and> lease_expires_at j \<noteq> None \<and>
          the (lease_expires_at j) \<le> now \<and> \<not> locked (job_id j)) (jobs db)))"

section \<open>Run transitions\<close>

definition transition_run_to_failed ::
  "analysis_run \<Rightarrow> instant \<Rightarrow> string \<Rightarrow> job_error + analysis_run" where
  "transition_run_to_failed r now code =
     (if analysis_run_status_is_terminal (run_status r) then Inr r
      else case require_analysis_run_transition (run_status r) AR_FAILED RUN_FAILED of
        Inl e \<Rightarrow> Inl (JobIllegalTransition e)
      | Inr _ \<Rightarrow> Inr (r\<lparr>run_status := AR_FAILED, run_error_code := Some code,
          run_error_retryable := Some False, run_completed_at := Some now\<rparr>))"

definition transition_run_to_policy_blocked ::
  "analysis_run \<Rightarrow> instant \<Rightarrow> string \<Rightarrow> job_error + analysis_run" where
  "transition_run_to_policy_blocked r now code =
     (if analysis_run_status_is_terminal (run_status r) then Inr r
      else case require_analysis_run_transition (run_status r) AR_POLICY_BLOCKED
          (if run_status r = AR_QUEUED then POLICY_DENIED_BEFORE_EXECUTION
           else POLICY_DENIED_BEFORE_MODEL) of
        Inl e \<Rightarrow> Inl (JobIllegalTransition e)
      | Inr _ \<Rightarrow> Inr (r\<lparr>run_status := AR_POLICY_BLOCKED, run_error_code := Some code,
          run_error_retryable := Some False, run_completed_at := Some now, llm_call_count := 0\<rparr>))"

section \<open>Claim\<close>

definition start_run :: "instant \<Rightarrow> analysis_run \<Rightarrow> analysis_run" where
  "start_run now r = r\<lparr>run_status := AR_RUNNING,
     run_started_at := (case run_started_at r of None \<Rightarrow> Some now | Some t \<Rightarrow> Some t)\<rparr>"

definition lease_job :: "string \<Rightarrow> instant \<Rightarrow> int \<Rightarrow> job \<Rightarrow> job" where
  "lease_job owner now lease_seconds j =
     set_lease_fields owner now lease_seconds
       (j\<lparr>attempt_count := attempt_count j + 1, job_status := JS_LEASED\<rparr>)"

definition new_attempt :: "uuid \<Rightarrow> job \<Rightarrow> string \<Rightarrow> instant \<Rightarrow> job_attempt" where
  "new_attempt i j owner now =
     \<lparr>attempt_id = i, attempt_job_id = job_id j, attempt_run_id = job_run_id j,
      attempt_step_key = job_step_key j, attempt_number = attempt_count j + 1,
      attempt_status = JA_ACTIVE, attempt_lease_owner = owner, attempt_started_at = now,
      attempt_completed_at = None, attempt_error_code = None, attempt_error_retryable = None\<rparr>"

definition claim_next_eligible_job ::
  "(uuid \<Rightarrow> bool) \<Rightarrow> uuid \<Rightarrow> job_db \<Rightarrow> string \<Rightarrow> datetime \<Rightarrow> int \<Rightarrow> int
    \<Rightarrow> job_error + claimed_job option \<times> job_db" where
  "claim_next_eligible_job locked new_id db owner now_arg max_attempts lease_seconds =
     bindR (require_aware_utc now_arg ''now'') (\<lambda>now.
     bindR (require_positive_int max_attempts ''max_attempts'') (\<lambda>_.
     bindR (require_positive_int lease_seconds ''lease_seconds'') (\<lambda>_.
     bindR (require_lease_owner owner) (\<lambda>_.
     case claim_select locked db now max_attempts of
       None \<Rightarrow> Inr (None, db)
     | Some j \<Rightarrow>
         if max_attempts \<le> attempt_count j
         then Inl (JobInvariantError
           ''claim selected a job that exhausted the transport attempt budget'')
         else (case load_run db (job_run_id j) of
           None \<Rightarrow> Inl (JobInvariantError ''claim selected a job with a missing analysis run'')
         | Some r \<Rightarrow>
             if analysis_run_status_is_terminal (run_status r)
             then Inl (JobInvariantError ''claim selected a job whose analysis run is terminal'')
             else if has_completed_run_step db (job_run_id j) (job_step_key j)
             then Inl (JobInvariantError
               ''claim selected a job whose run step is already completed'')
             else
               let started = (run_status r = AR_QUEUED) in
               bindR (if started
                 then (case require_analysis_run_transition (run_status r) AR_RUNNING WORKER_CLAIMED of
                     Inl e \<Rightarrow> Inl (JobIllegalTransition e)
                   | Inr _ \<Rightarrow> Inr (upd_run (run_id r) (start_run now) db))
                 else Inr db) (\<lambda>db1.
               let db2 = upd_job (job_id j) (lease_job owner now lease_seconds) db1;
                   a = new_attempt new_id j owner now
               in Inr (Some \<lparr>claimed_row = lease_job owner now lease_seconds j,
                      claimed_attempt = a, run_started = started\<rparr>,
                    db2\<lparr>attempts := attempts db2 @ [a]\<rparr>)))))))"

section \<open>Heartbeat and completion\<close>

definition heartbeat_job ::
  "job_db \<Rightarrow> uuid \<Rightarrow> string \<Rightarrow> datetime \<Rightarrow> int \<Rightarrow> job_error + job_db" where
  "heartbeat_job db i owner now_arg lease_seconds =
     bindR (require_aware_utc now_arg ''now'') (\<lambda>now.
     bindR (require_positive_int lease_seconds ''lease_seconds'') (\<lambda>_.
     bindR (require_lease_owner owner) (\<lambda>_.
     case load_job db i of
       None \<Rightarrow> Inl (JobLeaseLostError i)
     | Some j \<Rightarrow>
         bindR (assert_valid_lease j owner now) (\<lambda>_.
         Inr (upd_job i (set_lease_fields owner now lease_seconds) db)))))"

definition succeed_attempt :: "instant \<Rightarrow> job_attempt \<Rightarrow> job_attempt" where
  "succeed_attempt now a = a\<lparr>attempt_status := JA_SUCCEEDED, attempt_completed_at := Some now,
     attempt_error_code := None, attempt_error_retryable := None\<rparr>"

definition complete_job :: "job_db \<Rightarrow> uuid \<Rightarrow> string \<Rightarrow> datetime \<Rightarrow> job_error + job_db" where
  "complete_job db i owner now_arg =
     bindR (require_aware_utc now_arg ''now'') (\<lambda>now.
     bindR (require_lease_owner owner) (\<lambda>_.
     case load_job db i of
       None \<Rightarrow> Inl (JobLeaseLostError i)
     | Some j \<Rightarrow>
         bindR (assert_valid_lease j owner now) (\<lambda>_.
         if \<not> has_completed_run_step db (job_run_id j) (job_step_key j)
         then Inl (JobInvariantError
           ''complete requires a completed run step in the same transaction'')
         else (case load_active_attempt db i of
           None \<Rightarrow> Inl (JobInvariantError ''complete requires an active job attempt'')
         | Some a \<Rightarrow>
             Inr (upd_job i (\<lambda>j. clear_lease_fields
                   (j\<lparr>job_status := JS_COMPLETED, last_error_code := None\<rparr>))
               (upd_attempt (attempt_id a) (succeed_attempt now) db))))))"

section \<open>Failure\<close>

definition fail_attempt :: "instant \<Rightarrow> string \<Rightarrow> bool \<Rightarrow> job_attempt \<Rightarrow> job_attempt" where
  "fail_attempt now code retryable a = a\<lparr>attempt_status := JA_FAILED,
     attempt_completed_at := Some now, attempt_error_code := Some code,
     attempt_error_retryable := Some retryable\<rparr>"

fun optional_aware_utc :: "datetime option \<Rightarrow> string \<Rightarrow> job_error + instant option" where
  "optional_aware_utc None field_name = Inr None"
| "optional_aware_utc (Some d) field_name =
     bindR (require_aware_utc d field_name) (\<lambda>t. Inr (Some t))"

definition record_job_failure ::
  "job_db \<Rightarrow> uuid \<Rightarrow> string \<Rightarrow> datetime \<Rightarrow> string \<Rightarrow> bool \<Rightarrow> int \<Rightarrow> datetime option
    \<Rightarrow> datetime option \<Rightarrow> job_error + job_db" where
  "record_job_failure db i owner now_arg code transport_retryable max_attempts
       deadline_arg next_available_at =
     bindR (require_aware_utc now_arg ''now'') (\<lambda>now.
     bindR (require_positive_int max_attempts ''max_attempts'') (\<lambda>_.
     bindR (require_error_code code) (\<lambda>_.
     bindR (require_lease_owner owner) (\<lambda>_.
     bindR (optional_aware_utc deadline_arg ''run_deadline_at'') (\<lambda>deadline.
     case load_job db i of
       None \<Rightarrow> Inl (JobLeaseLostError i)
     | Some j \<Rightarrow>
         bindR (assert_valid_lease j owner now) (\<lambda>_.
         case load_active_attempt db i of
           None \<Rightarrow> Inl (JobInvariantError ''record_job_failure requires an active job attempt'')
         | Some a \<Rightarrow>
             let can_reclaim = (attempt_count j < max_attempts);
                 deadline_allows = deadline_allows_retry now deadline;
                 should_retry = (transport_retryable \<and> can_reclaim \<and> deadline_allows)
             in if should_retry
                then bindR (validate_retry_schedule now next_available_at deadline) (\<lambda>next.
                  Inr (upd_job i (\<lambda>j. clear_lease_fields (j\<lparr>last_error_code := Some code,
                        job_status := JS_AVAILABLE, available_at := next\<rparr>))
                    (upd_attempt (attempt_id a) (fail_attempt now code transport_retryable) db)))
                else
                  let db1 = upd_job i (\<lambda>j. clear_lease_fields (j\<lparr>last_error_code := Some code,
                        job_status := JS_FAILED\<rparr>))
                    (upd_attempt (attempt_id a) (fail_attempt now code transport_retryable) db)
                  in (case load_run db1 (job_run_id j) of
                    None \<Rightarrow> Inl (JobInvariantError
                      ''record_job_failure requires the owning analysis run'')
                  | Some r \<Rightarrow>
                      if run_status r = AR_RUNNING
                      then bindR (transition_run_to_failed r now
                          (terminal_run_error_code code transport_retryable can_reclaim
                            deadline_allows)) (\<lambda>r'.
                        Inr (upd_run (run_id r) (\<lambda>_. r') db1))
                      else Inr db1)))))))"

section \<open>Recovery of expired leases\<close>

definition lease_loss :: "job \<Rightarrow> job" where
  "lease_loss j = clear_lease_fields (j\<lparr>last_error_code := Some ERROR_JOB_LEASE_LOST\<rparr>)"

definition set_job_status :: "job_status \<Rightarrow> job \<Rightarrow> job" where
  "set_job_status s j = j\<lparr>job_status := s\<rparr>"

definition recover_single_expired_job ::
  "job_db \<Rightarrow> job \<Rightarrow> instant \<Rightarrow> int \<Rightarrow> job_error + job_db" where
  "recover_single_expired_job db j now max_attempts =
     (if \<not> lease_is_expired (lease_expires_at j) now
      then Inl (JobInvariantError ''recover selected a job whose lease has not expired'')
      else
        let run = load_run db (job_run_id j);
            has_step = has_completed_run_step db (job_run_id j) (job_step_key j);
            attempt = load_active_attempt db (job_id j);
            db1 = (case attempt of
                None \<Rightarrow> db
              | Some a \<Rightarrow>
                  upd_attempt (attempt_id a) (fail_attempt now ERROR_JOB_LEASE_LOST True) db);
            finish = (\<lambda>s. upd_job (job_id j) (\<lambda>j. set_job_status s (lease_loss j)) db1)
        in if has_step then Inr (finish JS_RECONCILIATION_REQUIRED)
           else (case run of
             None \<Rightarrow> Inr (finish JS_RECONCILIATION_REQUIRED)
           | Some r \<Rightarrow>
               if analysis_run_status_is_terminal (run_status r)
               then (if run_status r = AR_SUCCEEDED then Inr (finish JS_RECONCILIATION_REQUIRED)
                     else Inr (finish JS_FAILED))
               else if attempt = None then Inr (finish JS_RECONCILIATION_REQUIRED)
               else if run_status r \<noteq> AR_RUNNING then Inr (finish JS_RECONCILIATION_REQUIRED)
               else if \<not> step_idempotent j then Inr (finish JS_RECONCILIATION_REQUIRED)
               else if max_attempts \<le> attempt_count j
               then bindR (transition_run_to_failed r now ERROR_DEPENDENCY_ATTEMPTS_EXHAUSTED)
                 (\<lambda>r'. Inr (upd_run (run_id r) (\<lambda>_. r') (finish JS_FAILED)))
               else Inr (upd_job (job_id j)
                 (\<lambda>j. (set_job_status JS_AVAILABLE (lease_loss j))\<lparr>available_at := now\<rparr>) db1)))"

text \<open>
  The loop of \<open>recover_expired_leases\<close>: each selected job is recovered in turn; one that is still
  leased afterwards raises.
\<close>

definition recover_next :: "instant \<Rightarrow> int \<Rightarrow> job_db \<times> uuid list \<Rightarrow> job
    \<Rightarrow> job_error + job_db \<times> uuid list" where
  "recover_next now max_attempts st j =
     bindR (recover_single_expired_job (fst st) j now max_attempts) (\<lambda>db'.
     if (case load_job db' (job_id j) of None \<Rightarrow> False | Some j' \<Rightarrow> job_status j' = JS_LEASED)
     then Inl (JobInvariantError ''recover left an expired job in leased status'')
     else Inr (db', snd st @ [job_id j]))"

definition recover_expired_leases ::
  "(uuid \<Rightarrow> bool) \<Rightarrow> job_db \<Rightarrow> datetime \<Rightarrow> int \<Rightarrow> int \<Rightarrow> job_error + job_db \<times> uuid list" where
  "recover_expired_leases locked db now_arg max_attempts batch_size =
     bindR (require_aware_utc now_arg ''now'') (\<lambda>now.
     bindR (require_positive_int max_attempts ''max_attempts'') (\<lambda>_.
     bindR (require_positive_int batch_size ''batch_size'') (\<lambda>_.
     foldR (recover_next now max_attempts) (db, []) (recover_select locked db now batch_size))))"

end
