(* ===== verification/JobInvariant.thy ===== *)
theory JobInvariant
  imports Jobs
begin

text \<open>
  The invariant of the job tables and the system whose steps are the operations of \<open>Jobs\<close> and
  what the rest of the service does to the same tables. A job is judged together with the list of
  its attempts: they are numbered from one, all but the last failed, and the status of the job
  decides the status of the last one. The constraints of \<open>db/models.py\<close> on the two tables are
  the predicates \<open>lease_fields_ok\<close> and \<open>attempt_fields_ok\<close>.
\<close>

section \<open>The invariant\<close>

definition lease_fields_ok :: "job \<Rightarrow> bool" where
  "lease_fields_ok j =
     ((job_status j = JS_LEASED \<and> lease_owner j \<noteq> None \<and> lease_owner j \<noteq> Some [] \<and>
       lease_expires_at j \<noteq> None \<and> heartbeat_at j \<noteq> None) \<or>
      (job_status j \<noteq> JS_LEASED \<and> lease_owner j = None \<and> lease_expires_at j = None \<and>
       heartbeat_at j = None))"

definition attempt_fields_ok :: "job_attempt \<Rightarrow> bool" where
  "attempt_fields_ok a =
     ((attempt_status a = JA_ACTIVE \<and> attempt_completed_at a = None \<and>
       attempt_error_code a = None \<and> attempt_error_retryable a = None) \<or>
      (attempt_status a = JA_SUCCEEDED \<and> attempt_completed_at a \<noteq> None \<and>
       attempt_error_code a = None \<and> attempt_error_retryable a = None) \<or>
      (attempt_status a = JA_FAILED \<and> attempt_completed_at a \<noteq> None \<and>
       attempt_error_code a \<noteq> None \<and> attempt_error_retryable a \<noteq> None))"

definition attempts_of :: "job_db \<Rightarrow> uuid \<Rightarrow> job_attempt list" where
  "attempts_of db i = filter (\<lambda>a. attempt_job_id a = i) (attempts db)"

fun last_attempt_status :: "job_status \<Rightarrow> job_attempt_status" where
  "last_attempt_status JS_LEASED = JA_ACTIVE"
| "last_attempt_status JS_COMPLETED = JA_SUCCEEDED"
| "last_attempt_status _ = JA_FAILED"

definition job_with_attempts_ok :: "int \<Rightarrow> job \<Rightarrow> job_attempt list \<Rightarrow> bool" where
  "job_with_attempts_ok M j as =
     (lease_fields_ok j \<and> list_all attempt_fields_ok as \<and>
      attempt_count j = int (length as) \<and> attempt_count j \<le> M \<and>
      (job_status j = JS_AVAILABLE \<longrightarrow> attempt_count j < M) \<and>
      map attempt_number as = map int [1..<Suc (length as)] \<and>
      list_all (\<lambda>a. attempt_run_id a = job_run_id j \<and> attempt_step_key a = job_step_key j) as \<and>
      list_all (\<lambda>a. attempt_status a = JA_FAILED) (butlast as) \<and>
      (if as = [] then job_status j \<noteq> JS_LEASED \<and> job_status j \<noteq> JS_COMPLETED
       else attempt_status (last as) = last_attempt_status (job_status j) \<and>
         (job_status j = JS_LEASED \<longrightarrow> lease_owner j = Some (attempt_lease_owner (last as)))))"

definition job_run_ok :: "job_db \<Rightarrow> job \<Rightarrow> bool" where
  "job_run_ok db j =
     (case load_run db (job_run_id j) of
        None \<Rightarrow> False | Some r \<Rightarrow> job_status j = JS_LEASED \<longrightarrow> run_status r \<noteq> AR_QUEUED)"

definition jobs_inv :: "int \<Rightarrow> job_db \<Rightarrow> bool" where
  "jobs_inv M db =
     (1 \<le> M \<and> distinct (map job_id (jobs db)) \<and> distinct (map attempt_id (attempts db)) \<and>
      distinct (map run_id (runs db)) \<and>
      (\<forall>a \<in> set (attempts db). attempt_job_id a \<in> job_id ` set (jobs db)) \<and>
      (\<forall>j \<in> set (jobs db). job_with_attempts_ok M j (attempts_of db (job_id j)) \<and> job_run_ok db j))"

section \<open>Lookups and updates\<close>

lemma upd_job_simps [simp]:
  "jobs (upd_job i f db) = update_where (\<lambda>j. job_id j = i) f (jobs db)"
  "attempts (upd_job i f db) = attempts db" "runs (upd_job i f db) = runs db"
  "run_steps (upd_job i f db) = run_steps db"
  by (simp_all add: upd_job_def)

lemma upd_attempt_simps [simp]:
  "attempts (upd_attempt i f db) = update_where (\<lambda>a. attempt_id a = i) f (attempts db)"
  "jobs (upd_attempt i f db) = jobs db" "runs (upd_attempt i f db) = runs db"
  "run_steps (upd_attempt i f db) = run_steps db"
  by (simp_all add: upd_attempt_def)

lemma upd_run_simps [simp]:
  "runs (upd_run i f db) = update_where (\<lambda>r. run_id r = i) f (runs db)"
  "jobs (upd_run i f db) = jobs db" "attempts (upd_run i f db) = attempts db"
  "run_steps (upd_run i f db) = run_steps db"
  by (simp_all add: upd_run_def)

lemma load_run_upd [simp]:
  "load_run (upd_job i f db) k = load_run db k" "load_run (upd_attempt i' g db) k = load_run db k"
  by (simp_all add: load_run_def)

lemma load_run_attempts [simp]: "load_run (db\<lparr>attempts := as\<rparr>) k = load_run db k"
  "load_run (db\<lparr>jobs := js\<rparr>) k = load_run db k"
  "load_run (db\<lparr>run_steps := rs\<rparr>) k = load_run db k"
  by (simp_all add: load_run_def)

lemma load_jobD: "load_job db i = Some j \<Longrightarrow> j \<in> set (jobs db) \<and> job_id j = i"
  by (auto simp: load_job_def dest: find_SomeD)

lemma load_runD: "load_run db i = Some r \<Longrightarrow> r \<in> set (runs db) \<and> run_id r = i"
  by (auto simp: load_run_def dest: find_SomeD)

lemma load_job_unique:
  "distinct (map job_id (jobs db)) \<Longrightarrow> j \<in> set (jobs db) \<Longrightarrow> load_job db (job_id j) = Some j"
  by (simp add: load_job_def find_unique)

lemma load_job_upd:
  "(\<And>j. job_id (f j) = job_id j) \<Longrightarrow> load_job (upd_job i f db) k =
     (if k = i then map_option f (load_job db k) else load_job db k)"
  by (simp add: load_job_def find_update_where_same find_update_where_other)

lemma load_run_upd_run:
  "(\<And>r. run_id (f r) = run_id r) \<Longrightarrow> load_run (upd_run i f db) k =
     (if k = i then map_option f (load_run db k) else load_run db k)"
  by (simp add: load_run_def find_update_where_same find_update_where_other)

lemma load_run_set_run:
  assumes "load_run db i = Some r" and "run_id r' = i"
  shows "load_run (upd_run i (\<lambda>_. r') db) k = (if k = i then Some r' else load_run db k)"
proof -
  have "find (\<lambda>x. run_id x = k) (update_where (\<lambda>x. run_id x = i) (\<lambda>_. r') rs) =
      (if k = i then map_option (\<lambda>_. r') (find (\<lambda>x. run_id x = i) rs) else
        find (\<lambda>x. run_id x = k) rs)" for rs
    using assms(2) by (induction rs) auto
  then show ?thesis using assms(1) by (simp add: load_run_def)
qed

lemma load_active_attempt_alt:
  "load_active_attempt db i = find (\<lambda>a. attempt_status a = JA_ACTIVE) (attempts_of db i)"
proof -
  have "find (\<lambda>a. attempt_job_id a = i \<and> attempt_status a = JA_ACTIVE) as =
      find (\<lambda>a. attempt_status a = JA_ACTIVE) (filter (\<lambda>a. attempt_job_id a = i) as)" for as
    by (induction as) auto
  then show ?thesis by (simp add: load_active_attempt_def attempts_of_def)
qed

lemma attempts_of_upd_attempt:
  assumes "\<And>a. attempt_job_id (f a) = attempt_job_id a"
  shows "attempts_of (upd_attempt i f db) k =
    update_where (\<lambda>a. attempt_id a = i) f (attempts_of db k)"
proof -
  have "filter (\<lambda>a. attempt_job_id a = k) (update_where (\<lambda>a. attempt_id a = i) f as) =
      update_where (\<lambda>a. attempt_id a = i) f (filter (\<lambda>a. attempt_job_id a = k) as)" for as
    using assms by (induction as) auto
  then show ?thesis by (simp add: attempts_of_def)
qed

lemma attempts_of_simps [simp]:
  "attempts_of (upd_job i f db) k = attempts_of db k"
  "attempts_of (upd_run i g db) k = attempts_of db k"
  "attempts_of (db\<lparr>jobs := js\<rparr>) k = attempts_of db k"
  "attempts_of (db\<lparr>runs := rs\<rparr>) k = attempts_of db k"
  "attempts_of (db\<lparr>run_steps := ss\<rparr>) k = attempts_of db k"
  by (simp_all add: attempts_of_def)

lemma attempts_of_add:
  "attempts_of (db\<lparr>attempts := attempts db @ [a]\<rparr>) k =
     (if attempt_job_id a = k then attempts_of db k @ [a] else attempts_of db k)"
  by (simp add: attempts_of_def)

lemma distinct_attempts_of:
  "distinct (map attempt_id (attempts db)) \<Longrightarrow> distinct (map attempt_id (attempts_of db k))"
  by (simp add: attempts_of_def distinct_map_filter)

lemma attempts_of_mem: "a \<in> set (attempts_of db k) \<longleftrightarrow> a \<in> set (attempts db) \<and> attempt_job_id a = k"
  by (auto simp: attempts_of_def)

text \<open>A leased job has one active attempt and it is its last; another job has none.\<close>

lemma leased_attempts:
  assumes "job_with_attempts_ok M j as" and "job_status j = JS_LEASED"
  obtains bs a where "as = bs @ [a]" and "attempt_status a = JA_ACTIVE"
    and "list_all (\<lambda>a. attempt_status a = JA_FAILED) bs"
    and "find (\<lambda>a. attempt_status a = JA_ACTIVE) as = Some a"
proof -
  from assms have ne: "as \<noteq> []" by (auto simp: job_with_attempts_ok_def)
  then obtain bs a where as: "as = bs @ [a]" by (metis rev_exhaust)
  from assms ne have last: "attempt_status a = JA_ACTIVE"
      and init: "list_all (\<lambda>a. attempt_status a = JA_FAILED) bs"
    by (auto simp: job_with_attempts_ok_def as)
  have "find (\<lambda>a. attempt_status a = JA_ACTIVE) as = Some a"
    using init last unfolding as by (induction bs) auto
  with as last init that show ?thesis by blast
qed

lemma unleased_attempts:
  assumes "job_with_attempts_ok M j as" and "job_status j \<noteq> JS_LEASED"
  shows "find (\<lambda>a. attempt_status a = JA_ACTIVE) as = None"
proof (cases as rule: rev_cases)
  case (snoc bs a)
  with assms show ?thesis
    by (cases "job_status j") (auto simp: job_with_attempts_ok_def find_None_iff list_all_iff)
qed simp

lemma jobs_invD:
  assumes "jobs_inv M db"
  shows "1 \<le> M" "distinct (map job_id (jobs db))" "distinct (map attempt_id (attempts db))"
    "distinct (map run_id (runs db))"
    "a \<in> set (attempts db) \<Longrightarrow> attempt_job_id a \<in> job_id ` set (jobs db)"
    "j \<in> set (jobs db) \<Longrightarrow> job_with_attempts_ok M j (attempts_of db (job_id j))"
    "j \<in> set (jobs db) \<Longrightarrow> job_run_ok db j"
  using assms by (auto simp: jobs_inv_def)

lemma job_run_exists:
  assumes "jobs_inv M db" and "j \<in> set (jobs db)"
  obtains r where "load_run db (job_run_id j) = Some r" and "r \<in> set (runs db)"
    and "job_status j = JS_LEASED \<Longrightarrow> run_status r \<noteq> AR_QUEUED"
  using jobs_invD(7) [OF assms] load_runD
  by (auto simp: job_run_ok_def split: option.splits)

section \<open>Steps on one job\<close>

text \<open>
  What an operation on the row \<open>j\<close> has to establish: it keeps the identifiers, the attempts of the
  other jobs and the runs (none of which goes back to the queue), and leaves its own row in order.
\<close>

definition runs_advance :: "job_db \<Rightarrow> job_db \<Rightarrow> bool" where
  "runs_advance db db' =
     (map run_id (runs db') = map run_id (runs db) \<and>
      (\<forall>i r. load_run db i = Some r \<longrightarrow>
        (\<exists>r'. load_run db' i = Some r' \<and> (run_status r \<noteq> AR_QUEUED \<longrightarrow> run_status r' \<noteq> AR_QUEUED))))"

lemma runs_advance_same [simp]: "runs db' = runs db \<Longrightarrow> runs_advance db db'"
  by (auto simp: runs_advance_def load_run_def)

lemma runs_advance_set_run:
  assumes "load_run db i = Some r" and "run_id r' = i" and "run_status r' \<noteq> AR_QUEUED"
    and "runs db' = runs (upd_run i (\<lambda>_. r') db)"
  shows "runs_advance db db'"
proof -
  have ids: "map run_id (runs db') = map run_id (runs db)"
    using assms(2,4) by (auto simp: update_where_def)
  have "load_run db' k = (if k = i then Some r' else load_run db k)" for k
    using load_run_set_run [OF assms(1,2), of k] assms(4) by (simp add: load_run_def)
  with ids assms(3) show ?thesis by (auto simp: runs_advance_def)
qed

lemma jobs_inv_one_job:
  assumes inv: "jobs_inv M db" and j: "j \<in> set (jobs db)"
    and f: "job_id (f j) = job_id j" "job_run_id (f j) = job_run_id j"
    and jobs': "jobs db' = update_where (\<lambda>x. job_id x = job_id j) f (jobs db)"
    and attempts': "distinct (map attempt_id (attempts db'))"
      "\<And>a. a \<in> set (attempts db') \<Longrightarrow> attempt_job_id a \<in> job_id ` set (jobs db)"
      "\<And>k. k \<noteq> job_id j \<Longrightarrow> attempts_of db' k = attempts_of db k"
    and ok: "job_with_attempts_ok M (f j) (attempts_of db' (job_id j))"
    and runs': "runs_advance db db'"
    and running: "job_status (f j) = JS_LEASED \<Longrightarrow>
      \<exists>r. load_run db' (job_run_id j) = Some r \<and> run_status r \<noteq> AR_QUEUED"
  shows "jobs_inv M db'"
proof -
  obtain ys zs where split: "jobs db = ys @ j # zs" using split_list [OF j] by blast
  have d: "distinct (map job_id (ys @ j # zs))" using jobs_invD(2) [OF inv] split by simp
  have new: "jobs db' = ys @ f j # zs"
    unfolding jobs' split by (rule update_where_split [OF d])
  have ids: "map job_id (jobs db') = map job_id (jobs db)" using new split f(1) by simp
  have other: "job_id x \<noteq> job_id j" if "x \<in> set ys \<union> set zs" for x
  proof -
    have "job_id j \<notin> job_id ` (set ys \<union> set zs)" using d by auto
    then show ?thesis using that by (metis imageI)
  qed
  have run_kept: "job_run_ok db' x" if x: "x \<in> set (jobs db)" for x
  proof -
    obtain r where r: "load_run db (job_run_id x) = Some r"
        "job_status x = JS_LEASED \<Longrightarrow> run_status r \<noteq> AR_QUEUED"
      using job_run_exists [OF inv x] by metis
    from runs' r(1) obtain r' where "load_run db' (job_run_id x) = Some r'"
        "run_status r \<noteq> AR_QUEUED \<longrightarrow> run_status r' \<noteq> AR_QUEUED"
      unfolding runs_advance_def by blast
    with r(2) show ?thesis by (simp add: job_run_ok_def)
  qed
  have all: "job_with_attempts_ok M x (attempts_of db' (job_id x)) \<and> job_run_ok db' x"
    if x: "x \<in> set (jobs db')" for x
  proof (cases "x = f j")
    case True
    have "load_run db' (job_run_id j) \<noteq> None"
      using run_kept [OF j] by (auto simp: job_run_ok_def split: option.splits)
    with True f ok running show ?thesis
      by (cases "job_status (f j) = JS_LEASED") (auto simp: job_run_ok_def)
  next
    case False
    with x new have mem: "x \<in> set ys \<union> set zs" by auto
    then have "x \<in> set (jobs db)" using split by auto
    moreover have "attempts_of db' (job_id x) = attempts_of db (job_id x)"
      by (rule attempts'(3) [OF other [OF mem]])
    ultimately show ?thesis using jobs_invD(6) [OF inv] run_kept by metis
  qed
  have "distinct (map run_id (runs db'))"
    using jobs_invD(4) [OF inv] runs' by (simp add: runs_advance_def)
  moreover have "job_id ` set (jobs db') = job_id ` set (jobs db)" using ids by (metis set_map)
  ultimately show ?thesis
    using jobs_invD(1,2) [OF inv] attempts'(1,2) ids all unfolding jobs_inv_def by simp
qed

section \<open>The operations keep the invariant\<close>

lemma job_error_simps [result_simps]:
  "require_aware_utc d s = Inr t \<longleftrightarrow> d = Aware t"
  "require_positive_int n s' = Inr m \<longleftrightarrow> 1 \<le> n \<and> m = n"
  "require_lease_owner own = Inr own' \<longleftrightarrow> own \<noteq> [] \<and> length own \<le> 255 \<and> own' = own"
  "require_error_code c = Inr c' \<longleftrightarrow> error_code_pattern c \<and> c' = c"
  by (cases d; auto simp: require_positive_int_def require_lease_owner_def require_error_code_def)+

lemma assert_valid_lease_Inr [result_simps]:
  "assert_valid_lease j own now = Inr u \<longleftrightarrow>
     job_status j = JS_LEASED \<and> lease_owner j = Some own \<and>
     (\<exists>t. lease_expires_at j = Some t \<and> now < t)"
  by (auto simp: assert_valid_lease_def lease_is_expired_def split: option.splits)

lemma lease_updates [simp]:
  "job_id (clear_lease_fields j) = job_id j" "job_run_id (clear_lease_fields j) = job_run_id j"
  "job_step_key (clear_lease_fields j) = job_step_key j"
  "job_status (clear_lease_fields j) = job_status j"
  "attempt_count (clear_lease_fields j) = attempt_count j"
  "job_id (set_lease_fields own t n j) = job_id j"
  "job_run_id (set_lease_fields own t n j) = job_run_id j"
  "job_step_key (set_lease_fields own t n j) = job_step_key j"
  "job_status (set_lease_fields own t n j) = job_status j"
  "attempt_count (set_lease_fields own t n j) = attempt_count j"
  "lease_owner (set_lease_fields own t n j) = Some own"
  by (simp_all add: clear_lease_fields_def set_lease_fields_def)

lemma lease_fields_ok_updates [simp]:
  "lease_fields_ok (clear_lease_fields j) \<longleftrightarrow> job_status j \<noteq> JS_LEASED"
  "job_status j = JS_LEASED \<Longrightarrow> own \<noteq> [] \<Longrightarrow> lease_fields_ok (set_lease_fields own t n j)"
  by (auto simp: lease_fields_ok_def clear_lease_fields_def set_lease_fields_def)

lemma attempt_updates [simp]:
  "attempt_job_id (succeed_attempt t a) = attempt_job_id a"
  "attempt_id (succeed_attempt t a) = attempt_id a"
  "attempt_fields_ok (succeed_attempt t a)" "attempt_status (succeed_attempt t a) = JA_SUCCEEDED"
  "attempt_number (succeed_attempt t a) = attempt_number a"
  "attempt_run_id (succeed_attempt t a) = attempt_run_id a"
  "attempt_step_key (succeed_attempt t a) = attempt_step_key a"
  "attempt_job_id (fail_attempt t c b a) = attempt_job_id a"
  "attempt_id (fail_attempt t c b a) = attempt_id a"
  "attempt_fields_ok (fail_attempt t c b a)" "attempt_status (fail_attempt t c b a) = JA_FAILED"
  "attempt_number (fail_attempt t c b a) = attempt_number a"
  "attempt_run_id (fail_attempt t c b a) = attempt_run_id a"
  "attempt_step_key (fail_attempt t c b a) = attempt_step_key a"
  by (simp_all add: succeed_attempt_def fail_attempt_def attempt_fields_ok_def)

text \<open>Ending the last attempt and the lease together: what completion, failure and recovery share.\<close>

lemma jobs_inv_end_lease:
  assumes inv: "jobs_inv M db" and j: "j \<in> set (jobs db)" and leased: "job_status j = JS_LEASED"
    and a: "load_active_attempt db (job_id j) = Some a"
    and f: "job_id (f j) = job_id j" "job_run_id (f j) = job_run_id j"
      "job_step_key (f j) = job_step_key j" "attempt_count (f j) = attempt_count j"
      "lease_fields_ok (f j)" "job_status (f j) \<noteq> JS_LEASED"
      "job_status (f j) = JS_AVAILABLE \<Longrightarrow> attempt_count j < M"
    and g: "\<And>a. attempt_job_id (g a) = attempt_job_id a" "\<And>a. attempt_id (g a) = attempt_id a"
      "\<And>a. attempt_number (g a) = attempt_number a" "\<And>a. attempt_run_id (g a) = attempt_run_id a"
      "\<And>a. attempt_step_key (g a) = attempt_step_key a" "attempt_fields_ok (g a)"
      "attempt_status (g a) = last_attempt_status (job_status (f j))"
    and db': "jobs db' = update_where (\<lambda>x. job_id x = job_id j) f (jobs db)"
      "attempts db' = attempts (upd_attempt (attempt_id a) g db)" "runs_advance db db'"
  shows "jobs_inv M db'"
proof -
  let ?as = "attempts_of db (job_id j)"
  have ok: "job_with_attempts_ok M j ?as" by (rule jobs_invD(6) [OF inv j])
  obtain bs where as: "?as = bs @ [a]"
    using leased_attempts [OF ok leased] a by (metis load_active_attempt_alt option.inject)
  have mem: "a \<in> set (attempts db)" "attempt_job_id a = job_id j"
    using as attempts_of_mem [of a db "job_id j"] by auto
  have dist: "distinct (map attempt_id (attempts db))" by (rule jobs_invD(3) [OF inv])
  have as_of: "attempts_of db' k = update_where (\<lambda>x. attempt_id x = attempt_id a) g (attempts_of db k)"
    for k using attempts_of_upd_attempt [OF g(1)] db'(2) by (simp add: attempts_of_def)
  have own: "attempts_of db' (job_id j) = bs @ [g a]"
    using update_where_split [of attempt_id bs a "[]" g] distinct_attempts_of [OF dist, of "job_id j"]
    by (simp add: as_of as)
  show ?thesis
  proof (rule jobs_inv_one_job [OF inv j f(1,2) db'(1)])
    show "distinct (map attempt_id (attempts db'))"
      using dist db'(2) by (simp add: map_key_update_where g(2))
    show "attempt_job_id x \<in> job_id ` set (jobs db)" if "x \<in> set (attempts db')" for x
      using that db'(2) jobs_invD(5) [OF inv] g(1) by (auto simp: set_update_where split: if_splits)
    show "attempts_of db' k = attempts_of db k" if k: "k \<noteq> job_id j" for k
    proof -
      have "attempt_id x \<noteq> attempt_id a" if x: "x \<in> set (attempts_of db k)" for x
        using x k mem distinct_key_unique [OF dist, of x a] by (auto simp: attempts_of_mem)
      then show ?thesis unfolding as_of by (auto intro: update_where_id)
    qed
    show "job_with_attempts_ok M (f j) (attempts_of db' (job_id j))"
      using ok f g(3-7) unfolding own job_with_attempts_ok_def as
      by (auto simp del: upt_Suc)
  qed (use db'(3) f(6) in auto)
qed

text \<open>The operations inverted: what a call that returned found and what it wrote.\<close>

definition completed_db :: "job_db \<Rightarrow> uuid \<Rightarrow> job_attempt \<Rightarrow> instant \<Rightarrow> job_db" where
  "completed_db db i a t = upd_job i (\<lambda>j. clear_lease_fields
       (j\<lparr>job_status := JS_COMPLETED, last_error_code := None\<rparr>))
     (upd_attempt (attempt_id a) (succeed_attempt t) db)"

definition holds_lease :: "job_db \<Rightarrow> uuid \<Rightarrow> string \<Rightarrow> instant \<Rightarrow> bool" where
  "holds_lease db i own t =
     (case load_job db i of
        None \<Rightarrow> False
      | Some j \<Rightarrow> job_status j = JS_LEASED \<and> lease_owner j = Some own \<and>
          \<not> lease_is_expired (lease_expires_at j) t)"

lemma holds_lease_iff:
  "holds_lease db i own t \<longleftrightarrow> (\<exists>j. load_job db i = Some j \<and> assert_valid_lease j own t = Inr ())"
  by (auto simp: holds_lease_def assert_valid_lease_def split: option.splits)

lemma holds_leaseD:
  assumes "holds_lease db i own t"
  obtains j where "load_job db i = Some j" and "job_status j = JS_LEASED"
    and "lease_owner j = Some own" and "assert_valid_lease j own t = Inr ()"
  using assms by (auto simp: holds_lease_def assert_valid_lease_def split: option.splits)

lemma heartbeat_Inr:
  "heartbeat_job db i own now n = Inr db' \<longleftrightarrow>
     (\<exists>t. now = Aware t \<and> 1 \<le> n \<and> own \<noteq> [] \<and> length own \<le> 255 \<and> holds_lease db i own t \<and>
       db' = upd_job i (set_lease_fields own t n) db)"
  by (auto simp: heartbeat_job_def job_error_simps holds_lease_iff bindR_eq_Inr split: option.splits)

lemma complete_Inr:
  "complete_job db i own now = Inr db' \<longleftrightarrow>
     (\<exists>t j a. now = Aware t \<and> own \<noteq> [] \<and> length own \<le> 255 \<and> holds_lease db i own t \<and>
       load_job db i = Some j \<and> has_completed_run_step db (job_run_id j) (job_step_key j) \<and>
       load_active_attempt db i = Some a \<and> db' = completed_db db i a t)"
  by (cases "load_job db i"; cases "load_active_attempt db i")
    (auto simp: complete_job_def job_error_simps holds_lease_iff bindR_eq_Inr completed_db_def
      split: if_splits)

lemma heartbeat_inv:
  assumes inv: "jobs_inv M db" and op: "heartbeat_job db i own now n = Inr db'"
  shows "jobs_inv M db'"
proof -
  from op obtain t where t: "holds_lease db i own t" and own: "own \<noteq> []"
      and db': "db' = upd_job i (set_lease_fields own t n) db" by (auto simp: heartbeat_Inr)
  obtain j where load: "load_job db i = Some j"
      and lease: "job_status j = JS_LEASED" "lease_owner j = Some own"
    by (rule holds_leaseD [OF t])
  have j: "j \<in> set (jobs db)" "job_id j = i" using load_jobD [OF load] by auto
  obtain r where r: "load_run db (job_run_id j) = Some r" "run_status r \<noteq> AR_QUEUED"
    using job_run_exists [OF inv j(1)] lease by metis
  have "job_with_attempts_ok M (set_lease_fields own t n j) (attempts_of db i)"
    using jobs_invD(6) [OF inv j(1)] own lease j(2)
    by (auto simp: job_with_attempts_ok_def simp del: upt_Suc)
  then show ?thesis
    by (intro jobs_inv_one_job [OF inv j(1), of "set_lease_fields own t n"])
      (use db' j r jobs_invD(3,5) [OF inv] in auto)
qed

lemma complete_inv:
  assumes inv: "jobs_inv M db" and op: "complete_job db i own now = Inr db'"
  shows "jobs_inv M db'"
proof -
  from op obtain t a where t: "holds_lease db i own t"
      and a: "load_active_attempt db i = Some a" and db': "db' = completed_db db i a t"
    by (auto simp: complete_Inr)
  obtain j where load: "load_job db i = Some j" and lease: "job_status j = JS_LEASED"
    by (rule holds_leaseD [OF t])
  have j: "j \<in> set (jobs db)" "job_id j = i" using load_jobD [OF load] by auto
  show ?thesis
    by (rule jobs_inv_end_lease [OF inv j(1) lease, of a
          "\<lambda>j. clear_lease_fields (j\<lparr>job_status := JS_COMPLETED, last_error_code := None\<rparr>)"
          "succeed_attempt t"])
      (use a j db' in \<open>auto simp: completed_db_def\<close>)
qed

lemma transition_run_to_failed_Inr:
  assumes "transition_run_to_failed r now code = Inr r'"
  shows "run_id r' = run_id r" "run_status r' \<noteq> AR_QUEUED"
    "analysis_run_status_is_terminal (run_status r')"
    "analysis_run_status_is_terminal (run_status r) \<Longrightarrow> r' = r"
  using assms by (auto simp: transition_run_to_failed_def analysis_run_table
    split: if_splits sum.splits)

lemma transition_running_to_failed:
  "run_status r = AR_RUNNING \<Longrightarrow> transition_run_to_failed r now code =
     Inr (r\<lparr>run_status := AR_FAILED, run_error_code := Some code,
       run_error_retryable := Some False, run_completed_at := Some now\<rparr>)"
  by (simp add: transition_run_to_failed_def require_analysis_run_transition_def
    analysis_run_table)

lemma jobs_inv_set_run:
  assumes inv: "jobs_inv M db" and r: "load_run db i = Some r"
    and r': "run_id r' = i" "run_status r' \<noteq> AR_QUEUED"
  shows "jobs_inv M (upd_run i (\<lambda>_. r') db)"
proof -
  have "job_run_ok (upd_run i (\<lambda>_. r') db) j" if "j \<in> set (jobs db)" for j
    using jobs_invD(7) [OF inv that] r r' load_run_set_run [OF r r'(1)]
    by (auto simp: job_run_ok_def split: option.splits)
  moreover have "map run_id (update_where (\<lambda>r. run_id r = i) (\<lambda>_. r') (runs db)) =
      map run_id (runs db)"
    using r'(1) by (auto simp: update_where_def)
  ultimately show ?thesis using inv by (simp add: jobs_inv_def)
qed

text \<open>The two outcomes of a recorded failure: another attempt, or the end of the job and its run.\<close>

definition retried_db ::
  "job_db \<Rightarrow> uuid \<Rightarrow> job_attempt \<Rightarrow> string \<Rightarrow> bool \<Rightarrow> instant \<Rightarrow> instant \<Rightarrow> job_db" where
  "retried_db db i a code b t nx = upd_job i (\<lambda>j. clear_lease_fields (j\<lparr>last_error_code := Some code,
       job_status := JS_AVAILABLE, available_at := nx\<rparr>))
     (upd_attempt (attempt_id a) (fail_attempt t code b) db)"

definition failed_db ::
  "job_db \<Rightarrow> uuid \<Rightarrow> job_attempt \<Rightarrow> string \<Rightarrow> bool \<Rightarrow> instant \<Rightarrow> job_db" where
  "failed_db db i a code b t = upd_job i (\<lambda>j. clear_lease_fields (j\<lparr>last_error_code := Some code,
       job_status := JS_FAILED\<rparr>)) (upd_attempt (attempt_id a) (fail_attempt t code b) db)"

definition fail_run :: "instant \<Rightarrow> string \<Rightarrow> analysis_run \<Rightarrow> analysis_run" where
  "fail_run t code r = r\<lparr>run_status := AR_FAILED, run_error_code := Some code,
     run_error_retryable := Some False, run_completed_at := Some t\<rparr>"

lemma fail_run_simps [simp]: "run_id (fail_run t code r) = run_id r"
  "run_status (fail_run t code r) = AR_FAILED"
  by (simp_all add: fail_run_def)

lemma load_run_failed_db [simp]: "load_run (failed_db db i a code b t) k = load_run db k"
  "load_run (retried_db db i a code b t nx) k = load_run db k"
  by (simp_all add: failed_db_def retried_db_def)

lemma validate_retry_schedule_Inr:
  "validate_retry_schedule t nxt d = Inr nx \<longleftrightarrow>
     nxt = Some (Aware nx) \<and> t \<le> nx \<and> (case d of None \<Rightarrow> True | Some e \<Rightarrow> nx < e)"
proof (cases nxt)
  case (Some w)
  then show ?thesis
    by (cases w; cases d) (auto simp: validate_retry_schedule_def)
qed (simp add: validate_retry_schedule_def)

lemma record_failure_Inr:
  assumes "record_job_failure db i own now code b M deadline nxt = Inr db'"
  obtains t d j a where "now = Aware t" and "optional_aware_utc deadline ''run_deadline_at'' = Inr d"
    and "holds_lease db i own t" and "load_job db i = Some j" and "load_active_attempt db i = Some a"
    and "if b \<and> attempt_count j < M \<and> deadline_allows_retry t d
      then \<exists>nx. validate_retry_schedule t nxt d = Inr nx \<and> db' = retried_db db i a code b t nx
      else \<exists>r. load_run db (job_run_id j) = Some r \<and>
        db' = (if run_status r = AR_RUNNING
          then upd_run (run_id r) (\<lambda>_. fail_run t (terminal_run_error_code code b
            (attempt_count j < M) (deadline_allows_retry t d)) r) (failed_db db i a code b t)
          else failed_db db i a code b t)"
proof -
  from assms obtain t d j a where h: "now = Aware t"
      "optional_aware_utc deadline ''run_deadline_at'' = Inr d"
      "load_job db i = Some j" "assert_valid_lease j own t = Inr ()"
      "load_active_attempt db i = Some a"
    by (auto simp: record_job_failure_def bindR_eq_Inr job_error_simps split: option.splits)
  have lease: "holds_lease db i own t" using h by (auto simp: holds_lease_iff)
  have "if b \<and> attempt_count j < M \<and> deadline_allows_retry t d
      then \<exists>nx. validate_retry_schedule t nxt d = Inr nx \<and> db' = retried_db db i a code b t nx
      else \<exists>r. load_run db (job_run_id j) = Some r \<and>
        db' = (if run_status r = AR_RUNNING
          then upd_run (run_id r) (\<lambda>_. fail_run t (terminal_run_error_code code b
            (attempt_count j < M) (deadline_allows_retry t d)) r) (failed_db db i a code b t)
          else failed_db db i a code b t)"
    using assms h
    unfolding record_job_failure_def Let_def failed_db_def [symmetric] retried_db_def [symmetric]
    by (auto simp: bindR_eq_Inr transition_running_to_failed fail_run_def
      split: option.splits if_splits)
  with h lease that show ?thesis by blast
qed

lemma record_failure_inv:
  assumes inv: "jobs_inv M db"
    and op: "record_job_failure db i own now code b M deadline nxt = Inr db'"
  shows "jobs_inv M db'"
proof (rule record_failure_Inr [OF op])
  fix t d j a
  assume lease: "holds_lease db i own t" and load: "load_job db i = Some j"
    and a: "load_active_attempt db i = Some a"
    and res: "if b \<and> attempt_count j < M \<and> deadline_allows_retry t d
      then \<exists>nx. validate_retry_schedule t nxt d = Inr nx \<and> db' = retried_db db i a code b t nx
      else \<exists>r. load_run db (job_run_id j) = Some r \<and>
        db' = (if run_status r = AR_RUNNING
          then upd_run (run_id r) (\<lambda>_. fail_run t (terminal_run_error_code code b
            (attempt_count j < M) (deadline_allows_retry t d)) r) (failed_db db i a code b t)
          else failed_db db i a code b t)"
  have j: "j \<in> set (jobs db)" "job_id j = i" and leased: "job_status j = JS_LEASED"
    using load_jobD [OF load] holds_leaseD [OF lease] load by auto
  have a': "load_active_attempt db (job_id j) = Some a" using a j by simp
  have again: "jobs_inv M (retried_db db i a code b t nx)" if "attempt_count j < M" for nx
    by (rule jobs_inv_end_lease [OF inv j(1) leased a', where f = "\<lambda>j. clear_lease_fields
          (j\<lparr>last_error_code := Some code, job_status := JS_AVAILABLE, available_at := nx\<rparr>)" and
          g = "fail_attempt t code b"])
      (use j that in \<open>auto simp: retried_db_def\<close>)
  have failed: "jobs_inv M (failed_db db i a code b t)"
    by (rule jobs_inv_end_lease [OF inv j(1) leased a', where f = "\<lambda>j. clear_lease_fields
          (j\<lparr>last_error_code := Some code, job_status := JS_FAILED\<rparr>)" and
          g = "fail_attempt t code b"])
      (use j in \<open>auto simp: failed_db_def\<close>)
  show "jobs_inv M db'"
  proof (cases "b \<and> attempt_count j < M \<and> deadline_allows_retry t d")
    case True
    with res again show ?thesis by auto
  next
    case False
    with res obtain r where r: "load_run db (job_run_id j) = Some r"
        and "db' = failed_db db i a code b t \<or>
          (\<exists>c. db' = upd_run (run_id r) (\<lambda>_. fail_run t c r) (failed_db db i a code b t))"
      by (metis (full_types))
    then show ?thesis
      using failed load_runD [OF r] by (auto intro!: jobs_inv_set_run [OF failed, of _ r])
  qed
qed

section \<open>Recovery\<close>

text \<open>
  The table of \<open>docs/contracts/LIFECYCLE_AND_ERRORS.md\<close> (section 2.7) for an expired lease, as a
  function of what it reads: whether the step was completed, the state of the run, whether the
  step is idempotent, and whether the attempt budget is spent.
\<close>

definition recovery_target :: "bool \<Rightarrow> analysis_run_status \<Rightarrow> bool \<Rightarrow> bool \<Rightarrow> job_status" where
  "recovery_target step_done s idempotent spent =
     (if step_done \<or> s = AR_SUCCEEDED \<or> s = AR_QUEUED then JS_RECONCILIATION_REQUIRED
      else if s \<noteq> AR_RUNNING then JS_FAILED
      else if \<not> idempotent then JS_RECONCILIATION_REQUIRED
      else if spent then JS_FAILED
      else JS_AVAILABLE)"

definition recovered_job :: "job_status \<Rightarrow> instant \<Rightarrow> job \<Rightarrow> job" where
  "recovered_job s now j = (set_job_status s (lease_loss j))
     \<lparr>available_at := (if s = JS_AVAILABLE then now else available_at j)\<rparr>"

definition recovered_db ::
  "job_db \<Rightarrow> job \<Rightarrow> job_attempt \<Rightarrow> analysis_run \<Rightarrow> instant \<Rightarrow> int \<Rightarrow> job_db" where
  "recovered_db db j a r now M =
     (let step_done = has_completed_run_step db (job_run_id j) (job_step_key j);
          s = recovery_target step_done (run_status r) (step_idempotent j) (M \<le> attempt_count j);
          db1 = upd_job (job_id j) (recovered_job s now)
            (upd_attempt (attempt_id a) (fail_attempt now ERROR_JOB_LEASE_LOST True) db)
      in if s = JS_FAILED \<and> run_status r = AR_RUNNING
         then upd_run (run_id r) (\<lambda>_. fail_run now ERROR_DEPENDENCY_ATTEMPTS_EXHAUSTED r) db1
         else db1)"

lemma recovered_job_simps [simp]:
  "job_id (recovered_job s now j) = job_id j" "job_run_id (recovered_job s now j) = job_run_id j"
  "job_step_key (recovered_job s now j) = job_step_key j"
  "attempt_count (recovered_job s now j) = attempt_count j"
  "job_status (recovered_job s now j) = s"
  "s \<noteq> JS_LEASED \<Longrightarrow> lease_fields_ok (recovered_job s now j)"
  by (simp_all add: recovered_job_def set_job_status_def lease_loss_def clear_lease_fields_def
    lease_fields_ok_def)

lemma recovery_target_not_leased [simp]: "recovery_target d s i e \<noteq> JS_LEASED"
  "recovery_target d s i e \<noteq> JS_COMPLETED"
  by (auto simp: recovery_target_def)

lemma recovered_job_other:
  "s \<noteq> JS_AVAILABLE \<Longrightarrow> (\<lambda>j. set_job_status s (lease_loss j)) = recovered_job s now"
  by (auto simp: recovered_job_def fun_eq_iff set_job_status_def lease_loss_def clear_lease_fields_def)

lemma recovered_job_available:
  "(\<lambda>j. set_job_status JS_AVAILABLE (lease_loss j)\<lparr>available_at := now\<rparr>) =
     recovered_job JS_AVAILABLE now"
  by (auto simp: recovered_job_def)

lemma recover_single_table:
  assumes inv: "jobs_inv M db" and j: "j \<in> set (jobs db)" and leased: "job_status j = JS_LEASED"
    and expired: "lease_is_expired (lease_expires_at j) now"
  obtains a r where "load_active_attempt db (job_id j) = Some a"
    and "load_run db (job_run_id j) = Some r" and "run_status r \<noteq> AR_QUEUED"
    and "recover_single_expired_job db j now M = Inr (recovered_db db j a r now M)"
proof -
  obtain r where r: "load_run db (job_run_id j) = Some r" "run_status r \<noteq> AR_QUEUED"
    using job_run_exists [OF inv j] leased by metis
  obtain a where a: "load_active_attempt db (job_id j) = Some a"
    using leased_attempts [OF jobs_invD(6) [OF inv j] leased] by (metis load_active_attempt_alt)
  have "recover_single_expired_job db j now M = Inr (recovered_db db j a r now M)"
    using r a expired
    by (cases "run_status r")
      (simp_all add: recover_single_expired_job_def recovered_db_def Let_def recovery_target_def
        recovered_job_other [where now = now] recovered_job_available transition_running_to_failed
        fail_run_def analysis_run_status_is_terminal_def analysis_run_terminal_def)
  with a r that show ?thesis by blast
qed

lemma recovered_inv:
  assumes inv: "jobs_inv M db" and j: "j \<in> set (jobs db)" and leased: "job_status j = JS_LEASED"
    and a: "load_active_attempt db (job_id j) = Some a"
    and r: "load_run db (job_run_id j) = Some r" "run_status r \<noteq> AR_QUEUED"
  shows "jobs_inv M (recovered_db db j a r now M)"
proof -
  define s where "s = recovery_target (has_completed_run_step db (job_run_id j) (job_step_key j))
    (run_status r) (step_idempotent j) (M \<le> attempt_count j)"
  have avail: "s = JS_AVAILABLE \<Longrightarrow> attempt_count j < M" and last: "last_attempt_status s = JA_FAILED"
    by (cases s; simp add: s_def recovery_target_def split: if_splits)+
  have s: "s \<noteq> JS_LEASED" by (simp add: s_def)
  have one: "jobs_inv M (upd_job (job_id j) (recovered_job s now)
      (upd_attempt (attempt_id a) (fail_attempt now ERROR_JOB_LEASE_LOST True) db))"
    by (rule jobs_inv_end_lease [OF inv j leased a, where f = "recovered_job s now" and
          g = "fail_attempt now ERROR_JOB_LEASE_LOST True"])
      (use avail last s in auto)
  have run: "run_id r = job_run_id j" using load_runD [OF r(1)] by simp
  show ?thesis
    unfolding recovered_db_def Let_def s_def [symmetric]
    using one r run by (auto intro!: jobs_inv_set_run [where r = r])
qed

lemma recover_single_inv:
  assumes "jobs_inv M db" and "j \<in> set (jobs db)" and "job_status j = JS_LEASED"
    and "lease_is_expired (lease_expires_at j) now"
    and "recover_single_expired_job db j now M = Inr db'"
  shows "jobs_inv M db'"
  using recover_single_table [OF assms(1-4)] recovered_inv [OF assms(1-3)] assms(5)
  by (metis sum.inject(2))

section \<open>Claim\<close>

lemma claim_selectD:
  assumes "claim_select locked db now M = Some j"
  shows "j \<in> set (jobs db)" "eligible db now M j" "\<not> locked (job_id j)"
    "\<And>k. k \<in> set (jobs db) \<Longrightarrow> eligible db now M k \<Longrightarrow> \<not> locked (job_id k) \<Longrightarrow>
      (available_at j, job_id j) \<le> (available_at k, job_id k)"
proof -
  let ?c = "filter (\<lambda>j. eligible db now M j \<and> \<not> locked (job_id j)) (jobs db)"
  let ?k = "\<lambda>j. (available_at j, job_id j)"
  from assms obtain js where js: "sort_key ?k ?c = j # js"
    by (auto simp: claim_select_def split: list.splits)
  then have "j \<in> set ?c" by (metis list.set_intros(1) set_sort)
  then show "j \<in> set (jobs db)" "eligible db now M j" "\<not> locked (job_id j)" by auto
  fix k assume "k \<in> set (jobs db)" "eligible db now M k" "\<not> locked (job_id k)"
  then have k: "k \<in> set (j # js)" unfolding js [symmetric] by simp
  have "sorted (map ?k (j # js))" unfolding js [symmetric] by simp
  with k show "?k j \<le> ?k k" by auto
qed

lemma claim_select_None:
  "claim_select locked db now M = None \<longleftrightarrow>
     (\<forall>j \<in> set (jobs db). eligible db now M j \<longrightarrow> locked (job_id j))"
proof -
  let ?c = "filter (\<lambda>j. eligible db now M j \<and> \<not> locked (job_id j)) (jobs db)"
  have "claim_select locked db now M = None \<longleftrightarrow> sort_key (\<lambda>j. (available_at j, job_id j)) ?c = []"
    unfolding claim_select_def
    by (cases "sort_key (\<lambda>j. (available_at j, job_id j)) ?c") simp_all
  also have "\<dots> \<longleftrightarrow> ?c = []" by simp
  finally show ?thesis by (auto simp: filter_empty_conv)
qed

lemma lease_job_simps [simp]:
  "job_id (lease_job own t n j) = job_id j" "job_run_id (lease_job own t n j) = job_run_id j"
  "job_step_key (lease_job own t n j) = job_step_key j"
  "attempt_count (lease_job own t n j) = attempt_count j + 1"
  "job_status (lease_job own t n j) = JS_LEASED" "lease_owner (lease_job own t n j) = Some own"
  "own \<noteq> [] \<Longrightarrow> lease_fields_ok (lease_job own t n j)"
  by (simp_all add: lease_job_def)

lemma new_attempt_simps [simp]:
  "attempt_job_id (new_attempt i j own t) = job_id j" "attempt_id (new_attempt i j own t) = i"
  "attempt_run_id (new_attempt i j own t) = job_run_id j"
  "attempt_step_key (new_attempt i j own t) = job_step_key j"
  "attempt_number (new_attempt i j own t) = attempt_count j + 1"
  "attempt_status (new_attempt i j own t) = JA_ACTIVE"
  "attempt_lease_owner (new_attempt i j own t) = own" "attempt_fields_ok (new_attempt i j own t)"
  by (simp_all add: new_attempt_def attempt_fields_ok_def)

text \<open>The tables after a claim of the job \<open>j\<close> whose run is \<open>r\<close>.\<close>

definition claimed_db ::
  "job_db \<Rightarrow> uuid \<Rightarrow> job \<Rightarrow> analysis_run \<Rightarrow> string \<Rightarrow> instant \<Rightarrow> int \<Rightarrow> job_db" where
  "claimed_db db i j r own t n =
     (let db1 = (if run_status r = AR_QUEUED then upd_run (run_id r) (start_run t) db else db);
          db2 = upd_job (job_id j) (lease_job own t n) db1
      in db2\<lparr>attempts := attempts db2 @ [new_attempt i j own t]\<rparr>)"

definition claim_result :: "uuid \<Rightarrow> job \<Rightarrow> analysis_run \<Rightarrow> string \<Rightarrow> instant \<Rightarrow> int \<Rightarrow> claimed_job" where
  "claim_result i j r own t n = \<lparr>claimed_row = lease_job own t n j,
     claimed_attempt = new_attempt i j own t, run_started = (run_status r = AR_QUEUED)\<rparr>"

lemma eligibleD:
  assumes "eligible db now M j"
  obtains r where "load_run db (job_run_id j) = Some r"
    and "run_status r = AR_QUEUED \<or> run_status r = AR_RUNNING"
    and "job_status j = JS_AVAILABLE" and "available_at j \<le> now" and "attempt_count j < M"
    and "\<not> has_completed_run_step db (job_run_id j) (job_step_key j)"
  using assms by (auto simp: eligible_def split: option.splits)

lemma claim_Some_eq:
  assumes "claim_select locked db t M = Some j" and "1 \<le> M" and "1 \<le> n"
    and "own \<noteq> []" and "length own \<le> 255"
  obtains r where "load_run db (job_run_id j) = Some r"
    and "run_status r = AR_QUEUED \<or> run_status r = AR_RUNNING"
    and "claim_next_eligible_job locked i db own (Aware t) M n =
      Inr (Some (claim_result i j r own t n), claimed_db db i j r own t n)"
proof -
  from eligibleD [OF claim_selectD(2) [OF assms(1)]] obtain r
    where r: "load_run db (job_run_id j) = Some r"
      "run_status r = AR_QUEUED \<or> run_status r = AR_RUNNING"
      "attempt_count j < M" "\<not> has_completed_run_step db (job_run_id j) (job_step_key j)" by metis
  have "claim_next_eligible_job locked i db own (Aware t) M n =
      Inr (Some (claim_result i j r own t n), claimed_db db i j r own t n)"
    using r assms
    by (auto simp: claim_next_eligible_job_def require_positive_int_def require_lease_owner_def
      claimed_db_def claim_result_def Let_def analysis_run_table require_analysis_run_transition_def)
  with r that show ?thesis by blast
qed

lemma claim_Inr:
  assumes "claim_next_eligible_job locked i db own now M n = Inr (res, db')"
  obtains t where "now = Aware t" and "1 \<le> M" and "1 \<le> n" and "own \<noteq> []" and "length own \<le> 255"
    and "(claim_select locked db t M = None \<and> res = None \<and> db' = db) \<or>
      (\<exists>j r. claim_select locked db t M = Some j \<and> load_run db (job_run_id j) = Some r \<and>
        (run_status r = AR_QUEUED \<or> run_status r = AR_RUNNING) \<and>
        res = Some (claim_result i j r own t n) \<and> db' = claimed_db db i j r own t n)"
proof -
  from assms obtain t where t: "now = Aware t" and args: "1 \<le> M" "1 \<le> n" "own \<noteq> []" "length own \<le> 255"
    unfolding claim_next_eligible_job_def by (auto simp: result_simps)
  show ?thesis
  proof (cases "claim_select locked db t M")
    case None
    with assms t args have "res = None \<and> db' = db"
      by (auto simp: claim_next_eligible_job_def result_simps)
    with None t args that show ?thesis by blast
  next
    case (Some j)
    from claim_Some_eq [OF Some args, of i] assms t obtain r
      where "load_run db (job_run_id j) = Some r" "run_status r = AR_QUEUED \<or> run_status r = AR_RUNNING"
        "res = Some (claim_result i j r own t n)" "db' = claimed_db db i j r own t n" by auto
    with Some t args that show ?thesis by blast
  qed
qed

lemma claimed_inv:
  assumes inv: "jobs_inv M db" and sel: "claim_select locked db t M = Some j"
    and r: "load_run db (job_run_id j) = Some r" and own: "own \<noteq> []"
    and fresh: "i \<notin> attempt_id ` set (attempts db)"
  shows "jobs_inv M (claimed_db db i j r own t n)" (is "jobs_inv M ?db'")
proof -
  have j: "j \<in> set (jobs db)" using claim_selectD(1) [OF sel] .
  from eligibleD [OF claim_selectD(2) [OF sel]] r
  have el: "job_status j = JS_AVAILABLE" "attempt_count j < M"
      "run_status r = AR_QUEUED \<or> run_status r = AR_RUNNING" by (metis option.inject)+
  have rid: "run_id r = job_run_id j" using load_runD [OF r] by simp
  have runs': "runs ?db' = (if run_status r = AR_QUEUED
      then runs (upd_run (job_run_id j) (start_run t) db) else runs db)"
    by (simp add: claimed_db_def Let_def rid)
  have start: "run_id (start_run t x) = run_id x" "run_status (start_run t x) = AR_RUNNING" for x
    by (simp_all add: start_run_def)
  have load': "load_run ?db' k = (if run_status r = AR_QUEUED \<and> k = job_run_id j
      then map_option (start_run t) (load_run db k) else load_run db k)" for k
    using load_run_upd_run [of "start_run t" "job_run_id j" db k] start(1) runs'
    by (auto simp: load_run_def)
  have attempts': "attempts_of ?db' k = (if k = job_id j
      then attempts_of db k @ [new_attempt i j own t] else attempts_of db k)" for k
    by (auto simp: claimed_db_def Let_def attempts_of_def)
  have "attempts_of db (job_id j) = [] \<or>
      list_all (\<lambda>a. attempt_status a = JA_FAILED) (attempts_of db (job_id j))"
    using jobs_invD(6) [OF inv j] el(1)
    by (cases "attempts_of db (job_id j)" rule: rev_cases) (auto simp: job_with_attempts_ok_def)
  then have ok: "job_with_attempts_ok M (lease_job own t n j) (attempts_of ?db' (job_id j))"
    using jobs_invD(6) [OF inv j] el own by (auto simp: attempts' job_with_attempts_ok_def)
  show ?thesis
  proof (rule jobs_inv_one_job [OF inv j, where f = "lease_job own t n"])
    show "runs_advance db ?db'"
      using start runs' load' by (auto simp: runs_advance_def map_key_update_where)
    show "distinct (map attempt_id (attempts ?db'))"
      using jobs_invD(3) [OF inv] fresh by (simp add: claimed_db_def Let_def)
    show "attempt_job_id a \<in> job_id ` set (jobs db)" if "a \<in> set (attempts ?db')" for a
      using that jobs_invD(5) [OF inv] j by (auto simp: claimed_db_def Let_def split: if_splits)
  qed (use ok attempts' load' r el start in \<open>auto simp: claimed_db_def Let_def\<close>)
qed

lemma claim_inv:
  assumes "jobs_inv M db" and "claim_next_eligible_job locked i db own now M n = Inr (res, db')"
    and "i \<notin> attempt_id ` set (attempts db)"
  shows "jobs_inv M db'"
  using claim_Inr [OF assms(2)] claimed_inv [OF assms(1) _ _ _ assms(3)] assms(1) by metis

end
