(* ===== verification/JobSystem.thy ===== *)
theory JobSystem
  imports JobInvariant
begin

text \<open>
  The job queue as a system: its steps are the five operations of \<open>jobs.py\<close>, each at any time and
  by any caller, and what the rest of the service does to the same tables (enqueue, create a run,
  commit a run step, move a run along the lifecycle table). The interpretation of
  \<open>invariant_system\<close> makes \<open>jobs_inv\<close> an invariant of every reachable state; the properties of
  the queue rest on it.
\<close>

section \<open>What one operation does to the rows\<close>

text \<open>The documented job-status graph (\<open>LIFECYCLE_AND_ERRORS.md\<close>, section 2.7.1).\<close>

definition documented_job_transitions :: "(job_status \<times> job_status) list" where
  "documented_job_transitions =
     [(JS_AVAILABLE, JS_LEASED), (JS_LEASED, JS_AVAILABLE), (JS_LEASED, JS_COMPLETED),
      (JS_LEASED, JS_FAILED), (JS_LEASED, JS_RECONCILIATION_REQUIRED)]"

definition job_row_moves :: "job \<Rightarrow> job \<Rightarrow> bool" where
  "job_row_moves j j' =
     (j' = j \<or>
      (job_id j' = job_id j \<and> job_run_id j' = job_run_id j \<and> job_step_key j' = job_step_key j \<and>
       attempt_count j' = attempt_count j + (if job_status j = JS_AVAILABLE then 1 else 0) \<and>
       ((job_status j = JS_LEASED \<and> job_status j' = JS_LEASED) \<or>
        (job_status j, job_status j') \<in> set documented_job_transitions)))"

definition run_row_moves :: "analysis_run \<Rightarrow> analysis_run \<Rightarrow> bool" where
  "run_row_moves r r' = (r' = r \<or> (run_id r' = run_id r \<and>
     (\<exists>c. is_legal_analysis_run_transition (run_status r) (run_status r') c)))"

definition job_rows_move :: "job_db \<Rightarrow> job_db \<Rightarrow> bool" where
  "job_rows_move db db' =
     ((\<forall>k j. load_job db k = Some j \<longrightarrow> (\<exists>j'. load_job db' k = Some j' \<and> job_row_moves j j')) \<and>
      (\<forall>k r. load_run db k = Some r \<longrightarrow> (\<exists>r'. load_run db' k = Some r' \<and> run_row_moves r r')))"

lemma job_row_moves_refl [simp]: "job_row_moves j j" "run_row_moves r r"
  by (simp_all add: job_row_moves_def run_row_moves_def)

lemma run_row_moves_failed [simp]:
  "run_status r = AR_RUNNING \<Longrightarrow> run_row_moves r (fail_run t c r)"
  by (auto simp: run_row_moves_def analysis_run_table)

lemma run_row_moves_start [simp]:
  "run_status r = AR_QUEUED \<Longrightarrow> run_row_moves r (start_run t r)"
  by (auto simp: run_row_moves_def analysis_run_table start_run_def)

lemma load_job_attempts [simp]:
  "load_job (upd_attempt i g db) k = load_job db k" "load_job (upd_run i h db) k = load_job db k"
  "load_job (db\<lparr>attempts := as\<rparr>) k = load_job db k"
  by (simp_all add: load_job_def)

lemma job_rows_move_one:
  assumes j: "load_job db i = Some j" and f: "\<And>j. job_id (f j) = job_id j"
    and jobs': "\<And>k. load_job db' k = load_job (upd_job i f db) k"
    and moves: "job_row_moves j (f j)"
    and runs': "\<And>k r. load_run db k = Some r \<Longrightarrow> \<exists>r'. load_run db' k = Some r' \<and> run_row_moves r r'"
  shows "job_rows_move db db'"
  using j moves runs' by (auto simp: job_rows_move_def jobs' load_job_upd [OF f])

lemma heartbeat_moves:
  assumes "heartbeat_job db i own now n = Inr db'"
  shows "job_rows_move db db'"
proof -
  from assms obtain t where t: "holds_lease db i own t"
      and db': "db' = upd_job i (set_lease_fields own t n) db" by (auto simp: heartbeat_Inr)
  obtain j where "load_job db i = Some j" "job_status j = JS_LEASED" by (rule holds_leaseD [OF t])
  then show ?thesis
    by (intro job_rows_move_one [where f = "set_lease_fields own t n"])
      (auto simp: db' job_row_moves_def)
qed

lemma complete_moves:
  assumes "complete_job db i own now = Inr db'"
  shows "job_rows_move db db'"
proof -
  from assms obtain t a where t: "holds_lease db i own t" and db': "db' = completed_db db i a t"
    by (auto simp: complete_Inr)
  obtain j where "load_job db i = Some j" "job_status j = JS_LEASED" by (rule holds_leaseD [OF t])
  then show ?thesis
    by (intro job_rows_move_one [where f = "\<lambda>j. clear_lease_fields
          (j\<lparr>job_status := JS_COMPLETED, last_error_code := None\<rparr>)"])
      (auto simp: db' completed_db_def job_row_moves_def documented_job_transitions_def load_job_upd)
qed

lemma set_run_moves:
  assumes "load_run db i = Some r" and "run_row_moves r r'" and "run_id r' = run_id r"
    and "load_run db k = Some r1"
  shows "\<exists>r2. load_run (upd_run (run_id r) (\<lambda>_. r') db) k = Some r2 \<and> run_row_moves r1 r2"
  using assms load_run_set_run [OF assms(1), of r'] load_runD [OF assms(1)]
  by (cases "k = i") auto

lemma record_failure_moves:
  assumes "record_job_failure db i own now code b M deadline nxt = Inr db'"
  shows "job_rows_move db db'"
proof (rule record_failure_Inr [OF assms])
  fix t d j a
  assume lease: "holds_lease db i own t" and load: "load_job db i = Some j"
    and res: "if b \<and> attempt_count j < M \<and> deadline_allows_retry t d
      then \<exists>nx. validate_retry_schedule t nxt d = Inr nx \<and> db' = retried_db db i a code b t nx
      else \<exists>r. load_run db (job_run_id j) = Some r \<and>
        db' = (if run_status r = AR_RUNNING
          then upd_run (run_id r) (\<lambda>_. fail_run t (terminal_run_error_code code b
            (attempt_count j < M) (deadline_allows_retry t d)) r) (failed_db db i a code b t)
          else failed_db db i a code b t)"
  have leased: "job_status j = JS_LEASED" using holds_leaseD [OF lease] load by auto
  have again: "job_rows_move db (retried_db db i a code b t nx)" for nx
    using load leased
    by (intro job_rows_move_one [where f = "\<lambda>j. clear_lease_fields
          (j\<lparr>last_error_code := Some code, job_status := JS_AVAILABLE, available_at := nx\<rparr>)"])
      (auto simp: retried_db_def job_row_moves_def documented_job_transitions_def load_job_upd)
  have failed: "job_rows_move db db1"
    if "\<And>k. load_job db1 k = load_job (failed_db db i a code b t) k"
      "\<And>k r. load_run db k = Some r \<Longrightarrow> \<exists>r'. load_run db1 k = Some r' \<and> run_row_moves r r'" for db1
    using load leased that
    by (intro job_rows_move_one [where f = "\<lambda>j. clear_lease_fields
          (j\<lparr>last_error_code := Some code, job_status := JS_FAILED\<rparr>)"])
      (auto simp: failed_db_def job_row_moves_def documented_job_transitions_def load_job_upd)
  show "job_rows_move db db'"
  proof (cases "b \<and> attempt_count j < M \<and> deadline_allows_retry t d")
    case True
    with res again show ?thesis by auto
  next
    case False
    with res obtain r where r: "load_run (failed_db db i a code b t) (job_run_id j) = Some r"
        and db': "db' = (if run_status r = AR_RUNNING
          then upd_run (run_id r) (\<lambda>_. fail_run t (terminal_run_error_code code b
            (attempt_count j < M) (deadline_allows_retry t d)) r) (failed_db db i a code b t)
          else failed_db db i a code b t)" by (metis load_run_failed_db(1))
    show ?thesis
      using set_run_moves [OF r, of "fail_run t c r" for c]
      by (intro failed) (auto simp: db')
  qed
qed

lemma claimed_moves:
  assumes "claim_select locked db t M = Some j" and inv: "jobs_inv M db"
    and r: "load_run db (job_run_id j) = Some r"
  shows "job_rows_move db (claimed_db db i j r own t n)"
proof -
  have j: "j \<in> set (jobs db)" using claim_selectD(1) [OF assms(1)] .
  have av: "job_status j = JS_AVAILABLE" using eligibleD [OF claim_selectD(2) [OF assms(1)]] .
  have rid: "run_id r = job_run_id j" using load_runD [OF r] by simp
  have start: "run_id (start_run t x) = run_id x" for x by (simp add: start_run_def)
  show ?thesis
  proof (rule job_rows_move_one [where f = "lease_job own t n"])
    show "load_job db (job_id j) = Some j" by (rule load_job_unique [OF jobs_invD(2) [OF inv] j])
    show "\<exists>r'. load_run (claimed_db db i j r own t n) k = Some r' \<and> run_row_moves r1 r'"
      if "load_run db k = Some r1" for k r1
      using that r rid load_run_upd_run [of "start_run t" "job_run_id j" db k, OF start]
      by (auto simp: claimed_db_def Let_def)
  qed (use av in \<open>auto simp: claimed_db_def Let_def job_row_moves_def
    documented_job_transitions_def load_job_def\<close>)
qed

lemma claim_moves:
  assumes "jobs_inv M db" and "claim_next_eligible_job locked i db own now M n = Inr (res, db')"
  shows "job_rows_move db db'"
  using claim_Inr [OF assms(2)] claimed_moves [OF _ assms(1)]
  by (metis job_rows_move_def job_row_moves_refl)

section \<open>The recovery loop\<close>

lemma load_job_recovered:
  "load_job (recovered_db db j a r now M) k =
     (if k = job_id j then map_option (recovered_job (recovery_target
        (has_completed_run_step db (job_run_id j) (job_step_key j)) (run_status r)
        (step_idempotent j) (M \<le> attempt_count j)) now) (load_job db k)
      else load_job db k)"
  by (simp add: recovered_db_def Let_def load_job_upd)

lemma recovered_moves:
  assumes "load_job db (job_id j) = Some j" and "job_status j = JS_LEASED"
    and r: "load_run db (job_run_id j) = Some r"
  shows "job_rows_move db (recovered_db db j a r now M)"
proof -
  define s where "s = recovery_target (has_completed_run_step db (job_run_id j) (job_step_key j))
    (run_status r) (step_idempotent j) (M \<le> attempt_count j)"
  have s: "s \<noteq> JS_LEASED" "s \<noteq> JS_COMPLETED" by (simp_all add: s_def)
  have doc: "(JS_LEASED, s) \<in> set documented_job_transitions"
    using s by (cases s) (simp_all add: documented_job_transitions_def)
  let ?g = "upd_job (job_id j) (recovered_job s now)
    (upd_attempt (attempt_id a) (fail_attempt now ERROR_JOB_LEASE_LOST True) db)"
  have r': "load_run ?g (job_run_id j) = Some r" using r by simp
  show ?thesis
  proof (rule job_rows_move_one [where f = "recovered_job s now"])
    show "load_job (recovered_db db j a r now M) k =
        load_job (upd_job (job_id j) (recovered_job s now) db) k" for k
      by (simp add: load_job_recovered load_job_upd s_def)
    show "job_row_moves j (recovered_job s now j)"
      using assms(2) doc by (simp add: job_row_moves_def)
    show "\<exists>r'. load_run (recovered_db db j a r now M) k = Some r' \<and> run_row_moves r1 r'"
      if "load_run db k = Some r1" for k r1
      using that set_run_moves [OF r', of "fail_run now c r" for c]
      unfolding recovered_db_def Let_def s_def [symmetric] by auto
  qed (use assms in auto)
qed

definition expired_rows :: "job_db \<Rightarrow> instant \<Rightarrow> job list \<Rightarrow> bool" where
  "expired_rows db now js =
     (distinct (map job_id js) \<and>
      (\<forall>j \<in> set js. load_job db (job_id j) = Some j \<and> job_status j = JS_LEASED \<and>
         lease_is_expired (lease_expires_at j) now))"

lemma recover_next_step:
  assumes inv: "jobs_inv M db" and js: "expired_rows db now (j # js)"
  obtains db' where "recover_next now M (db, done) j = Inr (db', done @ [job_id j])"
    and "jobs_inv M db'" and "expired_rows db' now js" and "job_rows_move db db'"
    and "\<And>k. k \<noteq> job_id j \<Longrightarrow> load_job db' k = load_job db k"
    and "\<And>j'. load_job db' (job_id j) = Some j' \<Longrightarrow> job_status j' \<noteq> JS_LEASED"
proof -
  from js have j: "load_job db (job_id j) = Some j" "job_status j = JS_LEASED"
      "lease_is_expired (lease_expires_at j) now" by (simp_all add: expired_rows_def)
  have mem: "j \<in> set (jobs db)" using load_jobD [OF j(1)] by simp
  obtain a r where ar: "load_active_attempt db (job_id j) = Some a"
      "load_run db (job_run_id j) = Some r" "run_status r \<noteq> AR_QUEUED"
      and single: "recover_single_expired_job db j now M = Inr (recovered_db db j a r now M)"
    by (rule recover_single_table [OF inv mem j(2,3)])
  let ?db' = "recovered_db db j a r now M"
  have others: "load_job ?db' k = load_job db k" if "k \<noteq> job_id j" for k
    using that by (simp add: load_job_recovered)
  have not_leased: "job_status j' \<noteq> JS_LEASED" if "load_job ?db' (job_id j) = Some j'" for j'
    using that j(1) by (auto simp: load_job_recovered)
  have "recover_next now M (db, done) j = Inr (?db', done @ [job_id j])"
    using single not_leased by (auto simp: recover_next_def split: option.splits)
  moreover have "jobs_inv M ?db'" by (rule recovered_inv [OF inv mem j(2) ar])
  moreover have "expired_rows ?db' now js"
    using js others unfolding expired_rows_def
    by (metis distinct.simps(2) image_eqI list.set_intros(2) list.simps(9) set_map)
  moreover have "job_rows_move db ?db'" by (rule recovered_moves [OF j(1,2) ar(2)])
  ultimately show ?thesis using others not_leased that by blast
qed

lemma recovery_loop:
  assumes "jobs_inv M db" and "expired_rows db now js"
  shows "\<exists>db'. foldR (recover_next now M) (db, done) js = Inr (db', done @ map job_id js) \<and>
    jobs_inv M db' \<and> steps_to job_rows_move db db' \<and>
    (\<forall>k. k \<notin> set (map job_id js) \<longrightarrow> load_job db' k = load_job db k) \<and>
    (\<forall>k \<in> set (map job_id js). \<forall>j'. load_job db' k = Some j' \<longrightarrow> job_status j' \<noteq> JS_LEASED)"
  using assms
proof (induction js rule: rev_induct)
  case Nil
  then show ?case by (auto intro: steps_refl)
next
  case (snoc j js)
  have "expired_rows db now js" using snoc.prems(2) by (auto simp: expired_rows_def)
  from snoc.IH [OF snoc.prems(1) this] obtain db1
    where db1: "foldR (recover_next now M) (db, done) js = Inr (db1, done @ map job_id js)"
      "jobs_inv M db1" "steps_to job_rows_move db db1"
      "\<forall>k. k \<notin> set (map job_id js) \<longrightarrow> load_job db1 k = load_job db k"
      "\<forall>k \<in> set (map job_id js). \<forall>j'. load_job db1 k = Some j' \<longrightarrow> job_status j' \<noteq> JS_LEASED"
    by blast
  have new: "job_id j \<notin> set (map job_id js)" and "expired_rows db1 now [j]"
    using snoc.prems(2) db1(4) by (auto simp: expired_rows_def)
  from recover_next_step [OF db1(2) this(2), of "done @ map job_id js"] obtain db2
    where db2: "recover_next now M (db1, done @ map job_id js) j =
        Inr (db2, (done @ map job_id js) @ [job_id j])"
      "jobs_inv M db2" "job_rows_move db1 db2"
      "\<And>k. k \<noteq> job_id j \<Longrightarrow> load_job db2 k = load_job db1 k"
      "\<And>j'. load_job db2 (job_id j) = Some j' \<Longrightarrow> job_status j' \<noteq> JS_LEASED" by metis
  have "foldR (recover_next now M) (db, done) (js @ [j]) = Inr (db2, done @ map job_id (js @ [j]))"
    by (simp add: foldR_append db1(1) db2(1))
  moreover have "steps_to job_rows_move db db2" by (rule steps_more [OF db1(3) db2(3)])
  moreover have "\<forall>k. k \<notin> set (map job_id (js @ [j])) \<longrightarrow> load_job db2 k = load_job db k"
    using db1(4) db2(4) by auto
  moreover have "\<forall>k \<in> set (map job_id (js @ [j])). \<forall>j'. load_job db2 k = Some j' \<longrightarrow>
      job_status j' \<noteq> JS_LEASED"
    using db1(5) db2(4,5) by (metis (no_types, lifting) Un_iff list.simps(8,9) set_append
      set_ConsD empty_iff empty_set map_append)
  ultimately show ?case using db2(2) by blast
qed

lemma recover_select_expired:
  assumes "jobs_inv M db"
  shows "expired_rows db now (recover_select locked db now n)"
proof -
  let ?k = "\<lambda>j. (the (lease_expires_at j), job_id j)"
  let ?c = "filter (\<lambda>j. job_status j = JS_LEASED \<and> lease_expires_at j \<noteq> None \<and>
    the (lease_expires_at j) \<le> now \<and> \<not> locked (job_id j)) (jobs db)"
  have "distinct (map job_id ?c)" using jobs_invD(2) [OF assms] by (simp add: distinct_map_filter)
  then have "distinct (map job_id (sort_key ?k ?c))"
    by (simp only: distinct_map_sort_key)
  then have "distinct (map job_id (recover_select locked db now n))"
    by (simp add: recover_select_def take_map [symmetric])
  moreover have "load_job db (job_id j) = Some j \<and> job_status j = JS_LEASED \<and>
      lease_is_expired (lease_expires_at j) now"
    if "j \<in> set (recover_select locked db now n)" for j
  proof -
    have "j \<in> set ?c" using that set_take_subset by (fastforce simp: recover_select_def)
    then show ?thesis
      using load_job_unique [OF jobs_invD(2) [OF assms]] by (auto simp: lease_is_expired_def)
  qed
  ultimately show ?thesis by (simp add: expired_rows_def)
qed

lemma recover_expired_total:
  assumes inv: "jobs_inv M db" and n: "1 \<le> n"
  obtains db' where "recover_expired_leases locked db (Aware t) M n =
      Inr (db', map job_id (recover_select locked db t n))"
    and "jobs_inv M db'" and "steps_to job_rows_move db db'"
    and "\<And>k. k \<notin> set (map job_id (recover_select locked db t n)) \<Longrightarrow>
      load_job db' k = load_job db k"
    and "\<And>k j'. k \<in> set (map job_id (recover_select locked db t n)) \<Longrightarrow>
      load_job db' k = Some j' \<Longrightarrow> job_status j' \<noteq> JS_LEASED"
proof -
  from recovery_loop [OF inv recover_select_expired [OF inv, of t locked n], of "[]"] obtain db'
    where "foldR (recover_next t M) (db, []) (recover_select locked db t n) =
        Inr (db', map job_id (recover_select locked db t n))"
      and rest: "jobs_inv M db'" "steps_to job_rows_move db db'"
        "\<And>k. k \<notin> set (map job_id (recover_select locked db t n)) \<Longrightarrow>
          load_job db' k = load_job db k"
        "\<And>k j'. k \<in> set (map job_id (recover_select locked db t n)) \<Longrightarrow>
          load_job db' k = Some j' \<Longrightarrow> job_status j' \<noteq> JS_LEASED"
    by auto
  then have "recover_expired_leases locked db (Aware t) M n =
      Inr (db', map job_id (recover_select locked db t n))"
    using jobs_invD(1) [OF inv] n by (simp add: recover_expired_leases_def require_positive_int_def)
  with rest that show ?thesis by blast
qed

section \<open>The system\<close>

definition job_start :: "int \<Rightarrow> job_db \<Rightarrow> bool" where
  "job_start M db = (1 \<le> M \<and> jobs db = [] \<and> attempts db = [] \<and> distinct (map run_id (runs db)))"

definition enqueued :: "job \<Rightarrow> bool" where
  "enqueued j = (job_status j = JS_AVAILABLE \<and> attempt_count j = 0 \<and> lease_owner j = None \<and>
     lease_expires_at j = None \<and> heartbeat_at j = None)"

text \<open>
  The configured attempt budget \<open>M\<close> is the same for every caller. The last four rules are the rest
  of the service: a run is created, a job is enqueued for it, a run step is committed, and a run
  is moved by an authorized cancellation, a policy decision or the commit of its outputs.
\<close>

inductive job_step :: "int \<Rightarrow> job_db \<Rightarrow> job_db \<Rightarrow> bool" for M :: int where
  step_claim: "i \<notin> attempt_id ` set (attempts db) \<Longrightarrow>
    claim_next_eligible_job locked i db own now M n = Inr (res, db') \<Longrightarrow> job_step M db db'"
| step_heartbeat: "heartbeat_job db i own now n = Inr db' \<Longrightarrow> job_step M db db'"
| step_complete: "complete_job db i own now = Inr db' \<Longrightarrow> job_step M db db'"
| step_failure: "record_job_failure db i own now code b M deadline nxt = Inr db' \<Longrightarrow>
    job_step M db db'"
| step_recover: "recover_expired_leases locked db now M n = Inr (db', ids) \<Longrightarrow> job_step M db db'"
| step_new_run: "run_id r \<notin> run_id ` set (runs db) \<Longrightarrow>
    job_step M db (db\<lparr>runs := runs db @ [r]\<rparr>)"
| step_enqueue: "job_id j \<notin> job_id ` set (jobs db) \<Longrightarrow> enqueued j \<Longrightarrow>
    load_run db (job_run_id j) \<noteq> None \<Longrightarrow> job_step M db (db\<lparr>jobs := jobs db @ [j]\<rparr>)"
| step_run_step: "job_step M db (db\<lparr>run_steps := s # run_steps db\<rparr>)"
| step_run_moves: "load_run db i = Some r \<Longrightarrow> run_id r' = i \<Longrightarrow>
    is_legal_analysis_run_transition (run_status r) (run_status r') c \<Longrightarrow>
    job_step M db (upd_run i (\<lambda>_. r') db)"

inductive_cases job_stepE: "job_step M db db'"

lemma not_into_queued: "\<not> is_legal_analysis_run_transition s AR_QUEUED c"
  by (auto simp: analysis_run_table)

lemma recover_expired_Inr:
  assumes "recover_expired_leases locked db now M n = Inr res"
  obtains t where "now = Aware t" and "1 \<le> n"
  using assms by (auto simp: recover_expired_leases_def bindR_eq_Inr job_error_simps)

lemma recover_inv:
  assumes inv: "jobs_inv M db" and op: "recover_expired_leases locked db now M n = Inr (db', ids)"
  shows "jobs_inv M db' \<and> steps_to job_rows_move db db'"
proof -
  obtain t where t: "now = Aware t" "1 \<le> n" by (rule recover_expired_Inr [OF op])
  show ?thesis
    by (rule recover_expired_total [OF inv t(2), of locked t]) (use op t(1) in simp)
qed

lemma new_run_inv:
  assumes "jobs_inv M db" and "run_id r \<notin> run_id ` set (runs db)"
  shows "jobs_inv M (db\<lparr>runs := runs db @ [r]\<rparr>)"
proof -
  have "job_run_ok (db\<lparr>runs := runs db @ [r]\<rparr>) j" if "j \<in> set (jobs db)" for j
    using jobs_invD(7) [OF assms(1) that]
    by (auto simp: job_run_ok_def load_run_def find_append split: option.splits)
  then show ?thesis using assms by (simp add: jobs_inv_def)
qed

lemma enqueue_inv:
  assumes inv: "jobs_inv M db" and new: "job_id j \<notin> job_id ` set (jobs db)" and j: "enqueued j"
    and run: "load_run db (job_run_id j) \<noteq> None"
  shows "jobs_inv M (db\<lparr>jobs := jobs db @ [j]\<rparr>)"
proof -
  have "attempts_of db (job_id j) = []"
    using jobs_invD(5) [OF inv] new unfolding attempts_of_def filter_empty_conv by metis
  then have "job_with_attempts_ok M j (attempts_of db (job_id j))"
    using j jobs_invD(1) [OF inv]
    by (auto simp: job_with_attempts_ok_def enqueued_def lease_fields_ok_def)
  moreover have "job_run_ok (db\<lparr>jobs := jobs db @ [j]\<rparr>) k = job_run_ok db k" for k
    by (simp add: job_run_ok_def)
  moreover have "job_run_ok db j" using run j by (auto simp: job_run_ok_def enqueued_def)
  ultimately show ?thesis using inv new by (auto simp: jobs_inv_def)
qed

lemma job_step_inv: "job_step M db db' \<Longrightarrow> jobs_inv M db \<Longrightarrow> jobs_inv M db'"
proof (induction rule: job_step.induct)
  case (step_run_step db s)
  then show ?case by (simp add: jobs_inv_def job_run_ok_def)
next
  case (step_run_moves db i r r' c)
  then show ?case using not_into_queued by (metis jobs_inv_set_run)
qed (metis claim_inv heartbeat_inv complete_inv record_failure_inv recover_inv new_run_inv
  enqueue_inv)+

interpretation job_queue: invariant_system "job_start M" "job_step M" "jobs_inv M" for M
proof unfold_locales
  fix db assume "job_start M db"
  then show "jobs_inv M db" by (simp add: job_start_def jobs_inv_def)
qed (rule job_step_inv)

text \<open>Every step moves the rows along the documented graphs.\<close>

lemma job_step_moves:
  "job_step M db db' \<Longrightarrow> jobs_inv M db \<Longrightarrow> steps_to job_rows_move db db'"
proof (induction rule: job_step.induct)
  case (step_claim i db locked own now n res db')
  then show ?case using claim_moves by (metis steps_refl steps_more)
next
  case (step_heartbeat db i own now n db')
  then show ?case using heartbeat_moves by (metis steps_refl steps_more)
next
  case (step_complete db i own now db')
  then show ?case using complete_moves by (metis steps_refl steps_more)
next
  case (step_failure db i own now code b deadline nxt db')
  then show ?case using record_failure_moves by (metis steps_refl steps_more)
next
  case (step_recover locked db now n db' ids)
  then show ?case using recover_inv by metis
next
  case (step_new_run r db)
  have "job_rows_move db (db\<lparr>runs := runs db @ [r]\<rparr>)"
    by (auto simp: job_rows_move_def load_job_def load_run_def find_append split: option.splits)
  then show ?case by (metis steps_refl steps_more)
next
  case (step_enqueue j db)
  have "job_rows_move db (db\<lparr>jobs := jobs db @ [j]\<rparr>)"
    by (auto simp: job_rows_move_def load_job_def load_run_def find_append split: option.splits)
  then show ?case by (metis steps_refl steps_more)
next
  case (step_run_step db s)
  have "job_rows_move db (db\<lparr>run_steps := s # run_steps db\<rparr>)"
    by (auto simp: job_rows_move_def load_job_def load_run_def)
  then show ?case by (metis steps_refl steps_more)
next
  case (step_run_moves db i r r' c)
  then have "job_rows_move db (upd_run i (\<lambda>_. r') db)"
    using load_run_set_run [OF step_run_moves.hyps(1,2)] load_runD [OF step_run_moves.hyps(1)]
    by (auto simp: job_rows_move_def run_row_moves_def load_job_def)
  then show ?case by (metis steps_refl steps_more)
qed

end
