(* ===== verification/JobProperties.thy ===== *)
theory JobProperties
  imports JobSystem
begin

text \<open>
  The properties of the job queue: who may write to a leased job, which job a claim takes, what
  recovery and failure do, and that finished jobs rest. Each is stated over the operations of
  \<open>Jobs\<close> and the reachable states of \<open>JobSystem\<close>; the small tables below are the witnesses' data.
\<close>

section \<open>Concrete tables\<close>

definition demo_run :: analysis_run where
  "demo_run = \<lparr>run_id = 7, run_status = AR_QUEUED, run_started_at = None, run_completed_at = None,
     run_error_code = None, run_error_retryable = None, llm_call_count = 0\<rparr>"

definition demo_job :: "uuid \<Rightarrow> job" where
  "demo_job i = \<lparr>job_id = i, job_run_id = 7, job_step_key = ''analyze'', step_idempotent = True,
     job_status = JS_AVAILABLE, attempt_count = 0, available_at = 100, lease_owner = None,
     lease_expires_at = None, heartbeat_at = None, last_error_code = None\<rparr>"

definition demo_start :: job_db where
  "demo_start = \<lparr>jobs = [], attempts = [], runs = [demo_run], run_steps = []\<rparr>"

definition demo_queued :: job_db where
  "demo_queued = demo_start\<lparr>jobs := [demo_job 1]\<rparr>"

definition demo_leased :: job_db where
  "demo_leased = claimed_db demo_queued 50 (demo_job 1) demo_run ''worker-a'' 200 300"

lemmas demo_defs = demo_run_def demo_job_def demo_start_def demo_queued_def

lemma demo_claim:
  "claim_next_eligible_job (\<lambda>_. False) 50 demo_queued ''worker-a'' (Aware 200) 2 300 =
     Inr (Some (claim_result 50 (demo_job 1) demo_run ''worker-a'' 200 300), demo_leased)"
  by (simp add: claim_next_eligible_job_def demo_leased_def claimed_db_def claim_result_def
    claim_select_def eligible_def load_run_def has_completed_run_step_def demo_defs
    require_positive_int_def require_lease_owner_def Let_def analysis_run_table
    require_analysis_run_transition_def)

lemma demo_queued_reachable: "reachable_from (job_start 2) (job_step 2) demo_queued"
proof -
  have "job_step 2 demo_start (demo_start\<lparr>jobs := jobs demo_start @ [demo_job 1]\<rparr>)"
    by (rule step_enqueue) (simp_all add: demo_defs enqueued_def load_run_def)
  moreover have "job_start 2 demo_start" by (simp add: demo_defs job_start_def)
  ultimately show ?thesis
    by (auto simp: demo_queued_def demo_start_def intro: reach_start reach_step)
qed

lemma demo_leased_reachable: "reachable_from (job_start 2) (job_step 2) demo_leased"
  by (rule reach_step [OF demo_queued_reachable], rule step_claim [OF _ demo_claim])
    (simp add: demo_defs)

definition demo_stepped :: job_db where
  "demo_stepped = demo_leased\<lparr>run_steps := [(7, ''analyze'')]\<rparr>"

definition demo_done :: job_db where
  "demo_done = completed_db demo_stepped 1 (new_attempt 50 (demo_job 1) ''worker-a'' 200) 260"

lemmas demo_lease_defs = demo_defs demo_leased_def claimed_db_def lease_job_def set_lease_fields_def
  start_run_def new_attempt_def

lemma demo_complete: "complete_job demo_stepped 1 ''worker-a'' (Aware 260) = Inr demo_done"
  by (simp add: complete_Inr demo_done_def demo_stepped_def demo_lease_defs Let_def holds_lease_def
    load_job_def lease_is_expired_def has_completed_run_step_def load_active_attempt_def)

lemma demo_stepped_reachable: "reachable_from (job_start 2) (job_step 2) demo_stepped"
proof -
  have "run_steps demo_leased = []" by (simp add: demo_lease_defs Let_def)
  then have "job_step 2 demo_leased demo_stepped"
    using step_run_step [of 2 demo_leased "(7, ''analyze'')"] by (simp add: demo_stepped_def)
  then show ?thesis by (rule reach_step [OF demo_leased_reachable])
qed

lemma demo_done_reachable: "reachable_from (job_start 2) (job_step 2) demo_done"
  by (rule reach_step [OF demo_stepped_reachable step_complete [OF demo_complete]])

lemma demo_done_job:
  "\<exists>j. load_job demo_done 1 = Some j \<and> job_status j = JS_COMPLETED"
  by (simp add: demo_done_def completed_db_def demo_stepped_def demo_lease_defs Let_def load_job_def
    clear_lease_fields_def)

section \<open>The invariant\<close>



lemma lease_exclusive_facts:
  assumes "reachable_from (job_start M) (job_step M) db" and "load_job db i = Some j"
  shows "filter (\<lambda>a. attempt_status a = JA_ACTIVE) (attempts_of db i) =
      (if job_status j = JS_LEASED then [last (attempts_of db i)] else [])"
    and "job_status j = JS_LEASED \<Longrightarrow>
      lease_owner j = Some (attempt_lease_owner (last (attempts_of db i)))"
proof -
  have j: "j \<in> set (jobs db)" "job_id j = i" using load_jobD [OF assms(2)] by auto
  have ok: "job_with_attempts_ok M j (attempts_of db i)"
    using jobs_invD(6) [OF job_queue.reachable_inv [OF assms(1)] j(1)] j(2) by simp
  show "filter (\<lambda>a. attempt_status a = JA_ACTIVE) (attempts_of db i) =
      (if job_status j = JS_LEASED then [last (attempts_of db i)] else [])"
  proof (cases "job_status j = JS_LEASED")
    case True
    from leased_attempts [OF ok True] obtain bs a where "attempts_of db i = bs @ [a]"
      "attempt_status a = JA_ACTIVE" "list_all (\<lambda>a. attempt_status a = JA_FAILED) bs" by metis
    then show ?thesis using True by (auto simp: list_all_iff filter_empty_conv)
  next
    case False
    then show ?thesis
      using unleased_attempts [OF ok False] by (auto simp: filter_empty_conv find_None_iff)
  qed
  show "job_status j = JS_LEASED \<Longrightarrow>
      lease_owner j = Some (attempt_lease_owner (last (attempts_of db i)))"
    using ok by (auto simp: job_with_attempts_ok_def split: if_splits)
qed

text \<open>C7: A lease is exclusive: in every reachable state the active attempts of a job are its last
  attempt alone when the job is leased, made by the owner of the lease, and none otherwise.\<close>

theorem lease_is_exclusive:
  assumes "reachable_from (job_start M) (job_step M) db" and "load_job db i = Some j"
  shows "if job_status j = JS_LEASED
    then \<exists>bs a. attempts_of db i = bs @ [a] \<and> lease_owner j = Some (attempt_lease_owner a) \<and>
      filter (\<lambda>a. attempt_status a = JA_ACTIVE) (attempts_of db i) = [a]
    else filter (\<lambda>a. attempt_status a = JA_ACTIVE) (attempts_of db i) = []"
proof (cases "job_status j = JS_LEASED")
  case True
  then have act: "filter (\<lambda>a. attempt_status a = JA_ACTIVE) (attempts_of db i) = [last (attempts_of db i)]"
    using lease_exclusive_facts(1) [OF assms] by simp
  then have "attempts_of db i \<noteq> []" by (metis filter.simps(1) list.distinct(1))
  then show ?thesis
    using act lease_exclusive_facts(2) [OF assms True] True by (metis append_butlast_last_id)
next
  case False
  then show ?thesis using lease_exclusive_facts(1) [OF assms] by simp
qed

theorem lease_is_exclusive_witness:
  "length (filter (\<lambda>a. attempt_status a = JA_ACTIVE) (attempts_of demo_leased 1)) = 1"
proof -
  have "load_job demo_leased 1 = Some (lease_job ''worker-a'' 200 300 (demo_job 1))"
    by (simp add: load_job_def demo_leased_def claimed_db_def demo_defs Let_def)
  from lease_is_exclusive [OF demo_leased_reachable this] show ?thesis by auto
qed

section \<open>Fencing\<close>

lemma fencing_facts:
  assumes "\<not> holds_lease db i own t" and "own \<noteq> []" and "length own \<le> 255" and "1 \<le> n" and "1 \<le> M"
    and "error_code_pattern code" and "optional_aware_utc deadline ''run_deadline_at'' = Inr d"
  shows "heartbeat_job db i own (Aware t) n = Inl (JobLeaseLostError i)"
    and "complete_job db i own (Aware t) = Inl (JobLeaseLostError i)"
    and "record_job_failure db i own (Aware t) code b M deadline nxt = Inl (JobLeaseLostError i)"
proof -
  have lost: "assert_valid_lease j own t = Inl (JobLeaseLostError i)" if "load_job db i = Some j" for j
    using assms(1) that load_jobD [OF that]
    by (auto simp: holds_lease_def assert_valid_lease_def)
  show "heartbeat_job db i own (Aware t) n = Inl (JobLeaseLostError i)"
    using assms lost by (auto simp: heartbeat_job_def require_positive_int_def
      require_lease_owner_def split: option.splits)
  show "complete_job db i own (Aware t) = Inl (JobLeaseLostError i)"
    using assms lost by (auto simp: complete_job_def require_lease_owner_def split: option.splits)
  show "record_job_failure db i own (Aware t) code b M deadline nxt = Inl (JobLeaseLostError i)"
    using assms lost by (auto simp: record_job_failure_def require_positive_int_def
      require_lease_owner_def require_error_code_def split: option.splits)
qed

text \<open>C1: A caller that does not hold the unexpired lease of a job can neither extend, complete nor
  fail it: with well-formed arguments each of the three calls raises JobLeaseLostError for that
  job, whatever the tables are.\<close>

theorem lease_fencing:
  assumes "\<not> holds_lease db i own t" and "own \<noteq> []" and "length own \<le> 255" and "1 \<le> n" and "1 \<le> M"
    and "error_code_pattern code" and "optional_aware_utc deadline ''run_deadline_at'' = Inr d"
  shows "heartbeat_job db i own (Aware t) n = Inl (JobLeaseLostError i) \<and>
    complete_job db i own (Aware t) = Inl (JobLeaseLostError i) \<and>
    record_job_failure db i own (Aware t) code b M deadline nxt = Inl (JobLeaseLostError i)"
  using fencing_facts [OF assms] by simp

text \<open>The lease of worker-a, taken at 200 for 300 seconds, has run out at 300000200.\<close>

theorem lease_fencing_witness:
  "heartbeat_job demo_leased 1 ''worker-a'' (Aware 300000200) 300 = Inl (JobLeaseLostError 1) \<and>
   complete_job demo_leased 1 ''worker-b'' (Aware 300) = Inl (JobLeaseLostError 1)"
proof -
  have late: "\<not> holds_lease demo_leased 1 ''worker-a'' 300000200"
      and other: "\<not> holds_lease demo_leased 1 ''worker-b'' 300"
    by (simp_all add: holds_lease_def load_job_def demo_leased_def claimed_db_def demo_defs Let_def
      lease_job_def set_lease_fields_def lease_is_expired_def)
  have code: "error_code_pattern ''model_timeout''" by code_simp
  show ?thesis
    using lease_fencing [OF late _ _ _ _ code, of 300 1 None None]
      lease_fencing [OF other _ _ _ _ code, of 300 1 None None] by simp
qed

section \<open>Claim\<close>

text \<open>C3: A claim with well-formed arguments never raises on a reachable state. It returns nothing only
  if every eligible job is locked by another transaction, and then changes nothing; otherwise it
  takes the eligible unlocked job that is least by (available_at, job_id), the claimant holds its
  lease from then on, exactly one attempt is added, the run is running, and no other job changes.\<close>

theorem claim_takes_least_eligible:
  assumes reach: "reachable_from (job_start M) (job_step M) db"
    and args: "1 \<le> n" "own \<noteq> []" "length own \<le> 255"
  shows "\<exists>res db'. claim_next_eligible_job locked i db own (Aware t) M n = Inr (res, db') \<and>
    (case res of
       None \<Rightarrow> db' = db \<and> (\<forall>k \<in> set (jobs db). eligible db t M k \<longrightarrow> locked (job_id k))
     | Some c \<Rightarrow>
         (\<exists>j \<in> set (jobs db). eligible db t M j \<and> \<not> locked (job_id j) \<and>
            (\<forall>k \<in> set (jobs db). eligible db t M k \<and> \<not> locked (job_id k) \<longrightarrow>
               (available_at j, job_id j) \<le> (available_at k, job_id k)) \<and>
            load_job db' (job_id j) = Some (claimed_row c) \<and>
            holds_lease db' (job_id j) own t \<and>
            attempts db' = attempts db @ [claimed_attempt c] \<and>
            attempt_number (claimed_attempt c) = attempt_count j + 1 \<and>
            (\<exists>r. load_run db' (job_run_id j) = Some r \<and> run_status r = AR_RUNNING) \<and>
            (\<forall>k. k \<noteq> job_id j \<longrightarrow> load_job db' k = load_job db k)))"
proof (cases "claim_select locked db t M")
  case None
  have M: "1 \<le> M" using jobs_invD(1) [OF job_queue.reachable_inv [OF reach]] .
  then have "claim_next_eligible_job locked i db own (Aware t) M n = Inr (None, db)"
    using None args
    by (simp add: claim_next_eligible_job_def require_positive_int_def require_lease_owner_def)
  then show ?thesis using None by (auto simp: claim_select_None)
next
  case (Some j)
  note inv = job_queue.reachable_inv [OF reach]
  have j: "j \<in> set (jobs db)" using claim_selectD(1) [OF Some] .
  obtain r where r: "load_run db (job_run_id j) = Some r"
      "run_status r = AR_QUEUED \<or> run_status r = AR_RUNNING"
      and res: "claim_next_eligible_job locked i db own (Aware t) M n =
        Inr (Some (claim_result i j r own t n), claimed_db db i j r own t n)"
    by (rule claim_Some_eq [OF Some jobs_invD(1) [OF inv] args])
  let ?db' = "claimed_db db i j r own t n"
  have load: "load_job ?db' k = (if k = job_id j then Some (lease_job own t n j) else load_job db k)"
    for k using load_job_unique [OF jobs_invD(2) [OF inv] j]
    by (simp add: claimed_db_def Let_def load_job_upd)
  have "holds_lease ?db' (job_id j) own t"
    using args(1) by (simp add: holds_lease_def load lease_job_def set_lease_fields_def
      lease_is_expired_def)
  moreover have "\<exists>r'. load_run ?db' (job_run_id j) = Some r' \<and> run_status r' = AR_RUNNING"
    using r load_runD [OF r(1)]
      load_run_upd_run [of "start_run t" "job_run_id j" db "job_run_id j"]
    by (auto simp: claimed_db_def Let_def start_run_def)
  moreover have "attempts ?db' = attempts db @ [new_attempt i j own t]"
    by (simp add: claimed_db_def Let_def)
  ultimately show ?thesis
    using res load claim_selectD [OF Some] by (fastforce simp: claim_result_def)
qed

theorem claim_takes_least_eligible_witness:
  "\<exists>db'. claim_next_eligible_job (\<lambda>_. False) 50 demo_queued ''worker-a'' (Aware 200) 2 300 =
     Inr (Some (claim_result 50 (demo_job 1) demo_run ''worker-a'' 200 300), db') \<and>
     holds_lease db' 1 ''worker-a'' 200"
  using claim_takes_least_eligible [OF demo_queued_reachable, of 300 "''worker-a''"
    "\<lambda>_. False" 50 200] demo_claim
  by (auto simp: demo_queued_def demo_start_def demo_job_def)

section \<open>Completion\<close>

lemma succeeded_once:
  assumes "job_with_attempts_ok M j as" and "job_status j = JS_COMPLETED"
  shows "length (filter (\<lambda>a. attempt_status a = JA_SUCCEEDED) as) = 1"
proof (cases as rule: rev_cases)
  case (snoc bs a)
  then have "list_all (\<lambda>a. attempt_status a = JA_FAILED) bs" "attempt_status a = JA_SUCCEEDED"
    using assms by (auto simp: job_with_attempts_ok_def)
  then show ?thesis using snoc by (auto simp: list_all_iff filter_empty_conv)
qed (use assms in \<open>auto simp: job_with_attempts_ok_def\<close>)

lemma resting_row:
  "job_row_moves j j' \<Longrightarrow> job_status j \<notin> {JS_AVAILABLE, JS_LEASED} \<Longrightarrow> j' = j"
  by (auto simp: job_row_moves_def documented_job_transitions_def)

lemma resting_run:
  "run_row_moves r r' \<Longrightarrow> analysis_run_status_is_terminal (run_status r) \<Longrightarrow> r' = r"
  using ar.terminal_rests by (auto simp: run_row_moves_def)

lemma rows_move_rest:
  assumes "steps_to job_rows_move db db'"
  shows "load_job db i = Some j \<Longrightarrow> job_status j \<notin> {JS_AVAILABLE, JS_LEASED} \<Longrightarrow>
      load_job db' i = Some j"
    and "load_run db k = Some r \<Longrightarrow> analysis_run_status_is_terminal (run_status r) \<Longrightarrow>
      load_run db' k = Some r"
  using assms
proof (induction rule: steps_to.induct)
  case (steps_more db db1 db2)
  {
    case 1
    then show ?case using steps_more resting_row by (metis job_rows_move_def)
  next
    case 2
    then show ?case using steps_more resting_run by (metis job_rows_move_def)
  }
qed auto

lemma finished_rows:
  assumes "steps_to (job_step M) db db'" and "reachable_from (job_start M) (job_step M) db"
  shows "load_job db i = Some j \<Longrightarrow> job_status j \<notin> {JS_AVAILABLE, JS_LEASED} \<Longrightarrow>
      load_job db' i = Some j"
    and "load_run db k = Some r \<Longrightarrow> analysis_run_status_is_terminal (run_status r) \<Longrightarrow>
      load_run db' k = Some r"
  using job_queue.steps_stable [OF assms(1) job_queue.reachable_inv [OF assms(2)],
      of "\<lambda>db. load_job db i = Some j"]
    job_queue.steps_stable [OF assms(1) job_queue.reachable_inv [OF assms(2)],
      of "\<lambda>db. load_run db k = Some r"]
    job_step_moves rows_move_rest by (blast, blast)

text \<open>Finished work rests: once a job is completed, failed or reconciliation_required its row never
  changes again, and once a run is in a terminal state its row never changes again, whatever
  operations follow.\<close>

theorem finished_rows_rest:
  assumes "steps_to (job_step M) db db'" and "reachable_from (job_start M) (job_step M) db"
  shows "(load_job db i = Some j \<and> job_status j \<notin> {JS_AVAILABLE, JS_LEASED} \<longrightarrow>
      load_job db' i = Some j) \<and>
    (load_run db k = Some r \<and> analysis_run_status_is_terminal (run_status r) \<longrightarrow>
      load_run db' k = Some r)"
  using finished_rows [OF assms] by simp

text \<open>The completed job is still there after a second run has been created.\<close>

theorem finished_rows_rest_witness:
  "load_job (demo_done\<lparr>runs := runs demo_done @ [demo_run\<lparr>run_id := 8\<rparr>]\<rparr>) 1 = load_job demo_done 1"
proof -
  have "runs demo_done = [start_run 200 demo_run]"
    by (simp add: demo_done_def completed_db_def demo_stepped_def demo_leased_def claimed_db_def
      demo_defs Let_def)
  then have "job_step 2 demo_done (demo_done\<lparr>runs := runs demo_done @ [demo_run\<lparr>run_id := 8\<rparr>]\<rparr>)"
    by (intro step_new_run) (simp add: demo_run_def start_run_def)
  from finished_rows_rest [OF steps_one [where step = "job_step 2", OF this] demo_done_reachable, of 1]
  show ?thesis using demo_done_job by (metis insertE job_status.distinct(3) job_status.distinct(9) singletonD)
qed

text \<open>A job completes once: after a successful complete_job, in every later state the job is
  completed with exactly one succeeded attempt, and every further complete_job on it fails.\<close>

theorem job_completes_once:
  assumes reach: "reachable_from (job_start M) (job_step M) db"
    and op: "complete_job db i own now = Inr db'" and later: "steps_to (job_step M) db' db''"
  shows "(\<exists>j. load_job db'' i = Some j \<and> job_status j = JS_COMPLETED) \<and>
    length (filter (\<lambda>a. attempt_status a = JA_SUCCEEDED) (attempts_of db'' i)) = 1 \<and>
    (\<nexists>db3. complete_job db'' i own' now' = Inr db3)"
proof -
  have reach': "reachable_from (job_start M) (job_step M) db'"
    by (rule reach_step [OF reach step_complete [OF op]])
  from op obtain t a where t: "holds_lease db i own t" and db': "db' = completed_db db i a t"
    by (auto simp: complete_Inr)
  obtain j0 where "load_job db i = Some j0" by (rule holds_leaseD [OF t])
  then have "\<exists>j. load_job db' i = Some j \<and> job_status j = JS_COMPLETED"
    by (simp add: db' completed_db_def load_job_upd)
  then obtain j where j: "load_job db'' i = Some j" "job_status j = JS_COMPLETED"
    using finished_rows(1) [OF later reach', of i] by auto
  have inv: "jobs_inv M db''"
    by (rule job_queue.steps_inv [OF later job_queue.reachable_inv [OF reach']])
  have "job_with_attempts_ok M j (attempts_of db'' i)"
    using jobs_invD(6) [OF inv] load_jobD [OF j(1)] by auto
  then show ?thesis
    using j succeeded_once by (auto simp: complete_Inr holds_lease_def)
qed

theorem job_completes_once_witness:
  "\<nexists>db. complete_job demo_done 1 ''worker-a'' (Aware 261) = Inr db"
  using job_completes_once [OF demo_stepped_reachable demo_complete steps_refl] by blast

section \<open>Failure and recovery\<close>



text \<open>C6: Recovery never raises on a reachable state and leaves no selected job leased: it returns the
  identifiers of the expired unlocked leases it selected, oldest first, each of those jobs is no
  longer leased, and the rows of all other jobs are untouched.\<close>

theorem recovery_releases_expired_leases:
  assumes reach: "reachable_from (job_start M) (job_step M) db" and n: "1 \<le> n"
  shows "\<exists>db'. recover_expired_leases locked db (Aware t) M n =
      Inr (db', map job_id (recover_select locked db t n)) \<and>
    (\<forall>k. if k \<in> set (map job_id (recover_select locked db t n))
      then \<exists>j. load_job db' k = Some j \<and> job_status j \<noteq> JS_LEASED
      else load_job db' k = load_job db k)"
proof -
  note inv = job_queue.reachable_inv [OF reach]
  obtain db' where db': "recover_expired_leases locked db (Aware t) M n =
        Inr (db', map job_id (recover_select locked db t n))"
      "steps_to job_rows_move db db'"
      "\<And>k. k \<notin> set (map job_id (recover_select locked db t n)) \<Longrightarrow> load_job db' k = load_job db k"
      "\<And>k j'. k \<in> set (map job_id (recover_select locked db t n)) \<Longrightarrow>
        load_job db' k = Some j' \<Longrightarrow> job_status j' \<noteq> JS_LEASED"
    by (rule recover_expired_total [OF inv n, of locked t]) blast
  have kept: "\<exists>j'. load_job db' k = Some j'" if "load_job db k = Some j" for k j
    using db'(2) that by (induction arbitrary: j rule: steps_to.induct) (metis job_rows_move_def)+
  have "\<exists>j. load_job db' k = Some j" if "k \<in> set (map job_id (recover_select locked db t n))" for k
    using that kept recover_select_expired [OF inv, of t locked n] by (auto simp: expired_rows_def)
  then show ?thesis using db'(1,3,4) by metis
qed

theorem recovery_releases_expired_leases_witness:
  "\<exists>db' j. recover_expired_leases (\<lambda>_. False) demo_leased (Aware 300000200) 2 10 = Inr (db', [1]) \<and>
    load_job db' 1 = Some j \<and> job_status j \<noteq> JS_LEASED"
proof -
  have "map job_id (recover_select (\<lambda>_. False) demo_leased 300000200 10) = [1]"
    by (simp add: recover_select_def demo_lease_defs Let_def)
  then show ?thesis
    using recovery_releases_expired_leases [OF demo_leased_reachable, of 10 "\<lambda>_. False" 300000200]
    by (metis list.set_intros(1) one_le_numeral)
qed

text \<open>C4: The recovery of one expired lease implements the documented table: its outcome is the
  documented target state, the active attempt fails with job_lease_lost, the lease is cleared, a
  job made available is available now, and the run is touched only when an idempotent step of a
  running run has spent its budget, which fails the run with dependency_attempts_exhausted.\<close>

theorem recovery_follows_table:
  assumes reach: "reachable_from (job_start M) (job_step M) db"
    and j: "j \<in> set (jobs db)" "job_status j = JS_LEASED"
    and expired: "lease_is_expired (lease_expires_at j) t"
  shows "\<exists>a r. load_active_attempt db (job_id j) = Some a \<and> load_run db (job_run_id j) = Some r \<and>
    run_status r \<noteq> AR_QUEUED \<and>
    recover_single_expired_job db j t M = Inr (recovered_db db j a r t M)"
  using recover_single_table [OF job_queue.reachable_inv [OF reach] j expired] by metis

theorem recovery_follows_table_witness:
  "\<exists>a r. recover_single_expired_job demo_leased (lease_job ''worker-a'' 200 300 (demo_job 1))
    300000200 2 = Inr (recovered_db demo_leased (lease_job ''worker-a'' 200 300 (demo_job 1)) a r
      300000200 2)"
proof -
  have mem: "lease_job ''worker-a'' 200 300 (demo_job 1) \<in> set (jobs demo_leased)"
    by (simp add: demo_leased_def claimed_db_def demo_queued_def demo_start_def Let_def demo_job_def)
  have expired: "lease_is_expired (lease_expires_at (lease_job ''worker-a'' 200 300 (demo_job 1)))
      300000200"
    by (simp add: lease_job_def set_lease_fields_def lease_is_expired_def)
  show ?thesis
    using recovery_follows_table [OF demo_leased_reachable mem lease_job_simps(5) expired] by metis
qed

end
