(* ===== verification/Json.thy ===== *)
theory Json
  imports Prelude
begin

text \<open>
  JSON documents and their canonical bytes:
  \<open>json.dumps(document, ensure_ascii=False, sort_keys=True, separators=(",", ":")).encode("utf-8")\<close>,
  the form that \<open>audit.py\<close>, \<open>idempotency.py\<close>, \<open>content_manifests.py\<close> and
  \<open>ssp_workspace/contracts.py\<close> hash. A float is the token \<open>repr\<close> gives it. The main fact is
  that two documents have the same bytes only if they are equal up to the order of object keys,
  so a digest of the bytes identifies the document.
\<close>

datatype json =
    JNull
  | JBool bool
  | JInt int
  | JFloat string
  | JStr string
  | JArr "json list"
  | JObj "(string \<times> json) list"

type_synonym members = "(string \<times> json) list"

section \<open>Python's view of a value\<close>

text \<open>\<open>bool(value)\<close>: a float is false if its token has no digit but zeros before the exponent.\<close>

fun json_truthy :: "json \<Rightarrow> bool" where
  "json_truthy JNull = False"
| "json_truthy (JBool b) = b"
| "json_truthy (JInt i) = (i \<noteq> 0)"
| "json_truthy (JFloat t) = list_ex (\<lambda>c. c \<in> set ''123456789NI'') (takeWhile (\<lambda>c. c \<noteq> CHR ''e'') t)"
| "json_truthy (JStr s) = (s \<noteq> [])"
| "json_truthy (JArr xs) = (xs \<noteq> [])"
| "json_truthy (JObj m) = (m \<noteq> [])"

text \<open>A list or an object is not hashable: \<open>value not in {...}\<close> raises \<open>TypeError\<close>.\<close>

fun unhashable :: "json option \<Rightarrow> bool" where
  "unhashable (Some (JArr _)) = True"
| "unhashable (Some (JObj _)) = True"
| "unhashable _ = False"

section \<open>Writing\<close>

definition hex_char :: "nat \<Rightarrow> char" where
  "hex_char d = (if d < 10 then char_of (48 + d) else char_of (87 + d))"

definition escape_char :: "char \<Rightarrow> string" where
  "escape_char c =
     (if c = CHR 0x22 then [CHR 0x5C, CHR 0x22]
      else if c = CHR 0x5C then [CHR 0x5C, CHR 0x5C]
      else if c = CHR 0x0A then [CHR 0x5C, CHR ''n'']
      else if c = CHR 0x0D then [CHR 0x5C, CHR ''r'']
      else if c = CHR 0x09 then [CHR 0x5C, CHR ''t'']
      else if c = CHR 0x0C then [CHR 0x5C, CHR ''f'']
      else if c = CHR 0x08 then [CHR 0x5C, CHR ''b'']
      else if (of_char c :: nat) < 32
      then [CHR 0x5C, CHR ''u'', CHR ''0'', CHR ''0'', hex_char (of_char c div 16),
        hex_char (of_char c mod 16)]
      else [c])"

definition quote_string :: "string \<Rightarrow> string" where
  "quote_string s = CHR 0x22 # concat (map escape_char s) @ [CHR 0x22]"

fun dump :: "json \<Rightarrow> string" and dump_tail :: "json list \<Rightarrow> string"
  and dump_members :: "(string \<times> json) list \<Rightarrow> string" where
  "dump JNull = ''null''"
| "dump (JBool True) = ''true''"
| "dump (JBool False) = ''false''"
| "dump (JInt i) = dec_int i"
| "dump (JFloat t) = t"
| "dump (JStr s) = quote_string s"
| "dump (JArr []) = ''[]''"
| "dump (JArr (x # xs)) = CHR ''['' # dump x @ dump_tail xs"
| "dump (JObj []) = ''{}''"
| "dump (JObj ((k, v) # kvs)) = CHR ''{'' # quote_string k @ CHR '':'' # dump v @ dump_members kvs"
| "dump_tail [] = '']''"
| "dump_tail (x # xs) = CHR '','' # dump x @ dump_tail xs"
| "dump_members [] = ''}''"
| "dump_members ((k, v) # kvs) = CHR '','' # quote_string k @ CHR '':'' # dump v @ dump_members kvs"

text \<open>\<open>sort_keys=True\<close>: the members of every object in the order of their keys.\<close>

fun canon :: "json \<Rightarrow> json" where
  "canon (JArr xs) = JArr (map canon xs)"
| "canon (JObj kvs) = JObj (sort_key fst (map (\<lambda>(k, v). (k, canon v)) kvs))"
| "canon x = x"

text \<open>UTF-8 of the code points below 256; a byte is a character.\<close>

definition utf8_char :: "char \<Rightarrow> string" where
  "utf8_char c = (let n = (of_char c :: nat) in
     if n < 128 then [c] else [char_of (192 + n div 64), char_of (128 + n mod 64)])"

definition utf8_encode :: "string \<Rightarrow> string" where
  "utf8_encode s = concat (map utf8_char s)"

definition canonical_json_bytes :: "json \<Rightarrow> string" where
  "canonical_json_bytes doc = utf8_encode (dump (canon doc))"

section \<open>Well-formed documents\<close>

definition is_float_repr :: "string \<Rightarrow> bool" where
  "is_float_repr t = (t \<in> {''NaN'', ''Infinity'', ''-Infinity''} \<or>
     (list_all (\<lambda>c. is_digit c \<or> c \<in> set ''-+.e'') t \<and> list_ex (\<lambda>c. c \<in> set ''.e'') t))"

fun wf_json :: "json \<Rightarrow> bool" where
  "wf_json (JFloat t) = is_float_repr t"
| "wf_json (JArr xs) = list_all wf_json xs"
| "wf_json (JObj kvs) = (distinct (map fst kvs) \<and> list_all (\<lambda>p. wf_json (snd p)) kvs)"
| "wf_json x = True"

lemma wf_canon: "wf_json x \<Longrightarrow> wf_json (canon x)"
proof (induction x rule: canon.induct)
  case (2 kvs)
  have "wf_json (canon v)" if "(k, v) \<in> set kvs" for k v
    using "2.IH" [OF that] "2.prems" that by (auto simp: list_all_iff)
  moreover have "map fst (map (\<lambda>(k, v). (k, canon v)) kvs) = map fst kvs" by auto
  then have "distinct (map fst (sort_key fst (map (\<lambda>(k, v). (k, canon v)) kvs)))"
    using "2.prems" by (simp only: distinct_map_sort_key wf_json.simps)
  ultimately show ?case by (auto simp: list_all_iff)
qed (auto simp: list_all_iff)

section \<open>Reading back\<close>

text \<open>The characters of an unquoted token, and what follows a value.\<close>

definition atom_char :: "char \<Rightarrow> bool" where
  "atom_char c = (c \<notin> set '',]}[{:'' \<and> c \<noteq> CHR 0x22)"

definition ends_value :: "string \<Rightarrow> bool" where
  "ends_value s = (case s of [] \<Rightarrow> True | c # _ \<Rightarrow> \<not> atom_char c)"

fun is_atom :: "json \<Rightarrow> bool" where
  "is_atom (JStr s) = False"
| "is_atom (JArr xs) = False"
| "is_atom (JObj kvs) = False"
| "is_atom x = True"

lemma atom_prefix:
  assumes "list_all atom_char a" and "list_all atom_char b" and "ends_value s" and "ends_value t"
    and "a @ s = b @ t"
  shows "a = b \<and> s = t"
proof -
  have "takeWhile atom_char (c @ u) = c" if "list_all atom_char c" "ends_value u" for c u
    using that by (cases u) (auto simp: ends_value_def list_all_iff takeWhile_append)
  then have "a = b" using assms by metis
  with assms(5) show ?thesis by simp
qed

lemma digit_atom: "is_digit c \<Longrightarrow> atom_char c"
  by (auto simp: is_digit_def atom_char_def)

lemma dec_int_chars: "list_all (\<lambda>c. is_digit c \<or> c = CHR ''-'') (dec_int i)"
  using dec_nat_digits [of "nat i"] dec_nat_digits [of "nat (- i)"]
  by (auto simp: dec_int_def list_all_iff)

lemma dec_nat_no_minus: "dec_nat n \<noteq> CHR ''-'' # s"
proof
  assume "dec_nat n = CHR ''-'' # s"
  then have "is_digit (CHR ''-'')" using dec_nat_digits [of n] by simp
  then show False by (simp add: is_digit_def)
qed

lemma dec_int_inject [simp]: "dec_int i = dec_int j \<longleftrightarrow> i = j"
  using dec_nat_no_minus [of "nat i"] dec_nat_no_minus [of "nat j"]
  by (auto simp: dec_int_def split: if_splits dest: sym)

lemma float_repr_atom: "is_float_repr t \<Longrightarrow> list_all atom_char t \<and> t \<noteq> []"
proof -
  have sign: "list_all atom_char ''-+.e''" by (simp add: atom_char_def)
  assume "is_float_repr t"
  then consider "t = ''NaN''" | "t = ''Infinity''" | "t = ''-Infinity''"
    | "list_all (\<lambda>c. is_digit c \<or> c \<in> set ''-+.e'') t" "t \<noteq> []"
    unfolding is_float_repr_def by (cases t) auto
  then show ?thesis
  proof cases
    case 4
    have "list_all atom_char t"
      by (rule list.pred_mono_strong [OF 4(1)]) (metis digit_atom sign list_all_iff)
    with 4(2) show ?thesis by simp
  qed (simp_all add: atom_char_def)
qed

lemma dump_atom:
  assumes "is_atom x" and "wf_json x"
  shows "list_all atom_char (dump x) \<and> dump x \<noteq> []"
proof (cases x)
  case (JBool b)
  then show ?thesis by (cases b) (simp_all add: atom_char_def)
next
  case (JInt i)
  have "list_all atom_char (dec_int i)"
    using dec_int_chars [of i] digit_atom by (auto simp: list_all_iff atom_char_def)
  moreover have "dec_int i \<noteq> []" by (simp add: dec_int_def)
  ultimately show ?thesis using JInt by simp
next
  case (JFloat t)
  then have "is_float_repr t" using assms(2) by simp
  then show ?thesis using float_repr_atom JFloat by simp
qed (use assms in \<open>simp_all add: atom_char_def\<close>)

lemma atom_inject:
  assumes "is_atom x" and "is_atom y" and "wf_json x" and "wf_json y" and "dump x = dump y"
  shows "x = y"
proof -
  have letters: "\<not> list_all (\<lambda>c. is_digit c \<or> c = CHR ''-'') t"
    if "is_float_repr t \<or> t = ''null'' \<or> t = ''true'' \<or> t = ''false''" for t
  proof -
    have dot: "\<not> (is_digit c \<or> c = CHR ''-'')" if "c = CHR ''.'' \<or> c = CHR ''e''" for c
      using that by (auto simp: is_digit_def)
    have "list_ex (\<lambda>c. c \<in> set ''.e'') t \<or>
        t \<in> {''NaN'', ''Infinity'', ''-Infinity'', ''null'', ''true'', ''false''}"
      using that unfolding is_float_repr_def insert_iff empty_iff by (elim disjE conjE; simp)
    then show ?thesis
    proof
      assume "list_ex (\<lambda>c. c \<in> set ''.e'') t"
      then obtain c where "c \<in> set t" "c = CHR ''.'' \<or> c = CHR ''e''"
        by (auto simp: list_ex_iff)
      then show ?thesis using dot unfolding list_all_iff by blast
    next
      assume special: "t \<in> {''NaN'', ''Infinity'', ''-Infinity'', ''null'', ''true'', ''false''}"
      have "\<not> is_digit (CHR ''N'')" "\<not> is_digit (CHR ''I'')" "\<not> is_digit (CHR ''n'')"
        "\<not> is_digit (CHR ''t'')" "\<not> is_digit (CHR ''f'')" by (simp_all add: is_digit_def)
      with special show ?thesis by auto
    qed
  qed
  have no_int: "dec_int i \<noteq> t"
    if "is_float_repr t \<or> t = ''null'' \<or> t = ''true'' \<or> t = ''false''" for i t
    using letters [OF that] dec_int_chars [of i] by metis
  have no_float: "t \<noteq> ''null'' \<and> t \<noteq> ''true'' \<and> t \<noteq> ''false''" if "is_float_repr t" for t
    using that by (auto simp: is_float_repr_def is_digit_def)
  show ?thesis
    using assms no_int no_int [THEN not_sym] no_float
    by (cases x rule: dump.cases; cases y rule: dump.cases) auto
qed

fun hex_val :: "char \<Rightarrow> nat" where
  "hex_val c = (let n = of_char c in if n < 58 then n - 48 else n - 87)"

lemma hex_val_char [simp]: "d < 16 \<Longrightarrow> hex_val (hex_char d) = d"
  by (auto simp: hex_char_def Let_def)

text \<open>One character of a quoted string read back.\<close>

fun unescape :: "string \<Rightarrow> (char \<times> string) option" where
  "unescape [] = None"
| "unescape (c # s) =
     (if c = CHR 0x22 then None
      else if c \<noteq> CHR 0x5C then Some (c, s)
      else case s of
        [] \<Rightarrow> None
      | d # s' \<Rightarrow>
          if d = CHR ''n'' then Some (CHR 0x0A, s')
          else if d = CHR ''r'' then Some (CHR 0x0D, s')
          else if d = CHR ''t'' then Some (CHR 0x09, s')
          else if d = CHR ''f'' then Some (CHR 0x0C, s')
          else if d = CHR ''b'' then Some (CHR 0x08, s')
          else if d = CHR ''u'' then (case s' of
              z1 # z2 # a # b # s'' \<Rightarrow> Some (char_of (16 * hex_val a + hex_val b), s'')
            | _ \<Rightarrow> None)
          else Some (d, s'))"

declare hex_val.simps [simp del]

lemma unescape_escape: "unescape (escape_char c @ s) = Some (c, s)"
proof -
  have "char_of (16 * ((of_char c :: nat) div 16) + of_char c mod 16) = c" by simp
  then show ?thesis by (simp add: escape_char_def)
qed

lemma escape_prefix: "escape_char c @ s = escape_char d @ t \<Longrightarrow> c = d \<and> s = t"
  by (metis unescape_escape option.inject prod.inject)

lemma escape_not_quote: "escape_char c @ s \<noteq> CHR 0x22 # t"
proof
  assume "escape_char c @ s = CHR 0x22 # t"
  then have "unescape (CHR 0x22 # t) = Some (c, s)" using unescape_escape by metis
  then show False by simp
qed

lemma quote_prefix:
  "quote_string a @ s = quote_string b @ t \<Longrightarrow> a = b \<and> s = t"
proof -
  have "concat (map escape_char a) @ CHR 0x22 # s = concat (map escape_char b) @ CHR 0x22 # t \<Longrightarrow>
      a = b \<and> s = t"
  proof (induction a arbitrary: b)
    case Nil
    then show ?case using escape_not_quote by (cases b) (auto, metis)
  next
    case (Cons c a)
    then obtain d b' where b: "b = d # b'" using escape_not_quote by (cases b) auto
    have "escape_char c @ (concat (map escape_char a) @ CHR 0x22 # s) =
        escape_char d @ (concat (map escape_char b') @ CHR 0x22 # t)"
      using Cons.prems b by simp
    from escape_prefix [OF this] Cons.IH [of b'] b show ?case by simp
  qed
  then show "quote_string a @ s = quote_string b @ t \<Longrightarrow> a = b \<and> s = t"
    by (simp add: quote_string_def)
qed

text \<open>No value of one kind starts like a value of another kind.\<close>

lemma dump_starts:
  "wf_json x \<Longrightarrow> is_atom x \<Longrightarrow> \<exists>c s. dump x = c # s \<and> atom_char c"
  "\<exists>s. dump (JStr k) = CHR 0x22 # s" "\<exists>s. dump (JArr xs) = CHR ''['' # s"
  "\<exists>s. dump (JObj kvs) = CHR ''{'' # s"
proof -
  show "wf_json x \<Longrightarrow> is_atom x \<Longrightarrow> \<exists>c s. dump x = c # s \<and> atom_char c"
    using dump_atom [of x] by (cases "dump x") auto
  show "\<exists>s. dump (JArr xs) = CHR ''['' # s" by (cases xs) auto
  show "\<exists>s. dump (JObj kvs) = CHR ''{'' # s" by (cases kvs) auto
qed (simp add: quote_string_def)

fun json_kind :: "json \<Rightarrow> nat" where
  "json_kind (JStr s) = 1"
| "json_kind (JArr xs) = 2"
| "json_kind (JObj kvs) = 3"
| "json_kind x = 0"

lemma json_kind_eq:
  assumes "wf_json x" and "wf_json y" and "dump x @ s = dump y @ t"
  shows "json_kind x = json_kind y"
proof -
  have kind: "\<exists>c u. dump x = c # u \<and> json_kind x =
      (if c = CHR 0x22 then 1 else if c = CHR ''['' then 2 else if c = CHR ''{'' then 3 else 0)"
    if wf: "wf_json x" for x
  proof (cases "is_atom x")
    case True
    then obtain c u where "dump x = c # u" and c: "atom_char c" using dump_starts(1) [OF wf] by blast
    moreover have "json_kind x = 0" using True by (cases x) simp_all
    ultimately show ?thesis using c by (simp add: atom_char_def)
  next
    case False
    then show ?thesis
    proof (cases x)
      case (JArr xs)
      obtain u where "dump x = CHR ''['' # u" using JArr dump_starts(3) [of xs] by blast
      then show ?thesis using JArr by simp
    next
      case (JObj kvs)
      obtain u where "dump x = CHR ''{'' # u" using JObj dump_starts(4) [of kvs] by blast
      then show ?thesis using JObj by simp
    qed (simp_all add: quote_string_def)
  qed
  obtain c u d v where "dump x = c # u" "dump y = d # v"
      "json_kind x = (if c = CHR 0x22 then 1 else if c = CHR ''['' then 2 else if c = CHR ''{'' then 3 else 0)"
      "json_kind y = (if d = CHR 0x22 then 1 else if d = CHR ''['' then 2 else if d = CHR ''{'' then 3 else 0)"
    using kind [OF assms(1)] kind [OF assms(2)] by blast
  then show ?thesis using assms(3) by simp
qed

lemma tails_end_value [simp]: "ends_value (dump_tail xs @ s)" "ends_value (dump_members kvs @ s)"
  by (cases xs; simp add: ends_value_def atom_char_def)
    (cases kvs rule: dump_members.cases; simp add: ends_value_def atom_char_def)

lemma atoms_prefix:
  assumes "is_atom x" "is_atom y" "wf_json x" "wf_json y" "ends_value s" "ends_value t"
    and "dump x @ s = dump y @ t"
  shows "x = y \<and> s = t"
  using atom_prefix [OF _ _ assms(5-7)] dump_atom assms(1-4) atom_inject by blast

lemma atom_kind: "is_atom x \<longleftrightarrow> json_kind x = 0"
  by (cases x) simp_all

lemma JStr_prefix:
  assumes "wf_json y" and "dump (JStr k) @ s = dump y @ t" and "wf_json (JStr k)"
  obtains k' where "y = JStr k'"
  using json_kind_eq [OF assms(3,1,2)] by (cases y) auto

lemma JArr_prefix:
  assumes "wf_json y" and "dump (JArr xs) @ s = dump y @ t" and "wf_json (JArr xs)"
  obtains ys where "y = JArr ys"
  using json_kind_eq [OF assms(3,1,2)] by (cases y) auto

lemma JObj_prefix:
  assumes "wf_json y" and "dump (JObj kvs) @ s = dump y @ t" and "wf_json (JObj kvs)"
  obtains kvs' where "y = JObj kvs'"
  using json_kind_eq [OF assms(3,1,2)] by (cases y) auto

lemma dump_starts_not_bracket:
  assumes "wf_json x"
  obtains c u where "dump x = c # u" and "c \<noteq> CHR '']''"
proof (cases "is_atom x")
  case True
  then obtain c u where "dump x = c # u" "atom_char c" using dump_starts(1) assms by blast
  moreover from this have "c \<noteq> CHR '']''" by (auto simp: atom_char_def)
  ultimately show ?thesis using that by blast
next
  case False
  then show ?thesis
  proof (cases x)
    case (JArr xs)
    obtain u where "dump x = CHR ''['' # u" using JArr dump_starts(3) [of xs] by blast
    then show ?thesis using that by simp
  next
    case (JObj kvs)
    obtain u where "dump x = CHR ''{'' # u" using JObj dump_starts(4) [of kvs] by blast
    then show ?thesis using that by simp
  next
    case (JStr k)
    then have "dump x = CHR 0x22 # concat (map escape_char k) @ [CHR 0x22]"
      by (simp add: quote_string_def)
    then show ?thesis using that by simp
  qed simp_all
qed

lemma dump_not_bracket:
  assumes "wf_json x"
  shows "dump x @ s \<noteq> CHR '']'' # t"
proof -
  obtain c u where "dump x = c # u" "c \<noteq> CHR '']''" by (rule dump_starts_not_bracket [OF assms])
  then show ?thesis by simp
qed

lemma member_prefix:
  assumes "quote_string k @ CHR '':'' # u = quote_string k' @ CHR '':'' # u'"
  shows "k = k' \<and> u = u'"
  using quote_prefix [OF assms] by simp

lemma dump_prefix:
  "\<lbrakk>wf_json x; wf_json y; ends_value s; ends_value t; dump x @ s = dump y @ t\<rbrakk> \<Longrightarrow> x = y \<and> s = t"
  "\<lbrakk>list_all wf_json xs; list_all wf_json ys; dump_tail xs @ s = dump_tail ys @ t\<rbrakk> \<Longrightarrow> xs = ys \<and> s = t"
  "\<lbrakk>list_all (\<lambda>p. wf_json (snd p)) kvs; list_all (\<lambda>p. wf_json (snd p)) kvs';
    dump_members kvs @ s = dump_members kvs' @ t\<rbrakk> \<Longrightarrow> kvs = kvs' \<and> s = t"
proof (induction x and xs and kvs arbitrary: y s t and ys s t and kvs' s t
    rule: dump_dump_tail_dump_members.induct)
  case (6 k)
  obtain k' where y: "y = JStr k'" by (rule JStr_prefix [OF 6(2,5,1)])
  show ?case using quote_prefix [of k s k' t] 6(5) y by simp
next
  case 7
  obtain ys where y: "y = JArr ys" by (rule JArr_prefix [OF 7(2,5,1)])
  show ?case
  proof (cases ys)
    case Nil
    then show ?thesis using 7 y by simp
  next
    case (Cons z zs)
    then have "dump z @ (dump_tail zs @ t) = CHR '']'' # s" using 7 y by simp
    moreover have "wf_json z" using 7 y Cons by simp
    ultimately show ?thesis using dump_not_bracket by blast
  qed
next
  case (8 x xs)
  obtain ys where y: "y = JArr ys" by (rule JArr_prefix [OF "8.prems"(2,5,1)])
  show ?case
  proof (cases ys)
    case Nil
    then have "dump x @ (dump_tail xs @ s) = CHR '']'' # t" using "8.prems" y by simp
    moreover have "wf_json x" using "8.prems" by simp
    ultimately show ?thesis using dump_not_bracket by blast
  next
    case (Cons z zs)
    have "x = z \<and> dump_tail xs @ s = dump_tail zs @ t"
      using "8.prems" y Cons by (intro "8.IH"(1)) simp_all
    then show ?thesis using "8.prems" y Cons "8.IH"(2) [of zs s t] by simp
  qed
next
  case 9
  obtain kvs' where y: "y = JObj kvs'" by (rule JObj_prefix [OF 9(2,5,1)])
  then show ?case using 9 by (cases kvs') (auto simp: quote_string_def)
next
  case (10 k v kvs)
  obtain kvs' where y: "y = JObj kvs'" by (rule JObj_prefix [OF "10.prems"(2,5,1)])
  show ?case
  proof (cases kvs')
    case Nil
    then show ?thesis using "10.prems" y by (simp add: quote_string_def)
  next
    case (Cons p zs)
    obtain k' v' where p: "p = (k', v')" by (cases p)
    have "k = k' \<and> dump v @ (dump_members kvs @ s) = dump v' @ (dump_members zs @ t)"
      using "10.prems" y Cons p by (intro member_prefix) simp
    moreover from this have "v = v' \<and> dump_members kvs @ s = dump_members zs @ t"
      using "10.prems" y Cons p by (intro "10.IH"(1)) simp_all
    ultimately show ?thesis using "10.prems" y Cons p "10.IH"(2) [of zs s t] by simp
  qed
next
  case 11
  then show ?case by (cases ys) auto
next
  case (12 x xs)
  obtain z zs where ys: "ys = z # zs" using "12.prems" by (cases ys) auto
  have "x = z \<and> dump_tail xs @ s = dump_tail zs @ t"
    using "12.prems" ys by (intro "12.IH"(1)) simp_all
  then show ?case using "12.prems" ys "12.IH"(2) [of zs s t] by simp
next
  case 13
  then show ?case by (cases kvs') auto
next
  case (14 k v kvs)
  obtain k' v' zs where kvs': "kvs' = (k', v') # zs"
    using "14.prems" by (cases kvs' rule: dump_members.cases) auto
  have "k = k' \<and> dump v @ (dump_members kvs @ s) = dump v' @ (dump_members zs @ t)"
    using "14.prems" kvs' by (intro member_prefix) simp
  moreover from this have "v = v' \<and> dump_members kvs @ s = dump_members zs @ t"
    using "14.prems" kvs' by (intro "14.IH"(1)) simp_all
  ultimately show ?case using "14.prems" kvs' "14.IH"(2) [of zs s t] by simp
qed (metis atoms_prefix atom_kind json_kind_eq is_atom.simps)+

section \<open>Canonical bytes identify the document\<close>

definition utf8_decode1 :: "string \<Rightarrow> char \<times> string" where
  "utf8_decode1 s = (case s of
       c # s' \<Rightarrow> if (of_char c :: nat) < 128 then (c, s')
         else (char_of ((of_char c - 192) * 64 + (of_char (hd s') - (128 :: nat))), tl s')
     | [] \<Rightarrow> (CHR 0x00, []))"

lemma utf8_decode_char: "utf8_decode1 (utf8_char c @ s) = (c, s)"
proof (cases "(of_char c :: nat) < 128")
  case True
  then show ?thesis by (simp add: utf8_decode1_def utf8_char_def)
next
  case False
  let ?n = "of_char c :: nat"
  have n: "?n < 256" by simp
  have "?n div 64 < 4" by (rule less_mult_imp_div_less) (use n in simp)
  then have "(of_char (char_of (192 + ?n div 64)) :: nat) = 192 + ?n div 64"
      "(of_char (char_of (128 + ?n mod 64)) :: nat) = 128 + ?n mod 64"
    by (simp_all add: of_char_of)
  moreover have "?n div 64 * 64 + ?n mod 64 = ?n" by simp
  ultimately show ?thesis using False by (simp add: utf8_decode1_def utf8_char_def Let_def)
qed

lemma utf8_char_nonempty [simp]: "utf8_char c \<noteq> []"
  by (simp add: utf8_char_def Let_def)

lemma utf8_encode_inject: "utf8_encode s = utf8_encode t \<longleftrightarrow> s = t"
proof
  show "utf8_encode s = utf8_encode t \<Longrightarrow> s = t"
  proof (induction s arbitrary: t)
    case Nil
    then show ?case by (cases t) (auto simp: utf8_encode_def)
  next
    case (Cons c s)
    then obtain d t' where t: "t = d # t'"
      by (cases t) (auto simp: utf8_encode_def)
    have "utf8_char c @ utf8_encode s = utf8_char d @ utf8_encode t'"
      using Cons.prems t by (simp add: utf8_encode_def)
    then have "(c, utf8_encode s) = (d, utf8_encode t')" by (metis utf8_decode_char)
    then show ?case using Cons.IH [of t'] t by simp
  qed
qed simp

lemma canonical_bytes_inject:
  assumes "wf_json x" and "wf_json y"
  shows "canonical_json_bytes x = canonical_json_bytes y \<longleftrightarrow> canon x = canon y"
proof
  assume "canonical_json_bytes x = canonical_json_bytes y"
  then have "dump (canon x) @ [] = dump (canon y) @ []"
    by (simp add: canonical_json_bytes_def utf8_encode_inject)
  then show "canon x = canon y"
    using dump_prefix(1) [of "canon x" "canon y" "[]" "[]"] wf_canon assms
    by (simp add: ends_value_def)
qed (simp add: canonical_json_bytes_def)

lemma sort_key_map_of:
  assumes "distinct (map fst a)" and "distinct (map fst b)"
  shows "sort_key fst a = sort_key fst b \<longleftrightarrow> map_of a = map_of b"
proof
  assume eq: "sort_key fst a = sort_key fst b"
  have "set a = set b" using eq by (metis set_sort)
  then show "map_of a = map_of b" using assms by (metis map_of_inject_set)
next
  assume eq: "map_of a = map_of b"
  have list: "xs = map (\<lambda>k. (k, the (map_of xs k))) (map fst xs)" if "distinct (map fst xs)"
    for xs :: "('a \<times> 'b) list"
    using that by (auto intro!: map_idI [symmetric])
  have keys: "map fst (sort_key fst a) = map fst (sort_key fst b)"
  proof (rule sorted_distinct_set_unique)
    have "set a = set b" using eq assms by (metis map_of_inject_set)
    then show "set (map fst (sort_key fst a)) = set (map fst (sort_key fst b))" by simp
  qed (use assms in \<open>simp_all only: distinct_map_sort_key sorted_sort_key\<close>)
  have lookups: "map_of (sort_key fst xs) = map_of xs" if "distinct (map fst xs)"
    for xs :: "('a \<times> 'b) list"
    using that map_of_inject_set [of "sort_key fst xs" xs] by (simp add: distinct_map_sort_key)
  show "sort_key fst a = sort_key fst b"
    using list [of "sort_key fst a"] list [of "sort_key fst b"]
    by (simp only: distinct_map_sort_key keys lookups assms eq)
qed

text \<open>Two objects have the same canonical form if each key has the same canonical value in both.\<close>

lemma canon_object_eq:
  assumes "distinct (map fst a)" and "distinct (map fst b)"
  shows "canon (JObj a) = canon (JObj b) \<longleftrightarrow>
    (\<forall>k. map_option canon (map_of a k) = map_option canon (map_of b k))"
proof -
  have keys: "map fst (map (\<lambda>(k, v). (k, canon v)) xs) = map fst xs"
      and vals: "map_of (map (\<lambda>(k, v). (k, canon v)) xs) k = map_option canon (map_of xs k)" for xs k
    by (induction xs) auto
  have "canon (JObj a) = canon (JObj b) \<longleftrightarrow>
      sort_key fst (map (\<lambda>(k, v). (k, canon v)) a) = sort_key fst (map (\<lambda>(k, v). (k, canon v)) b)"
    by simp
  also have "\<dots> \<longleftrightarrow> map_of (map (\<lambda>(k, v). (k, canon v)) a) = map_of (map (\<lambda>(k, v). (k, canon v)) b)"
    by (rule sort_key_map_of) (use assms in \<open>simp_all only: keys\<close>)
  finally show ?thesis by (simp add: fun_eq_iff vals)
qed

text \<open>The canonical bytes of a JSON document (sorted keys, compact separators, UTF-8) determine it:
  two objects with unique keys have the same bytes exactly if every key has values with the same
  bytes, whatever the order in which the members were written.\<close>

theorem canonical_json_identifies_object:
  assumes "wf_json (JObj a)" and "wf_json (JObj b)"
  shows "canonical_json_bytes (JObj a) = canonical_json_bytes (JObj b) \<longleftrightarrow>
    (\<forall>k. map_option canonical_json_bytes (map_of a k) = map_option canonical_json_bytes (map_of b k))"
proof -
  have d: "distinct (map fst a)" "distinct (map fst b)" using assms by simp_all
  have wf: "wf_json v" if "map_of xs k = Some v" "wf_json (JObj xs)" for xs k v
    using that map_of_SomeD [of xs k v] by (auto simp: list_all_iff)
  have "map_option canon (map_of a k) = map_option canon (map_of b k) \<longleftrightarrow>
      map_option canonical_json_bytes (map_of a k) = map_option canonical_json_bytes (map_of b k)"
    for k
  proof (cases "map_of a k = None \<or> map_of b k = None")
    case False
    then obtain v w where vw: "map_of a k = Some v" "map_of b k = Some w" by auto
    have "canonical_json_bytes v = canonical_json_bytes w \<longleftrightarrow> canon v = canon w"
      by (rule canonical_bytes_inject [OF wf [OF vw(1) assms(1)] wf [OF vw(2) assms(2)]])
    then show ?thesis using vw by simp
  qed auto
  then show ?thesis using canonical_bytes_inject [OF assms] canon_object_eq [OF d] by simp
qed

theorem canonical_json_identifies_object_witness:
  "canonical_json_bytes (JObj [(''b'', JInt 1), (''a'', JNull)]) =
     canonical_json_bytes (JObj [(''a'', JNull), (''b'', JInt 1)]) \<and>
   canonical_json_bytes (JObj [(''a'', JNull)]) \<noteq> canonical_json_bytes (JObj [(''a'', JInt 0)])"
proof -
  have "canonical_json_bytes JNull \<noteq> canonical_json_bytes (JInt 0)"
    by (simp add: canonical_bytes_inject)
  then show ?thesis
    using canonical_json_identifies_object [of "[(''b'', JInt 1), (''a'', JNull)]"
        "[(''a'', JNull), (''b'', JInt 1)]"]
      canonical_json_identifies_object [of "[(''a'', JNull)]" "[(''a'', JInt 0)]"]
    by auto
qed

section \<open>Identifiers\<close>

text \<open>\<open>str(uuid)\<close>: 32 lower-case hex digits in five groups.\<close>

fun hex_digits :: "nat \<Rightarrow> nat \<Rightarrow> string" where
  "hex_digits 0 n = []"
| "hex_digits (Suc w) n = hex_digits w (n div 16) @ [hex_char (n mod 16)]"

definition uuid_str :: "uuid \<Rightarrow> string" where
  "uuid_str i = (let h = hex_digits 32 i in
     take 8 h @ CHR ''-'' # take 4 (drop 8 h) @ CHR ''-'' # take 4 (drop 12 h) @ CHR ''-'' #
     take 4 (drop 16 h) @ CHR ''-'' # drop 20 h)"

lemma hex_char_inject: "a < 16 \<Longrightarrow> b < 16 \<Longrightarrow> hex_char a = hex_char b \<longleftrightarrow> a = b"
  by (metis hex_val_char)

lemma length_hex_digits [simp]: "length (hex_digits w n) = w"
  by (induction w arbitrary: n) auto

lemma hex_digits_inject:
  "m < 16 ^ w \<Longrightarrow> n < 16 ^ w \<Longrightarrow> hex_digits w m = hex_digits w n \<Longrightarrow> m = n"
proof (induction w arbitrary: m n)
  case (Suc w)
  have "m div 16 < 16 ^ w" "n div 16 < 16 ^ w" using Suc.prems by (simp_all add: less_mult_imp_div_less mult.commute)
  moreover have "hex_digits w (m div 16) = hex_digits w (n div 16)" "m mod 16 = n mod 16"
    using Suc.prems(3) hex_char_inject [of "m mod 16" "n mod 16"] by simp_all
  ultimately have "m div 16 = n div 16" "m mod 16 = n mod 16" using Suc.IH by blast+
  then show ?case by (metis div_mult_mod_eq)
qed simp

lemma take_drop_eqI: "take n a = take n b \<Longrightarrow> drop n a = drop n b \<Longrightarrow> a = b"
  by (metis append_take_drop_id)

lemma dashes_inject:
  assumes "length a = 32" and "length b = 32"
    and eq: "take 8 a @ d # take 4 (drop 8 a) @ d # take 4 (drop 12 a) @ d # take 4 (drop 16 a) @ d # drop 20 a =
      take 8 b @ d # take 4 (drop 8 b) @ d # take 4 (drop 12 b) @ d # take 4 (drop 16 b) @ d # drop 20 b"
  shows "a = b"
proof -
  from eq assms(1,2) have "take 8 a = take 8 b" "take 4 (drop 8 a) = take 4 (drop 8 b)"
    "take 4 (drop 12 a) = take 4 (drop 12 b)" "take 4 (drop 16 a) = take 4 (drop 16 b)"
    "drop 20 a = drop 20 b" by simp_all
  moreover from this have "drop 16 a = drop 16 b"
    by (intro take_drop_eqI [of 4 "drop 16 a"]) simp_all
  moreover from calculation have "drop 12 a = drop 12 b"
    by (intro take_drop_eqI [of 4 "drop 12 a"]) simp_all
  moreover from calculation have "drop 8 a = drop 8 b"
    by (intro take_drop_eqI [of 4 "drop 8 a"]) simp_all
  ultimately show ?thesis by (intro take_drop_eqI [of 8 a])
qed

lemma uuid_str_inject:
  assumes "a < 16 ^ 32" and "b < 16 ^ 32"
  shows "uuid_str a = uuid_str b \<longleftrightarrow> a = b"
proof
  assume "uuid_str a = uuid_str b"
  then have "hex_digits 32 a = hex_digits 32 b"
    unfolding uuid_str_def Let_def by (rule dashes_inject [OF length_hex_digits length_hex_digits])
  then show "a = b" by (rule hex_digits_inject [OF assms])
qed simp

end
