(* ===== verification/Calendar.thy ===== *)
theory Calendar
  imports Prelude
begin

text \<open>
  The part of Python's \<open>datetime\<close> the service prints: the proleptic Gregorian calendar of a UTC
  instant and its fields. \<open>ord2ymd\<close> is the standard library's algorithm; the round trip
  \<open>ymd2ord (ord2ymd n) = n\<close> is what makes the printed forms identify the instant.
\<close>

section \<open>Dates\<close>

definition is_leap :: "nat \<Rightarrow> bool" where
  "is_leap y = (y mod 4 = 0 \<and> (y mod 100 \<noteq> 0 \<or> y mod 400 = 0))"

definition days_before_year :: "nat \<Rightarrow> nat" where
  "days_before_year y = (let p = y - 1 in p * 365 + p div 4 - p div 100 + p div 400)"

definition days_before_month :: "nat \<Rightarrow> nat \<Rightarrow> nat" where
  "days_before_month y m =
     [0, 31, 59, 90, 120, 151, 181, 212, 243, 273, 304, 334] ! (m - 1)
       + (if 2 < m \<and> is_leap y then 1 else 0)"

definition days_in_month :: "nat \<Rightarrow> nat \<Rightarrow> nat" where
  "days_in_month y m = (if m = 2 \<and> is_leap y then 29
     else [31, 28, 31, 30, 31, 30, 31, 31, 30, 31, 30, 31] ! (m - 1))"

definition ymd2ord :: "nat \<times> nat \<times> nat \<Rightarrow> nat" where
  "ymd2ord t = (case t of (y, m, d) \<Rightarrow> days_before_year y + days_before_month y m + d)"

text \<open>The month of the \<open>n\<close>-th day (from zero) of a year: the last one that starts by then.\<close>

function month_from :: "nat \<Rightarrow> nat \<Rightarrow> nat \<Rightarrow> nat" where
  "month_from y n m = (if m < 12 \<and> days_before_month y (m + 1) \<le> n then month_from y n (m + 1) else m)"
  by pat_completeness auto

termination by (relation "measure (\<lambda>(y, n, m). 12 - m)") auto

declare month_from.simps [simp del]

definition month_of_day :: "nat \<Rightarrow> nat \<Rightarrow> nat" where
  "month_of_day y n = month_from y n 1"

definition ord2ymd :: "nat \<Rightarrow> nat \<times> nat \<times> nat" where
  "ord2ymd ordinal =
     (let n = ordinal - 1; n400 = n div 146097; n = n mod 146097;
          n100 = n div 36524; n = n mod 36524; n4 = n div 1461; n = n mod 1461;
          n1 = n div 365; n = n mod 365;
          year = n400 * 400 + 1 + n100 * 100 + n4 * 4 + n1
      in if n1 = 4 \<or> n100 = 4 then (year - 1, 12, 31)
         else let m = month_of_day year n in (year, m, n - days_before_month year m + 1))"

lemma month_from_bounds:
  "1 \<le> m \<Longrightarrow> m \<le> 12 \<Longrightarrow> days_before_month y m \<le> n \<Longrightarrow>
    1 \<le> month_from y n m \<and> month_from y n m \<le> 12 \<and> days_before_month y (month_from y n m) \<le> n \<and>
    (month_from y n m < 12 \<longrightarrow> n < days_before_month y (month_from y n m + 1))"
proof (induction y n m rule: month_from.induct)
  case (1 y n m)
  then show ?case
    by (cases "m < 12 \<and> days_before_month y (m + 1) \<le> n") (auto simp: month_from.simps [of y n m])
qed

lemma month_cases:
  fixes m :: nat
  assumes "1 \<le> m" "m \<le> 12"
  shows "m \<in> {1, 2, 3, 4, 5, 6, 7, 8, 9, 10, 11, 12}"
  using assms by (auto simp: le_Suc_eq numeral_eq_Suc)

lemma days_next_month:
  assumes "1 \<le> m" and "m \<le> 12"
  shows "days_before_month y m + days_in_month y m =
    (if m < 12 then days_before_month y (m + 1) else 365 + (if is_leap y then 1 else 0))"
  using month_cases [OF assms]
  by (elim insertE) (simp_all add: days_before_month_def days_in_month_def)

lemma month_of_day_bounds:
  assumes "n < 365 + (if is_leap y then 1 else 0)"
  shows "1 \<le> month_of_day y n" "month_of_day y n \<le> 12"
    "days_before_month y (month_of_day y n) \<le> n"
    "n - days_before_month y (month_of_day y n) < days_in_month y (month_of_day y n)"
proof -
  let ?m = "month_of_day y n"
  have "days_before_month y 1 \<le> n" by (simp add: days_before_month_def)
  then have m: "1 \<le> ?m" "?m \<le> 12" "days_before_month y ?m \<le> n"
      "?m < 12 \<longrightarrow> n < days_before_month y (?m + 1)"
    using month_from_bounds [of 1 y n] by (simp_all add: month_of_day_def)
  then show "1 \<le> ?m" "?m \<le> 12" "days_before_month y ?m \<le> n" by simp_all
  have "n < days_before_month y ?m + days_in_month y ?m"
    using days_next_month [OF m(1,2), of y] m(4) assms by (simp split: if_splits)
  then show "n - days_before_month y ?m < days_in_month y ?m" using m(3) by linarith
qed

lemma ordinal_parts:
  fixes n :: nat
  obtains a b c e r where "n = 146097 * a + 36524 * b + 1461 * c + 365 * e + r"
    and "a = n div 146097" and "b = n mod 146097 div 36524"
    and "c = n mod 146097 mod 36524 div 1461" and "e = n mod 146097 mod 36524 mod 1461 div 365"
    and "r = n mod 146097 mod 36524 mod 1461 mod 365"
    and "r < 365" and "365 * e + r < 1461" and "1461 * c + 365 * e + r < 36524"
    and "36524 * b + 1461 * c + 365 * e + r < 146097"
proof -
  define n1 n2 n3 where "n1 = n mod 146097" and "n2 = n1 mod 36524" and "n3 = n2 mod 1461"
  define a b c e r where "a = n div 146097" and "b = n1 div 36524" and "c = n2 div 1461"
    and "e = n3 div 365" and "r = n3 mod 365"
  note defs = n1_def n2_def n3_def a_def b_def c_def e_def r_def
  have parts: "n3 = 365 * e + r" "n2 = 1461 * c + n3" "n1 = 36524 * b + n2" "n = 146097 * a + n1"
    unfolding defs by (simp_all only: mult_div_mod_eq)
  have "r < 365" "n3 < 1461" "n2 < 36524" "n1 < 146097" unfolding defs by simp_all
  with parts have "n = 146097 * a + 36524 * b + 1461 * c + 365 * e + r" "r < 365"
      "365 * e + r < 1461" "1461 * c + 365 * e + r < 36524"
      "36524 * b + 1461 * c + 365 * e + r < 146097"
    by linarith+
  then show ?thesis using that unfolding defs by blast
qed

lemma days_before_year_parts:
  assumes "e \<le> 3" and "c \<le> 24" and "b \<le> 3"
  shows "days_before_year (a * 400 + 1 + b * 100 + c * 4 + e) =
    146097 * a + 36524 * b + 1461 * c + 365 * e"
proof -
  let ?p = "a * 400 + b * 100 + c * 4 + e"
  have "?p div 4 = a * 100 + b * 25 + c" using assms by simp
  moreover have "?p div 100 = a * 4 + b" using assms by simp
  moreover have "?p div 400 = a" using assms by simp
  ultimately show ?thesis by (simp add: days_before_year_def Let_def)
qed

lemma is_leap_parts:
  assumes "e \<le> 3" and "c \<le> 24" and "b \<le> 3"
  shows "is_leap (a * 400 + 1 + b * 100 + c * 4 + e) \<longleftrightarrow> e = 3 \<and> (c \<noteq> 24 \<or> b = 3)"
proof -
  let ?y = "a * 400 + 1 + b * 100 + c * 4 + e"
  have eqs: "?y = (e + 1) + 4 * (a * 100 + b * 25 + c)" "?y = (c * 4 + e + 1) + 100 * (a * 4 + b)"
      "?y = (b * 100 + c * 4 + e + 1) + 400 * a" by simp_all
  have y4: "?y mod 4 = (e + 1) mod 4" by (subst eqs(1)) (rule mod_mult_self2)
  have y100: "?y mod 100 = (c * 4 + e + 1) mod 100" by (subst eqs(2)) (rule mod_mult_self2)
  have y400: "?y mod 400 = (b * 100 + c * 4 + e + 1) mod 400" by (subst eqs(3)) (rule mod_mult_self2)
  have "e = 0 \<or> e = 1 \<or> e = 2 \<or> e = 3" using assms(1) by linarith
  then have four: "(e + 1) mod 4 = 0 \<longleftrightarrow> e = 3" by (elim disjE) simp_all
  show ?thesis
  proof (cases "e = 3")
    case True
    have "c * 4 + e + 1 \<le> 100" using True assms by simp
    then have hundred: "(c * 4 + e + 1) mod 100 = 0 \<longleftrightarrow> c = 24" using True by (cases "c = 24") auto
    show ?thesis
    proof (cases "c = 24")
      case c: True
      have "b = 0 \<or> b = 1 \<or> b = 2 \<or> b = 3" using assms(3) by linarith
      then have "(b * 100 + c * 4 + e + 1) mod 400 = 0 \<longleftrightarrow> b = 3" using True c by auto
      then show ?thesis unfolding is_leap_def y4 y100 y400 using True c hundred four by simp
    next
      case False
      then show ?thesis unfolding is_leap_def y4 y100 y400 using True hundred four by simp
    qed
  next
    case False
    then show ?thesis unfolding is_leap_def y4 using four by simp
  qed
qed

lemma month_parts:
  assumes "r < 365 + (if is_leap y then 1 else 0)"
  shows "ymd2ord (y, month_of_day y r, r - days_before_month y (month_of_day y r) + 1) =
    days_before_year y + r + 1"
  using month_of_day_bounds(3) [OF assms] by (simp add: ymd2ord_def)

theorem ymd2ord_ord2ymd:
  assumes "1 \<le> n"
  shows "ymd2ord (ord2ymd n) = n"
proof -
  obtain a b c e r where n: "n - 1 = 146097 * a + 36524 * b + 1461 * c + 365 * e + r"
      and ab: "a = (n - 1) div 146097" "b = (n - 1) mod 146097 div 36524"
      and ce: "c = (n - 1) mod 146097 mod 36524 div 1461"
        "e = (n - 1) mod 146097 mod 36524 mod 1461 div 365"
      and r: "r = (n - 1) mod 146097 mod 36524 mod 1461 mod 365"
      and bounds: "r < 365" "365 * e + r < 1461" "1461 * c + 365 * e + r < 36524"
        "36524 * b + 1461 * c + 365 * e + r < 146097"
    by (rule ordinal_parts [of "n - 1"])
  have ord: "ord2ymd n = (let y = a * 400 + 1 + b * 100 + c * 4 + e in
      if e = 4 \<or> b = 4 then (y - 1, 12, 31)
      else (y, month_of_day y r, r - days_before_month y (month_of_day y r) + 1))"
    unfolding ord2ymd_def Let_def ab ce r by (rule refl)
  have le: "e \<le> 4" "c \<le> 24" "b \<le> 4" using bounds by linarith+
  show ?thesis
  proof (cases "e = 4 \<or> b = 4")
    case False
    then have p: "e \<le> 3" "c \<le> 24" "b \<le> 3" using le by auto
    let ?y = "a * 400 + 1 + b * 100 + c * 4 + e"
    have "r < 365 + (if is_leap ?y then 1 else 0)" using bounds by simp
    then show ?thesis
      using False n assms month_parts [of r ?y] days_before_year_parts [OF p, of a]
      by (simp add: ord Let_def)
  next
    case True
    show ?thesis
    proof (cases "b = 4")
      case b: True
      have rest: "c = 0" "e = 0" "r = 0" using bounds b by linarith+
      have "is_leap (a * 400 + 1 + 3 * 100 + 24 * 4 + 3)"
        "days_before_year (a * 400 + 1 + 3 * 100 + 24 * 4 + 3) = 146097 * a + 145731"
        using is_leap_parts [of 3 24 3 a] days_before_year_parts [of 3 24 3 a] by simp_all
      then show ?thesis using n assms b rest
        by (simp add: ord Let_def ymd2ord_def days_before_month_def)
    next
      case False
      with True have e: "e = 4" "b \<le> 3" using le by auto
      have rest: "c < 24" "r = 0" using bounds e by linarith+
      have "is_leap (a * 400 + 1 + b * 100 + c * 4 + 3)"
        "days_before_year (a * 400 + 1 + b * 100 + c * 4 + 3) =
          146097 * a + 36524 * b + 1461 * c + 1095"
        using is_leap_parts [of 3 c b a] days_before_year_parts [of 3 c b a] rest e by simp_all
      then show ?thesis using n assms e rest
        by (simp add: ord Let_def ymd2ord_def days_before_month_def)
    qed
  qed
qed

section \<open>The fields of an instant\<close>

text \<open>Microseconds since 0001-01-01; 1970-01-01 is the ordinal 719163. The range of a datetime is
  the years 1 to 9999.\<close>

definition utc_total :: "instant \<Rightarrow> nat" where
  "utc_total i = nat (i + 719162 * 86400000000)"

definition datetime_range :: "instant \<Rightarrow> bool" where
  "datetime_range i = (- (719162 * 86400000000) \<le> i \<and> utc_total i < 3652059 * 86400000000)"

definition utc_date :: "instant \<Rightarrow> nat \<times> nat \<times> nat" where
  "utc_date i = ord2ymd (utc_total i div 86400000000 + 1)"

definition utc_second :: "instant \<Rightarrow> nat" where
  "utc_second i = utc_total i div 1000000 mod 86400"

definition utc_microsecond :: "instant \<Rightarrow> nat" where
  "utc_microsecond i = utc_total i mod 1000000"

definition utc_clock :: "instant \<Rightarrow> nat \<times> nat \<times> nat" where
  "utc_clock i = (utc_second i div 3600, utc_second i div 60 mod 60, utc_second i mod 60)"

lemma utc_fields_identify:
  assumes "datetime_range i" and "datetime_range j" and "utc_date i = utc_date j"
    and "utc_clock i = utc_clock j" and "utc_microsecond i = utc_microsecond j"
  shows "i = j"
proof -
  have "utc_total i div 86400000000 + 1 = utc_total j div 86400000000 + 1"
    using assms(3) ymd2ord_ord2ymd [of "utc_total i div 86400000000 + 1"]
      ymd2ord_ord2ymd [of "utc_total j div 86400000000 + 1"] by (simp add: utc_date_def)
  then have day: "utc_total i div 86400000000 = utc_total j div 86400000000" by simp
  have split: "s = s div 3600 * 3600 + s div 60 mod 60 * 60 + s mod 60" for s :: nat
  proof -
    have "s div 3600 = s div 60 div 60" by (simp add: div_mult2_eq [symmetric])
    moreover have "s = s div 60 * 60 + s mod 60" by simp
    moreover have "s div 60 = s div 60 div 60 * 60 + s div 60 mod 60" by simp
    ultimately show ?thesis by linarith
  qed
  have sec: "utc_second i = utc_second j"
    using assms(4) split [of "utc_second i"] split [of "utc_second j"] by (simp add: utc_clock_def)
  have total: "n = n div 86400000000 * 86400000000 + n div 1000000 mod 86400 * 1000000 + n mod 1000000"
    for n :: nat
  proof -
    have "n div 86400000000 = n div 1000000 div 86400" by (simp add: div_mult2_eq [symmetric])
    moreover have "n = n div 1000000 * 1000000 + n mod 1000000" by simp
    moreover have "n div 1000000 = n div 1000000 div 86400 * 86400 + n div 1000000 mod 86400" by simp
    ultimately show ?thesis by linarith
  qed
  have "utc_total i = utc_total j"
    using total [of "utc_total i"] total [of "utc_total j"] day sec assms(5)
    unfolding utc_second_def utc_microsecond_def by metis
  moreover have "0 \<le> i + 719162 * 86400000000" "0 \<le> j + 719162 * 86400000000"
    using assms(1,2) by (simp_all add: datetime_range_def)
  ultimately have "i + 719162 * 86400000000 = j + 719162 * 86400000000"
    unfolding utc_total_def by (simp only: eq_nat_nat_iff)
  then show ?thesis by simp
qed

section \<open>Printed instants\<close>

text \<open>
  \<open>strftime("%Y-%m-%dT%H:%M:%S")\<close>: the C library prints a year without padding, the other fields
  with two digits.
\<close>

definition clock_text :: "instant \<Rightarrow> string" where
  "clock_text i = (case utc_clock i of (h, m, s) \<Rightarrow>
     zpad 2 h @ CHR '':'' # zpad 2 m @ CHR '':'' # zpad 2 s)"

definition date_text :: "(nat \<Rightarrow> string) \<Rightarrow> instant \<Rightarrow> string" where
  "date_text year i = (case utc_date i of (y, m, d) \<Rightarrow>
     year y @ CHR ''-'' # zpad 2 m @ CHR ''-'' # zpad 2 d)"

definition strftime_seconds :: "instant \<Rightarrow> string" where
  "strftime_seconds i = date_text dec_nat i @ CHR ''T'' # clock_text i"

definition rstrip_char :: "char \<Rightarrow> string \<Rightarrow> string" where
  "rstrip_char x s = rev (dropWhile (\<lambda>c. c = x) (rev s))"

abbreviation rstrip_zeros :: "string \<Rightarrow> string" where
  "rstrip_zeros \<equiv> rstrip_char CHR ''0''"

lemma digits_prefix:
  assumes "list_all is_digit a" and "list_all is_digit b" and "\<not> is_digit c" and "\<not> is_digit d"
    and "a @ c # s = b @ d # t"
  shows "a = b \<and> c = d \<and> s = t"
proof -
  have "takeWhile is_digit (u @ e # v) = u" if "list_all is_digit u" "\<not> is_digit e" for u e v
    using that by (simp add: takeWhile_append list_all_iff)
  then have "a = b" using assms by metis
  with assms(5) show ?thesis by simp
qed

lemma zero_digit: "is_digit CHR ''0''"
  by (simp add: is_digit_def)

lemma zpad_digits [simp]: "list_all is_digit (zpad w n)"
  using dec_nat_digits [of n] zero_digit by (auto simp: zpad_def list_all_iff)

lemma dec_nat_all_digits [simp]: "list_all is_digit (dec_nat n)"
  by (rule dec_nat_digits)

lemma dec_val_zeros: "dec_val (replicate k CHR ''0'' @ s) = dec_val s"
proof -
  have "foldl (\<lambda>a c. a * 10 + digit_val c) 0 (replicate k CHR ''0'') = 0"
    by (induction k) (simp_all add: digit_val_def)
  then show ?thesis by (simp add: dec_val_def)
qed

lemma dec_val_zpad [simp]: "dec_val (zpad w n) = n"
  by (simp add: zpad_def dec_val_zeros)

lemma zpad_inject [simp]: "zpad w m = zpad w n \<longleftrightarrow> m = n"
  by (metis dec_val_zpad)

lemma length_zpad: "n < 10 ^ w \<Longrightarrow> 0 < w \<Longrightarrow> length (zpad w n) = w"
  using dec_nat_length [of n w] by (simp add: zpad_def)

lemma rstrip_zeros_split: "s = rstrip_zeros s @ replicate (length s - length (rstrip_zeros s)) CHR ''0''"
proof -
  let ?z = "takeWhile (\<lambda>c. c = CHR ''0'') (rev s)" let ?r = "dropWhile (\<lambda>c. c = CHR ''0'') (rev s)"
  have "s = rev (?z @ ?r)" by (simp only: takeWhile_dropWhile_id rev_rev_ident)
  then have "s = rstrip_zeros s @ rev ?z" by (simp only: rstrip_char_def rev_append)
  moreover have "rev ?z = replicate (length ?z) CHR ''0''"
  proof -
    have "\<forall>y \<in> set (rev ?z). y = CHR ''0''" by (auto dest: set_takeWhileD)
    from replicate_length_same [OF this] show ?thesis by simp
  qed
  moreover have "length s = length (rstrip_zeros s) + length ?z" using calculation(1) by (metis length_append length_rev)
  ultimately show ?thesis by simp
qed

lemma rstrip_zeros_inject:
  "length a = length b \<Longrightarrow> rstrip_zeros a = rstrip_zeros b \<longleftrightarrow> a = b"
  using rstrip_zeros_split [of a] rstrip_zeros_split [of b] by metis

lemma rstrip_zeros_digits: "list_all is_digit s \<Longrightarrow> list_all is_digit (rstrip_zeros s)"
  using set_dropWhileD [of _ _ "rev s"] by (fastforce simp: rstrip_char_def list_all_iff)

lemma separators [simp]: "\<not> is_digit CHR ''-''" "\<not> is_digit CHR '':''" "\<not> is_digit CHR ''T''"
  "\<not> is_digit CHR ''Z''" "\<not> is_digit CHR ''.''"
  by (simp_all add: is_digit_def)

text \<open>A printed second, followed by something that is not a digit, is read back.\<close>

lemma seconds_text_prefix:
  assumes "date_text year i @ CHR ''T'' # clock_text i @ c # s =
      date_text year j @ CHR ''T'' # clock_text j @ d # t"
    and "\<not> is_digit c" and "\<not> is_digit d" and "\<And>n. list_all is_digit (year n)"
    and "\<And>m n. year m = year n \<Longrightarrow> m = n"
  shows "utc_date i = utc_date j \<and> utc_clock i = utc_clock j \<and> c = d \<and> s = t"
proof -
  obtain y1 m1 d1 y2 m2 d2 where date: "utc_date i = (y1, m1, d1)" "utc_date j = (y2, m2, d2)"
    by (metis prod_cases3)
  obtain h1 n1 s1 h2 n2 s2 where clock: "utc_clock i = (h1, n1, s1)" "utc_clock j = (h2, n2, s2)"
    by (metis prod_cases3)
  note text1 = assms(1) [unfolded date_text_def clock_text_def date clock prod.case, simplified]
  note split = digits_prefix [OF _ _ separators(1,1)] digits_prefix [OF _ _ separators(3,3)]
    digits_prefix [OF _ _ separators(2,2)]
  from split(1) [OF assms(4) assms(4) text1] have y: "year y1 = year y2"
      and r1: "zpad 2 m1 @ CHR ''-'' # zpad 2 d1 @ CHR ''T'' # zpad 2 h1 @ CHR '':'' # zpad 2 n1 @
          CHR '':'' # zpad 2 s1 @ c # s =
        zpad 2 m2 @ CHR ''-'' # zpad 2 d2 @ CHR ''T'' # zpad 2 h2 @ CHR '':'' # zpad 2 n2 @
          CHR '':'' # zpad 2 s2 @ d # t" by simp_all
  from split(1) [OF zpad_digits zpad_digits r1] have m: "m1 = m2"
      and r2: "zpad 2 d1 @ CHR ''T'' # zpad 2 h1 @ CHR '':'' # zpad 2 n1 @ CHR '':'' # zpad 2 s1 @ c # s =
        zpad 2 d2 @ CHR ''T'' # zpad 2 h2 @ CHR '':'' # zpad 2 n2 @ CHR '':'' # zpad 2 s2 @ d # t"
    by simp_all
  from split(2) [OF zpad_digits zpad_digits r2] have d: "d1 = d2"
      and r3: "zpad 2 h1 @ CHR '':'' # zpad 2 n1 @ CHR '':'' # zpad 2 s1 @ c # s =
        zpad 2 h2 @ CHR '':'' # zpad 2 n2 @ CHR '':'' # zpad 2 s2 @ d # t" by simp_all
  from split(3) [OF zpad_digits zpad_digits r3] have h: "h1 = h2"
      and r4: "zpad 2 n1 @ CHR '':'' # zpad 2 s1 @ c # s = zpad 2 n2 @ CHR '':'' # zpad 2 s2 @ d # t"
    by simp_all
  from split(3) [OF zpad_digits zpad_digits r4] have n: "n1 = n2"
      and r5: "zpad 2 s1 @ c # s = zpad 2 s2 @ d # t" by simp_all
  from digits_prefix [OF zpad_digits zpad_digits assms(2,3) r5]
  show ?thesis using assms(5) [OF y] m d h n date clock by simp
qed

end
