(* ===== verification/AuditTrail.thy ===== *)
theory AuditTrail
  imports Json Calendar
begin

text \<open>
  The audit chain of \<open>src/src/ato_service/audit.py\<close>: validation of an event, its canonical payload
  and hash, and the append to the table \<open>audit_events\<close> of \<open>db/models.py\<close>. HMAC-SHA-256 is a
  parameter \<open>hmac\<close> of the model (key bytes and message bytes to hex digest). The advisory lock of
  \<open>append_audit_event\<close> makes an append one step, so the table is a plain argument.
\<close>

section \<open>Events\<close>

record audit_event =
  audit_event_id :: uuid
  occurred_at :: instant
  actor_type :: string
  actor_id :: string
  action :: string
  object_type :: string
  object_id :: string
  outcome :: string
  reason_code :: "string option"
  metadata :: "(string \<times> json) list"
  previous_event_hash :: string
  event_hash :: string

datatype audit_error =
    AuditValidationError string
  | AuditUnavailableError string
  | ZeroDivisionError

definition GENESIS_PREVIOUS_EVENT_HASH :: string where
  "GENESIS_PREVIOUS_EVENT_HASH = replicate 64 CHR ''0''"

definition MIN_AUDIT_HMAC_KEY_BYTES :: nat where
  "MIN_AUDIT_HMAC_KEY_BYTES = 32"

text \<open>\<open>text += f".{microsecond:06d}".rstrip("0").rstrip(".")\<close> for a nonzero microsecond.\<close>

definition format_occurred_at :: "instant \<Rightarrow> string" where
  "format_occurred_at i =
     (if utc_microsecond i \<noteq> 0
      then strftime_seconds i @
        rstrip_char CHR ''.'' (rstrip_zeros (CHR ''.'' # zpad 6 (utc_microsecond i))) @ ''Z''
      else strftime_seconds i @ ''Z'')"

definition canonical_audit_event_payload :: "audit_event \<Rightarrow> json" where
  "canonical_audit_event_payload e = JObj
     [(''actor_id'', JStr (actor_id e)), (''actor_type'', JStr (actor_type e)),
      (''audit_event_id'', JStr (uuid_str (audit_event_id e))), (''action'', JStr (action e)),
      (''metadata'', JObj (metadata e)), (''object_id'', JStr (object_id e)),
      (''object_type'', JStr (object_type e)),
      (''occurred_at'', JStr (format_occurred_at (occurred_at e))), (''outcome'', JStr (outcome e)),
      (''previous_event_hash'', JStr (previous_event_hash e)),
      (''reason_code'', (case reason_code e of None \<Rightarrow> JNull | Some c \<Rightarrow> JStr c))]"

definition audit_message :: "audit_event \<Rightarrow> string" where
  "audit_message e = canonical_json_bytes (canonical_audit_event_payload e)"

definition require_audit_hmac_key :: "string option \<Rightarrow> audit_error + string" where
  "require_audit_hmac_key key =
     (case key of
        None \<Rightarrow> Inl (AuditUnavailableError ''audit HMAC key is required'')
      | Some k \<Rightarrow>
          if length k < MIN_AUDIT_HMAC_KEY_BYTES
          then Inl (AuditUnavailableError
            (''audit HMAC key must be at least '' @ dec_nat MIN_AUDIT_HMAC_KEY_BYTES @ '' bytes''))
          else Inr k)"

definition compute_audit_event_hash ::
  "(string \<Rightarrow> string \<Rightarrow> string) \<Rightarrow> string option \<Rightarrow> audit_event \<Rightarrow> audit_error + string" where
  "compute_audit_event_hash hmac key e =
     bindR (require_audit_hmac_key key) (\<lambda>k. Inr (hmac k (audit_message e)))"

definition verify_audit_event_hash ::
  "(string \<Rightarrow> string \<Rightarrow> string) \<Rightarrow> string option \<Rightarrow> audit_event \<Rightarrow> audit_error + bool" where
  "verify_audit_event_hash hmac key e =
     (if \<not> is_sha256_hex (event_hash e) then Inr False
      else bindR (compute_audit_event_hash hmac key e) (\<lambda>expected. Inr (expected = event_hash e)))"

section \<open>Validation\<close>

definition require_actor_type :: "string \<Rightarrow> audit_error + string" where
  "require_actor_type s =
     (if s \<notin> set [''user'', ''service'']
      then Inl (AuditValidationError ''actor_type must be a supported audit actor type'')
      else Inr s)"

definition require_actor_id :: "string \<Rightarrow> audit_error + string" where
  "require_actor_id s =
     (if s = [] \<or> 255 < length s
      then Inl (AuditValidationError ''actor_id must be between 1 and 255 characters'')
      else Inr s)"

text \<open>The patterns \<open>^[a-z][a-z0-9_.]{2,127}$\<close> and \<open>^[a-z][a-z0-9_]{2,63}$\<close>, matched in full.\<close>

definition is_word_char :: "char \<Rightarrow> bool" where
  "is_word_char c = (is_lower c \<or> is_digit c \<or> c = CHR ''_'')"

definition require_action :: "string \<Rightarrow> audit_error + string" where
  "require_action s =
     (if \<not> head_tail_match is_lower (\<lambda>c. is_word_char c \<or> c = CHR ''.'') 2 127 s
      then Inl (AuditValidationError ''action must match the stable audit-action pattern'')
      else Inr s)"

definition require_object_type :: "string \<Rightarrow> audit_error + string" where
  "require_object_type s =
     (if \<not> head_tail_match is_lower is_word_char 2 63 s
      then Inl (AuditValidationError
        ''object_type must match the stable audit-object-type pattern'')
      else Inr s)"

definition require_object_id :: "string \<Rightarrow> audit_error + string" where
  "require_object_id s =
     (if s = [] \<or> 255 < length s
      then Inl (AuditValidationError ''object_id must be between 1 and 255 characters'')
      else Inr s)"

definition require_outcome :: "string \<Rightarrow> audit_error + string" where
  "require_outcome s =
     (if s \<notin> set [''succeeded'', ''denied'', ''failed'']
      then Inl (AuditValidationError ''outcome must be a supported audit outcome'')
      else Inr s)"

definition require_reason_code :: "string option \<Rightarrow> audit_error + string option" where
  "require_reason_code r =
     (case r of
        None \<Rightarrow> Inr None
      | Some c \<Rightarrow>
          if \<not> head_tail_match is_lower is_word_char 2 127 c
          then Inl (AuditValidationError ''reason_code must match the stable error-code pattern'')
          else Inr (Some c))"

definition audit_require_aware_utc :: "datetime \<Rightarrow> audit_error + instant" where
  "audit_require_aware_utc d =
     (case d of
        Naive t \<Rightarrow> Inl (AuditValidationError ''occurred_at must be a timezone-aware datetime'')
      | Aware t \<Rightarrow> Inr t)"

subsection \<open>Metadata\<close>

fun is_prefix :: "string \<Rightarrow> string \<Rightarrow> bool" where
  "is_prefix [] s = True"
| "is_prefix (c # p) [] = False"
| "is_prefix (c # p) (d # s) = (c = d \<and> is_prefix p s)"

fun contains :: "string \<Rightarrow> string \<Rightarrow> bool" where
  "contains p [] = is_prefix p []"
| "contains p (c # s) = (is_prefix p (c # s) \<or> contains p s)"

text \<open>
  A secret-bearing field name: one of the words between the ends of the name or underscores. A key
  that reaches this check has only lower-case letters, digits and underscores, so the hyphens and
  the case folding of \<open>_SECRET_KEY_PATTERN\<close> do not matter.
\<close>

definition secret_words :: "string list" where
  "secret_words = [''password'', ''passwd'', ''secret'', ''apikey'', ''api_key'', ''privatekey'',
     ''private_key'', ''accesstoken'', ''access_token'', ''refreshtoken'', ''refresh_token'',
     ''authtoken'', ''auth_token'', ''bearer'', ''session'', ''prompt'', ''credential'']"

definition is_secret_key :: "string \<Rightarrow> bool" where
  "is_secret_key k =
     list_ex (\<lambda>w. contains (CHR ''_'' # w @ ''_'') (CHR ''_'' # k @ ''_'')) secret_words"

definition is_alnum :: "char \<Rightarrow> bool" where
  "is_alnum c = (is_lower c \<or> is_upper c \<or> is_digit c)"

definition is_token_char :: "char \<Rightarrow> bool" where
  "is_token_char c = (is_alnum c \<or> c = CHR ''_'' \<or> c = CHR ''-'')"

text \<open>A dollar sign also matches before a final newline.\<close>

definition chomp :: "string \<Rightarrow> string" where
  "chomp s = (if s \<noteq> [] \<and> last s = CHR 0x0A then butlast s else s)"

definition to_lower :: "char \<Rightarrow> char" where
  "to_lower c = (if is_upper c then char_of ((of_char c :: nat) + 32) else c)"

definition is_jwt_like :: "string \<Rightarrow> bool" where
  "is_jwt_like s =
     (let a = takeWhile is_token_char s; r1 = drop (length a) s;
          b = takeWhile is_token_char (tl r1); r2 = drop (length b) (tl r1);
          c = tl r2
      in is_prefix ''eyJ'' a \<and> 3 < length a \<and> r1 \<noteq> [] \<and> hd r1 = CHR ''.'' \<and> b \<noteq> [] \<and>
         r2 \<noteq> [] \<and> hd r2 = CHR ''.'' \<and> c \<noteq> [] \<and> list_all is_token_char c)"

definition is_bearer_like :: "string \<Rightarrow> bool" where
  "is_bearer_like s =
     (map to_lower (take 6 s) = ''bearer'' \<and> drop 6 s \<noteq> [] \<and> py_isspace (hd (drop 6 s)) \<and>
      dropWhile py_isspace (drop 6 s) \<noteq> [])"

definition is_secret_value :: "string \<Rightarrow> bool" where
  "is_secret_value s =
     ((let t = chomp s in
         (is_prefix ''sk-'' t \<and> 20 \<le> length (drop 3 t) \<and> list_all is_alnum (drop 3 t)) \<or>
         (is_prefix ''AKIA'' t \<and> length (drop 4 t) = 16 \<and>
           list_all (\<lambda>c. is_digit c \<or> is_upper c) (drop 4 t)) \<or>
         is_jwt_like t) \<or>
      is_bearer_like s)"

definition require_metadata_value :: "json \<Rightarrow> string \<Rightarrow> audit_error + json" where
  "require_metadata_value v key_path =
     (case v of
        JStr s \<Rightarrow>
          if 4000 < length s
          then Inl (AuditValidationError
            (''metadata value for '' @ key_path @ '' exceeds the maximum length''))
          else if is_secret_value s
          then Inl (AuditValidationError
            (''metadata value for '' @ key_path @ '' contains secret-like material''))
          else Inr v
      | JArr xs \<Rightarrow> Inl (AuditValidationError (''metadata value for '' @ key_path @
          '' must be string, number, integer, boolean, or null''))
      | JObj kvs \<Rightarrow> Inl (AuditValidationError (''metadata value for '' @ key_path @
          '' must be string, number, integer, boolean, or null''))
      | _ \<Rightarrow> Inr v)"

definition metadata_key_pattern :: "string \<Rightarrow> bool" where
  "metadata_key_pattern k =
     (case k of [] \<Rightarrow> False | c # cs \<Rightarrow> is_lower c \<and> list_all is_word_char cs)"

definition require_metadata_item :: "string \<times> json \<Rightarrow> audit_error + string \<times> json" where
  "require_metadata_item kv =
     (if fst kv = [] \<or> 128 < length (fst kv)
      then Inl (AuditValidationError ''metadata keys must be between 1 and 128 characters'')
      else if \<not> metadata_key_pattern (fst kv)
      then Inl (AuditValidationError ''metadata keys must match the contract pattern'')
      else if is_secret_key (fst kv)
      then Inl (AuditValidationError (''metadata key '' @ [CHR 0x27] @ fst kv @ [CHR 0x27] @
        '' uses a secret-bearing field name''))
      else bindR (require_metadata_value (snd kv) (fst kv)) (\<lambda>v. Inr (fst kv, v)))"

definition require_metadata ::
  "(string \<times> json) list \<Rightarrow> audit_error + (string \<times> json) list" where
  "require_metadata kvs =
     (if 50 < length kvs
      then Inl (AuditValidationError ''metadata must contain at most 50 properties'')
      else mapR require_metadata_item kvs)"

section \<open>Appending\<close>

definition event_key :: "audit_event \<Rightarrow> instant \<times> uuid" where
  "event_key e = (occurred_at e, audit_event_id e)"

text \<open>\<open>order_by(occurred_at.desc(), audit_event_id.desc()).limit(1)\<close>\<close>

definition load_latest_audit_event :: "audit_event list \<Rightarrow> audit_event option" where
  "load_latest_audit_event rows =
     (case rev (sort_key event_key rows) of [] \<Rightarrow> None | e # _ \<Rightarrow> Some e)"

text \<open>The event before its hash is known.\<close>

definition draft_event ::
  "uuid \<Rightarrow> instant \<Rightarrow> string \<Rightarrow> string \<Rightarrow> string \<Rightarrow> string \<Rightarrow> string \<Rightarrow> string \<Rightarrow> string option
    \<Rightarrow> (string \<times> json) list \<Rightarrow> string \<Rightarrow> audit_event" where
  "draft_event i t atype aid act otype oid outc reason meta previous =
     \<lparr>audit_event_id = i, occurred_at = t, actor_type = atype, actor_id = aid, action = act,
      object_type = otype, object_id = oid, outcome = outc, reason_code = reason,
      metadata = meta, previous_event_hash = previous, event_hash = []\<rparr>"

text \<open>
  \<open>new_id\<close> is what \<open>uuid.uuid4()\<close> returns and \<open>clock\<close> what \<open>datetime.now\<close> returns when no time
  is given. The caller's transaction commits or rolls back; an error leaves the table as it was.
\<close>

definition append_audit_event ::
  "(string \<Rightarrow> string \<Rightarrow> string) \<Rightarrow> uuid \<Rightarrow> instant \<Rightarrow> audit_event list \<Rightarrow> string option
    \<Rightarrow> string \<Rightarrow> string \<Rightarrow> string \<Rightarrow> string \<Rightarrow> string \<Rightarrow> string \<Rightarrow> string option
    \<Rightarrow> (string \<times> json) list option \<Rightarrow> datetime option
    \<Rightarrow> audit_error + audit_event \<times> audit_event list" where
  "append_audit_event hmac new_id clock rows key atype aid act otype oid outc reason meta at =
     bindR (require_audit_hmac_key key) (\<lambda>k.
     bindR (require_actor_type atype) (\<lambda>atype.
     bindR (require_actor_id aid) (\<lambda>aid.
     bindR (require_action act) (\<lambda>act.
     bindR (require_object_type otype) (\<lambda>otype.
     bindR (require_object_id oid) (\<lambda>oid.
     bindR (require_outcome outc) (\<lambda>outc.
     bindR (require_reason_code reason) (\<lambda>reason.
     bindR (require_metadata (case meta of None \<Rightarrow> [] | Some m \<Rightarrow> m)) (\<lambda>meta.
     bindR (audit_require_aware_utc (case at of None \<Rightarrow> Aware clock | Some d \<Rightarrow> d)) (\<lambda>t.
     let previous = (case load_latest_audit_event rows of
           None \<Rightarrow> GENESIS_PREVIOUS_EVENT_HASH | Some e \<Rightarrow> event_hash e);
         draft = draft_event new_id t atype aid act otype oid outc reason meta previous
     in bindR (compute_audit_event_hash hmac (Some k) draft) (\<lambda>h.
       let e = draft\<lparr>event_hash := h\<rparr> in Inr (e, rows @ [e]))))))))))))"

end
