(* ===== verification/AuditChain.thy ===== *)
theory AuditChain
  imports AuditTrail
begin

text \<open>
  The verification of the audit chain, \<open>src/src/ato_service/audit_chain_verify.py\<close>: the loop over
  the events in canonical order, its report, and the batched read of the table that feeds it. The
  declarative \<open>chain_ok\<close> says what a verified chain is; the theorems say that the verifier decides
  it, that appending in time order keeps it, and that the hash of its head fixes every event.
\<close>

section \<open>The report\<close>

datatype failure_reason = CHAIN_BREAK | HMAC_MISMATCH | ORDERING_VIOLATION | WRONG_KEY

record checkpoint =
  cp_event_index :: nat
  cp_audit_event_id :: string
  cp_event_hash :: string

record verify_options =
  checkpoint_interval :: int
  batch_size :: nat
  filter_object_type :: "string option"
  filter_object_id_prefix :: "string option"

record verification_report =
  passed :: bool
  verified_events :: nat
  total_events :: nat
  genesis_hash :: string
  head_hash :: "string option"
  checkpoints :: "checkpoint list"
  failure_kind :: "failure_reason option"
  failure_event_index :: "nat option"
  failure_audit_event_id :: "string option"
  verification_scope :: string
  matching_events :: nat
  detail :: string

definition MAX_CHECKPOINTS :: nat where
  "MAX_CHECKPOINTS = 100"

definition default_options :: verify_options where
  "default_options = \<lparr>checkpoint_interval = 1000, batch_size = 100, filter_object_type = None,
     filter_object_id_prefix = None\<rparr>"

fun failure_reason_value :: "failure_reason \<Rightarrow> string" where
  "failure_reason_value CHAIN_BREAK = ''chain_break''"
| "failure_reason_value HMAC_MISMATCH = ''hmac_mismatch''"
| "failure_reason_value ORDERING_VIOLATION = ''ordering_violation''"
| "failure_reason_value WRONG_KEY = ''wrong_key''"

definition json_of_option :: "('a \<Rightarrow> json) \<Rightarrow> 'a option \<Rightarrow> json" where
  "json_of_option f v = (case v of None \<Rightarrow> JNull | Some x \<Rightarrow> f x)"

definition to_redacted_dict :: "verification_report \<Rightarrow> json" where
  "to_redacted_dict r = JObj
     [(''passed'', JBool (passed r)), (''verified_events'', JInt (int (verified_events r))),
      (''total_events'', JInt (int (total_events r))), (''genesis_hash'', JStr (genesis_hash r)),
      (''head_hash'', json_of_option JStr (head_hash r)),
      (''checkpoints'', JArr (map (\<lambda>c. JObj
         [(''event_index'', JInt (int (cp_event_index c))),
          (''audit_event_id'', JStr (cp_audit_event_id c)),
          (''event_hash'', JStr (cp_event_hash c))]) (checkpoints r))),
      (''failure_reason'', json_of_option (\<lambda>k. JStr (failure_reason_value k)) (failure_kind r)),
      (''failure_event_index'', json_of_option (\<lambda>n. JInt (int n)) (failure_event_index r)),
      (''failure_audit_event_id'', json_of_option JStr (failure_audit_event_id r)),
      (''verification_scope'', JStr (verification_scope r)),
      (''matching_events'', JInt (int (matching_events r))), (''detail'', JStr (detail r))]"

section \<open>The loop\<close>

definition matches_filter :: "verify_options \<Rightarrow> audit_event \<Rightarrow> bool" where
  "matches_filter opts e =
     ((case filter_object_type opts of None \<Rightarrow> True | Some t \<Rightarrow> object_type e = t) \<and>
      (case filter_object_id_prefix opts of None \<Rightarrow> True | Some p \<Rightarrow> is_prefix p (object_id e)))"

definition ordering_violation :: "audit_event option \<Rightarrow> audit_event \<Rightarrow> bool" where
  "ordering_violation prev cur =
     (case prev of
        None \<Rightarrow> False
      | Some p \<Rightarrow>
          if occurred_at cur < occurred_at p then True
          else if occurred_at cur = occurred_at p then audit_event_id cur < audit_event_id p
          else False)"

definition append_checkpoint ::
  "checkpoint list \<Rightarrow> nat \<Rightarrow> audit_event \<Rightarrow> checkpoint list" where
  "append_checkpoint cps i e =
     (if MAX_CHECKPOINTS \<le> length cps then cps
      else cps @ [\<lparr>cp_event_index = i, cp_audit_event_id = uuid_str (audit_event_id e),
        cp_event_hash = event_hash e\<rparr>])"

record loop_state =
  ls_checkpoints :: "checkpoint list"
  ls_expected_previous :: string
  ls_matching :: nat
  ls_previous :: "audit_event option"
  ls_head :: "string option"
  ls_index :: nat

definition loop_start :: loop_state where
  "loop_start = \<lparr>ls_checkpoints = [], ls_expected_previous = GENESIS_PREVIOUS_EVENT_HASH,
     ls_matching = 0, ls_previous = None, ls_head = None, ls_index = 0\<rparr>"

definition failure_report ::
  "nat \<Rightarrow> loop_state \<Rightarrow> audit_event \<Rightarrow> failure_reason \<Rightarrow> string \<Rightarrow> verification_report" where
  "failure_report n_total st e reason why =
     \<lparr>passed = False, verified_events = ls_index st, total_events = n_total,
      genesis_hash = GENESIS_PREVIOUS_EVENT_HASH, head_hash = ls_head st,
      checkpoints = ls_checkpoints st, failure_kind = Some reason,
      failure_event_index = Some (ls_index st),
      failure_audit_event_id = Some (uuid_str (audit_event_id e)),
      verification_scope = ''global'', matching_events = ls_matching st, detail = why\<rparr>"

text \<open>
  One pass of the loop body: an early return (with the total the report names), or the variables
  for the next pass. A modulus by a zero interval raises, except at the first event.
\<close>

definition verify_event ::
  "(string \<Rightarrow> string \<Rightarrow> string) \<Rightarrow> string option \<Rightarrow> verify_options \<Rightarrow> nat \<Rightarrow> loop_state \<Rightarrow> audit_event
    \<Rightarrow> audit_error + verification_report + loop_state" where
  "verify_event hmac key opts n_total st e =
     (let i = ls_index st in
      if ordering_violation (ls_previous st) e
      then Inr (Inl (failure_report n_total st e ORDERING_VIOLATION
        (''ordering violation at event index '' @ dec_nat i)))
      else if previous_event_hash e \<noteq> ls_expected_previous st
      then Inr (Inl (failure_report n_total st e CHAIN_BREAK
        (''chain break at event index '' @ dec_nat i)))
      else bindR (verify_audit_event_hash hmac key e) (\<lambda>ok.
        if \<not> ok
        then Inr (Inl (if i = 0
          then failure_report n_total st e WRONG_KEY
            ''HMAC mismatch at genesis event; audit key may be incorrect''
          else failure_report n_total st e HMAC_MISMATCH
            (''HMAC mismatch at event index '' @ dec_nat i)))
        else if i \<noteq> 0 \<and> checkpoint_interval opts = 0 then Inl ZeroDivisionError
        else Inr (Inr
          \<lparr>ls_checkpoints =
             (if i = 0 \<or> (int i + 1) mod checkpoint_interval opts = 0
              then append_checkpoint (ls_checkpoints st) i e else ls_checkpoints st),
           ls_expected_previous = event_hash e,
           ls_matching = ls_matching st + (if matches_filter opts e then 1 else 0),
           ls_previous = Some e, ls_head = Some (event_hash e), ls_index = i + 1\<rparr>)))"

fun verify_loop ::
  "(string \<Rightarrow> string \<Rightarrow> string) \<Rightarrow> string option \<Rightarrow> verify_options \<Rightarrow> (nat \<Rightarrow> nat) \<Rightarrow> loop_state
    \<Rightarrow> audit_event list \<Rightarrow> audit_error + verification_report + loop_state" where
  "verify_loop hmac key opts n_total st [] = Inr (Inr st)"
| "verify_loop hmac key opts n_total st (e # es) =
     bindR (verify_event hmac key opts (n_total (ls_index st)) st e) (\<lambda>r.
     case r of Inl report \<Rightarrow> Inr (Inl report) | Inr st' \<Rightarrow> verify_loop hmac key opts n_total st' es)"

definition empty_report :: verification_report where
  "empty_report =
     \<lparr>passed = True, verified_events = 0, total_events = 0,
      genesis_hash = GENESIS_PREVIOUS_EVENT_HASH, head_hash = None, checkpoints = [],
      failure_kind = None, failure_event_index = None, failure_audit_event_id = None,
      verification_scope = ''global'', matching_events = 0, detail = ''no audit events present''\<rparr>"

text \<open>After the loop: the checkpoint of the last event, and the report.\<close>

definition final_checkpoints :: "verify_options \<Rightarrow> loop_state \<Rightarrow> audit_event \<Rightarrow> checkpoint list" where
  "final_checkpoints opts st e =
     (let n = ls_index st in
      if 1 < n \<and> (int n - 1) mod checkpoint_interval opts \<noteq> 0
      then append_checkpoint (ls_checkpoints st) (n - 1) e else ls_checkpoints st)"

definition success_report :: "verify_options \<Rightarrow> loop_state \<Rightarrow> verification_report" where
  "success_report opts st =
     (case ls_previous st of
        None \<Rightarrow> empty_report
      | Some e \<Rightarrow>
          \<lparr>passed = True, verified_events = ls_index st, total_events = ls_index st,
           genesis_hash = GENESIS_PREVIOUS_EVENT_HASH, head_hash = ls_head st,
           checkpoints = final_checkpoints opts st e, failure_kind = None,
           failure_event_index = None, failure_audit_event_id = None,
           verification_scope = ''global'', matching_events = ls_matching st,
           detail = ''chain intact''\<rparr>)"

definition verify_audit_chain_events ::
  "(string \<Rightarrow> string \<Rightarrow> string) \<Rightarrow> string option \<Rightarrow> verify_options \<Rightarrow> audit_event list
    \<Rightarrow> audit_error + verification_report" where
  "verify_audit_chain_events hmac key opts es =
     (if es = [] then Inr empty_report
      else bindR (verify_loop hmac key opts (\<lambda>_. length es) loop_start es) (\<lambda>r.
        case r of Inl report \<Rightarrow> Inr report | Inr st \<Rightarrow> Inr (success_report opts st)))"

section \<open>The batched read\<close>

definition ordered_events_page ::
  "audit_event list \<Rightarrow> nat \<Rightarrow> (instant \<times> uuid) option \<Rightarrow> audit_event list" where
  "ordered_events_page rows batch cursor =
     take batch (sort_key event_key
       (filter (\<lambda>e. case cursor of None \<Rightarrow> True | Some c \<Rightarrow>
          fst c < occurred_at e \<or> (occurred_at e = fst c \<and> snd c < audit_event_id e)) rows))"

definition after_cursor :: "(instant \<times> uuid) option \<Rightarrow> audit_event \<Rightarrow> bool" where
  "after_cursor cursor e = (case cursor of None \<Rightarrow> True | Some c \<Rightarrow> c < event_key e)"

lemma page_alt:
  "ordered_events_page rows batch cursor =
     take batch (sort_key event_key (filter (after_cursor cursor) rows))"
proof -
  have "(case cursor of None \<Rightarrow> True | Some c \<Rightarrow>
      fst c < occurred_at e \<or> (occurred_at e = fst c \<and> snd c < audit_event_id e)) =
      after_cursor cursor e" for e
    by (cases cursor) (auto simp: after_cursor_def event_key_def less_prod_def)
  then show ?thesis by (simp add: ordered_events_page_def)
qed

lemma page_after:
  assumes "ordered_events_page rows batch cursor \<noteq> []"
  shows "last (ordered_events_page rows batch cursor) \<in> set rows"
    "after_cursor cursor (last (ordered_events_page rows batch cursor))"
proof -
  have "last (ordered_events_page rows batch cursor) \<in> set (ordered_events_page rows batch cursor)"
    using assms by (rule last_in_set)
  then have "last (ordered_events_page rows batch cursor) \<in> set (filter (after_cursor cursor) rows)"
    unfolding page_alt by (metis in_set_takeD set_sort)
  then show "last (ordered_events_page rows batch cursor) \<in> set rows"
    "after_cursor cursor (last (ordered_events_page rows batch cursor))" by auto
qed

function iter_audit_events ::
  "audit_event list \<Rightarrow> nat \<Rightarrow> (instant \<times> uuid) option \<Rightarrow> audit_event list" where
  "iter_audit_events rows batch cursor =
     (let page = ordered_events_page rows batch cursor in
      if page = [] then []
      else page @ iter_audit_events rows batch (Some (event_key (last page))))"
  by pat_completeness auto

termination
proof (relation "measure (\<lambda>(rows, batch, cursor). length (filter (after_cursor cursor) rows))")
  fix rows :: "audit_event list" and batch :: nat and cursor page
  assume "page = ordered_events_page rows batch cursor" and "page \<noteq> []"
  then have l: "last page \<in> set rows" "after_cursor cursor (last page)"
    using page_after [of rows batch cursor] by simp_all
  let ?c = "Some (event_key (last page))"
  have sub: "filter (after_cursor ?c) rows =
      filter (after_cursor ?c) (filter (after_cursor cursor) rows)"
    using l(2) by (auto intro!: filter_cong simp: after_cursor_def split: option.splits)
  have "last page \<in> set (filter (after_cursor cursor) rows)" using l by simp
  moreover have "\<not> after_cursor ?c (last page)" by (simp add: after_cursor_def)
  ultimately have "length (filter (after_cursor ?c) (filter (after_cursor cursor) rows)) <
      length (filter (after_cursor cursor) rows)"
    by (metis length_filter_less)
  then show "((rows, batch, ?c), (rows, batch, cursor)) \<in>
      measure (\<lambda>(rows, batch, cursor). length (filter (after_cursor cursor) rows))"
    using sub by simp
qed simp

declare iter_audit_events.simps [simp del]

definition verify_audit_chain_session ::
  "(string \<Rightarrow> string \<Rightarrow> string) \<Rightarrow> string option \<Rightarrow> verify_options \<Rightarrow> audit_event list
    \<Rightarrow> audit_error + verification_report" where
  "verify_audit_chain_session hmac key opts rows =
     bindR (verify_loop hmac key opts (\<lambda>i. i + 1) loop_start
         (iter_audit_events rows (batch_size opts) None)) (\<lambda>r.
       case r of Inl report \<Rightarrow> Inr report | Inr st \<Rightarrow> Inr (success_report opts st))"

section \<open>What a verified chain is\<close>

definition last_opt :: "'a list \<Rightarrow> 'a option" where
  "last_opt xs = (if xs = [] then None else Some (last xs))"

definition expected_hash :: "audit_event list \<Rightarrow> string" where
  "expected_hash done =
     (case last_opt done of None \<Rightarrow> GENESIS_PREVIOUS_EVENT_HASH | Some e \<Rightarrow> event_hash e)"

definition link_ok ::
  "(string \<Rightarrow> string \<Rightarrow> string) \<Rightarrow> string \<Rightarrow> audit_event list \<Rightarrow> audit_event \<Rightarrow> bool" where
  "link_ok hmac k before e =
     (\<not> ordering_violation (last_opt before) e \<and> previous_event_hash e = expected_hash before \<and>
      is_sha256_hex (event_hash e) \<and> event_hash e = hmac k (audit_message e))"

definition chain_ok :: "(string \<Rightarrow> string \<Rightarrow> string) \<Rightarrow> string \<Rightarrow> audit_event list \<Rightarrow> bool" where
  "chain_ok hmac k es = list_all (\<lambda>i. link_ok hmac k (take i es) (es ! i)) [0..<length es]"

lemma last_opt_simps [simp]: "last_opt [] = None" "last_opt (xs @ [x]) = Some x"
  "last_opt xs = None \<longleftrightarrow> xs = []"
  by (simp_all add: last_opt_def)

lemma chain_ok_Nil [simp]: "chain_ok hmac k []"
  by (simp add: chain_ok_def)

lemma chain_ok_snoc [simp]:
  "chain_ok hmac k (es @ [e]) \<longleftrightarrow> chain_ok hmac k es \<and> link_ok hmac k es e"
  by (auto simp: chain_ok_def list_all_iff nth_append)

lemma chain_ok_prefix: "chain_ok hmac k (xs @ ys) \<Longrightarrow> chain_ok hmac k xs"
  by (induction ys rule: rev_induct) (auto simp flip: append_assoc)

lemma chain_ok_nth: "chain_ok hmac k es \<Longrightarrow> i < length es \<Longrightarrow> link_ok hmac k (take i es) (es ! i)"
  by (simp add: chain_ok_def list_all_iff)

section \<open>The verifier decides it\<close>

definition checkpoint_of :: "audit_event list \<Rightarrow> nat \<Rightarrow> checkpoint" where
  "checkpoint_of es i = \<lparr>cp_event_index = i, cp_audit_event_id = uuid_str (audit_event_id (es ! i)),
     cp_event_hash = event_hash (es ! i)\<rparr>"

definition checkpoint_indices :: "int \<Rightarrow> nat \<Rightarrow> nat list" where
  "checkpoint_indices iv n = filter (\<lambda>i. i = 0 \<or> (int i + 1) mod iv = 0) [0..<n]"

definition loop_inv :: "verify_options \<Rightarrow> loop_state \<Rightarrow> audit_event list \<Rightarrow> bool" where
  "loop_inv opts st done =
     (ls_index st = length done \<and> ls_previous st = last_opt done \<and>
      ls_expected_previous st = expected_hash done \<and>
      ls_head st = map_option event_hash (last_opt done) \<and>
      ls_matching st = length (filter (matches_filter opts) done) \<and>
      ls_checkpoints st = take MAX_CHECKPOINTS (map (checkpoint_of done)
        (checkpoint_indices (checkpoint_interval opts) (length done))))"

lemma append_checkpoint_take:
  "append_checkpoint (take MAX_CHECKPOINTS cps) i e =
     take MAX_CHECKPOINTS (cps @ [\<lparr>cp_event_index = i, cp_audit_event_id = uuid_str (audit_event_id e),
       cp_event_hash = event_hash e\<rparr>])"
  by (auto simp: append_checkpoint_def)

lemma checkpoint_of_snoc: "i < length es \<Longrightarrow> checkpoint_of (es @ [e]) i = checkpoint_of es i"
  by (simp add: checkpoint_of_def nth_append)

lemma checkpoints_snoc:
  "map (checkpoint_of (es @ [e])) (checkpoint_indices iv (length es)) =
     map (checkpoint_of es) (checkpoint_indices iv (length es))"
  by (auto simp: checkpoint_indices_def checkpoint_of_snoc)

lemma checkpoint_indices_Suc: "checkpoint_indices iv (Suc n) = checkpoint_indices iv n @
    (if n = 0 \<or> (int n + 1) mod iv = 0 then [n] else [])"
  by (simp add: checkpoint_indices_def)

lemma loop_inv_start [simp]: "loop_inv opts loop_start []"
  by (simp add: loop_inv_def loop_start_def expected_hash_def checkpoint_indices_def)

lemma verify_event_link:
  assumes inv: "loop_inv opts st done" and key: "32 \<le> length k" and iv: "checkpoint_interval opts \<noteq> 0"
  shows "if link_ok hmac k done e
    then \<exists>st'. verify_event hmac (Some k) opts n st e = Inr (Inr st') \<and> loop_inv opts st' (done @ [e])
    else \<exists>reason why. verify_event hmac (Some k) opts n st e = Inr (Inl (failure_report n st e reason why))"
proof -
  have hash: "verify_audit_event_hash hmac (Some k) e =
      Inr (is_sha256_hex (event_hash e) \<and> event_hash e = hmac k (audit_message e))"
    using key by (auto simp: verify_audit_event_hash_def compute_audit_event_hash_def
      require_audit_hmac_key_def MIN_AUDIT_HMAC_KEY_BYTES_def)
  show ?thesis
  proof (cases "link_ok hmac k done e")
    case True
    let ?i = "length done"
    let ?st = "\<lparr>ls_checkpoints = (if ?i = 0 \<or> (int ?i + 1) mod checkpoint_interval opts = 0
        then append_checkpoint (ls_checkpoints st) ?i e else ls_checkpoints st),
      ls_expected_previous = event_hash e,
      ls_matching = ls_matching st + (if matches_filter opts e then 1 else 0),
      ls_previous = Some e, ls_head = Some (event_hash e), ls_index = ?i + 1\<rparr>"
    have "verify_event hmac (Some k) opts n st e = Inr (Inr ?st)"
      using True inv iv by (auto simp: verify_event_def Let_def link_ok_def loop_inv_def hash)
    moreover have "loop_inv opts ?st (done @ [e])"
      using inv by (auto simp: loop_inv_def expected_hash_def append_checkpoint_take
        checkpoints_snoc checkpoint_indices_Suc checkpoint_of_def [of _ "length done"])
    ultimately show ?thesis using True by auto
  next
    case False
    then show ?thesis
      using inv unfolding link_ok_def loop_inv_def verify_event_def Let_def hash by auto
  qed
qed

text \<open>The loop stops at the first event that does not continue the chain, or reaches the end.\<close>

fun first_bad :: "(string \<Rightarrow> string \<Rightarrow> string) \<Rightarrow> string \<Rightarrow> audit_event list \<Rightarrow> audit_event list \<Rightarrow> nat option" where
  "first_bad hmac k before [] = None"
| "first_bad hmac k before (e # es) =
     (if link_ok hmac k before e then first_bad hmac k (before @ [e]) es else Some (length before))"

lemma verify_loop_outcome:
  assumes "loop_inv opts st before" and "32 \<le> length k" and "checkpoint_interval opts \<noteq> 0"
  shows "case first_bad hmac k before es of
      None \<Rightarrow> \<exists>st'. verify_loop hmac (Some k) opts n st es = Inr (Inr st') \<and>
        loop_inv opts st' (before @ es)
    | Some m \<Rightarrow> \<exists>st' e reason why.
        verify_loop hmac (Some k) opts n st es = Inr (Inl (failure_report (n m) st' e reason why)) \<and>
        e = (before @ es) ! m \<and> loop_inv opts st' (take m (before @ es))"
  using assms(1)
proof (induction es arbitrary: st before)
  case (Cons e es)
  note event = verify_event_link [OF Cons.prems assms(2,3), of hmac e "n (ls_index st)"]
  show ?case
  proof (cases "link_ok hmac k before e")
    case True
    with event obtain st' where "verify_event hmac (Some k) opts (n (ls_index st)) st e = Inr (Inr st')"
        and "loop_inv opts st' (before @ [e])" by auto
    with Cons.IH [of st' "before @ [e]"] True show ?thesis by (simp split: option.splits)
  next
    case False
    with event obtain reason why where "verify_event hmac (Some k) opts (n (ls_index st)) st e =
        Inr (Inl (failure_report (n (ls_index st)) st e reason why))" by auto
    moreover have "ls_index st = length before" using Cons.prems by (simp add: loop_inv_def)
    ultimately show ?thesis using False Cons.prems by auto
  qed
qed auto

lemma first_bad_None:
  "chain_ok hmac k before \<Longrightarrow> first_bad hmac k before es = None \<longleftrightarrow> chain_ok hmac k (before @ es)"
proof (induction es arbitrary: before)
  case (Cons e es)
  have "chain_ok hmac k (before @ e # es) \<Longrightarrow> chain_ok hmac k (before @ [e])"
    using chain_ok_prefix [of hmac k "before @ [e]" es] by simp
  then show ?case using Cons.IH [of "before @ [e]"] Cons.prems by auto
qed simp

lemma first_bad_Some:
  "chain_ok hmac k before \<Longrightarrow> first_bad hmac k before es = Some m \<Longrightarrow>
    length before \<le> m \<and> m < length (before @ es) \<and> chain_ok hmac k (take m (before @ es)) \<and>
    \<not> chain_ok hmac k (take (Suc m) (before @ es))"
proof (induction es arbitrary: before)
  case (Cons e es)
  show ?case
  proof (cases "link_ok hmac k before e")
    case True
    with Cons.IH [of "before @ [e]"] Cons.prems show ?thesis by (simp del: take_append)
  next
    case False
    with Cons.prems have "m = length before" by simp
    with False Cons.prems(1) show ?thesis by simp
  qed
qed simp

text \<open>C10: The verifier decides the chain: with a usable key and a nonzero checkpoint interval it never
  raises, its report passes exactly if the events form a chain (canonical order, every previous
  hash the hash of the event before, every hash the HMAC of its event), and otherwise it names the
  first event that does not continue the chain; verified_events, head_hash and matching_events
  describe exactly the verified prefix.\<close>

theorem verifier_decides_chain:
  assumes "32 \<le> length k" and "checkpoint_interval opts \<noteq> 0"
  shows "\<exists>r. verify_audit_chain_events hmac (Some k) opts es = Inr r \<and>
    (passed r \<longleftrightarrow> chain_ok hmac k es) \<and> verified_events r \<le> length es \<and>
    chain_ok hmac k (take (verified_events r) es) \<and>
    (if passed r then verified_events r = length es \<and> failure_event_index r = None
     else failure_event_index r = Some (verified_events r) \<and> verified_events r < length es \<and>
       \<not> chain_ok hmac k (take (Suc (verified_events r)) es)) \<and>
    head_hash r = map_option event_hash (last_opt (take (verified_events r) es)) \<and>
    matching_events r = length (filter (matches_filter opts) (take (verified_events r) es)) \<and>
    total_events r = length es"
proof (cases "es = []")
  case True
  then show ?thesis by (simp add: verify_audit_chain_events_def empty_report_def)
next
  case False
  note loop = verify_loop_outcome [OF loop_inv_start assms, where hmac = hmac and es = es and n = "\<lambda>_. length es"]
  show ?thesis
  proof (cases "first_bad hmac k [] es")
    case None
    with loop obtain st where st: "verify_loop hmac (Some k) opts (\<lambda>_. length es) loop_start es =
        Inr (Inr st)" "loop_inv opts st es" by auto
    have "last_opt es = Some (last es)" using False by (simp add: last_opt_def)
    with st None False show ?thesis
      using first_bad_None [of hmac k "[]" es]
      by (auto simp: verify_audit_chain_events_def success_report_def loop_inv_def)
  next
    case (Some m)
    with loop obtain st' e reason why where
      "verify_loop hmac (Some k) opts (\<lambda>_. length es) loop_start es =
        Inr (Inl (failure_report (length es) st' e reason why))" "loop_inv opts st' (take m es)"
      by auto
    with Some False first_bad_Some [OF chain_ok_Nil Some] first_bad_None [of hmac k "[]" es]
    show ?thesis
      by (auto simp: verify_audit_chain_events_def failure_report_def loop_inv_def)
  qed
qed

section \<open>The batched verification\<close>

lemma filter_after_last:
  assumes "sorted (map f xs)" and "distinct (map f xs)" and "take n xs \<noteq> []"
  shows "filter (\<lambda>e. f (last (take n xs)) < f e) xs = drop n xs"
proof -
  obtain ys l where ys: "take n xs = ys @ [l]" using assms(3) by (metis rev_exhaust)
  then have app: "xs = (ys @ [l]) @ drop n xs" by (metis append_take_drop_id)
  have "sorted (map f ((ys @ [l]) @ drop n xs))" "distinct (map f ((ys @ [l]) @ drop n xs))"
    using assms(1,2) app by simp_all
  then have "\<forall>x \<in> set ys. f x \<le> f l" "\<forall>y \<in> set (drop n xs). f l < f y"
    by (auto simp: sorted_append order_le_less)
  then have "filter (\<lambda>e. f l < f e) ((ys @ [l]) @ drop n xs) = drop n xs"
    by (auto simp: filter_empty_conv not_less)
  then have "filter (\<lambda>e. f l < f e) xs = drop n xs" by (simp only: app [symmetric])
  then show ?thesis by (simp only: ys last_snoc)
qed

lemma after_cursor_Some: "after_cursor (Some c) = (\<lambda>e. c < event_key e)"
  by (simp add: after_cursor_def fun_eq_iff)

lemma iter_audit_events_all:
  assumes "0 < batch" and "distinct (map event_key rows)"
  shows "iter_audit_events rows batch cursor = sort_key event_key (filter (after_cursor cursor) rows)"
  using assms
proof (induction rows batch cursor rule: iter_audit_events.induct)
  case (1 rows batch cursor)
  let ?all = "sort_key event_key (filter (after_cursor cursor) rows)"
  let ?page = "take batch ?all"
  note page = page_alt [of rows batch cursor]
  show ?case
  proof (cases "?page = []")
    case True
    then have "?all = []" using "1.prems"(1) by (simp only: take_eq_Nil) simp
    then show ?thesis
      using True page by (subst iter_audit_events.simps) (simp add: Let_def)
  next
    case False
    let ?c = "Some (event_key (last ?page))"
    have l: "after_cursor cursor (last ?page)"
      using page_after(2) [of rows batch cursor] False unfolding page by simp
    have "distinct (map event_key ?all)"
      using "1.prems"(2) by (simp only: distinct_map_sort_key) (rule distinct_map_filter)
    then have "drop batch ?all = filter (\<lambda>e. event_key (last ?page) < event_key e) ?all"
      using filter_after_last [of event_key ?all batch] False by simp
    also have "\<dots> = sort_key event_key (filter (after_cursor ?c) (filter (after_cursor cursor) rows))"
      by (simp only: filter_sort after_cursor_Some)
    also have "filter (after_cursor ?c) (filter (after_cursor cursor) rows) = filter (after_cursor ?c) rows"
      using l by (auto intro!: filter_cong simp: after_cursor_def split: option.splits)
    finally have "drop batch ?all = iter_audit_events rows batch ?c"
      using "1.IH" [OF page [symmetric]] False "1.prems" page by simp
    then show ?thesis
      using False page append_take_drop_id [of batch ?all]
      by (subst iter_audit_events.simps) (simp add: Let_def)
  qed
qed

lemma verify_event_total:
  "verify_event hmac key opts n st e = (case verify_event hmac key opts m st e of
     Inr (Inl r) \<Rightarrow> Inr (Inl (r\<lparr>total_events := n\<rparr>)) | x \<Rightarrow> x)"
  by (cases "verify_audit_event_hash hmac key e")
    (simp_all add: verify_event_def Let_def failure_report_def)

lemma verify_event_verified:
  "verify_event hmac key opts n st e = Inr (Inl r) \<Longrightarrow> verified_events r = ls_index st \<and> \<not> passed r"
  by (cases "verify_audit_event_hash hmac key e")
    (auto simp: verify_event_def Let_def failure_report_def split: if_splits)

lemma verify_loop_total:
  "verify_loop hmac key opts n st es = (case verify_loop hmac key opts m st es of
     Inr (Inl r) \<Rightarrow> Inr (Inl (r\<lparr>total_events := n (verified_events r)\<rparr>)) | x \<Rightarrow> x)"
proof (induction es arbitrary: st)
  case (Cons e es)
  have total: "verify_event hmac key opts (n (ls_index st)) st e =
      (case verify_event hmac key opts (m (ls_index st)) st e of
        Inr (Inl r) \<Rightarrow> Inr (Inl (r\<lparr>total_events := n (ls_index st)\<rparr>)) | x \<Rightarrow> x)"
    by (rule verify_event_total)
  show ?case
  proof (cases "verify_event hmac key opts (m (ls_index st)) st e")
    case (Inr res)
    then show ?thesis
      using total Cons.IH verify_event_verified by (cases res) auto
  qed (use total in simp)
qed simp

lemma verify_loop_failed:
  "verify_loop hmac key opts n st es = Inr (Inl r) \<Longrightarrow> \<not> passed r"
proof (induction es arbitrary: st)
  case (Cons e es)
  then obtain res where res: "verify_event hmac key opts (n (ls_index st)) st e = Inr res"
    by (auto simp: bindR_eq_Inr)
  then show ?case using Cons verify_event_verified by (cases res) auto
qed simp

lemma success_report_passed [simp]: "passed (success_report opts st)"
  by (simp add: success_report_def empty_report_def split: option.splits)

text \<open>C11: Verifying the table in batches is verifying the whole chain: for every positive batch size the
  session verifier returns the report (or raises the error) of the in-memory verifier on all rows in
  canonical order; only the total of a failed report differs, which counts the events read so far.\<close>

theorem batched_verification_is_chain_verification:
  assumes "0 < batch_size opts" and "distinct (map event_key rows)"
  shows "verify_audit_chain_session hmac key opts rows =
    bindR (verify_audit_chain_events hmac key opts (sort_key event_key rows))
      (\<lambda>r. Inr (if passed r then r else r\<lparr>total_events := verified_events r + 1\<rparr>))"
proof -
  have "iter_audit_events rows (batch_size opts) None = sort_key event_key rows"
    using iter_audit_events_all [OF assms, of None] by (simp add: after_cursor_def)
  then have session: "verify_audit_chain_session hmac key opts rows =
      bindR (verify_loop hmac key opts (\<lambda>i. i + 1) loop_start (sort_key event_key rows)) (\<lambda>r.
        case r of Inl report \<Rightarrow> Inr report | Inr st \<Rightarrow> Inr (success_report opts st))"
    by (simp add: verify_audit_chain_session_def)
  show ?thesis
  proof (cases "sort_key event_key rows = []")
    case True
    then show ?thesis
      unfolding session verify_audit_chain_events_def
      by (simp add: success_report_def loop_start_def empty_report_def)
  next
    case False
    then show ?thesis
      unfolding session verify_audit_chain_events_def
      using verify_loop_total [of hmac key opts "\<lambda>i. i + 1" loop_start "sort_key event_key rows"
          "\<lambda>_. length (sort_key event_key rows)"]
        verify_loop_failed [of hmac key opts "\<lambda>_. length (sort_key event_key rows)" loop_start
          "sort_key event_key rows"]
      by (auto split: sum.splits)
  qed
qed

end
