(* ===== verification/AuditProperties.thy ===== *)
theory AuditProperties
  imports AuditChain
begin

text \<open>
  What the audit chain promises. The message that is hashed identifies the event; appending in
  canonical order keeps the chain verified, and an append out of order breaks it; the hash at the
  head of a verified chain fixes all its events. The last two hold up to an explicit failure of
  the hash function: two messages with the same digest, or a message with the all-zero digest.
\<close>

section \<open>The printed time\<close>

lemma rstrip_dot_zeros:
  assumes "n \<noteq> 0"
  shows "rstrip_char CHR ''.'' (rstrip_zeros (CHR ''.'' # zpad w n)) = CHR ''.'' # rstrip_zeros (zpad w n)"
proof -
  let ?r = "rstrip_zeros (zpad w n)"
  have one: "rstrip_zeros (CHR ''.'' # s) = CHR ''.'' # rstrip_zeros s" for s
    by (simp add: rstrip_char_def dropWhile_append)
  have ne: "?r \<noteq> []"
  proof
    assume "?r = []"
    then have "zpad w n = replicate (length (zpad w n)) CHR ''0''"
      using rstrip_zeros_split [of "zpad w n"] by simp
    then have "dec_val (zpad w n) = 0" using dec_val_zeros [of "length (zpad w n)" "[]"] by simp
    with assms show False by simp
  qed
  have "list_all is_digit ?r" by (rule rstrip_zeros_digits) simp
  moreover obtain u c where r: "?r = u @ [c]" using ne by (metis rev_exhaust)
  ultimately have "c \<noteq> CHR ''.''" by auto
  then have "rstrip_char CHR ''.'' (CHR ''.'' # u @ [c]) = CHR ''.'' # u @ [c]"
    by (simp add: rstrip_char_def)
  then have "rstrip_char CHR ''.'' (CHR ''.'' # ?r) = CHR ''.'' # ?r" by (simp only: r)
  then show ?thesis by (simp only: one)
qed

lemma format_occurred_at_alt:
  "format_occurred_at i = date_text dec_nat i @ CHR ''T'' # clock_text i @
     (if utc_microsecond i \<noteq> 0 then CHR ''.'' # rstrip_zeros (zpad 6 (utc_microsecond i)) @ ''Z''
      else ''Z'')"
  by (simp add: format_occurred_at_def strftime_seconds_def rstrip_dot_zeros)

lemma fraction_inject:
  assumes "m < 1000000" and "n < 1000000" and "rstrip_zeros (zpad 6 m) = rstrip_zeros (zpad 6 n)"
  shows "m = n"
  using assms rstrip_zeros_inject [of "zpad 6 m" "zpad 6 n"] length_zpad [of m 6] length_zpad [of n 6]
  by simp

lemma utc_microsecond_less: "utc_microsecond i < 1000000"
  by (simp add: utc_microsecond_def)

lemma format_occurred_at_inject:
  assumes "datetime_range i" and "datetime_range j"
  shows "format_occurred_at i = format_occurred_at j \<longleftrightarrow> i = j"
proof
  assume eq: "format_occurred_at i = format_occurred_at j"
  define tail where "tail x = (if utc_microsecond x \<noteq> 0
    then rstrip_zeros (zpad 6 (utc_microsecond x)) @ ''Z'' else [])" for x
  define mark where "mark x = (if utc_microsecond x \<noteq> 0 then CHR ''.'' else CHR ''Z'')" for x
  have "format_occurred_at x = date_text dec_nat x @ CHR ''T'' # clock_text x @ mark x # tail x" for x
    by (simp add: format_occurred_at_alt tail_def mark_def)
  then have "date_text dec_nat i @ CHR ''T'' # clock_text i @ mark i # tail i =
      date_text dec_nat j @ CHR ''T'' # clock_text j @ mark j # tail j" using eq by simp
  then have parts: "utc_date i = utc_date j" "utc_clock i = utc_clock j" "mark i = mark j" "tail i = tail j"
    using seconds_text_prefix [of dec_nat i "mark i" "tail i" j "mark j" "tail j"]
    by (simp_all add: mark_def split: if_splits)
  have "utc_microsecond i = utc_microsecond j"
    using parts(3,4) fraction_inject [OF utc_microsecond_less utc_microsecond_less]
    by (simp add: mark_def tail_def split: if_splits)
  with parts(1,2) show "i = j" using utc_fields_identify [OF assms] by blast
qed simp

section \<open>The message identifies the event\<close>

definition event_wf :: "audit_event \<Rightarrow> bool" where
  "event_wf e = (wf_json (JObj (metadata e)) \<and> datetime_range (occurred_at e) \<and>
     audit_event_id e < 16 ^ 32)"

definition same_content :: "audit_event \<Rightarrow> audit_event \<Rightarrow> bool" where
  "same_content e f =
     (audit_event_id e = audit_event_id f \<and> occurred_at e = occurred_at f \<and>
      actor_type e = actor_type f \<and> actor_id e = actor_id f \<and> action e = action f \<and>
      object_type e = object_type f \<and> object_id e = object_id f \<and> outcome e = outcome f \<and>
      reason_code e = reason_code f \<and> previous_event_hash e = previous_event_hash f \<and>
      canon (JObj (metadata e)) = canon (JObj (metadata f)))"

lemma same_content_refl [simp]: "same_content e e"
  by (simp add: same_content_def)

definition payload_members :: "audit_event \<Rightarrow> (string \<times> json) list" where
  "payload_members e = (case canonical_audit_event_payload e of JObj kvs \<Rightarrow> kvs)"

lemma payload_members: "canonical_audit_event_payload e = JObj (payload_members e)"
  by (simp add: payload_members_def canonical_audit_event_payload_def)

lemma payload_keys: "distinct (map fst (payload_members e))"
  by (simp add: payload_members_def canonical_audit_event_payload_def)

lemma payload_lookup:
  "map_of (payload_members e) ''actor_id'' = Some (JStr (actor_id e))"
  "map_of (payload_members e) ''actor_type'' = Some (JStr (actor_type e))"
  "map_of (payload_members e) ''audit_event_id'' = Some (JStr (uuid_str (audit_event_id e)))"
  "map_of (payload_members e) ''action'' = Some (JStr (action e))"
  "map_of (payload_members e) ''metadata'' = Some (JObj (metadata e))"
  "map_of (payload_members e) ''object_id'' = Some (JStr (object_id e))"
  "map_of (payload_members e) ''object_type'' = Some (JStr (object_type e))"
  "map_of (payload_members e) ''occurred_at'' = Some (JStr (format_occurred_at (occurred_at e)))"
  "map_of (payload_members e) ''outcome'' = Some (JStr (outcome e))"
  "map_of (payload_members e) ''previous_event_hash'' = Some (JStr (previous_event_hash e))"
  "map_of (payload_members e) ''reason_code'' =
     Some (case reason_code e of None \<Rightarrow> JNull | Some c \<Rightarrow> JStr c)"
  by (simp_all add: payload_members_def canonical_audit_event_payload_def)

lemma payload_wf: "event_wf e \<Longrightarrow> wf_json (canonical_audit_event_payload e)"
  by (auto simp: canonical_audit_event_payload_def event_wf_def split: option.splits)

lemma payload_canon_same:
  assumes "event_wf e" and "event_wf f"
    and "canon (canonical_audit_event_payload e) = canon (canonical_audit_event_payload f)"
  shows "same_content e f"
proof -
  have at: "map_option canon (map_of (payload_members e) k) = map_option canon (map_of (payload_members f) k)"
    for k
    using assms(3) canon_object_eq [OF payload_keys payload_keys, of e f] unfolding payload_members by blast
  have "uuid_str (audit_event_id e) = uuid_str (audit_event_id f)"
    "format_occurred_at (occurred_at e) = format_occurred_at (occurred_at f)"
    "actor_id e = actor_id f" "actor_type e = actor_type f" "action e = action f"
    "object_id e = object_id f" "object_type e = object_type f" "outcome e = outcome f"
    "previous_event_hash e = previous_event_hash f"
    using at [of "''audit_event_id''"] at [of "''occurred_at''"] at [of "''actor_id''"]
      at [of "''actor_type''"] at [of "''action''"] at [of "''object_id''"]
      at [of "''object_type''"] at [of "''outcome''"] at [of "''previous_event_hash''"]
    unfolding payload_lookup by simp_all
  moreover have "canon (JObj (metadata e)) = canon (JObj (metadata f))"
    using at [of "''metadata''"] unfolding payload_lookup by (simp only: option.map option.inject)
  moreover have "reason_code e = reason_code f"
    using at [of "''reason_code''"] unfolding payload_lookup by (auto split: option.splits)
  ultimately show ?thesis
    using assms(1,2) uuid_str_inject format_occurred_at_inject by (simp add: same_content_def event_wf_def)
qed

lemma same_payload_canon:
  assumes "same_content e f"
  shows "canon (canonical_audit_event_payload e) = canon (canonical_audit_event_payload f)"
proof -
  have "canon (JObj (metadata e)) = canon (JObj (metadata f))"
    using assms by (simp add: same_content_def)
  then have "map (\<lambda>(k, v). (k, canon v)) (payload_members e) =
      map (\<lambda>(k, v). (k, canon v)) (payload_members f)"
    using assms unfolding payload_members_def canonical_audit_event_payload_def same_content_def
    by (simp del: canon.simps(2))
  then show ?thesis unfolding payload_members canon.simps by (rule arg_cong)
qed

lemma audit_message_inject:
  assumes "event_wf e" and "event_wf f"
  shows "audit_message e = audit_message f \<longleftrightarrow> same_content e f"
  using canonical_bytes_inject [OF payload_wf payload_wf, OF assms]
    payload_canon_same [OF assms] same_payload_canon unfolding audit_message_def by blast

section \<open>The head fixes the chain\<close>

text \<open>
  The failures of the hash function a statement about these events has to except: two of them
  with different messages and the same digest, or one whose digest is the genesis value.
\<close>

definition digest_clash ::
  "(string \<Rightarrow> string \<Rightarrow> string) \<Rightarrow> string \<Rightarrow> audit_event list \<Rightarrow> bool" where
  "digest_clash hmac k es =
     (list_ex (\<lambda>e. list_ex (\<lambda>f. audit_message e \<noteq> audit_message f \<and>
        hmac k (audit_message e) = hmac k (audit_message f)) es) es \<or>
      list_ex (\<lambda>e. hmac k (audit_message e) = GENESIS_PREVIOUS_EVENT_HASH) es)"

lemma digest_clash_same:
  assumes "\<not> digest_clash hmac k es" and "e \<in> set es" and "f \<in> set es"
    and "hmac k (audit_message e) = hmac k (audit_message f)"
  shows "audit_message e = audit_message f"
  using assms by (auto simp: digest_clash_def list_ex_iff)

lemma digest_clash_genesis:
  "\<not> digest_clash hmac k es \<Longrightarrow> e \<in> set es \<Longrightarrow> hmac k (audit_message e) \<noteq> GENESIS_PREVIOUS_EVENT_HASH"
  by (auto simp: digest_clash_def list_ex_iff)

lemma head_commits:
  assumes "chain_ok hmac k xs" and "chain_ok hmac k ys" and "\<not> digest_clash hmac k es"
    and "set xs \<union> set ys \<subseteq> set es" and "list_all event_wf xs" and "list_all event_wf ys"
    and "expected_hash xs = expected_hash ys"
  shows "list_all2 same_content xs ys"
  using assms(1,2,4-7)
proof (induction xs arbitrary: ys rule: rev_induct)
  case Nil
  show ?case
  proof (cases ys rule: rev_cases)
    case (snoc zs z)
    then have "hmac k (audit_message z) = GENESIS_PREVIOUS_EVENT_HASH"
      using Nil.prems by (simp add: link_ok_def expected_hash_def)
    then show ?thesis using digest_clash_genesis [OF assms(3), of z] Nil.prems snoc by auto
  qed simp
next
  case (snoc x xs)
  show ?case
  proof (cases ys rule: rev_cases)
    case Nil
    then have "hmac k (audit_message x) = GENESIS_PREVIOUS_EVENT_HASH"
      using snoc.prems by (simp add: link_ok_def expected_hash_def)
    then show ?thesis using digest_clash_genesis [OF assms(3), of x] snoc.prems by auto
  next
    case ys: (snoc zs z)
    have links: "link_ok hmac k xs x" "link_ok hmac k zs z" and wf: "event_wf x" "event_wf z"
      using snoc.prems ys by simp_all
    have "hmac k (audit_message x) = hmac k (audit_message z)"
      using links snoc.prems(6) ys by (simp add: link_ok_def expected_hash_def)
    then have "audit_message x = audit_message z"
      using digest_clash_same [OF assms(3)] snoc.prems(3) ys by auto
    then have same: "same_content x z" using audit_message_inject [OF wf] by simp
    then have "expected_hash xs = expected_hash zs"
      using links by (simp add: link_ok_def same_content_def)
    then have "list_all2 same_content xs zs"
      using snoc.prems ys by (intro snoc.IH) auto
    with same ys show ?thesis by (simp add: list_all2_appendI)
  qed
qed

text \<open>C8: The head hash commits to the whole chain: if two tables verify with the same key and report the
  same head hash, they hold the same number of events and the same content position by position,
  unless two of the events involved exhibit an HMAC collision or one of them hashes to the genesis
  value. No event can be altered, removed, inserted or cut off at the end unnoticed.\<close>

theorem head_hash_commits_to_history:
  assumes key: "32 \<le> length k" and iv: "checkpoint_interval opts \<noteq> 0"
    and wf: "list_all event_wf (xs @ ys)"
    and x: "verify_audit_chain_events hmac (Some k) opts xs = Inr r" "passed r"
    and y: "verify_audit_chain_events hmac (Some k) opts ys = Inr r'" "passed r'"
    and head: "head_hash r = head_hash r'"
  shows "list_all2 same_content xs ys \<or> digest_clash hmac k (xs @ ys)"
proof -
  have ok: "chain_ok hmac k es \<and> head_hash q = map_option event_hash (last_opt es)"
    if "verify_audit_chain_events hmac (Some k) opts es = Inr q" "passed q" for es q
  proof -
    note loop = verify_loop_outcome [OF loop_inv_start key iv, where hmac = hmac and es = es
      and n = "\<lambda>_. length es"]
    show ?thesis
    proof (cases "es = []")
      case True
      then show ?thesis using that by (auto simp: verify_audit_chain_events_def empty_report_def)
    next
      case False
      show ?thesis
      proof (cases "first_bad hmac k [] es")
        case None
        with loop obtain st where st: "verify_loop hmac (Some k) opts (\<lambda>_. length es) loop_start es =
            Inr (Inr st)" "loop_inv opts st es" by auto
        have "last_opt es = Some (last es)" using False by (simp add: last_opt_def)
        with st None False that show ?thesis
          using first_bad_None [of hmac k "[]" es]
          by (auto simp: verify_audit_chain_events_def success_report_def loop_inv_def)
      next
        case (Some m)
        with loop that False show ?thesis
          by (auto simp: verify_audit_chain_events_def failure_report_def)
      qed
    qed
  qed
  have eq: "map_option event_hash (last_opt xs) = map_option event_hash (last_opt ys)"
    using ok [OF x] ok [OF y] head by simp
  show ?thesis
  proof (cases "digest_clash hmac k (xs @ ys)")
    case False
    have "expected_hash xs = expected_hash ys"
      using eq by (cases "last_opt xs"; cases "last_opt ys") (simp_all add: expected_hash_def)
    then have "list_all2 same_content xs ys"
      by (intro head_commits [OF _ _ False]) (use ok [OF x] ok [OF y] wf in simp_all)
    then show ?thesis by simp
  qed simp
qed

section \<open>Appending\<close>

lemma insort_key_snoc: "f y \<le> f x \<Longrightarrow> insort_key f y (xs @ [x]) = insort_key f y xs @ [x]"
  by (induction xs) auto

lemma sort_key_snoc: "(\<And>y. y \<in> set xs \<Longrightarrow> f y \<le> f x) \<Longrightarrow> sort_key f (xs @ [x]) = sort_key f xs @ [x]"
  by (induction xs) (simp_all add: insort_key_snoc)

lemma latest_is_last:
  "load_latest_audit_event rows = last_opt (sort_key event_key rows)"
  by (cases "sort_key event_key rows" rule: rev_cases) (simp_all add: load_latest_audit_event_def)

lemma latest_greatest:
  assumes "load_latest_audit_event rows = Some l"
  shows "l \<in> set rows" "e \<in> set rows \<Longrightarrow> event_key e \<le> event_key l"
proof -
  obtain xs where xs: "sort_key event_key rows = xs @ [l]"
    using assms unfolding latest_is_last last_opt_def
    by (metis append_butlast_last_id option.distinct(1) option.inject)
  then show "l \<in> set rows" by (metis in_set_conv_decomp set_sort)
  assume "e \<in> set rows"
  then have "e \<in> set (xs @ [l])" by (metis xs set_sort)
  moreover have "sorted (map event_key (xs @ [l]))" by (metis xs sorted_sort_key)
  ultimately show "event_key e \<le> event_key l" by (auto simp: sorted_append)
qed

lemma latest_None [simp]: "load_latest_audit_event rows = None \<longleftrightarrow> rows = []"
  by (simp add: latest_is_last)

lemma latest_Nil [simp]: "load_latest_audit_event [] = None"
  by simp

lemma draft_event_simps [simp]:
  "audit_event_id (draft_event i t a b c d e f g m p) = i"
  "occurred_at (draft_event i t a b c d e f g m p) = t"
  "metadata (draft_event i t a b c d e f g m p) = m"
  "previous_event_hash (draft_event i t a b c d e f g m p) = p"
  by (simp_all add: draft_event_def)

lemma append_audit_event_Inr:
  assumes "append_audit_event hmac i clock rows (Some k) atype aid act otype oid outc reason meta at =
    Inr (e, rows')"
  shows "rows' = rows @ [e]" "audit_event_id e = i" "event_hash e = hmac k (audit_message e)"
    "previous_event_hash e = expected_hash (sort_key event_key rows)" "32 \<le> length k"
proof -
  from assms have k: "32 \<le> length k"
    by (auto simp: append_audit_event_def bindR_eq_Inr require_audit_hmac_key_def
      MIN_AUDIT_HMAC_KEY_BYTES_def split: if_splits)
  from assms obtain t atype' aid' act' otype' oid' outc' reason' meta' where draft: "rows' = rows @ [e]"
      "e = (draft_event i t atype' aid' act' otype' oid' outc' reason' meta'
          (expected_hash (sort_key event_key rows)))
        \<lparr>event_hash := hmac k (audit_message (draft_event i t atype' aid' act' otype' oid' outc'
          reason' meta' (expected_hash (sort_key event_key rows))))\<rparr>"
    by (auto simp: append_audit_event_def bindR_eq_Inr Let_def compute_audit_event_hash_def
      require_audit_hmac_key_def MIN_AUDIT_HMAC_KEY_BYTES_def expected_hash_def latest_is_last
      split: if_splits)
  have "audit_message (d\<lparr>event_hash := h\<rparr>) = audit_message d" for d h
    by (simp add: audit_message_def canonical_audit_event_payload_def)
  with k draft show "rows' = rows @ [e]" "audit_event_id e = i" "event_hash e = hmac k (audit_message e)"
    "previous_event_hash e = expected_hash (sort_key event_key rows)" "32 \<le> length k"
    by simp_all
qed

lemma append_in_order:
  assumes "chain_ok hmac k (sort_key event_key rows)" and "is_sha256_hex (event_hash e)"
    and "event_hash e = hmac k (audit_message e)"
    and "previous_event_hash e = expected_hash (sort_key event_key rows)"
    and "\<And>l. load_latest_audit_event rows = Some l \<Longrightarrow> event_key l < event_key e"
  shows "chain_ok hmac k (sort_key event_key (rows @ [e]))"
proof -
  have "event_key y \<le> event_key e" if "y \<in> set rows" for y
    using that assms(5) latest_greatest(2) by (cases "load_latest_audit_event rows") force+
  then have "sort_key event_key (rows @ [e]) = sort_key event_key rows @ [e]"
    by (rule sort_key_snoc)
  moreover have "\<not> ordering_violation (last_opt (sort_key event_key rows)) e"
    using assms(5) unfolding latest_is_last
    by (auto simp: ordering_violation_def event_key_def less_prod_def split: option.splits)
  ultimately show ?thesis using assms by (simp add: link_ok_def)
qed

lemma append_out_of_order:
  assumes ok: "chain_ok hmac k (sort_key event_key rows)"
    and hash: "event_hash e = hmac k (audit_message e)"
    and new: "\<And>x. x \<in> set rows \<Longrightarrow> audit_message x \<noteq> audit_message e" "e \<notin> set rows"
    and l: "load_latest_audit_event rows = Some l" "event_key e < event_key l"
    and bad: "chain_ok hmac k (sort_key event_key (rows @ [e]))"
  shows "digest_clash hmac k (rows @ [e])"
proof (rule ccontr)
  assume no: "\<not> digest_clash hmac k (rows @ [e])"
  have "e \<in> set (sort_key event_key (rows @ [e]))" by simp
  then obtain xs ys where sp: "sort_key event_key (rows @ [e]) = xs @ e # ys"
    by (metis split_list)
  have rest: "sort_key event_key rows = filter (\<lambda>x. x \<noteq> e) (xs @ e # ys)"
  proof -
    have "filter (\<lambda>x. x \<noteq> e) (rows @ [e]) = rows" using new(2) by (auto intro: filter_True)
    then show ?thesis unfolding sp [symmetric] filter_sort by simp
  qed
  have perm: "set (xs @ e # ys) = set (rows @ [e])" by (metis sp set_sort)
  have count: "length (xs @ ys) = length rows"
    using arg_cong [OF sp, of length] by simp
  then have "e \<notin> set (xs @ ys)"
    using arg_cong [OF rest, of length] length_filter_less [of e "xs @ ys" "\<lambda>x. x \<noteq> e"]
    by (auto simp: not_less)
  then have "filter (\<lambda>x. x \<noteq> e) xs = xs" "filter (\<lambda>x. x \<noteq> e) ys = ys"
    by (auto intro!: filter_True)
  then have old: "sort_key event_key rows = xs @ ys" using rest by simp
  have "l \<in> set (xs @ ys)" using latest_greatest(1) [OF l(1)] old by (metis set_sort)
  moreover have "sorted (map event_key (xs @ e # ys))" by (metis sp sorted_sort_key)
  then have "event_key x \<le> event_key e" if "x \<in> set xs" for x
    using that by (auto simp: sorted_append)
  ultimately have "l \<in> set ys" using l(2) by (auto simp: not_le [symmetric])
  then obtain s zs where ys: "ys = s # zs" by (cases ys) auto
  have "chain_ok hmac k ((xs @ [e]) @ [s])"
    using chain_ok_prefix [of hmac k "(xs @ [e]) @ [s]" zs] bad unfolding sp ys by simp
  then have "link_ok hmac k (xs @ [e]) s" unfolding chain_ok_snoc by simp
  moreover have "link_ok hmac k xs s" and okx: "chain_ok hmac k xs"
    using chain_ok_prefix [of hmac k "xs @ [s]" zs] ok unfolding old ys by simp_all
  ultimately have eq: "hmac k (audit_message e) = expected_hash xs"
    using hash by (simp add: link_ok_def expected_hash_def)
  show False
  proof (cases xs rule: rev_cases)
    case Nil
    with eq show False using digest_clash_genesis [OF no, of e] by (simp add: expected_hash_def)
  next
    case (snoc us u)
    have u: "u \<in> set rows" using perm snoc \<open>e \<notin> set (xs @ ys)\<close> by auto
    have "event_hash u = hmac k (audit_message u)" using okx snoc by (simp add: link_ok_def)
    then have "hmac k (audit_message u) = hmac k (audit_message e)"
      using eq snoc by (simp add: expected_hash_def)
    then show False using digest_clash_same [OF no, of u e] u new(1) by auto
  qed
qed

text \<open>C9: An append keeps the chain verifiable exactly if it comes last in the canonical order: on a table
  that verifies, a successful append_audit_event with a fresh identifier leaves a table that
  verifies if and only if the new (occurred_at, audit_event_id) is greater than that of the latest
  event. The new event always points to the latest event, so one with an earlier time, or with the
  same time and a smaller random identifier, breaks the chain (unless digests clash).\<close>

theorem append_keeps_chain_iff_latest:
  assumes hex: "\<And>m. is_sha256_hex (hmac k m)" and ok: "chain_ok hmac k (sort_key event_key rows)"
    and fresh: "i \<notin> audit_event_id ` set rows" and wf: "list_all event_wf (rows @ [e])"
    and op: "append_audit_event hmac i clock rows (Some k) atype aid act otype oid outc reason meta at =
      Inr (e, rows')"
    and no: "\<not> digest_clash hmac k rows'"
  shows "chain_ok hmac k (sort_key event_key rows') \<longleftrightarrow>
    (case load_latest_audit_event rows of None \<Rightarrow> True | Some l \<Rightarrow> event_key l < event_key e)"
proof -
  note e = append_audit_event_Inr [OF op]
  have sha: "is_sha256_hex (event_hash e)" using hex e(3) by simp
  have ids: "audit_event_id x \<noteq> audit_event_id e" if "x \<in> set rows" for x
    using that fresh e(2) by (metis imageI)
  then have new: "audit_message x \<noteq> audit_message e" if "x \<in> set rows" for x
    using that wf audit_message_inject [of x e] by (auto simp: same_content_def list_all_iff)
  have "e \<notin> set rows" using ids by blast
  show ?thesis
  proof (cases "load_latest_audit_event rows")
    case None
    then show ?thesis using append_in_order [OF ok sha e(3,4)] e(1) by simp
  next
    case (Some l)
    then have "event_key l \<noteq> event_key e"
      using ids latest_greatest(1) [OF Some] by (auto simp: event_key_def)
    then show ?thesis
      using append_in_order [OF ok sha e(3,4)] append_out_of_order [OF ok e(3) new _ Some]
        linorder_less_linear [of "event_key l" "event_key e"] Some e(1) no \<open>e \<notin> set rows\<close> by auto
  qed
qed

section \<open>Checkpoints\<close>

text \<open>The report of a verified chain of n events lists the checkpoints of the events at the positions
  0 and i with (i + 1) divisible by the interval, then the last event if n - 1 is not divisible by
  the interval, and keeps the first hundred. So the last event is listed twice when the interval
  divides n, and not at all when it divides n - 1 but not n.\<close>

theorem checkpoint_positions:
  assumes "32 \<le> length k" and "checkpoint_interval opts \<noteq> 0" and "chain_ok hmac k es" and "es \<noteq> []"
  shows "\<exists>r. verify_audit_chain_events hmac (Some k) opts es = Inr r \<and>
    map cp_event_index (checkpoints r) =
      take 100 (filter (\<lambda>i. i = 0 \<or> (int i + 1) mod checkpoint_interval opts = 0) [0..<length es] @
        (if 1 < length es \<and> (int (length es) - 1) mod checkpoint_interval opts \<noteq> 0
         then [length es - 1] else []))"
proof -
  have "first_bad hmac k [] es = None" using first_bad_None [of hmac k "[]" es] assms(3) by simp
  then obtain st where st: "verify_loop hmac (Some k) opts (\<lambda>_. length es) loop_start es = Inr (Inr st)"
      "loop_inv opts st es"
    using verify_loop_outcome [OF loop_inv_start assms(1,2), where hmac = hmac and es = es
      and n = "\<lambda>_. length es"] by auto
  have last: "last_opt es = Some (last es)" using assms(4) by (simp add: last_opt_def)
  have idx: "cp_event_index (checkpoint_of es i) = i" for i by (simp add: checkpoint_of_def)
  have keep: "map cp_event_index (take 100 (map (checkpoint_of es) js)) = take 100 js" for js
    by (simp add: take_map idx comp_def)
  have more: "map cp_event_index (append_checkpoint (take 100 (map (checkpoint_of es) js)) i e) =
      take 100 (js @ [i])" for js i e
    by (cases "100 \<le> length js") (simp_all add: append_checkpoint_def MAX_CHECKPOINTS_def take_map idx comp_def)
  have "ls_checkpoints st = take 100 (map (checkpoint_of es)
      (checkpoint_indices (checkpoint_interval opts) (length es)))" and "ls_index st = length es"
    using st(2) by (simp_all add: loop_inv_def MAX_CHECKPOINTS_def)
  then have "map cp_event_index (final_checkpoints opts st (last es)) =
      take 100 (checkpoint_indices (checkpoint_interval opts) (length es) @
        (if 1 < length es \<and> (int (length es) - 1) mod checkpoint_interval opts \<noteq> 0
         then [length es - 1] else []))"
    unfolding final_checkpoints_def Let_def by (simp only: keep more append_Nil2 split: if_splits) auto
  then show ?thesis
    using st assms(4) last
    by (auto simp: verify_audit_chain_events_def success_report_def loop_inv_def checkpoint_indices_def)
qed

section \<open>Witnesses\<close>

definition demo_digest :: string where
  "demo_digest = replicate 64 CHR ''a''"

definition demo_key :: string where
  "demo_key = replicate 32 CHR ''k''"

definition demo_audit :: "(string \<times> json) list \<Rightarrow> audit_event" where
  "demo_audit m = (draft_event 1 0 ''user'' ''isso'' ''ssp.revision.approve'' ''ssp_revision'' ''r1''
     ''succeeded'' None m GENESIS_PREVIOUS_EVENT_HASH)\<lparr>event_hash := demo_digest\<rparr>"

lemma demo_digest_hex [simp]: "is_sha256_hex demo_digest"
  by code_simp

lemma demo_key_length [simp]: "length demo_key = 32"
  by (simp add: demo_key_def)

lemma demo_chain [simp]: "chain_ok (\<lambda>k m. demo_digest) k [demo_audit m]"
  by (simp add: chain_ok_def link_ok_def demo_audit_def ordering_violation_def expected_hash_def
    draft_event_def)

lemma default_interval [simp]: "checkpoint_interval default_options = 1000"
  by (simp add: default_options_def)

theorem verifier_decides_chain_witness:
  "\<exists>r. verify_audit_chain_events (\<lambda>k m. demo_digest) (Some demo_key) default_options
    [demo_audit []] = Inr r \<and> passed r"
  using verifier_decides_chain [of demo_key default_options "\<lambda>k m. demo_digest" "[demo_audit []]"]
  by auto

theorem batched_verification_is_chain_verification_witness:
  "verify_audit_chain_session (\<lambda>k m. demo_digest) (Some demo_key) default_options [demo_audit []] =
     bindR (verify_audit_chain_events (\<lambda>k m. demo_digest) (Some demo_key) default_options
       [demo_audit []]) (\<lambda>r. Inr (if passed r then r else r\<lparr>total_events := verified_events r + 1\<rparr>))"
  using batched_verification_is_chain_verification [of default_options "[demo_audit []]"]
  by (simp add: default_options_def)

lemma demo_wf: "event_wf (demo_audit m) \<longleftrightarrow> wf_json (JObj m)"
  by (simp add: event_wf_def demo_audit_def datetime_range_def utc_total_def draft_event_def)

lemma demo_report:
  "verify_audit_chain_events (\<lambda>k m. demo_digest) (Some demo_key) default_options [demo_audit m] =
     Inr (success_report default_options \<lparr>ls_checkpoints = [checkpoint_of [demo_audit m] 0],
       ls_expected_previous = demo_digest, ls_matching = 1, ls_previous = Some (demo_audit m),
       ls_head = Some demo_digest, ls_index = 1\<rparr>)"
  by (simp add: verify_audit_chain_events_def verify_event_def loop_start_def Let_def
    ordering_violation_def verify_audit_event_hash_def compute_audit_event_hash_def
    require_audit_hmac_key_def MIN_AUDIT_HMAC_KEY_BYTES_def demo_audit_def draft_event_def
    append_checkpoint_def MAX_CHECKPOINTS_def checkpoint_of_def matches_filter_def default_options_def)

text \<open>The same event with its metadata written in another order: the same head, the same content.\<close>

theorem head_hash_commits_to_history_witness:
  "list_all2 same_content [demo_audit [(''a'', JNull), (''b'', JInt 1)]]
     [demo_audit [(''b'', JInt 1), (''a'', JNull)]] \<or>
   digest_clash (\<lambda>k m. demo_digest) demo_key
     ([demo_audit [(''a'', JNull), (''b'', JInt 1)]] @ [demo_audit [(''b'', JInt 1), (''a'', JNull)]])"
  by (rule head_hash_commits_to_history [OF _ _ _ demo_report _ demo_report])
    (simp_all add: demo_wf success_report_def)

theorem checkpoint_positions_witness:
  "\<exists>r. verify_audit_chain_events (\<lambda>k m. demo_digest) (Some demo_key) default_options
    [demo_audit []] = Inr r \<and> map cp_event_index (checkpoints r) = [0]"
  using checkpoint_positions [of demo_key default_options "\<lambda>k m. demo_digest" "[demo_audit []]"]
  by simp

text \<open>A second event five microseconds later, under a hash that tells the two apart.\<close>

definition demo_hmac :: "string \<Rightarrow> string \<Rightarrow> string" where
  "demo_hmac k m = (if m = audit_message (demo_audit []) then demo_digest else replicate 64 CHR ''b'')"

definition demo_next :: audit_event where
  "demo_next = (draft_event 2 5 ''user'' ''isso'' ''ssp.revision.approve'' ''ssp_revision'' ''r2''
     ''succeeded'' None [] demo_digest)\<lparr>event_hash := replicate 64 CHR ''b''\<rparr>"

lemma demo_messages_differ: "audit_message demo_next \<noteq> audit_message (demo_audit [])"
proof -
  have "event_wf demo_next"
    by (simp add: event_wf_def demo_next_def datetime_range_def utc_total_def draft_event_def)
  moreover have "\<not> same_content demo_next (demo_audit [])"
    by (simp add: same_content_def demo_next_def demo_audit_def draft_event_def)
  ultimately show ?thesis using audit_message_inject demo_wf [of "[]"] by simp
qed

lemma demo_append:
  "append_audit_event demo_hmac 2 0 [demo_audit []] (Some demo_key) ''user'' ''isso''
     ''ssp.revision.approve'' ''ssp_revision'' ''r2'' ''succeeded'' None None (Some (Aware 5)) =
   Inr (demo_next, [demo_audit [], demo_next])"
proof -
  let ?d = "draft_event 2 5 ''user'' ''isso'' ''ssp.revision.approve'' ''ssp_revision'' ''r2''
    ''succeeded'' None [] demo_digest"
  have "audit_message ?d = audit_message demo_next"
    by (simp add: demo_next_def audit_message_def canonical_audit_event_payload_def draft_event_def)
  then have "demo_hmac k (audit_message ?d) = replicate 64 CHR ''b''" for k
    using demo_messages_differ by (simp add: demo_hmac_def)
  moreover have "require_action ''ssp.revision.approve'' = Inr ''ssp.revision.approve''"
    "require_object_type ''ssp_revision'' = Inr ''ssp_revision''" by code_simp+
  moreover have "load_latest_audit_event [demo_audit []] = Some (demo_audit [])"
    "event_hash (demo_audit []) = demo_digest"
    by (simp_all add: load_latest_audit_event_def demo_audit_def)
  ultimately show ?thesis
    by (simp add: append_audit_event_def require_audit_hmac_key_def MIN_AUDIT_HMAC_KEY_BYTES_def
      require_actor_type_def require_actor_id_def require_object_id_def require_outcome_def
      require_reason_code_def require_metadata_def audit_require_aware_utc_def
      compute_audit_event_hash_def demo_next_def Let_def)
qed

theorem append_keeps_chain_iff_latest_witness:
  "chain_ok demo_hmac demo_key (sort_key event_key [demo_audit [], demo_next])"
proof -
  have b: "is_sha256_hex (replicate 64 CHR ''b'')" by code_simp
  have hex: "is_sha256_hex (demo_hmac demo_key m)" for m using b by (simp add: demo_hmac_def)
  have ok: "chain_ok demo_hmac demo_key (sort_key event_key [demo_audit []])"
    by (simp add: chain_ok_def link_ok_def ordering_violation_def expected_hash_def demo_hmac_def)
      (simp add: demo_audit_def)
  have wf: "list_all event_wf ([demo_audit []] @ [demo_next])"
    by (simp add: demo_wf) (simp add: event_wf_def demo_next_def datetime_range_def utc_total_def)
  have distinct: "CHR ''a'' \<noteq> CHR ''b''" by simp
  have no: "\<not> digest_clash demo_hmac demo_key [demo_audit [], demo_next]"
    using demo_messages_differ
    by (auto simp: digest_clash_def demo_hmac_def demo_digest_def GENESIS_PREVIOUS_EVENT_HASH_def
      replicate_eq_replicate)
  have fresh: "2 \<notin> audit_event_id ` set [demo_audit []]" by (simp add: demo_audit_def)
  have "load_latest_audit_event [demo_audit []] = Some (demo_audit [])"
    by (simp add: load_latest_audit_event_def)
  moreover have "event_key (demo_audit []) < event_key demo_next"
    by (simp add: event_key_def demo_audit_def demo_next_def)
  ultimately show ?thesis
    using append_keeps_chain_iff_latest [OF hex ok fresh wf demo_append no] by simp
qed

end
