(* ===== verification/Contracts.thy ===== *)
theory Contracts
  imports Json
begin

text \<open>
  The contracts of SSP workspace content, \<open>src/src/ato_service/ssp_workspace/contracts.py\<close>: the
  closed records, their validators, the JSON document of a revision and its digest. A pydantic
  model that fails to validate raises; here each model has the predicate that decides it, and
  operations that build one test the predicate. SHA-256 is a parameter.
\<close>

section \<open>States\<close>

datatype workspace_state = WS_WORKING | WS_ARCHIVED
datatype revision_state = REV_WORKING | REV_APPROVED | REV_SUPERSEDED
datatype evidence_state = EV_UPLOADED | EV_PROCESSING | EV_PROCESSED | EV_FAILED
datatype fact_state = FACT_ACTIVE | FACT_SUPERSEDED
datatype section_state = SEC_EMPTY | SEC_GENERATED | SEC_EDITED | SEC_REVIEWED
datatype control_state = CTL_EMPTY | CTL_GENERATED | CTL_PARTIAL | CTL_REVIEWED
datatype question_state = Q_OPEN | Q_ANSWERED | Q_DISMISSED
datatype patch_state = PATCH_PROPOSED | PATCH_APPLIED | PATCH_REJECTED | PATCH_STALE
datatype profile_state = PROFILE_INACTIVE | PROFILE_ACTIVE | PROFILE_ARCHIVED
datatype provenance = EXTRACTED | AGENT_GENERATED | ISSO_ENTERED

fun fact_state_value :: "fact_state \<Rightarrow> string" where
  "fact_state_value FACT_ACTIVE = ''active''"
| "fact_state_value FACT_SUPERSEDED = ''superseded''"

fun section_state_value :: "section_state \<Rightarrow> string" where
  "section_state_value SEC_EMPTY = ''empty''"
| "section_state_value SEC_GENERATED = ''generated''"
| "section_state_value SEC_EDITED = ''edited''"
| "section_state_value SEC_REVIEWED = ''reviewed''"

fun control_state_value :: "control_state \<Rightarrow> string" where
  "control_state_value CTL_EMPTY = ''empty''"
| "control_state_value CTL_GENERATED = ''generated''"
| "control_state_value CTL_PARTIAL = ''partial''"
| "control_state_value CTL_REVIEWED = ''reviewed''"

fun question_state_value :: "question_state \<Rightarrow> string" where
  "question_state_value Q_OPEN = ''open''"
| "question_state_value Q_ANSWERED = ''answered''"
| "question_state_value Q_DISMISSED = ''dismissed''"

fun provenance_value :: "provenance \<Rightarrow> string" where
  "provenance_value EXTRACTED = ''extracted''"
| "provenance_value AGENT_GENERATED = ''agent_generated''"
| "provenance_value ISSO_ENTERED = ''isso_entered''"

section \<open>Content\<close>

record evidence_link =
  artifact_id :: uuid
  locator :: "(string \<times> json) list"

record fact_content =
  fact_key :: string
  fact_value :: json
  fact_provenance :: provenance
  fact_evidence :: "evidence_link list"
  fact_state :: fact_state

record section_content =
  section_key :: string
  section_title :: string
  section_text :: string
  section_state :: section_state
  section_evidence :: "evidence_link list"

record control_content =
  control_id :: string
  control_title :: string
  implementation_status :: "string option"
  implementation_statement :: string
  responsibility :: "string option"
  control_state :: control_state
  control_evidence :: "evidence_link list"
  unresolved_reason :: "string option"

record question_content =
  question_id :: uuid
  question :: string
  target_type :: string
  target_key :: string
  owner_type :: string
  question_state :: question_state
  answer :: "string option"

record revision_content =
  facts :: "fact_content list"
  sections :: "section_content list"
  controls :: "control_content list"
  questions :: "question_content list"

record evidence_artifact_content =
  eac_evidence_artifact_id :: uuid
  eac_workspace_id :: uuid
  eac_source_artifact_id :: "uuid option"
  eac_storage_key :: string
  eac_size_bytes :: int
  eac_display_filename :: string
  eac_media_type :: string
  eac_detected_format :: "string option"
  eac_sha256 :: string
  eac_state :: evidence_state
  eac_extracted_segments :: "json list"

record profile_requirement =
  req_key :: string
  req_value_type :: string
  req_required :: bool
  req_enum_values :: "string list"
  req_min_length :: int
  req_evidence_required_for_agent_value :: bool
  req_structured_kind :: "string option"

section \<open>Validation\<close>

definition length_between :: "nat \<Rightarrow> nat \<Rightarrow> string \<Rightarrow> bool" where
  "length_between lo hi s = (lo \<le> length s \<and> length s \<le> hi)"

definition opt_max_length :: "nat \<Rightarrow> string option \<Rightarrow> bool" where
  "opt_max_length hi v = (case v of None \<Rightarrow> True | Some s \<Rightarrow> length s \<le> hi)"

text \<open>\<open>bool(text.strip())\<close> and, for an optional text, \<open>text and text.strip()\<close>.\<close>

definition has_text :: "string \<Rightarrow> bool" where
  "has_text s = (py_strip s \<noteq> [])"

definition opt_has_text :: "string option \<Rightarrow> bool" where
  "opt_has_text v = (case v of None \<Rightarrow> False | Some s \<Rightarrow> s \<noteq> [] \<and> has_text s)"

definition valid_evidence_link :: "evidence_link \<Rightarrow> bool" where
  "valid_evidence_link l = (locator l \<noteq> [])"

text \<open>The pattern \<open>^[a-f0-9]{2}/[a-f0-9]{64}$\<close> and \<open>storage_key.split("/", maxsplit=1)[1]\<close>.\<close>

definition storage_key_pattern :: "string \<Rightarrow> bool" where
  "storage_key_pattern s =
     (length s = 67 \<and> list_all is_hex_lower (take 2 s) \<and> s ! 2 = CHR ''/'' \<and>
      list_all is_hex_lower (drop 3 s))"

definition after_slash :: "string \<Rightarrow> string" where
  "after_slash s = tl (dropWhile (\<lambda>c. c \<noteq> CHR ''/'') s)"

definition valid_evidence_artifact :: "evidence_artifact_content \<Rightarrow> bool" where
  "valid_evidence_artifact a =
     (storage_key_pattern (eac_storage_key a) \<and> 1 \<le> eac_size_bytes a \<and>
      length_between 1 255 (eac_display_filename a) \<and> length_between 1 255 (eac_media_type a) \<and>
      (case eac_detected_format a of None \<Rightarrow> True | Some f \<Rightarrow> length_between 1 32 f) \<and>
      is_sha256_hex (eac_sha256 a) \<and>
      after_slash (eac_storage_key a) = eac_sha256 a \<and>
      \<not> (eac_state a = EV_PROCESSED \<and> eac_detected_format a = None))"

definition valid_fact :: "fact_content \<Rightarrow> bool" where
  "valid_fact f =
     (length_between 1 255 (fact_key f) \<and> list_all valid_evidence_link (fact_evidence f) \<and>
      \<not> (fact_provenance f \<noteq> ISSO_ENTERED \<and> fact_evidence f = []))"

definition valid_section :: "section_content \<Rightarrow> bool" where
  "valid_section s =
     (length_between 1 255 (section_key s) \<and> length_between 1 500 (section_title s) \<and>
      length (section_text s) \<le> 100000 \<and> list_all valid_evidence_link (section_evidence s) \<and>
      \<not> (section_state s = SEC_EMPTY \<and> has_text (section_text s)) \<and>
      \<not> (section_state s \<noteq> SEC_EMPTY \<and> \<not> has_text (section_text s)))"

text \<open>
  The pattern \<open>^[A-Z]{2,4}-[0-9]+(?:\([0-9]+\)|(?:\.[0-9]+)+)?$\<close> of a control identifier: a family,
  a number, and a parenthesised or dotted enhancement.
\<close>

fun dotted_digits :: "bool \<Rightarrow> string \<Rightarrow> bool" where
  "dotted_digits after_digit [] = after_digit"
| "dotted_digits after_digit (c # s) =
     (if is_digit c then dotted_digits True s
      else c = CHR ''.'' \<and> after_digit \<and> dotted_digits False s)"

definition control_id_pattern :: "string \<Rightarrow> bool" where
  "control_id_pattern s =
     (let family = takeWhile is_upper s; rest = dropWhile is_upper s;
          number = takeWhile is_digit (tl rest); suffix = dropWhile is_digit (tl rest)
      in 2 \<le> length family \<and> length family \<le> 4 \<and> rest \<noteq> [] \<and> hd rest = CHR ''-'' \<and>
         number \<noteq> [] \<and>
         (suffix = [] \<or>
          (hd suffix = CHR ''('' \<and> last suffix = CHR '')'' \<and> 3 \<le> length suffix \<and>
           list_all is_digit (butlast (tl suffix))) \<or>
          (hd suffix = CHR ''.'' \<and> dotted_digits True suffix)))"

definition valid_control :: "control_content \<Rightarrow> bool" where
  "valid_control c =
     (control_id_pattern (control_id c) \<and> length_between 1 500 (control_title c) \<and>
      opt_max_length 64 (implementation_status c) \<and>
      length (implementation_statement c) \<le> 100000 \<and> opt_max_length 64 (responsibility c) \<and>
      list_all valid_evidence_link (control_evidence c) \<and>
      opt_max_length 4000 (unresolved_reason c) \<and>
      (let has_statement = has_text (implementation_statement c) in
       \<not> (control_state c = CTL_EMPTY \<and> has_statement) \<and>
       \<not> (control_state c \<in> {CTL_GENERATED, CTL_REVIEWED} \<and> \<not> has_statement) \<and>
       \<not> (control_state c = CTL_PARTIAL \<and>
          \<not> (has_statement \<or> opt_has_text (unresolved_reason c)))))"

definition valid_question :: "question_content \<Rightarrow> bool" where
  "valid_question q =
     (length_between 1 4000 (question q) \<and>
      target_type q \<in> set [''fact'', ''ssp_section'', ''control''] \<and>
      length_between 1 255 (target_key q) \<and>
      owner_type q \<in> set [''agency'', ''technical'', ''isso'', ''system_owner'', ''other''] \<and>
      opt_max_length 20000 (answer q) \<and>
      \<not> (question_state q = Q_ANSWERED \<and> \<not> opt_has_text (answer q)) \<and>
      \<not> (question_state q = Q_OPEN \<and> answer q \<noteq> None))"

definition valid_content :: "revision_content \<Rightarrow> bool" where
  "valid_content c =
     (list_all valid_fact (facts c) \<and> list_all valid_section (sections c) \<and>
      list_all valid_control (controls c) \<and> list_all valid_question (questions c) \<and>
      distinct (map fact_key (facts c)) \<and> distinct (map section_key (sections c)) \<and>
      distinct (map control_id (controls c)) \<and> distinct (map question_id (questions c)))"

definition valid_requirement :: "profile_requirement \<Rightarrow> bool" where
  "valid_requirement r =
     (length_between 1 255 (req_key r) \<and>
      req_value_type r \<in> set [''string'', ''boolean'', ''number'', ''array'', ''object''] \<and>
      0 \<le> req_min_length r \<and> req_min_length r \<le> 100000 \<and>
      \<not> (req_enum_values r \<noteq> [] \<and> req_value_type r \<noteq> ''string'') \<and>
      distinct (req_enum_values r))"

section \<open>The document and its digest\<close>

definition opt_str :: "string option \<Rightarrow> json" where
  "opt_str v = (case v of None \<Rightarrow> JNull | Some s \<Rightarrow> JStr s)"

definition link_document :: "evidence_link \<Rightarrow> json" where
  "link_document l = JObj [(''artifact_id'', JStr (uuid_str (artifact_id l))),
     (''locator'', JObj (locator l))]"

definition links_document :: "evidence_link list \<Rightarrow> json" where
  "links_document ls = JArr (map link_document ls)"

definition fact_document :: "fact_content \<Rightarrow> json" where
  "fact_document f = JObj [(''key'', JStr (fact_key f)), (''value'', fact_value f),
     (''provenance'', JStr (provenance_value (fact_provenance f))),
     (''evidence'', links_document (fact_evidence f)),
     (''state'', JStr (fact_state_value (fact_state f)))]"

definition section_document :: "section_content \<Rightarrow> json" where
  "section_document s = JObj [(''key'', JStr (section_key s)), (''title'', JStr (section_title s)),
     (''content'', JStr (section_text s)), (''state'', JStr (section_state_value (section_state s))),
     (''evidence'', links_document (section_evidence s))]"

definition control_document :: "control_content \<Rightarrow> json" where
  "control_document c = JObj [(''control_id'', JStr (control_id c)),
     (''title'', JStr (control_title c)),
     (''implementation_status'', opt_str (implementation_status c)),
     (''implementation_statement'', JStr (implementation_statement c)),
     (''responsibility'', opt_str (responsibility c)),
     (''state'', JStr (control_state_value (control_state c))),
     (''evidence'', links_document (control_evidence c)),
     (''unresolved_reason'', opt_str (unresolved_reason c))]"

definition question_document :: "question_content \<Rightarrow> json" where
  "question_document q = JObj [(''question_id'', JStr (uuid_str (question_id q))),
     (''question'', JStr (question q)), (''target_type'', JStr (target_type q)),
     (''target_key'', JStr (target_key q)), (''owner_type'', JStr (owner_type q)),
     (''state'', JStr (question_state_value (question_state q))), (''answer'', opt_str (answer q))]"

definition content_document :: "revision_content \<Rightarrow> json" where
  "content_document c = JObj [(''schema_version'', JStr ''1.0.0''),
     (''facts'', JArr (map fact_document (facts c))),
     (''sections'', JArr (map section_document (sections c))),
     (''controls'', JArr (map control_document (controls c))),
     (''questions'', JArr (map question_document (questions c)))]"

definition revision_content_sha256 :: "(string \<Rightarrow> string) \<Rightarrow> revision_content \<Rightarrow> string" where
  "revision_content_sha256 sha256 c = sha256 (canonical_json_bytes (content_document c))"

section \<open>The digest identifies the content\<close>

text \<open>Two contents are the same up to the order of members inside JSON values.\<close>

definition same_link :: "evidence_link \<Rightarrow> evidence_link \<Rightarrow> bool" where
  "same_link l m = (artifact_id l = artifact_id m \<and> canon (JObj (locator l)) = canon (JObj (locator m)))"

definition same_fact :: "fact_content \<Rightarrow> fact_content \<Rightarrow> bool" where
  "same_fact f g = (fact_key f = fact_key g \<and> canon (fact_value f) = canon (fact_value g) \<and>
     fact_provenance f = fact_provenance g \<and> fact_state f = fact_state g \<and>
     list_all2 same_link (fact_evidence f) (fact_evidence g))"

definition same_section :: "section_content \<Rightarrow> section_content \<Rightarrow> bool" where
  "same_section s t = (section_key s = section_key t \<and> section_title s = section_title t \<and>
     section_text s = section_text t \<and> section_state s = section_state t \<and>
     list_all2 same_link (section_evidence s) (section_evidence t))"

definition same_control :: "control_content \<Rightarrow> control_content \<Rightarrow> bool" where
  "same_control c d = (control_id c = control_id d \<and> control_title c = control_title d \<and>
     implementation_status c = implementation_status d \<and>
     implementation_statement c = implementation_statement d \<and>
     responsibility c = responsibility d \<and> control_state c = control_state d \<and>
     unresolved_reason c = unresolved_reason d \<and>
     list_all2 same_link (control_evidence c) (control_evidence d))"

definition same_question :: "question_content \<Rightarrow> question_content \<Rightarrow> bool" where
  "same_question q r = (question_id q = question_id r \<and> question q = question r \<and>
     target_type q = target_type r \<and> target_key q = target_key r \<and>
     owner_type q = owner_type r \<and> question_state q = question_state r \<and> answer q = answer r)"

definition same_revision_content :: "revision_content \<Rightarrow> revision_content \<Rightarrow> bool" where
  "same_revision_content c d =
     (list_all2 same_fact (facts c) (facts d) \<and> list_all2 same_section (sections c) (sections d) \<and>
      list_all2 same_control (controls c) (controls d) \<and>
      list_all2 same_question (questions c) (questions d))"

text \<open>What pydantic and JSON guarantee of the parts: identifiers are UUIDs, values are JSON.\<close>

definition link_wf :: "evidence_link \<Rightarrow> bool" where
  "link_wf l = (artifact_id l < 16 ^ 32 \<and> wf_json (JObj (locator l)))"

definition content_wf :: "revision_content \<Rightarrow> bool" where
  "content_wf c =
     (list_all (\<lambda>f. wf_json (fact_value f) \<and> list_all link_wf (fact_evidence f)) (facts c) \<and>
      list_all (\<lambda>s. list_all link_wf (section_evidence s)) (sections c) \<and>
      list_all (\<lambda>x. list_all link_wf (control_evidence x)) (controls c) \<and>
      list_all (\<lambda>q. question_id q < 16 ^ 32) (questions c))"

lemma canon_fields:
  assumes "canon (JObj a) = canon (JObj b)" and "map fst a = map fst b" and "distinct (map fst a)"
  shows "map (\<lambda>p. canon (snd p)) a = map (\<lambda>p. canon (snd p)) b"
proof (rule nth_equalityI)
  show len: "length (map (\<lambda>p. canon (snd p)) a) = length (map (\<lambda>p. canon (snd p)) b)"
    using arg_cong [OF assms(2), of length] by simp
  fix i assume "i < length (map (\<lambda>p. canon (snd p)) a)"
  then have i: "i < length a" "i < length b" using len by simp_all
  have key: "fst (a ! i) = fst (b ! i)"
    using arg_cong [OF assms(2), of "\<lambda>ks. ks ! i"] i by simp
  have d: "distinct (map fst b)" using assms(2,3) by simp
  have "map_of a (fst (a ! i)) = Some (snd (a ! i))" "map_of b (fst (a ! i)) = Some (snd (b ! i))"
    using i key assms(3) d by (simp_all add: map_of_eq_Some_iff)
      (metis nth_mem prod.collapse)+
  moreover have "map_option canon (map_of a (fst (a ! i))) = map_option canon (map_of b (fst (a ! i)))"
    using assms(1) canon_object_eq [OF assms(3) d] by blast
  ultimately show "map (\<lambda>p. canon (snd p)) a ! i = map (\<lambda>p. canon (snd p)) b ! i" using i by simp
qed

lemma canon_array:
  assumes "canon (JArr (map f xs)) = canon (JArr (map f ys))"
    and "\<And>x y. x \<in> set xs \<Longrightarrow> y \<in> set ys \<Longrightarrow> canon (f x) = canon (f y) \<Longrightarrow> R x y"
  shows "list_all2 R xs ys"
proof -
  have "map (canon \<circ> f) xs = map (canon \<circ> f) ys" using assms(1) by simp
  then have "list_all2 (\<lambda>x y. canon (f x) = canon (f y)) xs ys"
    by (simp add: list.rel_eq [symmetric] list.rel_map)
  then show ?thesis by (rule list.rel_mono_strong) (rule assms(2))
qed

lemma canon_opt_str: "canon (opt_str a) = canon (opt_str b) \<Longrightarrow> a = b"
  by (auto simp: opt_str_def split: option.splits)

lemma state_values_inject [simp]:
  "fact_state_value a = fact_state_value b \<longleftrightarrow> a = b"
  "section_state_value c = section_state_value d \<longleftrightarrow> c = d"
  "control_state_value e = control_state_value f \<longleftrightarrow> e = f"
  "question_state_value g = question_state_value h \<longleftrightarrow> g = h"
  "provenance_value i = provenance_value j \<longleftrightarrow> i = j"
proof -
  show "fact_state_value a = fact_state_value b \<longleftrightarrow> a = b" by (cases a; cases b) simp_all
  show "section_state_value c = section_state_value d \<longleftrightarrow> c = d" by (cases c; cases d) simp_all
  show "control_state_value e = control_state_value f \<longleftrightarrow> e = f" by (cases e; cases f) simp_all
  show "question_state_value g = question_state_value h \<longleftrightarrow> g = h" by (cases g; cases h) simp_all
  show "provenance_value i = provenance_value j \<longleftrightarrow> i = j" by (cases i; cases j) simp_all
qed

lemma link_document_canon:
  assumes eq: "canon (link_document l) = canon (link_document m)" and "link_wf l" and "link_wf m"
  shows "same_link l m"
proof -
  have "map (\<lambda>p. canon (snd p)) [(''artifact_id'', JStr (uuid_str (artifact_id l))), (''locator'', JObj (locator l))] =
      map (\<lambda>p. canon (snd p)) [(''artifact_id'', JStr (uuid_str (artifact_id m))), (''locator'', JObj (locator m))]"
    by (rule canon_fields [OF eq [unfolded link_document_def]]) simp_all
  then have "uuid_str (artifact_id l) = uuid_str (artifact_id m)"
      "canon (JObj (locator l)) = canon (JObj (locator m))" by (simp_all del: canon.simps(2))
  then show ?thesis using assms(2,3) uuid_str_inject unfolding same_link_def link_wf_def by blast
qed

lemma links_document_canon:
  assumes "canon (links_document ls) = canon (links_document ms)"
    and "list_all link_wf ls" and "list_all link_wf ms"
  shows "list_all2 same_link ls ms"
  using assms(1) unfolding links_document_def
  by (rule canon_array) (use assms(2,3) link_document_canon in \<open>auto simp: list_all_iff\<close>)

lemma fact_document_canon:
  assumes eq: "canon (fact_document f) = canon (fact_document g)"
    and "list_all link_wf (fact_evidence f)" and "list_all link_wf (fact_evidence g)"
  shows "same_fact f g"
  using canon_fields [OF eq [unfolded fact_document_def]] links_document_canon [OF _ assms(2,3)]
  by (simp add: same_fact_def)

lemma section_document_canon:
  assumes eq: "canon (section_document s) = canon (section_document t)"
    and "list_all link_wf (section_evidence s)" and "list_all link_wf (section_evidence t)"
  shows "same_section s t"
  using canon_fields [OF eq [unfolded section_document_def]] links_document_canon [OF _ assms(2,3)]
  by (simp add: same_section_def)

lemma control_document_canon:
  assumes eq: "canon (control_document c) = canon (control_document d)"
    and "list_all link_wf (control_evidence c)" and "list_all link_wf (control_evidence d)"
  shows "same_control c d"
  using canon_fields [OF eq [unfolded control_document_def]] links_document_canon [OF _ assms(2,3)]
    canon_opt_str
  by (simp add: same_control_def)

lemma question_document_canon:
  assumes eq: "canon (question_document q) = canon (question_document r)"
    and "question_id q < 16 ^ 32" and "question_id r < 16 ^ 32"
  shows "same_question q r"
proof -
  have "uuid_str (question_id q) = uuid_str (question_id r) \<Longrightarrow> question_id q = question_id r"
    using uuid_str_inject [OF assms(2,3)] by simp
  then show ?thesis
    using canon_fields [OF eq [unfolded question_document_def]] canon_opt_str
    by (simp add: same_question_def)
qed

lemma content_document_canon:
  assumes eq: "canon (content_document c) = canon (content_document d)"
    and "content_wf c" and "content_wf d"
  shows "same_revision_content c d"
proof -
  have arrays: "canon (JArr (map fact_document (facts c))) = canon (JArr (map fact_document (facts d)))"
      "canon (JArr (map section_document (sections c))) = canon (JArr (map section_document (sections d)))"
      "canon (JArr (map control_document (controls c))) = canon (JArr (map control_document (controls d)))"
      "canon (JArr (map question_document (questions c))) = canon (JArr (map question_document (questions d)))"
    using canon_fields [OF eq [unfolded content_document_def]] by simp_all
  have "list_all2 same_fact (facts c) (facts d)"
    by (rule canon_array [OF arrays(1)])
      (use assms(2,3) fact_document_canon in \<open>auto simp: content_wf_def list_all_iff\<close>)
  moreover have "list_all2 same_section (sections c) (sections d)"
    by (rule canon_array [OF arrays(2)])
      (use assms(2,3) section_document_canon in \<open>auto simp: content_wf_def list_all_iff\<close>)
  moreover have "list_all2 same_control (controls c) (controls d)"
    by (rule canon_array [OF arrays(3)])
      (use assms(2,3) control_document_canon in \<open>auto simp: content_wf_def list_all_iff\<close>)
  moreover have "list_all2 same_question (questions c) (questions d)"
    by (rule canon_array [OF arrays(4)])
      (use assms(2,3) question_document_canon in \<open>auto simp: content_wf_def list_all_iff\<close>)
  ultimately show ?thesis by (simp add: same_revision_content_def)
qed

lemma opt_str_wf [simp]: "wf_json (opt_str v)"
  by (simp add: opt_str_def split: option.splits)

lemma content_document_wf: "content_wf c \<Longrightarrow> wf_json (content_document c)"
  by (auto simp: content_document_def fact_document_def section_document_def control_document_def
    question_document_def links_document_def link_document_def content_wf_def link_wf_def list_all_iff)

text \<open>C12: The revision digest binds the content: two revision contents with the same digest are equal in
  every field of every fact, section, control and question, in order (JSON values up to the order
  of object members), unless their two canonical documents are a collision of the hash function.\<close>

theorem revision_digest_binds_content:
  assumes "content_wf c" and "content_wf d"
    and "revision_content_sha256 sha256 c = revision_content_sha256 sha256 d"
  shows "same_revision_content c d \<or>
    (canonical_json_bytes (content_document c) \<noteq> canonical_json_bytes (content_document d) \<and>
     sha256 (canonical_json_bytes (content_document c)) =
       sha256 (canonical_json_bytes (content_document d)))"
  using canonical_bytes_inject [OF content_document_wf content_document_wf, OF assms(1,2)]
    content_document_canon [OF _ assms(1,2)] assms(3)
  by (auto simp: revision_content_sha256_def)

lemma canon_content_document:
  "canon (content_document c) = JObj (sort_key fst [(''schema_version'', JStr ''1.0.0''),
     (''facts'', JArr (map (canon \<circ> fact_document) (facts c))),
     (''sections'', JArr (map (canon \<circ> section_document) (sections c))),
     (''controls'', JArr (map (canon \<circ> control_document) (controls c))),
     (''questions'', JArr (map (canon \<circ> question_document) (questions c)))])"
  by (simp only: content_document_def canon.simps list.map prod.case map_map)

lemma canon_fact_document:
  "canon (fact_document f) = JObj (sort_key fst [(''key'', JStr (fact_key f)),
     (''value'', canon (fact_value f)), (''provenance'', JStr (provenance_value (fact_provenance f))),
     (''evidence'', canon (links_document (fact_evidence f))),
     (''state'', JStr (fact_state_value (fact_state f)))])"
  by (simp only: fact_document_def canon.simps list.map prod.case)

lemma canon_fact_value:
  "canon v = canon w \<Longrightarrow> canon (fact_document (f\<lparr>fact_value := v\<rparr>)) = canon (fact_document (f\<lparr>fact_value := w\<rparr>))"
  unfolding canon_fact_document by simp

definition empty_content :: revision_content where
  "empty_content = \<lparr>facts = [], sections = [], controls = [], questions = []\<rparr>"

theorem revision_digest_binds_content_witness:
  "same_revision_content
     (empty_content\<lparr>facts := [\<lparr>fact_key = ''k'', fact_value = JObj [(''a'', JNull), (''b'', JInt 1)],
       fact_provenance = ISSO_ENTERED, fact_evidence = [], fact_state = FACT_ACTIVE\<rparr>]\<rparr>)
     (empty_content\<lparr>facts := [\<lparr>fact_key = ''k'', fact_value = JObj [(''b'', JInt 1), (''a'', JNull)],
       fact_provenance = ISSO_ENTERED, fact_evidence = [], fact_state = FACT_ACTIVE\<rparr>]\<rparr>)"
proof -
  let ?f = "\<lambda>v. empty_content\<lparr>facts := [\<lparr>fact_key = ''k'', fact_value = v,
    fact_provenance = ISSO_ENTERED, fact_evidence = [], fact_state = FACT_ACTIVE\<rparr>]\<rparr>"
  let ?v = "JObj [(''a'', JNull), (''b'', JInt 1)]" and ?w = "JObj [(''b'', JInt 1), (''a'', JNull)]"
  have wf: "content_wf (?f ?v)" "content_wf (?f ?w)" by (simp_all add: content_wf_def empty_content_def)
  have values_eq: "canon ?v = canon ?w" by (rule iffD2 [OF canon_object_eq]) auto
  have "map (canon \<circ> fact_document) (facts (?f ?v)) = map (canon \<circ> fact_document) (facts (?f ?w))"
    using canon_fact_value [OF values_eq, of "\<lparr>fact_key = ''k'', fact_value = JNull,
      fact_provenance = ISSO_ENTERED, fact_evidence = [], fact_state = FACT_ACTIVE\<rparr>"]
    by (simp del: canon.simps)
  then have "canon (content_document (?f ?v)) = canon (content_document (?f ?w))"
    unfolding canon_content_document by (simp only:) (simp add: empty_content_def)
  then have bytes: "canonical_json_bytes (content_document (?f ?v)) =
      canonical_json_bytes (content_document (?f ?w))"
    by (simp only: canonical_json_bytes_def)
  then show ?thesis
    using revision_digest_binds_content [OF wf, of "\<lambda>s. s"]
    by (simp only: revision_content_sha256_def bytes) blast
qed

end
