(* ===== verification/Markers.thy ===== *)
theory Markers
  imports Contracts
begin

text \<open>
  The confirmations an ISSO gives on a workspace and how edits make them stale:
  \<open>ssp_workspace/categorization.py\<close> (FIPS 199 categorization) and the status parts of
  \<open>system_definition.py\<close> and \<open>information_types.py\<close>. A confirmation is a fact whose value is
  \<open>confirmed\<close>; an edit of one of the sections it depends on turns the value into \<open>stale\<close>. The
  three markers share one contract, the locale \<open>stale_marker\<close>.
\<close>

section \<open>Facts as a dictionary\<close>

type_synonym fact_dict = "(string \<times> fact_content) list"

text \<open>\<open>{item.key: item for item in content.facts}\<close> and \<open>tuple(facts[key] for key in sorted(facts))\<close>.\<close>

definition facts_by_key :: "revision_content \<Rightarrow> fact_dict" where
  "facts_by_key c = dict_of fact_key (facts c)"

definition with_facts :: "fact_dict \<Rightarrow> revision_content \<Rightarrow> revision_content" where
  "with_facts d c = c\<lparr>facts := sorted_values d\<rparr>"

definition isso_fact :: "string \<Rightarrow> json \<Rightarrow> evidence_link list \<Rightarrow> fact_content" where
  "isso_fact key v ev = \<lparr>fact_key = key, fact_value = v, fact_provenance = ISSO_ENTERED,
     fact_evidence = ev, fact_state = FACT_ACTIVE\<rparr>"

text \<open>The value of an active fact, if it is a string.\<close>

definition active_status :: "string \<Rightarrow> fact_dict \<Rightarrow> string option" where
  "active_status key d =
     (case map_of d key of
        None \<Rightarrow> None
      | Some f \<Rightarrow>
          if fact_state f \<noteq> FACT_ACTIVE then None
          else (case fact_value f of JStr s \<Rightarrow> Some s | _ \<Rightarrow> None))"

section \<open>Categorization\<close>

definition CATEGORIZATION_STATUS_KEY :: string where
  "CATEGORIZATION_STATUS_KEY = ''system.categorization_status''"

definition CATEGORIZATION_TRIGGERS :: "string list" where
  "CATEGORIZATION_TRIGGERS = [''system.purpose'', ''system.authorization_boundary'', ''system.data_types'']"

definition IMPACT_FACT_KEYS :: "string list" where
  "IMPACT_FACT_KEYS = [''system.confidentiality_impact'', ''system.integrity_impact'',
     ''system.availability_impact'']"

definition RATIONALE_FACT_KEYS :: "string list" where
  "RATIONALE_FACT_KEYS = [''system.confidentiality_impact_rationale'',
     ''system.integrity_impact_rationale'', ''system.availability_impact_rationale'']"

definition active_categorization_status :: "fact_dict \<Rightarrow> string option" where
  "active_categorization_status d = active_status CATEGORIZATION_STATUS_KEY d"

definition mark_categorization_stale_if_needed :: "string \<Rightarrow> revision_content \<Rightarrow> revision_content" where
  "mark_categorization_stale_if_needed section c =
     (if section \<notin> set CATEGORIZATION_TRIGGERS then c
      else
        let d = facts_by_key c in
        if active_categorization_status d \<noteq> Some ''confirmed'' then c
        else
          let d1 = dict_put CATEGORIZATION_STATUS_KEY
                (isso_fact CATEGORIZATION_STATUS_KEY (JStr ''stale'') []) d;
              d2 = (case map_of d1 ''system.impact_level'' of
                  None \<Rightarrow> d1
                | Some impact \<Rightarrow> dict_put ''system.provisional_impact_level''
                    (isso_fact ''system.provisional_impact_level'' (fact_value impact) []) d1)
          in with_facts d2 c)"

text \<open>The validations of a confirmation; an error names the field at fault.\<close>

datatype categorization_error = CategorizationValidationError string

definition FIPS_IMPACT_LEVELS :: "string list" where
  "FIPS_IMPACT_LEVELS = [''low'', ''moderate'', ''high'']"

definition validate_categorization_impacts ::
  "string \<Rightarrow> string \<Rightarrow> string \<Rightarrow> categorization_error + string \<times> string \<times> string" where
  "validate_categorization_impacts c i a =
     (if c \<notin> set FIPS_IMPACT_LEVELS then Inl (CategorizationValidationError ''confidentiality'')
      else if i \<notin> set FIPS_IMPACT_LEVELS then Inl (CategorizationValidationError ''integrity'')
      else if a \<notin> set FIPS_IMPACT_LEVELS then Inl (CategorizationValidationError ''availability'')
      else Inr (c, i, a))"

definition validate_categorization_rationales ::
  "string \<Rightarrow> string \<Rightarrow> string \<Rightarrow> categorization_error + string \<times> string \<times> string" where
  "validate_categorization_rationales c i a =
     (if py_strip c = [] then Inl (CategorizationValidationError ''confidentiality_rationale'')
      else if py_strip i = [] then Inl (CategorizationValidationError ''integrity_rationale'')
      else if py_strip a = [] then Inl (CategorizationValidationError ''availability_rationale'')
      else Inr (py_strip c, py_strip i, py_strip a))"

definition validate_categorization_evidence ::
  "evidence_link list \<Rightarrow> evidence_link list \<Rightarrow> evidence_link list \<Rightarrow> categorization_error + unit" where
  "validate_categorization_evidence c i a =
     (if c = [] then Inl (CategorizationValidationError ''confidentiality_evidence'')
      else if i = [] then Inl (CategorizationValidationError ''integrity_evidence'')
      else if a = [] then Inl (CategorizationValidationError ''availability_evidence'')
      else Inr ())"

text \<open>\<open>max\<close> with a key takes the first of the greatest elements; a level outside the table has no rank.\<close>

definition impact_rank :: "string \<Rightarrow> nat option" where
  "impact_rank s = map_of [(''low'', 0), (''moderate'', 1), (''high'', 2)] s"

definition high_water_mark_impact :: "string \<Rightarrow> string \<Rightarrow> string \<Rightarrow> string option" where
  "high_water_mark_impact c i a =
     (case (impact_rank c, impact_rank i, impact_rank a) of
        (Some rc, Some ri, Some ra) \<Rightarrow>
          let (x, rx) = (if rc < ri then (i, ri) else (c, rc)) in
          Some (if rx < ra then a else x)
      | _ \<Rightarrow> None)"

definition build_confirmed_categorization_facts ::
  "string \<Rightarrow> string \<Rightarrow> string \<Rightarrow> string \<times> string \<times> string \<Rightarrow> evidence_link list \<Rightarrow> evidence_link list
     \<Rightarrow> evidence_link list \<Rightarrow> fact_dict" where
  "build_confirmed_categorization_facts c i a rationales ev_c ev_i ev_a =
     (let (rc, ri, ra) = rationales in
      map (\<lambda>f. (fact_key f, f))
        [isso_fact CATEGORIZATION_STATUS_KEY (JStr ''confirmed'') [],
         isso_fact (IMPACT_FACT_KEYS ! 0) (JStr c) ev_c,
         isso_fact (IMPACT_FACT_KEYS ! 1) (JStr i) ev_i,
         isso_fact (IMPACT_FACT_KEYS ! 2) (JStr a) ev_a,
         isso_fact (RATIONALE_FACT_KEYS ! 0) (JStr rc) [],
         isso_fact (RATIONALE_FACT_KEYS ! 1) (JStr ri) [],
         isso_fact (RATIONALE_FACT_KEYS ! 2) (JStr ra) []])"

section \<open>System definition and information types\<close>

definition SYSTEM_DEFINITION_STATUS_KEY :: string where
  "SYSTEM_DEFINITION_STATUS_KEY = ''system.system_definition_status''"

definition SYSTEM_DEFINITION_TRIGGERS :: "string list" where
  "SYSTEM_DEFINITION_TRIGGERS = [''system.authorization_boundary'', ''system.components'',
     ''system.interconnections'']"

definition INFORMATION_TYPES_STATUS_KEY :: string where
  "INFORMATION_TYPES_STATUS_KEY = ''system.information_types_status''"

definition INFORMATION_TYPES_SECTION_KEY :: string where
  "INFORMATION_TYPES_SECTION_KEY = ''system.data_types''"

definition known_status :: "string option \<Rightarrow> string option" where
  "known_status v =
     (case v of
        None \<Rightarrow> None
      | Some s \<Rightarrow> if s \<in> set [''unconfirmed'', ''confirmed'', ''stale''] then Some s else None)"

definition active_system_definition_status :: "fact_dict \<Rightarrow> string option" where
  "active_system_definition_status d = known_status (active_status SYSTEM_DEFINITION_STATUS_KEY d)"

definition active_information_types_status :: "fact_dict \<Rightarrow> string option" where
  "active_information_types_status d = known_status (active_status INFORMATION_TYPES_STATUS_KEY d)"

definition mark_system_definition_stale_if_needed :: "string \<Rightarrow> revision_content \<Rightarrow> revision_content" where
  "mark_system_definition_stale_if_needed section c =
     (if section \<notin> set SYSTEM_DEFINITION_TRIGGERS then c
      else
        let d = facts_by_key c in
        if active_system_definition_status d \<noteq> Some ''confirmed'' then c
        else with_facts (dict_put SYSTEM_DEFINITION_STATUS_KEY
          (isso_fact SYSTEM_DEFINITION_STATUS_KEY (JStr ''stale'') []) d) c)"

definition mark_information_types_stale_if_needed :: "string \<Rightarrow> revision_content \<Rightarrow> revision_content" where
  "mark_information_types_stale_if_needed section c =
     (if section \<noteq> INFORMATION_TYPES_SECTION_KEY then c
      else
        let d = facts_by_key c in
        if active_information_types_status d \<noteq> Some ''confirmed'' then c
        else with_facts (dict_put INFORMATION_TYPES_STATUS_KEY
          (isso_fact INFORMATION_TYPES_STATUS_KEY (JStr ''stale'') []) d) c)"

section \<open>Lookup in the facts of a content\<close>

definition fact_of :: "revision_content \<Rightarrow> string \<Rightarrow> fact_content option" where
  "fact_of c k = map_of (facts_by_key c) k"

abbreviation keyed :: "fact_dict \<Rightarrow> bool" where
  "keyed \<equiv> keyed_by fact_key"

lemma keyed_facts_by_key [simp]: "keyed (facts_by_key c)"
  by (simp add: facts_by_key_def)

lemma fact_key_isso [simp]: "fact_key (isso_fact k v ev) = k"
  by (simp add: isso_fact_def)

lemma facts_with_facts [simp]: "facts (with_facts d c) = sorted_values d"
  and rest_with_facts [simp]: "sections (with_facts d c) = sections c" "controls (with_facts d c) = controls c"
    "questions (with_facts d c) = questions c"
  by (simp_all add: with_facts_def)

lemma fact_of_with_facts [simp]:
  assumes "keyed d"
  shows "fact_of (with_facts d c) = map_of d"
  using assms by (simp add: fact_of_def facts_by_key_def keyed_by_lookup_values fun_eq_iff)

lemma distinct_with_facts: "keyed d \<Longrightarrow> distinct (map fact_key (facts (with_facts d c)))"
  by (simp add: keyed_by_distinct)

lemma fact_ofD: "fact_of c k = Some f \<Longrightarrow> f \<in> set (facts c) \<and> fact_key f = k"
  by (auto simp: fact_of_def facts_by_key_def dest!: map_of_SomeD dest: set_dict_of)

section \<open>The contract of a marker\<close>

text \<open>
  A marker looks at a status in the facts. It changes nothing unless the section is one of its
  triggers and the status is \<open>confirmed\<close>; then the status is \<open>stale\<close>, and of the other facts only
  those in \<open>extra\<close> may differ. It keeps a content valid and touches nothing but facts.
\<close>

locale stale_marker =
  fixes mark :: "string \<Rightarrow> revision_content \<Rightarrow> revision_content"
    and status :: "revision_content \<Rightarrow> string option"
    and triggers :: "string set" and key :: string and extra :: "string set"
  assumes other_section: "s \<notin> triggers \<Longrightarrow> mark s c = c"
    and not_confirmed: "status c \<noteq> Some ''confirmed'' \<Longrightarrow> mark s c = c"
    and becomes_stale: "s \<in> triggers \<Longrightarrow> status c = Some ''confirmed'' \<Longrightarrow> status (mark s c) = Some ''stale''"
    and keeps_facts: "k \<noteq> key \<Longrightarrow> k \<notin> extra \<Longrightarrow> fact_of (mark s c) k = fact_of c k"
    and keeps_rest: "sections (mark s c) = sections c" "controls (mark s c) = controls c"
      "questions (mark s c) = questions c"
    and keeps_valid: "valid_content c \<Longrightarrow> valid_content (mark s c)"
begin

lemma mark_idem: "mark s (mark t c) = (if status c = Some ''confirmed'' \<and> t \<in> triggers then mark t c else mark s c)"
proof (cases "status c = Some ''confirmed'' \<and> t \<in> triggers")
  case True
  then have "status (mark t c) = Some ''stale''" using becomes_stale by blast
  then show ?thesis using True not_confirmed [of "mark t c" s] by simp
next
  case False
  then show ?thesis using other_section [of t c] not_confirmed [of c t] by auto
qed

lemma never_confirms: "status (mark s c) = Some ''confirmed'' \<Longrightarrow> mark s c = c"
  using other_section not_confirmed becomes_stale [of s c] by (cases "s \<in> triggers \<and> status c = Some ''confirmed''") auto

lemma mark_status: "status (mark s c) = (if s \<in> triggers \<and> status c = Some ''confirmed'' then Some ''stale'' else status c)"
proof (cases "s \<in> triggers \<and> status c = Some ''confirmed''")
  case False
  then have "mark s c = c" using other_section not_confirmed by blast
  then show ?thesis using False by auto
qed (simp add: becomes_stale)

text \<open>Marking for a list of sections: stale exactly if one of them is a trigger.\<close>

lemma fold_mark_rest:
  "sections (fold mark ss c) = sections c \<and> controls (fold mark ss c) = controls c \<and>
   questions (fold mark ss c) = questions c"
  by (induction ss arbitrary: c) (auto simp: keeps_rest)

lemma fold_mark_status:
  "status (fold mark ss c) = (if status c = Some ''confirmed'' \<and> (\<exists>s \<in> set ss. s \<in> triggers)
     then Some ''stale'' else status c)"
proof (induction ss arbitrary: c)
  case (Cons s ss)
  show ?case
  proof (cases "s \<in> triggers \<and> status c = Some ''confirmed''")
    case True
    then show ?thesis using Cons.IH [of "mark s c"] becomes_stale by simp
  next
    case False
    then have "mark s c = c" using other_section not_confirmed by blast
    then show ?thesis using Cons.IH [of c] False by (cases "status c = Some ''confirmed''") simp_all
  qed
qed simp

end

lemma valid_isso_fact: "length_between 1 255 k \<Longrightarrow> valid_fact (isso_fact k v [])"
  by (simp add: valid_fact_def isso_fact_def)

lemma valid_with_facts:
  assumes "valid_content c" and "keyed d" and "\<And>k f. (k, f) \<in> set d \<Longrightarrow> valid_fact f"
  shows "valid_content (with_facts d c)"
  using assms distinct_with_facts [OF assms(2), of c]
  by (auto simp: valid_content_def list_all_iff)

lemma valid_facts_by_key: "valid_content c \<Longrightarrow> (k, f) \<in> set (facts_by_key c) \<Longrightarrow> valid_fact f"
  unfolding facts_by_key_def by (drule set_dict_of) (simp add: valid_content_def list_all_iff)

lemma valid_dict_put:
  assumes "(k', f') \<in> set (dict_put k f d)" and "valid_fact f" and "\<And>k f. (k, f) \<in> set d \<Longrightarrow> valid_fact f"
  shows "valid_fact f'"
  using set_dict_put [of k f d] assms by blast

section \<open>The three markers\<close>

lemma statuses_of_content:
  "active_status k (facts_by_key c) = (case fact_of c k of None \<Rightarrow> None | Some f \<Rightarrow>
     if fact_state f \<noteq> FACT_ACTIVE then None else (case fact_value f of JStr s \<Rightarrow> Some s | _ \<Rightarrow> None))"
  by (simp add: active_status_def fact_of_def)

lemma active_status_isso:
  "fact_of c k = Some (isso_fact k (JStr s) ev) \<Longrightarrow> active_status k (facts_by_key c) = Some s"
  by (simp add: statuses_of_content isso_fact_def)

definition categorization_status_of :: "revision_content \<Rightarrow> string option" where
  "categorization_status_of c = active_categorization_status (facts_by_key c)"

definition system_definition_status_of :: "revision_content \<Rightarrow> string option" where
  "system_definition_status_of c = active_system_definition_status (facts_by_key c)"

definition information_types_status_of :: "revision_content \<Rightarrow> string option" where
  "information_types_status_of c = active_information_types_status (facts_by_key c)"

lemma map_of_facts_by_key: "map_of (facts_by_key c) = fact_of c"
  by (simp add: fact_of_def fun_eq_iff)

lemma key_lengths:
  "length_between 1 255 CATEGORIZATION_STATUS_KEY" "length_between 1 255 SYSTEM_DEFINITION_STATUS_KEY"
  "length_between 1 255 INFORMATION_TYPES_STATUS_KEY" "length_between 1 255 ''system.provisional_impact_level''"
  by (simp_all add: length_between_def CATEGORIZATION_STATUS_KEY_def SYSTEM_DEFINITION_STATUS_KEY_def
    INFORMATION_TYPES_STATUS_KEY_def)

lemma provisional_not_status: "''system.provisional_impact_level'' \<noteq> CATEGORIZATION_STATUS_KEY"
  by (simp add: CATEGORIZATION_STATUS_KEY_def)

text \<open>A marker that puts one fact.\<close>

lemma put_stale_fact_of:
  "fact_of (with_facts (dict_put k (isso_fact k v []) (facts_by_key c)) c) = (fact_of c)(k \<mapsto> isso_fact k v [])"
  by (simp add: map_of_facts_by_key)

lemma put_stale_valid:
  assumes "valid_content c" and "length_between 1 255 k"
  shows "valid_content (with_facts (dict_put k (isso_fact k v []) (facts_by_key c)) c)"
  by (rule valid_with_facts [OF assms(1)])
    (simp, erule valid_dict_put [OF _ valid_isso_fact [OF assms(2)] valid_facts_by_key [OF assms(1)]])

interpretation system_definition: stale_marker mark_system_definition_stale_if_needed
  system_definition_status_of "set SYSTEM_DEFINITION_TRIGGERS" SYSTEM_DEFINITION_STATUS_KEY "{}"
proof unfold_locales
  fix s c
  assume "s \<in> set SYSTEM_DEFINITION_TRIGGERS" "system_definition_status_of c = Some ''confirmed''"
  then have "fact_of (mark_system_definition_stale_if_needed s c) SYSTEM_DEFINITION_STATUS_KEY =
      Some (isso_fact SYSTEM_DEFINITION_STATUS_KEY (JStr ''stale'') [])"
    by (simp add: mark_system_definition_stale_if_needed_def system_definition_status_of_def Let_def put_stale_fact_of)
  then show "system_definition_status_of (mark_system_definition_stale_if_needed s c) = Some ''stale''"
    by (simp add: system_definition_status_of_def active_system_definition_status_def active_status_isso known_status_def)
qed (simp_all add: mark_system_definition_stale_if_needed_def system_definition_status_of_def Let_def
  put_stale_fact_of put_stale_valid [OF _ key_lengths(2)])

interpretation information_types: stale_marker mark_information_types_stale_if_needed
  information_types_status_of "{INFORMATION_TYPES_SECTION_KEY}" INFORMATION_TYPES_STATUS_KEY "{}"
proof unfold_locales
  fix s c
  assume "s \<in> {INFORMATION_TYPES_SECTION_KEY}" "information_types_status_of c = Some ''confirmed''"
  then have "fact_of (mark_information_types_stale_if_needed s c) INFORMATION_TYPES_STATUS_KEY =
      Some (isso_fact INFORMATION_TYPES_STATUS_KEY (JStr ''stale'') [])"
    by (simp add: mark_information_types_stale_if_needed_def information_types_status_of_def Let_def put_stale_fact_of)
  then show "information_types_status_of (mark_information_types_stale_if_needed s c) = Some ''stale''"
    by (simp add: information_types_status_of_def active_information_types_status_def active_status_isso known_status_def)
qed (simp_all add: mark_information_types_stale_if_needed_def information_types_status_of_def Let_def
  put_stale_fact_of put_stale_valid [OF _ key_lengths(3)])

definition categorization_stale_dict :: "revision_content \<Rightarrow> fact_dict" where
  "categorization_stale_dict c =
     (let d = dict_put CATEGORIZATION_STATUS_KEY (isso_fact CATEGORIZATION_STATUS_KEY (JStr ''stale'') []) (facts_by_key c)
      in case map_of d ''system.impact_level'' of
           None \<Rightarrow> d
         | Some impact \<Rightarrow> dict_put ''system.provisional_impact_level''
             (isso_fact ''system.provisional_impact_level'' (fact_value impact) []) d)"

lemma mark_categorization_eq:
  "mark_categorization_stale_if_needed s c =
    (if s \<in> set CATEGORIZATION_TRIGGERS \<and> categorization_status_of c = Some ''confirmed''
     then with_facts (categorization_stale_dict c) c else c)"
  by (simp add: mark_categorization_stale_if_needed_def categorization_status_of_def
    categorization_stale_dict_def Let_def)

lemma keyed_stale_dict [simp]: "keyed (categorization_stale_dict c)"
  by (simp add: categorization_stale_dict_def Let_def split: option.splits)

lemma map_of_stale_dict:
  "map_of (categorization_stale_dict c) CATEGORIZATION_STATUS_KEY =
    Some (isso_fact CATEGORIZATION_STATUS_KEY (JStr ''stale'') [])"
  "k \<noteq> CATEGORIZATION_STATUS_KEY \<Longrightarrow> k \<noteq> ''system.provisional_impact_level'' \<Longrightarrow>
    map_of (categorization_stale_dict c) k = fact_of c k"
  using provisional_not_status
  by (simp_all add: categorization_stale_dict_def Let_def map_of_facts_by_key split: option.splits)

lemma valid_stale_dict:
  assumes "valid_content c" and "(k, f) \<in> set (categorization_stale_dict c)"
  shows "valid_fact f"
proof -
  let ?d = "dict_put CATEGORIZATION_STATUS_KEY (isso_fact CATEGORIZATION_STATUS_KEY (JStr ''stale'') []) (facts_by_key c)"
  have d: "valid_fact f" if "(k, f) \<in> set ?d" for k f
    using that by (rule valid_dict_put [OF _ valid_isso_fact [OF key_lengths(1)] valid_facts_by_key [OF assms(1)]])
  show ?thesis
  proof (cases "map_of ?d ''system.impact_level''")
    case None
    then show ?thesis using assms(2) d by (simp add: categorization_stale_dict_def Let_def)
  next
    case (Some i)
    then have "(k, f) \<in> set (dict_put ''system.provisional_impact_level''
        (isso_fact ''system.provisional_impact_level'' (fact_value i) []) ?d)"
      using assms(2) unfolding categorization_stale_dict_def Let_def by (simp only: option.case)
    then show ?thesis by (rule valid_dict_put [OF _ valid_isso_fact [OF key_lengths(4)] d])
  qed
qed

interpretation categorization: stale_marker mark_categorization_stale_if_needed
  categorization_status_of "set CATEGORIZATION_TRIGGERS" CATEGORIZATION_STATUS_KEY "{''system.provisional_impact_level''}"
proof unfold_locales
  fix s c
  assume "s \<in> set CATEGORIZATION_TRIGGERS" "categorization_status_of c = Some ''confirmed''"
  then have "fact_of (mark_categorization_stale_if_needed s c) CATEGORIZATION_STATUS_KEY =
      Some (isso_fact CATEGORIZATION_STATUS_KEY (JStr ''stale'') [])"
    by (simp add: mark_categorization_eq map_of_stale_dict)
  then show "categorization_status_of (mark_categorization_stale_if_needed s c) = Some ''stale''"
    by (simp add: categorization_status_of_def active_categorization_status_def active_status_isso)
next
  fix k s c
  assume "k \<noteq> CATEGORIZATION_STATUS_KEY" "k \<notin> {''system.provisional_impact_level''}"
  then show "fact_of (mark_categorization_stale_if_needed s c) k = fact_of c k"
    by (simp add: mark_categorization_eq map_of_stale_dict)
next
  fix s c
  assume "valid_content c"
  then show "valid_content (mark_categorization_stale_if_needed s c)"
    using valid_with_facts [OF _ keyed_stale_dict valid_stale_dict] by (simp add: mark_categorization_eq)
qed (simp_all add: mark_categorization_eq)

end
