(* ===== verification/Registers.thy ===== *)
theory Registers
  imports Markers
begin

text \<open>
  The structured sections of a workspace: authorization boundary, component inventory and
  interconnection register of \<open>ssp_workspace/system_definition.py\<close>, and the SP 800-60 information
  types of \<open>ssp_workspace/information_types.py\<close> with their catalog \<open>sp800_60_catalog.py\<close>. A register
  is stored as the JSON text of a section; it is parsed again whenever a draft is validated,
  measured or exported. What the runtime does is the record \<open>runtime\<close>: \<open>json.loads\<close> (\<open>None\<close> for
  \<open>JSONDecodeError\<close>), \<open>uuid.UUID\<close> of a string (\<open>None\<close> for \<open>ValueError\<close>), \<open>str\<close> of a value that is not a
  string, and the identifiers \<open>uuid.uuid4\<close> draws for the entries of a list that have none.
\<close>

text \<open>\<open>pydantic.ValidationError\<close> is a \<open>ValueError\<close>; \<open>TypeError\<close> and \<open>KeyError\<close> are not.\<close>

datatype register_error =
  RegisterValueError string | RegisterValidationError | RegisterTypeError | RegisterKeyError

fun is_value_error :: "register_error \<Rightarrow> bool" where
  "is_value_error (RegisterValueError _) = True"
| "is_value_error RegisterValidationError = True"
| "is_value_error _ = False"

record runtime =
  rt_loads :: "string \<Rightarrow> json option"
  rt_uuid :: "string \<Rightarrow> uuid option"
  rt_str :: "json \<Rightarrow> string"
  rt_uuid4 :: "nat \<Rightarrow> uuid"

section \<open>\<open>json.dumps(document, ensure_ascii=False, sort_keys=True)\<close>\<close>

fun dumps :: "json \<Rightarrow> string" and dumps_tail :: "json list \<Rightarrow> string"
  and dumps_members :: "(string \<times> json) list \<Rightarrow> string" where
  "dumps (JArr []) = ''[]''"
| "dumps (JArr (x # xs)) = CHR ''['' # dumps x @ dumps_tail xs"
| "dumps (JObj []) = ''{}''"
| "dumps (JObj ((k, v) # kvs)) = CHR ''{'' # quote_string k @ '': '' @ dumps v @ dumps_members kvs"
| "dumps x = dump x"
| "dumps_tail [] = '']''"
| "dumps_tail (x # xs) = '', '' @ dumps x @ dumps_tail xs"
| "dumps_members [] = ''}''"
| "dumps_members ((k, v) # kvs) = '', '' @ quote_string k @ '': '' @ dumps v @ dumps_members kvs"

definition json_dumps :: "json \<Rightarrow> string" where
  "json_dumps doc = dumps (canon doc)"

section \<open>Data\<close>

record diagram_link =
  dl_artifact_id :: uuid
  dl_locator :: members
  dl_label :: string

record authorization_boundary =
  ab_narrative :: string
  ab_diagram_links :: "diagram_link list"

record system_component =
  sc_component_id :: string
  sc_name :: string
  sc_purpose :: string
  sc_placement :: string
  sc_evidence :: "evidence_link list"

record interconnection =
  ic_interconnection_id :: string
  ic_connected_organization :: string
  ic_connected_system :: string
  ic_direction :: string
  ic_data_types :: "string list"
  ic_interface_protocol :: string
  ic_connection_owner :: string
  ic_agreement_type :: string
  ic_agreement_id :: string
  ic_agreement_status :: string
  ic_agreement_expiration :: string
  ic_boundary_protections :: string
  ic_evidence :: "evidence_link list"

definition link_dict :: "evidence_link \<Rightarrow> json" where
  "link_dict l = JObj [(''artifact_id'', JStr (uuid_str (artifact_id l))),
     (''locator'', JObj (sort_key fst (locator l)))]"

definition diagram_link_dict :: "diagram_link \<Rightarrow> json" where
  "diagram_link_dict l = JObj ([(''artifact_id'', JStr (uuid_str (dl_artifact_id l))),
     (''locator'', JObj (sort_key fst (dl_locator l)))] @
     (if py_strip (dl_label l) = [] then [] else [(''label'', JStr (py_strip (dl_label l)))]))"

definition boundary_dict :: "authorization_boundary \<Rightarrow> json" where
  "boundary_dict b = JObj [(''narrative'', JStr (py_strip (ab_narrative b))),
     (''diagram_links'', JArr (map diagram_link_dict (ab_diagram_links b)))]"

definition component_dict :: "system_component \<Rightarrow> json" where
  "component_dict c = JObj [(''component_id'', JStr (sc_component_id c)), (''name'', JStr (py_strip (sc_name c))),
     (''purpose'', JStr (py_strip (sc_purpose c))), (''placement'', JStr (sc_placement c)),
     (''evidence'', JArr (map link_dict (sc_evidence c)))]"

definition interconnection_dict :: "interconnection \<Rightarrow> json" where
  "interconnection_dict i = JObj [(''interconnection_id'', JStr (ic_interconnection_id i)),
     (''connected_organization'', JStr (py_strip (ic_connected_organization i))),
     (''connected_system'', JStr (py_strip (ic_connected_system i))),
     (''direction'', JStr (ic_direction i)),
     (''data_types'', JArr (map JStr (filter (\<lambda>d. d \<noteq> []) (map py_strip (ic_data_types i))))),
     (''interface_protocol'', JStr (py_strip (ic_interface_protocol i))),
     (''connection_owner'', JStr (py_strip (ic_connection_owner i))),
     (''agreement_type'', JStr (py_strip (ic_agreement_type i))),
     (''agreement_id'', JStr (py_strip (ic_agreement_id i))),
     (''agreement_status'', JStr (py_strip (ic_agreement_status i))),
     (''agreement_expiration'', JStr (py_strip (ic_agreement_expiration i))),
     (''boundary_protections'', JStr (py_strip (ic_boundary_protections i))),
     (''evidence'', JArr (map link_dict (ic_evidence i)))]"

definition boundary_section_json :: "authorization_boundary \<Rightarrow> string" where
  "boundary_section_json b = json_dumps (boundary_dict b)"

definition component_section_json :: "system_component list \<Rightarrow> string" where
  "component_section_json cs = json_dumps (JObj [(''components'', JArr (map component_dict cs))])"

definition interconnection_section_json :: "interconnection list \<Rightarrow> string" where
  "interconnection_section_json xs = json_dumps (JObj [(''interconnections'', JArr (map interconnection_dict xs))])"

section \<open>Parsing\<close>

text \<open>\<open>str(value)\<close> and \<open>str(raw.get(key) or "")\<close>.\<close>

fun py_str :: "runtime \<Rightarrow> json \<Rightarrow> string" where
  "py_str rt (JStr s) = s"
| "py_str rt v = rt_str rt v"

definition text_or_empty :: "runtime \<Rightarrow> members \<Rightarrow> string \<Rightarrow> string" where
  "text_or_empty rt m k =
     (case map_of m k of None \<Rightarrow> [] | Some v \<Rightarrow> if json_truthy v then py_str rt v else [])"

definition id_or_new :: "runtime \<Rightarrow> nat \<Rightarrow> members \<Rightarrow> string \<Rightarrow> string" where
  "id_or_new rt n m k =
     (case map_of m k of
        None \<Rightarrow> uuid_str (rt_uuid4 rt n)
      | Some v \<Rightarrow> if json_truthy v then py_str rt v else uuid_str (rt_uuid4 rt n))"

text \<open>\<open>uuid.UUID(text)\<close> and the two tests on an entry that names an artifact.\<close>

definition parse_uuid :: "runtime \<Rightarrow> string \<Rightarrow> register_error + uuid" where
  "parse_uuid rt s = (case rt_uuid rt s of
     None \<Rightarrow> Inl (RegisterValueError ''badly formed hexadecimal UUID string'') | Some u \<Rightarrow> Inr u)"

definition parse_artifact_reference :: "runtime \<Rightarrow> string \<Rightarrow> members \<Rightarrow> register_error + uuid \<times> members" where
  "parse_artifact_reference rt msg m =
     (case (map_of m ''artifact_id'', map_of m ''locator'') of
        (Some (JStr a), Some (JObj (kv # kvs))) \<Rightarrow> bindR (parse_uuid rt a) (\<lambda>u. Inr (u, kv # kvs))
      | _ \<Rightarrow> Inl (RegisterValueError msg))"

definition parse_diagram_link :: "runtime \<Rightarrow> json \<Rightarrow> register_error + diagram_link" where
  "parse_diagram_link rt entry =
     (case entry of
        JObj m \<Rightarrow> bindR (parse_artifact_reference rt ''diagram_links require artifact_id and locator'' m) (\<lambda>(u, l).
          Inr \<lparr>dl_artifact_id = u, dl_locator = l, dl_label = text_or_empty rt m ''label''\<rparr>)
      | _ \<Rightarrow> Inl (RegisterValueError ''diagram_links entries must be objects''))"

text \<open>\<open>payload.get(key, [])\<close>, which must be a list.\<close>

definition list_member :: "string \<Rightarrow> members \<Rightarrow> string \<Rightarrow> register_error + json list" where
  "list_member msg m k =
     (case map_of m k of None \<Rightarrow> Inr [] | Some (JArr xs) \<Rightarrow> Inr xs | _ \<Rightarrow> Inl (RegisterValueError msg))"

definition parse_authorization_boundary ::
  "runtime \<Rightarrow> string \<Rightarrow> register_error + authorization_boundary option" where
  "parse_authorization_boundary rt content =
     (if py_strip content = [] then Inr None
      else case rt_loads rt content of
        None \<Rightarrow> Inr (Some \<lparr>ab_narrative = py_strip content, ab_diagram_links = []\<rparr>)
      | Some (JObj m) \<Rightarrow>
          (case (case map_of m ''narrative'' of None \<Rightarrow> JStr [] | Some v \<Rightarrow> v) of
             JStr narrative \<Rightarrow>
               bindR (list_member ''diagram_links must be an array'' m ''diagram_links'') (\<lambda>raw.
               bindR (mapR (parse_diagram_link rt) raw) (\<lambda>links.
               Inr (Some \<lparr>ab_narrative = narrative, ab_diagram_links = links\<rparr>)))
           | _ \<Rightarrow> Inl (RegisterValueError ''authorization boundary narrative must be a string''))
      | Some _ \<Rightarrow> Inl (RegisterValueError ''authorization boundary must be a JSON object''))"

definition parse_evidence_link :: "runtime \<Rightarrow> json \<Rightarrow> register_error + evidence_link" where
  "parse_evidence_link rt entry =
     (case entry of
        JObj m \<Rightarrow> bindR (parse_artifact_reference rt ''evidence entries require artifact_id and locator'' m) (\<lambda>(u, l).
          Inr \<lparr>artifact_id = u, locator = l\<rparr>)
      | _ \<Rightarrow> Inl (RegisterValueError ''evidence entries must be objects''))"

definition parse_evidence_links :: "runtime \<Rightarrow> json option \<Rightarrow> register_error + evidence_link list" where
  "parse_evidence_links rt raw =
     (case raw of
        None \<Rightarrow> Inr []
      | Some JNull \<Rightarrow> Inr []
      | Some (JArr xs) \<Rightarrow> mapR (parse_evidence_link rt) xs
      | Some _ \<Rightarrow> Inl (RegisterValueError ''evidence must be an array''))"

definition parse_component :: "runtime \<Rightarrow> nat \<times> json \<Rightarrow> register_error + system_component" where
  "parse_component rt entry =
     (case entry of
        (n, JObj m) \<Rightarrow>
          (case (map_of m ''name'', map_of m ''purpose'', map_of m ''placement'') of
             (Some (JStr name), Some (JStr purpose), Some (JStr placement)) \<Rightarrow>
               bindR (parse_evidence_links rt (map_of m ''evidence'')) (\<lambda>ev.
               Inr \<lparr>sc_component_id = id_or_new rt n m ''component_id'', sc_name = name, sc_purpose = purpose,
                 sc_placement = placement, sc_evidence = ev\<rparr>)
           | _ \<Rightarrow> Inl (RegisterValueError ''component name, purpose, and placement are required''))
      | _ \<Rightarrow> Inl (RegisterValueError ''component entries must be objects''))"

definition parse_interconnection :: "runtime \<Rightarrow> nat \<times> json \<Rightarrow> register_error + interconnection" where
  "parse_interconnection rt entry =
     (case entry of
        (n, JObj m) \<Rightarrow>
          bindR (list_member ''interconnection data_types must be an array'' m ''data_types'') (\<lambda>raw.
          case map_of m ''direction'' of
            Some (JStr direction) \<Rightarrow>
              bindR (parse_evidence_links rt (map_of m ''evidence'')) (\<lambda>ev.
              Inr \<lparr>ic_interconnection_id = id_or_new rt n m ''interconnection_id'',
                ic_connected_organization = text_or_empty rt m ''connected_organization'',
                ic_connected_system = text_or_empty rt m ''connected_system'', ic_direction = direction,
                ic_data_types = filter (\<lambda>d. d \<noteq> []) (map (\<lambda>v. py_strip (py_str rt v)) raw),
                ic_interface_protocol = text_or_empty rt m ''interface_protocol'',
                ic_connection_owner = text_or_empty rt m ''connection_owner'',
                ic_agreement_type = text_or_empty rt m ''agreement_type'',
                ic_agreement_id = text_or_empty rt m ''agreement_id'',
                ic_agreement_status = text_or_empty rt m ''agreement_status'',
                ic_agreement_expiration = text_or_empty rt m ''agreement_expiration'',
                ic_boundary_protections = text_or_empty rt m ''boundary_protections'', ic_evidence = ev\<rparr>)
          | _ \<Rightarrow> Inl (RegisterValueError ''interconnection direction is required''))
      | _ \<Rightarrow> Inl (RegisterValueError ''interconnection entries must be objects''))"

text \<open>A register is an object whose member \<open>key\<close> lists its entries.\<close>

definition parse_register ::
  "runtime \<Rightarrow> string \<Rightarrow> string \<Rightarrow> string \<Rightarrow> string \<Rightarrow> (nat \<times> json \<Rightarrow> register_error + 'a) \<Rightarrow> string
     \<Rightarrow> register_error + 'a list" where
  "parse_register rt not_json not_object not_list key entry content =
     (if py_strip content = [] then Inr []
      else case rt_loads rt content of
        None \<Rightarrow> Inl (RegisterValueError not_json)
      | Some (JObj m) \<Rightarrow> bindR (list_member not_list m key) (\<lambda>raw. mapR entry (zip [0..<length raw] raw))
      | Some _ \<Rightarrow> Inl (RegisterValueError not_object))"

definition parse_component_inventory :: "runtime \<Rightarrow> string \<Rightarrow> register_error + system_component list" where
  "parse_component_inventory rt = parse_register rt ''component inventory must be JSON''
     ''component inventory must be a JSON object'' ''components must be an array'' ''components'' (parse_component rt)"

definition parse_interconnection_register :: "runtime \<Rightarrow> string \<Rightarrow> register_error + interconnection list" where
  "parse_interconnection_register rt = parse_register rt ''interconnection register must be JSON''
     ''interconnection register must be a JSON object'' ''interconnections must be an array'' ''interconnections''
     (parse_interconnection rt)"

section \<open>Validation\<close>

definition validate_authorization_boundary :: "authorization_boundary \<Rightarrow> register_error + unit" where
  "validate_authorization_boundary b =
     (if length (py_strip (ab_narrative b)) < 20
      then Inl (RegisterValueError ''authorization boundary narrative requires at least 20 characters'')
      else guardR (list_all (\<lambda>l. dl_locator l \<noteq> []) (ab_diagram_links b))
        (RegisterValueError ''diagram links require a non-empty locator''))"

definition validate_component :: "system_component \<Rightarrow> register_error + unit" where
  "validate_component c =
     (if \<not> has_text (sc_name c) then Inl (RegisterValueError ''each component requires a name'')
      else if \<not> has_text (sc_purpose c) then Inl (RegisterValueError ''each component requires a purpose'')
      else guardR (sc_placement c \<in> set [''inside'', ''outside'', ''crossing''])
        (RegisterValueError ''component placement must be inside, outside, or crossing''))"

definition validate_component_inventory :: "system_component list \<Rightarrow> register_error + unit" where
  "validate_component_inventory cs =
     (if cs = [] then Inl (RegisterValueError ''at least one system component is required'')
      else foldR (\<lambda>_ c. validate_component c) () cs)"

definition required_text :: "interconnection \<Rightarrow> string list" where
  "required_text i = [ic_connected_organization i, ic_connected_system i, ic_interface_protocol i,
     ic_connection_owner i, ic_agreement_type i, ic_boundary_protections i]"

definition validate_interconnection :: "interconnection \<Rightarrow> register_error + unit" where
  "validate_interconnection i =
     (if list_ex (\<lambda>v. \<not> has_text v) (required_text i)
      then Inl (RegisterValueError ''interconnection required text fields cannot be empty'')
      else if ic_data_types i = []
      then Inl (RegisterValueError ''each interconnection requires at least one data type'')
      else guardR (ic_direction i \<in> set [''inbound'', ''outbound'', ''bidirectional''])
        (RegisterValueError ''interconnection direction must be inbound, outbound, or bidirectional''))"

definition validate_interconnection_register :: "interconnection list \<Rightarrow> register_error + unit" where
  "validate_interconnection_register xs =
     (if xs = [] then Inl (RegisterValueError ''at least one interconnection is required'')
      else foldR (\<lambda>_ i. validate_interconnection i) () xs)"

section \<open>Information types\<close>

record sp800_60_type =
  it_identifier :: string
  it_title :: string
  it_confidentiality :: string
  it_integrity :: string
  it_availability :: string

record sp800_60_catalog =
  cat_source_id :: string
  cat_title :: string
  cat_version :: string
  cat_reference :: string
  cat_types :: "sp800_60_type list"

record information_type_mapping =
  im_entry_id :: string
  im_catalog_identifier :: string
  im_description :: string
  im_adjusted_confidentiality :: "string option"
  im_adjusted_integrity :: "string option"
  im_adjusted_availability :: "string option"
  im_adjustment_rationale :: string
  im_evidence :: "evidence_link list"

definition by_identifier :: "sp800_60_catalog \<Rightarrow> (string \<times> sp800_60_type) list" where
  "by_identifier cat = dict_of it_identifier (cat_types cat)"

text \<open>The catalog file, as parsed JSON: every entry needs an identifier, a title and three levels.\<close>

definition is_level :: "json option \<Rightarrow> bool" where
  "is_level v = (v \<in> Some ` JStr ` set FIPS_IMPACT_LEVELS)"

fun str_member :: "members \<Rightarrow> string \<Rightarrow> string" where
  "str_member m k = (case map_of m k of Some (JStr s) \<Rightarrow> s | _ \<Rightarrow> [])"

datatype catalog_error = Sp80060CatalogError string | CatalogTypeError

definition load_catalog_entry :: "runtime \<Rightarrow> json \<Rightarrow> catalog_error + sp800_60_type" where
  "load_catalog_entry rt entry =
     (case entry of
        JObj m \<Rightarrow>
          let identifier = py_strip (text_or_empty rt m ''identifier''); title = py_strip (text_or_empty rt m ''title'') in
          bindR (foldR (\<lambda>_ field.
              if unhashable (map_of m field) then Inl CatalogTypeError
              else guardR (is_level (map_of m field)) (Sp80060CatalogError (''invalid '' @ field))) ()
            [''confidentiality'', ''integrity'', ''availability'']) (\<lambda>_.
          if identifier = [] \<or> title = []
          then Inl (Sp80060CatalogError ''SP 800-60 catalog entries require identifier and title'')
          else Inr \<lparr>it_identifier = identifier, it_title = title, it_confidentiality = str_member m ''confidentiality'',
            it_integrity = str_member m ''integrity'', it_availability = str_member m ''availability''\<rparr>)
      | _ \<Rightarrow> Inl (Sp80060CatalogError ''SP 800-60 catalog entries must be objects''))"

definition text_or :: "runtime \<Rightarrow> members \<Rightarrow> string \<Rightarrow> string \<Rightarrow> string" where
  "text_or rt m k fallback =
     (case map_of m k of None \<Rightarrow> fallback | Some v \<Rightarrow> if json_truthy v then py_str rt v else fallback)"

definition load_sp800_60_catalog :: "runtime \<Rightarrow> members \<Rightarrow> catalog_error + sp800_60_catalog" where
  "load_sp800_60_catalog rt document =
     (case map_of document ''information_types'' of
        Some (JArr (x # xs)) \<Rightarrow>
          bindR (mapR (load_catalog_entry rt) (x # xs)) (\<lambda>types.
          Inr \<lparr>cat_source_id = text_or rt document ''source_id'' ''nist-sp-800-60-rev2'',
            cat_title = text_or rt document ''title'' ''NIST SP 800-60'',
            cat_version = text_or rt document ''version'' ''2.0.0'',
            cat_reference = text_or_empty rt document ''reference'', cat_types = types\<rparr>)
      | _ \<Rightarrow> Inl (Sp80060CatalogError ''SP 800-60 catalog must include information_types''))"

definition catalog_document_for_api :: "sp800_60_catalog \<Rightarrow> json" where
  "catalog_document_for_api cat = JObj [(''source_id'', JStr (cat_source_id cat)), (''title'', JStr (cat_title cat)),
     (''version'', JStr (cat_version cat)), (''reference'', JStr (cat_reference cat)),
     (''information_types'', JArr (map (\<lambda>t. JObj [(''identifier'', JStr (it_identifier t)),
        (''title'', JStr (it_title t)), (''confidentiality'', JStr (it_confidentiality t)),
        (''integrity'', JStr (it_integrity t)), (''availability'', JStr (it_availability t))]) (cat_types cat)))]"

text \<open>\<open>adjusted or catalog\<close>; an adjustment counts if it is not empty and differs.\<close>

definition adjusted_or :: "string option \<Rightarrow> string \<Rightarrow> string" where
  "adjusted_or a d = (case a of None \<Rightarrow> d | Some s \<Rightarrow> if s = [] then d else s)"

definition effective_impacts :: "information_type_mapping \<Rightarrow> sp800_60_type \<Rightarrow> string \<times> string \<times> string" where
  "effective_impacts m t = (adjusted_or (im_adjusted_confidentiality m) (it_confidentiality t),
     adjusted_or (im_adjusted_integrity m) (it_integrity t), adjusted_or (im_adjusted_availability m) (it_availability t))"

definition adjusts :: "string option \<Rightarrow> string \<Rightarrow> bool" where
  "adjusts a d = (case a of None \<Rightarrow> False | Some s \<Rightarrow> s \<noteq> [] \<and> s \<noteq> d)"

definition has_adjustment :: "information_type_mapping \<Rightarrow> sp800_60_type \<Rightarrow> bool" where
  "has_adjustment m t = (adjusts (im_adjusted_confidentiality m) (it_confidentiality t) \<or>
     adjusts (im_adjusted_integrity m) (it_integrity t) \<or> adjusts (im_adjusted_availability m) (it_availability t))"

definition mapping_dict :: "information_type_mapping \<Rightarrow> sp800_60_type \<Rightarrow> members" where
  "mapping_dict m t =
     (let (conf, integ, avail) = effective_impacts m t in
      [(''entry_id'', JStr (im_entry_id m)), (''catalog_identifier'', JStr (im_catalog_identifier m)),
       (''catalog_title'', JStr (it_title t)), (''description'', JStr (py_strip (im_description m))),
       (''catalog_confidentiality'', JStr (it_confidentiality t)), (''catalog_integrity'', JStr (it_integrity t)),
       (''catalog_availability'', JStr (it_availability t)),
       (''adjusted_confidentiality'', opt_str (im_adjusted_confidentiality m)),
       (''adjusted_integrity'', opt_str (im_adjusted_integrity m)),
       (''adjusted_availability'', opt_str (im_adjusted_availability m)),
       (''effective_confidentiality'', JStr conf), (''effective_integrity'', JStr integ),
       (''effective_availability'', JStr avail), (''adjustment_rationale'', JStr (py_strip (im_adjustment_rationale m))),
       (''evidence'', JArr (map link_dict (im_evidence m)))])"

definition optional_impact :: "json option \<Rightarrow> register_error + string option" where
  "optional_impact v =
     (if v \<in> {None, Some JNull, Some (JStr [])} then Inr None
      else if unhashable v then Inl RegisterTypeError
      else case v of
        Some (JStr s) \<Rightarrow> if s \<in> set FIPS_IMPACT_LEVELS then Inr (Some s)
          else Inl (RegisterValueError ''impact adjustments must be low, moderate, or high'')
      | _ \<Rightarrow> Inl (RegisterValueError ''impact adjustments must be low, moderate, or high''))"

definition parse_mapping :: "runtime \<Rightarrow> nat \<times> json \<Rightarrow> register_error + information_type_mapping" where
  "parse_mapping rt entry =
     (case entry of
        (n, JObj m) \<Rightarrow>
          let identifier = py_strip (text_or_empty rt m ''catalog_identifier'') in
          if identifier = [] then Inl (RegisterValueError ''catalog_identifier is required'')
          else
            bindR (optional_impact (map_of m ''adjusted_confidentiality'')) (\<lambda>c.
            bindR (optional_impact (map_of m ''adjusted_integrity'')) (\<lambda>i.
            bindR (optional_impact (map_of m ''adjusted_availability'')) (\<lambda>a.
            bindR (parse_evidence_links rt (map_of m ''evidence'')) (\<lambda>ev.
            Inr \<lparr>im_entry_id = id_or_new rt n m ''entry_id'', im_catalog_identifier = identifier,
              im_description = text_or_empty rt m ''description'', im_adjusted_confidentiality = c,
              im_adjusted_integrity = i, im_adjusted_availability = a,
              im_adjustment_rationale = text_or_empty rt m ''adjustment_rationale'', im_evidence = ev\<rparr>))))
      | _ \<Rightarrow> Inl (RegisterValueError ''information type entries must be objects''))"

definition parse_information_type_register ::
  "runtime \<Rightarrow> string \<Rightarrow> register_error + information_type_mapping list" where
  "parse_information_type_register rt = parse_register rt ''information type register must be JSON''
     ''information type register must be a JSON object'' ''information_types must be an array'' ''information_types''
     (parse_mapping rt)"

definition known_level :: "string option \<Rightarrow> bool" where
  "known_level a = (case a of None \<Rightarrow> True | Some s \<Rightarrow> s \<in> set FIPS_IMPACT_LEVELS)"

definition validate_mapping ::
  "(string \<times> sp800_60_type) list \<Rightarrow> string list \<Rightarrow> information_type_mapping \<Rightarrow> register_error + string list" where
  "validate_mapping by_id seen m =
     (case map_of by_id (im_catalog_identifier m) of
        None \<Rightarrow> Inl (RegisterValueError (''unknown SP 800-60 identifier: '' @ im_catalog_identifier m))
      | Some t \<Rightarrow>
          if im_catalog_identifier m \<in> set seen
          then Inl (RegisterValueError (''duplicate SP 800-60 identifier: '' @ im_catalog_identifier m))
          else if \<not> has_text (im_description m)
          then Inl (RegisterValueError ''each information type mapping requires a description'')
          else if \<not> known_level (im_adjusted_confidentiality m)
          then Inl (RegisterValueError ''adjusted confidentiality must be low, moderate, or high'')
          else if \<not> known_level (im_adjusted_integrity m)
          then Inl (RegisterValueError ''adjusted integrity must be low, moderate, or high'')
          else if \<not> known_level (im_adjusted_availability m)
          then Inl (RegisterValueError ''adjusted availability must be low, moderate, or high'')
          else if has_adjustment m t \<and> \<not> has_text (im_adjustment_rationale m)
          then Inl (RegisterValueError ''adjustment rationale is required when catalog impacts are adjusted'')
          else Inr (im_catalog_identifier m # seen))"

definition validate_information_type_register ::
  "sp800_60_catalog \<Rightarrow> information_type_mapping list \<Rightarrow> register_error + unit" where
  "validate_information_type_register cat ms =
     (if ms = [] then Inl (RegisterValueError ''at least one SP 800-60 information type mapping is required'')
      else bindR (foldR (validate_mapping (by_identifier cat)) [] ms) (\<lambda>_. Inr ()))"

text \<open>\<open>by_id[identifier]\<close> of a parsed register that was not validated may raise \<open>KeyError\<close>: \<open>None\<close>.\<close>

definition mapping_dicts :: "sp800_60_catalog \<Rightarrow> information_type_mapping list \<Rightarrow> members list option" where
  "mapping_dicts cat ms = those (map (\<lambda>m. map_option (mapping_dict m)
     (map_of (by_identifier cat) (im_catalog_identifier m))) ms)"

section \<open>Storing a confirmed register\<close>

definition make_section ::
  "section_content \<Rightarrow> string \<Rightarrow> register_error + section_content" where
  "make_section current text =
     (let s = current\<lparr>section_text := text, section_state := (if has_text text then SEC_EDITED else SEC_EMPTY)\<rparr>
      in if valid_section s then Inr s else Inl (RegisterValidationError))"

definition put_section ::
  "(string \<times> section_content) list \<Rightarrow> string \<times> string \<Rightarrow> register_error + (string \<times> section_content) list" where
  "put_section d kt =
     (case map_of d (fst kt) of
        None \<Rightarrow> Inr d
      | Some current \<Rightarrow> bindR (make_section current (snd kt)) (\<lambda>s. Inr (dict_put (fst kt) s d)))"

definition diagram_reference_line :: "diagram_link \<Rightarrow> string" where
  "diagram_reference_line l =
     (let label = (if py_strip (dl_label l) = [] then uuid_str (dl_artifact_id l) else py_strip (dl_label l)) in
      ''- '' @ label @ '' ('' @ json_dumps (JObj (dl_locator l)) @ '')'')"

fun join_lines :: "string list \<Rightarrow> string" where
  "join_lines [] = []"
| "join_lines [l] = l"
| "join_lines (l # ls) = l @ CHR 0x0A # join_lines ls"

definition diagram_reference_lines :: "authorization_boundary \<Rightarrow> string" where
  "diagram_reference_lines b = join_lines (map diagram_reference_line (ab_diagram_links b))"

definition confirm_status :: "string \<Rightarrow> revision_content \<Rightarrow> fact_dict" where
  "confirm_status key c = dict_put key (isso_fact key (JStr ''confirmed'') []) (facts_by_key c)"

definition apply_system_definition_sections ::
  "revision_content \<Rightarrow> authorization_boundary \<Rightarrow> system_component list \<Rightarrow> interconnection list
     \<Rightarrow> register_error + revision_content" where
  "apply_system_definition_sections c b comps ics =
     bindR (foldR put_section (dict_of section_key (sections c))
       [(''system.authorization_boundary'', boundary_section_json b),
        (''system.components'', component_section_json comps),
        (''system.interconnections'', interconnection_section_json ics),
        (''system.diagram_references'', diagram_reference_lines b)]) (\<lambda>ss.
     Inr (c\<lparr>sections := sorted_values ss, facts := sorted_values (confirm_status SYSTEM_DEFINITION_STATUS_KEY c)\<rparr>))"

definition information_types_section_json :: "members list \<Rightarrow> string" where
  "information_types_section_json ms = json_dumps (JObj [(''information_types'', JArr (map JObj ms))])"

text \<open>The section is built in state \<open>edited\<close>; its text is never blank.\<close>

definition apply_information_type_register ::
  "sp800_60_catalog \<Rightarrow> revision_content \<Rightarrow> information_type_mapping list \<Rightarrow> register_error + revision_content" where
  "apply_information_type_register cat c ms =
     bindR (validate_information_type_register cat ms) (\<lambda>_.
     case mapping_dicts cat ms of
       None \<Rightarrow> Inl RegisterKeyError
     | Some dicts \<Rightarrow>
         let d = dict_of section_key (sections c) in
         case map_of d INFORMATION_TYPES_SECTION_KEY of
           None \<Rightarrow> Inl (RegisterValueError ''information types section is unavailable'')
         | Some current \<Rightarrow>
             let s = current\<lparr>section_text := information_types_section_json dicts, section_state := SEC_EDITED\<rparr> in
             if \<not> valid_section s then Inl (RegisterValidationError)
             else Inr (c\<lparr>sections := sorted_values (dict_put INFORMATION_TYPES_SECTION_KEY s d),
               facts := sorted_values (confirm_status INFORMATION_TYPES_STATUS_KEY c)\<rparr>))"

section \<open>Values for metrics\<close>

definition components_value :: "runtime \<Rightarrow> string \<Rightarrow> register_error + json option" where
  "components_value rt content =
     bindR (parse_component_inventory rt content) (\<lambda>cs. Inr (Some (JArr (map component_dict cs))))"

definition interconnections_value :: "runtime \<Rightarrow> string \<Rightarrow> register_error + json option" where
  "interconnections_value rt content =
     bindR (parse_interconnection_register rt content) (\<lambda>xs. Inr (Some (JArr (map interconnection_dict xs))))"

definition boundary_value :: "runtime \<Rightarrow> string \<Rightarrow> register_error + json option" where
  "boundary_value rt content =
     bindR (parse_authorization_boundary rt content) (\<lambda>b. Inr (map_option boundary_dict b))"

definition structured_section_metric_value ::
  "runtime \<Rightarrow> string \<Rightarrow> string \<Rightarrow> string option \<Rightarrow> register_error + json option" where
  "structured_section_metric_value rt key content kind =
     (if kind = Some ''authorization_boundary'' then boundary_value rt content
      else if kind = Some ''component_inventory'' then components_value rt content
      else if kind = Some ''interconnection_register'' then interconnections_value rt content
      else if key = ''system.authorization_boundary'' then boundary_value rt content
      else if key = ''system.components'' then components_value rt content
      else if key = ''system.interconnections'' then interconnections_value rt content
      else Inr None)"

text \<open>Of the information types, a register that does not parse has no value; a \<open>KeyError\<close> or \<open>TypeError\<close> escapes.\<close>

definition information_types_metric_value ::
  "runtime \<Rightarrow> sp800_60_catalog \<Rightarrow> string \<Rightarrow> register_error + json option" where
  "information_types_metric_value rt cat content =
     (case parse_information_type_register rt content of
        Inl e \<Rightarrow> if is_value_error e then Inr None else Inl e
      | Inr [] \<Rightarrow> Inr None
      | Inr ms \<Rightarrow> (case mapping_dicts cat ms of
          None \<Rightarrow> Inl RegisterKeyError | Some ds \<Rightarrow> Inr (Some (JArr (map JObj ds)))))"

section \<open>Blocks of an export\<close>

text \<open>
  \<open>sections.get(key, "")\<close> and the file names of the evidence; \<open>{**d, key: v}\<close> is \<open>dict_put\<close> on the
  members of \<open>d\<close>.
\<close>

definition section_or_empty :: "(string \<times> string) list \<Rightarrow> string \<Rightarrow> string" where
  "section_or_empty ss k = (case map_of ss k of None \<Rightarrow> [] | Some t \<Rightarrow> t)"

fun members_of :: "json \<Rightarrow> members" where
  "members_of (JObj m) = m"
| "members_of _ = []"

definition filename_of :: "(string \<times> string) list \<Rightarrow> uuid \<Rightarrow> json" where
  "filename_of catalog a = JStr (section_or_empty catalog (uuid_str a))"

definition enrich_links :: "(string \<times> string) list \<Rightarrow> evidence_link list \<Rightarrow> json" where
  "enrich_links catalog ls = JArr (map (\<lambda>l.
     JObj (members_of (link_dict l) @ [(''display_filename'', filename_of catalog (artifact_id l))])) ls)"

definition build_system_definition_export_block ::
  "runtime \<Rightarrow> (string \<times> string) list \<Rightarrow> (string \<times> string) list \<Rightarrow> register_error + json" where
  "build_system_definition_export_block rt ss catalog =
     bindR (parse_authorization_boundary rt (section_or_empty ss ''system.authorization_boundary'')) (\<lambda>b.
     bindR (parse_component_inventory rt (section_or_empty ss ''system.components'')) (\<lambda>cs.
     bindR (parse_interconnection_register rt (section_or_empty ss ''system.interconnections'')) (\<lambda>xs.
     Inr (JObj [(''status'', JStr ''confirmed''),
       (''authorization_boundary'', case b of None \<Rightarrow> JNull | Some b \<Rightarrow>
          JObj [(''narrative'', JStr (py_strip (ab_narrative b))),
            (''diagram_links'', JArr (map (\<lambda>l. JObj (dict_put ''display_filename''
               (filename_of catalog (dl_artifact_id l)) (members_of (diagram_link_dict l)))) (ab_diagram_links b)))]),
       (''components'', JArr (map (\<lambda>c. JObj (dict_put ''evidence'' (enrich_links catalog (sc_evidence c))
          (members_of (component_dict c)))) cs)),
       (''interconnections'', JArr (map (\<lambda>i. JObj (dict_put ''evidence'' (enrich_links catalog (ic_evidence i))
          (members_of (interconnection_dict i)))) xs))]))))"

definition build_information_types_export_block ::
  "runtime \<Rightarrow> sp800_60_catalog \<Rightarrow> (string \<times> string) list \<Rightarrow> (string \<times> string) list \<Rightarrow> register_error + json" where
  "build_information_types_export_block rt cat ss catalog =
     bindR (parse_information_type_register rt (section_or_empty ss INFORMATION_TYPES_SECTION_KEY)) (\<lambda>ms.
     if ms = [] then Inr (JObj [(''status'', JStr ''unconfirmed''), (''catalog_version'', JStr []), (''entries'', JArr [])])
     else case mapping_dicts cat ms of
       None \<Rightarrow> Inl RegisterKeyError
     | Some ds \<Rightarrow> Inr (JObj [(''status'', JStr ''confirmed''), (''catalog_source_id'', JStr (cat_source_id cat)),
         (''catalog_version'', JStr (cat_version cat)),
         (''entries'', JArr (map (\<lambda>(m, d). JObj (dict_put ''evidence'' (enrich_links catalog (im_evidence m)) d))
            (zip ms ds)))]))"

end
