(* ===== verification/OscalCatalog.thy ===== *)
theory OscalCatalog
  imports Json
begin

text \<open>
  The control index of an OSCAL catalog, \<open>src/ato_service/oscal_catalog.py\<close>: a recursive walk over the
  groups, controls and enhancements of a JSON document that keys each control by its upper-cased
  identifier and remembers where it stands as a JSON pointer. \<open>str.upper\<close> is the argument \<open>up\<close>.
\<close>

datatype oscal_error = OscalCatalogError string

record oscal_control_record =
  oc_normalized_id :: string
  oc_title :: string
  oc_requirement_text :: string
  oc_catalog_pointer :: string

type_synonym oscal_index = "(string \<times> oscal_control_record) list"

section \<open>How deep a document is\<close>

fun weight :: "json \<Rightarrow> nat" where
  "weight (JArr xs) = Suc (sum_list (map weight xs))"
| "weight (JObj m) = Suc (sum_list (map (\<lambda>kv. weight (snd kv)) m))"
| "weight v = 1"

lemma weight_pos [simp]: "0 < weight v"
  by (cases v) auto

lemma weight_member: "map_of m k = Some v \<Longrightarrow> weight v \<le> sum_list (map (\<lambda>kv. weight (snd kv)) m)"
  by (induction m) (auto split: if_splits)

lemma weight_list_member:
  "map_of m k = Some (JArr xs) \<Longrightarrow> sum_list (map weight xs) < sum_list (map (\<lambda>kv. weight (snd kv)) m)"
  using weight_member [of m k "JArr xs"] by simp

text \<open>\<open>m.get(key)\<close> if it is a list.\<close>

definition array_at :: "members \<Rightarrow> string \<Rightarrow> json list option" where
  "array_at m k = (case map_of m k of Some (JArr xs) \<Rightarrow> Some xs | _ \<Rightarrow> None)"

lemma array_at_iff: "array_at m k = Some xs \<longleftrightarrow> map_of m k = Some (JArr xs)"
  by (auto simp: array_at_def split: option.splits json.splits)

lemma weight_array_at:
  "array_at m k = Some xs \<Longrightarrow> sum_list (map weight xs) < sum_list (map (\<lambda>kv. weight (snd kv)) m)"
  by (simp add: array_at_iff weight_list_member)

section \<open>The prose of a statement\<close>

text \<open>The first property named \<open>label\<close> whose value is a text.\<close>

fun part_label_from :: "json list \<Rightarrow> oscal_error + string option" where
  "part_label_from [] = Inr None"
| "part_label_from (JObj p # ps) =
     (case (map_of p ''name'', map_of p ''value'') of
        (Some (JStr n), Some (JStr v)) \<Rightarrow>
          if n = ''label'' \<and> py_strip v \<noteq> [] then Inr (Some (py_strip v)) else part_label_from ps
      | _ \<Rightarrow> part_label_from ps)"
| "part_label_from (_ # ps) = Inl (OscalCatalogError ''catalog part props must be objects'')"

definition part_label :: "members \<Rightarrow> oscal_error + string option" where
  "part_label m = (case array_at m ''props'' of Some ps \<Rightarrow> part_label_from ps | None \<Rightarrow> Inr None)"

definition prose_segments :: "members \<Rightarrow> oscal_error + string list" where
  "prose_segments m =
     (case map_of m ''prose'' of
        Some (JStr prose) \<Rightarrow>
          if py_strip prose = [] then Inr []
          else bindR (part_label m) (\<lambda>label.
            Inr [case label of None \<Rightarrow> py_strip prose | Some l \<Rightarrow> py_strip (l @ '' '' @ py_strip prose)])
      | _ \<Rightarrow> Inr [])"

function collect_statement_segments :: "members \<Rightarrow> oscal_error + string list"
  and collect_nested_segments :: "json list \<Rightarrow> oscal_error + string list" where
  "collect_statement_segments m =
     bindR (prose_segments m) (\<lambda>segments.
     case array_at m ''parts'' of
       Some xs \<Rightarrow> bindR (collect_nested_segments xs) (\<lambda>nested. Inr (segments @ nested))
     | None \<Rightarrow> Inr segments)"
| "collect_nested_segments [] = Inr []"
| "collect_nested_segments (JObj m # xs) =
     bindR (collect_statement_segments m) (\<lambda>a. bindR (collect_nested_segments xs) (\<lambda>b. Inr (a @ b)))"
| "collect_nested_segments (JNull # xs) = Inl (OscalCatalogError ''catalog statement parts must be objects'')"
| "collect_nested_segments (JBool v # xs) = Inl (OscalCatalogError ''catalog statement parts must be objects'')"
| "collect_nested_segments (JInt v # xs) = Inl (OscalCatalogError ''catalog statement parts must be objects'')"
| "collect_nested_segments (JFloat v # xs) = Inl (OscalCatalogError ''catalog statement parts must be objects'')"
| "collect_nested_segments (JStr v # xs) = Inl (OscalCatalogError ''catalog statement parts must be objects'')"
| "collect_nested_segments (JArr v # xs) = Inl (OscalCatalogError ''catalog statement parts must be objects'')"
  by pat_completeness auto

termination
  by (relation "measure (case_sum (\<lambda>m. Suc (sum_list (map (\<lambda>kv. weight (snd kv)) m))) (\<lambda>xs. Suc (sum_list (map weight xs))))")
    (auto dest: weight_array_at)

fun find_named_part :: "json list \<Rightarrow> string \<Rightarrow> oscal_error + members option" where
  "find_named_part [] name = Inr None"
| "find_named_part (JObj m # ps) name =
     (if map_of m ''name'' = Some (JStr name) then Inr (Some m) else find_named_part ps name)"
| "find_named_part (_ # ps) name = Inl (OscalCatalogError ''catalog control parts must be objects'')"

fun join_spaces :: "string list \<Rightarrow> string" where
  "join_spaces [] = []"
| "join_spaces [s] = s"
| "join_spaces (s # ss) = s @ '' '' @ join_spaces ss"

definition build_requirement_text :: "members \<Rightarrow> oscal_error + string" where
  "build_requirement_text control =
     (case array_at control ''parts'' of
        Some parts \<Rightarrow>
          bindR (find_named_part parts ''statement'') (\<lambda>found.
          case found of
            None \<Rightarrow> Inl (OscalCatalogError ''must declare a statement part'')
          | Some part \<Rightarrow>
              bindR (collect_statement_segments part) (\<lambda>segments.
              if segments = [] then Inl (OscalCatalogError ''malformed statement prose'')
              else Inr (join_spaces segments)))
      | None \<Rightarrow> Inl (OscalCatalogError ''must declare parts for statement prose''))"

section \<open>The index\<close>

definition normalize_oscal_control_id :: "(string \<Rightarrow> string) \<Rightarrow> string \<Rightarrow> oscal_error + string" where
  "normalize_oscal_control_id up i =
     (if py_strip i = [] then Inl (OscalCatalogError ''control id must be a non-empty string'')
      else Inr (up (py_strip i)))"

definition control_record ::
  "(string \<Rightarrow> string) \<Rightarrow> string \<Rightarrow> members \<Rightarrow> oscal_index \<Rightarrow> oscal_error + oscal_control_record" where
  "control_record up pointer control index =
     (case map_of control ''id'' of
        Some (JStr raw) \<Rightarrow>
          if py_strip raw = [] then Inl (OscalCatalogError ''must declare id'')
          else bindR (normalize_oscal_control_id up raw) (\<lambda>i.
            if i \<in> fst ` set index then Inl (OscalCatalogError ''duplicate catalog control id'')
            else case map_of control ''title'' of
              Some (JStr title) \<Rightarrow>
                if py_strip title = [] then Inl (OscalCatalogError ''must declare a nonempty title'')
                else Inr \<lparr>oc_normalized_id = i, oc_title = title,
                  oc_requirement_text = (case build_requirement_text control of Inl _ \<Rightarrow> [] | Inr t \<Rightarrow> t),
                  oc_catalog_pointer = pointer\<rparr>
            | _ \<Rightarrow> Inl (OscalCatalogError ''must declare a nonempty title''))
      | _ \<Rightarrow> Inl (OscalCatalogError ''must declare id''))"

definition pointer_at :: "string \<Rightarrow> nat \<Rightarrow> string" where
  "pointer_at prefix n = prefix @ ''/'' @ dec_nat n"

function index_catalog_controls_list ::
  "(string \<Rightarrow> string) \<Rightarrow> string \<Rightarrow> nat \<Rightarrow> json list \<Rightarrow> oscal_index \<Rightarrow> oscal_error + oscal_index" where
  "index_catalog_controls_list up prefix n [] index = Inr index"
| "index_catalog_controls_list up prefix n (c # cs) index =
     (case c of
        JObj control \<Rightarrow>
          let pointer = pointer_at prefix n in
          bindR (control_record up pointer control index) (\<lambda>r.
          let index1 = index @ [(oc_normalized_id r, r)] in
          bindR (case array_at control ''controls'' of
              Some enhancements \<Rightarrow>
                index_catalog_controls_list up (pointer @ ''/controls'') 0 enhancements index1
            | None \<Rightarrow> Inr index1) (\<lambda>index2.
          index_catalog_controls_list up prefix (Suc n) cs index2))
      | _ \<Rightarrow> Inl (OscalCatalogError ''catalog control must be an object''))"
  by pat_completeness auto

termination
  by (relation "measure (\<lambda>(up, p, n, xs, d). Suc (sum_list (map weight xs)))") (auto dest: weight_array_at)

function index_catalog_groups ::
  "(string \<Rightarrow> string) \<Rightarrow> string \<Rightarrow> nat \<Rightarrow> json list \<Rightarrow> oscal_index \<Rightarrow> oscal_error + oscal_index" where
  "index_catalog_groups up prefix n [] index = Inr index"
| "index_catalog_groups up prefix n (g # gs) index =
     (case g of
        JObj grp \<Rightarrow>
          let pointer = pointer_at prefix n in
          bindR (case array_at grp ''controls'' of
              Some cs \<Rightarrow> index_catalog_controls_list up (pointer @ ''/controls'') 0 cs index
            | None \<Rightarrow> Inr index) (\<lambda>index1.
          bindR (case array_at grp ''groups'' of
              Some nested \<Rightarrow> index_catalog_groups up (pointer @ ''/groups'') 0 nested index1
            | None \<Rightarrow> Inr index1) (\<lambda>index2.
          index_catalog_groups up prefix (Suc n) gs index2))
      | _ \<Rightarrow> Inl (OscalCatalogError ''catalog group must be an object''))"
  by pat_completeness auto

termination
  by (relation "measure (\<lambda>(up, p, n, xs, d). Suc (sum_list (map weight xs)))") (auto dest: weight_array_at)

definition index_oscal_catalog_controls ::
  "(string \<Rightarrow> string) \<Rightarrow> members \<Rightarrow> oscal_error + oscal_index" where
  "index_oscal_catalog_controls up document =
     (case map_of document ''catalog'' of
        Some (JObj catalog) \<Rightarrow>
          (case array_at catalog ''groups'' of
             Some groups \<Rightarrow>
               bindR (index_catalog_groups up ''/catalog/groups'' 0 groups []) (\<lambda>index.
               if index = [] then Inl (OscalCatalogError ''catalog index is empty'') else Inr index)
           | None \<Rightarrow> Inl (OscalCatalogError ''catalog must declare groups''))
      | _ \<Rightarrow> Inl (OscalCatalogError ''catalog document must include catalog''))"

section \<open>Where the controls of a document stand\<close>

text \<open>
  A place in a document is a list of steps; \<open>render\<close> writes it as a JSON pointer and \<open>at_path\<close>
  looks it up. The places of the controls are listed by a recursion that knows neither identifiers
  nor errors.
\<close>

datatype step = Key string | Pos nat

fun render_step :: "step \<Rightarrow> string" where
  "render_step (Key k) = CHR ''/'' # k"
| "render_step (Pos n) = CHR ''/'' # dec_nat n"

definition render :: "step list \<Rightarrow> string" where
  "render p = concat (map render_step p)"

fun at_path :: "json \<Rightarrow> step list \<Rightarrow> json option" where
  "at_path v [] = Some v"
| "at_path (JObj m) (Key k # p) = (case map_of m k of None \<Rightarrow> None | Some v \<Rightarrow> at_path v p)"
| "at_path (JArr xs) (Pos n # p) = (if n < length xs then at_path (xs ! n) p else None)"
| "at_path v p = None"

function controls_below :: "step list \<Rightarrow> nat \<Rightarrow> json list \<Rightarrow> (step list \<times> members) list" where
  "controls_below p n [] = []"
| "controls_below p n (c # cs) =
     (case c of
        JObj m \<Rightarrow>
          (p @ [Pos n], m) #
          (case array_at m ''controls'' of
             Some xs \<Rightarrow> controls_below (p @ [Pos n, Key ''controls'']) 0 xs
           | None \<Rightarrow> [])
      | _ \<Rightarrow> []) @ controls_below p (Suc n) cs"
  by pat_completeness auto

termination
  by (relation "measure (\<lambda>(p, n, xs). Suc (sum_list (map weight xs)))") (auto dest: weight_array_at)

function groups_below :: "step list \<Rightarrow> nat \<Rightarrow> json list \<Rightarrow> (step list \<times> members) list" where
  "groups_below p n [] = []"
| "groups_below p n (g # gs) =
     (case g of
        JObj m \<Rightarrow>
          (case array_at m ''controls'' of
             Some xs \<Rightarrow> controls_below (p @ [Pos n, Key ''controls'']) 0 xs
           | None \<Rightarrow> []) @
          (case array_at m ''groups'' of
             Some xs \<Rightarrow> groups_below (p @ [Pos n, Key ''groups'']) 0 xs
           | None \<Rightarrow> [])
      | _ \<Rightarrow> []) @ groups_below p (Suc n) gs"
  by pat_completeness auto

termination
  by (relation "measure (\<lambda>(p, n, xs). Suc (sum_list (map weight xs)))") (auto dest: weight_array_at)

definition control_locations :: "members \<Rightarrow> (step list \<times> members) list" where
  "control_locations document =
     (case map_of document ''catalog'' of
        Some (JObj catalog) \<Rightarrow>
          (case array_at catalog ''groups'' of
             Some groups \<Rightarrow> groups_below [Key ''catalog'', Key ''groups''] 0 groups
           | None \<Rightarrow> [])
      | _ \<Rightarrow> [])"

lemma at_path_append: "at_path v (p @ q) = (case at_path v p of None \<Rightarrow> None | Some w \<Rightarrow> at_path w q)"
  by (induction v p rule: at_path.induct) (auto split: option.splits)

lemma at_path_member:
  assumes "at_path v (p @ [Pos n]) = Some (JObj k)" and "map_of k key = Some w"
  shows "at_path v (p @ [Pos n, Key key]) = Some w"
  using at_path_append [of v "p @ [Pos n]" "[Key key]"] assms by simp

lemma at_path_array:
  assumes "at_path v (p @ [Pos n]) = Some (JObj k)" and "array_at k key = Some ys"
  shows "at_path v (p @ [Pos n, Key key]) = Some (JArr ys)"
  using at_path_member [OF assms(1)] assms(2) by (simp add: array_at_iff)

lemma controls_below_at:
  "(q, m) \<in> set (controls_below p n xs) \<Longrightarrow> at_path v p = Some (JArr (pre @ xs)) \<Longrightarrow> length pre = n \<Longrightarrow>
    at_path v q = Some (JObj m)"
proof (induction p n xs arbitrary: pre rule: controls_below.induct)
  case (2 p n c cs)
  have rest: "at_path v q = Some (JObj m)" if "(q, m) \<in> set (controls_below p (Suc n) cs)"
    using "2.IH"(2) [OF that, of "pre @ [c]"] "2.prems"(2,3) by simp
  show ?case
  proof (cases c)
    case c: (JObj k)
    have here: "at_path v (p @ [Pos n]) = Some (JObj k)"
      using "2.prems"(2,3) by (auto simp: at_path_append nth_append c)
    have nested: "at_path v q = Some (JObj m)"
      if "array_at k ''controls'' = Some ys" "(q, m) \<in> set (controls_below (p @ [Pos n, Key ''controls'']) 0 ys)" for ys
      using "2.IH"(1) [OF c that, of "[]"] at_path_array [OF here that(1)] by simp
    show ?thesis using "2.prems"(1) here nested rest by (cases "array_at k ''controls''") (auto simp: c)
  qed (use "2.prems"(1) rest in simp_all)
qed simp

lemma groups_below_at:
  "(q, m) \<in> set (groups_below p n xs) \<Longrightarrow> at_path v p = Some (JArr (pre @ xs)) \<Longrightarrow> length pre = n \<Longrightarrow>
    at_path v q = Some (JObj m)"
proof (induction p n xs arbitrary: pre rule: groups_below.induct)
  case (2 p n g gs)
  have rest: "at_path v q = Some (JObj m)" if "(q, m) \<in> set (groups_below p (Suc n) gs)"
    using "2.IH"(2) [OF that, of "pre @ [g]"] "2.prems"(2,3) by simp
  show ?case
  proof (cases g)
    case g: (JObj k)
    have here: "at_path v (p @ [Pos n]) = Some (JObj k)"
      using "2.prems"(2,3) by (auto simp: at_path_append nth_append g)
    have controls: "at_path v q = Some (JObj m)"
      if "array_at k ''controls'' = Some ys" "(q, m) \<in> set (controls_below (p @ [Pos n, Key ''controls'']) 0 ys)" for ys
      using controls_below_at [OF that(2), of v "[]"] at_path_array [OF here that(1)] by simp
    have nested: "at_path v q = Some (JObj m)"
      if "array_at k ''groups'' = Some ys" "(q, m) \<in> set (groups_below (p @ [Pos n, Key ''groups'']) 0 ys)" for ys
      using "2.IH"(1) [OF g that, of "[]"] at_path_array [OF here that(1)] by simp
    show ?thesis using "2.prems"(1) controls nested rest
      by (cases "array_at k ''controls''"; cases "array_at k ''groups''") (auto simp: g)
  qed (use "2.prems"(1) rest in simp_all)
qed simp

lemma control_locations_at:
  assumes "(q, m) \<in> set (control_locations doc)"
  shows "at_path (JObj doc) q = Some (JObj m)"
proof -
  obtain catalog xs where doc: "map_of doc ''catalog'' = Some (JObj catalog)" "array_at catalog ''groups'' = Some xs"
    and q: "(q, m) \<in> set (groups_below [Key ''catalog'', Key ''groups''] 0 xs)"
    using assms by (auto simp: control_locations_def split: option.split_asm json.split_asm) metis
  show ?thesis using groups_below_at [OF q, of "JObj doc" "[]"] doc by (simp add: array_at_iff)
qed

section \<open>The index lists exactly the controls\<close>

definition names_control :: "(string \<Rightarrow> string) \<Rightarrow> string \<times> oscal_control_record \<Rightarrow> step list \<times> members \<Rightarrow> bool" where
  "names_control up kr qm \<longleftrightarrow>
     fst kr = oc_normalized_id (snd kr) \<and> oc_catalog_pointer (snd kr) = render (fst qm) \<and>
     (\<exists>raw. map_of (snd qm) ''id'' = Some (JStr raw) \<and> fst kr = up (py_strip raw)) \<and>
     map_of (snd qm) ''title'' = Some (JStr (oc_title (snd kr))) \<and>
     oc_requirement_text (snd kr) = (case build_requirement_text (snd qm) of Inl _ \<Rightarrow> [] | Inr t \<Rightarrow> t)"

definition extends :: "(string \<Rightarrow> string) \<Rightarrow> oscal_index \<Rightarrow> oscal_index \<Rightarrow> (step list \<times> members) list \<Rightarrow> bool" where
  "extends up d d' places \<longleftrightarrow> (distinct (map fst d) \<longrightarrow> distinct (map fst d')) \<and>
     (\<exists>rs. d' = d @ rs \<and> list_all2 (names_control up) rs places)"

lemma extends_refl [simp]: "extends up d d []"
  by (simp add: extends_def)

lemma extends_trans: "extends up a b p \<Longrightarrow> extends up b c q \<Longrightarrow> extends up a c (p @ q)"
  by (fastforce simp: extends_def intro: list_all2_appendI)

lemma render_pointer_at: "pointer_at (render p) n = render (p @ [Pos n])"
  by (simp add: render_def pointer_at_def)

lemma render_key: "render (p @ [Pos n]) @ CHR ''/'' # k = render (p @ [Pos n, Key k])"
  by (simp add: render_def)

lemma control_record_extends:
  assumes "control_record up (render q) m d = Inr r"
  shows "extends up d (d @ [(oc_normalized_id r, r)]) [(q, m)]"
  using assms
  by (auto simp: control_record_def normalize_oscal_control_id_def extends_def names_control_def bindR_eq_Inr
    split: option.splits json.splits if_splits sum.splits) (force simp: image_iff)+

lemma index_controls_extends:
  "index_catalog_controls_list up (render p) n xs d = Inr d' \<Longrightarrow> extends up d d' (controls_below p n xs)"
proof (induction up "render p" n xs d arbitrary: p d' rule: index_catalog_controls_list.induct)
  case (2 up n c cs d)
  show ?case
  proof (cases c)
    case c: (JObj m)
    let ?p = "p @ [Pos n]"
    obtain r d1 where r: "control_record up (render ?p) m d = Inr r"
      and d1: "(case array_at m ''controls'' of None \<Rightarrow> Inr (d @ [(oc_normalized_id r, r)])
        | Some ys \<Rightarrow> index_catalog_controls_list up (render (p @ [Pos n, Key ''controls''])) 0 ys
            (d @ [(oc_normalized_id r, r)])) = Inr d1"
      and d': "index_catalog_controls_list up (render p) (Suc n) cs d1 = Inr d'"
      using "2.prems"
      by (simp only: index_catalog_controls_list.simps c json.case Let_def render_pointer_at bindR_eq_Inr render_key) blast
    have one: "extends up d (d @ [(oc_normalized_id r, r)]) [(?p, m)]"
      by (rule control_record_extends [OF r])
    have nested: "extends up (d @ [(oc_normalized_id r, r)]) d1
        (case array_at m ''controls'' of None \<Rightarrow> [] | Some ys \<Rightarrow> controls_below (p @ [Pos n, Key ''controls'']) 0 ys)"
    proof (cases "array_at m ''controls''")
      case (Some ys)
      show ?thesis
        using "2.hyps"(1) [OF c refl refl Some, of "p @ [Pos n, Key ''controls'']"] d1
        by (simp add: Some render_pointer_at render_key)
    qed (use d1 in simp)
    have rest: "extends up d1 d' (controls_below p (Suc n) cs)"
      by (rule "2.hyps"(2) [OF c refl]) (use d' in simp_all)
    show ?thesis using extends_trans [OF one extends_trans [OF nested rest]] by (simp add: c)
  qed (use "2.prems" in simp_all)
qed simp

lemma index_groups_extends:
  "index_catalog_groups up (render p) n xs d = Inr d' \<Longrightarrow> extends up d d' (groups_below p n xs)"
proof (induction up "render p" n xs d arbitrary: p d' rule: index_catalog_groups.induct)
  case (2 up n g gs d)
  show ?case
  proof (cases g)
    case g: (JObj m)
    let ?p = "p @ [Pos n]"
    obtain d1 d2 where d1: "(case array_at m ''controls'' of None \<Rightarrow> Inr d
        | Some ys \<Rightarrow> index_catalog_controls_list up (render (p @ [Pos n, Key ''controls''])) 0 ys d) = Inr d1"
      and d2: "(case array_at m ''groups'' of None \<Rightarrow> Inr d1
        | Some ys \<Rightarrow> index_catalog_groups up (render (p @ [Pos n, Key ''groups''])) 0 ys d1) = Inr d2"
      and d': "index_catalog_groups up (render p) (Suc n) gs d2 = Inr d'"
      using "2.prems"
      by (simp only: index_catalog_groups.simps g json.case Let_def render_pointer_at bindR_eq_Inr render_key) blast
    have controls: "extends up d d1
        (case array_at m ''controls'' of None \<Rightarrow> [] | Some ys \<Rightarrow> controls_below (p @ [Pos n, Key ''controls'']) 0 ys)"
      using d1 index_controls_extends [of up "p @ [Pos n, Key ''controls'']"]
      by (cases "array_at m ''controls''") auto
    have nested: "extends up d1 d2
        (case array_at m ''groups'' of None \<Rightarrow> [] | Some ys \<Rightarrow> groups_below (p @ [Pos n, Key ''groups'']) 0 ys)"
    proof (cases "array_at m ''groups''")
      case (Some ys)
      show ?thesis
        using "2.hyps"(1) [OF g refl Some, of "p @ [Pos n, Key ''groups'']"] d2
        by (simp add: Some render_pointer_at render_key)
    qed (use d2 in simp)
    have rest: "extends up d2 d' (groups_below p (Suc n) gs)"
      by (rule "2.hyps"(2) [OF g refl]) (use d' in simp_all)
    show ?thesis using extends_trans [OF controls extends_trans [OF nested rest]] by (simp add: g)
  qed (use "2.prems" in simp_all)
qed simp


definition ex_catalog :: members where
  "ex_catalog = [(''catalog'', JObj [(''groups'', JArr [JObj [(''controls'', JArr
     [JObj [(''id'', JStr ''ac-2''), (''title'', JStr ''Account Management''),
        (''parts'', JArr [JObj [(''name'', JStr ''statement''), (''prose'', JStr ''Manage accounts.'')]]),
        (''controls'', JArr [JObj [(''id'', JStr ''ac-2.1''), (''title'', JStr ''Automation'')]])]])]])])]"


end
