(* ===== verification/Profiles.thy ===== *)
theory Profiles
  imports Registers OscalCatalog
begin

text \<open>
  Profiles of an SSP workspace: the bundle types, loading and validation of
  \<open>ssp_workspace/profile_bundles.py\<close> (archive members, manifest, catalog, baselines, SSP requirements),
  resolution for an impact level and the diff of two profiles, and the life cycle of stored profile
  versions of \<open>ssp_workspace/profiles.py\<close>. The JSON schema validator is the argument \<open>schema\<close> (it gives
  \<open>False\<close> when \<open>jsonschema\<close> reports an error); a member that a schema requires is read with
  \<open>str_member\<close> and the like, which are total. A row keeps the bundle itself rather than the JSON
  document of it, which only \<open>serialize_profile_bundle\<close> writes.
\<close>

datatype profile_error =
    ProfileBundleError string | ProfileValueError string | ProfileAlreadyImported | ProfileNotFound | ProfileKeyError
  | ProfileDatabaseRejects

section \<open>Bundles\<close>

record profile_source =
  ps_source_id :: string
  ps_title :: string
  ps_version :: string
  ps_reference :: string

record profile_bundle_file =
  pf_role :: string
  pf_path :: string
  pf_sha256 :: string

record profile_manifest =
  pm_schema_version :: string
  pm_profile_id :: string
  pm_profile_version :: string
  pm_nist_control_catalog_release :: string
  pm_display_name :: string
  pm_sources :: "profile_source list"
  pm_files :: "profile_bundle_file list"
  pm_sha256 :: string

record profile_control =
  pc_control_id :: string
  pc_title :: string
  pc_requirement_text :: string
  pc_catalog_pointer :: string

record control_response_policy =
  cr_implementation_statuses :: "string list"
  cr_responsibilities :: "string list"
  cr_question_owner_types :: "string list"
  cr_evidence_required :: bool

record deterministic_policy =
  dp_reject_insert_syntax :: bool
  dp_require_question :: bool
  dp_require_evidence :: bool
  dp_require_gap_or_question :: bool
  dp_advisory :: bool

record agent_instructions =
  ai_statement_content :: "string list"
  ai_organization_defined_parameters :: "string list"
  ai_inherited_and_hybrid :: "string list"
  ai_semantic_review :: "string list"

record authority_ref =
  ar_source_id :: string
  ar_requirement_ids :: "string list"

record statement_policy =
  sp_policy_version :: string
  sp_deterministic :: deterministic_policy
  sp_agent_instructions :: agent_instructions
  sp_authority_refs :: "authority_ref list"

datatype coverage_kind = COVERS_SSP_ITEM | COVERS_CONTROLS

record standard_coverage =
  cov_source_id :: string
  cov_requirement_id :: string
  cov_title :: string
  cov_kind :: coverage_kind
  cov_item_ids :: "string list"
  cov_required :: bool

record ssp_required_item =
  ri_item_id :: string
  ri_title :: string
  ri_value_type :: string
  ri_min_length :: "int option"
  ri_allowed_values :: "string list"
  ri_evidence_required :: bool
  ri_required :: bool
  ri_standard_refs :: "string list"
  ri_structured_kind :: "string option"

record profile_bundle =
  pb_manifest :: profile_manifest
  pb_catalog_controls :: "profile_control list"
  pb_low_control_ids :: "string list"
  pb_moderate_control_ids :: "string list"
  pb_high_control_ids :: "string list"
  pb_ssp_required_items :: "ssp_required_item list"
  pb_control_response :: control_response_policy
  pb_standard_coverage :: "standard_coverage list"
  pb_statement_policy :: statement_policy

record resolved_profile =
  rp_profile_id :: string
  rp_profile_version :: string
  rp_nist_control_catalog_release :: string
  rp_manifest_sha256 :: string
  rp_impact_level :: string
  rp_sources :: "profile_source list"
  rp_controls :: "profile_control list"
  rp_ssp_required_items :: "ssp_required_item list"
  rp_control_response :: control_response_policy
  rp_standard_coverage :: "standard_coverage list"
  rp_statement_policy :: statement_policy

record source_version_change =
  svc_source_id :: string
  svc_old_version :: "string option"
  svc_new_version :: "string option"

record profile_diff =
  pd_old_profile_version :: string
  pd_new_profile_version :: string
  pd_impact_level :: string
  pd_added_control_ids :: "string list"
  pd_removed_control_ids :: "string list"
  pd_changed_control_ids :: "string list"
  pd_added_ssp_item_ids :: "string list"
  pd_removed_ssp_item_ids :: "string list"
  pd_changed_ssp_item_ids :: "string list"
  pd_source_version_changes :: "source_version_change list"
  pd_policy_changed :: bool
  pd_old_policy_version :: "string option"
  pd_new_policy_version :: "string option"

section \<open>Resolution\<close>

definition control_ids_for :: "profile_bundle \<Rightarrow> string \<Rightarrow> profile_error + string list" where
  "control_ids_for b level =
     (if level = ''low'' then Inr (pb_low_control_ids b)
      else if level = ''moderate'' then Inr (pb_moderate_control_ids b)
      else if level = ''high'' then Inr (pb_high_control_ids b)
      else Inl (ProfileBundleError ''unsupported impact level''))"

text \<open>\<open>controls_by_id[control_id]\<close> raises \<open>KeyError\<close> when the catalog lacks the control.\<close>

definition resolve_profile :: "profile_bundle \<Rightarrow> string \<Rightarrow> profile_error + resolved_profile" where
  "resolve_profile b level =
     bindR (control_ids_for b level) (\<lambda>ids.
     case those (map (map_of (dict_of pc_control_id (pb_catalog_controls b))) ids) of
       None \<Rightarrow> Inl ProfileKeyError
     | Some cs \<Rightarrow> Inr \<lparr>rp_profile_id = pm_profile_id (pb_manifest b), rp_profile_version = pm_profile_version (pb_manifest b),
         rp_nist_control_catalog_release = pm_nist_control_catalog_release (pb_manifest b),
         rp_manifest_sha256 = pm_sha256 (pb_manifest b), rp_impact_level = level,
         rp_sources = pm_sources (pb_manifest b), rp_controls = cs, rp_ssp_required_items = pb_ssp_required_items b,
         rp_control_response = pb_control_response b, rp_standard_coverage = pb_standard_coverage b,
         rp_statement_policy = pb_statement_policy b\<rparr>)"

section \<open>Differences\<close>

text \<open>\<open>tuple(sorted(set(a) - set(b)))\<close> and the sorted keys of both whose values differ.\<close>

definition sorted_difference :: "string list \<Rightarrow> string list \<Rightarrow> string list" where
  "sorted_difference a b = sort (remdups (filter (\<lambda>x. x \<notin> set b) a))"

definition changed_keys :: "(string \<times> 'a) list \<Rightarrow> (string \<times> 'a) list \<Rightarrow> string list" where
  "changed_keys a b = sort (filter (\<lambda>k. map_of b k \<noteq> None \<and> map_of a k \<noteq> map_of b k) (map fst a))"

definition control_semantics :: "profile_control \<Rightarrow> string \<times> string" where
  "control_semantics c = (pc_title c, pc_requirement_text c)"

definition statement_policy_semantics ::
  "statement_policy \<Rightarrow> string \<times> bool list \<times> string list list \<times> (string \<times> string list) list" where
  "statement_policy_semantics p =
     (sp_policy_version p,
      [dp_reject_insert_syntax (sp_deterministic p), dp_require_question (sp_deterministic p),
       dp_require_evidence (sp_deterministic p), dp_require_gap_or_question (sp_deterministic p),
       dp_advisory (sp_deterministic p)],
      [ai_statement_content (sp_agent_instructions p), ai_organization_defined_parameters (sp_agent_instructions p),
       ai_inherited_and_hybrid (sp_agent_instructions p), ai_semantic_review (sp_agent_instructions p)],
      map (\<lambda>r. (ar_source_id r, ar_requirement_ids r)) (sp_authority_refs p))"

definition controls_dict :: "resolved_profile \<Rightarrow> (string \<times> (string \<times> string)) list" where
  "controls_dict p = map (\<lambda>(k, c). (k, control_semantics c)) (dict_of pc_control_id (rp_controls p))"

definition items_dict :: "resolved_profile \<Rightarrow> (string \<times> ssp_required_item) list" where
  "items_dict p = dict_of ri_item_id (rp_ssp_required_items p)"

definition source_versions :: "resolved_profile \<Rightarrow> (string \<times> string) list" where
  "source_versions p = map (\<lambda>(k, s). (k, ps_version s)) (dict_of ps_source_id (rp_sources p))"

definition source_changes :: "(string \<times> string) list \<Rightarrow> (string \<times> string) list \<Rightarrow> source_version_change list" where
  "source_changes a b =
     map (\<lambda>k. \<lparr>svc_source_id = k, svc_old_version = map_of a k, svc_new_version = map_of b k\<rparr>)
       (filter (\<lambda>k. map_of a k \<noteq> map_of b k) (sort (remdups (map fst a @ map fst b))))"

definition diff_profiles :: "resolved_profile \<Rightarrow> resolved_profile \<Rightarrow> profile_error + profile_diff" where
  "diff_profiles old new =
     (if rp_profile_id old \<noteq> rp_profile_id new
      then Inl (ProfileBundleError ''profile diff requires matching profile_id values'')
      else if rp_impact_level old \<noteq> rp_impact_level new
      then Inl (ProfileBundleError ''profile diff requires matching impact levels'')
      else
        let oc = controls_dict old; nc = controls_dict new; oi = items_dict old; ni = items_dict new;
            changed = (statement_policy_semantics (rp_statement_policy old) \<noteq> statement_policy_semantics (rp_statement_policy new))
        in Inr \<lparr>pd_old_profile_version = rp_profile_version old, pd_new_profile_version = rp_profile_version new,
          pd_impact_level = rp_impact_level old,
          pd_added_control_ids = sorted_difference (map fst nc) (map fst oc),
          pd_removed_control_ids = sorted_difference (map fst oc) (map fst nc),
          pd_changed_control_ids = changed_keys oc nc,
          pd_added_ssp_item_ids = sorted_difference (map fst ni) (map fst oi),
          pd_removed_ssp_item_ids = sorted_difference (map fst oi) (map fst ni),
          pd_changed_ssp_item_ids = changed_keys oi ni,
          pd_source_version_changes = source_changes (source_versions old) (source_versions new),
          pd_policy_changed = changed,
          pd_old_policy_version = (if changed then Some (sp_policy_version (rp_statement_policy old)) else None),
          pd_new_policy_version = (if changed then Some (sp_policy_version (rp_statement_policy new)) else None)\<rparr>)"

section \<open>Defaults\<close>

definition default_deterministic_policy :: deterministic_policy where
  "default_deterministic_policy = \<lparr>dp_reject_insert_syntax = True, dp_require_question = True,
     dp_require_evidence = True, dp_require_gap_or_question = True, dp_advisory = True\<rparr>"

definition default_agent_instructions :: agent_instructions where
  "default_agent_instructions = \<lparr>ai_statement_content = [],
     ai_organization_defined_parameters =
       [''Never invent values for organization-defined parameters referenced in control requirement_text placeholders.'',
        ''Use direct evidence only when it explicitly supports a parameter value and cite supporting_fact_ids.'',
        ''When evidence does not support a parameter value, leave implementation_statement empty, keep status and responsibility unknown, and ask one concise control-targeted question for the missing agency or organization value.'',
        ''Never emit literal OSCAL placeholder syntax in implementation_statement text.''],
     ai_inherited_and_hybrid =
       [''Use inherited or hybrid responsibility only when direct evidence supports that split.'',
        ''When evidence supports inherited or hybrid responsibility, describe the known provider or common portion and the system-specific portion separately.'',
        ''Never invent provider scope, inheritance boundaries, or shared-service details.'',
        ''When evidence does not support inheritance details, keep responsibility unknown and ask a targeted question.''],
     ai_semantic_review = []\<rparr>"

definition default_statement_policy :: statement_policy where
  "default_statement_policy = \<lparr>sp_policy_version = ''1.0.0'', sp_deterministic = default_deterministic_policy,
     sp_agent_instructions = default_agent_instructions, sp_authority_refs = []\<rparr>"

definition default_control_response_policy :: control_response_policy where
  "default_control_response_policy = \<lparr>
     cr_implementation_statuses = [''implemented'', ''partially_implemented'', ''planned'', ''not_implemented'',
       ''not_applicable'', ''unknown''],
     cr_responsibilities = [''system_specific'', ''hybrid'', ''inherited'', ''unknown''],
     cr_question_owner_types = [''isso'', ''agency'', ''technical'', ''system_owner''], cr_evidence_required = True\<rparr>"

section \<open>Members of a bundle\<close>

definition MANIFEST_NAME :: string where "MANIFEST_NAME = ''manifest.json''"
definition REQUIRED_ROLES :: "string list" where "REQUIRED_ROLES = [''catalog'', ''baselines'', ''ssp_requirements'']"
definition MAX_MANIFEST_BYTES :: int where "MAX_MANIFEST_BYTES = 1048576"
definition MAX_MEMBER_BYTES :: int where "MAX_MEMBER_BYTES = 10485760"
definition MAX_ARCHIVE_BYTES :: int where "MAX_ARCHIVE_BYTES = 52428800"
definition MAX_ARCHIVE_MEMBERS :: nat where "MAX_ARCHIVE_MEMBERS = 64"
definition MAX_COMPRESSION_RATIO :: int where "MAX_COMPRESSION_RATIO = 200"

text \<open>\<open>s.split(c)\<close>; the parts and the normal form of a \<open>PurePosixPath\<close> that does not start with a slash.\<close>

fun split_on :: "char \<Rightarrow> string \<Rightarrow> string list" where
  "split_on c [] = [[]]"
| "split_on c (x # s) =
     (if x = c then [] # split_on c s
      else case split_on c s of [] \<Rightarrow> [[x]] | p # ps \<Rightarrow> (x # p) # ps)"

fun join_with :: "char \<Rightarrow> string list \<Rightarrow> string" where
  "join_with c [] = []"
| "join_with c [s] = s"
| "join_with c (s # ss) = s @ c # join_with c ss"

definition path_parts :: "string \<Rightarrow> string list" where
  "path_parts raw = filter (\<lambda>p. p \<noteq> [] \<and> p \<noteq> ''.'') (split_on CHR ''/'' raw)"

definition as_posix :: "string \<Rightarrow> string" where
  "as_posix raw = (if path_parts raw = [] then ''.'' else join_with CHR ''/'' (path_parts raw))"

definition validated_member_path :: "string \<Rightarrow> profile_error + string" where
  "validated_member_path raw =
     (if raw = [] \<or> CHR 0x00 \<in> set raw then Inl (ProfileBundleError ''profile bundle member path is malformed'')
      else if CHR 0x5C \<in> set raw
      then Inl (ProfileBundleError ''profile bundle member path must use forward slashes'')
      else if hd raw = CHR ''/'' \<or> ''..'' \<in> set (path_parts raw)
      then Inl (ProfileBundleError ''profile bundle member path is unsafe'')
      else if as_posix raw \<noteq> raw then Inl (ProfileBundleError ''profile bundle member path is not canonical'')
      else Inr raw)"

text \<open>What \<open>zipfile\<close> tells of a member, and its data (\<open>None\<close>: reading it fails).\<close>

record zip_info =
  zi_filename :: string
  zi_file_size :: int
  zi_compress_size :: int
  zi_flag_bits :: nat
  zi_external_attr :: nat
  zi_data :: "string option"

definition zi_is_dir :: "zip_info \<Rightarrow> bool" where
  "zi_is_dir i = (zi_filename i \<noteq> [] \<and> last (zi_filename i) = CHR ''/'')"

text \<open>The ratio is compared exactly; the mode is in the upper half of the attributes, masked with \<open>0o170000\<close>.\<close>

definition validate_zip_member :: "zip_info \<Rightarrow> profile_error + unit" where
  "validate_zip_member i =
     (if odd (zi_flag_bits i) then Inl (ProfileBundleError ''encrypted profile bundle member is not supported'')
      else if MAX_MEMBER_BYTES < zi_file_size i then Inl (ProfileBundleError ''profile bundle member exceeds the limit'')
      else if 0 < zi_compress_size i \<and> MAX_COMPRESSION_RATIO * zi_compress_size i < zi_file_size i
      then Inl (ProfileBundleError ''profile bundle member has an unsafe compression ratio'')
      else guardR (zi_external_attr i div 65536 mod 65536 div 4096 \<noteq> 10)
        (ProfileBundleError ''profile bundle archive must not contain symlinks''))"

definition add_zip_member ::
  "(string \<times> string) list \<Rightarrow> zip_info \<Rightarrow> profile_error + (string \<times> string) list" where
  "add_zip_member members i =
     (if zi_is_dir i then Inr members
      else
        bindR (validated_member_path (zi_filename i)) (\<lambda>name.
        if name \<in> fst ` set members then Inl (ProfileBundleError ''profile bundle archive has duplicate member'')
        else
          bindR (validate_zip_member i) (\<lambda>_.
          case zi_data i of
            None \<Rightarrow> Inl (ProfileBundleError ''profile bundle archive is unreadable or is not a valid ZIP archive'')
          | Some d \<Rightarrow> Inr (members @ [(name, d)]))))"

definition open_zip_bundle ::
  "int \<Rightarrow> zip_info list option \<Rightarrow> profile_error + string \<times> (string \<times> string) list" where
  "open_zip_bundle archive_size archive =
     (if MAX_ARCHIVE_BYTES < archive_size then Inl (ProfileBundleError ''profile bundle archive exceeds the limit'')
      else case archive of
        None \<Rightarrow> Inl (ProfileBundleError ''profile bundle archive is unreadable or is not a valid ZIP archive'')
      | Some infos \<Rightarrow>
          if MAX_ARCHIVE_MEMBERS < length infos
          then Inl (ProfileBundleError ''profile bundle archive exceeds 64 members'')
          else if MAX_ARCHIVE_BYTES < sum_list (map zi_file_size (filter (\<lambda>i. \<not> zi_is_dir i) infos))
          then Inl (ProfileBundleError ''profile bundle archive has excessive uncompressed content'')
          else
            bindR (foldR add_zip_member [] infos) (\<lambda>members.
            case map_of members MANIFEST_NAME of
              None \<Rightarrow> Inl (ProfileBundleError ''profile bundle manifest.json is missing'')
            | Some m \<Rightarrow>
                if MAX_MANIFEST_BYTES < int (length m) then Inl (ProfileBundleError ''profile bundle manifest exceeds the limit'')
                else Inr (m, members)))"

definition read_zip_member :: "(string \<times> string) list \<Rightarrow> string \<Rightarrow> profile_error + string" where
  "read_zip_member members path =
     (case map_of members path of None \<Rightarrow> Inl (ProfileBundleError ''profile bundle file is missing'') | Some d \<Rightarrow> Inr d)"

section \<open>The manifest\<close>

definition objects_at :: "members \<Rightarrow> string \<Rightarrow> members list" where
  "objects_at m k = (case array_at m k of None \<Rightarrow> [] | Some xs \<Rightarrow> map members_of xs)"

fun str_of :: "json \<Rightarrow> string" where
  "str_of (JStr s) = s"
| "str_of _ = []"

definition strings_at :: "members \<Rightarrow> string \<Rightarrow> string list" where
  "strings_at m k = (case array_at m k of None \<Rightarrow> [] | Some xs \<Rightarrow> map str_of xs)"

definition require_unique :: "string \<Rightarrow> string list \<Rightarrow> profile_error + unit" where
  "require_unique msg xs = guardR (distinct xs) (ProfileBundleError msg)"

definition nist_release_pattern :: "string \<Rightarrow> bool" where
  "nist_release_pattern s = (length (split_on CHR ''.'' s) = 3 \<and>
     list_all (\<lambda>p. p \<noteq> [] \<and> list_all is_digit p) (split_on CHR ''.'' s))"

definition build_source :: "members \<Rightarrow> profile_source" where
  "build_source m = \<lparr>ps_source_id = str_member m ''source_id'', ps_title = str_member m ''title'',
     ps_version = str_member m ''version'', ps_reference = str_member m ''reference''\<rparr>"

definition build_file :: "members \<Rightarrow> profile_error + profile_bundle_file" where
  "build_file m = bindR (validated_member_path (str_member m ''path'')) (\<lambda>p.
     Inr \<lparr>pf_role = str_member m ''role'', pf_path = p, pf_sha256 = str_member m ''sha256''\<rparr>)"

definition release_conflict :: "string \<Rightarrow> profile_source \<Rightarrow> bool" where
  "release_conflict release s = (ps_source_id s = ''nist-sp-800-53'' \<and> nist_release_pattern release \<and>
     nist_release_pattern (ps_version s) \<and> ps_version s \<noteq> release)"

definition build_manifest ::
  "(string \<Rightarrow> string) \<Rightarrow> members \<Rightarrow> string \<Rightarrow> profile_error + profile_manifest" where
  "build_manifest sha256 document manifest_bytes =
     (let sources = map build_source (objects_at document ''sources'');
          release = str_member document ''nist_control_catalog_release'' in
      bindR (require_unique ''profile bundle source_id values must be unique'' (map ps_source_id sources)) (\<lambda>_.
      bindR (mapR build_file (objects_at document ''files'')) (\<lambda>files.
      bindR (require_unique ''profile bundle file roles must be unique'' (map pf_role files)) (\<lambda>_.
      bindR (guardR (set REQUIRED_ROLES \<subseteq> set (map pf_role files)) (ProfileBundleError
        ''profile bundle must declare exactly one catalog, baselines, and ssp_requirements file'')) (\<lambda>_.
      bindR (require_unique ''profile bundle file paths must be unique'' (map pf_path files)) (\<lambda>_.
      bindR (guardR (MANIFEST_NAME \<notin> set (map pf_path files)) (ProfileBundleError ''manifest.json cannot checksum itself'')) (\<lambda>_.
      bindR (guardR (\<not> list_ex (release_conflict release) sources) (ProfileBundleError
        ''nist_control_catalog_release must match the nist-sp-800-53 source version'')) (\<lambda>_.
      Inr \<lparr>pm_schema_version = str_member document ''schema_version'', pm_profile_id = str_member document ''profile_id'',
        pm_profile_version = str_member document ''profile_version'', pm_nist_control_catalog_release = release,
        pm_display_name = str_member document ''display_name'', pm_sources = sort_key ps_source_id sources,
        pm_files = sort_key pf_role files, pm_sha256 = sha256 manifest_bytes\<rparr>))))))))"

section \<open>Catalog, baselines and requirements\<close>

definition load_catalog_controls :: "(string \<Rightarrow> string) \<Rightarrow> members \<Rightarrow> profile_error + profile_control list" where
  "load_catalog_controls up document =
     (case index_oscal_catalog_controls up document of
        Inl _ \<Rightarrow> Inl (ProfileBundleError ''profile catalog is invalid'')
      | Inr index \<Rightarrow> Inr (map (\<lambda>(_, r). \<lparr>pc_control_id = oc_normalized_id r, pc_title = py_strip (oc_title r),
          pc_requirement_text = py_strip (oc_requirement_text r), pc_catalog_pointer = oc_catalog_pointer r\<rparr>)
          (sort_key fst index)))"

definition load_baseline :: "members \<Rightarrow> profile_control list \<Rightarrow> string \<Rightarrow> profile_error + string list" where
  "load_baseline document cs level =
     (let ids = sort (strings_at document level); by_id = dict_of pc_control_id cs in
      if \<not> list_all (\<lambda>i. i \<in> pc_control_id ` set cs) ids
      then Inl (ProfileBundleError ''baseline references controls missing from catalog'')
      else if list_ex (\<lambda>i. map_option pc_requirement_text (map_of by_id i) = Some []) ids
      then Inl (ProfileBundleError ''baseline controls have missing statement prose'')
      else Inr ids)"

definition load_baselines ::
  "(string \<Rightarrow> members \<Rightarrow> bool) \<Rightarrow> members \<Rightarrow> profile_control list \<Rightarrow> profile_error + string list \<times> string list \<times> string list" where
  "load_baselines schema document cs =
     bindR (guardR (schema ''profile-baselines.schema.json'' document) (ProfileBundleError ''failed schema validation'')) (\<lambda>_.
     bindR (load_baseline document cs ''low'') (\<lambda>l.
     bindR (load_baseline document cs ''moderate'') (\<lambda>m.
     bindR (load_baseline document cs ''high'') (\<lambda>h. Inr (l, m, h)))))"

definition bool_member :: "members \<Rightarrow> string \<Rightarrow> bool \<Rightarrow> bool" where
  "bool_member m k fallback = (case map_of m k of Some (JBool b) \<Rightarrow> b | _ \<Rightarrow> fallback)"

definition opt_str_member :: "members \<Rightarrow> string \<Rightarrow> string option" where
  "opt_str_member m k = (case map_of m k of Some (JStr s) \<Rightarrow> Some s | _ \<Rightarrow> None)"

definition load_item :: "members \<Rightarrow> ssp_required_item" where
  "load_item m = \<lparr>ri_item_id = str_member m ''item_id'', ri_title = py_strip (str_member m ''title''),
     ri_value_type = str_member m ''value_type'',
     ri_min_length = (case map_of m ''min_length'' of Some (JInt i) \<Rightarrow> Some i | _ \<Rightarrow> None),
     ri_allowed_values = strings_at m ''allowed_values'',
     ri_evidence_required = bool_member m ''evidence_required_for_agent'' False,
     ri_required = bool_member m ''required'' True, ri_standard_refs = strings_at m ''standard_refs'',
     ri_structured_kind = opt_str_member m ''structured_kind''\<rparr>"

text \<open>\<open>document.get(key)\<close> when a missing member and \<open>null\<close> are the same.\<close>

definition present :: "members \<Rightarrow> string \<Rightarrow> json option" where
  "present m k = (case map_of m k of None \<Rightarrow> None | Some JNull \<Rightarrow> None | Some v \<Rightarrow> Some v)"

definition validated_enum_collection ::
  "runtime \<Rightarrow> members \<Rightarrow> string \<Rightarrow> bool \<Rightarrow> profile_error + string list" where
  "validated_enum_collection rt m label require_unknown =
     (case array_at m label of
        Some (x # xs) \<Rightarrow>
          let vs = map (py_str rt) (x # xs) in
          if \<not> distinct vs then Inl (ProfileBundleError (''control_response.'' @ label @ '' values must be unique''))
          else if require_unknown \<and> ''unknown'' \<notin> set vs
          then Inl (ProfileBundleError (''control_response.'' @ label @ '' must include unknown''))
          else Inr vs
      | _ \<Rightarrow> Inl (ProfileBundleError (''control_response.'' @ label @ '' must be a non-empty array'')))"

definition load_control_response :: "runtime \<Rightarrow> json option \<Rightarrow> profile_error + control_response_policy" where
  "load_control_response rt raw =
     (case raw of
        None \<Rightarrow> Inr default_control_response_policy
      | Some v \<Rightarrow>
          let m = members_of v in
          bindR (validated_enum_collection rt m ''implementation_statuses'' True) (\<lambda>ss.
          bindR (validated_enum_collection rt m ''responsibilities'' True) (\<lambda>rs.
          bindR (validated_enum_collection rt m ''question_owner_types'' False) (\<lambda>os.
          case map_of m ''evidence_required_for_agent_statement'' of
            Some (JBool b) \<Rightarrow> Inr \<lparr>cr_implementation_statuses = ss, cr_responsibilities = rs,
              cr_question_owner_types = os, cr_evidence_required = b\<rparr>
          | _ \<Rightarrow> Inl (ProfileBundleError ''control_response.evidence_required_for_agent_statement must be a boolean'')))))"

section \<open>Coverage of standards and the statement policy\<close>

definition blank_or_missing :: "json option \<Rightarrow> bool" where
  "blank_or_missing v = (case v of Some (JStr s) \<Rightarrow> py_strip s = [] | _ \<Rightarrow> True)"

definition load_coverage_item_ids ::
  "runtime \<Rightarrow> string list \<Rightarrow> string \<Rightarrow> json option \<Rightarrow> profile_error + string list" where
  "load_coverage_item_ids rt known kind raw =
     (if kind = ''controls''
      then if (case raw of None \<Rightarrow> False | Some v \<Rightarrow> json_truthy v)
        then Inl (ProfileBundleError ''standard_coverage of kind controls must not declare item_ids'') else Inr []
      else case raw of
        Some (JArr (x # xs)) \<Rightarrow>
          if set (map (py_str rt) (x # xs)) \<subseteq> set known then Inr (map (py_str rt) (x # xs))
          else Inl (ProfileBundleError ''standard_coverage references unknown SSP item_ids'')
      | _ \<Rightarrow> Inl (ProfileBundleError ''standard_coverage of kind ssp_item must declare item_ids''))"

definition load_coverage_entry ::
  "runtime \<Rightarrow> string list \<Rightarrow> string list \<Rightarrow> json \<Rightarrow> profile_error + standard_coverage" where
  "load_coverage_entry rt source_ids known entry =
     (case entry of
        JObj m \<Rightarrow>
          let source_id = str_member m ''source_id''; kind = str_member m ''coverage_kind'' in
          if blank_or_missing (map_of m ''source_id'') then Inl (ProfileBundleError ''standard_coverage must declare source_id'')
          else if source_id \<notin> set source_ids
          then Inl (ProfileBundleError ''standard_coverage references unknown source_id'')
          else if blank_or_missing (map_of m ''requirement_id'')
          then Inl (ProfileBundleError ''standard_coverage must declare requirement_id'')
          else if blank_or_missing (map_of m ''title'') then Inl (ProfileBundleError ''standard_coverage must declare title'')
          else if kind \<notin> set [''ssp_item'', ''controls'']
          then Inl (ProfileBundleError ''standard_coverage has unsupported coverage_kind'')
          else (case map_of m ''required'' of
            Some (JBool required) \<Rightarrow>
              bindR (load_coverage_item_ids rt known kind (map_of m ''item_ids'')) (\<lambda>ids.
              Inr \<lparr>cov_source_id = py_strip source_id, cov_requirement_id = py_strip (str_member m ''requirement_id''),
                cov_title = py_strip (str_member m ''title''),
                cov_kind = (if kind = ''controls'' then COVERS_CONTROLS else COVERS_SSP_ITEM),
                cov_item_ids = ids, cov_required = required\<rparr>)
          | _ \<Rightarrow> Inl (ProfileBundleError ''standard_coverage.required must be a boolean''))
      | _ \<Rightarrow> Inl (ProfileBundleError ''standard_coverage must be an object''))"

definition load_standard_coverage ::
  "runtime \<Rightarrow> json option \<Rightarrow> profile_source list \<Rightarrow> string list \<Rightarrow> profile_error + standard_coverage list" where
  "load_standard_coverage rt raw sources known =
     (case raw of
        None \<Rightarrow> Inr []
      | Some (JArr xs) \<Rightarrow>
          bindR (mapR (load_coverage_entry rt (map ps_source_id sources) known) xs) (\<lambda>entries.
          bindR (require_unique ''standard_coverage requirement_id values must be unique'' (map cov_requirement_id entries)) (\<lambda>_.
          Inr (sort_key cov_requirement_id entries)))
      | Some _ \<Rightarrow> Inl (ProfileBundleError ''standard_coverage must be an array''))"

definition validate_item_refs :: "standard_coverage list \<Rightarrow> ssp_required_item \<Rightarrow> profile_error + unit" where
  "validate_item_refs coverage i =
     (if \<not> set (ri_standard_refs i) \<subseteq> cov_requirement_id ` set coverage
      then Inl (ProfileBundleError ''SSP requirement has unknown standard_refs'')
      else guardR (\<not> (ri_required i \<and> ri_standard_refs i = []))
        (ProfileBundleError ''required SSP requirement must declare at least one standard_ref''))"

definition validate_ssp_requirement_semantics ::
  "ssp_required_item list \<Rightarrow> standard_coverage list \<Rightarrow> profile_error + unit" where
  "validate_ssp_requirement_semantics items coverage =
     (if coverage = [] then Inr () else foldR (\<lambda>_ i. validate_item_refs coverage i) () items)"

definition load_instruction_list :: "runtime \<Rightarrow> json option \<Rightarrow> profile_error + string list" where
  "load_instruction_list rt raw =
     (case raw of
        Some (JArr (x # xs)) \<Rightarrow>
          let vs = map (\<lambda>v. py_strip (py_str rt v)) (x # xs) in
          if [] \<in> set vs then Inl (ProfileBundleError ''entries must be non-empty strings'')
          else if \<not> distinct vs then Inl (ProfileBundleError ''entries must be unique'') else Inr vs
      | _ \<Rightarrow> Inl (ProfileBundleError ''must be a non-empty array''))"

definition bool_field :: "members \<Rightarrow> string \<Rightarrow> profile_error + bool" where
  "bool_field m k = (case map_of m k of Some (JBool b) \<Rightarrow> Inr b
     | _ \<Rightarrow> Inl (ProfileBundleError (''implementation_statement_policy.deterministic.'' @ k @ '' must be a boolean'')))"

definition load_deterministic :: "members \<Rightarrow> profile_error + deterministic_policy" where
  "load_deterministic m =
     bindR (bool_field m ''reject_oscal_parameter_insert_syntax'') (\<lambda>a.
     bindR (bool_field m ''require_question_for_unresolved_parameterized_controls'') (\<lambda>b.
     bindR (bool_field m ''require_evidence_for_agent_non_unknown_claims'') (\<lambda>c.
     bindR (bool_field m ''require_statement_gap_or_question_before_approval'') (\<lambda>d.
     bindR (bool_field m ''semantic_quality_findings_are_advisory'') (\<lambda>e.
     Inr \<lparr>dp_reject_insert_syntax = a, dp_require_question = b, dp_require_evidence = c,
       dp_require_gap_or_question = d, dp_advisory = e\<rparr>)))))"

definition load_instructions :: "runtime \<Rightarrow> members \<Rightarrow> profile_error + agent_instructions" where
  "load_instructions rt m =
     bindR (load_instruction_list rt (map_of m ''statement_content'')) (\<lambda>a.
     bindR (load_instruction_list rt (map_of m ''organization_defined_parameters'')) (\<lambda>b.
     bindR (load_instruction_list rt (map_of m ''inherited_and_hybrid_responsibility'')) (\<lambda>c.
     bindR (load_instruction_list rt (map_of m ''semantic_review'')) (\<lambda>d.
     Inr \<lparr>ai_statement_content = a, ai_organization_defined_parameters = b, ai_inherited_and_hybrid = c,
       ai_semantic_review = d\<rparr>))))"

definition covered_requirements :: "standard_coverage list \<Rightarrow> string \<Rightarrow> string list" where
  "covered_requirements coverage source_id = map cov_requirement_id (filter (\<lambda>c. cov_source_id c = source_id) coverage)"

definition load_authority_ref ::
  "runtime \<Rightarrow> profile_source list \<Rightarrow> standard_coverage list \<Rightarrow> json \<Rightarrow> profile_error + authority_ref" where
  "load_authority_ref rt sources coverage entry =
     (case entry of
        JObj m \<Rightarrow>
          let source_id = py_strip (str_member m ''source_id'') in
          if blank_or_missing (map_of m ''source_id'') then Inl (ProfileBundleError ''authority_refs must declare source_id'')
          else if source_id \<notin> ps_source_id ` set sources
          then Inl (ProfileBundleError ''authority ref references unknown source_id'')
          else (case map_of m ''requirement_ids'' of
            Some (JArr xs) \<Rightarrow>
              let ids = map (\<lambda>v. py_strip (py_str rt v)) xs in
              if ids \<noteq> [] \<and> covered_requirements coverage source_id = []
              then Inl (ProfileBundleError ''authority ref has requirement_ids but no standard_coverage entries'')
              else if \<not> set ids \<subseteq> set (covered_requirements coverage source_id)
              then Inl (ProfileBundleError ''authority ref references unknown requirement_ids'')
              else Inr \<lparr>ar_source_id = source_id, ar_requirement_ids = ids\<rparr>
          | _ \<Rightarrow> Inl (ProfileBundleError ''authority_refs.requirement_ids must be an array''))
      | _ \<Rightarrow> Inl (ProfileBundleError ''authority_refs must be an object''))"

definition load_statement_policy ::
  "runtime \<Rightarrow> json option \<Rightarrow> profile_source list \<Rightarrow> standard_coverage list \<Rightarrow> profile_error + statement_policy" where
  "load_statement_policy rt raw sources coverage =
     (case raw of
        None \<Rightarrow> Inr default_statement_policy
      | Some (JObj m) \<Rightarrow>
          if map_of m ''policy_version'' \<noteq> Some (JStr ''1.0.0'')
          then Inl (ProfileBundleError ''implementation_statement_policy.policy_version is not supported'')
          else (case map_of m ''deterministic'' of
            Some (JObj d) \<Rightarrow>
              bindR (load_deterministic d) (\<lambda>deterministic.
              case map_of m ''agent_instructions'' of
                Some (JObj i) \<Rightarrow>
                  bindR (load_instructions rt i) (\<lambda>instructions.
                  case map_of m ''authority_refs'' of
                    Some (JArr xs) \<Rightarrow>
                      bindR (mapR (load_authority_ref rt sources coverage) xs) (\<lambda>refs.
                      Inr \<lparr>sp_policy_version = ''1.0.0'', sp_deterministic = deterministic,
                        sp_agent_instructions = instructions,
                        sp_authority_refs = sort_key (\<lambda>r. (ar_source_id r, ar_requirement_ids r)) refs\<rparr>)
                  | _ \<Rightarrow> Inl (ProfileBundleError ''implementation_statement_policy.authority_refs must be an array''))
              | _ \<Rightarrow> Inl (ProfileBundleError ''implementation_statement_policy.agent_instructions must be an object''))
          | _ \<Rightarrow> Inl (ProfileBundleError ''implementation_statement_policy.deterministic must be an object''))
      | Some _ \<Rightarrow> Inl (ProfileBundleError ''implementation_statement_policy must be an object''))"

definition load_ssp_requirements ::
  "runtime \<Rightarrow> (string \<Rightarrow> members \<Rightarrow> bool) \<Rightarrow> members \<Rightarrow> profile_source list
     \<Rightarrow> profile_error + ssp_required_item list \<times> control_response_policy \<times> standard_coverage list \<times> statement_policy" where
  "load_ssp_requirements rt schema document sources =
     bindR (guardR (schema ''profile-ssp-requirements.schema.json'' document)
       (ProfileBundleError ''failed schema validation'')) (\<lambda>_.
     let items = map load_item (objects_at document ''items'') in
     bindR (require_unique ''SSP requirement item_id values must be unique'' (map ri_item_id items)) (\<lambda>_.
     bindR (load_control_response rt (present document ''control_response'')) (\<lambda>response.
     bindR (load_standard_coverage rt (present document ''standard_coverage'') sources (map ri_item_id items)) (\<lambda>coverage.
     bindR (validate_ssp_requirement_semantics items coverage) (\<lambda>_.
     bindR (load_statement_policy rt (present document ''implementation_statement_policy'') sources coverage) (\<lambda>policy.
     Inr (sort_key ri_item_id items, response, coverage, policy)))))))"

section \<open>Loading a bundle\<close>

text \<open>\<open>parse\<close> is \<open>json.loads(raw.decode("utf-8"))\<close>, \<open>None\<close> if either fails; \<open>read_member\<close> reads a file of the bundle.\<close>

definition load_json_object :: "(string \<Rightarrow> json option) \<Rightarrow> string \<Rightarrow> profile_error + members" where
  "load_json_object parse raw =
     (case parse raw of
        None \<Rightarrow> Inl (ProfileBundleError ''is not valid UTF-8 JSON'')
      | Some (JObj m) \<Rightarrow> Inr m
      | Some _ \<Rightarrow> Inl (ProfileBundleError ''must be a JSON object''))"

definition load_bundle_file ::
  "(string \<Rightarrow> string) \<Rightarrow> (string \<Rightarrow> json option) \<Rightarrow> (string \<Rightarrow> profile_error + string)
     \<Rightarrow> (string \<times> members) list \<Rightarrow> profile_bundle_file \<Rightarrow> profile_error + (string \<times> members) list" where
  "load_bundle_file sha256 parse read_member documents f =
     bindR (read_member (pf_path f)) (\<lambda>bytes.
     if sha256 bytes \<noteq> pf_sha256 f then Inl (ProfileBundleError ''checksum mismatch for profile bundle file'')
     else if pf_role f \<in> set REQUIRED_ROLES
     then bindR (load_json_object parse bytes) (\<lambda>m. Inr (dict_put (pf_role f) m documents))
     else Inr documents)"

definition document_of :: "(string \<times> members) list \<Rightarrow> string \<Rightarrow> members" where
  "document_of documents role = (case map_of documents role of None \<Rightarrow> [] | Some m \<Rightarrow> m)"

definition load_profile_bundle ::
  "runtime \<Rightarrow> (string \<Rightarrow> string) \<Rightarrow> (string \<Rightarrow> string) \<Rightarrow> (string \<Rightarrow> members \<Rightarrow> bool) \<Rightarrow> (string \<Rightarrow> json option)
     \<Rightarrow> (string \<Rightarrow> profile_error + string) \<Rightarrow> string \<Rightarrow> profile_error + profile_bundle" where
  "load_profile_bundle rt up sha256 schema parse read_member manifest_bytes =
     bindR (load_json_object parse manifest_bytes) (\<lambda>md.
     bindR (guardR (schema ''profile-bundle-manifest.schema.json'' md) (ProfileBundleError ''failed schema validation'')) (\<lambda>_.
     bindR (build_manifest sha256 md manifest_bytes) (\<lambda>manifest.
     bindR (foldR (load_bundle_file sha256 parse read_member) [] (pm_files manifest)) (\<lambda>documents.
     bindR (load_catalog_controls up (document_of documents ''catalog'')) (\<lambda>cs.
     bindR (load_baselines schema (document_of documents ''baselines'') cs) (\<lambda>(low, moderate, high).
     bindR (load_ssp_requirements rt schema (document_of documents ''ssp_requirements'') (pm_sources manifest))
       (\<lambda>(items, response, coverage, policy).
     Inr \<lparr>pb_manifest = manifest, pb_catalog_controls = cs, pb_low_control_ids = low, pb_moderate_control_ids = moderate,
       pb_high_control_ids = high, pb_ssp_required_items = items, pb_control_response = response,
       pb_standard_coverage = coverage, pb_statement_policy = policy\<rparr>)))))))"

section \<open>Stored profile versions\<close>

text \<open>A row of \<open>ssp_profile_versions\<close>.\<close>

record profile_version =
  profile_version_id :: uuid
  profile_key :: string
  profile_version_name :: string
  profile_status :: profile_state
  pv_bundle_sha256 :: string
  pv_bundle :: profile_bundle
  pv_imported_by :: string
  pv_imported_at :: instant
  pv_activated_at :: "instant option"

text \<open>The JSON document of a bundle, \<open>dataclasses.asdict(bundle)\<close>.\<close>

definition strs :: "string list \<Rightarrow> json" where "strs xs = JArr (map JStr xs)"

definition source_doc :: "profile_source \<Rightarrow> json" where
  "source_doc s = JObj [(''source_id'', JStr (ps_source_id s)), (''title'', JStr (ps_title s)),
     (''version'', JStr (ps_version s)), (''reference'', JStr (ps_reference s))]"

definition file_doc :: "profile_bundle_file \<Rightarrow> json" where
  "file_doc f = JObj [(''role'', JStr (pf_role f)), (''path'', JStr (pf_path f)), (''sha256'', JStr (pf_sha256 f))]"

definition manifest_doc :: "profile_manifest \<Rightarrow> json" where
  "manifest_doc m = JObj [(''schema_version'', JStr (pm_schema_version m)), (''profile_id'', JStr (pm_profile_id m)),
     (''profile_version'', JStr (pm_profile_version m)),
     (''nist_control_catalog_release'', JStr (pm_nist_control_catalog_release m)),
     (''display_name'', JStr (pm_display_name m)), (''sources'', JArr (map source_doc (pm_sources m))),
     (''files'', JArr (map file_doc (pm_files m))), (''sha256'', JStr (pm_sha256 m))]"

definition profile_control_doc :: "profile_control \<Rightarrow> json" where
  "profile_control_doc c = JObj [(''control_id'', JStr (pc_control_id c)), (''title'', JStr (pc_title c)),
     (''requirement_text'', JStr (pc_requirement_text c)), (''catalog_pointer'', JStr (pc_catalog_pointer c))]"

definition item_doc :: "ssp_required_item \<Rightarrow> json" where
  "item_doc i = JObj [(''item_id'', JStr (ri_item_id i)), (''title'', JStr (ri_title i)),
     (''value_type'', JStr (ri_value_type i)),
     (''min_length'', case ri_min_length i of None \<Rightarrow> JNull | Some n \<Rightarrow> JInt n),
     (''allowed_values'', strs (ri_allowed_values i)), (''evidence_required_for_agent'', JBool (ri_evidence_required i)),
     (''required'', JBool (ri_required i)), (''standard_refs'', strs (ri_standard_refs i)),
     (''structured_kind'', opt_str (ri_structured_kind i))]"

definition response_doc :: "control_response_policy \<Rightarrow> json" where
  "response_doc r = JObj [(''implementation_statuses'', strs (cr_implementation_statuses r)),
     (''responsibilities'', strs (cr_responsibilities r)), (''question_owner_types'', strs (cr_question_owner_types r)),
     (''evidence_required_for_agent_statement'', JBool (cr_evidence_required r))]"

definition coverage_doc :: "standard_coverage \<Rightarrow> json" where
  "coverage_doc c = JObj [(''source_id'', JStr (cov_source_id c)), (''requirement_id'', JStr (cov_requirement_id c)),
     (''title'', JStr (cov_title c)),
     (''coverage_kind'', JStr (case cov_kind c of COVERS_CONTROLS \<Rightarrow> ''controls'' | COVERS_SSP_ITEM \<Rightarrow> ''ssp_item'')),
     (''item_ids'', strs (cov_item_ids c)), (''required'', JBool (cov_required c))]"

definition statement_policy_doc :: "statement_policy \<Rightarrow> json" where
  "statement_policy_doc p =
     (let d = sp_deterministic p; a = sp_agent_instructions p in
      JObj [(''policy_version'', JStr (sp_policy_version p)),
        (''deterministic'', JObj [(''reject_oscal_parameter_insert_syntax'', JBool (dp_reject_insert_syntax d)),
           (''require_question_for_unresolved_parameterized_controls'', JBool (dp_require_question d)),
           (''require_evidence_for_agent_non_unknown_claims'', JBool (dp_require_evidence d)),
           (''require_statement_gap_or_question_before_approval'', JBool (dp_require_gap_or_question d)),
           (''semantic_quality_findings_are_advisory'', JBool (dp_advisory d))]),
        (''agent_instructions'', JObj [(''statement_content'', strs (ai_statement_content a)),
           (''organization_defined_parameters'', strs (ai_organization_defined_parameters a)),
           (''inherited_and_hybrid_responsibility'', strs (ai_inherited_and_hybrid a)),
           (''semantic_review'', strs (ai_semantic_review a))]),
        (''authority_refs'', JArr (map (\<lambda>r. JObj [(''source_id'', JStr (ar_source_id r)),
           (''requirement_ids'', strs (ar_requirement_ids r))]) (sp_authority_refs p)))])"

definition serialize_profile_bundle :: "profile_bundle \<Rightarrow> json" where
  "serialize_profile_bundle b = JObj [(''manifest'', manifest_doc (pb_manifest b)),
     (''catalog_controls'', JArr (map profile_control_doc (pb_catalog_controls b))),
     (''low_control_ids'', strs (pb_low_control_ids b)), (''moderate_control_ids'', strs (pb_moderate_control_ids b)),
     (''high_control_ids'', strs (pb_high_control_ids b)),
     (''ssp_required_items'', JArr (map item_doc (pb_ssp_required_items b))),
     (''control_response'', response_doc (pb_control_response b)),
     (''standard_coverage'', JArr (map coverage_doc (pb_standard_coverage b))),
     (''implementation_statement_policy'', statement_policy_doc (pb_statement_policy b))]"

definition profile_row_ok :: "profile_version \<Rightarrow> bool" where
  "profile_row_ok r = (length_between 1 128 (profile_key r) \<and> length_between 1 64 (profile_version_name r) \<and>
     is_sha256_hex (pv_bundle_sha256 r) \<and> length_between 1 255 (pv_imported_by r))"

text \<open>The partial unique index \<open>uq_ssp_profile_versions_one_active_profile_key\<close> and the unique keys.\<close>

definition one_active :: "profile_version list \<Rightarrow> bool" where
  "one_active rows = distinct (map profile_key (filter (\<lambda>r. profile_status r = PROFILE_ACTIVE) rows))"

definition profile_rows_ok :: "profile_version list \<Rightarrow> bool" where
  "profile_rows_ok rows = (list_all profile_row_ok rows \<and> distinct (map profile_version_id rows) \<and>
     distinct (map (\<lambda>r. (profile_key r, profile_version_name r)) rows) \<and> one_active rows)"

definition flush_profiles :: "profile_version list \<Rightarrow> profile_error + profile_version list" where
  "flush_profiles rows = (if profile_rows_ok rows then Inr rows else Inl ProfileDatabaseRejects)"

definition bundle_digest :: "(string \<Rightarrow> string) \<Rightarrow> profile_bundle \<Rightarrow> string" where
  "bundle_digest sha256 b = sha256 (canonical_json_bytes (serialize_profile_bundle b))"

definition find_version :: "profile_version list \<Rightarrow> string \<Rightarrow> string \<Rightarrow> profile_version option" where
  "find_version rows key version = find (\<lambda>r. profile_key r = key \<and> profile_version_name r = version) rows"

definition import_profile ::
  "(string \<Rightarrow> string) \<Rightarrow> uuid \<Rightarrow> profile_bundle \<Rightarrow> string \<Rightarrow> instant \<Rightarrow> profile_version list
     \<Rightarrow> profile_error + profile_version list \<times> profile_version" where
  "import_profile sha256 new_id b who now rows =
     (let actor = py_strip who; m = pb_manifest b in
      if actor = [] then Inl (ProfileValueError ''imported_by cannot be empty'')
      else if find_version rows (pm_profile_id m) (pm_profile_version m) \<noteq> None then Inl ProfileAlreadyImported
      else
        let row = \<lparr>profile_version_id = new_id, profile_key = pm_profile_id m, profile_version_name = pm_profile_version m,
          profile_status = PROFILE_INACTIVE, pv_bundle_sha256 = bundle_digest sha256 b, pv_bundle = b,
          pv_imported_by = actor, pv_imported_at = now, pv_activated_at = None\<rparr>
        in bindR (flush_profiles (rows @ [row])) (\<lambda>rows'. Inr (rows', row)))"

definition deactivate :: "profile_version \<Rightarrow> profile_version" where
  "deactivate r = r\<lparr>profile_status := PROFILE_INACTIVE, pv_activated_at := None\<rparr>"

definition activate_profile :: "uuid \<Rightarrow> instant \<Rightarrow> profile_version list \<Rightarrow> profile_error + profile_version list" where
  "activate_profile i now rows =
     (case find (\<lambda>r. profile_version_id r = i) rows of
        None \<Rightarrow> Inl ProfileNotFound
      | Some target \<Rightarrow>
          if profile_status target = PROFILE_ARCHIVED then Inl ProfileNotFound
          else
            let rows1 = update_where (\<lambda>r. profile_key r = profile_key target \<and> profile_status r = PROFILE_ACTIVE \<and>
                  profile_version_id r \<noteq> i) deactivate rows
            in bindR (flush_profiles rows1) (\<lambda>rows1.
               flush_profiles (update_where (\<lambda>r. profile_version_id r = i)
                 (\<lambda>r. r\<lparr>profile_status := PROFILE_ACTIVE, pv_activated_at := Some now\<rparr>) rows1)))"

definition ensure_builtin_profile ::
  "(string \<Rightarrow> string) \<Rightarrow> uuid \<Rightarrow> profile_bundle \<Rightarrow> instant \<Rightarrow> profile_version list
     \<Rightarrow> profile_error + profile_version list" where
  "ensure_builtin_profile sha256 new_id b now rows =
     (let key = pm_profile_id (pb_manifest b); version = pm_profile_version (pb_manifest b) in
      bindR (case find_version rows key version of
          None \<Rightarrow> import_profile sha256 new_id b ''system:built-in-profile'' now rows
        | Some row \<Rightarrow>
            if pv_bundle_sha256 row \<noteq> bundle_digest sha256 b
            then bindR (flush_profiles (update_where (\<lambda>r. profile_version_id r = profile_version_id row)
              (\<lambda>r. r\<lparr>pv_bundle := b, pv_bundle_sha256 := bundle_digest sha256 b\<rparr>) rows)) (\<lambda>rows'. Inr (rows', row))
            else Inr (rows, row)) (\<lambda>(rows', row).
      if list_ex (\<lambda>r. profile_key r = profile_key row \<and> profile_status r = PROFILE_ACTIVE) rows' then Inr rows'
      else activate_profile (profile_version_id row) now rows'))"

definition resolve_stored_profile :: "profile_version \<Rightarrow> string \<Rightarrow> profile_error + resolved_profile" where
  "resolve_stored_profile row level =
     (if level \<notin> set FIPS_IMPACT_LEVELS then Inl (ProfileBundleError ''impact_level must be low, moderate, or high'')
      else resolve_profile (pv_bundle row) level)"

section \<open>Activation\<close>

text \<open>\<open>activate_profile\<close> on rows that satisfy the constraints always succeeds for a version that is not
  archived: the version becomes the active one of its key, and no other key is touched.\<close>

lemma profile_row_ok_updates [simp]:
  "profile_row_ok (deactivate r) = profile_row_ok r"
  "profile_row_ok (r\<lparr>profile_status := st, pv_activated_at := t\<rparr>) = profile_row_ok r"
  by (simp_all add: profile_row_ok_def deactivate_def)

lemma rows_ok_update:
  assumes "profile_rows_ok rows"
    and "\<And>r. profile_version_id (f r) = profile_version_id r \<and> profile_key (f r) = profile_key r \<and>
      profile_version_name (f r) = profile_version_name r \<and> profile_row_ok (f r) = profile_row_ok r"
    and "one_active (update_where P f rows)"
  shows "profile_rows_ok (update_where P f rows)"
proof -
  have "map profile_version_id (update_where P f rows) = map profile_version_id rows"
    "map (\<lambda>r. (profile_key r, profile_version_name r)) (update_where P f rows) =
       map (\<lambda>r. (profile_key r, profile_version_name r)) rows"
    using assms(2) by (simp_all add: map_key_update_where)
  moreover have "list_all profile_row_ok (update_where P f rows)"
    using assms(1,2) by (auto simp: profile_rows_ok_def list_all_iff set_update_where)
  ultimately show ?thesis using assms(1,3) by (simp only: profile_rows_ok_def)
qed

lemma one_active_iff:
  assumes "distinct (map profile_version_id rows)"
  shows "one_active rows \<longleftrightarrow> inj_on profile_key {r \<in> set rows. profile_status r = PROFILE_ACTIVE}"
  using assms by (simp add: one_active_def distinct_map)

lemma activate_profile_succeeds:
  assumes ok: "profile_rows_ok rows" and found: "find (\<lambda>r. profile_version_id r = i) rows = Some target"
    and live: "profile_status target \<noteq> PROFILE_ARCHIVED"
  obtains rows' where "activate_profile i now rows = Inr rows'" and "profile_rows_ok rows'"
    and "\<And>r. r \<in> set rows' \<Longrightarrow> profile_status r = PROFILE_ACTIVE \<Longrightarrow> profile_key r = profile_key target \<Longrightarrow>
      profile_version_id r = i"
    and "target\<lparr>profile_status := PROFILE_ACTIVE, pv_activated_at := Some now\<rparr> \<in> set rows'"
    and "\<And>r. profile_key r \<noteq> profile_key target \<Longrightarrow> r \<in> set rows' \<longleftrightarrow> r \<in> set rows"
proof -
  let ?P = "\<lambda>r. profile_key r = profile_key target \<and> profile_status r = PROFILE_ACTIVE \<and> profile_version_id r \<noteq> i"
  let ?f = "\<lambda>r. r\<lparr>profile_status := PROFILE_ACTIVE, pv_activated_at := Some now\<rparr>"
  define rows1 where "rows1 = update_where ?P deactivate rows"
  define rows2 where "rows2 = update_where (\<lambda>r. profile_version_id r = i) ?f rows1"
  have t: "target \<in> set rows" "profile_version_id target = i" using find_SomeD [OF found] by simp_all
  have ids: "distinct (map profile_version_id rows)" using ok by (simp add: profile_rows_ok_def)
  have unique: "r = target" if "r \<in> set rows" "profile_version_id r = i" for r
    using distinct_key_unique [OF ids that(1) t(1)] that(2) t(2) by simp
  have inj: "inj_on profile_key {r \<in> set rows. profile_status r = PROFILE_ACTIVE}"
    using ok ids one_active_iff by (simp add: profile_rows_ok_def)
  have ids1: "map profile_version_id rows1 = map profile_version_id rows"
    unfolding rows1_def by (rule map_key_update_where) (simp add: deactivate_def)
  have ids2: "map profile_version_id rows2 = map profile_version_id rows1"
    unfolding rows2_def by (rule map_key_update_where) simp
  have active1: "{r \<in> set rows1. profile_status r = PROFILE_ACTIVE} =
      {r \<in> set rows. profile_status r = PROFILE_ACTIVE \<and> \<not> ?P r}"
  proof -
    have "profile_status (deactivate r) \<noteq> PROFILE_ACTIVE" for r by (simp add: deactivate_def)
    then show ?thesis by (auto simp: rows1_def set_update_where)
  qed
  have target1: "target \<in> set rows1" using t by (auto simp: rows1_def set_update_where)
  have unique1: "r = target" if "r \<in> set rows1" "profile_version_id r = i" for r
    using distinct_key_unique [of profile_version_id rows1, OF _ that(1) target1] ids ids1 that(2) t(2) by simp
  have same1: "profile_version_id r = i \<longleftrightarrow> r = target" if "r \<in> set rows1" for r
    using unique1 [OF that] t(2) by blast
  have same: "profile_version_id r = i \<longleftrightarrow> r = target" if "r \<in> set rows" for r
    using unique [OF that] t(2) by blast
  have active2: "{r \<in> set rows2. profile_status r = PROFILE_ACTIVE} =
      insert (?f target) {r \<in> set rows. profile_status r = PROFILE_ACTIVE \<and> profile_key r \<noteq> profile_key target}"
  proof -
    have "set rows2 = (\<lambda>r. if r = target then ?f target else r) ` set rows1"
      unfolding rows2_def set_update_where setcompr_eq_image
      by (rule image_cong) (simp_all add: same1)
    also have "\<dots> = insert (?f target) (set rows1 - {target})" using target1 by auto
    finally have "{r \<in> set rows2. profile_status r = PROFILE_ACTIVE} =
        insert (?f target) ({r \<in> set rows1. profile_status r = PROFILE_ACTIVE} - {target})" by auto
    also have "\<dots> = insert (?f target) {r \<in> set rows. profile_status r = PROFILE_ACTIVE \<and> profile_key r \<noteq> profile_key target}"
      unfolding active1 using t same by auto
    finally show ?thesis .
  qed
  have "one_active rows1" using inj ids ids1 one_active_iff [of rows1] by (simp add: active1) (blast intro: inj_on_subset)
  then have ok1: "profile_rows_ok rows1" unfolding rows1_def
    by (intro rows_ok_update [OF ok]) (simp_all add: deactivate_def profile_row_ok_def)
  have "one_active rows2"
    using inj ids ids1 ids2 one_active_iff [of rows2] by (auto simp: active2 inj_on_def)
  then have ok2: "profile_rows_ok rows2" unfolding rows2_def
    by (intro rows_ok_update [OF ok1]) (simp_all add: profile_row_ok_def)
  have run: "activate_profile i now rows = Inr rows2"
    using found live ok1 ok2 by (simp add: activate_profile_def flush_profiles_def rows1_def rows2_def)
  show thesis
  proof (rule that [OF run ok2])
    fix r assume "r \<in> set rows2" "profile_status r = PROFILE_ACTIVE" "profile_key r = profile_key target"
    then have "r = ?f target" using active2 by blast
    then show "profile_version_id r = i" using t(2) by simp
  next
    show "?f target \<in> set rows2" using active2 by blast
  next
    fix r :: profile_version assume "profile_key r \<noteq> profile_key target"
    then have "r \<in> set rows1 \<longleftrightarrow> r \<in> set rows"
      unfolding rows1_def by (intro in_update_where_other_key [where key = profile_key]) (simp_all add: deactivate_def)
    moreover have "r \<in> set rows2 \<longleftrightarrow> r \<in> set rows1"
      unfolding rows2_def using \<open>profile_key r \<noteq> profile_key target\<close>
      by (intro in_update_where_other_key [where key = profile_key]) (simp_all add: same1)
    ultimately show "r \<in> set rows2 \<longleftrightarrow> r \<in> set rows" by simp
  qed
qed

lemma import_profile_inactive:
  assumes "import_profile sha256 new_id b who now rows = Inr (rows', row)"
  shows "rows' = rows @ [row] \<and> profile_status row = PROFILE_INACTIVE \<and> profile_rows_ok rows' \<and>
    profile_key row = pm_profile_id (pb_manifest b) \<and> pv_bundle row = b"
  using assms by (auto simp: import_profile_def flush_profiles_def Let_def split: if_splits)

end
