(* ===== verification/Workspace.thy ===== *)
theory Workspace
  imports Profiles
begin

text \<open>
  The persistence of the SSP workspaces, \<open>src/ato_service/ssp_workspace/persistence.py\<close>, over the
  tables \<open>SspProfileVersion\<close> to \<open>SspApprovalSnapshot\<close> of \<open>db/models.py\<close>, and the two operations of
  \<open>ssp_workspace/evidence.py\<close> that write evidence. A table is the list of its rows (the random
  surrogate keys of the materialised rows are left out: nothing reads them), an operation returns
  the new tables or an error, and an error leaves the tables alone, as the caller's rollback does.
  \<open>DatabaseRejects\<close> stands for SQLAlchemy's \<open>IntegrityError\<close> and \<open>DataError\<close>: the rows to be
  flushed break a constraint of the table. Identifiers drawn with \<open>uuid4\<close> are arguments;
  \<open>sha256\<close> is the hash function and \<open>read_back\<close> what a JSONB column gives back for a stored
  document.
\<close>

datatype workspace_error =
    PValueError | PValidationError | WorkspaceNotFound | ProfileVersionNotFound
  | IllegalWorkspaceState | StaleWorkspaceRevision | RevisionIntegrity | EvidenceReference
  | EvidenceRemoval | DatabaseRejects

section \<open>Tables\<close>

record ssp_workspace =
  workspace_id :: uuid
  ws_system_id :: uuid
  ws_profile_version_id :: uuid
  current_revision_id :: "uuid option"
  ws_status :: workspace_state
  ws_created_by :: string
  ws_created_at :: instant
  archived_at :: "instant option"

record ssp_revision =
  revision_id :: uuid
  rev_workspace_id :: uuid
  parent_revision_id :: "uuid option"
  rev_version :: int
  rev_status :: revision_state
  content_sha256 :: string
  rev_content :: revision_content
  rev_created_by :: string
  rev_created_at :: instant

text \<open>An entry of \<open>extracted_segments\<close>: a segment, or the note that vision was deferred.\<close>

datatype extracted_segment =
    ExtractedSegment string string "(string \<times> json) list" string
  | VisionDeferred string

record evidence_artifact =
  evidence_artifact_id :: uuid
  ev_workspace_id :: uuid
  ev_storage_key :: string
  ev_size_bytes :: int
  ev_display_filename :: string
  ev_media_type :: string
  ev_detected_format :: "string option"
  ev_sha256 :: string
  ev_status :: evidence_state
  extracted_segments :: "extracted_segment list"
  ev_uploaded_by :: string
  ev_uploaded_at :: instant
  ev_processed_at :: "instant option"
  ev_failure_code :: "string option"
  removed_at :: "instant option"
  removed_by :: "string option"

record fact_row =
  fr_revision_id :: uuid
  fr_fact_key :: string
  fr_value :: json
  fr_provenance :: provenance
  fr_status :: fact_state

record section_row =
  sr_revision_id :: uuid
  sr_section_key :: string
  sr_title :: string
  sr_content :: string
  sr_status :: section_state

record control_row =
  cr_revision_id :: uuid
  cr_control_id :: string
  cr_title :: string
  cr_implementation_status :: "string option"
  cr_implementation_statement :: string
  cr_responsibility :: "string option"
  cr_status :: control_state
  cr_unresolved_reason :: "string option"

record question_row =
  qr_question_id :: uuid
  qr_revision_id :: uuid
  qr_question :: string
  qr_target_type :: string
  qr_target_key :: string
  qr_owner_type :: string
  qr_status :: question_state
  qr_answer :: "string option"

record link_row =
  lr_revision_id :: uuid
  lr_evidence_artifact_id :: uuid
  lr_target_type :: string
  lr_target_key :: string
  lr_locator :: "(string \<times> json) list"

record agent_patch =
  patch_id :: uuid
  patch_workspace_id :: uuid
  base_revision_id :: uuid
  applied_revision_id :: "uuid option"
  patch_operations :: "json list"
  patch_summary :: string
  patch_status :: patch_state
  patch_created_at :: instant
  resolved_by :: "string option"
  resolved_at :: "instant option"

record approval_snapshot =
  approval_snapshot_id :: uuid
  as_workspace_id :: uuid
  as_revision_id :: uuid
  revision_sha256 :: string
  approved_by :: string
  approved_at :: instant

text \<open>A call of \<open>append_audit_event\<close> by an operation on a workspace; \<open>AuditTrail\<close> models what it stores.\<close>

record audit_entry =
  audit_actor_id :: string
  audit_action :: string
  audit_workspace_id :: uuid
  audit_metadata :: "(string \<times> json) list"
  audit_occurred_at :: instant

record ws_db =
  systems :: "uuid list"
  profile_versions :: "profile_version list"
  workspaces :: "ssp_workspace list"
  revisions :: "ssp_revision list"
  evidence :: "evidence_artifact list"
  fact_rows :: "fact_row list"
  section_rows :: "section_row list"
  control_rows :: "control_row list"
  question_rows :: "question_row list"
  link_rows :: "link_row list"
  agent_patches :: "agent_patch list"
  approvals :: "approval_snapshot list"
  audited :: "audit_entry list"

section \<open>Constraints of the tables\<close>

text \<open>PostgreSQL's \<open>trim(text)\<close> removes spaces only; \<open>char_length(trim(s)) >= 1\<close> asks for another character.\<close>

definition pg_trim :: "string \<Rightarrow> string" where
  "pg_trim s = rev (dropWhile (\<lambda>c. c = CHR '' '') (rev (dropWhile (\<lambda>c. c = CHR '' '') s)))"

definition pg_has_text :: "string \<Rightarrow> bool" where
  "pg_has_text s = (1 \<le> length (pg_trim s))"

definition pg_opt_has_text :: "string option \<Rightarrow> bool" where
  "pg_opt_has_text v = (case v of None \<Rightarrow> False | Some s \<Rightarrow> pg_has_text s)"

definition workspace_row_ok :: "ssp_workspace \<Rightarrow> bool" where
  "workspace_row_ok w =
     (((ws_status w = WS_WORKING \<and> archived_at w = None) \<or>
       (ws_status w = WS_ARCHIVED \<and> archived_at w \<noteq> None)) \<and>
      length_between 1 255 (ws_created_by w))"

definition revision_row_ok :: "ssp_revision \<Rightarrow> bool" where
  "revision_row_ok r = (1 \<le> rev_version r \<and> length_between 1 255 (rev_created_by r))"

definition evidence_row_ok :: "evidence_artifact \<Rightarrow> bool" where
  "evidence_row_ok a =
     (is_sha256_hex (ev_sha256 a) \<and> storage_key_pattern (ev_storage_key a) \<and>
      after_slash (ev_storage_key a) = ev_sha256 a \<and> 1 \<le> ev_size_bytes a \<and>
      ((ev_status a = EV_PROCESSED \<and> ev_processed_at a \<noteq> None \<and> ev_failure_code a = None) \<or>
       (ev_status a = EV_FAILED \<and> ev_processed_at a \<noteq> None \<and> ev_failure_code a \<noteq> None) \<or>
       (ev_status a \<in> {EV_UPLOADED, EV_PROCESSING} \<and> ev_processed_at a = None \<and>
        ev_failure_code a = None)) \<and>
      length_between 1 255 (ev_display_filename a) \<and> length_between 1 255 (ev_media_type a) \<and>
      opt_max_length 32 (ev_detected_format a) \<and> length_between 1 255 (ev_uploaded_by a) \<and>
      ((removed_at a = None \<and> removed_by a = None) \<or>
       (removed_at a \<noteq> None \<and>
        (case removed_by a of None \<Rightarrow> False | Some s \<Rightarrow> length_between 1 255 s))))"

definition fact_row_ok :: "fact_row \<Rightarrow> bool" where
  "fact_row_ok r = length_between 1 255 (fr_fact_key r)"

definition section_row_ok :: "section_row \<Rightarrow> bool" where
  "section_row_ok r =
     (((sr_status r = SEC_EMPTY \<and> \<not> pg_has_text (sr_content r)) \<or>
       (sr_status r \<noteq> SEC_EMPTY \<and> pg_has_text (sr_content r))) \<and>
      length_between 1 255 (sr_section_key r) \<and> length_between 1 500 (sr_title r) \<and>
      length (sr_content r) \<le> 100000)"

definition control_row_ok :: "control_row \<Rightarrow> bool" where
  "control_row_ok r =
     (((cr_status r = CTL_EMPTY \<and> \<not> pg_has_text (cr_implementation_statement r)) \<or>
       (cr_status r \<in> {CTL_GENERATED, CTL_REVIEWED} \<and> pg_has_text (cr_implementation_statement r)) \<or>
       (cr_status r = CTL_PARTIAL \<and>
        (pg_has_text (cr_implementation_statement r) \<or> pg_opt_has_text (cr_unresolved_reason r)))) \<and>
      length_between 1 64 (cr_control_id r) \<and> length_between 1 500 (cr_title r) \<and>
      opt_max_length 64 (cr_implementation_status r) \<and>
      length (cr_implementation_statement r) \<le> 100000 \<and>
      opt_max_length 64 (cr_responsibility r) \<and> opt_max_length 4000 (cr_unresolved_reason r))"

text \<open>A check that evaluates to NULL passes: an answered question without an answer is accepted.\<close>

definition question_row_ok :: "question_row \<Rightarrow> bool" where
  "question_row_ok r =
     (((qr_status r = Q_ANSWERED \<and> (qr_answer r = None \<or> pg_opt_has_text (qr_answer r))) \<or>
       (qr_status r = Q_OPEN \<and> qr_answer r = None) \<or> qr_status r = Q_DISMISSED) \<and>
      qr_target_type r \<in> set [''fact'', ''ssp_section'', ''control''] \<and>
      qr_owner_type r \<in> set [''agency'', ''technical'', ''isso'', ''system_owner'', ''other''] \<and>
      length_between 1 4000 (qr_question r) \<and> length_between 1 255 (qr_target_key r) \<and>
      opt_max_length 20000 (qr_answer r))"

definition link_row_ok :: "ws_db \<Rightarrow> link_row \<Rightarrow> bool" where
  "link_row_ok db r =
     (lr_target_type r \<in> set [''fact'', ''ssp_section'', ''control''] \<and> lr_locator r \<noteq> [] \<and>
      length_between 1 255 (lr_target_key r) \<and>
      lr_evidence_artifact_id r \<in> set (map evidence_artifact_id (evidence db)))"

definition approval_row_ok :: "approval_snapshot \<Rightarrow> bool" where
  "approval_row_ok a = length_between 1 255 (approved_by a)"

section \<open>Flushes\<close>

definition add_workspace :: "ssp_workspace \<Rightarrow> ws_db \<Rightarrow> workspace_error + ws_db" where
  "add_workspace w db =
     (if workspace_row_ok w \<and> workspace_id w \<notin> set (map workspace_id (workspaces db)) \<and>
         ws_system_id w \<notin> set (map ws_system_id (workspaces db))
      then Inr (db\<lparr>workspaces := workspaces db @ [w]\<rparr>) else Inl DatabaseRejects)"

definition set_workspace :: "uuid \<Rightarrow> (ssp_workspace \<Rightarrow> ssp_workspace) \<Rightarrow> ws_db \<Rightarrow> ws_db" where
  "set_workspace i f db = db\<lparr>workspaces := update_where (\<lambda>w. workspace_id w = i) f (workspaces db)\<rparr>"

definition set_revision_status :: "uuid \<Rightarrow> revision_state \<Rightarrow> ws_db \<Rightarrow> ws_db" where
  "set_revision_status i st db =
     db\<lparr>revisions := update_where (\<lambda>r. revision_id r = i) (\<lambda>r. r\<lparr>rev_status := st\<rparr>) (revisions db)\<rparr>"

text \<open>
  A flushed revision: a new key, a new version of its workspace, and by the partial index
  \<open>uq_ssp_workspace_revisions_one_working\<close> the only working revision of its workspace.
\<close>

definition add_revision :: "ssp_revision \<Rightarrow> ws_db \<Rightarrow> workspace_error + ws_db" where
  "add_revision r db =
     (if revision_row_ok r \<and> revision_id r \<notin> set (map revision_id (revisions db)) \<and>
         (rev_workspace_id r, rev_version r) \<notin>
           set (map (\<lambda>q. (rev_workspace_id q, rev_version q)) (revisions db)) \<and>
         \<not> (rev_status r = REV_WORKING \<and>
            list_ex (\<lambda>q. rev_workspace_id q = rev_workspace_id r \<and> rev_status q = REV_WORKING) (revisions db))
      then Inr (db\<lparr>revisions := revisions db @ [r]\<rparr>) else Inl DatabaseRejects)"

definition add_approval :: "approval_snapshot \<Rightarrow> ws_db \<Rightarrow> workspace_error + ws_db" where
  "add_approval a db =
     (if approval_row_ok a \<and> approval_snapshot_id a \<notin> set (map approval_snapshot_id (approvals db)) \<and>
         as_revision_id a \<notin> set (map as_revision_id (approvals db))
      then Inr (db\<lparr>approvals := approvals db @ [a]\<rparr>) else Inl DatabaseRejects)"

section \<open>Loading\<close>

definition get_workspace :: "ws_db \<Rightarrow> uuid \<Rightarrow> ssp_workspace option" where
  "get_workspace db i = find (\<lambda>w. workspace_id w = i) (workspaces db)"

definition get_revision :: "ws_db \<Rightarrow> uuid \<Rightarrow> uuid \<Rightarrow> ssp_revision option" where
  "get_revision db i w = find (\<lambda>r. revision_id r = i \<and> rev_workspace_id r = w) (revisions db)"

definition load_workspace_for_update :: "ws_db \<Rightarrow> uuid \<Rightarrow> workspace_error + ssp_workspace" where
  "load_workspace_for_update db i =
     (case get_workspace db i of None \<Rightarrow> Inl WorkspaceNotFound | Some w \<Rightarrow> Inr w)"

definition validate_content :: "revision_content \<Rightarrow> workspace_error + revision_content" where
  "validate_content c = (if valid_content c then Inr c else Inl PValidationError)"

text \<open>The actor of an operation: \<open>created_by.strip()\<close>, which must not be empty.\<close>

definition require_actor :: "string \<Rightarrow> workspace_error + string" where
  "require_actor s = (let actor = py_strip s in if actor = [] then Inl PValueError else Inr actor)"

section \<open>Evidence references and materialised rows\<close>

definition content_evidence_ids :: "revision_content \<Rightarrow> uuid set" where
  "content_evidence_ids c =
     set (map artifact_id (concat (map fact_evidence (facts c) @ map section_evidence (sections c) @
       map control_evidence (controls c))))"

definition active_evidence_ids :: "ws_db \<Rightarrow> uuid \<Rightarrow> uuid set" where
  "active_evidence_ids db w =
     set (map evidence_artifact_id
       (filter (\<lambda>a. ev_workspace_id a = w \<and> removed_at a = None) (evidence db)))"

definition validate_evidence_references ::
  "ws_db \<Rightarrow> uuid \<Rightarrow> revision_content \<Rightarrow> workspace_error + unit" where
  "validate_evidence_references db w c =
     (let expected = content_evidence_ids c in
      if expected = {} then Inr ()
      else let actual = active_evidence_ids db w \<inter> expected in
        guardR (actual = expected) EvidenceReference)"

definition make_link_rows :: "uuid \<Rightarrow> string \<Rightarrow> string \<Rightarrow> evidence_link list \<Rightarrow> link_row list" where
  "make_link_rows rid ttype tkey links =
     map (\<lambda>l. \<lparr>lr_revision_id = rid, lr_evidence_artifact_id = artifact_id l,
       lr_target_type = ttype, lr_target_key = tkey, lr_locator = locator l\<rparr>) links"

definition make_fact_row :: "uuid \<Rightarrow> fact_content \<Rightarrow> fact_row" where
  "make_fact_row rid f = \<lparr>fr_revision_id = rid, fr_fact_key = fact_key f, fr_value = fact_value f,
     fr_provenance = fact_provenance f, fr_status = fact_state f\<rparr>"

definition make_section_row :: "uuid \<Rightarrow> section_content \<Rightarrow> section_row" where
  "make_section_row rid s = \<lparr>sr_revision_id = rid, sr_section_key = section_key s,
     sr_title = section_title s, sr_content = section_text s, sr_status = section_state s\<rparr>"

definition make_control_row :: "uuid \<Rightarrow> control_content \<Rightarrow> control_row" where
  "make_control_row rid c = \<lparr>cr_revision_id = rid, cr_control_id = control_id c,
     cr_title = control_title c, cr_implementation_status = implementation_status c,
     cr_implementation_statement = implementation_statement c,
     cr_responsibility = responsibility c, cr_status = control_state c,
     cr_unresolved_reason = unresolved_reason c\<rparr>"

definition make_question_row :: "uuid \<Rightarrow> question_content \<Rightarrow> question_row" where
  "make_question_row rid q = \<lparr>qr_question_id = question_id q, qr_revision_id = rid,
     qr_question = question q, qr_target_type = target_type q, qr_target_key = target_key q,
     qr_owner_type = owner_type q, qr_status = question_state q, qr_answer = answer q\<rparr>"

definition evidence_link_rows :: "uuid \<Rightarrow> revision_content \<Rightarrow> link_row list" where
  "evidence_link_rows rid c =
     concat (map (\<lambda>f. make_link_rows rid ''fact'' (fact_key f) (fact_evidence f)) (facts c)) @
     concat (map (\<lambda>s. make_link_rows rid ''ssp_section'' (section_key s) (section_evidence s)) (sections c)) @
     concat (map (\<lambda>x. make_link_rows rid ''control'' (control_id x) (control_evidence x)) (controls c))"

text \<open>The rows of one revision are accepted together: their checks and their unique keys.\<close>

definition materialized_ok :: "uuid \<Rightarrow> revision_content \<Rightarrow> ws_db \<Rightarrow> bool" where
  "materialized_ok rid c db =
     (let fs = map (make_fact_row rid) (facts c); ss = map (make_section_row rid) (sections c);
          cs = map (make_control_row rid) (controls c); qs = map (make_question_row rid) (questions c)
      in list_all fact_row_ok fs \<and> list_all section_row_ok ss \<and> list_all control_row_ok cs \<and>
         list_all question_row_ok qs \<and> list_all (link_row_ok db) (evidence_link_rows rid c) \<and>
         distinct (map fr_fact_key fs) \<and> distinct (map sr_section_key ss) \<and>
         distinct (map cr_control_id cs) \<and> distinct (map qr_question_id qs))"

definition materialize_revision ::
  "uuid \<Rightarrow> revision_content \<Rightarrow> ws_db \<Rightarrow> workspace_error + ws_db" where
  "materialize_revision rid c db =
     (if materialized_ok rid c db
      then Inr (db\<lparr>fact_rows := fact_rows db @ map (make_fact_row rid) (facts c),
        section_rows := section_rows db @ map (make_section_row rid) (sections c),
        control_rows := control_rows db @ map (make_control_row rid) (controls c),
        question_rows := question_rows db @ map (make_question_row rid) (questions c),
        link_rows := link_rows db @ evidence_link_rows rid c\<rparr>)
      else Inl DatabaseRejects)"

section \<open>The operations\<close>

definition create_workspace ::
  "uuid \<Rightarrow> uuid \<Rightarrow> uuid \<Rightarrow> string \<Rightarrow> instant \<Rightarrow> ws_db \<Rightarrow> workspace_error + ws_db \<times> ssp_workspace" where
  "create_workspace new_id sys_id pv_id created_by now db =
     bindR (require_actor created_by) (\<lambda>actor.
     bindR (guardR (sys_id \<in> set (systems db)) WorkspaceNotFound) (\<lambda>_.
     case find (\<lambda>p. profile_version_id p = pv_id) (profile_versions db) of
       None \<Rightarrow> Inl ProfileVersionNotFound
     | Some profile \<Rightarrow>
         if profile_status profile = PROFILE_ARCHIVED then Inl ProfileVersionNotFound
         else
           let workspace = \<lparr>workspace_id = new_id, ws_system_id = sys_id,
             ws_profile_version_id = pv_id, current_revision_id = None, ws_status = WS_WORKING,
             ws_created_by = actor, ws_created_at = now, archived_at = None\<rparr>
           in bindR (add_workspace workspace db) (\<lambda>db'. Inr (db', workspace))))"

definition archive_workspace :: "uuid \<Rightarrow> instant \<Rightarrow> ws_db \<Rightarrow> workspace_error + ws_db" where
  "archive_workspace w now db =
     bindR (load_workspace_for_update db w) (\<lambda>workspace.
     if ws_status workspace \<noteq> WS_WORKING then Inl IllegalWorkspaceState
     else Inr (set_workspace w (\<lambda>x. x\<lparr>ws_status := WS_ARCHIVED, archived_at := Some now\<rparr>) db))"

text \<open>The current revision \<open>save_revision\<close> supersedes, if the workspace has one.\<close>

definition load_current :: "ws_db \<Rightarrow> ssp_workspace \<Rightarrow> workspace_error + ssp_revision option" where
  "load_current db workspace =
     (case current_revision_id workspace of
        None \<Rightarrow> Inr None
      | Some i \<Rightarrow>
          (case get_revision db i (workspace_id workspace) of
             None \<Rightarrow> Inl RevisionIntegrity
           | Some current \<Rightarrow>
               if rev_status current = REV_SUPERSEDED then Inl RevisionIntegrity
               else Inr (Some current)))"

definition max_version :: "ws_db \<Rightarrow> uuid \<Rightarrow> int" where
  "max_version db w =
     fold max (map rev_version (filter (\<lambda>r. rev_workspace_id r = w) (revisions db))) 0"

definition supersede :: "ssp_revision option \<Rightarrow> ws_db \<Rightarrow> ws_db" where
  "supersede current db =
     (case current of
        None \<Rightarrow> db
      | Some c \<Rightarrow> if rev_status c = REV_WORKING
          then set_revision_status (revision_id c) REV_SUPERSEDED db else db)"

definition save_revision ::
  "(string \<Rightarrow> string) \<Rightarrow> uuid \<Rightarrow> uuid \<Rightarrow> revision_content \<Rightarrow> string \<Rightarrow> instant \<Rightarrow> uuid option
     \<Rightarrow> ws_db \<Rightarrow> workspace_error + ws_db \<times> ssp_revision" where
  "save_revision sha256 new_id w content created_by now expected db =
     bindR (require_actor created_by) (\<lambda>actor.
     bindR (load_workspace_for_update db w) (\<lambda>workspace.
     if ws_status workspace \<noteq> WS_WORKING then Inl IllegalWorkspaceState
     else if current_revision_id workspace \<noteq> expected then Inl StaleWorkspaceRevision
     else
       bindR (load_current db workspace) (\<lambda>current.
       bindR (validate_evidence_references db w content) (\<lambda>_.
       let revision = \<lparr>revision_id = new_id, rev_workspace_id = w,
         parent_revision_id = current_revision_id workspace, rev_version = max_version db w + 1,
         rev_status = REV_WORKING, content_sha256 = revision_content_sha256 sha256 content,
         rev_content = content, rev_created_by = actor, rev_created_at = now\<rparr>
       in bindR (add_revision revision (supersede current db)) (\<lambda>db1.
          bindR (materialize_revision new_id content db1) (\<lambda>db2.
          Inr (set_workspace w (\<lambda>x. x\<lparr>current_revision_id := Some new_id\<rparr>) db2, revision)))))))"

definition approve_current_revision ::
  "(string \<Rightarrow> string) \<Rightarrow> (revision_content \<Rightarrow> revision_content) \<Rightarrow> uuid \<Rightarrow> uuid \<Rightarrow> uuid \<Rightarrow> string
     \<Rightarrow> instant \<Rightarrow> ws_db \<Rightarrow> workspace_error + ws_db \<times> approval_snapshot" where
  "approve_current_revision sha256 read_back new_id w rid who now db =
     bindR (require_actor who) (\<lambda>actor.
     bindR (load_workspace_for_update db w) (\<lambda>workspace.
     if ws_status workspace \<noteq> WS_WORKING then Inl IllegalWorkspaceState
     else if current_revision_id workspace \<noteq> Some rid then Inl StaleWorkspaceRevision
     else
       (case get_revision db rid w of
          None \<Rightarrow> Inl WorkspaceNotFound
        | Some revision \<Rightarrow>
            if rev_status revision \<noteq> REV_WORKING then Inl IllegalWorkspaceState
            else
              bindR (validate_content (read_back (rev_content revision))) (\<lambda>validated.
              let actual_hash = revision_content_sha256 sha256 validated in
              if actual_hash \<noteq> content_sha256 revision then Inl RevisionIntegrity
              else
                let approval = \<lparr>approval_snapshot_id = new_id, as_workspace_id = w,
                  as_revision_id = rid, revision_sha256 = actual_hash, approved_by = actor,
                  approved_at = now\<rparr>
                in bindR (add_approval approval (set_revision_status rid REV_APPROVED db))
                     (\<lambda>db'. Inr (db', approval))))))"

text \<open>\<open>append_audit_event\<close>, as called with \<open>object_type="ssp_workspace"\<close> and outcome \<open>succeeded\<close>.\<close>

definition audit_workspace ::
  "string \<Rightarrow> string \<Rightarrow> uuid \<Rightarrow> (string \<times> json) list \<Rightarrow> instant \<Rightarrow> ws_db \<Rightarrow> ws_db" where
  "audit_workspace actor action w metadata now db =
     db\<lparr>audited := audited db @ [\<lparr>audit_actor_id = actor, audit_action = action,
       audit_workspace_id = w, audit_metadata = metadata, audit_occurred_at = now\<rparr>]\<rparr>"

end
