(* ===== verification/Evidence.thy ===== *)
theory Evidence
  imports Workspace
begin

text \<open>
  The evidence of a workspace, \<open>src/ato_service/ssp_workspace/evidence.py\<close>: uploading a file (the checks
  of the request, the facts extracted from it, the transaction that stores it or restores a removed
  duplicate) and removing it before analysis begins. The malware scanner, the extractors, the vision
  model and the blob store are not modelled: what they return is an argument.
\<close>

datatype upload_error = EvidenceUploadError string | UploadRejected workspace_error

section \<open>The checks of an upload\<close>

definition ascii_lower :: "char \<Rightarrow> char" where
  "ascii_lower c = (if is_upper c then char_of ((of_char c :: nat) + 32) else c)"

definition check_upload ::
  "nat \<Rightarrow> string \<Rightarrow> string \<Rightarrow> string \<Rightarrow> upload_error + string \<times> string" where
  "check_upload max_single_file_bytes filename media_type content =
     (let normalized_filename = py_strip filename;
          normalized_media_type = map ascii_lower (py_strip media_type)
      in if normalized_filename = [] then Inl (EvidenceUploadError ''filename cannot be empty'')
         else if 255 < length normalized_filename
           then Inl (EvidenceUploadError ''filename exceeds 255 characters'')
         else if normalized_media_type = [] \<or> 255 < length normalized_media_type
           then Inl (EvidenceUploadError ''media_type is invalid'')
         else if content = [] then Inl (EvidenceUploadError ''evidence file cannot be empty'')
         else if max_single_file_bytes < length content
           then Inl (EvidenceUploadError ''evidence file exceeds configured limit'')
         else Inr (normalized_filename, normalized_media_type))"

text \<open>The read-only snapshot taken before the slow work: the revision the upload is bound to.\<close>

definition evidence_snapshot ::
  "(revision_content \<Rightarrow> revision_content) \<Rightarrow> uuid \<Rightarrow> uuid \<Rightarrow> ws_db \<Rightarrow> workspace_error + revision_content" where
  "evidence_snapshot read_back w expected db =
     bindR (load_workspace_for_update db w) (\<lambda>workspace.
     if current_revision_id workspace \<noteq> Some expected then Inl StaleWorkspaceRevision
     else (case get_revision db expected w of
             None \<Rightarrow> Inl WorkspaceNotFound
           | Some revision \<Rightarrow> validate_content (read_back (rev_content revision))))"

section \<open>Extracted facts\<close>

record segment =
  segment_index :: nat
  segment_text :: string
  segment_locator :: "(string \<times> json) list"
  segment_method :: string

record vision_fact =
  vision_fact_id :: string
  vision_text :: string
  vision_locator :: "(string \<times> json) list"

text \<open>What extraction and vision returned; the boolean is the status \<open>vision_deferred\<close>.\<close>

datatype extraction = ExtractionFails | Extracted string "segment list" bool
datatype vision_outcome = VisionFails | VisionForbidden | VisionFacts "vision_fact list"

record extracted =
  ext_facts :: "fact_content list"
  ext_segments :: "extracted_segment list"
  ext_format :: "string option"
  ext_status :: evidence_state
  ext_failure_code :: "string option"

definition extracted_fact ::
  "uuid \<Rightarrow> string \<Rightarrow> string \<Rightarrow> (string \<times> json) list \<Rightarrow> workspace_error + fact_content" where
  "extracted_fact artifact key text loc =
     (let f = \<lparr>fact_key = key, fact_value = JStr text, fact_provenance = EXTRACTED,
        fact_evidence = [\<lparr>artifact_id = artifact, locator = loc\<rparr>], fact_state = FACT_ACTIVE\<rparr>
      in if valid_fact f then Inr f else Inl PValidationError)"

definition segment_key :: "uuid \<Rightarrow> segment \<Rightarrow> string" where
  "segment_key artifact s = ''evidence.'' @ uuid_str artifact @ ''.'' @ dec_nat (segment_index s)"

definition extract_evidence ::
  "bool \<Rightarrow> extraction \<Rightarrow> vision_outcome \<Rightarrow> uuid \<Rightarrow> workspace_error + extracted" where
  "extract_evidence vision_enabled outcome vision artifact =
     (case outcome of
        ExtractionFails \<Rightarrow> Inr \<lparr>ext_facts = [], ext_segments = [], ext_format = None,
          ext_status = EV_FAILED, ext_failure_code = Some ''evidence_extraction_failed''\<rparr>
      | Extracted fmt segments deferred \<Rightarrow>
          bindR (mapR (\<lambda>s. extracted_fact artifact (segment_key artifact s) (segment_text s)
            (segment_locator s)) segments) (\<lambda>fs.
          let done = \<lparr>ext_facts = fs, ext_segments = map (\<lambda>s. ExtractedSegment
                (segment_key artifact s) (segment_text s) (segment_locator s) (segment_method s)) segments,
                ext_format = Some fmt, ext_status = EV_PROCESSED, ext_failure_code = None\<rparr>
          in if \<not> deferred then Inr done
             else if \<not> vision_enabled then
               Inr (done\<lparr>ext_segments := ext_segments done @ [VisionDeferred ''vision_not_configured'']\<rparr>)
             else if fmt \<in> set [''png'', ''jpeg'', ''webp''] then
               (case vision of
                  VisionForbidden \<Rightarrow> Inl PValueError
                | VisionFails \<Rightarrow> Inr (done\<lparr>ext_status := EV_FAILED,
                    ext_failure_code := Some ''evidence_extraction_failed''\<rparr>)
                | VisionFacts vs \<Rightarrow>
                    bindR (mapR (\<lambda>v. extracted_fact artifact (vision_fact_id v) (vision_text v)
                      (vision_locator v)) vs) (\<lambda>vfs.
                    Inr (done\<lparr>ext_facts := fs @ vfs, ext_segments := ext_segments done @
                      map (\<lambda>v. ExtractedSegment (vision_fact_id v) (vision_text v) (vision_locator v)
                        ''vision'') vs\<rparr>)))
             else Inr (done\<lparr>ext_segments := ext_segments done @
               [VisionDeferred ''scanned_pdf_requires_page_rendering'']\<rparr>)))"

section \<open>Storing an upload\<close>

text \<open>
  \<open>fact_by_key = {item.key: item for item in current.facts}\<close>, one entry per new fact, and the facts
  in the order of their keys.
\<close>

definition merge_facts :: "fact_content list \<Rightarrow> revision_content \<Rightarrow> revision_content" where
  "merge_facts new c = c\<lparr>facts := sorted_values
     (fold (\<lambda>f d. dict_put (fact_key f) f d) new (dict_of fact_key (facts c)))\<rparr>"

fun restored_fact :: "uuid \<Rightarrow> extracted_segment \<Rightarrow> (workspace_error + fact_content) option" where
  "restored_fact artifact (ExtractedSegment key text loc method) = Some (extracted_fact artifact key text loc)"
| "restored_fact artifact (VisionDeferred reason) = None"

definition restored_facts :: "evidence_artifact \<Rightarrow> workspace_error + fact_content list" where
  "restored_facts a = mapR (\<lambda>r. r)
     (List.map_filter (restored_fact (evidence_artifact_id a)) (extracted_segments a))"

definition set_evidence :: "uuid \<Rightarrow> (evidence_artifact \<Rightarrow> evidence_artifact) \<Rightarrow> ws_db \<Rightarrow> ws_db" where
  "set_evidence i f db =
     db\<lparr>evidence := update_where (\<lambda>a. evidence_artifact_id a = i) f (evidence db)\<rparr>"

text \<open>A flushed artifact: a new key, and new content within its workspace.\<close>

definition add_evidence :: "evidence_artifact \<Rightarrow> ws_db \<Rightarrow> workspace_error + ws_db" where
  "add_evidence a db =
     (if evidence_row_ok a \<and> evidence_artifact_id a \<notin> set (map evidence_artifact_id (evidence db)) \<and>
         (ev_workspace_id a, ev_sha256 a) \<notin> set (map (\<lambda>b. (ev_workspace_id b, ev_sha256 b)) (evidence db))
      then Inr (db\<lparr>evidence := evidence db @ [a]\<rparr>) else Inl DatabaseRejects)"

text \<open>\<open>save_revision\<close> of the current facts and the new ones, when there are new ones.\<close>

definition save_with_facts ::
  "(string \<Rightarrow> string) \<Rightarrow> (revision_content \<Rightarrow> revision_content) \<Rightarrow> uuid \<Rightarrow> uuid \<Rightarrow> ssp_revision
     \<Rightarrow> fact_content list \<Rightarrow> string \<Rightarrow> instant \<Rightarrow> uuid \<Rightarrow> ws_db \<Rightarrow> workspace_error + ws_db" where
  "save_with_facts sha256 read_back new_rev w revision new_facts actor now expected db =
     (if new_facts = [] then Inr db
      else bindR (validate_content (read_back (rev_content revision))) (\<lambda>current.
        bindR (save_revision sha256 new_rev w (merge_facts new_facts current) actor now (Some expected) db)
          (\<lambda>(db', _). Inr db')))"

definition restore_evidence ::
  "(string \<Rightarrow> string) \<Rightarrow> (revision_content \<Rightarrow> revision_content) \<Rightarrow> uuid \<Rightarrow> uuid \<Rightarrow> ssp_revision
     \<Rightarrow> evidence_artifact \<Rightarrow> string \<Rightarrow> instant \<Rightarrow> uuid \<Rightarrow> ws_db \<Rightarrow> workspace_error + ws_db" where
  "restore_evidence sha256 read_back new_rev w revision duplicate actor now expected db =
     (let db1 = set_evidence (evidence_artifact_id duplicate)
        (\<lambda>a. a\<lparr>removed_at := None, removed_by := None\<rparr>) db
      in bindR (restored_facts duplicate) (\<lambda>fs.
         bindR (save_with_facts sha256 read_back new_rev w revision fs actor now expected db1) (\<lambda>db2.
         Inr (audit_workspace actor ''ssp_evidence_restored'' w
           [(''evidence_artifact_id'', JStr (uuid_str (evidence_artifact_id duplicate))),
            (''sha256'', JStr (ev_sha256 duplicate)), (''fact_count'', JInt (int (length fs)))] now db2))))"

definition store_evidence ::
  "(string \<Rightarrow> string) \<Rightarrow> (revision_content \<Rightarrow> revision_content) \<Rightarrow> uuid \<Rightarrow> uuid \<Rightarrow> ssp_revision
     \<Rightarrow> evidence_artifact \<Rightarrow> fact_content list \<Rightarrow> string \<Rightarrow> instant \<Rightarrow> uuid \<Rightarrow> ws_db \<Rightarrow> workspace_error + ws_db" where
  "store_evidence sha256 read_back new_rev w revision artifact fs actor now expected db =
     bindR (add_evidence artifact db) (\<lambda>db1.
     bindR (validate_content (read_back (rev_content revision))) (\<lambda>_.
     bindR (save_with_facts sha256 read_back new_rev w revision fs actor now expected db1) (\<lambda>db2.
     Inr (audit_workspace actor ''ssp_evidence_uploaded'' w
       [(''evidence_artifact_id'', JStr (uuid_str (evidence_artifact_id artifact))),
        (''sha256'', JStr (ev_sha256 artifact)),
        (''status'', JStr (if ev_status artifact = EV_FAILED then ''failed'' else ''processed'')),
        (''fact_count'', JInt (int (length fs)))] now db2))))"

text \<open>
  The transaction of \<open>ingest_workspace_evidence\<close>: \<open>expected\<close> is the revision of the snapshot,
  \<open>sha\<close>, \<open>storage_key\<close> and \<open>size\<close> what the blob store returned.
\<close>

definition ingest_workspace_evidence ::
  "(string \<Rightarrow> string) \<Rightarrow> (revision_content \<Rightarrow> revision_content) \<Rightarrow> uuid \<Rightarrow> uuid \<Rightarrow> uuid \<Rightarrow> uuid
     \<Rightarrow> string \<times> string \<Rightarrow> string \<times> string \<times> int \<Rightarrow> extracted \<Rightarrow> string \<Rightarrow> instant \<Rightarrow> ws_db
     \<Rightarrow> workspace_error + ws_db \<times> evidence_artifact" where
  "ingest_workspace_evidence sha256 read_back new_rev artifact w expected names stored ext actor now db =
     (let (filename, media_type) = names; (sha, storage_key, size_bytes) = stored in
      bindR (load_workspace_for_update db w) (\<lambda>workspace.
      if current_revision_id workspace \<noteq> Some expected then Inl StaleWorkspaceRevision
      else (case get_revision db expected w of
        None \<Rightarrow> Inl WorkspaceNotFound
      | Some revision \<Rightarrow>
         (case find (\<lambda>a. ev_workspace_id a = w \<and> ev_sha256 a = sha) (evidence db) of
            Some duplicate \<Rightarrow>
              if removed_at duplicate \<noteq> None then
                bindR (restore_evidence sha256 read_back new_rev w revision duplicate actor now expected db)
                  (\<lambda>db'. Inr (db', duplicate\<lparr>removed_at := None, removed_by := None\<rparr>))
              else Inr (db, duplicate)
          | None \<Rightarrow>
              let a = \<lparr>evidence_artifact_id = artifact, ev_workspace_id = w, ev_storage_key = storage_key,
                ev_size_bytes = size_bytes, ev_display_filename = filename, ev_media_type = media_type,
                ev_detected_format = ext_format ext, ev_sha256 = sha, ev_status = ext_status ext,
                extracted_segments = ext_segments ext, ev_uploaded_by = actor, ev_uploaded_at = now,
                ev_processed_at = Some now, ev_failure_code = ext_failure_code ext,
                removed_at = None, removed_by = None\<rparr>
              in bindR (store_evidence sha256 read_back new_rev w revision a (ext_facts ext) actor now expected db)
                   (\<lambda>db'. Inr (db', a))))))"

section \<open>Removing evidence\<close>

definition analysis_started :: "ws_db \<Rightarrow> uuid \<Rightarrow> revision_content \<Rightarrow> bool" where
  "analysis_started db w content =
     (list_ex (\<lambda>s. section_state s \<noteq> SEC_EMPTY) (sections content) \<or>
      list_ex (\<lambda>c. control_state c \<noteq> CTL_EMPTY) (controls content) \<or>
      questions content \<noteq> [] \<or>
      list_ex (\<lambda>p. patch_workspace_id p = w) (agent_patches db))"

definition without_artifact :: "uuid \<Rightarrow> evidence_link list \<Rightarrow> evidence_link list" where
  "without_artifact a links = filter (\<lambda>l. artifact_id l \<noteq> a) links"

definition retained_facts :: "uuid \<Rightarrow> fact_content list \<Rightarrow> fact_content list" where
  "retained_facts a fs =
     map (\<lambda>f. f\<lparr>fact_evidence := without_artifact a (fact_evidence f)\<rparr>)
       (filter (\<lambda>f. \<not> (without_artifact a (fact_evidence f) = [] \<and> fact_evidence f \<noteq> [])) fs)"

definition content_without :: "uuid \<Rightarrow> revision_content \<Rightarrow> revision_content" where
  "content_without a c = c\<lparr>facts := retained_facts a (facts c),
     sections := map (\<lambda>s. s\<lparr>section_evidence := without_artifact a (section_evidence s)\<rparr>) (sections c),
     controls := map (\<lambda>x. x\<lparr>control_evidence := without_artifact a (control_evidence x)\<rparr>) (controls c)\<rparr>"

definition remove_workspace_evidence ::
  "(string \<Rightarrow> string) \<Rightarrow> (revision_content \<Rightarrow> revision_content) \<Rightarrow> uuid \<Rightarrow> uuid \<Rightarrow> uuid \<Rightarrow> uuid
     \<Rightarrow> string \<Rightarrow> instant \<Rightarrow> ws_db \<Rightarrow> workspace_error + ws_db" where
  "remove_workspace_evidence sha256 read_back new_rev w artifact expected actor now db =
     bindR (load_workspace_for_update db w) (\<lambda>workspace.
     if current_revision_id workspace \<noteq> Some expected then Inl StaleWorkspaceRevision
     else (case get_revision db expected w of
       None \<Rightarrow> Inl WorkspaceNotFound
     | Some revision \<Rightarrow>
         bindR (validate_content (read_back (rev_content revision))) (\<lambda>content.
         if analysis_started db w content then Inl EvidenceRemoval
         else (case find (\<lambda>a. ev_workspace_id a = w \<and> evidence_artifact_id a = artifact \<and>
                 removed_at a = None) (evidence db) of
             None \<Rightarrow> Inl WorkspaceNotFound
           | Some a \<Rightarrow>
               bindR (save_revision sha256 new_rev w (content_without artifact content) actor now
                 (Some expected) db) (\<lambda>(db1, _).
               if \<not> evidence_row_ok (a\<lparr>removed_at := Some now, removed_by := Some actor\<rparr>)
               then Inl DatabaseRejects
               else
                 Inr (audit_workspace actor ''ssp_evidence_removed'' w
                   [(''evidence_artifact_id'', JStr (uuid_str artifact)), (''sha256'', JStr (ev_sha256 a))]
                   now (set_evidence artifact
                     (\<lambda>a. a\<lparr>removed_at := Some now, removed_by := Some actor\<rparr>) db1)))))))"

end
