(* ===== verification/WorkspaceInvariant.thy ===== *)
theory WorkspaceInvariant
  imports Evidence
begin

text \<open>
  The invariant of the workspace tables and its preservation by the operations of \<open>Workspace\<close>.
  The revisions of a workspace form a line: versions count from one, each revision has the one
  before it as parent, the workspace points to the last one, and only the last one can be working.
  The materialised rows are the parts of the stored document, an approval is bound to the digest of
  its revision, and the current revision cites only evidence that has not been removed.
\<close>

section \<open>Histories\<close>

definition history :: "ws_db \<Rightarrow> uuid \<Rightarrow> ssp_revision list" where
  "history db w = filter (\<lambda>r. rev_workspace_id r = w) (revisions db)"

definition linear_history :: "ssp_revision list \<Rightarrow> uuid option \<Rightarrow> bool" where
  "linear_history rs current =
     (map rev_version rs = map int [1..<Suc (length rs)] \<and>
      map parent_revision_id rs = butlast (None # map (Some \<circ> revision_id) rs) \<and>
      current = last (None # map (Some \<circ> revision_id) rs) \<and>
      list_all (\<lambda>r. rev_status r \<noteq> REV_WORKING) (butlast rs) \<and>
      (rs \<noteq> [] \<longrightarrow> rev_status (last rs) \<noteq> REV_SUPERSEDED))"

lemma linear_history_Nil [simp]: "linear_history [] current = (current = None)"
  by (auto simp: linear_history_def)

lemma fold_max_versions: "fold max (map int [1..<Suc n]) 0 = int n"
  by (induction n) auto

lemma linear_versions:
  assumes "linear_history rs current" and "r \<in> set rs"
  shows "1 \<le> rev_version r \<and> rev_version r \<le> int (length rs)"
proof -
  have "map rev_version rs = map int [1..<Suc (length rs)]"
    using assms(1) unfolding linear_history_def by blast
  then have "rev_version ` set rs = int ` set [1..<Suc (length rs)]" by (metis list.set_map)
  then have "rev_version r \<in> int ` set [1..<Suc (length rs)]" using assms(2) by blast
  then show ?thesis by auto
qed

lemma linear_last_version:
  assumes "linear_history rs current" and "rs \<noteq> []"
  shows "rev_version (last rs) = int (length rs)"
proof -
  have "map rev_version rs = map int [1..<Suc (length rs)]"
    using assms(1) unfolding linear_history_def by blast
  then have "last (map rev_version rs) = last (map int [1..<Suc (length rs)])" by (rule arg_cong)
  then show ?thesis using assms(2) by (simp add: last_map Suc_le_eq)
qed

lemma get_revision_history: "get_revision db i w = find (\<lambda>r. revision_id r = i) (history db w)"
  by (simp add: get_revision_def history_def find_filter)

lemma max_version_history:
  "linear_history (history db w) current \<Longrightarrow> max_version db w = int (length (history db w))"
  by (simp only: max_version_def history_def [symmetric] linear_history_def fold_max_versions)

text \<open>The current revision is the last one, and the row a query for it finds.\<close>

lemma linear_history_current:
  assumes "linear_history rs (Some i)"
  obtains ys x where "rs = ys @ [x]" and "revision_id x = i" and "rev_status x \<noteq> REV_SUPERSEDED"
  using assms by (cases rs rule: rev_cases) (auto simp: linear_history_def)

lemma linear_history_None: "linear_history rs None \<Longrightarrow> rs = []"
  by (cases rs rule: rev_cases) (auto simp: linear_history_def)

text \<open>What a new revision does to the line.\<close>

lemma linear_history_append:
  assumes lin: "linear_history (ys @ zs) current" and zs: "zs = [] \<and> ys = [] \<or> zs = [x]"
    and x': "x' = x \<or> x' = x\<lparr>rev_status := REV_SUPERSEDED\<rparr>" "rev_status x' \<noteq> REV_WORKING"
    and new: "rev_version r = int (length (ys @ zs)) + 1" "parent_revision_id r = current"
      "rev_status r = REV_WORKING"
  shows "linear_history (ys @ (if zs = [] then [] else [x']) @ [r]) (Some (revision_id r))"
proof (cases "zs = []")
  case True
  then show ?thesis using assms by (auto simp: linear_history_def)
next
  case False
  then have z: "zs = [x]" using zs by auto
  have same: "rev_version x' = rev_version x" "parent_revision_id x' = parent_revision_id x"
      "revision_id x' = revision_id x" using x'(1) by auto
  have "map parent_revision_id (ys @ [x]) = butlast (None # map (Some \<circ> revision_id) (ys @ [x]))"
    using lin z by (simp add: linear_history_def)
  moreover have "current = Some (revision_id x)" using lin z by (simp add: linear_history_def)
  ultimately show ?thesis
    using assms z same by (auto simp: linear_history_def butlast_append)
qed

lemma linear_history_status:
  assumes "linear_history (ys @ [x]) current" and "st \<noteq> REV_SUPERSEDED"
  shows "linear_history (ys @ [x\<lparr>rev_status := st\<rparr>]) current"
  using assms by (auto simp: linear_history_def butlast_append)

section \<open>The invariant\<close>

definition rows_of_revision :: "ws_db \<Rightarrow> ssp_revision \<Rightarrow> bool" where
  "rows_of_revision db r =
     (filter (\<lambda>x. fr_revision_id x = revision_id r) (fact_rows db) =
        map (make_fact_row (revision_id r)) (facts (rev_content r)) \<and>
      filter (\<lambda>x. sr_revision_id x = revision_id r) (section_rows db) =
        map (make_section_row (revision_id r)) (sections (rev_content r)) \<and>
      filter (\<lambda>x. cr_revision_id x = revision_id r) (control_rows db) =
        map (make_control_row (revision_id r)) (controls (rev_content r)) \<and>
      filter (\<lambda>x. qr_revision_id x = revision_id r) (question_rows db) =
        map (make_question_row (revision_id r)) (questions (rev_content r)) \<and>
      filter (\<lambda>x. lr_revision_id x = revision_id r) (link_rows db) =
        evidence_link_rows (revision_id r) (rev_content r))"

definition rows_of_known_revisions :: "ws_db \<Rightarrow> bool" where
  "rows_of_known_revisions db =
     (fr_revision_id ` set (fact_rows db) \<union> sr_revision_id ` set (section_rows db) \<union>
      cr_revision_id ` set (control_rows db) \<union> qr_revision_id ` set (question_rows db) \<union>
      lr_revision_id ` set (link_rows db) \<subseteq> revision_id ` set (revisions db))"

definition known_evidence_ids :: "ws_db \<Rightarrow> uuid \<Rightarrow> uuid set" where
  "known_evidence_ids db w =
     evidence_artifact_id ` {a \<in> set (evidence db). ev_workspace_id a = w}"

definition approval_bound :: "ws_db \<Rightarrow> approval_snapshot \<Rightarrow> bool" where
  "approval_bound db a =
     (\<exists>r \<in> set (revisions db). revision_id r = as_revision_id a \<and>
        rev_workspace_id r = as_workspace_id a \<and> rev_status r = REV_APPROVED \<and>
        content_sha256 r = revision_sha256 a)"

definition revision_ok :: "(string \<Rightarrow> string) \<Rightarrow> ws_db \<Rightarrow> ssp_revision \<Rightarrow> bool" where
  "revision_ok sha256 db r =
     (rev_workspace_id r \<in> workspace_id ` set (workspaces db) \<and>
      content_sha256 r = revision_content_sha256 sha256 (rev_content r) \<and>
      rows_of_revision db r \<and>
      content_evidence_ids (rev_content r) \<subseteq> known_evidence_ids db (rev_workspace_id r) \<and>
      (rev_status r = REV_APPROVED \<longrightarrow> revision_id r \<in> as_revision_id ` set (approvals db)))"

definition current_evidence_live :: "ws_db \<Rightarrow> uuid \<Rightarrow> uuid option \<Rightarrow> bool" where
  "current_evidence_live db w current =
     (\<forall>r \<in> set (history db w). Some (revision_id r) = current \<longrightarrow>
        content_evidence_ids (rev_content r) \<subseteq> active_evidence_ids db w)"

definition workspace_ok :: "ws_db \<Rightarrow> ssp_workspace \<Rightarrow> bool" where
  "workspace_ok db w =
     (workspace_row_ok w \<and> linear_history (history db (workspace_id w)) (current_revision_id w) \<and>
      current_evidence_live db (workspace_id w) (current_revision_id w))"

definition keys_ok :: "ws_db \<Rightarrow> bool" where
  "keys_ok db =
     (distinct (map workspace_id (workspaces db)) \<and> distinct (map ws_system_id (workspaces db)) \<and>
      distinct (map revision_id (revisions db)) \<and>
      distinct (map evidence_artifact_id (evidence db)) \<and>
      distinct (map as_revision_id (approvals db)))"

definition ws_inv :: "(string \<Rightarrow> string) \<Rightarrow> ws_db \<Rightarrow> bool" where
  "ws_inv sha256 db =
     (keys_ok db \<and> rows_of_known_revisions db \<and>
      (\<forall>w \<in> set (workspaces db). workspace_ok db w) \<and>
      (\<forall>r \<in> set (revisions db). revision_ok sha256 db r) \<and>
      (\<forall>a \<in> set (approvals db). approval_bound db a))"

lemma ws_invD:
  assumes "ws_inv sha256 db"
  shows "keys_ok db" and "rows_of_known_revisions db"
    and "w \<in> set (workspaces db) \<Longrightarrow> workspace_ok db w"
    and "r \<in> set (revisions db) \<Longrightarrow> revision_ok sha256 db r"
    and "a \<in> set (approvals db) \<Longrightarrow> approval_bound db a"
  using assms by (auto simp: ws_inv_def)

lemma get_workspaceD:
  "get_workspace db i = Some w \<Longrightarrow> w \<in> set (workspaces db) \<and> workspace_id w = i"
  unfolding get_workspace_def by (drule find_SomeD) simp

lemma load_workspace_Inr [result_simps]:
  "load_workspace_for_update db i = Inr w \<longleftrightarrow> get_workspace db i = Some w"
  by (auto simp: load_workspace_for_update_def split: option.splits)

lemma require_actor_Inr [result_simps]:
  "require_actor s = Inr actor \<longleftrightarrow> actor = py_strip s \<and> actor \<noteq> []"
  by (auto simp: require_actor_def Let_def)

lemma validate_content_Inr [result_simps]:
  "validate_content c = Inr d \<longleftrightarrow> d = c \<and> valid_content c"
  by (auto simp: validate_content_def)

lemma validate_references_Inr [result_simps]:
  "validate_evidence_references db w c = Inr u \<longleftrightarrow> content_evidence_ids c \<subseteq> active_evidence_ids db w"
  by (auto simp: validate_evidence_references_def Let_def)

lemma active_known: "active_evidence_ids db w \<subseteq> known_evidence_ids db w"
  by (auto simp: active_evidence_ids_def known_evidence_ids_def)

lemma distinct_history: "keys_ok db \<Longrightarrow> distinct (map revision_id (history db w))"
  by (auto simp: keys_ok_def history_def distinct_map_filter)

lemma in_history: "r \<in> set (history db w) \<longleftrightarrow> r \<in> set (revisions db) \<and> rev_workspace_id r = w"
  by (simp add: history_def)

text \<open>The current revision of a workspace always loads: no \<open>RevisionIntegrityError\<close>.\<close>

lemma current_revision_loads:
  assumes inv: "ws_inv sha256 db" and w: "w \<in> set (workspaces db)"
    and cur: "current_revision_id w = Some i"
  obtains ys x where "history db (workspace_id w) = ys @ [x]" and "revision_id x = i"
    and "rev_status x \<noteq> REV_SUPERSEDED" and "get_revision db i (workspace_id w) = Some x"
    and "x \<in> set (revisions db)" and "rev_workspace_id x = workspace_id w"
proof -
  have "linear_history (history db (workspace_id w)) (Some i)"
    using ws_invD(3) [OF inv w] cur by (simp add: workspace_ok_def)
  then obtain ys x where h: "history db (workspace_id w) = ys @ [x]"
    and x: "revision_id x = i" "rev_status x \<noteq> REV_SUPERSEDED" by (rule linear_history_current)
  have "find (\<lambda>r. revision_id r = revision_id x) (ys @ [x]) = Some x"
    using distinct_history [OF ws_invD(1) [OF inv], of "workspace_id w"] h
    by (intro find_unique) auto
  then have "get_revision db i (workspace_id w) = Some x"
    using h x(1) by (simp add: get_revision_history)
  moreover have "x \<in> set (history db (workspace_id w))" using h by simp
  then have "x \<in> set (revisions db)" "rev_workspace_id x = workspace_id w"
    by (simp_all add: history_def)
  ultimately show ?thesis using that [OF h x] by blast
qed

lemma load_current_total:
  assumes "ws_inv sha256 db" and "w \<in> set (workspaces db)"
  shows "load_current db w = Inr (if history db (workspace_id w) = [] then None
    else Some (last (history db (workspace_id w))))"
proof (cases "current_revision_id w")
  case None
  then have "history db (workspace_id w) = []"
    using ws_invD(3) [OF assms] by (auto simp: workspace_ok_def intro: linear_history_None)
  then show ?thesis using None by (simp add: load_current_def)
next
  case (Some i)
  show ?thesis by (rule current_revision_loads [OF assms Some]) (simp add: load_current_def Some)
qed

section \<open>Saving\<close>

text \<open>The tables after a successful save, written out.\<close>

definition materialized_db :: "uuid \<Rightarrow> revision_content \<Rightarrow> ws_db \<Rightarrow> ws_db" where
  "materialized_db rid c db = db\<lparr>fact_rows := fact_rows db @ map (make_fact_row rid) (facts c),
     section_rows := section_rows db @ map (make_section_row rid) (sections c),
     control_rows := control_rows db @ map (make_control_row rid) (controls c),
     question_rows := question_rows db @ map (make_question_row rid) (questions c),
     link_rows := link_rows db @ evidence_link_rows rid c\<rparr>"

definition saved_db :: "ssp_revision \<Rightarrow> ssp_revision option \<Rightarrow> ws_db \<Rightarrow> ws_db" where
  "saved_db r current db =
     set_workspace (rev_workspace_id r) (\<lambda>x. x\<lparr>current_revision_id := Some (revision_id r)\<rparr>)
       (materialized_db (revision_id r) (rev_content r)
         (let db0 = supersede current db in db0\<lparr>revisions := revisions db0 @ [r]\<rparr>))"

definition new_revision ::
  "(string \<Rightarrow> string) \<Rightarrow> uuid \<Rightarrow> uuid \<Rightarrow> revision_content \<Rightarrow> string \<Rightarrow> instant \<Rightarrow> uuid option \<Rightarrow> ws_db
     \<Rightarrow> ssp_revision" where
  "new_revision sha256 new_id w content actor now parent db =
     \<lparr>revision_id = new_id, rev_workspace_id = w, parent_revision_id = parent,
      rev_version = max_version db w + 1, rev_status = REV_WORKING,
      content_sha256 = revision_content_sha256 sha256 content, rev_content = content,
      rev_created_by = actor, rev_created_at = now\<rparr>"

lemma new_revision_simps [simp]:
  "revision_id (new_revision sha256 i w c actor now parent db) = i"
  "rev_workspace_id (new_revision sha256 i w c actor now parent db) = w"
  "parent_revision_id (new_revision sha256 i w c actor now parent db) = parent"
  "rev_version (new_revision sha256 i w c actor now parent db) = max_version db w + 1"
  "rev_status (new_revision sha256 i w c actor now parent db) = REV_WORKING"
  "content_sha256 (new_revision sha256 i w c actor now parent db) = revision_content_sha256 sha256 c"
  "rev_content (new_revision sha256 i w c actor now parent db) = c"
  by (simp_all add: new_revision_def)

lemma supersede_simps [simp]:
  "workspaces (supersede c db) = workspaces db" "evidence (supersede c db) = evidence db"
  "fact_rows (supersede c db) = fact_rows db" "section_rows (supersede c db) = section_rows db"
  "control_rows (supersede c db) = control_rows db" "question_rows (supersede c db) = question_rows db"
  "link_rows (supersede c db) = link_rows db" "approvals (supersede c db) = approvals db"
  "agent_patches (supersede c db) = agent_patches db" "audited (supersede c db) = audited db"
  "systems (supersede c db) = systems db" "profile_versions (supersede c db) = profile_versions db"
  "map revision_id (revisions (supersede c db)) = map revision_id (revisions db)"
  "revision_id ` set (revisions (supersede c db)) = revision_id ` set (revisions db)"
proof -
  show ids: "map revision_id (revisions (supersede c db)) = map revision_id (revisions db)"
    by (auto simp: supersede_def set_revision_status_def map_key_update_where split: option.splits)
  show "revision_id ` set (revisions (supersede c db)) = revision_id ` set (revisions db)"
    by (metis ids list.set_map)
qed (auto simp: supersede_def set_revision_status_def split: option.splits)

lemma materialized_ok_cong [simp]:
  "materialized_ok rid c (db\<lparr>revisions := rs\<rparr>) = materialized_ok rid c db"
  "materialized_ok rid c (supersede x db) = materialized_ok rid c db"
  by (auto simp: materialized_ok_def link_row_ok_def Let_def list_all_iff)

lemma save_Inr:
  assumes "save_revision sha256 new_id w content who now expected db = Inr (db', r)"
  obtains ws current where "get_workspace db w = Some ws" and "ws_status ws = WS_WORKING"
    and "current_revision_id ws = expected" and "load_current db ws = Inr current"
    and "content_evidence_ids content \<subseteq> active_evidence_ids db w"
    and "r = new_revision sha256 new_id w content (py_strip who) now expected db"
    and "revision_row_ok r" and "new_id \<notin> revision_id ` set (revisions db)"
    and "materialized_ok new_id content db" and "db' = saved_db r current db"
proof -
  obtain ws current db1 db2 where *: "get_workspace db w = Some ws" "ws_status ws = WS_WORKING"
      "current_revision_id ws = expected" "load_current db ws = Inr current"
      "content_evidence_ids content \<subseteq> active_evidence_ids db w"
      "r = new_revision sha256 new_id w content (py_strip who) now expected db"
      "add_revision r (supersede current db) = Inr db1"
      "materialize_revision new_id content db1 = Inr db2"
      "db' = set_workspace w (\<lambda>x. x\<lparr>current_revision_id := Some new_id\<rparr>) db2"
    using assms by (auto simp: save_revision_def new_revision_def result_simps Let_def split: if_splits)
  have "db1 = (supersede current db)\<lparr>revisions := revisions (supersede current db) @ [r]\<rparr>"
      "revision_row_ok r" "new_id \<notin> revision_id ` set (revisions db)"
    using *(6,7) by (auto simp: add_revision_def new_revision_def split: if_splits)
  with *(6,8,9) have "db' = saved_db r current db" "materialized_ok new_id content db"
    by (auto simp: materialize_revision_def saved_db_def materialized_db_def new_revision_def Let_def
      split: if_splits)
  with * \<open>revision_row_ok r\<close> \<open>new_id \<notin> revision_id ` set (revisions db)\<close> that show ?thesis by blast
qed

text \<open>How the parts of the tables change.\<close>

lemma saved_db_simps [simp]:
  "evidence (saved_db r c db) = evidence db" "approvals (saved_db r c db) = approvals db"
  "agent_patches (saved_db r c db) = agent_patches db" "audited (saved_db r c db) = audited db"
  "systems (saved_db r c db) = systems db" "profile_versions (saved_db r c db) = profile_versions db"
  "revisions (saved_db r c db) = revisions (supersede c db) @ [r]"
  "workspaces (saved_db r c db) = update_where (\<lambda>x. workspace_id x = rev_workspace_id r)
     (\<lambda>x. x\<lparr>current_revision_id := Some (revision_id r)\<rparr>) (workspaces db)"
  by (simp_all add: saved_db_def set_workspace_def materialized_db_def Let_def)

lemma evidence_ids_cong:
  "evidence db' = evidence db \<Longrightarrow> active_evidence_ids db' = active_evidence_ids db"
  "evidence db' = evidence db \<Longrightarrow> known_evidence_ids db' = known_evidence_ids db"
  by (auto simp: fun_eq_iff active_evidence_ids_def known_evidence_ids_def)

lemma set_supersede:
  "q \<in> set (revisions (supersede c db)) \<Longrightarrow>
    \<exists>p \<in> set (revisions db). q = p \<or>
      (q = p\<lparr>rev_status := REV_SUPERSEDED\<rparr> \<and> (\<exists>x. c = Some x \<and> revision_id x = revision_id p \<and> rev_status x = REV_WORKING))"
  by (auto simp: supersede_def set_revision_status_def set_update_where split: option.splits if_splits)

lemma history_supersede:
  "history (supersede c db) w =
    (case c of None \<Rightarrow> history db w
     | Some x \<Rightarrow> if rev_status x = REV_WORKING then update_where (\<lambda>r. revision_id r = revision_id x)
         (\<lambda>r. r\<lparr>rev_status := REV_SUPERSEDED\<rparr>) (history db w) else history db w)"
  by (auto simp: history_def supersede_def set_revision_status_def filter_update_where split: option.splits)

lemma evidence_link_rows_id: "x \<in> set (evidence_link_rows rid c) \<Longrightarrow> lr_revision_id x = rid"
  by (auto simp: evidence_link_rows_def make_link_rows_def)

lemma filter_link_rows [simp]:
  "filter (\<lambda>x. lr_revision_id x = i) (evidence_link_rows rid c) =
    (if i = rid then evidence_link_rows rid c else [])"
  by (auto simp: filter_id_conv filter_empty_conv dest: evidence_link_rows_id)

lemma row_revision_ids [simp]:
  "fr_revision_id (make_fact_row rid f) = rid" "sr_revision_id (make_section_row rid s) = rid"
  "cr_revision_id (make_control_row rid x) = rid" "qr_revision_id (make_question_row rid q) = rid"
  by (simp_all add: make_fact_row_def make_section_row_def make_control_row_def make_question_row_def)

lemma filter_map_same: "(\<And>x. P (f x)) \<Longrightarrow> filter P (map f xs) = map f xs"
  by (induction xs) auto

lemma filter_map_none: "(\<And>x. \<not> P (f x)) \<Longrightarrow> filter P (map f xs) = []"
  by (induction xs) auto

lemma rows_saved_other:
  "revision_id p \<noteq> revision_id r \<Longrightarrow> rows_of_revision (saved_db r c db) p = rows_of_revision db p"
  by (simp add: rows_of_revision_def saved_db_def set_workspace_def materialized_db_def Let_def
    filter_map_none)

lemma rows_saved_new:
  assumes "rows_of_known_revisions db" and "revision_id r \<notin> revision_id ` set (revisions db)"
  shows "rows_of_revision (saved_db r c db) r"
proof -
  have "filter (\<lambda>x. fr_revision_id x = revision_id r) (fact_rows db) = []"
      "filter (\<lambda>x. sr_revision_id x = revision_id r) (section_rows db) = []"
      "filter (\<lambda>x. cr_revision_id x = revision_id r) (control_rows db) = []"
      "filter (\<lambda>x. qr_revision_id x = revision_id r) (question_rows db) = []"
      "filter (\<lambda>x. lr_revision_id x = revision_id r) (link_rows db) = []"
    by (rule filter_key_none, use assms in \<open>unfold rows_of_known_revisions_def, blast\<close>)+
  then show ?thesis
    by (simp add: rows_of_revision_def saved_db_def set_workspace_def materialized_db_def Let_def
      filter_map_same)
qed

lemma rows_known_saved:
  "rows_of_known_revisions db \<Longrightarrow> rows_of_known_revisions (saved_db r c db)"
  by (auto dest: evidence_link_rows_id simp: rows_of_known_revisions_def saved_db_def set_workspace_def materialized_db_def Let_def
    image_Un image_subset_iff)

lemma history_supersede_own:
  assumes inv: "ws_inv sha256 db" and w: "w \<in> set (workspaces db)"
    and c: "load_current db w = Inr c"
  obtains (empty) "history db (workspace_id w) = []" "history (supersede c db) (workspace_id w) = []"
  | (last) ys x x' where "history db (workspace_id w) = ys @ [x]" "c = Some x"
      "history (supersede c db) (workspace_id w) = ys @ [x']"
      "x' = x \<or> x' = x\<lparr>rev_status := REV_SUPERSEDED\<rparr>" "rev_status x' \<noteq> REV_WORKING"
proof (cases "history db (workspace_id w)" rule: rev_cases)
  case Nil
  then show ?thesis using empty c load_current_total [OF inv w] by (simp add: history_supersede)
next
  case (snoc ys x)
  have cx: "c = Some x" using c load_current_total [OF inv w] snoc by simp
  have "distinct (map revision_id (ys @ [x]))"
    using distinct_history [OF ws_invD(1) [OF inv], of "workspace_id w"] snoc by simp
  then have "update_where (\<lambda>r. revision_id r = revision_id x) (\<lambda>r. r\<lparr>rev_status := REV_SUPERSEDED\<rparr>)
      (ys @ [x]) = ys @ [x\<lparr>rev_status := REV_SUPERSEDED\<rparr>]"
    by (rule update_where_split)
  then have h: "history (supersede c db) (workspace_id w) =
      ys @ [if rev_status x = REV_WORKING then x\<lparr>rev_status := REV_SUPERSEDED\<rparr> else x]"
    using snoc cx by (simp add: history_supersede)
  show ?thesis by (rule last [OF snoc cx h]) auto
qed

lemma history_supersede_other:
  assumes inv: "ws_inv sha256 db" and w: "w \<in> set (workspaces db)"
    and c: "load_current db w = Inr c" and v: "v \<noteq> workspace_id w"
  shows "history (supersede c db) v = history db v"
proof (cases c)
  case (Some x)
  have x: "x \<in> set (history db (workspace_id w))"
    using c load_current_total [OF inv w] Some by (auto split: if_splits)
  have "revision_id r \<noteq> revision_id x" if "r \<in> set (history db v)" for r
  proof
    assume "revision_id r = revision_id x"
    moreover have "distinct (map revision_id (revisions db))"
      using ws_invD(1) [OF inv] by (simp add: keys_ok_def)
    ultimately have "r = x"
      using that x by (intro distinct_key_unique [of revision_id "revisions db"]) (auto simp: history_def)
    then show False using that x v by (simp add: history_def)
  qed
  then show ?thesis using Some by (simp add: history_supersede update_where_id)
qed (simp add: history_supersede)

lemma history_saved:
  "history (saved_db r c db) w =
    history (supersede c db) w @ (if rev_workspace_id r = w then [r] else [])"
  by (simp add: history_def)

lemma saved_line:
  assumes inv: "ws_inv sha256 db" and w: "w \<in> set (workspaces db)"
    and c: "load_current db w = Inr c"
    and r: "r = new_revision sha256 new_id (workspace_id w) content actor now (current_revision_id w) db"
  shows "linear_history (history (saved_db r c db) (workspace_id w)) (Some new_id)"
proof -
  have lin: "linear_history (history db (workspace_id w)) (current_revision_id w)"
    using ws_invD(3) [OF inv w] by (simp add: workspace_ok_def)
  have new: "rev_version r = int (length (history db (workspace_id w))) + 1"
      "parent_revision_id r = current_revision_id w" "rev_status r = REV_WORKING" "revision_id r = new_id"
      "rev_workspace_id r = workspace_id w"
    using r max_version_history [OF lin] by (simp_all add: new_revision_def)
  show ?thesis
  proof (rule history_supersede_own [OF inv w c])
    assume "history db (workspace_id w) = []" "history (supersede c db) (workspace_id w) = []"
    then show ?thesis
      using linear_history_append [of "[]" "[]" "current_revision_id w" r "r\<lparr>rev_status := REV_SUPERSEDED\<rparr>" r]
        lin new by (simp add: history_saved)
  next
    fix ys x x'
    assume h: "history db (workspace_id w) = ys @ [x]"
      "history (supersede c db) (workspace_id w) = ys @ [x']"
      and x': "x' = x \<or> x' = x\<lparr>rev_status := REV_SUPERSEDED\<rparr>" "rev_status x' \<noteq> REV_WORKING"
    show ?thesis
      using linear_history_append [of ys "[x]" "current_revision_id w" x x' r] lin h x' new
      by (simp add: history_saved)
  qed
qed

lemma saved_db_inv:
  assumes inv: "ws_inv sha256 db" and ws: "get_workspace db w = Some ws"
    and c: "load_current db ws = Inr c"
    and refs: "content_evidence_ids content \<subseteq> active_evidence_ids db w"
    and r: "r = new_revision sha256 new_id w content actor now (current_revision_id ws) db"
    and fresh: "new_id \<notin> revision_id ` set (revisions db)"
  shows "ws_inv sha256 (saved_db r c db)"
proof -
  let ?db = "saved_db r c db"
  have w: "ws \<in> set (workspaces db)" "workspace_id ws = w" using get_workspaceD [OF ws] by auto
  have r_simps: "revision_id r = new_id" "rev_workspace_id r = w" "rev_content r = content"
      "rev_status r = REV_WORKING" "content_sha256 r = revision_content_sha256 sha256 content"
    using r by (simp_all add: new_revision_def)
  have wids: "map workspace_id (workspaces ?db) = map workspace_id (workspaces db)"
      "map ws_system_id (workspaces ?db) = map ws_system_id (workspaces db)"
    by (simp_all add: map_key_update_where)
  then have wset: "workspace_id ` set (workspaces ?db) = workspace_id ` set (workspaces db)"
    by (metis list.set_map)
  have keys: "keys_ok ?db"
    using ws_invD(1) [OF inv] fresh wids r_simps unfolding keys_ok_def by simp
  have ev: "active_evidence_ids ?db = active_evidence_ids db" "known_evidence_ids ?db = known_evidence_ids db"
    by (rule evidence_ids_cong, simp)+
  have rev_ok: "revision_ok sha256 ?db q" if "q \<in> set (revisions ?db)" for q
  proof (cases "q = r")
    case True
    then show ?thesis
      using rows_saved_new [of db r c] ws_invD(2) [OF inv] fresh r_simps refs active_known [of db w]
        imageI [OF w(1), of workspace_id] w(2)
      by (auto simp: revision_ok_def ev wset simp del: saved_db_simps(8))
  next
    case False
    with that have "q \<in> set (revisions (supersede c db))" by simp
    then obtain p where p: "p \<in> set (revisions db)" and q: "q = p \<or> q = p\<lparr>rev_status := REV_SUPERSEDED\<rparr>"
      using set_supersede by blast
    have "revision_id p \<noteq> revision_id r"
      using imageI [OF p, of revision_id] fresh r_simps(1) by metis
    then have "rows_of_revision ?db p = rows_of_revision db p" by (rule rows_saved_other)
    then show ?thesis
      using ws_invD(4) [OF inv p] q
      by (auto simp: revision_ok_def ev wset rows_of_revision_def simp del: saved_db_simps(8))
  qed
  have bound: "approval_bound ?db a" if a: "a \<in> set (approvals ?db)" for a
  proof -
    obtain p where p: "p \<in> set (revisions db)" "revision_id p = as_revision_id a"
        "rev_workspace_id p = as_workspace_id a" "rev_status p = REV_APPROVED"
        "content_sha256 p = revision_sha256 a"
      using ws_invD(5) [OF inv, of a] a by (auto simp: approval_bound_def)
    have "p \<in> set (revisions (supersede c db))"
    proof (cases c)
      case (Some x)
      have "x \<in> set (revisions db)"
        using c load_current_total [OF inv w(1)] Some last_in_set [of "history db (workspace_id ws)"]
        by (auto simp: in_history split: if_splits)
      moreover have "distinct (map revision_id (revisions db))"
        using ws_invD(1) [OF inv] by (simp add: keys_ok_def)
      ultimately have "rev_status x = REV_WORKING \<Longrightarrow> revision_id p \<noteq> revision_id x"
        using p distinct_key_unique by (metis revision_state.distinct(1))
      then show ?thesis
        using p(1) Some by (auto simp: supersede_def set_revision_status_def set_update_where)
    qed (use p(1) in \<open>simp add: supersede_def\<close>)
    then show ?thesis using p by (auto simp: approval_bound_def)
  qed
  have line: "workspace_ok ?db v'" if v': "v' \<in> set (workspaces ?db)" for v'
  proof -
    obtain v where v: "v \<in> set (workspaces db)"
      and v'v: "v' = (if workspace_id v = w then v\<lparr>current_revision_id := Some new_id\<rparr> else v)"
      using v' by (auto simp: set_update_where r_simps)
    have vok: "workspace_ok db v" by (rule ws_invD(3) [OF inv v])
    show ?thesis
    proof (cases "workspace_id v = w")
      case True
      have "v = ws" using True v w ws_invD(1) [OF inv] by (metis distinct_key_unique keys_ok_def)
      then have "linear_history (history ?db w) (Some new_id)"
        using saved_line [OF inv w(1) c, of r new_id content actor now] r w(2) by simp
      moreover have "q = r" if "q \<in> set (history ?db w)" "revision_id q = new_id" for q
        using that fresh r_simps by (auto simp: history_def dest: set_supersede)
      then have "current_evidence_live ?db w (Some new_id)"
        using refs r_simps by (auto simp: current_evidence_live_def ev)
      ultimately show ?thesis
        using vok True v'v by (simp add: workspace_ok_def workspace_row_ok_def)
    next
      case False
      then have "history ?db (workspace_id v) = history db (workspace_id v)"
        using history_supersede_other [OF inv w(1) c, of "workspace_id v"] w(2) r_simps
        by (simp add: history_saved)
      then show ?thesis using vok False v'v by (simp add: workspace_ok_def current_evidence_live_def ev)
    qed
  qed
  show ?thesis
    unfolding ws_inv_def using keys rows_known_saved [OF ws_invD(2) [OF inv]] line rev_ok bound by blast
qed

lemma save_revision_inv:
  assumes "ws_inv sha256 db" and "save_revision sha256 new_id w content who now expected db = Inr (db', r)"
  shows "ws_inv sha256 db'"
  using assms(2) by (rule save_Inr) (use saved_db_inv [OF assms(1)] in blast)

end
