(* ===== verification/WorkspaceSystem.thy ===== *)
theory WorkspaceSystem
  imports WorkspaceInvariant
begin

text \<open>
  The workspace tables as a transition system: every operation of \<open>Workspace\<close> and \<open>Evidence\<close> keeps
  the invariant, each in its own lemma, and the step relation that joins them with the pinning of another
  profile version and the changes other
  parts of the service make to the systems, profiles, patches and audit entries.
\<close>

section \<open>Tables the invariant does not read\<close>

lemma workspace_ok_cong:
  "revisions db' = revisions db \<Longrightarrow> evidence db' = evidence db \<Longrightarrow> workspace_ok db' w = workspace_ok db w"
  by (simp add: workspace_ok_def current_evidence_live_def history_def active_evidence_ids_def)

lemma ws_inv_cong:
  assumes "workspaces db' = workspaces db" "revisions db' = revisions db" "evidence db' = evidence db"
    "fact_rows db' = fact_rows db" "section_rows db' = section_rows db" "control_rows db' = control_rows db"
    "question_rows db' = question_rows db" "link_rows db' = link_rows db" "approvals db' = approvals db"
  shows "ws_inv sha256 db' = ws_inv sha256 db"
proof -
  have "workspace_ok db' w = workspace_ok db w" for w
    using assms(2,3) by (rule workspace_ok_cong)
  moreover have "revision_ok sha256 db' r = revision_ok sha256 db r" for r
    by (simp only: revision_ok_def rows_of_revision_def known_evidence_ids_def assms)
  moreover have "approval_bound db' a = approval_bound db a" for a
    by (simp only: approval_bound_def assms)
  moreover have "rows_of_known_revisions db' = rows_of_known_revisions db" "keys_ok db' = keys_ok db"
    by (simp_all only: rows_of_known_revisions_def keys_ok_def assms)
  ultimately show ?thesis by (simp only: ws_inv_def assms)
qed

lemma ws_inv_audit [simp]: "ws_inv sha256 (audit_workspace actor action w m now db) = ws_inv sha256 db"
  by (rule ws_inv_cong) (simp_all add: audit_workspace_def)

section \<open>Creating, archiving, approving\<close>

lemma create_workspace_inv:
  assumes inv: "ws_inv sha256 db" and run: "create_workspace i s p who now db = Inr (db', w)"
  shows "ws_inv sha256 db'"
proof -
  have w: "current_revision_id w = None" "workspace_row_ok w" "workspace_id w = i"
      "i \<notin> workspace_id ` set (workspaces db)" "ws_system_id w \<notin> ws_system_id ` set (workspaces db)"
    and db': "db' = db\<lparr>workspaces := workspaces db @ [w]\<rparr>"
    using run by (auto simp: create_workspace_def add_workspace_def result_simps Let_def
      split: option.splits if_splits)
  have "r \<notin> set (history db i)" for r
    using ws_invD(4) [OF inv, of r] w(4) by (auto simp: in_history revision_ok_def)
  then have none: "history db i = []" by (cases "history db i") auto
  have "workspace_ok db' v = workspace_ok db v" for v
    by (rule workspace_ok_cong) (simp_all add: db')
  moreover have "workspace_ok db w" using w none by (simp add: workspace_ok_def current_evidence_live_def)
  moreover have "revision_ok sha256 db' r" if "revision_ok sha256 db r" for r
    using that by (simp add: db' revision_ok_def rows_of_revision_def known_evidence_ids_def)
  moreover have "approval_bound db' a = approval_bound db a" for a
    by (simp add: db' approval_bound_def)
  ultimately show ?thesis
    using inv w unfolding ws_inv_def
    by (auto simp: db' keys_ok_def rows_of_known_revisions_def)
qed

lemma set_workspace_inv:
  assumes inv: "ws_inv sha256 db"
    and keys: "\<And>x. workspace_id (f x) = workspace_id x \<and> ws_system_id (f x) = ws_system_id x \<and>
      current_revision_id (f x) = current_revision_id x"
    and ok: "\<And>x. workspace_row_ok x \<Longrightarrow> workspace_row_ok (f x)"
  shows "ws_inv sha256 (set_workspace i f db)"
proof -
  let ?db = "set_workspace i f db"
  have ids: "map workspace_id (workspaces ?db) = map workspace_id (workspaces db)"
      "map ws_system_id (workspaces ?db) = map ws_system_id (workspaces db)"
    using keys by (simp_all add: set_workspace_def map_key_update_where)
  then have idset: "workspace_id ` set (workspaces ?db) = workspace_id ` set (workspaces db)"
    by (metis list.set_map)
  have "workspace_ok ?db v" if v: "v \<in> set (workspaces ?db)" for v
  proof -
    obtain u where u: "u \<in> set (workspaces db)" "v = u \<or> v = f u"
      using v by (auto simp: set_workspace_def set_update_where)
    then have "workspace_ok db v"
      using ws_invD(3) [OF inv u(1)] keys ok by (auto simp: workspace_ok_def)
    moreover have "workspace_ok ?db v = workspace_ok db v"
      by (rule workspace_ok_cong) (simp_all add: set_workspace_def)
    ultimately show ?thesis by simp
  qed
  moreover have "revision_ok sha256 ?db r" if "revision_ok sha256 db r" for r
    using that idset by (simp add: revision_ok_def rows_of_revision_def known_evidence_ids_def)
      (simp add: set_workspace_def)
  moreover have "keys_ok ?db" using ws_invD(1) [OF inv] ids by (simp add: keys_ok_def) (simp add: set_workspace_def)
  moreover have "rows_of_known_revisions ?db" "approval_bound ?db a = approval_bound db a" for a
    using ws_invD(2) [OF inv] by (simp_all add: set_workspace_def rows_of_known_revisions_def approval_bound_def)
  ultimately show ?thesis using inv unfolding ws_inv_def by (simp add: set_workspace_def)
qed

lemma archive_workspace_inv:
  assumes "ws_inv sha256 db" and "archive_workspace i now db = Inr db'"
  shows "ws_inv sha256 db'"
proof -
  have "db' = set_workspace i (\<lambda>x. x\<lparr>ws_status := WS_ARCHIVED, archived_at := Some now\<rparr>) db"
    using assms(2) by (auto simp: archive_workspace_def result_simps split: if_splits)
  then show ?thesis using assms(1) by (auto simp: workspace_row_ok_def intro: set_workspace_inv)
qed

lemma pin_profile_inv:
  "ws_inv sha256 db \<Longrightarrow> ws_inv sha256 (set_workspace w (\<lambda>x. x\<lparr>ws_profile_version_id := p\<rparr>) db)"
  by (rule set_workspace_inv) (simp_all add: workspace_row_ok_def)

lemma approve_Inr:
  assumes "approve_current_revision sha256 read_back new_id w rid who now db = Inr (db', a)"
  obtains ws r where "get_workspace db w = Some ws" and "ws_status ws = WS_WORKING"
    and "current_revision_id ws = Some rid" and "get_revision db rid w = Some r"
    and "rev_status r = REV_WORKING" and "valid_content (read_back (rev_content r))"
    and "revision_content_sha256 sha256 (read_back (rev_content r)) = content_sha256 r"
    and "a = \<lparr>approval_snapshot_id = new_id, as_workspace_id = w, as_revision_id = rid,
      revision_sha256 = content_sha256 r, approved_by = py_strip who, approved_at = now\<rparr>"
    and "rid \<notin> as_revision_id ` set (approvals db)"
    and "db' = set_revision_status rid REV_APPROVED db\<lparr>approvals := approvals db @ [a]\<rparr>"
    and "py_strip who \<noteq> []"
  using assms
  by (auto simp: approve_current_revision_def add_approval_def set_revision_status_def result_simps
    Let_def split: if_splits option.splits)

lemma get_revisionD:
  "get_revision db i w = Some r \<Longrightarrow> r \<in> set (revisions db) \<and> revision_id r = i \<and> rev_workspace_id r = w"
  unfolding get_revision_def by (drule find_SomeD) simp

lemma approve_inv:
  assumes inv: "ws_inv sha256 db"
    and run: "approve_current_revision sha256 read_back new_id w rid who now db = Inr (db', a)"
  shows "ws_inv sha256 db'"
  using run
proof (rule approve_Inr)
  fix ws r
  assume ws: "get_workspace db w = Some ws" and cur: "current_revision_id ws = Some rid"
    and r: "get_revision db rid w = Some r"
    and a: "a = \<lparr>approval_snapshot_id = new_id, as_workspace_id = w, as_revision_id = rid,
      revision_sha256 = content_sha256 r, approved_by = py_strip who, approved_at = now\<rparr>"
    and fresh: "rid \<notin> as_revision_id ` set (approvals db)"
    and db': "db' = set_revision_status rid REV_APPROVED db\<lparr>approvals := approvals db @ [a]\<rparr>"
  let ?f = "\<lambda>r. r\<lparr>rev_status := REV_APPROVED\<rparr>"
  note w = get_workspaceD [OF ws] note rD = get_revisionD [OF r]
  have revs: "revisions db' = update_where (\<lambda>r. revision_id r = rid) ?f (revisions db)"
    by (simp add: db' set_revision_status_def)
  have rids: "map revision_id (revisions db') = map revision_id (revisions db)"
    by (simp add: revs map_key_update_where)
  then have ridset: "revision_id ` set (revisions db') = revision_id ` set (revisions db)"
    by (metis list.set_map)
  have rest: "workspaces db' = workspaces db" "evidence db' = evidence db" "approvals db' = approvals db @ [a]"
      "fact_rows db' = fact_rows db" "section_rows db' = section_rows db" "control_rows db' = control_rows db"
      "question_rows db' = question_rows db" "link_rows db' = link_rows db"
    by (simp_all add: db' set_revision_status_def)
  have hist: "history db' v = update_where (\<lambda>r. revision_id r = rid) ?f (history db v)" for v
    by (simp add: history_def revs filter_update_where)
  have ev: "active_evidence_ids db' = active_evidence_ids db" "known_evidence_ids db' = known_evidence_ids db"
    by (rule evidence_ids_cong, rule rest)+
  obtain ys where ys: "history db w = ys @ [r]"
    using current_revision_loads [OF inv, of ws rid] w cur r by (metis option.inject)
  have dist: "distinct (map revision_id (revisions db))" using ws_invD(1) [OF inv] by (simp add: keys_ok_def)
  have ok_w: "workspace_ok db' v" if v: "v \<in> set (workspaces db)" for v
  proof -
    note vok = ws_invD(3) [OF inv v]
    have "linear_history (history db' (workspace_id v)) (current_revision_id v)"
    proof (cases "workspace_id v = w")
      case True
      have "distinct (map revision_id (ys @ [r]))"
        using distinct_history [OF ws_invD(1) [OF inv], of w] ys by simp
      then have "update_where (\<lambda>q. revision_id q = revision_id r) ?f (ys @ [r]) = ys @ [?f r]"
        by (rule update_where_split)
      then have "history db' w = ys @ [?f r]" using hist ys rD by simp
      then show ?thesis
        using vok True ys linear_history_status [of ys r _ REV_APPROVED] by (simp add: workspace_ok_def)
    next
      case False
      have "revision_id q \<noteq> rid" if "q \<in> set (history db (workspace_id v))" for q
        using that False rD distinct_key_unique [OF dist, of q r] by (auto simp: in_history)
      then show ?thesis using vok by (simp add: hist update_where_id workspace_ok_def)
    qed
    moreover have "content_evidence_ids (rev_content q) \<subseteq> active_evidence_ids db (workspace_id v)"
      if q: "q \<in> set (history db' (workspace_id v))" "Some (revision_id q) = current_revision_id v" for q
    proof -
      obtain p where "p \<in> set (history db (workspace_id v))" "revision_id q = revision_id p"
          "rev_content q = rev_content p"
        using q(1) by (auto simp: hist set_update_where)
      then show ?thesis using vok q(2) by (simp add: workspace_ok_def current_evidence_live_def)
    qed
    ultimately show ?thesis using vok by (simp add: workspace_ok_def current_evidence_live_def ev)
  qed
  have ok_r: "revision_ok sha256 db' q" if q: "q \<in> set (revisions db')" for q
  proof -
    obtain p where p: "p \<in> set (revisions db)" "q = (if revision_id p = rid then ?f p else p)"
      using q by (auto simp: revs set_update_where)
    show ?thesis
      using ws_invD(4) [OF inv p(1)] p(2)
      by (auto simp: revision_ok_def rest ev rows_of_revision_def a)
  qed
  have ok_a: "approval_bound db' b" if b: "b \<in> set (approvals db')" for b
  proof (cases "b = a")
    case True
    have "?f r \<in> set (revisions db')" unfolding revs using rD by (intro in_update_where(2)) auto
    then show ?thesis using True a rD unfolding approval_bound_def by (intro bexI [of _ "?f r"]) auto
  next
    case False
    then have "b \<in> set (approvals db)" using b by (simp add: rest)
    then obtain p where p: "p \<in> set (revisions db)" "revision_id p = as_revision_id b"
        "rev_workspace_id p = as_workspace_id b" "rev_status p = REV_APPROVED" "content_sha256 p = revision_sha256 b"
      using ws_invD(5) [OF inv] by (auto simp: approval_bound_def)
    moreover have "revision_id p \<noteq> rid" using fresh \<open>b \<in> set (approvals db)\<close> p(2) by auto
    ultimately show ?thesis unfolding approval_bound_def revs
      by (intro bexI [of _ p] in_update_where(1)) auto
  qed
  have "keys_ok db'"
    using ws_invD(1) [OF inv] fresh by (simp add: keys_ok_def rids rest a)
  moreover have "rows_of_known_revisions db'"
    using ws_invD(2) [OF inv] by (simp add: rows_of_known_revisions_def rest ridset)
  ultimately show ?thesis unfolding ws_inv_def using ok_w ok_r ok_a rest(1) by auto
qed

section \<open>Evidence\<close>

lemma evidence_change_inv:
  assumes inv: "ws_inv sha256 db" and db': "db' = db\<lparr>evidence := E\<rparr>"
    and "distinct (map evidence_artifact_id E)"
    and known: "\<And>w. known_evidence_ids db w \<subseteq> known_evidence_ids db' w"
    and live: "\<And>w. w \<in> set (workspaces db) \<Longrightarrow>
      current_evidence_live db' (workspace_id w) (current_revision_id w)"
  shows "ws_inv sha256 db'"
proof -
  have hist: "history db' w = history db w" for w by (simp add: history_def db')
  have "workspace_ok db' w" if w: "w \<in> set (workspaces db)" for w
    using ws_invD(3) [OF inv w] live [OF w] by (simp add: workspace_ok_def hist)
  moreover have "revision_ok sha256 db' r" if r: "r \<in> set (revisions db)" for r
  proof -
    have "content_evidence_ids (rev_content r) \<subseteq> known_evidence_ids db' (rev_workspace_id r)"
      using ws_invD(4) [OF inv r] known by (meson order_trans revision_ok_def)
    then show ?thesis
      using ws_invD(4) [OF inv r] by (simp add: revision_ok_def rows_of_revision_def) (simp add: db')
  qed
  moreover have "approval_bound db' a = approval_bound db a" for a
    by (simp add: approval_bound_def db')
  ultimately show ?thesis
    using inv assms(3) unfolding ws_inv_def
    by (simp add: db' keys_ok_def rows_of_known_revisions_def)
qed

lemma live_mono:
  assumes "current_evidence_live db w c" and "history db' w = history db w"
    and "active_evidence_ids db w \<subseteq> active_evidence_ids db' w"
  shows "current_evidence_live db' w c"
  using assms by (auto simp: current_evidence_live_def)

lemma evidence_grow_inv:
  assumes inv: "ws_inv sha256 db" and db': "db' = db\<lparr>evidence := E\<rparr>"
    and "distinct (map evidence_artifact_id E)"
    and "\<And>w. known_evidence_ids db w \<subseteq> known_evidence_ids db' w"
    and "\<And>w. active_evidence_ids db w \<subseteq> active_evidence_ids db' w"
  shows "ws_inv sha256 db'"
proof (rule evidence_change_inv [OF inv db' assms(3,4)])
  fix w assume "w \<in> set (workspaces db)"
  then show "current_evidence_live db' (workspace_id w) (current_revision_id w)"
    using ws_invD(3) [OF inv] live_mono [OF _ _ assms(5)]
    by (simp add: workspace_ok_def history_def db')
qed

lemma set_evidence_ids:
  assumes f: "\<And>a. evidence_artifact_id (f a) = evidence_artifact_id a"
    "\<And>a. ev_workspace_id (f a) = ev_workspace_id a"
  shows "map evidence_artifact_id (evidence (set_evidence i f db)) = map evidence_artifact_id (evidence db)"
    and "known_evidence_ids (set_evidence i f db) w = known_evidence_ids db w"
proof -
  show "map evidence_artifact_id (evidence (set_evidence i f db)) = map evidence_artifact_id (evidence db)"
    by (simp add: set_evidence_def map_key_update_where f)
  have *: "known_evidence_ids db w = set (map evidence_artifact_id
      (filter (\<lambda>a. ev_workspace_id a = w) (evidence db)))" for db
    by (auto simp: known_evidence_ids_def)
  show "known_evidence_ids (set_evidence i f db) w = known_evidence_ids db w"
    unfolding * by (simp add: set_evidence_def filter_update_where f map_key_update_where del: set_map)
qed

lemma active_evidence_I:
  "a \<in> set (evidence db) \<Longrightarrow> removed_at a = None \<Longrightarrow>
    evidence_artifact_id a \<in> active_evidence_ids db (ev_workspace_id a)"
  by (auto simp: active_evidence_ids_def)

lemma restore_active:
  "active_evidence_ids db w \<subseteq>
    active_evidence_ids (set_evidence i (\<lambda>a. a\<lparr>removed_at := None, removed_by := None\<rparr>) db) w"
proof
  fix e assume "e \<in> active_evidence_ids db w"
  then obtain a where a: "a \<in> set (evidence db)" "ev_workspace_id a = w" "removed_at a = None"
      "evidence_artifact_id a = e"
    by (auto simp: active_evidence_ids_def)
  let ?f = "\<lambda>a. a\<lparr>removed_at := None, removed_by := None\<rparr>"
  have "(if e = i then ?f a else a) \<in> set (update_where (\<lambda>a. evidence_artifact_id a = i) ?f (evidence db))"
    using a in_update_where [OF a(1), of "\<lambda>a. evidence_artifact_id a = i" ?f] by simp
  then show "e \<in> active_evidence_ids (set_evidence i ?f db) w"
    using a active_evidence_I [of "if e = i then ?f a else a" "set_evidence i ?f db"]
    by (cases "e = i") (auto simp: set_evidence_def)
qed

lemma restored_inv:
  assumes inv: "ws_inv sha256 db"
  shows "ws_inv sha256 (set_evidence i (\<lambda>a. a\<lparr>removed_at := None, removed_by := None\<rparr>) db)"
proof (rule evidence_grow_inv [OF inv])
  show "distinct (map evidence_artifact_id
      (evidence (set_evidence i (\<lambda>a. a\<lparr>removed_at := None, removed_by := None\<rparr>) db)))"
    using ws_invD(1) [OF inv] by (simp add: set_evidence_ids keys_ok_def)
qed (simp_all add: set_evidence_ids restore_active, simp add: set_evidence_def)

lemma save_with_facts_inv:
  "save_with_facts sha256 rb i w r fs who now expected db = Inr db' \<Longrightarrow> ws_inv sha256 db \<Longrightarrow> ws_inv sha256 db'"
  by (auto simp: save_with_facts_def result_simps split: if_splits intro: save_revision_inv)

lemma set_evidence_revisions: "revisions (set_evidence i f db) = revisions db"
  by (simp add: set_evidence_def)

lemma ingest_cases:
  assumes "ingest_workspace_evidence sha256 rb new_rev art w expected names stored ext who now db = Inr (db', a)"
  obtains (same) "db' = db"
  | (restore) r d where "restore_evidence sha256 rb new_rev w r d who now expected db = Inr db'"
  | (new) r d fs where "store_evidence sha256 rb new_rev w r d fs who now expected db = Inr db'"
  using assms
  by (cases stored; cases names)
    (auto simp: ingest_workspace_evidence_def result_simps Let_def split: option.splits if_splits)

lemma added_inv:
  assumes inv: "ws_inv sha256 db" and add: "add_evidence d db = Inr db1"
  shows "ws_inv sha256 db1"
proof (rule evidence_grow_inv [OF inv])
  show "db1 = db\<lparr>evidence := evidence db @ [d]\<rparr>" and "distinct (map evidence_artifact_id (evidence db @ [d]))"
    using add ws_invD(1) [OF inv] by (auto simp: add_evidence_def keys_ok_def split: if_splits)
  then show "known_evidence_ids db v \<subseteq> known_evidence_ids db1 v"
      "active_evidence_ids db v \<subseteq> active_evidence_ids db1 v" for v
    by (auto simp: known_evidence_ids_def active_evidence_ids_def)
qed

lemma ingest_inv:
  assumes inv: "ws_inv sha256 db"
    and run: "ingest_workspace_evidence sha256 rb new_rev art w expected names stored ext who now db = Inr (db', a)"
  shows "ws_inv sha256 db'"
  using run
proof (cases rule: ingest_cases)
  case restore
  then show ?thesis
    using restored_inv [OF inv] save_with_facts_inv
    by (fastforce simp: restore_evidence_def result_simps Let_def)
next
  case (new r d fs)
  then obtain db1 db2 where "add_evidence d db = Inr db1"
      "save_with_facts sha256 rb new_rev w r fs who now expected db1 = Inr db2"
      "ws_inv sha256 db' = ws_inv sha256 db2"
    by (auto simp: store_evidence_def result_simps Let_def)
  then show ?thesis using save_with_facts_inv added_inv [OF inv] by blast
qed (use inv in simp)

lemma without_artifact_ids: "artifact \<notin> content_evidence_ids (content_without artifact c)"
  by (auto simp: content_evidence_ids_def content_without_def retained_facts_def without_artifact_def)

lemma remove_Inr:
  assumes "remove_workspace_evidence sha256 rb new_rev w artifact expected who now db = Inr db'"
  obtains ws r a db1 q where "get_workspace db w = Some ws" and "current_revision_id ws = Some expected"
    and "get_revision db expected w = Some r" and "valid_content (rb (rev_content r))"
    and "\<not> analysis_started db w (rb (rev_content r))"
    and "a \<in> set (evidence db)" and "ev_workspace_id a = w" and "evidence_artifact_id a = artifact"
    and "removed_at a = None"
    and "save_revision sha256 new_rev w (content_without artifact (rb (rev_content r))) who now
      (Some expected) db = Inr (db1, q)"
    and "db' = audit_workspace who ''ssp_evidence_removed'' w
      [(''evidence_artifact_id'', JStr (uuid_str artifact)), (''sha256'', JStr (ev_sha256 a))] now
      (set_evidence artifact (\<lambda>a. a\<lparr>removed_at := Some now, removed_by := Some who\<rparr>) db1)"
  using assms
  by (auto simp: remove_workspace_evidence_def result_simps split: option.splits if_splits dest!: find_SomeD)

lemma remove_keeps_active:
  assumes "distinct (map evidence_artifact_id (evidence db))" and "a \<in> set (evidence db)"
    and e: "e \<in> active_evidence_ids db w" "e \<noteq> artifact \<or> w \<noteq> ev_workspace_id a"
    and "evidence_artifact_id a = artifact"
  shows "e \<in> active_evidence_ids (set_evidence artifact
    (\<lambda>a. a\<lparr>removed_at := Some now, removed_by := Some who\<rparr>) db) w"
proof -
  obtain b where b: "b \<in> set (evidence db)" "ev_workspace_id b = w" "removed_at b = None"
      "evidence_artifact_id b = e"
    using e(1) by (auto simp: active_evidence_ids_def)
  have "e \<noteq> artifact"
    using e(2) b assms(2,5) distinct_key_unique [OF assms(1), of b a] by auto
  then show ?thesis
    using b in_update_where(1) [OF b(1)] active_evidence_I [of b "set_evidence artifact
      (\<lambda>a. a\<lparr>removed_at := Some now, removed_by := Some who\<rparr>) db"]
    by (simp add: set_evidence_def)
qed

lemma remove_inv:
  assumes inv: "ws_inv sha256 db"
    and run: "remove_workspace_evidence sha256 rb new_rev w artifact expected who now db = Inr db'"
  shows "ws_inv sha256 db'"
  using run
proof (rule remove_Inr)
  fix ws r a db1 q
  let ?f = "\<lambda>a. a\<lparr>removed_at := Some now, removed_by := Some who\<rparr>"
  let ?c = "content_without artifact (rb (rev_content r))"
  assume a: "a \<in> set (evidence db)" "ev_workspace_id a = w" "evidence_artifact_id a = artifact"
    and save: "save_revision sha256 new_rev w ?c who now (Some expected) db = Inr (db1, q)"
    and db': "db' = audit_workspace who ''ssp_evidence_removed'' w
      [(''evidence_artifact_id'', JStr (uuid_str artifact)), (''sha256'', JStr (ev_sha256 a))] now
      (set_evidence artifact ?f db1)"
  have inv1: "ws_inv sha256 db1" by (rule save_revision_inv [OF inv save])
  obtain ws' cur' where q': "q = new_revision sha256 new_rev w ?c (py_strip who) now (Some expected) db"
    and db1: "db1 = saved_db q cur' db"
    by (rule save_Inr [OF save])
  have ev1: "evidence db1 = evidence db" and q: "q \<in> set (revisions db1)" "revision_id q = new_rev"
      "rev_content q = ?c" "rev_workspace_id q = w"
    unfolding db1 by simp_all (simp_all only: q' new_revision_simps)
  have ws1: "workspaces db1 = update_where (\<lambda>x. workspace_id x = w)
      (\<lambda>x. x\<lparr>current_revision_id := Some new_rev\<rparr>) (workspaces db)"
    unfolding db1 saved_db_simps q(2,4) ..
  have cur: "current_revision_id v = Some new_rev" if v: "v \<in> set (workspaces db1)" "workspace_id v = w" for v
  proof -
    obtain u where "v = (if workspace_id u = w then u\<lparr>current_revision_id := Some new_rev\<rparr> else u)"
      using v(1) unfolding ws1 set_update_where by blast
    then show ?thesis using v(2) by (cases "workspace_id u = w") simp_all
  qed
  have dist: "distinct (map evidence_artifact_id (evidence db1))" "distinct (map revision_id (revisions db1))"
    using ws_invD(1) [OF inv1] by (simp_all add: keys_ok_def)
  have "ws_inv sha256 (set_evidence artifact ?f db1)"
  proof (rule evidence_change_inv [OF inv1])
    show "distinct (map evidence_artifact_id (evidence (set_evidence artifact ?f db1)))"
      using dist(1) by (simp add: set_evidence_ids)
    fix v assume v: "v \<in> set (workspaces db1)"
    have "e \<in> active_evidence_ids (set_evidence artifact ?f db1) (workspace_id v)"
      if p: "p \<in> set (history db1 (workspace_id v))" "Some (revision_id p) = current_revision_id v"
        and e: "e \<in> content_evidence_ids (rev_content p)" for p e
    proof (rule remove_keeps_active [OF dist(1) _ _ _ a(3)])
      show "a \<in> set (evidence db1)" using a(1) ev1 by simp
      show "e \<in> active_evidence_ids db1 (workspace_id v)"
        using ws_invD(3) [OF inv1 v] p e by (auto simp: workspace_ok_def current_evidence_live_def)
      show "e \<noteq> artifact \<or> workspace_id v \<noteq> ev_workspace_id a"
      proof (cases "workspace_id v = w")
        case True
        then have "p = q"
          using p q cur [OF v True] distinct_key_unique [OF dist(2), of p q] by (auto simp: in_history)
        then show ?thesis using e q(3) without_artifact_ids by metis
      qed (use a(2) in simp)
    qed
    then show "current_evidence_live (set_evidence artifact ?f db1) (workspace_id v) (current_revision_id v)"
      unfolding current_evidence_live_def by (auto simp: in_history set_evidence_def)
  qed (simp_all add: set_evidence_ids, simp add: set_evidence_def)
  then show ?thesis by (simp add: db')
qed

section \<open>The system\<close>

text \<open>
  One committed transaction. \<open>step_other\<close> is whatever the rest of the service commits to the
  systems, the profile versions, the patches and the audit entries.
\<close>

inductive ws_step ::
  "(string \<Rightarrow> string) \<Rightarrow> (revision_content \<Rightarrow> revision_content) \<Rightarrow> ws_db \<Rightarrow> ws_db \<Rightarrow> bool"
  for sha256 read_back where
  step_create: "create_workspace i s p who now db = Inr (db', w) \<Longrightarrow> ws_step sha256 read_back db db'"
| step_archive: "archive_workspace w now db = Inr db' \<Longrightarrow> ws_step sha256 read_back db db'"
| step_save: "save_revision sha256 i w c who now expected db = Inr (db', r) \<Longrightarrow> ws_step sha256 read_back db db'"
| step_approve: "approve_current_revision sha256 read_back i w rid who now db = Inr (db', a) \<Longrightarrow>
    ws_step sha256 read_back db db'"
| step_ingest: "ingest_workspace_evidence sha256 read_back i art w expected names stored ext who now db =
    Inr (db', d) \<Longrightarrow> ws_step sha256 read_back db db'"
| step_remove: "remove_workspace_evidence sha256 read_back i w art expected who now db = Inr db' \<Longrightarrow>
    ws_step sha256 read_back db db'"
| step_profile: "ws_step sha256 read_back db (set_workspace w (\<lambda>x. x\<lparr>ws_profile_version_id := p\<rparr>) db)"
| step_other: "ws_step sha256 read_back db (db\<lparr>systems := ss, profile_versions := ps,
    agent_patches := patches, audited := entries\<rparr>)"

definition ws_start :: "ws_db \<Rightarrow> bool" where
  "ws_start db = (workspaces db = [] \<and> revisions db = [] \<and> evidence db = [] \<and> fact_rows db = [] \<and>
     section_rows db = [] \<and> control_rows db = [] \<and> question_rows db = [] \<and> link_rows db = [] \<and>
     approvals db = [])"

abbreviation ws_reachable ::
  "(string \<Rightarrow> string) \<Rightarrow> (revision_content \<Rightarrow> revision_content) \<Rightarrow> ws_db \<Rightarrow> bool" where
  "ws_reachable sha256 read_back \<equiv> reachable_from ws_start (ws_step sha256 read_back)"

lemma ws_step_inv: "ws_step sha256 read_back db db' \<Longrightarrow> ws_inv sha256 db \<Longrightarrow> ws_inv sha256 db'"
proof (induction rule: ws_step.induct)
  case (step_other db ss ps patches entries)
  then show ?case by (subst ws_inv_cong [of _ db]) simp_all
next
  case (step_profile db w p)
  then show ?case by (rule pin_profile_inv)
qed (metis create_workspace_inv archive_workspace_inv save_revision_inv approve_inv ingest_inv remove_inv)+

lemma ws_start_inv: "ws_start db \<Longrightarrow> ws_inv sha256 db"
  by (simp add: ws_start_def ws_inv_def keys_ok_def rows_of_known_revisions_def)

interpretation workspace_tables: invariant_system ws_start "ws_step sha256 read_back" "ws_inv sha256"
  for sha256 read_back
  by unfold_locales (auto intro: ws_start_inv ws_step_inv)

end
