(* ===== verification/WorkspaceProperties.thy ===== *)
theory WorkspaceProperties
  imports WorkspaceSystem
begin

text \<open>
  What the workspace tables promise: the outcome of a save and of an approval on every branch, the
  line of revisions, the immutability of what is stored, the fate of lost updates, and the
  evidence a current revision may cite. The witnesses run the operations on one small workspace.
\<close>

section \<open>Saving succeeds exactly when it should\<close>

lemma add_new_revision:
  assumes inv: "ws_inv sha256 db" and w: "w \<in> set (workspaces db)"
    and c: "load_current db w = Inr c"
    and r: "r = new_revision sha256 i (workspace_id w) content actor now parent db"
  shows "add_revision r (supersede c db) =
    (if length_between 1 255 actor \<and> i \<notin> revision_id ` set (revisions db)
     then Inr ((supersede c db)\<lparr>revisions := revisions (supersede c db) @ [r]\<rparr>) else Inl DatabaseRejects)"
proof -
  have lin: "linear_history (history db (workspace_id w)) (current_revision_id w)"
    using ws_invD(3) [OF inv w] by (simp add: workspace_ok_def)
  have no_working: "\<not> list_ex (\<lambda>q. rev_workspace_id q = rev_workspace_id r \<and> rev_status q = REV_WORKING)
      (revisions (supersede c db))"
  proof -
    have "rev_status q \<noteq> REV_WORKING" if "q \<in> set (history (supersede c db) (workspace_id w))" for q
      by (rule history_supersede_own [OF inv w c])
        (use that lin in \<open>auto simp: linear_history_def list_all_iff\<close>)
    then show ?thesis by (auto simp: list_ex_iff r history_def)
  qed
  have version: "(rev_workspace_id r, rev_version r) \<notin>
      set (map (\<lambda>q. (rev_workspace_id q, rev_version q)) (revisions (supersede c db)))"
  proof
    assume "(rev_workspace_id r, rev_version r) \<in>
      set (map (\<lambda>q. (rev_workspace_id q, rev_version q)) (revisions (supersede c db)))"
    then obtain q where "q \<in> set (revisions db)" "rev_workspace_id q = workspace_id w"
        "rev_version q = max_version db (workspace_id w) + 1"
      by (auto simp: r dest!: set_supersede)
    then show False using max_version_history [OF lin] linear_versions [OF lin, of q]
      by (simp add: in_history)
  qed
  have "0 \<le> max_version db (workspace_id w)" using max_version_history [OF lin] by simp
  then have row: "revision_row_ok r = length_between 1 255 actor"
    by (simp add: r revision_row_ok_def) (simp add: new_revision_def)
  show ?thesis
    using no_working version by (simp add: add_revision_def row del: set_map list_ex_iff) (simp add: r)
qed

lemma save_revision_cases:
  assumes inv: "ws_inv sha256 db"
  shows "save_revision sha256 i w content who now expected db =
    (let actor = py_strip who in
     if actor = [] then Inl PValueError
     else case get_workspace db w of
       None \<Rightarrow> Inl WorkspaceNotFound
     | Some workspace \<Rightarrow>
         if ws_status workspace \<noteq> WS_WORKING then Inl IllegalWorkspaceState
         else if current_revision_id workspace \<noteq> expected then Inl StaleWorkspaceRevision
         else if \<not> content_evidence_ids content \<subseteq> active_evidence_ids db w then Inl EvidenceReference
         else if length actor \<le> 255 \<and> i \<notin> revision_id ` set (revisions db) \<and> materialized_ok i content db
         then let r = new_revision sha256 i w content actor now expected db;
                  current = (case expected of None \<Rightarrow> None | Some e \<Rightarrow> get_revision db e w)
              in Inr (saved_db r current db, r)
         else Inl DatabaseRejects)"
proof (cases "py_strip who = [] \<or> get_workspace db w = None")
  case True
  then show ?thesis
    by (auto simp: save_revision_def require_actor_def Let_def load_workspace_for_update_def)
next
  case False
  obtain ws where ws: "get_workspace db w = Some ws" using False by auto
  note wD = get_workspaceD [OF ws]
  have load: "load_current db ws = Inr (case current_revision_id ws of None \<Rightarrow> None | Some e \<Rightarrow> get_revision db e w)"
  proof (cases "current_revision_id ws")
    case (Some e)
    show ?thesis
      by (rule current_revision_loads [OF inv conjunct1 [OF wD] Some]) (simp add: load_current_def Some wD)
  qed (simp add: load_current_def)
  have actor: "1 \<le> length (py_strip who)" using False by (cases "py_strip who") auto
  have refs: "validate_evidence_references db w content =
      (if content_evidence_ids content \<subseteq> active_evidence_ids db w then Inr () else Inl EvidenceReference)"
    by (auto simp: validate_evidence_references_def Let_def guardR_def)
  note add = add_new_revision [OF inv conjunct1 [OF wD] load refl, of i content "py_strip who" now expected,
    unfolded conjunct2 [OF wD]]
  show ?thesis
    using False ws wD load actor add
    by (auto simp: save_revision_def require_actor_def load_workspace_for_update_def refs
      materialize_revision_def materialized_db_def saved_db_def Let_def new_revision_def [symmetric]
      length_between_def)
qed

lemma save_succeeds:
  assumes "ws_inv sha256 db" and "py_strip who = actor" "actor \<noteq> []" "length actor \<le> 255"
    and "get_workspace db w = Some ws" "ws_status ws = WS_WORKING" "current_revision_id ws = expected"
    and "content_evidence_ids c \<subseteq> active_evidence_ids db w"
    and "i \<notin> revision_id ` set (revisions db)" and "materialized_ok i c db"
    and "r = new_revision sha256 i w c actor now expected db"
    and "current = (case expected of None \<Rightarrow> None | Some e \<Rightarrow> get_revision db e w)"
  shows "save_revision sha256 i w c who now expected db = Inr (saved_db r current db, r)"
  using assms(2-) by (simp add: save_revision_cases [OF assms(1)] Let_def)

text \<open>C20: \<open>save_revision\<close> on every branch, in the order of the code: the actor, the workspace, its state, the
  optimistic lock, the evidence references, the constraints of the database. On a reachable state
  the current revision is always found and never superseded, so \<open>RevisionIntegrityError\<close> is not raised.\<close>

theorem save_revision_outcome:
  assumes "ws_reachable sha256 read_back db"
  shows "save_revision sha256 i w content who now expected db =
    (let actor = py_strip who in
     if actor = [] then Inl PValueError
     else case get_workspace db w of
       None \<Rightarrow> Inl WorkspaceNotFound
     | Some workspace \<Rightarrow>
         if ws_status workspace \<noteq> WS_WORKING then Inl IllegalWorkspaceState
         else if current_revision_id workspace \<noteq> expected then Inl StaleWorkspaceRevision
         else if \<not> content_evidence_ids content \<subseteq> active_evidence_ids db w then Inl EvidenceReference
         else if length actor \<le> 255 \<and> i \<notin> revision_id ` set (revisions db) \<and> materialized_ok i content db
         then let r = new_revision sha256 i w content actor now expected db;
                  current = (case expected of None \<Rightarrow> None | Some e \<Rightarrow> get_revision db e w)
              in Inr (saved_db r current db, r)
         else Inl DatabaseRejects)"
  by (rule save_revision_cases [OF workspace_tables.reachable_inv [OF assms]])

section \<open>Stored revisions never change\<close>

definition revision_moves :: "ssp_revision \<Rightarrow> ssp_revision \<Rightarrow> bool" where
  "revision_moves r r' =
     (r' = r\<lparr>rev_status := rev_status r'\<rparr> \<and> (rev_status r \<noteq> REV_WORKING \<longrightarrow> r' = r))"

definition revisions_kept :: "ws_db \<Rightarrow> ws_db \<Rightarrow> bool" where
  "revisions_kept db db' =
     (\<forall>r \<in> set (revisions db). \<exists>r' \<in> set (revisions db'). revision_moves r r')"

lemma revision_moves_refl [simp]: "revision_moves r r"
  by (cases r) (simp add: revision_moves_def)

lemma revision_moves_trans: "revision_moves r s \<Longrightarrow> revision_moves s t \<Longrightarrow> revision_moves r t"
  by (cases r; cases s; cases t) (auto simp: revision_moves_def)

lemma revision_moves_status [simp]: "rev_status r = REV_WORKING \<Longrightarrow> revision_moves r (r\<lparr>rev_status := st\<rparr>)"
  by (cases r) (simp add: revision_moves_def)

lemma revision_moves_fields:
  assumes "revision_moves r r'"
  shows "revision_id r' = revision_id r" and "rev_workspace_id r' = rev_workspace_id r"
    and "rev_version r' = rev_version r" and "rev_content r' = rev_content r"
  using assms by (cases r; cases r'; auto simp: revision_moves_def)+

lemma revisions_kept_grow: "set (revisions db) \<subseteq> set (revisions db') \<Longrightarrow> revisions_kept db db'"
  unfolding revisions_kept_def by (metis revision_moves_refl subsetD)

lemma revisions_kept_same: "revisions db' = revisions db \<Longrightarrow> revisions_kept db db'"
  by (rule revisions_kept_grow) simp

lemma revisions_kept_trans: "revisions_kept db db' \<Longrightarrow> revisions_kept db' db'' \<Longrightarrow> revisions_kept db db''"
  unfolding revisions_kept_def by (meson revision_moves_trans)

lemma kept_by_status:
  assumes "distinct (map revision_id (revisions db))"
    and "\<And>r. r \<in> set (revisions db) \<Longrightarrow> revision_id r = i \<Longrightarrow> rev_status r = REV_WORKING"
    and "set (update_where (\<lambda>r. revision_id r = i) (\<lambda>r. r\<lparr>rev_status := st\<rparr>) (revisions db)) \<subseteq> set (revisions db')"
  shows "revisions_kept db db'"
  unfolding revisions_kept_def
proof
  fix r assume r: "r \<in> set (revisions db)"
  show "\<exists>r' \<in> set (revisions db'). revision_moves r r'"
  proof (cases "revision_id r = i")
    case True
    have "r\<lparr>rev_status := st\<rparr> \<in> set (revisions db')"
      by (rule subsetD [OF assms(3)], rule in_update_where(2) [OF r]) (rule True)
    then show ?thesis using revision_moves_status [OF assms(2) [OF r True], of st] by (rule bexI [rotated])
  next
    case False
    have "r \<in> set (revisions db')" by (rule subsetD [OF assms(3)], rule in_update_where(1) [OF r]) (rule False)
    with revision_moves_refl show ?thesis by (rule bexI)
  qed
qed

lemma saved_kept:
  assumes inv: "ws_inv sha256 db" and w: "w \<in> set (workspaces db)" and c: "load_current db w = Inr c"
  shows "revisions_kept db (saved_db r c db)"
proof (cases "\<exists>x. c = Some x \<and> rev_status x = REV_WORKING")
  case True
  then obtain x where x: "c = Some x" "rev_status x = REV_WORKING" by auto
  have dist: "distinct (map revision_id (revisions db))" using ws_invD(1) [OF inv] by (simp add: keys_ok_def)
  have "x \<in> set (history db (workspace_id w))"
    using c load_current_total [OF inv w] x(1) by (auto split: if_splits)
  then have "x \<in> set (revisions db)" by (simp add: in_history)
  then have "rev_status q = REV_WORKING" if "q \<in> set (revisions db)" "revision_id q = revision_id x" for q
    using distinct_key_unique [OF dist that(1), of x] that(2) x(2) by simp
  then show ?thesis
    by (rule kept_by_status [OF dist]) (auto simp: supersede_def set_revision_status_def x)
next
  case False
  then have "revisions (supersede c db) = revisions db" by (auto simp: supersede_def split: option.splits)
  then show ?thesis by (intro revisions_kept_grow) auto
qed

lemma save_kept:
  assumes "ws_inv sha256 db" and "save_revision sha256 i w c who now expected db = Inr (db', r)"
  shows "revisions_kept db db'"
  using assms(2) by (rule save_Inr) (use saved_kept [OF assms(1)] get_workspaceD in blast)

lemma save_with_facts_kept:
  assumes "save_with_facts sha256 rb i w r fs who now expected db = Inr db'" and "ws_inv sha256 db"
  shows "revisions_kept db db'"
  using assms by (auto simp: save_with_facts_def result_simps revisions_kept_same split: if_splits intro: save_kept)

lemma approve_kept:
  assumes inv: "ws_inv sha256 db"
    and run: "approve_current_revision sha256 rb i w rid who now db = Inr (db', a)"
  shows "revisions_kept db db'"
  using run
proof (rule approve_Inr)
  fix r assume r: "get_revision db rid w = Some r" "rev_status r = REV_WORKING"
    and db': "db' = set_revision_status rid REV_APPROVED db\<lparr>approvals := approvals db @ [a]\<rparr>"
  have dist: "distinct (map revision_id (revisions db))" using ws_invD(1) [OF inv] by (simp add: keys_ok_def)
  show ?thesis
  proof (rule kept_by_status [OF dist, of rid REV_APPROVED])
    fix q assume "q \<in> set (revisions db)" "revision_id q = rid"
    then show "rev_status q = REV_WORKING"
      using r(2) get_revisionD [OF r(1)] distinct_key_unique [OF dist, of q r] by simp
  qed (simp add: db' set_revision_status_def)
qed

lemma ingest_kept:
  assumes inv: "ws_inv sha256 db"
    and run: "ingest_workspace_evidence sha256 rb new_rev art w expected names stored ext who now db = Inr (db', a)"
  shows "revisions_kept db db'"
proof -
  note i = ingest_cases [OF run]
  show ?thesis
  proof (rule i)
    fix r d assume "restore_evidence sha256 rb new_rev w r d who now expected db = Inr db'"
    then obtain fs db2 where save: "save_with_facts sha256 rb new_rev w r fs who now expected
        (set_evidence (evidence_artifact_id d) (\<lambda>a. a\<lparr>removed_at := None, removed_by := None\<rparr>) db) = Inr db2"
      and same: "revisions db' = revisions db2"
      unfolding restore_evidence_def Let_def by (auto simp: result_simps audit_workspace_def)
    show ?thesis
      by (rule revisions_kept_trans [OF revisions_kept_same
            revisions_kept_trans [OF save_with_facts_kept [OF save restored_inv [OF inv]]
            revisions_kept_same [OF same]]]) (rule set_evidence_revisions)
  next
    fix r d fs assume "store_evidence sha256 rb new_rev w r d fs who now expected db = Inr db'"
    then obtain db1 db2 where "add_evidence d db = Inr db1"
        "save_with_facts sha256 rb new_rev w r fs who now expected db1 = Inr db2"
        "revisions db' = revisions db2"
      by (auto simp: store_evidence_def result_simps Let_def audit_workspace_def)
    moreover have "revisions db1 = revisions db"
      using \<open>add_evidence d db = Inr db1\<close> by (auto simp: add_evidence_def split: if_splits)
    ultimately show ?thesis
      using save_with_facts_kept added_inv [OF inv] by (metis revisions_kept_same revisions_kept_trans)
  qed (simp add: revisions_kept_same)
qed

lemma remove_kept:
  assumes inv: "ws_inv sha256 db"
    and run: "remove_workspace_evidence sha256 rb i w art expected who now db = Inr db'"
  shows "revisions_kept db db'"
  using run
proof (rule remove_Inr)
  fix r a db1 q
  assume save: "save_revision sha256 i w (content_without art (rb (rev_content r))) who now (Some expected) db = Inr (db1, q)"
    and db': "db' = audit_workspace who ''ssp_evidence_removed'' w
      [(''evidence_artifact_id'', JStr (uuid_str art)), (''sha256'', JStr (ev_sha256 a))] now
      (set_evidence art (\<lambda>a. a\<lparr>removed_at := Some now, removed_by := Some who\<rparr>) db1)"
  show ?thesis
    by (rule revisions_kept_trans [OF save_kept [OF inv save]], rule revisions_kept_same)
      (simp add: db' audit_workspace_def set_evidence_def)
qed

lemma step_kept: "ws_step sha256 read_back db db' \<Longrightarrow> ws_inv sha256 db \<Longrightarrow> revisions_kept db db'"
proof (induction rule: ws_step.induct)
  case (step_create i s p who now db db' w)
  then show ?case
    by (intro revisions_kept_same) (auto simp: create_workspace_def add_workspace_def result_simps Let_def
      split: option.splits if_splits)
next
  case (step_archive w now db db')
  then show ?case
    by (intro revisions_kept_same) (auto simp: archive_workspace_def set_workspace_def result_simps split: if_splits)
next
  case (step_profile db w p)
  then show ?case by (intro revisions_kept_same) (simp add: set_workspace_def)
qed (auto intro: revisions_kept_same save_kept approve_kept ingest_kept remove_kept)

lemma steps_kept:
  "steps_to (ws_step sha256 read_back) db db' \<Longrightarrow> ws_inv sha256 db \<Longrightarrow> revisions_kept db db'"
proof (induction rule: steps_to.induct)
  case (steps_more s t u)
  then show ?case
    using workspace_tables.steps_inv step_kept revisions_kept_trans by metis
qed (simp add: revisions_kept_same)

text \<open>C19: A stored revision never changes: after any further transactions it is still there with the same
  identity, workspace, parent, version, digest, content and author; only its status can move, and
  once approved or superseded it does not move again.\<close>

theorem stored_revisions_never_change:
  assumes "ws_reachable sha256 read_back db" and "steps_to (ws_step sha256 read_back) db db'"
    and "r \<in> set (revisions db)"
  shows "\<exists>r' \<in> set (revisions db'). r' = r\<lparr>rev_status := rev_status r'\<rparr> \<and>
    (rev_status r \<in> {REV_APPROVED, REV_SUPERSEDED} \<longrightarrow> r' = r)"
proof -
  obtain r' where "r' \<in> set (revisions db')" "revision_moves r r'"
    using steps_kept [OF assms(2) workspace_tables.reachable_inv [OF assms(1)]] assms(3)
    by (auto simp: revisions_kept_def)
  then show ?thesis by (intro bexI [of _ r']) (auto simp: revision_moves_def)
qed

text \<open>C21: The revisions of a workspace are a line: the versions are 1 to n, each revision has its
  predecessor as parent, the workspace points to the last one, and a working revision is the last.\<close>

theorem revisions_form_a_line:
  assumes "ws_reachable sha256 read_back db" and "w \<in> set (workspaces db)"
  shows "let rs = history db (workspace_id w) in
    map rev_version rs = map int [1..<Suc (length rs)] \<and>
    map parent_revision_id rs = butlast (None # map (Some \<circ> revision_id) rs) \<and>
    current_revision_id w = last (None # map (Some \<circ> revision_id) rs) \<and>
    (\<forall>r \<in> set rs. rev_status r = REV_WORKING \<longrightarrow> r = last rs)"
proof -
  have "linear_history (history db (workspace_id w)) (current_revision_id w)"
    using ws_invD(3) [OF workspace_tables.reachable_inv [OF assms(1)] assms(2)] by (simp add: workspace_ok_def)
  then show ?thesis
    unfolding Let_def linear_history_def
    by (cases "history db (workspace_id w)" rule: rev_cases) (auto simp: list_all_iff)
qed

text \<open>C18: Every approval is bound to one revision of its workspace, which is approved and whose content has
  the approved digest.\<close>

theorem approval_is_bound:
  assumes "ws_reachable sha256 read_back db" and "a \<in> set (approvals db)"
  shows "\<exists>r. filter (\<lambda>r. revision_id r = as_revision_id a) (revisions db) = [r] \<and>
    rev_workspace_id r = as_workspace_id a \<and> rev_status r = REV_APPROVED \<and>
    revision_sha256 a = revision_content_sha256 sha256 (rev_content r)"
proof -
  have inv: "ws_inv sha256 db" by (rule workspace_tables.reachable_inv [OF assms(1)])
  obtain r where r: "r \<in> set (revisions db)" "revision_id r = as_revision_id a"
      "rev_workspace_id r = as_workspace_id a" "rev_status r = REV_APPROVED" "content_sha256 r = revision_sha256 a"
    using ws_invD(5) [OF inv assms(2)] by (auto simp: approval_bound_def)
  have "distinct (map revision_id (revisions db))" using ws_invD(1) [OF inv] by (simp add: keys_ok_def)
  then have "filter (\<lambda>q. revision_id q = revision_id r) (revisions db) = [r]"
    by (rule filter_unique_key) (rule r(1))
  then show ?thesis using r ws_invD(4) [OF inv r(1)] by (auto simp: revision_ok_def)
qed

text \<open>C17: No lost update: once a save against an expected revision has been committed, no later save against
  the same expected revision succeeds, whatever happens in between.\<close>

theorem no_lost_update:
  assumes "ws_reachable sha256 read_back db"
    and "save_revision sha256 i w c who now expected db = Inr (db1, r)"
    and "steps_to (ws_step sha256 read_back) db1 db2"
  shows "\<not> (\<exists>db3 r'. save_revision sha256 j w c' who' now' expected db2 = Inr (db3, r'))"
proof
  assume "\<exists>db3 r'. save_revision sha256 j w c' who' now' expected db2 = Inr (db3, r')"
  then obtain ws2 where ws2: "get_workspace db2 w = Some ws2" "current_revision_id ws2 = expected"
    by (auto elim: save_Inr)
  obtain ws where ws: "get_workspace db w = Some ws" "current_revision_id ws = expected"
    and r: "r = new_revision sha256 i w c (py_strip who) now expected db"
    and i: "i \<notin> revision_id ` set (revisions db)" and in1: "r \<in> set (revisions db1)"
    by (rule save_Inr [OF assms(2)]) simp
  have inv: "ws_inv sha256 db" by (rule workspace_tables.reachable_inv [OF assms(1)])
  have inv1: "ws_inv sha256 db1" by (rule save_revision_inv [OF inv assms(2)])
  have inv2: "ws_inv sha256 db2" by (rule workspace_tables.steps_inv [OF assms(3) inv1])
  have kept: "revisions_kept db1 db2" by (rule steps_kept [OF assms(3) inv1])
  have kept0: "revisions_kept db db2" by (rule revisions_kept_trans [OF save_kept [OF inv assms(2)] kept])
  note wD = get_workspaceD [OF ws(1)] and w2D = get_workspaceD [OF ws2(1)]
  obtain r2 where r2: "r2 \<in> set (revisions db2)" "revision_moves r r2"
    using kept in1 by (auto simp: revisions_kept_def)
  have in2: "r2 \<in> set (history db2 w)" using r2 revision_moves_fields [OF r2(2)] r by (simp add: in_history)
  have lin: "linear_history (history db w) expected"
    using ws_invD(3) [OF inv, of ws] wD ws(2) by (simp add: workspace_ok_def)
  have lin2: "linear_history (history db2 w) expected"
    using ws_invD(3) [OF inv2, of ws2] w2D ws2(2) by (simp add: workspace_ok_def)
  show False
  proof (cases expected)
    case None
    then show False using lin2 in2 linear_history_None by fastforce
  next
    case (Some e)
    obtain ys x where x: "history db w = ys @ [x]" "revision_id x = e"
      using lin Some by (auto elim: linear_history_current)
    obtain zs y where y: "history db2 w = zs @ [y]" "revision_id y = e"
      using lin2 Some by (auto elim: linear_history_current)
    have "x \<in> set (history db w)" using x by simp
    then obtain x2 where x2: "x2 \<in> set (revisions db2)" "revision_moves x x2"
      using kept0 by (auto simp: revisions_kept_def in_history)
    have "x2 = y"
    proof (rule distinct_key_unique [OF _ x2(1)])
      show "distinct (map revision_id (revisions db2))" using ws_invD(1) [OF inv2] by (simp add: keys_ok_def)
      show "y \<in> set (revisions db2)" using in_history [of y db2 w] y(1) by simp
      show "revision_id x2 = revision_id y" using revision_moves_fields(1) [OF x2(2)] x(2) y(2) by simp
    qed
    then have "rev_version y = rev_version x" using revision_moves_fields(3) [OF x2(2)] by simp
    moreover have "rev_version y = int (length (history db2 w))" using linear_last_version [OF lin2] y(1) by simp
    moreover have "rev_version x = int (length (history db w))" using linear_last_version [OF lin] x(1) by simp
    moreover have "rev_version r2 = int (length (history db w)) + 1"
      using revision_moves_fields(3) [OF r2(2)] r max_version_history [OF lin] by simp
    ultimately show False using linear_versions [OF lin2 in2] by simp
  qed
qed

text \<open>C22: The current revision of a workspace cites only evidence of that workspace that has not been removed.\<close>

theorem current_evidence_is_live:
  assumes "ws_reachable sha256 read_back db" and "w \<in> set (workspaces db)"
    and "r \<in> set (revisions db)" and "current_revision_id w = Some (revision_id r)"
    and "e \<in> content_evidence_ids (rev_content r)"
  shows "\<exists>a \<in> set (evidence db). evidence_artifact_id a = e \<and> ev_workspace_id a = workspace_id w \<and>
    removed_at a = None"
proof -
  have inv: "ws_inv sha256 db" by (rule workspace_tables.reachable_inv [OF assms(1)])
  obtain ys x where "history db (workspace_id w) = ys @ [x]" and x: "revision_id x = revision_id r"
      "x \<in> set (revisions db)" "rev_workspace_id x = workspace_id w"
    by (rule current_revision_loads [OF inv assms(2,4)])
  have "x = r"
    using ws_invD(1) [OF inv] x assms(3) distinct_key_unique [of revision_id "revisions db" x r]
    by (simp add: keys_ok_def)
  then have "r \<in> set (history db (workspace_id w))" using x by (simp add: in_history)
  then have "e \<in> active_evidence_ids db (workspace_id w)"
    using ws_invD(3) [OF inv assms(2)] assms(4,5) by (auto simp: workspace_ok_def current_evidence_live_def)
  then show ?thesis by (auto simp: active_evidence_ids_def)
qed

section \<open>What the database accepts\<close>

lemma pg_has_text_iff: "pg_has_text s \<longleftrightarrow> \<not> list_all (\<lambda>c. c = CHR '' '') s"
proof -
  have "pg_has_text s \<longleftrightarrow> pg_trim s \<noteq> []" by (cases "pg_trim s") (simp_all add: pg_has_text_def)
  then show ?thesis by (simp only: pg_trim_def strip_Nil_iff)
qed

lemma has_text_pg:
  assumes "has_text s"
  shows "pg_has_text s"
proof -
  have space: "py_isspace CHR '' ''" by code_simp
  have "list_all py_isspace s" if "list_all (\<lambda>c. c = CHR '' '') s"
    using that by (rule list.pred_mono_strong) (metis space)
  then show ?thesis using assms unfolding has_text_def py_strip_Nil_iff pg_has_text_iff by blast
qed

lemma opt_has_text_pg: "opt_has_text v \<Longrightarrow> pg_opt_has_text v"
  by (auto simp: opt_has_text_def pg_opt_has_text_def has_text_pg split: option.splits)

lemma control_id_pattern_nonempty: "control_id_pattern s \<Longrightarrow> 1 \<le> length s"
  by (cases s) (auto simp: control_id_pattern_def Let_def)

lemma valid_section_row:
  "valid_section s \<Longrightarrow> section_row_ok (make_section_row i s) \<longleftrightarrow>
    (section_state s = SEC_EMPTY \<longrightarrow> \<not> pg_has_text (section_text s))"
  using has_text_pg [of "section_text s"]
  by (cases "section_state s = SEC_EMPTY") (simp_all add: valid_section_def section_row_ok_def make_section_row_def)

lemma valid_control_row:
  "valid_control x \<Longrightarrow> control_row_ok (make_control_row i x) \<longleftrightarrow>
    (control_state x = CTL_EMPTY \<longrightarrow> \<not> pg_has_text (implementation_statement x)) \<and> length (control_id x) \<le> 64"
  using has_text_pg [of "implementation_statement x"] opt_has_text_pg [of "unresolved_reason x"]
    control_id_pattern_nonempty [of "control_id x"]
  by (cases "control_state x")
    (simp_all add: valid_control_def control_row_ok_def make_control_row_def Let_def length_between_def, blast+)

lemma valid_question_row: "valid_question q \<Longrightarrow> question_row_ok (make_question_row i q)"
  using opt_has_text_pg [of "answer q"]
  by (cases "question_state q") (auto simp: valid_question_def question_row_ok_def make_question_row_def)

lemma link_rows_ok:
  assumes "list_all valid_evidence_link ls" and "length_between 1 255 key"
    and "t \<in> set [''fact'', ''ssp_section'', ''control'']"
    and "artifact_id ` set ls \<subseteq> evidence_artifact_id ` set (evidence db)"
  shows "list_all (link_row_ok db) (make_link_rows i t key ls)"
  using assms by (auto simp: make_link_rows_def link_row_ok_def list_all_iff valid_evidence_link_def)

text \<open>Of content that passed validation and whose evidence is there, the database accepts the rows exactly
  if no empty section or control has a text of other white space than spaces (Python strips it,
  PostgreSQL's \<open>trim\<close> does not) and no control identifier is longer than 64 characters.\<close>

theorem valid_content_is_storable:
  assumes "valid_content c" and "content_evidence_ids c \<subseteq> known_evidence_ids db w"
  shows "materialized_ok i c db \<longleftrightarrow>
    (\<forall>s \<in> set (sections c). section_state s = SEC_EMPTY \<longrightarrow> \<not> pg_has_text (section_text s)) \<and>
    (\<forall>x \<in> set (controls c). (control_state x = CTL_EMPTY \<longrightarrow> \<not> pg_has_text (implementation_statement x)) \<and>
       length (control_id x) \<le> 64)"
proof -
  have facts: "list_all fact_row_ok (map (make_fact_row i) (facts c))"
    using assms(1) by (auto simp: valid_content_def list_all_iff valid_fact_def fact_row_ok_def make_fact_row_def)
  have sections: "list_all section_row_ok (map (make_section_row i) (sections c)) \<longleftrightarrow>
      (\<forall>s \<in> set (sections c). section_state s = SEC_EMPTY \<longrightarrow> \<not> pg_has_text (section_text s))"
    using assms(1) valid_section_row by (auto simp: valid_content_def list_all_iff)
  have controls: "list_all control_row_ok (map (make_control_row i) (controls c)) \<longleftrightarrow>
      (\<forall>x \<in> set (controls c). (control_state x = CTL_EMPTY \<longrightarrow> \<not> pg_has_text (implementation_statement x)) \<and>
         length (control_id x) \<le> 64)"
    using assms(1) valid_control_row by (auto simp: valid_content_def list_all_iff)
  have questions: "list_all question_row_ok (map (make_question_row i) (questions c))"
    using assms(1) valid_question_row by (auto simp: valid_content_def list_all_iff)
  have known: "artifact_id ` set ls \<subseteq> evidence_artifact_id ` set (evidence db)"
    if "ls \<in> set (map fact_evidence (facts c) @ map section_evidence (sections c) @ map control_evidence (controls c))" for ls
  proof -
    have "artifact_id ` set ls \<subseteq> content_evidence_ids c"
      unfolding content_evidence_ids_def set_map set_concat using that by (intro image_mono) blast
    moreover have "known_evidence_ids db w \<subseteq> evidence_artifact_id ` set (evidence db)"
      unfolding known_evidence_ids_def by blast
    ultimately show ?thesis using assms(2) by blast
  qed
  have links: "list_all (link_row_ok db) (evidence_link_rows i c)"
    if "\<forall>x \<in> set (controls c). length (control_id x) \<le> 64"
  proof -
    have "list_all (link_row_ok db) (make_link_rows i ''fact'' (fact_key f) (fact_evidence f))"
      if "f \<in> set (facts c)" for f
      using that assms(1) known
      by (intro link_rows_ok) (auto simp: valid_content_def list_all_iff valid_fact_def)
    moreover have "list_all (link_row_ok db) (make_link_rows i ''ssp_section'' (section_key s) (section_evidence s))"
      if "s \<in> set (sections c)" for s
      using that assms(1) known
      by (intro link_rows_ok) (auto simp: valid_content_def list_all_iff valid_section_def)
    moreover have "list_all (link_row_ok db) (make_link_rows i ''control'' (control_id x) (control_evidence x))"
      if x: "x \<in> set (controls c)" for x
    proof (rule link_rows_ok)
      have "valid_control x" using x assms(1) by (simp add: valid_content_def list_all_iff)
      then show "list_all valid_evidence_link (control_evidence x)" and "length_between 1 255 (control_id x)"
        using control_id_pattern_nonempty [of "control_id x"]
          \<open>\<forall>x \<in> set (controls c). length (control_id x) \<le> 64\<close> x
        by (auto simp: valid_control_def length_between_def)
      show "artifact_id ` set (control_evidence x) \<subseteq> evidence_artifact_id ` set (evidence db)"
        using known x by auto
    qed simp
    ultimately show ?thesis
      by (auto simp: evidence_link_rows_def list_all_iff)
  qed
  have keys: "map fr_fact_key (map (make_fact_row i) (facts c)) = map fact_key (facts c)"
      "map sr_section_key (map (make_section_row i) (sections c)) = map section_key (sections c)"
      "map cr_control_id (map (make_control_row i) (controls c)) = map control_id (controls c)"
      "map qr_question_id (map (make_question_row i) (questions c)) = map question_id (questions c)"
    by (simp_all add: make_fact_row_def make_section_row_def make_control_row_def make_question_row_def)
  show ?thesis
    using facts questions links assms(1)
    unfolding materialized_ok_def Let_def keys sections controls valid_content_def by blast
qed

section \<open>Approval and removal\<close>

text \<open>An approval succeeds exactly for the working current revision of a working workspace whose stored
  document reads back as valid content with an unchanged digest; \<open>RevisionIntegrityError\<close> is raised
  only if the database changed the digest of what it stored.\<close>

theorem approval_succeeds_iff:
  assumes "ws_reachable sha256 read_back db"
  shows "(\<exists>result. approve_current_revision sha256 read_back i w rid who now db = Inr result) \<longleftrightarrow>
    (py_strip who \<noteq> [] \<and> length (py_strip who) \<le> 255 \<and>
     i \<notin> approval_snapshot_id ` set (approvals db) \<and>
     (\<exists>ws r. get_workspace db w = Some ws \<and> ws_status ws = WS_WORKING \<and>
        current_revision_id ws = Some rid \<and> get_revision db rid w = Some r \<and>
        rev_status r = REV_WORKING \<and> valid_content (read_back (rev_content r)) \<and>
        revision_content_sha256 sha256 (read_back (rev_content r)) =
          revision_content_sha256 sha256 (rev_content r)))"
proof -
  have inv: "ws_inv sha256 db" by (rule workspace_tables.reachable_inv [OF assms])
  have digest: "content_sha256 r = revision_content_sha256 sha256 (rev_content r)"
    if "get_revision db rid w = Some r" for r
    using ws_invD(4) [OF inv, of r] get_revisionD [OF that] by (simp add: revision_ok_def)
  have unapproved: "rid \<notin> as_revision_id ` set (approvals db)"
    if r: "get_revision db rid w = Some r" "rev_status r = REV_WORKING" for r
  proof
    assume "rid \<in> as_revision_id ` set (approvals db)"
    then obtain a q where "q \<in> set (revisions db)" "revision_id q = rid" "rev_status q = REV_APPROVED"
      using ws_invD(5) [OF inv] by (fastforce simp: approval_bound_def)
    moreover have "distinct (map revision_id (revisions db))" using ws_invD(1) [OF inv] by (simp add: keys_ok_def)
    ultimately show False
      using get_revisionD [OF r(1)] r(2) distinct_key_unique [of revision_id "revisions db" q r] by auto
  qed
  have row: "(\<exists>result. add_approval \<lparr>approval_snapshot_id = i, as_workspace_id = w, as_revision_id = rid,
      revision_sha256 = h, approved_by = py_strip who, approved_at = now\<rparr>
      (set_revision_status rid REV_APPROVED db) = Inr result) \<longleftrightarrow>
      length_between 1 255 (py_strip who) \<and> i \<notin> approval_snapshot_id ` set (approvals db) \<and>
      rid \<notin> as_revision_id ` set (approvals db)" for h
    by (simp add: add_approval_def approval_row_ok_def set_revision_status_def)
  have actor: "length_between 1 255 (py_strip who) \<longleftrightarrow> py_strip who \<noteq> [] \<and> length (py_strip who) \<le> 255"
    by (cases "py_strip who") (auto simp: length_between_def)
  show ?thesis
  proof (cases "\<exists>ws r. get_workspace db w = Some ws \<and> get_revision db rid w = Some r")
    case False
    then show ?thesis
      by (auto simp: approve_current_revision_def result_simps split: if_splits option.splits)
  next
    case True
    then obtain ws r where "get_workspace db w = Some ws" and r: "get_revision db rid w = Some r" by blast
    then show ?thesis
      using row actor digest [OF r] unapproved [OF r]
      by (auto simp: approve_current_revision_def require_actor_def load_workspace_for_update_def
        validate_content_def Let_def bindR_eq_Inr)
  qed
qed

lemma active_after_removal:
  "set (map evidence_artifact_id (filter (\<lambda>a. ev_workspace_id a = v \<and> removed_at a = None)
      (update_where (\<lambda>a. evidence_artifact_id a = i)
        (\<lambda>a. a\<lparr>removed_at := Some now, removed_by := Some who\<rparr>) rows))) =
    set (map evidence_artifact_id (filter (\<lambda>a. ev_workspace_id a = v \<and> removed_at a = None) rows)) - {i}"
  by (induction rows) auto

text \<open>Removing evidence hides exactly that artifact, and only before analysis has begun; the new current
  revision no longer cites it.\<close>

theorem removal_hides_evidence:
  assumes "ws_reachable sha256 read_back db"
    and "remove_workspace_evidence sha256 read_back i w artifact expected who now db = Inr db'"
  shows "active_evidence_ids db' v = active_evidence_ids db v - (if v = w then {artifact} else {}) \<and>
    artifact \<in> active_evidence_ids db w \<and>
    (\<exists>r \<in> set (revisions db). revision_id r = expected \<and>
       \<not> analysis_started db w (read_back (rev_content r))) \<and>
    (\<exists>r \<in> set (revisions db'). revision_id r = i \<and> rev_workspace_id r = w \<and>
       parent_revision_id r = Some expected \<and> artifact \<notin> content_evidence_ids (rev_content r))"
  using assms(2)
proof (rule remove_Inr)
  fix ws r a db1 q
  let ?f = "\<lambda>a. a\<lparr>removed_at := Some now, removed_by := Some who\<rparr>"
  assume r: "get_revision db expected w = Some r" "\<not> analysis_started db w (read_back (rev_content r))"
    and a: "a \<in> set (evidence db)" "ev_workspace_id a = w" "evidence_artifact_id a = artifact" "removed_at a = None"
    and save: "save_revision sha256 i w (content_without artifact (read_back (rev_content r))) who now
      (Some expected) db = Inr (db1, q)"
    and db': "db' = audit_workspace who ''ssp_evidence_removed'' w
      [(''evidence_artifact_id'', JStr (uuid_str artifact)), (''sha256'', JStr (ev_sha256 a))] now
      (set_evidence artifact ?f db1)"
  obtain cur where q: "q = new_revision sha256 i w (content_without artifact (read_back (rev_content r)))
      (py_strip who) now (Some expected) db" and db1: "db1 = saved_db q cur db"
    by (rule save_Inr [OF save])
  have ev: "evidence db' = update_where (\<lambda>a. evidence_artifact_id a = artifact) ?f (evidence db)"
    by (simp add: db' audit_workspace_def set_evidence_def db1)
  have dist: "distinct (map evidence_artifact_id (evidence db))"
    using ws_invD(1) [OF workspace_tables.reachable_inv [OF assms(1)]] by (simp add: keys_ok_def)
  have "active_evidence_ids db' v = active_evidence_ids db v - {artifact}"
    unfolding active_evidence_ids_def ev by (rule active_after_removal)
  moreover have "artifact \<in> active_evidence_ids db v \<Longrightarrow> v = w"
    using a dist distinct_key_unique by (fastforce simp: active_evidence_ids_def)
  ultimately have "active_evidence_ids db' v = active_evidence_ids db v - (if v = w then {artifact} else {})"
    by (cases "v = w") auto
  moreover have "artifact \<in> active_evidence_ids db w" using active_evidence_I [OF a(1,4)] a(2,3) by simp
  moreover have "q \<in> set (revisions db')" by (simp add: db' audit_workspace_def set_evidence_def db1)
  then have "\<exists>r \<in> set (revisions db'). revision_id r = i \<and> rev_workspace_id r = w \<and>
       parent_revision_id r = Some expected \<and> artifact \<notin> content_evidence_ids (rev_content r)"
    using q without_artifact_ids by (intro bexI [of _ q]) simp_all
  ultimately show ?thesis using get_revisionD [OF r(1)] r(2) by blast
qed

end
