(* ===== verification/WorkspaceExample.thy ===== *)
theory WorkspaceExample
  imports WorkspaceProperties
begin

text \<open>
  One workspace taken through its life by the operations: created, saved, given a file, saved again
  with a citation of it, approved; and a second line in which the file is removed. The witnesses of
  the workspace properties live on these states.
\<close>

abbreviation (input) ex_hash :: "string \<Rightarrow> string" where "ex_hash \<equiv> (\<lambda>s. s)"
abbreviation (input) ex_rb :: "revision_content \<Rightarrow> revision_content" where "ex_rb \<equiv> (\<lambda>c. c)"

definition ex_link :: evidence_link where
  "ex_link = \<lparr>artifact_id = 9, locator = [(''page'', JInt 1)]\<rparr>"

definition ex_content :: "evidence_link list \<Rightarrow> revision_content" where
  "ex_content ls = \<lparr>facts = [\<lparr>fact_key = ''system.name'', fact_value = JStr ''Portal'',
     fact_provenance = ISSO_ENTERED, fact_evidence = ls, fact_state = FACT_ACTIVE\<rparr>],
   sections = [\<lparr>section_key = ''intro'', section_title = ''Introduction'', section_text = [],
     section_state = SEC_EMPTY, section_evidence = []\<rparr>], controls = [], questions = []\<rparr>"

definition ex_bundle :: profile_bundle where
  "ex_bundle = \<lparr>pb_manifest = \<lparr>pm_schema_version = ''1.0.0'', pm_profile_id = ''fisma'', pm_profile_version = ''1'',
       pm_nist_control_catalog_release = ''5.1.1'', pm_display_name = ''FISMA'', pm_sources = [], pm_files = [],
       pm_sha256 = replicate 64 CHR ''a''\<rparr>,
     pb_catalog_controls = [\<lparr>pc_control_id = ''AC-1'', pc_title = ''Policy'', pc_requirement_text = ''Develop a policy.'',
       pc_catalog_pointer = ''/catalog/groups/0/controls/0''\<rparr>],
     pb_low_control_ids = [''AC-1''], pb_moderate_control_ids = [''AC-1''], pb_high_control_ids = [''AC-1''],
     pb_ssp_required_items = [], pb_control_response = default_control_response_policy, pb_standard_coverage = [],
     pb_statement_policy = default_statement_policy\<rparr>"

definition ex_profile_version :: profile_version where
  "ex_profile_version = \<lparr>profile_version_id = 7, profile_key = ''fisma'', profile_version_name = ''1'',
     profile_status = PROFILE_ACTIVE, pv_bundle_sha256 = replicate 64 CHR ''a'', pv_bundle = ex_bundle,
     pv_imported_by = ''admin'', pv_imported_at = 0, pv_activated_at = Some 0\<rparr>"

definition ex_empty :: ws_db where
  "ex_empty = \<lparr>systems = [1], profile_versions = [ex_profile_version], workspaces = [], revisions = [],
     evidence = [], fact_rows = [], section_rows = [], control_rows = [], question_rows = [],
     link_rows = [], agent_patches = [], approvals = [], audited = []\<rparr>"

definition ex_workspace :: "uuid option \<Rightarrow> ssp_workspace" where
  "ex_workspace current = \<lparr>workspace_id = 5, ws_system_id = 1, ws_profile_version_id = 7,
     current_revision_id = current, ws_status = WS_WORKING, ws_created_by = ''isso'',
     ws_created_at = 100, archived_at = None\<rparr>"

definition ex_created :: ws_db where
  "ex_created = ex_empty\<lparr>workspaces := [ex_workspace None]\<rparr>"

lemma ex_create: "create_workspace 5 1 7 '' isso '' 100 ex_empty = Inr (ex_created, ex_workspace None)"
  by code_simp

lemma ex_strip: "py_strip ''isso'' = ''isso''"
  by code_simp

lemma ex_start: "ws_reachable ex_hash ex_rb ex_empty"
  by (rule reach_start) (simp add: ws_start_def ex_empty_def)

lemma ex_created_reachable: "ws_reachable ex_hash ex_rb ex_created"
  by (rule reach_step [OF ex_start]) (rule step_create [OF ex_create])

lemma ex_created_simps:
  "get_workspace ex_created 5 = Some (ex_workspace None)" "revisions ex_created = []"
  by (simp_all add: get_workspace_def ex_created_def ex_empty_def ex_workspace_def)

lemma ex_content_rows:
  assumes "ls = [] \<or> (ls = [ex_link] \<and> 9 \<in> evidence_artifact_id ` set (evidence db))"
  shows "materialized_ok i (ex_content ls) db"
  using assms
  by (auto simp: materialized_ok_def ex_content_def make_fact_row_def make_section_row_def fact_row_ok_def
    section_row_ok_def length_between_def pg_has_text_def pg_trim_def evidence_link_rows_def make_link_rows_def
    link_row_ok_def ex_link_def)

lemma ex_content_ids: "content_evidence_ids (ex_content ls) = artifact_id ` set ls"
  by (simp add: content_evidence_ids_def ex_content_def)

definition ex_first :: ssp_revision where
  "ex_first = new_revision ex_hash 11 5 (ex_content []) ''isso'' 200 None ex_created"

definition ex_saved :: ws_db where
  "ex_saved = saved_db ex_first None ex_created"

lemma ex_save: "save_revision ex_hash 11 5 (ex_content []) ''isso'' 200 None ex_created = Inr (ex_saved, ex_first)"
  unfolding ex_saved_def
  by (rule save_succeeds [OF workspace_tables.reachable_inv [OF ex_created_reachable] ex_strip _ _
      ex_created_simps(1)])
    (simp_all add: ex_workspace_def ex_content_ids ex_created_simps ex_content_rows ex_first_def)

lemma ex_saved_reachable: "ws_reachable ex_hash ex_rb ex_saved"
  by (rule reach_step [OF ex_created_reachable step_save [OF ex_save]])

lemma ex_saved_simps:
  "get_workspace ex_saved 5 = Some (ex_workspace (Some 11))" "revisions ex_saved = [ex_first]"
  "evidence ex_saved = []" "approvals ex_saved = []" "agent_patches ex_saved = []"
  "revision_id ex_first = 11" "rev_workspace_id ex_first = 5" "rev_status ex_first = REV_WORKING"
  "rev_content ex_first = ex_content []"
  by (simp_all add: ex_saved_def ex_first_def get_workspace_def ex_created_def ex_workspace_def supersede_def ex_empty_def)

text \<open>The file \<open>a.pdf\<close> is uploaded; no fact is extracted from it.\<close>

definition ex_sha :: string where "ex_sha = replicate 64 CHR ''a''"

definition ex_extracted :: extracted where
  "ex_extracted = \<lparr>ext_facts = [], ext_segments = [], ext_format = Some ''pdf'',
     ext_status = EV_PROCESSED, ext_failure_code = None\<rparr>"

definition ex_artifact :: evidence_artifact where
  "ex_artifact = \<lparr>evidence_artifact_id = 9, ev_workspace_id = 5, ev_storage_key = ''aa/'' @ ex_sha,
     ev_size_bytes = 3, ev_display_filename = ''a.pdf'', ev_media_type = ''application/pdf'',
     ev_detected_format = Some ''pdf'', ev_sha256 = ex_sha, ev_status = EV_PROCESSED,
     extracted_segments = [], ev_uploaded_by = ''isso'', ev_uploaded_at = 300,
     ev_processed_at = Some 300, ev_failure_code = None, removed_at = None, removed_by = None\<rparr>"

lemma ex_artifact_row: "evidence_row_ok ex_artifact"
  by code_simp

lemma ex_content_valid: "ls = [] \<or> ls = [ex_link] \<Longrightarrow> valid_content (ex_content ls)"
proof -
  have "valid_evidence_link ex_link" by code_simp
  then show "ls = [] \<or> ls = [ex_link] \<Longrightarrow> valid_content (ex_content ls)"
    by (auto simp: valid_content_def ex_content_def valid_fact_def valid_section_def length_between_def
      has_text_def py_strip_def)
qed

definition ex_uploaded :: ws_db where
  "ex_uploaded = audit_workspace ''isso'' ''ssp_evidence_uploaded'' 5
     [(''evidence_artifact_id'', JStr (uuid_str 9)), (''sha256'', JStr ex_sha),
      (''status'', JStr ''processed''), (''fact_count'', JInt 0)] 300
     (ex_saved\<lparr>evidence := [ex_artifact]\<rparr>)"

lemma ex_get_first: "get_revision ex_saved 11 5 = Some ex_first"
  by (simp add: get_revision_def ex_saved_simps)

lemma ex_upload: "ingest_workspace_evidence ex_hash ex_rb 12 9 5 11 (''a.pdf'', ''application/pdf'')
    (ex_sha, ''aa/'' @ ex_sha, 3) ex_extracted ''isso'' 300 ex_saved = Inr (ex_uploaded, ex_artifact)"
proof -
  have add: "add_evidence ex_artifact ex_saved = Inr (ex_saved\<lparr>evidence := [ex_artifact]\<rparr>)"
    by (simp add: add_evidence_def ex_artifact_row ex_saved_simps)
  have "store_evidence ex_hash ex_rb 12 5 ex_first ex_artifact [] ''isso'' 300 11 ex_saved = Inr ex_uploaded"
    using ex_content_valid [of "[]"]
    by (simp add: store_evidence_def add ex_saved_simps validate_content_def save_with_facts_def ex_uploaded_def)
      (simp add: ex_artifact_def)
  then show ?thesis
    by (simp add: ingest_workspace_evidence_def load_workspace_for_update_def ex_saved_simps ex_get_first
      ex_workspace_def) (simp add: ex_artifact_def ex_extracted_def)
qed

lemma ex_uploaded_reachable: "ws_reachable ex_hash ex_rb ex_uploaded"
  by (rule reach_step [OF ex_saved_reachable]) (rule step_ingest [OF ex_upload])

lemma ex_uploaded_simps:
  "get_workspace ex_uploaded 5 = Some (ex_workspace (Some 11))" "revisions ex_uploaded = [ex_first]"
  "evidence ex_uploaded = [ex_artifact]" "approvals ex_uploaded = []" "agent_patches ex_uploaded = []"
  "get_revision ex_uploaded 11 5 = Some ex_first"
  using ex_saved_simps ex_get_first
  by (simp_all add: ex_uploaded_def audit_workspace_def get_workspace_def get_revision_def)

text \<open>The fact is saved again with a citation of the file.\<close>

definition ex_second :: ssp_revision where
  "ex_second = new_revision ex_hash 12 5 (ex_content [ex_link]) ''isso'' 400 (Some 11) ex_uploaded"

definition ex_cited :: ws_db where
  "ex_cited = saved_db ex_second (Some ex_first) ex_uploaded"

lemma ex_active: "active_evidence_ids ex_uploaded 5 = {9}"
  by (simp add: active_evidence_ids_def ex_uploaded_simps) (simp add: ex_artifact_def)

lemma ex_cited_rows: "materialized_ok 12 (ex_content [ex_link]) ex_uploaded"
  by (rule ex_content_rows) (simp add: ex_uploaded_simps ex_artifact_def)

lemma ex_cite: "save_revision ex_hash 12 5 (ex_content [ex_link]) ''isso'' 400 (Some 11) ex_uploaded =
    Inr (ex_cited, ex_second)"
  unfolding ex_cited_def
  by (rule save_succeeds [OF workspace_tables.reachable_inv [OF ex_uploaded_reachable] ex_strip _ _
      ex_uploaded_simps(1)])
    (simp_all add: ex_workspace_def ex_content_ids ex_uploaded_simps ex_cited_rows ex_second_def
      ex_active ex_saved_simps, simp_all add: ex_link_def)

lemma ex_cited_reachable: "ws_reachable ex_hash ex_rb ex_cited"
  by (rule reach_step [OF ex_uploaded_reachable]) (rule step_save [OF ex_cite])

lemma ex_cited_simps:
  "get_workspace ex_cited 5 = Some (ex_workspace (Some 12))"
  "get_revision ex_cited 12 5 = Some ex_second" "ex_second \<in> set (revisions ex_cited)"
  "evidence ex_cited = [ex_artifact]" "approvals ex_cited = []" "agent_patches ex_cited = []"
  "revision_id ex_second = 12" "rev_workspace_id ex_second = 5" "rev_status ex_second = REV_WORKING"
  "rev_content ex_second = ex_content [ex_link]"
  "content_sha256 ex_second = revision_content_sha256 ex_hash (ex_content [ex_link])"
  using ex_uploaded_simps(1)
  by (simp_all add: ex_cited_def ex_second_def get_workspace_def find_update_where_same get_revision_def
    ex_uploaded_simps supersede_def ex_saved_simps set_revision_status_def)
    (simp_all add: ex_workspace_def)

definition ex_approval :: approval_snapshot where
  "ex_approval = \<lparr>approval_snapshot_id = 20, as_workspace_id = 5, as_revision_id = 12,
     revision_sha256 = revision_content_sha256 ex_hash (ex_content [ex_link]),
     approved_by = ''isso'', approved_at = 500\<rparr>"

definition ex_approved :: ws_db where
  "ex_approved = set_revision_status 12 REV_APPROVED ex_cited\<lparr>approvals := [ex_approval]\<rparr>"

lemma ex_approve: "approve_current_revision ex_hash ex_rb 20 5 12 ''isso'' 500 ex_cited =
    Inr (ex_approved, ex_approval)"
  using ex_content_valid [of "[ex_link]"]
  by (simp add: approve_current_revision_def require_actor_def ex_strip load_workspace_for_update_def
    ex_cited_simps ex_workspace_def validate_content_def add_approval_def set_revision_status_def)
    (simp add: Let_def approval_row_ok_def length_between_def ex_approved_def ex_approval_def set_revision_status_def
      ex_cited_simps)

lemma ex_approved_reachable: "ws_reachable ex_hash ex_rb ex_approved"
  by (rule reach_step [OF ex_cited_reachable]) (rule step_approve [OF ex_approve])

lemma ex_approved_steps: "steps_to (ws_step ex_hash ex_rb) ex_cited ex_approved"
  by (rule steps_one) (rule step_approve [OF ex_approve])

section \<open>Witnesses\<close>

theorem approval_is_bound_witness:
  "\<exists>r. filter (\<lambda>r. revision_id r = 12) (revisions ex_approved) = [r] \<and> rev_status r = REV_APPROVED \<and>
    revision_content_sha256 ex_hash (ex_content [ex_link]) = revision_content_sha256 ex_hash (rev_content r)"
  using approval_is_bound [OF ex_approved_reachable, of ex_approval]
  by (auto simp: ex_approved_def ex_approval_def)

theorem save_revision_outcome_witness:
  "save_revision ex_hash 13 5 (ex_content []) ''isso'' 600 (Some 11) ex_cited = Inl StaleWorkspaceRevision"
  using save_revision_outcome [OF ex_cited_reachable, of 13 5 "ex_content []" "''isso''" 600 "Some 11"]
  by (simp add: ex_strip ex_cited_simps ex_workspace_def Let_def)

theorem stored_revisions_never_change_witness:
  "\<exists>r' \<in> set (revisions ex_approved). r' = ex_second\<lparr>rev_status := rev_status r'\<rparr>"
  using stored_revisions_never_change [OF ex_cited_reachable ex_approved_steps ex_cited_simps(3)]
  by blast

theorem revisions_form_a_line_witness:
  "map rev_version (history ex_cited 5) = map int [1..<Suc (length (history ex_cited 5))]"
  using revisions_form_a_line [OF ex_cited_reachable, of "ex_workspace (Some 12)"]
    get_workspaceD [OF ex_cited_simps(1)]
  by (simp only: Let_def)

theorem no_lost_update_witness:
  "\<not> (\<exists>db3 r'. save_revision ex_hash 13 5 (ex_content []) ''isso'' 700 (Some 11) ex_approved = Inr (db3, r'))"
  by (rule no_lost_update [OF ex_uploaded_reachable ex_cite ex_approved_steps])

theorem current_evidence_is_live_witness:
  "\<exists>a \<in> set (evidence ex_cited). evidence_artifact_id a = 9 \<and> ev_workspace_id a = 5 \<and> removed_at a = None"
  using current_evidence_is_live [OF ex_cited_reachable, of "ex_workspace (Some 12)" ex_second 9]
    get_workspaceD [OF ex_cited_simps(1)] ex_cited_simps
  by (simp add: ex_workspace_def ex_content_ids ex_link_def)

theorem valid_content_is_storable_witness:
  "\<not> materialized_ok 11 (ex_content []\<lparr>sections := [\<lparr>section_key = ''intro'', section_title = ''t'',
     section_text = [CHR 0x0A], section_state = SEC_EMPTY, section_evidence = []\<rparr>]\<rparr>) ex_cited"
proof -
  let ?c = "ex_content []\<lparr>sections := [\<lparr>section_key = ''intro'', section_title = ''t'',
     section_text = [CHR 0x0A], section_state = SEC_EMPTY, section_evidence = []\<rparr>]\<rparr>"
  have "\<not> has_text [CHR 0x0A]" "pg_has_text [CHR 0x0A]" by code_simp+
  moreover have "valid_content ?c"
    using ex_content_valid [of "[]"] calculation
    by (simp add: valid_content_def ex_content_def valid_section_def length_between_def)
  moreover have "content_evidence_ids ?c \<subseteq> known_evidence_ids ex_cited 5"
    by (simp add: content_evidence_ids_def ex_content_def)
  ultimately show ?thesis using valid_content_is_storable [of ?c ex_cited 5 11] by simp
qed

theorem approval_succeeds_iff_witness:
  "\<exists>result. approve_current_revision ex_hash ex_rb 21 5 12 '' isso '' 800 ex_cited = Inr result"
proof -
  have "py_strip '' isso '' = ''isso''" by code_simp
  then show ?thesis
    using approval_succeeds_iff [OF ex_cited_reachable, of 21 5 12 "'' isso ''" 800] ex_content_valid [of "[ex_link]"]
    by (simp add: ex_cited_simps ex_workspace_def)
qed

definition ex_third :: ssp_revision where
  "ex_third = new_revision ex_hash 14 5 (ex_content []\<lparr>facts := []\<rparr>) ''isso'' 900 (Some 12) ex_cited"

lemma ex_remove_save: "save_revision ex_hash 14 5 (content_without 9 (ex_content [ex_link])) ''isso'' 900
    (Some 12) ex_cited = Inr (saved_db ex_third (Some ex_second) ex_cited, ex_third)"
proof -
  have c: "content_without 9 (ex_content [ex_link]) = ex_content []\<lparr>facts := []\<rparr>"
    by (simp add: content_without_def ex_content_def retained_facts_def without_artifact_def ex_link_def)
  have "materialized_ok 14 (ex_content []\<lparr>facts := []\<rparr>) ex_cited"
    by (simp add: materialized_ok_def ex_content_def make_section_row_def section_row_ok_def
      length_between_def pg_has_text_def pg_trim_def evidence_link_rows_def make_link_rows_def)
  moreover have "content_evidence_ids (ex_content []\<lparr>facts := []\<rparr>) = {}"
    by (simp add: content_evidence_ids_def ex_content_def)
  moreover have "14 \<notin> revision_id ` set (revisions ex_cited)"
    by (simp add: ex_cited_def ex_second_def ex_uploaded_simps ex_saved_simps)
  ultimately show ?thesis
    unfolding c
    by (intro save_succeeds [OF workspace_tables.reachable_inv [OF ex_cited_reachable] ex_strip _ _
        ex_cited_simps(1)])
      (simp_all add: ex_workspace_def ex_third_def ex_cited_simps)
qed

lemma ex_remove: "\<exists>db'. remove_workspace_evidence ex_hash ex_rb 14 5 9 12 ''isso'' 900 ex_cited = Inr db'"
proof -
  have "\<not> analysis_started ex_cited 5 (ex_content [ex_link])"
    by (simp add: analysis_started_def ex_cited_simps) (simp add: ex_content_def)
  moreover have "find (\<lambda>a. ev_workspace_id a = 5 \<and> evidence_artifact_id a = 9 \<and> removed_at a = None)
      (evidence ex_cited) = Some ex_artifact"
    by (simp add: ex_cited_simps) (simp add: ex_artifact_def)
  moreover have "evidence_row_ok (ex_artifact\<lparr>removed_at := Some 900, removed_by := Some ''isso''\<rparr>)"
    by code_simp
  ultimately show ?thesis
    using ex_content_valid [of "[ex_link]"] ex_remove_save
    by (simp add: remove_workspace_evidence_def load_workspace_for_update_def ex_cited_simps
      validate_content_def ex_workspace_def)
qed

theorem removal_hides_evidence_witness:
  "\<exists>db'. remove_workspace_evidence ex_hash ex_rb 14 5 9 12 ''isso'' 900 ex_cited = Inr db' \<and>
    active_evidence_ids db' 5 = active_evidence_ids ex_cited 5 - {9} \<and> 9 \<in> active_evidence_ids ex_cited 5"
proof -
  obtain db' where run: "remove_workspace_evidence ex_hash ex_rb 14 5 9 12 ''isso'' 900 ex_cited = Inr db'"
    using ex_remove by blast
  show ?thesis using run removal_hides_evidence [OF ex_cited_reachable run, of 5] by auto
qed

end
