(* ===== verification/Editing.thy ===== *)
theory Editing
  imports Markers
begin

text \<open>
  The pure transforms of a revision, \<open>src/ato_service/ssp_workspace/editing.py\<close>: merging generated text,
  applying an agent's patch, direct edits and answers. The inputs are the validated results of
  \<open>generation_contracts.py\<close>. What the code takes from Python's runtime and does not define itself
  is in the record \<open>py_env\<close>: \<open>repr\<close> of a locator's sorted items, \<open>uuid.uuid5\<close> in the question
  namespace, SHA-256 and \<open>str.casefold\<close>.
\<close>

datatype edit_error = WorkspaceEditError string | WorkspaceQuestionStateError | EditValidationError

record py_env =
  env_repr :: "(string \<times> json) list \<Rightarrow> string"
  env_uuid5 :: "string \<Rightarrow> uuid"
  env_sha256 :: "string \<Rightarrow> string"
  env_casefold :: "string \<Rightarrow> string"

section \<open>Generated results\<close>

record generated_section =
  gs_section_id :: string
  gs_content :: string
  gs_supporting_fact_ids :: "string list"

record generated_control =
  gc_control_id :: string
  gc_implementation_status :: string
  gc_responsibility :: string
  gc_implementation_statement :: string
  gc_supporting_fact_ids :: "string list"

record generated_question =
  gq_question_key :: string
  gq_target_type :: string
  gq_target_id :: string
  gq_question :: string
  gq_owner_type :: string

record generated_categorization =
  gcat_confidentiality :: string
  gcat_integrity :: string
  gcat_availability :: string
  gcat_confidentiality_rationale :: string
  gcat_integrity_rationale :: string
  gcat_availability_rationale :: string
  gcat_supporting_fact_ids :: "string list"

record generation_result =
  gen_sections :: "generated_section list"
  gen_controls :: "generated_control list"
  gen_questions :: "generated_question list"
  gen_categorization :: "generated_categorization option"

record targeted_patch =
  tp_target_type :: string
  tp_target_id :: string
  tp_expected_revision :: int
  tp_changes :: "(string \<times> string) list"
  tp_supporting_fact_ids :: "string list"

record patch_result =
  pr_patches :: "targeted_patch list"
  pr_questions_to_add :: "generated_question list"
  pr_question_ids_to_resolve :: "string list"
  pr_change_summary :: string

section \<open>Dictionaries of the parts\<close>

type_synonym section_dict = "(string \<times> section_content) list"
type_synonym control_dict = "(string \<times> control_content) list"
type_synonym question_dict = "(string \<times> question_content) list"

definition sections_by_key :: "revision_content \<Rightarrow> section_dict" where
  "sections_by_key c = dict_of section_key (sections c)"

definition controls_by_id :: "revision_content \<Rightarrow> control_dict" where
  "controls_by_id c = dict_of control_id (controls c)"

definition questions_by_id :: "revision_content \<Rightarrow> question_dict" where
  "questions_by_id c = dict_of (\<lambda>q. uuid_str (question_id q)) (questions c)"

text \<open>\<open>_updated\<close> and the constructors validate what they build.\<close>

definition validated :: "('a \<Rightarrow> bool) \<Rightarrow> 'a \<Rightarrow> edit_error + 'a" where
  "validated valid x = (if valid x then Inr x else Inl EditValidationError)"

section \<open>Supporting evidence\<close>

definition link_key :: "py_env \<Rightarrow> evidence_link \<Rightarrow> uuid \<times> string" where
  "link_key env l = (artifact_id l, env_repr env (sort_key fst (locator l)))"

definition add_links ::
  "py_env \<Rightarrow> evidence_link list \<Rightarrow> ((uuid \<times> string) \<times> evidence_link) list
     \<Rightarrow> ((uuid \<times> string) \<times> evidence_link) list" where
  "add_links env ls d = fold (\<lambda>l d. dict_put (link_key env l) l d) ls d"

definition evidence_for_facts :: "py_env \<Rightarrow> string list \<Rightarrow> fact_dict \<Rightarrow> edit_error + evidence_link list" where
  "evidence_for_facts env fact_ids d =
     bindR (foldR (\<lambda>links i. case map_of d i of
         None \<Rightarrow> Inl (WorkspaceEditError ''unknown supporting fact'')
       | Some f \<Rightarrow> Inr (add_links env (fact_evidence f) links)) [] fact_ids)
     (\<lambda>links. Inr (map snd (sort_key (\<lambda>((a, r), l). (uuid_str a, r)) links)))"

section \<open>Categorization proposals\<close>

definition categorization_is_confirmed :: "fact_dict \<Rightarrow> bool" where
  "categorization_is_confirmed d =
     list_ex (\<lambda>(k, f). (fact_key f = CATEGORIZATION_STATUS_KEY \<and> fact_value f = JStr ''confirmed'') \<or>
       fact_key f \<in> set [''system.impact_level'', ''impact_level'']) d"

definition proposed_categorization_values :: "generated_categorization \<Rightarrow> (string \<times> string) list" where
  "proposed_categorization_values g =
     [(''system.confidentiality_impact'', gcat_confidentiality g),
      (''system.integrity_impact'', gcat_integrity g),
      (''system.availability_impact'', gcat_availability g),
      (''system.confidentiality_impact_rationale'', gcat_confidentiality_rationale g),
      (''system.integrity_impact_rationale'', gcat_integrity_rationale g),
      (''system.availability_impact_rationale'', gcat_availability_rationale g)]"

definition apply_categorization_proposal_to_facts ::
  "py_env \<Rightarrow> fact_dict \<Rightarrow> generated_categorization \<Rightarrow> edit_error + fact_dict" where
  "apply_categorization_proposal_to_facts env d g =
     (if categorization_is_confirmed d
      then Inl (WorkspaceEditError ''categorization is already confirmed'')
      else bindR (evidence_for_facts env (gcat_supporting_fact_ids g) d) (\<lambda>ev.
        foldR (\<lambda>d (k, v).
          bindR (validated valid_fact \<lparr>fact_key = k, fact_value = JStr v,
            fact_provenance = AGENT_GENERATED, fact_evidence = ev, fact_state = FACT_ACTIVE\<rparr>)
          (\<lambda>f. Inr (dict_put k f d))) d (proposed_categorization_values g)))"

definition merge_categorization_proposal ::
  "py_env \<Rightarrow> revision_content \<Rightarrow> generated_categorization \<Rightarrow> edit_error + revision_content" where
  "merge_categorization_proposal env c g =
     bindR (apply_categorization_proposal_to_facts env (facts_by_key c) g) (\<lambda>d. Inr (with_facts d c))"

section \<open>Questions\<close>

definition DIRECT_ANSWER_SECTION_KEYS :: "string list" where
  "DIRECT_ANSWER_SECTION_KEYS = [''system.name'', ''system.identifier'', ''system.owner'',
     ''system.isso'', ''system.impact_level'']"

definition direct_section_answer :: "string \<Rightarrow> string \<Rightarrow> section_dict \<Rightarrow> string option" where
  "direct_section_answer ttype tkey d =
     (if ttype \<noteq> ''ssp_section'' \<or> tkey \<notin> set DIRECT_ANSWER_SECTION_KEYS then None
      else case map_of d tkey of
        None \<Rightarrow> None
      | Some s \<Rightarrow> (let text = py_strip (section_text s) in if text = [] then None else Some text))"

definition resolve_direct_section_questions ::
  "question_dict \<Rightarrow> section_dict \<Rightarrow> edit_error + question_dict" where
  "resolve_direct_section_questions qs d =
     mapR (\<lambda>(k, q).
       case direct_section_answer (target_type q) (target_key q) d of
         None \<Rightarrow> Inr (k, q)
       | Some a \<Rightarrow>
           if question_state q = Q_OPEN
           then bindR (validated valid_question (q\<lparr>question_state := Q_ANSWERED, answer := Some a\<rparr>))
             (\<lambda>q'. Inr (k, q'))
           else Inr (k, q)) qs"

text \<open>\<open>re.sub(r"\s+", " ", text)\<close>\<close>

fun collapse_whitespace :: "bool \<Rightarrow> string \<Rightarrow> string" where
  "collapse_whitespace after_space [] = []"
| "collapse_whitespace after_space (c # s) =
     (if py_isspace c
      then (if after_space then collapse_whitespace True s else CHR '' '' # collapse_whitespace True s)
      else c # collapse_whitespace False s)"

definition deterministic_question_key :: "py_env \<Rightarrow> string \<Rightarrow> string \<Rightarrow> string \<Rightarrow> string" where
  "deterministic_question_key env ttype tid text =
     (let normalized = env_casefold env (collapse_whitespace False (py_strip text));
          source = ttype @ [CHR 0x0A] @ env_casefold env (py_strip tid) @ [CHR 0x0A] @ normalized
      in ''q_'' @ take 24 (env_sha256 env (utf8_encode source)))"

definition question_identity :: "py_env \<Rightarrow> question_content \<Rightarrow> string" where
  "question_identity env q = deterministic_question_key env (target_type q) (target_key q) (question q)"

definition new_question :: "py_env \<Rightarrow> generated_question \<Rightarrow> question_content" where
  "new_question env g = \<lparr>question_id = env_uuid5 env (gq_question_key g), question = gq_question g,
     target_type = gq_target_type g, target_key = gq_target_id g, owner_type = gq_owner_type g,
     question_state = Q_OPEN, answer = None\<rparr>"

text \<open>
  The loop over generated questions: \<open>existing\<close> are the identities before it; \<open>skip\<close> is the direct
  answer that makes a question unnecessary (only when merging a generation).
\<close>

definition add_questions ::
  "py_env \<Rightarrow> (generated_question \<Rightarrow> bool) \<Rightarrow> question_dict \<Rightarrow> generated_question list
     \<Rightarrow> edit_error + question_dict" where
  "add_questions env skip qs gs =
     (let existing = map (\<lambda>(k, q). question_identity env q) qs in
      foldR (\<lambda>d g.
        if skip g \<or> gq_question_key g \<in> set existing then Inr d
        else bindR (validated valid_question (new_question env g))
          (\<lambda>q. Inr (dict_put (uuid_str (question_id q)) q d))) qs gs)"

section \<open>Merging a generation\<close>

definition merge_section ::
  "py_env \<Rightarrow> fact_dict \<Rightarrow> section_dict \<Rightarrow> generated_section \<Rightarrow> edit_error + section_dict" where
  "merge_section env fs d g =
     (case map_of d (gs_section_id g) of
        None \<Rightarrow> Inl (WorkspaceEditError ''unknown SSP section'')
      | Some current \<Rightarrow>
          if section_state current \<in> {SEC_EDITED, SEC_REVIEWED} then Inr d
          else
            bindR (evidence_for_facts env (gs_supporting_fact_ids g) fs) (\<lambda>ev.
            bindR (validated valid_section (current\<lparr>section_text := gs_content g,
              section_state := (if has_text (gs_content g) then SEC_GENERATED else SEC_EMPTY),
              section_evidence := ev\<rparr>)) (\<lambda>s. Inr (dict_put (gs_section_id g) s d))))"

definition merge_control ::
  "py_env \<Rightarrow> fact_dict \<Rightarrow> control_dict \<Rightarrow> generated_control \<Rightarrow> edit_error + control_dict" where
  "merge_control env fs d g =
     (case map_of d (gc_control_id g) of
        None \<Rightarrow> Inl (WorkspaceEditError ''unknown control'')
      | Some current \<Rightarrow>
          if control_state current = CTL_REVIEWED then Inr d
          else
            let has_statement = has_text (gc_implementation_statement g) in
            bindR (evidence_for_facts env (gc_supporting_fact_ids g) fs) (\<lambda>ev.
            bindR (validated valid_control (current\<lparr>
              implementation_status := Some (gc_implementation_status g),
              responsibility := Some (gc_responsibility g),
              implementation_statement := gc_implementation_statement g,
              control_state := (if has_statement then CTL_GENERATED else CTL_PARTIAL),
              control_evidence := ev,
              unresolved_reason := (if has_statement then None else Some ''Information is not available.'')\<rparr>))
            (\<lambda>x. Inr (dict_put (gc_control_id g) x d))))"

definition construct_content ::
  "fact_dict \<Rightarrow> section_dict \<Rightarrow> control_dict \<Rightarrow> question_dict \<Rightarrow> edit_error + revision_content" where
  "construct_content fs ss cs qs = validated valid_content \<lparr>facts = sorted_values fs,
     sections = sorted_values ss, controls = sorted_values cs, questions = sorted_values qs\<rparr>"

definition merge_generation ::
  "py_env \<Rightarrow> revision_content \<Rightarrow> generation_result \<Rightarrow> edit_error + revision_content" where
  "merge_generation env c result =
     (let fs = facts_by_key c in
      bindR (foldR (merge_section env fs) (sections_by_key c) (gen_sections result)) (\<lambda>ss.
      bindR (foldR (merge_control env fs) (controls_by_id c) (gen_controls result)) (\<lambda>cs.
      bindR (case gen_categorization result of
          Some g \<Rightarrow> if \<not> categorization_is_confirmed fs
            then apply_categorization_proposal_to_facts env fs g else Inr fs
        | None \<Rightarrow> Inr fs) (\<lambda>fs'.
      bindR (resolve_direct_section_questions (questions_by_id c) ss) (\<lambda>qs.
      bindR (add_questions env
          (\<lambda>g. direct_section_answer (gq_target_type g) (gq_target_id g) ss \<noteq> None) qs (gen_questions result))
      (\<lambda>qs'. construct_content fs' ss cs qs'))))))"

section \<open>Applying a patch\<close>

definition get_change :: "string \<Rightarrow> 'a \<Rightarrow> (string \<Rightarrow> 'a) \<Rightarrow> targeted_patch \<Rightarrow> 'a" where
  "get_change name old f p = (case map_of (tp_changes p) name of None \<Rightarrow> old | Some v \<Rightarrow> f v)"

definition patch_section ::
  "targeted_patch \<Rightarrow> evidence_link list \<Rightarrow> section_dict \<Rightarrow> edit_error + section_dict" where
  "patch_section p ev d =
     (case map_of d (tp_target_id p) of
        None \<Rightarrow> Inl (WorkspaceEditError ''unknown SSP section'')
      | Some current \<Rightarrow>
          let text = get_change ''content'' (section_text current) id p in
          bindR (validated valid_section (current\<lparr>section_text := text,
            section_state := (if has_text text then SEC_GENERATED else SEC_EMPTY),
            section_evidence := (if ev = [] then section_evidence current else ev)\<rparr>))
          (\<lambda>s. Inr (dict_put (tp_target_id p) s d)))"

definition patch_control ::
  "targeted_patch \<Rightarrow> evidence_link list \<Rightarrow> control_dict \<Rightarrow> edit_error + control_dict" where
  "patch_control p ev d =
     (case map_of d (tp_target_id p) of
        None \<Rightarrow> Inl (WorkspaceEditError ''unknown control'')
      | Some current \<Rightarrow>
          let statement = get_change ''implementation_statement'' (implementation_statement current) id p in
          bindR (validated valid_control (current\<lparr>implementation_statement := statement,
            implementation_status := get_change ''implementation_status'' (implementation_status current) Some p,
            responsibility := get_change ''responsibility'' (responsibility current) Some p,
            control_state := (if has_text statement then CTL_GENERATED else CTL_PARTIAL),
            control_evidence := (if ev = [] then control_evidence current else ev),
            unresolved_reason := (if has_text statement then None else unresolved_reason current)\<rparr>))
          (\<lambda>x. Inr (dict_put (tp_target_id p) x d)))"

definition apply_targeted_patch ::
  "py_env \<Rightarrow> fact_dict \<Rightarrow> int \<Rightarrow> section_dict \<times> control_dict \<Rightarrow> targeted_patch
     \<Rightarrow> edit_error + section_dict \<times> control_dict" where
  "apply_targeted_patch env fs current_revision parts p =
     (if tp_expected_revision p \<noteq> current_revision then Inl (WorkspaceEditError ''patch is stale'')
      else bindR (evidence_for_facts env (tp_supporting_fact_ids p) fs) (\<lambda>ev.
        if tp_target_type p = ''ssp_section''
        then bindR (patch_section p ev (fst parts)) (\<lambda>ss. Inr (ss, snd parts))
        else bindR (patch_control p ev (snd parts)) (\<lambda>cs. Inr (fst parts, cs))))"

definition dismiss_question :: "question_dict \<Rightarrow> string \<Rightarrow> edit_error + question_dict" where
  "dismiss_question d i =
     (case map_of d i of
        None \<Rightarrow> Inl (WorkspaceEditError ''unknown question'')
      | Some q \<Rightarrow> bindR (validated valid_question (q\<lparr>question_state := Q_DISMISSED\<rparr>))
          (\<lambda>q'. Inr (dict_put i q' d)))"

definition mark_stale :: "string \<Rightarrow> revision_content \<Rightarrow> revision_content" where
  "mark_stale key c = mark_information_types_stale_if_needed key
     (mark_system_definition_stale_if_needed key (mark_categorization_stale_if_needed key c))"

definition patched_sections :: "patch_result \<Rightarrow> string list" where
  "patched_sections result =
     map tp_target_id (filter (\<lambda>p. tp_target_type p = ''ssp_section'') (pr_patches result))"

definition apply_agent_patch ::
  "py_env \<Rightarrow> revision_content \<Rightarrow> patch_result \<Rightarrow> int \<Rightarrow> edit_error + revision_content" where
  "apply_agent_patch env c result current_revision =
     bindR (foldR (apply_targeted_patch env (facts_by_key c) current_revision)
       (sections_by_key c, controls_by_id c) (pr_patches result)) (\<lambda>(ss, cs).
     bindR (foldR dismiss_question (questions_by_id c) (pr_question_ids_to_resolve result)) (\<lambda>qs.
     bindR (add_questions env (\<lambda>_. False) qs (pr_questions_to_add result)) (\<lambda>qs'.
     bindR (validated valid_content \<lparr>facts = facts c, sections = sorted_values ss,
       controls = sorted_values cs, questions = sorted_values qs'\<rparr>) (\<lambda>updated.
     Inr (fold mark_stale (patched_sections result) updated)))))"

section \<open>Direct edits\<close>

definition edit_section :: "revision_content \<Rightarrow> string \<Rightarrow> string \<Rightarrow> edit_error + revision_content" where
  "edit_section c key text =
     (case find (\<lambda>s. section_key s = key) (sections c) of
        None \<Rightarrow> Inl (WorkspaceEditError ''unknown SSP section'')
      | Some s \<Rightarrow>
          bindR (validated valid_section (s\<lparr>section_text := text,
            section_state := (if has_text text then SEC_EDITED else SEC_EMPTY)\<rparr>)) (\<lambda>s'.
          let ss = update_where (\<lambda>x. section_key x = key) (\<lambda>_. s') (sections c) in
          bindR (resolve_direct_section_questions (questions_by_id c) (dict_of section_key ss)) (\<lambda>qs.
          bindR (validated valid_content (c\<lparr>sections := ss, questions := sorted_values qs\<rparr>)) (\<lambda>updated.
          Inr (mark_stale key updated)))))"

definition edit_control ::
  "revision_content \<Rightarrow> string \<Rightarrow> string \<Rightarrow> string option \<Rightarrow> string option \<Rightarrow> edit_error + revision_content" where
  "edit_control c cid statement status resp =
     (case find (\<lambda>x. control_id x = cid) (controls c) of
        None \<Rightarrow> Inl (WorkspaceEditError ''unknown control'')
      | Some x \<Rightarrow>
          bindR (validated valid_control (x\<lparr>implementation_statement := statement,
            implementation_status := status, responsibility := resp,
            control_state := (if has_text statement then CTL_REVIEWED else CTL_PARTIAL),
            unresolved_reason := (if has_text statement then None
              else case unresolved_reason x of
                Some (ch # r) \<Rightarrow> Some (ch # r)
              | _ \<Rightarrow> Some ''Information is not available.'')\<rparr>)) (\<lambda>x'.
          validated valid_content
            (c\<lparr>controls := update_where (\<lambda>y. control_id y = cid) (\<lambda>_. x') (controls c)\<rparr>)))"

definition answer_matching :: "question_content \<Rightarrow> string \<Rightarrow> question_content \<Rightarrow> edit_error + question_content" where
  "answer_matching selected text q =
     (if question_state q = Q_OPEN \<and> target_type q = target_type selected \<and> target_key q = target_key selected
      then validated valid_question (q\<lparr>question_state := Q_ANSWERED, answer := Some text\<rparr>)
      else Inr q)"

definition answer_section :: "question_content \<Rightarrow> string \<Rightarrow> section_content list \<Rightarrow> edit_error + section_content list" where
  "answer_section selected text ss =
     (if target_type selected = ''ssp_section'' \<and> target_key selected \<in> set DIRECT_ANSWER_SECTION_KEYS
      then case find (\<lambda>s. section_key s = target_key selected) ss of
          None \<Rightarrow> Inl (WorkspaceEditError ''unknown SSP section'')
        | Some s \<Rightarrow> bindR (validated valid_section (s\<lparr>section_text := text, section_state := SEC_EDITED\<rparr>))
            (\<lambda>s'. Inr (update_where (\<lambda>x. section_key x = target_key selected) (\<lambda>_. s') ss))
      else Inr ss)"

definition answer_question :: "revision_content \<Rightarrow> uuid \<Rightarrow> string \<Rightarrow> edit_error + revision_content" where
  "answer_question c qid text =
     (let normalized = py_strip text in
      if normalized = [] then Inl (WorkspaceEditError ''answer cannot be empty'')
      else case find (\<lambda>q. question_id q = qid) (questions c) of
          None \<Rightarrow> Inl (WorkspaceEditError ''unknown question'')
        | Some selected \<Rightarrow>
            if question_state selected \<noteq> Q_OPEN then Inl WorkspaceQuestionStateError
            else
              bindR (answer_section selected normalized (sections c)) (\<lambda>ss.
              bindR (mapR (answer_matching selected normalized) (questions c)) (\<lambda>qs.
              validated valid_content (c\<lparr>sections := ss, questions := qs\<rparr>))))"

end
