(* ===== verification/EditingProperties.thy ===== *)
theory EditingProperties
  imports Editing
begin

text \<open>
  What the transforms of \<open>Editing\<close> promise: they keep a content valid, generated text does not
  replace what a person has written, a patch reaches only its targets, an answer settles every open
  question of its target, and an edit of a section makes the confirmations that depend on it stale.
\<close>

lemma validated_Inr [result_simps]: "validated valid x = Inr y \<longleftrightarrow> y = x \<and> valid x"
  by (auto simp: validated_def)

lemma keyed_parts [simp]:
  "keyed_by section_key (sections_by_key c)" "keyed_by control_id (controls_by_id c)"
  "keyed_by (\<lambda>q. uuid_str (question_id q)) (questions_by_id c)"
  by (simp_all add: sections_by_key_def controls_by_id_def questions_by_id_def)

lemma map_of_keys: "fst ` set d = dom (map_of d)"
  by (simp add: dom_map_of_conv_image_fst)

section \<open>Dictionaries that keep protected entries\<close>

text \<open>The keys of \<open>d0\<close>, every value filed under its key, and the values of \<open>d0\<close> with \<open>P\<close> unchanged.\<close>

definition dict_keeps :: "('v \<Rightarrow> string) \<Rightarrow> ('v \<Rightarrow> bool) \<Rightarrow> (string \<times> 'v) list \<Rightarrow> (string \<times> 'v) list \<Rightarrow> bool" where
  "dict_keeps key P d0 d =
     (keyed_by key d \<and> fst ` set d = fst ` set d0 \<and>
      (\<forall>k v. map_of d0 k = Some v \<longrightarrow> P v \<longrightarrow> map_of d k = Some v))"

lemma dict_keeps_refl: "keyed_by key d \<Longrightarrow> dict_keeps key P d d"
  by (simp add: dict_keeps_def)

lemma dict_keeps_keyed: "dict_keeps key P d0 d \<Longrightarrow> keyed_by key d"
  by (simp add: dict_keeps_def)

lemma dict_keeps_put:
  assumes d: "dict_keeps key P d0 d" and cur: "map_of d k = Some v" "\<not> P v" and w: "key w = key v"
  shows "dict_keeps key P d0 (dict_put k w d)"
proof -
  have "key w = k" using keyed_by_lookup [OF dict_keeps_keyed [OF d] cur(1)] w by simp
  moreover have "k \<in> fst ` set d" using cur by (simp add: map_of_keys domI)
  moreover have "k' \<noteq> k" if "map_of d0 k' = Some x" "P x" for k' x
    using that d cur by (metis dict_keeps_def option.inject)
  ultimately show ?thesis using d by (auto simp: dict_keeps_def insert_absorb)
qed

section \<open>Merging a generation\<close>

definition human_section :: "section_content \<Rightarrow> bool" where
  "human_section s = (section_state s \<in> {SEC_EDITED, SEC_REVIEWED})"

definition human_control :: "control_content \<Rightarrow> bool" where
  "human_control x = (control_state x = CTL_REVIEWED)"

lemma merge_section_keeps:
  assumes "dict_keeps section_key human_section d0 d" and "merge_section env fs d g = Inr d'"
  shows "dict_keeps section_key human_section d0 d'"
proof -
  obtain current where cur: "map_of d (gs_section_id g) = Some current"
    using assms(2) by (auto simp: merge_section_def split: option.splits)
  show ?thesis
  proof (cases "human_section current")
    case True
    then show ?thesis using assms cur by (auto simp: merge_section_def human_section_def)
  next
    case False
    then obtain s where "d' = dict_put (gs_section_id g) s d" "section_key s = section_key current"
      using assms(2) cur by (auto simp: merge_section_def human_section_def result_simps)
    then show ?thesis using dict_keeps_put [OF assms(1) cur False] by simp
  qed
qed

lemma merge_control_keeps:
  assumes "dict_keeps control_id human_control d0 d" and "merge_control env fs d g = Inr d'"
  shows "dict_keeps control_id human_control d0 d'"
proof -
  obtain current where cur: "map_of d (gc_control_id g) = Some current"
    using assms(2) by (auto simp: merge_control_def split: option.splits)
  show ?thesis
  proof (cases "human_control current")
    case True
    then show ?thesis using assms cur by (auto simp: merge_control_def human_control_def)
  next
    case False
    then obtain x where "d' = dict_put (gc_control_id g) x d" "control_id x = control_id current"
      using assms(2) cur by (auto simp: merge_control_def human_control_def result_simps Let_def)
    then show ?thesis using dict_keeps_put [OF assms(1) cur False] by simp
  qed
qed

definition PROPOSED_FACT_KEYS :: "string list" where
  "PROPOSED_FACT_KEYS = IMPACT_FACT_KEYS @ RATIONALE_FACT_KEYS"

definition facts_survive :: "fact_dict \<Rightarrow> fact_dict \<Rightarrow> bool" where
  "facts_survive d d' =
     (keyed d' \<and> (\<forall>k. k \<notin> set PROPOSED_FACT_KEYS \<longrightarrow> map_of d' k = map_of d k) \<and>
      ((\<forall>(k, f) \<in> set d. valid_fact f) \<longrightarrow> (\<forall>(k, f) \<in> set d'. valid_fact f)))"

lemma proposed_keys: "map fst (proposed_categorization_values g) = PROPOSED_FACT_KEYS"
  by (simp add: proposed_categorization_values_def PROPOSED_FACT_KEYS_def IMPACT_FACT_KEYS_def RATIONALE_FACT_KEYS_def)

lemma proposal_survive:
  assumes "keyed d" and "apply_categorization_proposal_to_facts env d g = Inr d'"
  shows "facts_survive d d'"
proof -
  let ?step = "\<lambda>ev d (k, v). bindR (validated valid_fact \<lparr>fact_key = k, fact_value = JStr v,
    fact_provenance = AGENT_GENERATED, fact_evidence = ev, fact_state = FACT_ACTIVE\<rparr>)
    (\<lambda>f. Inr (dict_put k f d))"
  obtain ev where run: "foldR (?step ev) d (proposed_categorization_values g) = Inr d'"
    using assms(2) by (auto simp: apply_categorization_proposal_to_facts_def result_simps split: if_splits)
  show ?thesis
  proof (rule foldR_invariant [OF _ _ run])
    show "facts_survive d d" using assms(1) by (simp add: facts_survive_def)
    fix d1 x d2
    assume d1: "facts_survive d d1" and x: "x \<in> set (proposed_categorization_values g)" and "?step ev d1 x = Inr d2"
    then obtain k v f where f: "x = (k, v)" "d2 = dict_put k f d1" "fact_key f = k" "valid_fact f"
      by (cases x) (auto simp: result_simps)
    have "k \<in> set PROPOSED_FACT_KEYS" using x f(1) by (metis fst_conv image_eqI list.set_map proposed_keys)
    then show "facts_survive d d2"
      using d1 f set_dict_put [of k f d1] unfolding facts_survive_def by fastforce
  qed
qed

text \<open>What a merge never changes: text a person has written, the facts no proposal fills in, the keys.\<close>

definition human_text_kept :: "revision_content \<Rightarrow> revision_content \<Rightarrow> bool" where
  "human_text_kept c c' =
     ((\<forall>s \<in> set (sections c). human_section s \<longrightarrow> s \<in> set (sections c')) \<and>
      (\<forall>x \<in> set (controls c). human_control x \<longrightarrow> x \<in> set (controls c')))"

definition same_parts :: "revision_content \<Rightarrow> revision_content \<Rightarrow> bool" where
  "same_parts c c' =
     (section_key ` set (sections c') = section_key ` set (sections c) \<and>
      control_id ` set (controls c') = control_id ` set (controls c))"

definition other_facts_kept :: "revision_content \<Rightarrow> revision_content \<Rightarrow> bool" where
  "other_facts_kept c c' = (\<forall>k. k \<notin> set PROPOSED_FACT_KEYS \<longrightarrow> fact_of c' k = fact_of c k)"

lemma construct_Inr [result_simps]:
  "construct_content fs ss cs qs = Inr c \<longleftrightarrow>
     c = \<lparr>facts = sorted_values fs, sections = sorted_values ss, controls = sorted_values cs,
          questions = sorted_values qs\<rparr> \<and> valid_content c"
  by (auto simp: construct_content_def result_simps)

lemma merge_generation_parts:
  assumes "merge_generation env c result = Inr c'"
  obtains ss cs fs qs qs' where
    "foldR (merge_section env (facts_by_key c)) (sections_by_key c) (gen_sections result) = Inr ss"
    "foldR (merge_control env (facts_by_key c)) (controls_by_id c) (gen_controls result) = Inr cs"
    "facts_survive (facts_by_key c) fs"
    "resolve_direct_section_questions (questions_by_id c) ss = Inr qs"
    "add_questions env (\<lambda>g. direct_section_answer (gq_target_type g) (gq_target_id g) ss \<noteq> None) qs
       (gen_questions result) = Inr qs'"
    "construct_content fs ss cs qs' = Inr c'"
proof -
  from assms obtain ss cs fs qs qs' where
    parts: "foldR (merge_section env (facts_by_key c)) (sections_by_key c) (gen_sections result) = Inr ss"
    "foldR (merge_control env (facts_by_key c)) (controls_by_id c) (gen_controls result) = Inr cs"
    "resolve_direct_section_questions (questions_by_id c) ss = Inr qs"
    "add_questions env (\<lambda>g. direct_section_answer (gq_target_type g) (gq_target_id g) ss \<noteq> None) qs
       (gen_questions result) = Inr qs'"
    "construct_content fs ss cs qs' = Inr c'" and
    fs: "(case gen_categorization result of
          Some g \<Rightarrow> if \<not> categorization_is_confirmed (facts_by_key c)
            then apply_categorization_proposal_to_facts env (facts_by_key c) g else Inr (facts_by_key c)
        | None \<Rightarrow> Inr (facts_by_key c)) = Inr fs"
    unfolding merge_generation_def Let_def bindR_eq_Inr by blast
  have "facts_survive (facts_by_key c) (facts_by_key c)" by (simp add: facts_survive_def)
  then have "facts_survive (facts_by_key c) fs"
    using fs proposal_survive [OF keyed_facts_by_key] by (auto split: option.splits if_splits)
  then show ?thesis using parts that by blast
qed

lemma dict_keeps_values:
  assumes "dict_keeps key P (dict_of key xs) d" and "distinct (map key xs)" and "x \<in> set xs" and "P x"
  shows "x \<in> set (sorted_values d)"
proof -
  have "map_of d (key x) = Some x"
    using assms dict_of_lookup [OF assms(2,3)] by (simp add: dict_keeps_def)
  then show ?thesis using keyed_by_in_values [OF dict_keeps_keyed [OF assms(1)]] by simp
qed

lemma keyed_by_keys: "keyed_by key d \<Longrightarrow> key ` set (sorted_values d) = fst ` set d"
  by (force simp: keyed_by_def)

lemma dict_keeps_keys:
  "dict_keeps key P (dict_of key xs) d \<Longrightarrow> key ` set (sorted_values d) = key ` set xs"
  by (simp only: keyed_by_keys [OF dict_keeps_keyed]) (simp only: dict_keeps_def keys_dict_of)

lemma fact_of_values: "keyed d \<Longrightarrow> facts c = sorted_values d \<Longrightarrow> fact_of c k = map_of d k"
  by (simp add: fact_of_def facts_by_key_def keyed_by_lookup_values)

lemma valid_contentD:
  assumes "valid_content c"
  shows "distinct (map fact_key (facts c))" "distinct (map section_key (sections c))"
    "distinct (map control_id (controls c))" "distinct (map question_id (questions c))"
  using assms by (simp_all add: valid_content_def)

lemma merge_generation_keeps:
  assumes "merge_generation env c result = Inr c'" and "valid_content c"
  shows "human_text_kept c c' \<and> same_parts c c' \<and> other_facts_kept c c'"
proof -
  from assms(1) obtain ss cs fs qs qs' where
    ss: "foldR (merge_section env (facts_by_key c)) (sections_by_key c) (gen_sections result) = Inr ss" and
    cs: "foldR (merge_control env (facts_by_key c)) (controls_by_id c) (gen_controls result) = Inr cs" and
    fs: "facts_survive (facts_by_key c) fs" and
    c': "construct_content fs ss cs qs' = Inr c'"
    by (rule merge_generation_parts)
  have S: "dict_keeps section_key human_section (dict_of section_key (sections c)) ss"
    by (rule foldR_invariant [OF merge_section_keeps _ ss])
      (simp_all add: sections_by_key_def dict_keeps_refl)
  have C: "dict_keeps control_id human_control (dict_of control_id (controls c)) cs"
    by (rule foldR_invariant [OF merge_control_keeps _ cs])
      (simp_all add: controls_by_id_def dict_keeps_refl)
  have parts: "facts c' = sorted_values fs" "sections c' = sorted_values ss" "controls c' = sorted_values cs"
    using c' by (simp_all add: construct_Inr)
  have "other_facts_kept c c'"
    using fs fact_of_values [OF _ parts(1)] by (simp add: other_facts_kept_def facts_survive_def map_of_facts_by_key)
  moreover have "same_parts c c'"
    using dict_keeps_keys [OF S] dict_keeps_keys [OF C] by (simp only: same_parts_def parts)
  moreover have "human_text_kept c c'"
    using dict_keeps_values [OF S valid_contentD(2) [OF assms(2)]]
      dict_keeps_values [OF C valid_contentD(3) [OF assms(2)]]
    by (simp only: human_text_kept_def parts) blast
  ultimately show ?thesis by blast
qed

section \<open>The confirmations after an edit\<close>

lemma statuses_cong:
  "fact_of c' CATEGORIZATION_STATUS_KEY = fact_of c CATEGORIZATION_STATUS_KEY \<Longrightarrow>
    categorization_status_of c' = categorization_status_of c"
  "fact_of c' SYSTEM_DEFINITION_STATUS_KEY = fact_of c SYSTEM_DEFINITION_STATUS_KEY \<Longrightarrow>
    system_definition_status_of c' = system_definition_status_of c"
  "fact_of c' INFORMATION_TYPES_STATUS_KEY = fact_of c INFORMATION_TYPES_STATUS_KEY \<Longrightarrow>
    information_types_status_of c' = information_types_status_of c"
  by (simp_all add: categorization_status_of_def system_definition_status_of_def
    information_types_status_of_def active_categorization_status_def active_system_definition_status_def
    active_information_types_status_def statuses_of_content)

lemma status_keys:
  "CATEGORIZATION_STATUS_KEY \<notin> set PROPOSED_FACT_KEYS" "SYSTEM_DEFINITION_STATUS_KEY \<notin> set PROPOSED_FACT_KEYS"
  "INFORMATION_TYPES_STATUS_KEY \<notin> set PROPOSED_FACT_KEYS" "''system.impact_level'' \<notin> set PROPOSED_FACT_KEYS"
  "CATEGORIZATION_STATUS_KEY \<noteq> SYSTEM_DEFINITION_STATUS_KEY" "CATEGORIZATION_STATUS_KEY \<noteq> INFORMATION_TYPES_STATUS_KEY"
  "SYSTEM_DEFINITION_STATUS_KEY \<noteq> INFORMATION_TYPES_STATUS_KEY"
  "SYSTEM_DEFINITION_STATUS_KEY \<noteq> ''system.provisional_impact_level''"
  "INFORMATION_TYPES_STATUS_KEY \<noteq> ''system.provisional_impact_level''"
  by (simp_all add: PROPOSED_FACT_KEYS_def IMPACT_FACT_KEYS_def RATIONALE_FACT_KEYS_def
    CATEGORIZATION_STATUS_KEY_def SYSTEM_DEFINITION_STATUS_KEY_def INFORMATION_TYPES_STATUS_KEY_def)

definition stale_if :: "bool \<Rightarrow> string option \<Rightarrow> string option" where
  "stale_if trigger status = (if trigger \<and> status = Some ''confirmed'' then Some ''stale'' else status)"

definition statuses_after :: "string set \<Rightarrow> revision_content \<Rightarrow> revision_content \<Rightarrow> bool" where
  "statuses_after edited c c' =
     (categorization_status_of c' = stale_if (\<exists>k \<in> edited. k \<in> set CATEGORIZATION_TRIGGERS) (categorization_status_of c) \<and>
      system_definition_status_of c' = stale_if (\<exists>k \<in> edited. k \<in> set SYSTEM_DEFINITION_TRIGGERS) (system_definition_status_of c) \<and>
      information_types_status_of c' = stale_if (\<exists>k \<in> edited. k = INFORMATION_TYPES_SECTION_KEY) (information_types_status_of c))"

lemma statuses_after_one:
  "statuses_after {k} c c' \<longleftrightarrow>
     categorization_status_of c' = stale_if (k \<in> set CATEGORIZATION_TRIGGERS) (categorization_status_of c) \<and>
     system_definition_status_of c' = stale_if (k \<in> set SYSTEM_DEFINITION_TRIGGERS) (system_definition_status_of c) \<and>
     information_types_status_of c' = stale_if (k = INFORMATION_TYPES_SECTION_KEY) (information_types_status_of c)"
  by (simp add: statuses_after_def eq_commute [of k])

lemma stale_if_stale_if [simp]: "stale_if p (stale_if q s) = stale_if (q \<or> p) s"
  by (simp add: stale_if_def)

lemma mark_stale_statuses: "statuses_after {key} c (mark_stale key c)"
proof -
  let ?c1 = "mark_categorization_stale_if_needed key c"
  let ?c2 = "mark_system_definition_stale_if_needed key ?c1"
  let ?c3 = "mark_information_types_stale_if_needed key ?c2"
  have cat1: "categorization_status_of ?c1 = stale_if (key \<in> set CATEGORIZATION_TRIGGERS) (categorization_status_of c)"
    by (simp add: categorization.mark_status stale_if_def)
  have sys2: "system_definition_status_of ?c2 = stale_if (key \<in> set SYSTEM_DEFINITION_TRIGGERS) (system_definition_status_of ?c1)"
    by (simp add: system_definition.mark_status stale_if_def)
  have inf3: "information_types_status_of ?c3 = stale_if (key = INFORMATION_TYPES_SECTION_KEY) (information_types_status_of ?c2)"
    by (simp add: information_types.mark_status stale_if_def)
  have "system_definition_status_of ?c1 = system_definition_status_of c"
      "information_types_status_of ?c1 = information_types_status_of c"
    using status_keys statuses_cong(2) [OF categorization.keeps_facts] statuses_cong(3) [OF categorization.keeps_facts]
    by (metis singletonD empty_iff)+
  moreover have "categorization_status_of ?c2 = categorization_status_of ?c1"
      "information_types_status_of ?c2 = information_types_status_of ?c1"
    using status_keys statuses_cong(1) [OF system_definition.keeps_facts] statuses_cong(3) [OF system_definition.keeps_facts]
    by (metis singletonD empty_iff)+
  moreover have "categorization_status_of ?c3 = categorization_status_of ?c2"
      "system_definition_status_of ?c3 = system_definition_status_of ?c2"
    using status_keys statuses_cong(1) [OF information_types.keeps_facts] statuses_cong(2) [OF information_types.keeps_facts]
    by (metis singletonD empty_iff)+
  ultimately show ?thesis
    unfolding statuses_after_one mark_stale_def using cat1 sys2 inf3 by (simp only:)
qed

lemma mark_stale_rest [simp]:
  "sections (mark_stale k c) = sections c" "controls (mark_stale k c) = controls c"
  "questions (mark_stale k c) = questions c"
  by (simp_all add: mark_stale_def categorization.keeps_rest system_definition.keeps_rest information_types.keeps_rest)

lemma mark_stale_valid: "valid_content c \<Longrightarrow> valid_content (mark_stale k c)"
  by (simp add: mark_stale_def categorization.keeps_valid system_definition.keeps_valid information_types.keeps_valid)

lemma statuses_after_trans: "statuses_after A c d \<Longrightarrow> statuses_after B d e \<Longrightarrow> statuses_after (A \<union> B) c e"
  by (simp add: statuses_after_def bex_Un)

lemma statuses_after_same_facts: "facts c' = facts c \<Longrightarrow> statuses_after {} c c'"
proof -
  assume "facts c' = facts c"
  then have "fact_of c' = fact_of c" by (simp add: fact_of_def facts_by_key_def fun_eq_iff)
  then show ?thesis using statuses_cong [of c' c] by (simp add: statuses_after_def stale_if_def)
qed

lemma fold_mark_stale:
  "sections (fold mark_stale ks c) = sections c \<and> controls (fold mark_stale ks c) = controls c \<and>
   questions (fold mark_stale ks c) = questions c \<and> statuses_after (set ks) c (fold mark_stale ks c) \<and>
   (valid_content c \<longrightarrow> valid_content (fold mark_stale ks c))"
proof (induction ks arbitrary: c)
  case Nil
  then show ?case by (simp add: statuses_after_same_facts)
next
  case (Cons k ks)
  then show ?case
    using Cons [of "mark_stale k c"] mark_stale_valid [of c k]
      statuses_after_trans [OF mark_stale_statuses [of k c]] by simp
qed

section \<open>Questions with a direct answer\<close>

definition resolved_question :: "section_dict \<Rightarrow> question_content \<Rightarrow> question_content" where
  "resolved_question d q =
     (case direct_section_answer (target_type q) (target_key q) d of
        None \<Rightarrow> q
      | Some a \<Rightarrow> if question_state q = Q_OPEN then q\<lparr>question_state := Q_ANSWERED, answer := Some a\<rparr> else q)"

definition unanswered_direct :: "section_dict \<Rightarrow> question_content \<Rightarrow> bool" where
  "unanswered_direct d q =
     (question_state q = Q_OPEN \<and> direct_section_answer (target_type q) (target_key q) d \<noteq> None)"

lemma resolve_eq:
  assumes "resolve_direct_section_questions qs d = Inr qs'"
  shows "qs' = map (\<lambda>(k, q). (k, resolved_question d q)) qs"
  using assms unfolding resolve_direct_section_questions_def
  by (rule mapR_eq_map) (auto simp: resolved_question_def result_simps split: option.splits if_splits)

lemma resolved_not_open [simp]: "\<not> unanswered_direct d (resolved_question d q)"
  by (auto simp: unanswered_direct_def resolved_question_def split: option.splits)

lemma question_id_resolved [simp]: "question_id (resolved_question d q) = question_id q"
  by (simp add: resolved_question_def split: option.splits)

lemma resolve_none_open:
  assumes "resolve_direct_section_questions qs d = Inr qs'"
  shows "\<forall>q \<in> snd ` set qs'. \<not> unanswered_direct d q"
  using resolve_eq [OF assms] by auto

lemma add_questions_none_open:
  assumes "add_questions env skip qs gs = Inr qs'"
    and "\<And>g. \<not> skip g \<Longrightarrow> direct_section_answer (gq_target_type g) (gq_target_id g) d = None"
    and "\<forall>q \<in> snd ` set qs. \<not> unanswered_direct d q"
  shows "\<forall>q \<in> snd ` set qs'. \<not> unanswered_direct d q"
proof -
  let ?existing = "map (\<lambda>(k, q). question_identity env q) qs"
  let ?step = "\<lambda>d g. if skip g \<or> gq_question_key g \<in> set ?existing then Inr d
        else bindR (validated valid_question (new_question env g))
          (\<lambda>q. Inr (dict_put (uuid_str (question_id q)) q d))"
  have run: "foldR ?step qs gs = Inr qs'" using assms(1) by (simp add: add_questions_def Let_def)
  show ?thesis
  proof (rule foldR_invariant [OF _ _ run])
    show "\<forall>q \<in> snd ` set qs. \<not> unanswered_direct d q" by (rule assms(3))
    fix d1 g d2
    assume d1: "\<forall>q \<in> snd ` set d1. \<not> unanswered_direct d q" and "?step d1 g = Inr d2"
    then show "\<forall>q \<in> snd ` set d2. \<not> unanswered_direct d q"
    proof (cases "skip g \<or> gq_question_key g \<in> set ?existing")
      case False
      then have "d2 = dict_put (uuid_str (question_id (new_question env g))) (new_question env g) d1"
        using \<open>?step d1 g = Inr d2\<close> by (auto simp: result_simps)
      moreover have "\<not> unanswered_direct d (new_question env g)"
        using False assms(2) [of g] by (simp add: unanswered_direct_def new_question_def)
      ultimately show ?thesis using d1 set_dict_put by fastforce
    qed (use d1 in auto)
  qed
qed

definition direct_questions_settled :: "revision_content \<Rightarrow> bool" where
  "direct_questions_settled c = (\<forall>q \<in> set (questions c). \<not> unanswered_direct (sections_by_key c) q)"

lemma direct_section_answer_cong:
  "(\<And>k. map_of d k = map_of d' k) \<Longrightarrow> direct_section_answer t k d = direct_section_answer t k d'"
  by (simp add: direct_section_answer_def)

lemma merge_generation_settles:
  assumes "merge_generation env c result = Inr c'"
  shows "direct_questions_settled c'"
proof -
  from assms obtain ss cs fs qs qs' where
    ss: "foldR (merge_section env (facts_by_key c)) (sections_by_key c) (gen_sections result) = Inr ss" and
    qs: "resolve_direct_section_questions (questions_by_id c) ss = Inr qs"
    "add_questions env (\<lambda>g. direct_section_answer (gq_target_type g) (gq_target_id g) ss \<noteq> None) qs
       (gen_questions result) = Inr qs'" and
    c': "construct_content fs ss cs qs' = Inr c'"
    by (rule merge_generation_parts)
  have S: "dict_keeps section_key human_section (dict_of section_key (sections c)) ss"
    by (rule foldR_invariant [OF merge_section_keeps _ ss])
      (simp_all add: sections_by_key_def dict_keeps_refl)
  have "\<forall>q \<in> snd ` set qs'. \<not> unanswered_direct ss q"
    by (rule add_questions_none_open [OF qs(2)]) (use resolve_none_open [OF qs(1)] in auto)
  moreover have "direct_section_answer t k (sections_by_key c') = direct_section_answer t k ss" for t k
    using c' keyed_by_lookup_values [OF dict_keeps_keyed [OF S]]
    by (intro direct_section_answer_cong) (simp add: construct_Inr sections_by_key_def)
  ultimately show ?thesis
    using c' by (simp add: direct_questions_settled_def unanswered_direct_def construct_Inr)
qed

section \<open>A direct edit of a section\<close>

definition edited_section :: "string \<Rightarrow> section_content \<Rightarrow> section_content" where
  "edited_section text s =
     s\<lparr>section_text := text, section_state := (if has_text text then SEC_EDITED else SEC_EMPTY)\<rparr>"

lemma update_where_found:
  assumes "distinct (map key xs)" and "find (\<lambda>x. key x = k) xs = Some y"
  shows "update_where (\<lambda>x. key x = k) (\<lambda>_. f y) xs = update_where (\<lambda>x. key x = k) f xs"
  unfolding update_where_def
proof (rule map_cong [OF refl])
  fix x assume "x \<in> set xs"
  then show "(if key x = k then f y else x) = (if key x = k then f x else x)"
    using find_unique [OF assms(1), of x] assms(2) by auto
qed

lemma edit_section_cases:
  assumes "edit_section c key text = Inr c'" and "valid_content c"
  shows "sections c' = update_where (\<lambda>s. section_key s = key) (edited_section text) (sections c) \<and>
    key \<in> section_key ` set (sections c) \<and> controls c' = controls c \<and> statuses_after {key} c c' \<and>
    direct_questions_settled c' \<and> valid_content c'"
proof -
  from assms(1) obtain s qs where s: "find (\<lambda>s. section_key s = key) (sections c) = Some s" and
    qs: "resolve_direct_section_questions (questions_by_id c)
      (dict_of section_key (update_where (\<lambda>x. section_key x = key) (\<lambda>_. edited_section text s) (sections c))) = Inr qs"
    and valid: "valid_content (c\<lparr>sections := update_where (\<lambda>x. section_key x = key)
        (\<lambda>_. edited_section text s) (sections c), questions := sorted_values qs\<rparr>)"
    and c': "c' = mark_stale key (c\<lparr>sections := update_where (\<lambda>x. section_key x = key)
        (\<lambda>_. edited_section text s) (sections c), questions := sorted_values qs\<rparr>)"
    by (auto simp: edit_section_def Let_def result_simps edited_section_def split: option.splits)
  let ?c1 = "c\<lparr>sections := update_where (\<lambda>x. section_key x = key) (edited_section text) (sections c),
    questions := sorted_values qs\<rparr>"
  have same: "update_where (\<lambda>x. section_key x = key) (\<lambda>_. edited_section text s) (sections c) =
      update_where (\<lambda>x. section_key x = key) (edited_section text) (sections c)"
    by (rule update_where_found [OF valid_contentD(2) [OF assms(2)] s])
  have eq: "c' = mark_stale key ?c1" "valid_content ?c1" using c' valid by (simp_all only: same)
  have "statuses_after {key} c c'"
    using statuses_after_trans [OF statuses_after_same_facts [of ?c1 c] mark_stale_statuses [of key ?c1]] eq by simp
  moreover have "direct_questions_settled c'"
    using resolve_none_open [OF qs] eq same by (simp add: direct_questions_settled_def sections_by_key_def)
  ultimately show ?thesis
    using eq mark_stale_valid [of ?c1 key] find_SomeD [OF s] by auto
qed

section \<open>Answers\<close>

definition same_target :: "question_content \<Rightarrow> question_content \<Rightarrow> bool" where
  "same_target q r = (target_type q = target_type r \<and> target_key q = target_key r)"

definition answered_question :: "question_content \<Rightarrow> string \<Rightarrow> question_content \<Rightarrow> question_content" where
  "answered_question selected text q =
     (if question_state q = Q_OPEN \<and> same_target q selected
      then q\<lparr>question_state := Q_ANSWERED, answer := Some text\<rparr> else q)"

definition answers_section :: "question_content \<Rightarrow> bool" where
  "answers_section q = (target_type q = ''ssp_section'' \<and> target_key q \<in> set DIRECT_ANSWER_SECTION_KEYS)"

definition answered_section :: "question_content \<Rightarrow> string \<Rightarrow> section_content \<Rightarrow> section_content" where
  "answered_section selected text s =
     (if answers_section selected \<and> section_key s = target_key selected
      then s\<lparr>section_text := text, section_state := SEC_EDITED\<rparr> else s)"

lemma answer_section_eq:
  assumes "answer_section q text ss = Inr ss'" and "distinct (map section_key ss)"
  shows "ss' = map (answered_section q text) ss"
proof (cases "answers_section q")
  case True
  then obtain s where s: "find (\<lambda>s. section_key s = target_key q) ss = Some s" and
    ss': "ss' = update_where (\<lambda>x. section_key x = target_key q)
      (\<lambda>_. s\<lparr>section_text := text, section_state := SEC_EDITED\<rparr>) ss"
    using assms(1) by (auto simp: answer_section_def answers_section_def result_simps split: option.splits)
  show ?thesis
    using ss' update_where_found [OF assms(2) s, of "\<lambda>s. s\<lparr>section_text := text, section_state := SEC_EDITED\<rparr>"] True
    by (simp add: update_where_def answered_section_def [abs_def])
next
  case False
  then have "answered_section q text = id" by (simp add: answered_section_def fun_eq_iff)
  moreover have "ss' = ss" using False assms(1) by (auto simp: answer_section_def answers_section_def)
  ultimately show ?thesis by simp
qed

lemma answer_question_cases:
  assumes "answer_question c qid text = Inr c'" and "valid_content c"
  obtains q where "q \<in> set (questions c)" "question_id q = qid" "question_state q = Q_OPEN" "py_strip text \<noteq> []"
    "questions c' = map (answered_question q (py_strip text)) (questions c)"
    "sections c' = map (answered_section q (py_strip text)) (sections c)"
    "facts c' = facts c" "controls c' = controls c" "valid_content c'"
proof -
  from assms(1) obtain q ss qs where q: "find (\<lambda>q. question_id q = qid) (questions c) = Some q"
    "question_state q = Q_OPEN" "py_strip text \<noteq> []" and
    ss: "answer_section q (py_strip text) (sections c) = Inr ss" and
    qs: "mapR (answer_matching q (py_strip text)) (questions c) = Inr qs" and
    c': "c' = c\<lparr>sections := ss, questions := qs\<rparr>" "valid_content c'"
    by (auto simp: answer_question_def Let_def result_simps split: option.splits if_splits)
  have "qs = map (answered_question q (py_strip text)) (questions c)"
    by (rule mapR_eq_map [OF qs])
      (auto simp: answer_matching_def answered_question_def same_target_def result_simps split: if_splits)
  then show ?thesis
    using that [of q] q c' answer_section_eq [OF ss valid_contentD(2) [OF assms(2)]] find_SomeD [OF q(1)] by simp
qed

section \<open>Patches\<close>

definition patched_controls :: "patch_result \<Rightarrow> string list" where
  "patched_controls result =
     map tp_target_id (filter (\<lambda>p. tp_target_type p \<noteq> ''ssp_section'') (pr_patches result))"

abbreviation untouched_parts :: "patch_result \<Rightarrow> section_dict \<times> control_dict \<Rightarrow> section_dict \<times> control_dict \<Rightarrow> bool" where
  "untouched_parts result d0 d \<equiv>
     dict_keeps section_key (\<lambda>s. section_key s \<notin> set (patched_sections result)) (fst d0) (fst d) \<and>
     dict_keeps control_id (\<lambda>x. control_id x \<notin> set (patched_controls result)) (snd d0) (snd d)"

lemma patch_section_put:
  assumes "patch_section p ev d = Inr d'"
  obtains s s' where "map_of d (tp_target_id p) = Some s" "section_key s' = section_key s"
    "d' = dict_put (tp_target_id p) s' d"
proof -
  obtain s where s: "map_of d (tp_target_id p) = Some s"
    using assms by (auto simp: patch_section_def split: option.splits)
  then have "\<exists>s'. d' = dict_put (tp_target_id p) s' d \<and> section_key s' = section_key s"
    using assms by (auto simp: patch_section_def Let_def result_simps intro!: exI conjI refl)
  then show ?thesis using that [OF s] by blast
qed

lemma patch_control_put:
  assumes "patch_control p ev d = Inr d'"
  obtains x x' where "map_of d (tp_target_id p) = Some x" "control_id x' = control_id x"
    "d' = dict_put (tp_target_id p) x' d"
proof -
  obtain x where x: "map_of d (tp_target_id p) = Some x"
    using assms by (auto simp: patch_control_def split: option.splits)
  then have "\<exists>x'. d' = dict_put (tp_target_id p) x' d \<and> control_id x' = control_id x"
    using assms by (auto simp: patch_control_def Let_def result_simps intro!: exI conjI refl)
  then show ?thesis using that [OF x] by blast
qed

lemma apply_targeted_patch_keeps:
  assumes d: "untouched_parts result d0 d" and p: "p \<in> set (pr_patches result)"
    and run: "apply_targeted_patch env fs n d p = Inr d'"
  shows "untouched_parts result d0 d'"
proof (cases "tp_target_type p = ''ssp_section''")
  case True
  then obtain ev ss where ss: "patch_section p ev (fst d) = Inr ss" and d': "d' = (ss, snd d)"
    using run by (auto simp: apply_targeted_patch_def result_simps split: if_splits)
  from ss obtain s s' where s: "map_of (fst d) (tp_target_id p) = Some s" "section_key s' = section_key s"
    "ss = dict_put (tp_target_id p) s' (fst d)" by (rule patch_section_put)
  have "section_key s = tp_target_id p" using keyed_by_lookup [OF dict_keeps_keyed s(1)] d by blast
  then have "section_key s \<in> set (patched_sections result)" using p True by (auto simp: patched_sections_def)
  then show ?thesis using dict_keeps_put [OF conjunct1 [OF d] s(1) _ s(2)] d d' s(3) by simp
next
  case False
  then obtain ev cs where cs: "patch_control p ev (snd d) = Inr cs" and d': "d' = (fst d, cs)"
    using run by (auto simp: apply_targeted_patch_def result_simps split: if_splits)
  from cs obtain x x' where x: "map_of (snd d) (tp_target_id p) = Some x" "control_id x' = control_id x"
    "cs = dict_put (tp_target_id p) x' (snd d)" by (rule patch_control_put)
  have "control_id x = tp_target_id p" using keyed_by_lookup [OF dict_keeps_keyed x(1)] d by blast
  then have "control_id x \<in> set (patched_controls result)" using p False by (auto simp: patched_controls_def)
  then show ?thesis using dict_keeps_put [OF conjunct2 [OF d] x(1) _ x(2)] d d' x(3) by simp
qed

lemma patches_current:
  "foldR (apply_targeted_patch env fs n) d ps = Inr d' \<Longrightarrow> p \<in> set ps \<Longrightarrow> tp_expected_revision p = n"
  by (induction ps arbitrary: d) (auto simp: apply_targeted_patch_def bindR_eq_Inr split: if_splits)

definition only_targets_change :: "patch_result \<Rightarrow> revision_content \<Rightarrow> revision_content \<Rightarrow> bool" where
  "only_targets_change result c c' =
     ((\<forall>s \<in> set (sections c). section_key s \<notin> set (patched_sections result) \<longrightarrow> s \<in> set (sections c')) \<and>
      (\<forall>x \<in> set (controls c). control_id x \<notin> set (patched_controls result) \<longrightarrow> x \<in> set (controls c')))"

lemma apply_agent_patch_cases:
  assumes "apply_agent_patch env c result n = Inr c'" and "valid_content c"
  shows "(\<forall>p \<in> set (pr_patches result). tp_expected_revision p = n) \<and> only_targets_change result c c' \<and>
    same_parts c c' \<and> statuses_after (set (patched_sections result)) c c' \<and> valid_content c'"
proof -
  from assms(1) obtain ss cs c1 and qs :: question_dict where
    run: "foldR (apply_targeted_patch env (facts_by_key c) n) (sections_by_key c, controls_by_id c)
      (pr_patches result) = Inr (ss, cs)" and
    c1: "c1 = \<lparr>facts = facts c, sections = sorted_values ss, controls = sorted_values cs,
      questions = sorted_values qs\<rparr>" and
    valid: "valid_content \<lparr>facts = facts c, sections = sorted_values ss, controls = sorted_values cs,
      questions = sorted_values qs\<rparr>" and c': "fold mark_stale (patched_sections result) c1 = c'"
    unfolding apply_agent_patch_def bindR_eq_Inr validated_Inr split_paired_Ex prod.case sum.inject
    by blast
  have "untouched_parts result (sections_by_key c, controls_by_id c) (ss, cs)"
    by (rule foldR_invariant [OF apply_targeted_patch_keeps _ run]) (simp_all add: dict_keeps_refl)
  then have S: "dict_keeps section_key (\<lambda>s. section_key s \<notin> set (patched_sections result)) (dict_of section_key (sections c)) ss"
    and C: "dict_keeps control_id (\<lambda>x. control_id x \<notin> set (patched_controls result)) (dict_of control_id (controls c)) cs"
    by (simp_all add: sections_by_key_def controls_by_id_def)
  have after: "sections c' = sorted_values ss" "controls c' = sorted_values cs" "valid_content c'"
    "statuses_after (set (patched_sections result)) c1 c'"
    using fold_mark_stale [of "patched_sections result" c1] valid c' c1 by simp_all
  have "statuses_after (set (patched_sections result)) c c'"
    using statuses_after_trans [OF statuses_after_same_facts [of c1 c] after(4)] c1 by simp
  moreover have "same_parts c c'"
    using dict_keeps_keys [OF S] dict_keeps_keys [OF C] by (simp only: same_parts_def after)
  moreover have "only_targets_change result c c'"
    using dict_keeps_values [OF S valid_contentD(2) [OF assms(2)]]
      dict_keeps_values [OF C valid_contentD(3) [OF assms(2)]]
    by (simp only: only_targets_change_def after) blast
  ultimately show ?thesis using patches_current [OF run] after(3) by blast
qed

section \<open>Every edit keeps a content valid and its parts\<close>

lemma edit_control_cases:
  assumes "edit_control c cid statement status resp = Inr c'"
  shows "valid_content c' \<and> same_parts c c'"
proof -
  obtain x where x: "find (\<lambda>x. control_id x = cid) (controls c) = Some x"
    using assms by (auto simp: edit_control_def split: option.splits)
  then have "\<exists>x'. c' = c\<lparr>controls := update_where (\<lambda>y. control_id y = cid) (\<lambda>_. x') (controls c)\<rparr> \<and>
      control_id x' = control_id x \<and> valid_content c'"
    using assms by (auto simp: edit_control_def result_simps)
  then obtain x' where x': "control_id x' = control_id x" and
    c': "c' = c\<lparr>controls := update_where (\<lambda>y. control_id y = cid) (\<lambda>_. x') (controls c)\<rparr>" "valid_content c'"
    by blast
  have "map control_id (controls c') = map control_id (controls c)"
    using c' x' find_SomeD [OF x] by (simp add: update_where_def)
  then have "control_id ` set (controls c') = control_id ` set (controls c)"
    by (metis list.set_map)
  then show ?thesis using c' by (simp add: same_parts_def)
qed

lemma merge_categorization_cases:
  assumes "merge_categorization_proposal env c g = Inr c'" and "valid_content c"
  shows "valid_content c' \<and> same_parts c c' \<and> other_facts_kept c c'"
proof -
  from assms(1) obtain d where d: "apply_categorization_proposal_to_facts env (facts_by_key c) g = Inr d"
    and c': "c' = with_facts d c" by (auto simp: merge_categorization_proposal_def result_simps)
  have s: "facts_survive (facts_by_key c) d" by (rule proposal_survive [OF keyed_facts_by_key d])
  then have keyed: "keyed d" by (simp add: facts_survive_def)
  have "valid_fact f" if "(k, f) \<in> set d" for k f
    using s that valid_facts_by_key [OF assms(2)] by (fastforce simp: facts_survive_def)
  then have "valid_content c'" using valid_with_facts [OF assms(2) keyed] c' by blast
  moreover have "other_facts_kept c c'"
    using s c' keyed by (simp add: other_facts_kept_def facts_survive_def map_of_facts_by_key)
  ultimately show ?thesis using c' by (simp add: same_parts_def)
qed

inductive content_edit :: "py_env \<Rightarrow> revision_content \<Rightarrow> revision_content \<Rightarrow> bool" for env :: py_env where
  by_generation: "merge_generation env c result = Inr c' \<Longrightarrow> content_edit env c c'"
| by_proposal: "merge_categorization_proposal env c g = Inr c' \<Longrightarrow> content_edit env c c'"
| by_patch: "apply_agent_patch env c patch n = Inr c' \<Longrightarrow> content_edit env c c'"
| by_section: "edit_section c key text = Inr c' \<Longrightarrow> content_edit env c c'"
| by_control: "edit_control c cid statement status resp = Inr c' \<Longrightarrow> content_edit env c c'"
| by_answer: "answer_question c qid text = Inr c' \<Longrightarrow> content_edit env c c'"

lemma same_parts_trans: "same_parts a b \<Longrightarrow> same_parts b c \<Longrightarrow> same_parts a c"
  by (simp add: same_parts_def)

lemma content_edit_keeps:
  assumes "content_edit env c c'" and "valid_content c"
  shows "valid_content c' \<and> same_parts c c'"
  using assms
proof (cases rule: content_edit.cases)
  case (by_generation result)
  then have "valid_content c'"
    by (metis construct_Inr merge_generation_parts)
  then show ?thesis using merge_generation_keeps [OF by_generation assms(2)] by blast
next
  case (by_proposal g)
  then show ?thesis using merge_categorization_cases [OF by_proposal assms(2)] by blast
next
  case (by_patch patch n)
  then show ?thesis using apply_agent_patch_cases [OF by_patch assms(2)] by blast
next
  case (by_section key t)
  have e: "sections c' = update_where (\<lambda>s. section_key s = key) (edited_section t) (sections c)"
      "controls c' = controls c" "valid_content c'"
    using edit_section_cases [OF by_section assms(2)] by simp_all
  have "map section_key (sections c') = map section_key (sections c)"
    by (simp add: e map_key_update_where edited_section_def)
  then show ?thesis using e by (metis list.set_map same_parts_def)
next
  case (by_control cid statement status resp)
  then show ?thesis using edit_control_cases by blast
next
  case (by_answer qid t)
  obtain q where e: "sections c' = map (answered_section q (py_strip t)) (sections c)"
      "controls c' = controls c" "valid_content c'"
    using answer_question_cases [OF by_answer assms(2)] by metis
  have "map section_key (sections c') = map section_key (sections c)"
    by (simp add: e answered_section_def)
  then show ?thesis using e by (metis list.set_map same_parts_def)
qed

interpretation content_edits: invariant_system "\<lambda>c. c = c0 \<and> valid_content c0" "content_edit env"
  "\<lambda>c. valid_content c \<and> same_parts c0 c" for c0 env
proof
  fix s t assume "valid_content s \<and> same_parts c0 s" "content_edit env s t"
  then show "valid_content t \<and> same_parts c0 t" using content_edit_keeps same_parts_trans by blast
qed (simp add: same_parts_def)

section \<open>The high-water mark\<close>

datatype impact = Low | Moderate | High

fun level_name :: "impact \<Rightarrow> string" where
  "level_name Low = ''low''"
| "level_name Moderate = ''moderate''"
| "level_name High = ''high''"

definition impact_of :: "string \<Rightarrow> impact option" where
  "impact_of s = (if s = ''low'' then Some Low else if s = ''moderate'' then Some Moderate
     else if s = ''high'' then Some High else None)"

fun impact_value :: "impact \<Rightarrow> nat" where
  "impact_value Low = 0"
| "impact_value Moderate = 1"
| "impact_value High = 2"

lemma impact_value_inject: "impact_value x = impact_value y \<Longrightarrow> x = y"
  by (cases x; cases y) simp_all

instantiation impact :: linorder
begin

definition less_eq_impact :: "impact \<Rightarrow> impact \<Rightarrow> bool" where
  "less_eq_impact x y = (impact_value x \<le> impact_value y)"

definition less_impact :: "impact \<Rightarrow> impact \<Rightarrow> bool" where
  "less_impact x y = (impact_value x < impact_value y)"

instance
  by standard (auto simp: less_eq_impact_def less_impact_def dest: impact_value_inject)

end

lemma impact_rank_of: "impact_rank s = map_option impact_value (impact_of s)"
  by (simp add: impact_rank_def impact_of_def)

lemma level_name_of: "impact_of s = Some x \<Longrightarrow> s = level_name x"
  by (auto simp: impact_of_def split: if_splits)

lemma high_water_mark_cases:
  "high_water_mark_impact c i a =
     (case (impact_of c, impact_of i, impact_of a) of
        (Some x, Some y, Some z) \<Rightarrow> Some (level_name (max x (max y z)))
      | _ \<Rightarrow> None)"
proof (cases "impact_of c = None \<or> impact_of i = None \<or> impact_of a = None")
  case True
  then show ?thesis by (auto simp: high_water_mark_impact_def impact_rank_of split: option.splits)
next
  case False
  then obtain x y z where "impact_of c = Some x" "impact_of i = Some y" "impact_of a = Some z" by auto
  moreover from this have "c = level_name x" "i = level_name y" "a = level_name z" by (simp_all add: level_name_of)
  ultimately show ?thesis
    by (cases x; cases y; cases z)
      (simp_all add: high_water_mark_impact_def impact_rank_of max_def less_eq_impact_def)
qed

section \<open>Stale categorizations\<close>

lemma mark_stale_fact:
  "k \<notin> {CATEGORIZATION_STATUS_KEY, SYSTEM_DEFINITION_STATUS_KEY, INFORMATION_TYPES_STATUS_KEY,
     ''system.provisional_impact_level''} \<Longrightarrow> fact_of (mark_stale s c) k = fact_of c k"
  by (simp add: mark_stale_def categorization.keeps_facts system_definition.keeps_facts information_types.keeps_facts)

lemma impact_level_confirms:
  assumes "fact_of c ''system.impact_level'' \<noteq> None"
  shows "categorization_is_confirmed (facts_by_key c)"
proof -
  obtain f where f: "fact_of c ''system.impact_level'' = Some f" using assms by blast
  then have "(''system.impact_level'', f) \<in> set (facts_by_key c)" "fact_key f = ''system.impact_level''"
    using fact_ofD [OF f] by (simp_all add: fact_of_def map_of_SomeD)
  then show ?thesis unfolding categorization_is_confirmed_def list_ex_iff by (intro bexI) auto
qed

lemma edit_section_fact:
  assumes "edit_section c key text = Inr c'"
    and "k \<notin> {CATEGORIZATION_STATUS_KEY, SYSTEM_DEFINITION_STATUS_KEY, INFORMATION_TYPES_STATUS_KEY,
     ''system.provisional_impact_level''}"
  shows "fact_of c' k = fact_of c k"
proof -
  obtain c1 where "c' = mark_stale key c1" "facts c1 = facts c"
    using assms(1) by (auto simp: edit_section_def Let_def result_simps split: option.splits)
  then show ?thesis using mark_stale_fact [OF assms(2), of key c1] by (simp add: fact_of_def facts_by_key_def)
qed

section \<open>The properties of the transforms\<close>

text \<open>C23: from a valid revision content, any sequence of edits (merging generated text, merging a
  categorization proposal, applying an agent's patch, editing a section or a control, answering a
  question) ends in a valid content with the same section keys and the same control identifiers.\<close>

theorem edits_keep_content_valid:
  assumes "reachable_from (\<lambda>c. c = c0 \<and> valid_content c0) (content_edit env) c"
  shows "valid_content c \<and> same_parts c0 c"
  by (rule content_edits.reachable_inv [OF assms])

text \<open>C24: merging a generation keeps every section a person has edited or reviewed, every reviewed
  control and every fact that is not one of the six a categorization proposal fills in, and leaves no
  question open whose answer is the text of a direct-answer section.\<close>

theorem generation_keeps_human_text:
  assumes "merge_generation env c result = Inr c'" and "valid_content c"
  shows "human_text_kept c c' \<and> other_facts_kept c c' \<and> direct_questions_settled c'"
  using merge_generation_keeps [OF assms] merge_generation_settles [OF assms(1)] by blast

text \<open>Editing a section replaces the text and state of exactly that section, changes no control,
  and turns each of the three confirmations from confirmed to stale exactly if the section is one of
  its triggers.\<close>

theorem section_edit_effect:
  assumes "edit_section c key text = Inr c'" and "valid_content c"
  shows "sections c' = update_where (\<lambda>s. section_key s = key) (edited_section text) (sections c) \<and>
    controls c' = controls c \<and> statuses_after {key} c c'"
  using edit_section_cases [OF assms] by blast


text \<open>C26: once an edit of a trigger section has made a confirmed categorization stale, merging a
  new categorization proposal is refused with the error that it is already confirmed, because the
  confirmed impact level is still among the facts.\<close>

theorem stale_categorization_not_reproposed:
  assumes "edit_section c key text = Inr c'" and "valid_content c"
    and "categorization_status_of c = Some ''confirmed''" and "key \<in> set CATEGORIZATION_TRIGGERS"
    and "fact_of c ''system.impact_level'' \<noteq> None"
  shows "categorization_status_of c' = Some ''stale'' \<and>
    merge_categorization_proposal env c' g = Inl (WorkspaceEditError ''categorization is already confirmed'')"
proof -
  have "fact_of c' ''system.impact_level'' = fact_of c ''system.impact_level''"
    by (rule edit_section_fact [OF assms(1)])
      (simp add: CATEGORIZATION_STATUS_KEY_def SYSTEM_DEFINITION_STATUS_KEY_def INFORMATION_TYPES_STATUS_KEY_def)
  then have "categorization_is_confirmed (facts_by_key c')" using assms(5) by (intro impact_level_confirms) simp
  moreover have "categorization_status_of c' = Some ''stale''"
    using edit_section_cases [OF assms(1,2)] assms(3,4) by (simp add: statuses_after_one stale_if_def)
  ultimately show ?thesis
    by (simp add: merge_categorization_proposal_def apply_categorization_proposal_to_facts_def)
qed

text \<open>Answering an open question with a text that is not blank gives the stripped text as the
  answer of every open question of the same target, changes no other question and no fact, and, for
  a direct-answer section, makes the answer the section's text.\<close>

theorem answer_settles_target:
  assumes "answer_question c qid text = Inr c'" and "valid_content c"
  shows "\<exists>q \<in> set (questions c). question_id q = qid \<and> question_state q = Q_OPEN \<and> py_strip text \<noteq> [] \<and>
    questions c' = map (answered_question q (py_strip text)) (questions c) \<and>
    sections c' = map (answered_section q (py_strip text)) (sections c) \<and> facts c' = facts c"
  using answer_question_cases [OF assms] by metis

text \<open>C27: an agent's patch is applied only if each of its parts expects the current revision; it
  changes no section and no control outside its targets, adds and removes none, and makes stale
  exactly the confirmations that depend on a section it targets.\<close>

theorem patch_changes_only_targets:
  assumes "apply_agent_patch env c result n = Inr c'" and "valid_content c"
  shows "(\<forall>p \<in> set (pr_patches result). tp_expected_revision p = n) \<and> only_targets_change result c c' \<and>
    same_parts c c' \<and> statuses_after (set (patched_sections result)) c c'"
  using apply_agent_patch_cases [OF assms] by blast

text \<open>the overall impact computed for a categorization is the maximum of the three impacts in the
  order low, moderate, high, and it is defined for no other values.\<close>

theorem high_water_mark_is_maximum:
  "high_water_mark_impact c i a =
     (case (impact_of c, impact_of i, impact_of a) of
        (Some x, Some y, Some z) \<Rightarrow> Some (level_name (max x (max y z)))
      | _ \<Rightarrow> None)"
  by (rule high_water_mark_cases)

end
