(* ===== verification/EditingExample.thy ===== *)
theory EditingExample
  imports EditingProperties
begin

text \<open>
  A small revision content with a confirmed categorization, two sections, one control and two open
  questions, and the result of each transform on it. The witnesses of the properties of
  \<open>EditingProperties\<close> live on these values.
\<close>

definition ed_env :: py_env where
  "ed_env = \<lparr>env_repr = (\<lambda>_. []), env_uuid5 = (\<lambda>_. 42), env_sha256 = (\<lambda>s. s), env_casefold = (\<lambda>s. s)\<rparr>"

definition ed_section :: "string \<Rightarrow> string \<Rightarrow> section_state \<Rightarrow> section_content" where
  "ed_section key content state = \<lparr>section_key = key, section_title = ''Title'', section_text = content,
     section_state = state, section_evidence = []\<rparr>"

definition ed_question :: "uuid \<Rightarrow> question_content" where
  "ed_question i = \<lparr>question_id = i, question = ''Which system?'', target_type = ''ssp_section'',
     target_key = ''system.name'', owner_type = ''isso'', question_state = Q_OPEN, answer = None\<rparr>"

definition ed_control :: control_content where
  "ed_control = \<lparr>control_id = ''AC-1'', control_title = ''Policy'', implementation_status = None,
     implementation_statement = [], responsibility = None, control_state = CTL_EMPTY,
     control_evidence = [], unresolved_reason = None\<rparr>"

definition ed_content :: revision_content where
  "ed_content = \<lparr>
     facts = [isso_fact CATEGORIZATION_STATUS_KEY (JStr ''confirmed'') [],
              isso_fact ''system.impact_level'' (JStr ''low'') []],
     sections = [ed_section ''system.purpose'' ''Old'' SEC_GENERATED, ed_section ''system.name'' [] SEC_EMPTY],
     controls = [ed_control],
     questions = [ed_question 3, ed_question 4]\<rparr>"

definition ed_generation :: generation_result where
  "ed_generation = \<lparr>gen_sections = [\<lparr>gs_section_id = ''system.purpose'', gs_content = ''New'',
     gs_supporting_fact_ids = []\<rparr>], gen_controls = [], gen_questions = [], gen_categorization = None\<rparr>"

definition ed_patch :: patch_result where
  "ed_patch = \<lparr>pr_patches = [\<lparr>tp_target_type = ''ssp_section'', tp_target_id = ''system.purpose'',
     tp_expected_revision = 1, tp_changes = [(''content'', ''New'')], tp_supporting_fact_ids = []\<rparr>],
     pr_questions_to_add = [], pr_question_ids_to_resolve = [], pr_change_summary = ''s''\<rparr>"

definition ed_proposal :: generated_categorization where
  "ed_proposal = \<lparr>gcat_confidentiality = ''low'', gcat_integrity = ''low'', gcat_availability = ''low'',
     gcat_confidentiality_rationale = ''r'', gcat_integrity_rationale = ''r'',
     gcat_availability_rationale = ''r'', gcat_supporting_fact_ids = []\<rparr>"

lemmas ed_defs = ed_content_def ed_control_def ed_section_def ed_question_def ed_generation_def ed_patch_def ed_env_def
  isso_fact_def CATEGORIZATION_STATUS_KEY_def

lemmas valid_defs = valid_content_def valid_fact_def valid_section_def valid_control_def valid_question_def
  length_between_def opt_max_length_def

lemma ed_text: "has_text ''Old''" "has_text ''New''" "has_text ''Portal''" "\<not> has_text []"
    "py_strip '' Portal '' = ''Portal''" "py_strip ''Portal'' = ''Portal''" "py_strip [] = []"
    "py_strip ''Old'' = ''Old''" "py_strip ''New'' = ''New''" "control_id_pattern ''AC-1''"
  by code_simp+

lemma ed_valid: "valid_content ed_content"
  by (simp add: valid_defs ed_defs ed_text)

lemma ed_uuids: "uuid_str 3 \<noteq> uuid_str 4" "uuid_str 3 \<le> uuid_str 4" "uuid_str 4 \<noteq> uuid_str 3"
  by code_simp+

lemma ed_direct: "''system.name'' \<in> set DIRECT_ANSWER_SECTION_KEYS"
  by code_simp

lemma ed_questions: "questions_by_id ed_content = [(uuid_str 3, ed_question 3), (uuid_str 4, ed_question 4)]"
  by (simp add: questions_by_id_def dict_of_def ed_content_def ed_question_def ed_uuids)

lemma ed_questions_sorted: "sorted_values [(uuid_str 3, q), (uuid_str 4, r)] = [q, r]"
  by (simp add: sorted_values_def ed_uuids)

lemma ed_fields [simp]:
  "facts ed_content = [isso_fact CATEGORIZATION_STATUS_KEY (JStr ''confirmed'') [],
     isso_fact ''system.impact_level'' (JStr ''low'') []]"
  "sections ed_content = [ed_section ''system.purpose'' ''Old'' SEC_GENERATED, ed_section ''system.name'' [] SEC_EMPTY]"
  "controls ed_content = [ed_control]" "questions ed_content = [ed_question 3, ed_question 4]"
  by (simp_all add: ed_content_def)

lemma ed_section_simps [simp]:
  "section_key (ed_section k t st) = k" "section_text (ed_section k t st) = t" "section_state (ed_section k t st) = st"
  "(ed_section k t st)\<lparr>section_text := t', section_state := st'\<rparr> = ed_section k t' st'"
  "(ed_section k t st)\<lparr>section_evidence := []\<rparr> = ed_section k t st"
  "section_evidence (ed_section k t st) = []"
  "valid_section (ed_section k t st) \<longleftrightarrow> 1 \<le> length k \<and> length k \<le> 255 \<and> length t \<le> 100000 \<and>
     (st = SEC_EMPTY \<longleftrightarrow> \<not> has_text t)"
  by (auto simp: ed_section_def valid_section_def length_between_def)

lemma ed_sections: "sections_by_key ed_content =
    [(''system.purpose'', ed_section ''system.purpose'' ''Old'' SEC_GENERATED),
     (''system.name'', ed_section ''system.name'' [] SEC_EMPTY)]"
  by (simp add: sections_by_key_def dict_of_def)

lemma ed_controls: "controls_by_id ed_content = [(''AC-1'', ed_control)]"
  by (simp add: controls_by_id_def dict_of_def ed_control_def)

text \<open>The content with another text of the first section.\<close>

definition ed_with :: "string \<Rightarrow> section_state \<Rightarrow> revision_content" where
  "ed_with content state = ed_content\<lparr>sections :=
     [ed_section ''system.purpose'' content state, ed_section ''system.name'' [] SEC_EMPTY],
     questions := [ed_question 3, ed_question 4]\<rparr>"

lemma ed_with_valid: "state = SEC_EDITED \<or> state = SEC_GENERATED \<Longrightarrow> valid_content (ed_with ''New'' state)"
  using ed_valid by (auto simp: ed_with_def valid_content_def ed_text)

lemma ed_resolve:
  "resolve_direct_section_questions (questions_by_id ed_content)
     [(''system.purpose'', s), (''system.name'', ed_section ''system.name'' [] SEC_EMPTY)] = Inr (questions_by_id ed_content)"
  by (simp add: resolve_direct_section_questions_def ed_questions direct_section_answer_def ed_question_def ed_text)

definition ed_edited :: revision_content where
  "ed_edited = mark_stale ''system.purpose'' (ed_with ''New'' SEC_EDITED)"

lemma ed_edit: "edit_section ed_content ''system.purpose'' ''New'' = Inr ed_edited"
  using ed_with_valid [of SEC_EDITED] ed_resolve
  by (simp add: edit_section_def ed_edited_def validated_def ed_text dict_of_def ed_questions ed_questions_sorted ed_with_def)

text \<open>Generated and patched text: the dictionaries are listed in key order again.\<close>

lemma ed_key_order: "CATEGORIZATION_STATUS_KEY \<le> ''system.impact_level''" "''system.name'' < ''system.purpose''"
    "CATEGORIZATION_STATUS_KEY \<noteq> ''system.impact_level''"
  by code_simp+

lemma ed_facts: "facts_by_key ed_content =
    [(CATEGORIZATION_STATUS_KEY, isso_fact CATEGORIZATION_STATUS_KEY (JStr ''confirmed'') []),
     (''system.impact_level'', isso_fact ''system.impact_level'' (JStr ''low'') [])]"
  using ed_key_order(3) by (auto simp: facts_by_key_def dict_of_def)

lemma ed_sorted:
  "sorted_values (facts_by_key ed_content) = facts ed_content"
  "sorted_values [(''system.purpose'', s), (''system.name'', t)] = [t, s]"
  "sorted_values [(''AC-1'', x)] = [x]"
  using ed_key_order by (simp_all add: ed_facts sorted_values_def leD)

definition ed_generated :: revision_content where
  "ed_generated = ed_content\<lparr>sections :=
     [ed_section ''system.name'' [] SEC_EMPTY, ed_section ''system.purpose'' ''New'' SEC_GENERATED],
     questions := [ed_question 3, ed_question 4]\<rparr>"

lemma ed_generated_valid: "valid_content ed_generated"
  using ed_valid by (auto simp: ed_generated_def valid_content_def ed_text)

lemma ed_generated_eq: "\<lparr>facts = facts ed_content,
    sections = [ed_section ''system.name'' [] SEC_EMPTY, ed_section ''system.purpose'' ''New'' SEC_GENERATED],
    controls = [ed_control], questions = [ed_question 3, ed_question 4]\<rparr> = ed_generated"
  by (simp add: ed_generated_def ed_content_def)

lemma ed_no_evidence: "evidence_for_facts ed_env [] d = Inr []"
  by (simp add: evidence_for_facts_def)

lemma ed_generation_rest:
  "gen_controls ed_generation = []" "gen_questions ed_generation = []" "gen_categorization ed_generation = None"
  by (simp_all add: ed_generation_def)

lemma ed_merge: "merge_generation ed_env ed_content ed_generation = Inr ed_generated"
proof -
  have "foldR (merge_section ed_env (facts_by_key ed_content)) (sections_by_key ed_content) (gen_sections ed_generation) =
      Inr [(''system.purpose'', ed_section ''system.purpose'' ''New'' SEC_GENERATED),
           (''system.name'', ed_section ''system.name'' [] SEC_EMPTY)]"
    by (simp add: ed_generation_def merge_section_def ed_sections ed_no_evidence validated_def ed_text)
  then show ?thesis
    using ed_generated_valid
    by (simp add: merge_generation_def Let_def ed_generation_rest ed_controls ed_resolve [unfolded ed_questions] ed_questions
      add_questions_def construct_content_def validated_def ed_sorted ed_questions_sorted
      ed_generated_eq [simplified])
qed

definition ed_patched :: revision_content where
  "ed_patched = mark_stale ''system.purpose'' ed_generated"

lemma ed_apply: "apply_agent_patch ed_env ed_content ed_patch 1 = Inr ed_patched"
proof -
  have "foldR (apply_targeted_patch ed_env (facts_by_key ed_content) 1) (sections_by_key ed_content, controls_by_id ed_content)
      (pr_patches ed_patch) =
      Inr ([(''system.purpose'', ed_section ''system.purpose'' ''New'' SEC_GENERATED),
           (''system.name'', ed_section ''system.name'' [] SEC_EMPTY)], [(''AC-1'', ed_control)])"
    by (simp add: ed_patch_def apply_targeted_patch_def patch_section_def get_change_def ed_sections ed_controls
      ed_no_evidence validated_def ed_text Let_def)
  then show ?thesis
    using ed_generated_valid
    by (simp add: apply_agent_patch_def ed_patch_def ed_questions add_questions_def validated_def ed_sorted
      ed_questions_sorted ed_generated_eq [simplified] ed_patched_def patched_sections_def)
qed

text \<open>The answer to the two questions about the system's name.\<close>

definition ed_answered :: revision_content where
  "ed_answered = ed_content\<lparr>sections :=
     [ed_section ''system.purpose'' ''Old'' SEC_GENERATED, ed_section ''system.name'' ''Portal'' SEC_EDITED],
     questions := [(ed_question 3)\<lparr>question_state := Q_ANSWERED, answer := Some ''Portal''\<rparr>,
       (ed_question 4)\<lparr>question_state := Q_ANSWERED, answer := Some ''Portal''\<rparr>]\<rparr>"

lemma ed_answered_question:
  "valid_question ((ed_question i)\<lparr>question_state := Q_ANSWERED, answer := Some ''Portal''\<rparr>)"
  by (simp add: valid_question_def ed_question_def length_between_def opt_max_length_def opt_has_text_def ed_text)

lemma ed_question_fields [simp]:
  "question_id (ed_question i) = i" "question_state (ed_question i) = Q_OPEN"
  "target_type (ed_question i) = ''ssp_section''" "target_key (ed_question i) = ''system.name''"
  by (simp_all add: ed_question_def)

lemma ed_answer: "answer_question ed_content 3 '' Portal '' = Inr ed_answered"
proof -
  have "answer_section (ed_question 3) ''Portal'' (sections ed_content) = Inr (sections ed_answered)"
    by (simp add: answer_section_def ed_direct ed_answered_def validated_def ed_text)
  moreover have "mapR (answer_matching (ed_question 3) ''Portal'') (questions ed_content) = Inr (questions ed_answered)"
    by (simp add: answer_matching_def ed_answered_def validated_def ed_answered_question)
  moreover have "valid_content ed_answered"
    using ed_valid ed_answered_question by (auto simp: ed_answered_def valid_content_def ed_text)
  ultimately show ?thesis
    by (simp add: answer_question_def Let_def ed_text validated_def ed_answered_def)
qed

text \<open>The witnesses.\<close>

theorem edits_keep_content_valid_witness:
  "\<exists>c. valid_content c \<and> same_parts ed_content c \<and> c \<noteq> ed_content"
proof -
  have "reachable_from (\<lambda>c. c = ed_content \<and> valid_content ed_content) (content_edit ed_env) ed_answered"
    by (rule reach_step [OF reach_start]) (simp add: ed_valid, rule by_answer [OF ed_answer])
  moreover have "ed_answered \<noteq> ed_content"
    by (rule notI, drule arg_cong [where f = "\<lambda>c. question_state (hd (questions c))"]) (simp add: ed_answered_def)
  ultimately show ?thesis using edits_keep_content_valid by blast
qed

theorem generation_keeps_human_text_witness:
  "human_text_kept ed_content ed_generated \<and> other_facts_kept ed_content ed_generated \<and>
   direct_questions_settled ed_generated"
  by (rule generation_keeps_human_text [OF ed_merge ed_valid])

theorem section_edit_effect_witness:
  "sections ed_edited = update_where (\<lambda>s. section_key s = ''system.purpose'') (edited_section ''New'') (sections ed_content) \<and>
   controls ed_edited = controls ed_content \<and> statuses_after {''system.purpose''} ed_content ed_edited"
  by (rule section_edit_effect [OF ed_edit ed_valid])

lemma ed_confirmed: "categorization_status_of ed_content = Some ''confirmed''"
  by (simp add: categorization_status_of_def active_categorization_status_def active_status_def ed_facts isso_fact_def)

lemma ed_impact: "fact_of ed_content ''system.impact_level'' \<noteq> None"
  using ed_key_order by (simp add: fact_of_def ed_facts)


theorem stale_categorization_not_reproposed_witness:
  "categorization_status_of ed_edited = Some ''stale'' \<and>
   merge_categorization_proposal ed_env ed_edited ed_proposal =
     Inl (WorkspaceEditError ''categorization is already confirmed'')"
  by (rule stale_categorization_not_reproposed [OF ed_edit ed_valid ed_confirmed _ ed_impact])
    (simp add: CATEGORIZATION_TRIGGERS_def)

theorem answer_settles_target_witness:
  "\<exists>q \<in> set (questions ed_content). question_id q = 3 \<and> question_state q = Q_OPEN \<and> py_strip '' Portal '' \<noteq> [] \<and>
    questions ed_answered = map (answered_question q (py_strip '' Portal '')) (questions ed_content) \<and>
    sections ed_answered = map (answered_section q (py_strip '' Portal '')) (sections ed_content) \<and>
    facts ed_answered = facts ed_content"
  by (rule answer_settles_target [OF ed_answer ed_valid])

theorem patch_changes_only_targets_witness:
  "only_targets_change ed_patch ed_content ed_patched \<and> same_parts ed_content ed_patched \<and>
   statuses_after (set (patched_sections ed_patch)) ed_content ed_patched"
  using patch_changes_only_targets [OF ed_apply ed_valid] by blast

end
