(* ===== verification/Citations.thy ===== *)
theory Citations
  imports Json
begin

text \<open>
  Evidence chunks and citations: \<open>evidence_chunking.py\<close> and \<open>citation_validation.py\<close>. A chunk and a
  citation are bound to a text by the same digest \<open>derive_chunk_id\<close>. SHA-256 and
  \<open>uuid.uuid5(uuid.NAMESPACE_URL, name)\<close> are arguments.
\<close>

section \<open>Chunks\<close>

definition CHUNK_MAX_CHARACTERS :: nat where "CHUNK_MAX_CHARACTERS = 6000"
definition CHUNK_OVERLAP_CHARACTERS :: nat where "CHUNK_OVERLAP_CHARACTERS = 500"

record chunk_slice =
  normalized_start :: nat
  normalized_end :: nat
  chunk_text :: string
  chunk_id :: string

text \<open>\<open>text.replace("\r\n", "\n").replace("\r", "\n")\<close>\<close>

fun replace_crlf :: "string \<Rightarrow> string" where
  "replace_crlf (a # b # s) =
     (if a = CHR 0x0D \<and> b = CHR 0x0A then CHR 0x0A # replace_crlf s else a # replace_crlf (b # s))"
| "replace_crlf s = s"

definition normalize_search_text :: "string \<Rightarrow> string" where
  "normalize_search_text s = map (\<lambda>c. if c = CHR 0x0D then CHR 0x0A else c) (replace_crlf s)"

definition derive_chunk_id :: "(string \<Rightarrow> string) \<Rightarrow> string \<Rightarrow> string \<Rightarrow> string \<Rightarrow> string \<Rightarrow> string" where
  "derive_chunk_id sha256 source_sha256 s e text =
     sha256 (utf8_encode (source_sha256 @ '':'' @ s @ '':'' @ e @ '':'' @ text))"

definition make_slice :: "(string \<Rightarrow> string) \<Rightarrow> string \<Rightarrow> string \<Rightarrow> nat \<Rightarrow> nat \<Rightarrow> chunk_slice" where
  "make_slice sha256 source_sha256 normalized s e =
     (let t = take (e - s) (drop s normalized) in
      \<lparr>normalized_start = s, normalized_end = e, chunk_text = t,
       chunk_id = derive_chunk_id sha256 source_sha256 (dec_nat s) (dec_nat e) t\<rparr>)"

function chunk_loop :: "(string \<Rightarrow> string) \<Rightarrow> string \<Rightarrow> string \<Rightarrow> nat \<Rightarrow> chunk_slice list" where
  "chunk_loop sha256 source_sha256 normalized s =
     (if s < length normalized
      then
        let e = min (s + CHUNK_MAX_CHARACTERS) (length normalized) in
        make_slice sha256 source_sha256 normalized s e #
        (if e \<ge> length normalized then []
         else chunk_loop sha256 source_sha256 normalized (s + (CHUNK_MAX_CHARACTERS - CHUNK_OVERLAP_CHARACTERS)))
      else [])"
  by pat_completeness auto

termination
  by (relation "measure (\<lambda>(h, d, t, s). length t - s)")
    (auto simp: CHUNK_MAX_CHARACTERS_def CHUNK_OVERLAP_CHARACTERS_def)

declare chunk_loop.simps [simp del]

definition chunk_normalized_text :: "(string \<Rightarrow> string) \<Rightarrow> string \<Rightarrow> string \<Rightarrow> chunk_slice list" where
  "chunk_normalized_text sha256 source_sha256 text =
     (let normalized = normalize_search_text text in
      if py_strip normalized = [] then []
      else if length normalized \<le> CHUNK_MAX_CHARACTERS
      then [make_slice sha256 source_sha256 normalized 0 (length normalized)]
      else chunk_loop sha256 source_sha256 normalized 0)"

section \<open>Sources that can be cited\<close>

datatype citation_error = CitationValidationError string | AttributeError | TypeError

record citable_source =
  cs_source_id :: string
  cs_source_sha256 :: string
  cs_text :: string

text \<open>\<open>(value or {}).items()\<close>\<close>

definition items_or_empty :: "json option \<Rightarrow> citation_error + members" where
  "items_or_empty v =
     (case v of
        None \<Rightarrow> Inr []
      | Some (JObj m) \<Rightarrow> Inr m
      | Some j \<Rightarrow> if json_truthy j then Inl AttributeError else Inr [])"

text \<open>\<open>^[0-9a-f]{8}-[0-9a-f]{4}-4[0-9a-f]{3}-[89ab][0-9a-f]{3}-[0-9a-f]{12}$\<close>\<close>

definition uuid4_pattern :: "string \<Rightarrow> bool" where
  "uuid4_pattern s =
     (length s = 36 \<and>
      list_all (\<lambda>i. if i \<in> set [8, 13, 18, 23] then s ! i = CHR ''-'' else is_hex_lower (s ! i)) [0..<36] \<and>
      s ! 14 = CHR ''4'' \<and> s ! 19 \<in> set ''89ab'')"

definition provenance_source_id :: "(string \<Rightarrow> uuid) \<Rightarrow> json option \<Rightarrow> string \<Rightarrow> string" where
  "provenance_source_id uuid5 entry fallback_key =
     (let fallback = py_lower (uuid_str (uuid5 (''ato.sealed-source:'' @ fallback_key))) in
      case entry of
        Some (JObj m) \<Rightarrow>
          (case map_of m ''source_artifact_id'' of
             Some (JStr a) \<Rightarrow> if uuid4_pattern (py_lower a) then py_lower a else fallback
           | _ \<Rightarrow> fallback)
      | _ \<Rightarrow> fallback)"

definition source_sha256_for_pointer :: "(string \<Rightarrow> string) \<Rightarrow> string \<Rightarrow> string \<Rightarrow> json option \<Rightarrow> string" where
  "source_sha256_for_pointer sha256 pointer text entry =
     (let own = sha256 (utf8_encode (pointer @ '':'' @ text)) in
      case entry of
        Some (JObj m) \<Rightarrow>
          (case map_of m ''source_sha256'' of
             Some (JStr d) \<Rightarrow> if is_sha256_hex d then d else own
           | _ \<Rightarrow> own)
      | _ \<Rightarrow> own)"

definition citable_text :: "string \<Rightarrow> json \<Rightarrow> string option" where
  "citable_text field v =
     (case v of
        JObj m \<Rightarrow>
          (case map_of m field of
             Some (JStr s) \<Rightarrow> if py_strip s = [] then None else Some s
           | _ \<Rightarrow> None)
      | _ \<Rightarrow> None)"

definition control_pointer :: "string \<Rightarrow> string" where
  "control_pointer k = ''/security_controls/'' @ k @ ''/implementation_statement''"

definition evidence_pointer :: "string \<Rightarrow> string" where
  "evidence_pointer k = ''/evidence/'' @ k @ ''/summary''"

definition make_source ::
  "(string \<Rightarrow> string) \<Rightarrow> (string \<Rightarrow> uuid) \<Rightarrow> members \<Rightarrow> string \<Rightarrow> string \<Rightarrow> string \<Rightarrow> citable_source" where
  "make_source sha256 uuid5 provenance pointer key text =
     (let entry = map_of provenance pointer in
      \<lparr>cs_source_id = provenance_source_id uuid5 entry key,
       cs_source_sha256 = source_sha256_for_pointer sha256 pointer text entry, cs_text = text\<rparr>)"

type_synonym source_index = "(string \<times> citable_source) list"

definition add_control_source ::
  "(string \<Rightarrow> string) \<Rightarrow> (string \<Rightarrow> uuid) \<Rightarrow> members \<Rightarrow> string \<times> json \<Rightarrow> source_index \<Rightarrow> source_index" where
  "add_control_source sha256 uuid5 provenance kv d =
     (case kv of (k, v) \<Rightarrow>
        case citable_text ''implementation_statement'' v of
          None \<Rightarrow> d
        | Some t \<Rightarrow>
            let src = make_source sha256 uuid5 provenance (control_pointer k) k t in
            dict_put k src (dict_put (cs_source_id src) src d))"

definition add_evidence_source ::
  "(string \<Rightarrow> string) \<Rightarrow> (string \<Rightarrow> uuid) \<Rightarrow> members \<Rightarrow> string \<times> json \<Rightarrow> source_index \<Rightarrow> source_index" where
  "add_evidence_source sha256 uuid5 provenance kv d =
     (case kv of (k, v) \<Rightarrow>
        case citable_text ''summary'' v of
          None \<Rightarrow> d
        | Some t \<Rightarrow>
            let src = make_source sha256 uuid5 provenance (evidence_pointer k) k t in
            dict_put (cs_source_id src) src d)"

definition build_sealed_citable_sources ::
  "(string \<Rightarrow> string) \<Rightarrow> (string \<Rightarrow> uuid) \<Rightarrow> members \<Rightarrow> members \<Rightarrow> citation_error + source_index" where
  "build_sealed_citable_sources sha256 uuid5 document provenance =
     bindR (items_or_empty (map_of document ''security_controls'')) (\<lambda>cs.
     let d = fold (add_control_source sha256 uuid5 provenance) cs [] in
     bindR (items_or_empty (map_of document ''evidence'')) (\<lambda>es.
     Inr (fold (add_evidence_source sha256 uuid5 provenance) es d)))"

section \<open>Citations\<close>

text \<open>\<open>isinstance(v, int)\<close> holds of booleans too; the value and how it is printed.\<close>

fun json_int :: "json option \<Rightarrow> (int \<times> string) option" where
  "json_int (Some (JInt i)) = Some (i, dec_int i)"
| "json_int (Some (JBool True)) = Some (1, ''True'')"
| "json_int (Some (JBool False)) = Some (0, ''False'')"
| "json_int v = None"

definition no_chunk_id :: "members \<Rightarrow> bool" where
  "no_chunk_id c = (map_of c ''chunk_id'' \<in> {None, Some JNull})"

definition validate_evidence_citation ::
  "(string \<Rightarrow> string) \<Rightarrow> source_index \<Rightarrow> members \<Rightarrow> string \<Rightarrow> citation_error + unit" where
  "validate_evidence_citation sha256 sources c digest =
     (case map_of c ''source_id'' of
        Some (JStr sid) \<Rightarrow>
          if \<not> uuid4_pattern (py_lower sid)
          then Inl (CitationValidationError ''evidence citation source_id must be a UUID'')
          else
            (case (case map_of sources (py_lower sid) of None \<Rightarrow> map_of sources sid | Some s \<Rightarrow> Some s) of
               None \<Rightarrow> Inl (CitationValidationError ''citation source_id is unknown to sealed content'')
             | Some src \<Rightarrow>
                 if cs_source_sha256 src \<noteq> digest
                 then Inl (CitationValidationError ''citation source_sha256 does not match sealed source'')
                 else
                   (case (json_int (map_of c ''start_offset''), json_int (map_of c ''end_offset'')) of
                      (Some (s, ps), Some (e, pe)) \<Rightarrow>
                        if s < 0 \<or> e \<le> s \<or> int (length (cs_text src)) < e
                        then Inl (CitationValidationError ''citation offsets are out of bounds'')
                        else if map_of c ''chunk_id'' \<noteq> Some (JStr (derive_chunk_id sha256 (cs_source_sha256 src)
                          ps pe (take (nat e - nat s) (drop (nat s) (cs_text src)))))
                        then Inl (CitationValidationError ''citation chunk_id does not match derived digest'')
                        else Inr ()
                    | _ \<Rightarrow> Inl (CitationValidationError ''evidence citations require byte offsets'')))
      | _ \<Rightarrow> Inl (CitationValidationError ''citation source_id is required''))"

definition validate_one_citation ::
  "(string \<Rightarrow> string) \<Rightarrow> source_index \<Rightarrow> members \<Rightarrow> citation_error + unit" where
  "validate_one_citation sha256 sources c =
     (if unhashable (map_of c ''source_kind'') then Inl TypeError
      else if map_of c ''source_kind'' \<notin> Some ` JStr ` {''evidence'', ''authoritative_reference'', ''derived_inference''}
      then Inl (CitationValidationError ''citation source_kind is invalid'')
      else case map_of c ''source_sha256'' of
        Some (JStr digest) \<Rightarrow>
          if \<not> is_sha256_hex digest then Inl (CitationValidationError ''citation source_sha256 is invalid'')
          else if map_of c ''source_kind'' = Some (JStr ''evidence'')
          then validate_evidence_citation sha256 sources c digest
          else if map_of c ''source_kind'' = Some (JStr ''authoritative_reference'')
          then guardR (no_chunk_id c)
            (CitationValidationError ''authoritative_reference citations must not carry chunk_id'')
          else guardR (no_chunk_id c)
            (CitationValidationError ''derived_inference citations must not carry chunk_id'')
      | _ \<Rightarrow> Inl (CitationValidationError ''citation source_sha256 is invalid''))"

definition validate_citations ::
  "(string \<Rightarrow> string) \<Rightarrow> source_index \<Rightarrow> members list \<Rightarrow> citation_error + unit" where
  "validate_citations sha256 sources cs = foldR (\<lambda>_ c. validate_one_citation sha256 sources c) () cs"

definition build_evidence_citation :: "(string \<Rightarrow> string) \<Rightarrow> citable_source \<Rightarrow> nat \<Rightarrow> nat \<Rightarrow> members" where
  "build_evidence_citation sha256 src s e =
     [(''source_kind'', JStr ''evidence''), (''source_id'', JStr (py_lower (cs_source_id src))),
      (''source_sha256'', JStr (cs_source_sha256 src)),
      (''chunk_id'', JStr (derive_chunk_id sha256 (cs_source_sha256 src) (dec_nat s) (dec_nat e) (take (e - s) (drop s (cs_text src))))),
      (''start_offset'', JInt (int s)), (''end_offset'', JInt (int e)), (''page_or_section'', JNull)]"

section \<open>How many chunks, and what they cover\<close>

definition chunk_count :: "nat \<Rightarrow> nat" where
  "chunk_count n = (if n \<le> 6000 then 1 else (n + 4999) div 5500)"

lemma chunk_loop_closed:
  assumes "s + 500 < length t"
  shows "chunk_loop sha256 d t s =
    map (\<lambda>i. make_slice sha256 d t (s + i * 5500) (min (s + i * 5500 + 6000) (length t)))
      [0..<(length t - s + 4999) div 5500]"
  using assms
proof (induction sha256 d t s rule: chunk_loop.induct)
  case (1 sha256 d t s)
  show ?case
  proof (cases "length t \<le> s + 6000")
    case True
    have "(length t - s + 4999) div 5500 = 1" using "1.prems" True by (simp add: div_eq_dividend_iff)
    then show ?thesis
      using "1.prems" True by (subst chunk_loop.simps) (simp add: CHUNK_MAX_CHARACTERS_def Let_def)
  next
    case False
    let ?k = "(length t - (s + 5500) + 4999) div 5500"
    have "length t - s + 4999 = length t - (s + 5500) + 4999 + 5500" using False by simp
    then have count: "(length t - s + 4999) div 5500 = Suc ?k" by (simp only: div_add_self2)
    have IH: "chunk_loop sha256 d t (s + 5500) =
        map (\<lambda>i. make_slice sha256 d t (s + 5500 + i * 5500) (min (s + 5500 + i * 5500 + 6000) (length t))) [0..<?k]"
      using "1.IH" [of "min (s + CHUNK_MAX_CHARACTERS) (length t)"] "1.prems" False
      by (simp add: CHUNK_MAX_CHARACTERS_def CHUNK_OVERLAP_CHARACTERS_def)
    have "chunk_loop sha256 d t s = make_slice sha256 d t s (s + 6000) # chunk_loop sha256 d t (s + 5500)"
      using "1.prems" False
      by (subst chunk_loop.simps) (simp add: CHUNK_MAX_CHARACTERS_def CHUNK_OVERLAP_CHARACTERS_def Let_def)
    moreover have range: "[0..<(length t - s + 4999) div 5500] = 0 # map Suc [0..<?k]"
      unfolding count by (simp only: upt_conv_Cons zero_less_Suc map_Suc_upt)
    have shift: "s + Suc i * 5500 = s + 5500 + i * 5500" for i by simp
    have first: "min (s + 0 * 5500 + 6000) (length t) = s + 6000" "s + 0 * 5500 = s" using False by simp_all
    ultimately show ?thesis unfolding range list.map map_map comp_def shift IH first by (simp only:)
  qed
qed

definition chunk_at :: "(string \<Rightarrow> string) \<Rightarrow> string \<Rightarrow> string \<Rightarrow> nat \<Rightarrow> chunk_slice" where
  "chunk_at sha256 d t i = make_slice sha256 d t (i * 5500) (min (i * 5500 + 6000) (length t))"

lemma chunks_closed:
  "chunk_normalized_text sha256 d text =
     (let t = normalize_search_text text in
      if py_strip t = [] then [] else map (chunk_at sha256 d t) [0..<chunk_count (length t)])"
proof -
  let ?t = "normalize_search_text text"
  have "chunk_loop sha256 d ?t 0 = map (chunk_at sha256 d ?t) [0..<chunk_count (length ?t)]" if "6000 < length ?t"
    using that chunk_loop_closed [of 0 ?t sha256 d] by (simp add: chunk_count_def chunk_at_def [abs_def])
  then show ?thesis
    by (simp add: chunk_normalized_text_def Let_def chunk_count_def CHUNK_MAX_CHARACTERS_def chunk_at_def)
qed

lemma chunk_count_covers: "n \<le> (chunk_count n - 1) * 5500 + 6000"
  by (simp add: chunk_count_def) linarith

lemma chunk_starts_inside: "0 < n \<Longrightarrow> i < chunk_count n \<Longrightarrow> i * 5500 < n"
  by (simp add: chunk_count_def split: if_splits)

definition covers_window :: "string \<Rightarrow> nat \<Rightarrow> nat \<Rightarrow> chunk_slice \<Rightarrow> bool" where
  "covers_window t a l c = (normalized_start c \<le> a \<and> a + l \<le> normalized_end c)"

definition slice_ok :: "string \<Rightarrow> chunk_slice \<Rightarrow> bool" where
  "slice_ok t c =
     (normalized_start c < normalized_end c \<and> normalized_end c \<le> length t \<and>
      length (chunk_text c) = normalized_end c - normalized_start c \<and> length (chunk_text c) \<le> CHUNK_MAX_CHARACTERS \<and>
      chunk_text c = take (normalized_end c - normalized_start c) (drop (normalized_start c) t))"

lemma chunk_at_simps [simp]:
  "normalized_start (chunk_at sha256 d t i) = i * 5500"
  "normalized_end (chunk_at sha256 d t i) = min (i * 5500 + 6000) (length t)"
  by (simp_all add: chunk_at_def make_slice_def Let_def)

lemma chunk_at_ok: "t \<noteq> [] \<Longrightarrow> i < chunk_count (length t) \<Longrightarrow> slice_ok t (chunk_at sha256 d t i)"
  using chunk_starts_inside [of "length t" i]
  by (simp add: slice_ok_def) (simp add: chunk_at_def make_slice_def Let_def CHUNK_MAX_CHARACTERS_def)

lemma chunk_window:
  assumes "a + l \<le> length t" and "l \<le> 501"
  shows "\<exists>i < chunk_count (length t). covers_window t a l (chunk_at sha256 d t i)"
proof (cases "a div 5500 < chunk_count (length t)")
  case True
  have "a div 5500 * 5500 \<le> a" "a \<le> a div 5500 * 5500 + 5499" by simp_all
  then have "covers_window t a l (chunk_at sha256 d t (a div 5500))"
    using assms by (simp add: covers_window_def)
  with True show ?thesis by blast
next
  case False
  let ?i = "chunk_count (length t) - 1"
  have pos: "0 < chunk_count (length t)" by (simp add: chunk_count_def div_greater_zero_iff)
  have "?i * 5500 \<le> a div 5500 * 5500" using False by (intro mult_le_mono1) simp
  also have "\<dots> \<le> a" by simp
  finally have "covers_window t a l (chunk_at sha256 d t ?i)"
    using assms chunk_count_covers [of "length t"] by (simp add: covers_window_def)
  with pos show ?thesis by (metis One_nat_def diff_less zero_less_Suc)
qed

section \<open>What an index of sources contains\<close>

definition sealed_text_of :: "members \<Rightarrow> string \<Rightarrow> string \<Rightarrow> string \<Rightarrow> bool" where
  "sealed_text_of document pointer key text =
     ((\<exists>cs v. items_or_empty (map_of document ''security_controls'') = Inr cs \<and> (key, v) \<in> set cs \<and>
        citable_text ''implementation_statement'' v = Some text \<and> pointer = control_pointer key) \<or>
      (\<exists>es v. items_or_empty (map_of document ''evidence'') = Inr es \<and> (key, v) \<in> set es \<and>
        citable_text ''summary'' v = Some text \<and> pointer = evidence_pointer key))"

text \<open>An entry of the index is a sealed text under its source identifier, or under its control.\<close>

definition index_entry_ok ::
  "(string \<Rightarrow> string) \<Rightarrow> (string \<Rightarrow> uuid) \<Rightarrow> members \<Rightarrow> members \<Rightarrow> string \<times> citable_source \<Rightarrow> bool" where
  "index_entry_ok sha256 uuid5 document provenance e =
     (\<exists>pointer key text. sealed_text_of document pointer key text \<and>
        snd e = make_source sha256 uuid5 provenance pointer key text \<and>
        (fst e = cs_source_id (snd e) \<or>
         (fst e = key \<and> (\<exists>cs. items_or_empty (map_of document ''security_controls'') = Inr cs \<and> key \<in> fst ` set cs))))"

lemma index_entry_by_source:
  assumes "sealed_text_of document p k t"
  shows "index_entry_ok sha256 uuid5 document provenance
    (cs_source_id (make_source sha256 uuid5 provenance p k t), make_source sha256 uuid5 provenance p k t)"
  unfolding index_entry_ok_def fst_conv snd_conv using assms by blast

lemma index_entry_by_control:
  assumes "sealed_text_of document p k t"
    and "items_or_empty (map_of document ''security_controls'') = Inr cs" and "k \<in> fst ` set cs"
  shows "index_entry_ok sha256 uuid5 document provenance (k, make_source sha256 uuid5 provenance p k t)"
  unfolding index_entry_ok_def fst_conv snd_conv using assms by blast

lemma fold_index_ok:
  assumes "\<And>x d e. x \<in> set xs \<Longrightarrow> e \<in> set (f x d) \<Longrightarrow> e \<in> set d \<or> P e"
  shows "e \<in> set (fold f xs d) \<Longrightarrow> e \<in> set d \<or> P e"
  using assms
proof (induction xs arbitrary: d)
  case (Cons x xs)
  then have "e \<in> set (f x d) \<or> P e" by (metis fold_simps(2) list.set_intros(2))
  then show ?case using Cons.prems(2) by (metis list.set_intros(1))
qed simp

lemma index_entries:
  assumes "build_sealed_citable_sources sha256 uuid5 document provenance = Inr sources" and "e \<in> set sources"
  shows "index_entry_ok sha256 uuid5 document provenance e"
proof -
  let ?ok = "index_entry_ok sha256 uuid5 document provenance"
  from assms(1) obtain cs es where
    cs: "items_or_empty (map_of document ''security_controls'') = Inr cs" and
    es: "items_or_empty (map_of document ''evidence'') = Inr es" and
    sources: "sources = fold (add_evidence_source sha256 uuid5 provenance) es
      (fold (add_control_source sha256 uuid5 provenance) cs [])"
    by (auto simp: build_sealed_citable_sources_def result_simps Let_def)
  have control: "e \<in> set d \<or> ?ok e" if x: "x \<in> set cs" and e: "e \<in> set (add_control_source sha256 uuid5 provenance x d)" for x d e
  proof -
    obtain k v where kv: "x = (k, v)" by (cases x)
    show ?thesis
    proof (cases "citable_text ''implementation_statement'' v")
      case (Some t)
      let ?src = "make_source sha256 uuid5 provenance (control_pointer k) k t"
      have sealed: "sealed_text_of document (control_pointer k) k t" "k \<in> fst ` set cs"
        using cs x kv Some by (force simp: sealed_text_of_def)+
      have "e \<in> set d \<or> e = (cs_source_id ?src, ?src) \<or> e = (k, ?src)"
        using e set_dict_put [of k ?src "dict_put (cs_source_id ?src) ?src d"]
          set_dict_put [of "cs_source_id ?src" ?src d] by (auto simp: add_control_source_def kv Some Let_def)
      then show ?thesis
        using index_entry_by_source [OF sealed(1)] index_entry_by_control [OF sealed(1) cs sealed(2)] by blast
    qed (use e kv in \<open>simp add: add_control_source_def\<close>)
  qed
  have evidence: "e \<in> set d \<or> ?ok e" if x: "x \<in> set es" and e: "e \<in> set (add_evidence_source sha256 uuid5 provenance x d)" for x d e
  proof -
    obtain k v where kv: "x = (k, v)" by (cases x)
    show ?thesis
    proof (cases "citable_text ''summary'' v")
      case (Some t)
      let ?src = "make_source sha256 uuid5 provenance (evidence_pointer k) k t"
      have "sealed_text_of document (evidence_pointer k) k t"
        using es x kv Some by (force simp: sealed_text_of_def)
      moreover have "e \<in> set d \<or> e = (cs_source_id ?src, ?src)"
        using e set_dict_put [of "cs_source_id ?src" ?src d] by (auto simp: add_evidence_source_def kv Some Let_def)
      ultimately show ?thesis using index_entry_by_source by blast
    qed (use e kv in \<open>simp add: add_evidence_source_def\<close>)
  qed
  have "e \<in> set (fold (add_control_source sha256 uuid5 provenance) cs []) \<or> ?ok e"
    using assms(2) unfolding sources by (rule fold_index_ok [rotated]) (rule evidence)
  then show ?thesis
    using fold_index_ok [where xs = cs and d = "[]" and P = ?ok and f = "add_control_source sha256 uuid5 provenance" and e = e]
      control by auto
qed

section \<open>What an accepted citation guarantees\<close>

lemma lower_char_idem [simp]: "lower_char (lower_char c) = lower_char c"
  by (auto simp: lower_char_def Let_def)

lemma py_lower_idem [simp]: "py_lower (py_lower s) = py_lower s"
  by (simp add: py_lower_def)

lemma length_py_lower [simp]: "length (py_lower s) = length s"
  by (simp add: py_lower_def)

lemma accepted_evidence_citation:
  assumes "validate_one_citation sha256 sources c = Inr ()" and "map_of c ''source_kind'' = Some (JStr ''evidence'')"
  obtains sid k src s e ps pe where "map_of c ''source_id'' = Some (JStr sid)" "uuid4_pattern (py_lower sid)"
    "k \<in> {py_lower sid, sid}" "(k, src) \<in> set sources"
    "json_int (map_of c ''start_offset'') = Some (s, ps)" "json_int (map_of c ''end_offset'') = Some (e, pe)"
    "0 \<le> s" "s < e" "e \<le> int (length (cs_text src))"
    "map_of c ''chunk_id'' = Some (JStr (derive_chunk_id sha256 (cs_source_sha256 src) ps pe
       (take (nat e - nat s) (drop (nat s) (cs_text src)))))"
proof -
  obtain digest where v: "validate_evidence_citation sha256 sources c digest = Inr ()"
    using assms by (auto simp: validate_one_citation_def split: option.splits json.splits if_splits)
  obtain sid where sid: "map_of c ''source_id'' = Some (JStr sid)" "uuid4_pattern (py_lower sid)"
    using v by (auto simp: validate_evidence_citation_def split: option.splits json.splits if_splits)
  obtain k src where k: "k \<in> {py_lower sid, sid}" "map_of sources k = Some src"
    and look: "(case map_of sources (py_lower sid) of None \<Rightarrow> map_of sources sid | Some s \<Rightarrow> Some s) = Some src"
    using v sid by (auto simp: validate_evidence_citation_def split: option.splits)
  then obtain s ps e pe where off: "json_int (map_of c ''start_offset'') = Some (s, ps)" "json_int (map_of c ''end_offset'') = Some (e, pe)"
    using v sid by (auto simp: validate_evidence_citation_def split: option.splits if_splits)
  have "\<not> (s < 0 \<or> e \<le> s \<or> int (length (cs_text src)) < e)" and
    "map_of c ''chunk_id'' = Some (JStr (derive_chunk_id sha256 (cs_source_sha256 src) ps pe
       (take (nat e - nat s) (drop (nat s) (cs_text src)))))"
    using v sid look off by (auto simp: validate_evidence_citation_def split: if_splits)
  then show ?thesis using that [OF sid k(1) map_of_SomeD [OF k(2)] off] by auto
qed

lemma fallback_not_uuid4:
  assumes "uuid_str i ! 14 = CHR ''5''" and "s = py_lower (uuid_str i) \<or> py_lower s = py_lower (uuid_str i)"
  shows "\<not> uuid4_pattern (py_lower s)"
proof
  assume u: "uuid4_pattern (py_lower s)"
  then have "length (py_lower s) = 36" by (simp add: uuid4_pattern_def)
  moreover have eq: "py_lower s = py_lower (uuid_str i)" using assms(2) by auto
  ultimately have "length (uuid_str i) = 36" by (metis length_py_lower)
  then have "py_lower (uuid_str i) ! 14 = lower_char (CHR ''5'')" using assms(1) by (simp add: py_lower_def)
  then show False using u eq by (simp add: uuid4_pattern_def lower_char_def)
qed

definition control_keys :: "members \<Rightarrow> string set" where
  "control_keys document =
     {k. \<exists>cs. items_or_empty (map_of document ''security_controls'') = Inr cs \<and> k \<in> fst ` set cs}"

text \<open>The provenance of a sealed text names an artifact.\<close>

definition provenance_names :: "members \<Rightarrow> string \<Rightarrow> string \<Rightarrow> bool" where
  "provenance_names provenance pointer sid =
     (\<exists>m a. map_of provenance pointer = Some (JObj m) \<and> map_of m ''source_artifact_id'' = Some (JStr a) \<and>
        py_lower a = py_lower sid)"

lemma source_id_names:
  assumes "uuid4_pattern (py_lower sid)" and "k \<in> {py_lower sid, sid}"
    and "cs_source_id (make_source sha256 uuid5 provenance p key t) = k" and "\<And>n. uuid_str (uuid5 n) ! 14 = CHR ''5''"
  shows "provenance_names provenance p sid"
proof -
  have "k \<noteq> py_lower (uuid_str (uuid5 n))" for n
    using fallback_not_uuid4 [OF assms(4), of sid n] assms(1,2) by auto
  then show ?thesis
    using assms(2,3)
    by (auto simp: make_source_def provenance_source_id_def Let_def provenance_names_def
      split: option.splits json.splits if_splits)
qed

section \<open>Properties\<close>

text \<open>C30: chunking ends for every text, after a number of rounds that is known in advance: a blank text
  gives no chunk; otherwise chunk number \<open>i\<close> starts at \<open>5500 * i\<close>, and there is one chunk up to 6000
  characters and \<open>(n + 4999) div 5500\<close> chunks beyond.\<close>

theorem chunking_terminates_with_count:
  "chunk_normalized_text sha256 d text =
     (let t = normalize_search_text text in
      if py_strip t = [] then [] else map (chunk_at sha256 d t) [0..<chunk_count (length t)])"
  by (rule chunks_closed)

text \<open>C29: of a text that is not blank, every chunk is a non-empty slice inside the text of at most 6000
  characters, and the overlap is large enough that every window of at most 501 characters lies
  entirely in one chunk, so a citation of that length never falls between two chunks.\<close>

theorem chunks_are_bounded_and_cover:
  assumes "py_strip (normalize_search_text text) \<noteq> []"
  shows "list_all (slice_ok (normalize_search_text text)) (chunk_normalized_text sha256 d text) \<and>
    (\<forall>a l. a + l \<le> length (normalize_search_text text) \<longrightarrow> l \<le> 501 \<longrightarrow>
       list_ex (covers_window (normalize_search_text text) a l) (chunk_normalized_text sha256 d text))"
proof -
  let ?t = "normalize_search_text text"
  have "?t \<noteq> []" using assms by (auto simp: py_strip_def)
  moreover have "chunk_normalized_text sha256 d text = map (chunk_at sha256 d ?t) [0..<chunk_count (length ?t)]"
    using assms by (simp add: chunks_closed Let_def)
  ultimately show ?thesis
    using chunk_at_ok [of ?t _ sha256 d] chunk_window [of _ _ ?t sha256 d]
    by (auto simp: list_all_iff list_ex_iff Bex_def)
qed

text \<open>C28: an evidence citation that is accepted against the index of a sealed document names an artifact
  that the provenance of a sealed text names, its offsets select a non-empty excerpt of that text, and
  its chunk identifier is the digest of exactly that excerpt. A text without such a provenance (whose
  identifier is a version 5 UUID) therefore cannot be cited at all. That \<open>uuid5\<close> gives version 5
  UUIDs is RFC 4122; no control identifier is itself a UUID.\<close>

theorem accepted_citation_is_bound:
  assumes "build_sealed_citable_sources sha256 uuid5 document provenance = Inr sources"
    and "validate_one_citation sha256 sources c = Inr ()" and "map_of c ''source_kind'' = Some (JStr ''evidence'')"
    and "\<forall>n. uuid_str (uuid5 n) ! 14 = CHR ''5''"
    and "\<forall>k \<in> control_keys document. \<not> uuid4_pattern (py_lower k)"
  shows "\<exists>sid p key t s e ps pe. map_of c ''source_id'' = Some (JStr sid) \<and> sealed_text_of document p key t \<and>
    provenance_names provenance p sid \<and>
    json_int (map_of c ''start_offset'') = Some (s, ps) \<and> json_int (map_of c ''end_offset'') = Some (e, pe) \<and>
    0 \<le> s \<and> s < e \<and> e \<le> int (length t) \<and>
    map_of c ''chunk_id'' = Some (JStr (derive_chunk_id sha256
      (source_sha256_for_pointer sha256 p t (map_of provenance p)) ps pe (take (nat e - nat s) (drop (nat s) t))))"
proof -
  obtain sid k src s e ps pe where sid: "map_of c ''source_id'' = Some (JStr sid)" "uuid4_pattern (py_lower sid)"
    and k: "k \<in> {py_lower sid, sid}" and src: "(k, src) \<in> set sources"
    and off: "json_int (map_of c ''start_offset'') = Some (s, ps)" "json_int (map_of c ''end_offset'') = Some (e, pe)"
      "0 \<le> s" "s < e" "e \<le> int (length (cs_text src))"
    and chunk: "map_of c ''chunk_id'' = Some (JStr (derive_chunk_id sha256 (cs_source_sha256 src) ps pe
       (take (nat e - nat s) (drop (nat s) (cs_text src)))))"
    by (rule accepted_evidence_citation [OF assms(2,3)])
  obtain p key t where sealed: "sealed_text_of document p key t"
    and make: "src = make_source sha256 uuid5 provenance p key t"
    and which: "k = cs_source_id src \<or> k = key \<and> key \<in> control_keys document"
    using index_entries [OF assms(1) src]
    unfolding index_entry_ok_def control_keys_def fst_conv snd_conv mem_Collect_eq by blast
  have "\<not> (k = key \<and> key \<in> control_keys document)" using assms(5) sid(2) k by auto
  then have names: "provenance_names provenance p sid"
    using source_id_names [OF sid(2) k, of sha256 uuid5 provenance p key t] which make assms(4) by blast
  have src_text: "cs_text src = t"
    and src_digest: "cs_source_sha256 src = source_sha256_for_pointer sha256 p t (map_of provenance p)"
    by (simp_all add: make make_source_def Let_def)
  show ?thesis
    using sid(1) sealed names off [unfolded src_text] chunk [unfolded src_text src_digest] by blast
qed

section \<open>Witnesses\<close>

definition ex_uuid :: string where "ex_uuid = ''00000000-0000-4000-8000-000000000000''"

definition ex_document :: members where
  "ex_document = [(''security_controls'', JObj [(''AC-1'', JObj [(''implementation_statement'', JStr ''Text'')])])]"

definition ex_provenance :: members where
  "ex_provenance = [(''/security_controls/AC-1/implementation_statement'',
     JObj [(''source_artifact_id'', JStr ex_uuid)])]"

definition ex_sha :: "string \<Rightarrow> string" where "ex_sha s = replicate 64 CHR ''a''"
definition ex_uuid5 :: "string \<Rightarrow> uuid" where "ex_uuid5 s = 5 * 16 ^ 19"

definition ex_source :: citable_source where
  "ex_source = \<lparr>cs_source_id = ex_uuid, cs_source_sha256 = replicate 64 CHR ''a'', cs_text = ''Text''\<rparr>"

lemma hex_digits_nth: "i < w \<Longrightarrow> hex_digits w n ! i = hex_char (n div 16 ^ (w - 1 - i) mod 16)"
proof (induction w arbitrary: n)
  case (Suc w)
  show ?case
  proof (cases "i < w")
    case True
    then have "16 * 16 ^ (w - 1 - i) = (16::nat) ^ (w - i)"
      by (metis Suc_diff_Suc diff_Suc_eq_diff_pred power_Suc)
    then show ?thesis using Suc.IH [OF True] True by (simp add: nth_append div_mult2_eq [symmetric])
  qed (use Suc.prems in \<open>simp add: nth_append less_Suc_eq\<close>)
qed simp

lemma uuid_str_version: "uuid_str i ! 14 = hex_char (i div 16 ^ 19 mod 16)"
proof -
  have "uuid_str i ! 14 = hex_digits 32 i ! 12"
    by (simp add: uuid_str_def Let_def nth_append nth_Cons')
  then show ?thesis by (simp add: hex_digits_nth del: hex_digits.simps)
qed

lemma ex_uuid5_version: "uuid_str (ex_uuid5 s) ! 14 = CHR ''5''"
proof -
  have "hex_char 5 = CHR ''5''" by code_simp
  then show ?thesis unfolding uuid_str_version ex_uuid5_def by simp
qed

lemma ex_index: "build_sealed_citable_sources ex_sha ex_uuid5 ex_document ex_provenance =
    Inr [(ex_uuid, ex_source), (''AC-1'', ex_source)]"
proof -
  have "uuid4_pattern (py_lower ex_uuid)" "py_lower ex_uuid = ex_uuid" "ex_uuid \<noteq> ''AC-1''" "py_strip ''Text'' \<noteq> []"
    by code_simp+
  then show ?thesis
    by (simp add: build_sealed_citable_sources_def ex_document_def items_or_empty_def add_control_source_def
      citable_text_def make_source_def ex_provenance_def control_pointer_def provenance_source_id_def
      source_sha256_for_pointer_def ex_sha_def ex_source_def Let_def)
qed

definition ex_citation :: members where
  "ex_citation = build_evidence_citation ex_sha ex_source 0 4"

lemma ex_citation_ok: "validate_one_citation ex_sha [(ex_uuid, ex_source), (''AC-1'', ex_source)] ex_citation = Inr ()"
proof -
  have "uuid4_pattern (py_lower ex_uuid)" "py_lower ex_uuid = ex_uuid" "is_sha256_hex (replicate 64 CHR ''a'')"
    by code_simp+
  then show ?thesis
    by (simp add: validate_one_citation_def ex_citation_def build_evidence_citation_def ex_source_def
      validate_evidence_citation_def derive_chunk_id_def ex_sha_def)
qed

theorem chunks_are_bounded_and_cover_witness:
  "list_all (slice_ok ''Text'') (chunk_normalized_text ex_sha ''d'' ''Text'')"
proof -
  have "normalize_search_text ''Text'' = ''Text''" "py_strip ''Text'' \<noteq> []" by code_simp+
  then show ?thesis using chunks_are_bounded_and_cover [of "''Text''" ex_sha "''d''"] by simp
qed

theorem accepted_citation_is_bound_witness:
  "\<exists>p key t. sealed_text_of ex_document p key t \<and> provenance_names ex_provenance p ex_uuid"
proof -
  have keys: "control_keys ex_document = {''AC-1''}"
    by (simp add: control_keys_def ex_document_def items_or_empty_def)
  have "\<not> uuid4_pattern (py_lower ''AC-1'')" by code_simp
  then have "\<forall>k \<in> control_keys ex_document. \<not> uuid4_pattern (py_lower k)" by (simp add: keys)
  moreover have sid: "py_lower ex_uuid = ex_uuid" by code_simp
  moreover have "map_of ex_citation ''source_kind'' = Some (JStr ''evidence'')"
      "map_of ex_citation ''source_id'' = Some (JStr ex_uuid)"
    by (simp_all add: ex_citation_def build_evidence_citation_def ex_source_def sid)
  ultimately show ?thesis
    using accepted_citation_is_bound [OF ex_index ex_citation_ok] ex_uuid5_version by (metis json.inject(4) option.inject)
qed

end
