(* ===== verification/RegisterProperties.thy ===== *)
theory RegisterProperties
  imports Registers
begin

text \<open>
  A confirmed register read back from its section: which entries survive the JSON text, and why an
  interconnection register that was validated may fail its validation afterwards.
\<close>

section \<open>Members of a canonical object\<close>

lemma map_of_canon_members:
  assumes "distinct (map fst m)"
  shows "map_of (sort_key fst (map (\<lambda>(k, v). (k, canon v)) m)) k = map_option canon (map_of m k)"
proof -
  let ?m = "map (\<lambda>(k, v). (k, canon v)) m"
  have "map fst ?m = map fst m" by auto
  then have d: "distinct (map fst ?m)" using assms by (simp only:)
  have "map_of (sort_key fst ?m) = map_of ?m"
    by (rule map_of_inject_set [THEN iffD2]) (simp_all only: distinct_map_sort_key d set_sort)
  moreover have "map_of ?m k = map_option canon (map_of m k)" by (induction m) auto
  ultimately show ?thesis by simp
qed

text \<open>
  What \<open>json.loads\<close> documents: it reads back the document \<open>json.dumps\<close> wrote. \<open>uuid.UUID\<close> reads the
  text of an artifact identifier, and a locator is not empty.
\<close>

definition reads_back :: "runtime \<Rightarrow> json \<Rightarrow> bool" where
  "reads_back rt doc \<longleftrightarrow> rt_loads rt (json_dumps doc) = Some (canon doc)"

definition wf_link :: "runtime \<Rightarrow> evidence_link \<Rightarrow> bool" where
  "wf_link rt l \<longleftrightarrow> rt_uuid rt (uuid_str (artifact_id l)) = Some (artifact_id l) \<and> locator l \<noteq> []"

text \<open>A stored locator is the canonical one.\<close>

definition stored_locator :: "members \<Rightarrow> members" where
  "stored_locator m = sort_key fst (map (\<lambda>(k, v). (k, canon v)) (sort_key fst m))"

definition stored_link :: "evidence_link \<Rightarrow> evidence_link" where
  "stored_link l = l\<lparr>locator := stored_locator (locator l)\<rparr>"

lemma stored_locator_Nil_iff [simp]: "stored_locator m = [] \<longleftrightarrow> m = []"
  by (simp add: stored_locator_def)

lemma parse_stored_link:
  assumes "wf_link rt l"
  shows "parse_evidence_link rt (canon (link_dict l)) = Inr (stored_link l)"
proof -
  let ?m = "[(''artifact_id'', JStr (uuid_str (artifact_id l))), (''locator'', JObj (sort_key fst (locator l)))]"
  obtain m where m: "canon (link_dict l) = JObj m" "m = sort_key fst (map (\<lambda>(k, v). (k, canon v)) ?m)"
    by (simp add: link_dict_def)
  have "map_of m ''artifact_id'' = Some (JStr (uuid_str (artifact_id l)))"
      "map_of m ''locator'' = Some (JObj (stored_locator (locator l)))"
    unfolding m(2) by (subst map_of_canon_members; simp add: stored_locator_def)+
  moreover obtain kv kvs where "stored_locator (locator l) = kv # kvs"
    using assms by (cases "stored_locator (locator l)") (auto simp: wf_link_def)
  moreover have "rt_uuid rt (uuid_str (artifact_id l)) = Some (artifact_id l)"
    using assms by (simp add: wf_link_def)
  ultimately show ?thesis
    by (simp add: m(1) parse_evidence_link_def parse_artifact_reference_def parse_uuid_def stored_link_def)
qed

lemma parse_stored_links:
  assumes "list_all (wf_link rt) ls"
  shows "parse_evidence_links rt (Some (canon (JArr (map link_dict ls)))) = Inr (map stored_link ls)"
proof -
  have "mapR (parse_evidence_link rt) (map (canon \<circ> link_dict) ls) = Inr (map stored_link ls)"
    using assms by (induction ls) (simp_all add: parse_stored_link)
  then show ?thesis by (simp add: parse_evidence_links_def)
qed

section \<open>A register read back\<close>

lemma reload_register:
  assumes "reads_back rt (JObj [(key, JArr (map dict xs))])"
    and "\<And>n x. x \<in> set xs \<Longrightarrow> entry (n, canon (dict x)) = Inr (g x)"
  shows "parse_register rt e1 e2 e3 key entry (json_dumps (JObj [(key, JArr (map dict xs))])) = Inr (map g xs)"
proof -
  let ?t = "json_dumps (JObj [(key, JArr (map dict xs))])"
  have "hd ?t = CHR ''{''" "?t \<noteq> []" by (simp_all add: json_dumps_def)
  then have nonblank: "py_strip ?t \<noteq> []"
    by (cases ?t) (auto simp: py_strip_Nil_iff py_isspace_def)
  have loads: "rt_loads rt ?t = Some (canon (JObj [(key, JArr (map dict xs))]))"
    using assms(1) by (simp add: reads_back_def)
  have "mapR entry (zip ns (map (canon \<circ> dict) ys)) = Inr (map g ys)"
    if "set ys \<subseteq> set xs" "length ns = length ys" for ns ys
    using that(2,1) by (induction ns ys rule: list_induct2) (simp_all add: assms(2))
  then show ?thesis using nonblank loads by (simp add: parse_register_def list_member_def)
qed

definition stored_interconnection :: "interconnection \<Rightarrow> interconnection" where
  "stored_interconnection i = \<lparr>ic_interconnection_id = ic_interconnection_id i,
     ic_connected_organization = py_strip (ic_connected_organization i),
     ic_connected_system = py_strip (ic_connected_system i), ic_direction = ic_direction i,
     ic_data_types = filter (\<lambda>d. d \<noteq> []) (map py_strip (ic_data_types i)),
     ic_interface_protocol = py_strip (ic_interface_protocol i), ic_connection_owner = py_strip (ic_connection_owner i),
     ic_agreement_type = py_strip (ic_agreement_type i), ic_agreement_id = py_strip (ic_agreement_id i),
     ic_agreement_status = py_strip (ic_agreement_status i),
     ic_agreement_expiration = py_strip (ic_agreement_expiration i),
     ic_boundary_protections = py_strip (ic_boundary_protections i), ic_evidence = map stored_link (ic_evidence i)\<rparr>"

definition wf_interconnection :: "runtime \<Rightarrow> interconnection \<Rightarrow> bool" where
  "wf_interconnection rt i \<longleftrightarrow> ic_interconnection_id i \<noteq> [] \<and> list_all (wf_link rt) (ic_evidence i)"

lemma text_or_empty_JStr: "map_of m k = Some (JStr s) \<Longrightarrow> text_or_empty rt m k = s"
  by (simp add: text_or_empty_def)

lemma parse_stored_interconnection:
  assumes "wf_interconnection rt i"
  shows "parse_interconnection rt (n, canon (interconnection_dict i)) = Inr (stored_interconnection i)"
proof -
  obtain d where d: "interconnection_dict i = JObj d" "distinct (map fst d)"
    by (simp add: interconnection_dict_def)
  define m where "m = sort_key fst (map (\<lambda>(k, v). (k, canon v)) d)"
  have canon: "canon (interconnection_dict i) = JObj m" by (simp add: d(1) m_def)
  have look: "map_of m k = map_option canon (map_of d k)" for k
    unfolding m_def by (rule map_of_canon_members [OF d(2)])
  have data: "filter (\<lambda>d. d \<noteq> []) (map (\<lambda>v. py_strip (py_str rt v)) (map JStr (filter (\<lambda>d. d \<noteq> []) (map py_strip ts)))) =
      filter (\<lambda>d. d \<noteq> []) (map py_strip ts)" for ts
    by (induction ts) auto
  have d_eq: "d = members_of (interconnection_dict i)" by (simp add: d(1))
  have ev: "map_of m ''evidence'' = Some (canon (JArr (map link_dict (ic_evidence i))))"
    and types: "map_of m ''data_types'' = Some (JArr (map JStr (filter (\<lambda>d. d \<noteq> []) (map py_strip (ic_data_types i)))))"
    by (simp_all add: look d_eq interconnection_dict_def)
  have strs: "map_of m ''interconnection_id'' = Some (JStr (ic_interconnection_id i))"
      "map_of m ''connected_organization'' = Some (JStr (py_strip (ic_connected_organization i)))"
      "map_of m ''connected_system'' = Some (JStr (py_strip (ic_connected_system i)))"
      "map_of m ''direction'' = Some (JStr (ic_direction i))"
      "map_of m ''interface_protocol'' = Some (JStr (py_strip (ic_interface_protocol i)))"
      "map_of m ''connection_owner'' = Some (JStr (py_strip (ic_connection_owner i)))"
      "map_of m ''agreement_type'' = Some (JStr (py_strip (ic_agreement_type i)))"
      "map_of m ''agreement_id'' = Some (JStr (py_strip (ic_agreement_id i)))"
      "map_of m ''agreement_status'' = Some (JStr (py_strip (ic_agreement_status i)))"
      "map_of m ''agreement_expiration'' = Some (JStr (py_strip (ic_agreement_expiration i)))"
      "map_of m ''boundary_protections'' = Some (JStr (py_strip (ic_boundary_protections i)))"
    by (simp_all add: look d_eq interconnection_dict_def)
  have links: "parse_evidence_links rt (map_of m ''evidence'') = Inr (map stored_link (ic_evidence i))"
    unfolding ev using assms by (intro parse_stored_links) (simp_all add: wf_interconnection_def)
  show ?thesis
    using assms
    by (simp add: canon parse_interconnection_def list_member_def types strs links text_or_empty_JStr
      id_or_new_def wf_interconnection_def stored_interconnection_def data del: map_map filter_map)
qed
lemma foldR_unit: "foldR (\<lambda>_ x. f x) () xs = Inr () \<longleftrightarrow> (\<forall>x \<in> set xs. f x = Inr ())"
  by (induction xs) (auto simp: bindR_eq_Inr)

lemma stored_required_text: "required_text (stored_interconnection i) = map py_strip (required_text i)"
  by (simp add: required_text_def stored_interconnection_def)

lemma has_text_strip [simp]: "has_text (py_strip s) = has_text s"
  by (simp add: has_text_def)

lemma validate_stored_interconnection:
  "validate_interconnection i = Inr () \<Longrightarrow>
    validate_interconnection (stored_interconnection i) = Inr () \<longleftrightarrow> list_ex has_text (ic_data_types i)"
proof -
  have "list_ex (\<lambda>v. \<not> has_text v) (map py_strip ts) = list_ex (\<lambda>v. \<not> has_text v) ts" for ts
    by (induction ts) simp_all
  moreover have "ic_data_types (stored_interconnection i) = [] \<longleftrightarrow> \<not> list_ex has_text (ic_data_types i)"
    by (auto simp: stored_interconnection_def filter_empty_conv list_ex_iff has_text_def)
  moreover have "ic_direction (stored_interconnection i) = ic_direction i" by (simp add: stored_interconnection_def)
  moreover assume "validate_interconnection i = Inr ()"
  ultimately show ?thesis unfolding validate_interconnection_def stored_required_text by (simp split: if_splits)
qed

definition stored_component :: "system_component \<Rightarrow> system_component" where
  "stored_component c = c\<lparr>sc_name := py_strip (sc_name c), sc_purpose := py_strip (sc_purpose c),
     sc_evidence := map stored_link (sc_evidence c)\<rparr>"

definition wf_component :: "runtime \<Rightarrow> system_component \<Rightarrow> bool" where
  "wf_component rt c \<longleftrightarrow> sc_component_id c \<noteq> [] \<and> list_all (wf_link rt) (sc_evidence c)"

lemma parse_stored_component:
  assumes "wf_component rt c"
  shows "parse_component rt (n, canon (component_dict c)) = Inr (stored_component c)"
proof -
  obtain d where d: "component_dict c = JObj d" "distinct (map fst d)"
    by (simp add: component_dict_def)
  define m where "m = sort_key fst (map (\<lambda>(k, v). (k, canon v)) d)"
  have canon: "canon (component_dict c) = JObj m" by (simp add: d(1) m_def)
  have look: "map_of m k = map_option canon (map_of d k)" for k
    unfolding m_def by (rule map_of_canon_members [OF d(2)])
  have d_eq: "d = members_of (component_dict c)" by (simp add: d(1))
  have ev: "map_of m ''evidence'' = Some (canon (JArr (map link_dict (sc_evidence c))))"
    by (simp add: look d_eq component_dict_def)
  have strs: "map_of m ''component_id'' = Some (JStr (sc_component_id c))"
      "map_of m ''name'' = Some (JStr (py_strip (sc_name c)))"
      "map_of m ''purpose'' = Some (JStr (py_strip (sc_purpose c)))"
      "map_of m ''placement'' = Some (JStr (sc_placement c))"
    by (simp_all add: look d_eq component_dict_def)
  have links: "parse_evidence_links rt (map_of m ''evidence'') = Inr (map stored_link (sc_evidence c))"
    unfolding ev using assms by (intro parse_stored_links) (simp_all add: wf_component_def)
  show ?thesis
    using assms by (simp add: canon parse_component_def strs links id_or_new_def wf_component_def stored_component_def)
qed

text \<open>A component inventory survives: it is read back stripped, and is still valid.\<close>

lemma component_inventory_reload:
  assumes "reads_back rt (JObj [(''components'', JArr (map component_dict cs))])"
    and "list_all (wf_component rt) cs" and "validate_component_inventory cs = Inr ()"
  shows "parse_component_inventory rt (component_section_json cs) = Inr (map stored_component cs) \<and>
    validate_component_inventory (map stored_component cs) = Inr ()"
proof -
  have "parse_component_inventory rt (component_section_json cs) = Inr (map stored_component cs)"
    unfolding parse_component_inventory_def component_section_json_def
    using assms(1,2)
    by (intro reload_register) (auto simp: list_all_iff intro!: parse_stored_component)
  moreover have "validate_component (stored_component c) = validate_component c" for c
    by (simp add: validate_component_def stored_component_def)
  then have "validate_component_inventory (map stored_component cs) = Inr ()"
    using assms(3) by (auto simp: validate_component_inventory_def foldR_unit split: if_splits)
  ultimately show ?thesis ..
qed

lemma interconnection_register_parses:
  assumes "reads_back rt (JObj [(''interconnections'', JArr (map interconnection_dict xs))])"
    and "list_all (wf_interconnection rt) xs"
  shows "parse_interconnection_register rt (interconnection_section_json xs) = Inr (map stored_interconnection xs)"
  unfolding parse_interconnection_register_def interconnection_section_json_def
  using assms
  by (intro reload_register) (auto simp: list_all_iff intro!: parse_stored_interconnection)

text \<open>A validated interconnection register is read back from its section entry by entry, with its
  texts stripped and its blank data types dropped; it passes the same validation again exactly if every
  entry has a data type that is not blank, which the first validation did not ask for. \<open>json.loads\<close>
  reads what \<open>json.dumps\<close> wrote and \<open>uuid.UUID\<close> what \<open>str\<close> wrote (\<open>reads_back\<close>).\<close>

theorem interconnection_register_reload:
  assumes "reads_back rt (JObj [(''interconnections'', JArr (map interconnection_dict xs))])"
    and "list_all (wf_interconnection rt) xs"
    and "validate_interconnection_register xs = Inr ()"
  shows "parse_interconnection_register rt (interconnection_section_json xs) = Inr (map stored_interconnection xs) \<and>
    (validate_interconnection_register (map stored_interconnection xs) = Inr () \<longleftrightarrow>
     list_all (\<lambda>i. list_ex has_text (ic_data_types i)) xs)"
proof -
  have "xs \<noteq> []" "\<And>i. i \<in> set xs \<Longrightarrow> validate_interconnection i = Inr ()"
    using assms(3) by (auto simp: validate_interconnection_register_def foldR_unit split: if_splits)
  then have "validate_interconnection_register (map stored_interconnection xs) = Inr () \<longleftrightarrow>
      list_all (\<lambda>i. list_ex has_text (ic_data_types i)) xs"
    by (simp add: validate_interconnection_register_def foldR_unit validate_stored_interconnection list_all_iff)
  then show ?thesis using interconnection_register_parses [OF assms(1,2)] by simp
qed

text \<open>An interconnection whose only data type is a space: valid when confirmed, invalid when reloaded.\<close>

definition ex_interconnection :: interconnection where
  "ex_interconnection = \<lparr>ic_interconnection_id = ''ic-1'', ic_connected_organization = ''Agency'',
     ic_connected_system = ''Mail'', ic_direction = ''outbound'', ic_data_types = ['' ''],
     ic_interface_protocol = ''SMTP'', ic_connection_owner = ''Ops'', ic_agreement_type = ''ISA'',
     ic_agreement_id = [], ic_agreement_status = [], ic_agreement_expiration = [],
     ic_boundary_protections = ''TLS'', ic_evidence = [\<lparr>artifact_id = 7, locator = [(''page'', JInt 1)]\<rparr>]\<rparr>"

definition ex_register_doc :: json where
  "ex_register_doc = JObj [(''interconnections'', JArr (map interconnection_dict [ex_interconnection]))]"

definition ex_register_runtime :: runtime where
  "ex_register_runtime = \<lparr>rt_loads = (\<lambda>s. if s = json_dumps ex_register_doc then Some (canon ex_register_doc) else None),
     rt_uuid = (\<lambda>s. if s = uuid_str 7 then Some 7 else None), rt_str = dump, rt_uuid4 = id\<rparr>"

theorem interconnection_register_reload_witness:
  "parse_interconnection_register ex_register_runtime (interconnection_section_json [ex_interconnection]) =
     Inr [stored_interconnection ex_interconnection] \<and>
   validate_interconnection_register [ex_interconnection] = Inr () \<and>
   validate_interconnection_register [stored_interconnection ex_interconnection] \<noteq> Inr ()"
proof -
  have "validate_interconnection_register [ex_interconnection] = Inr ()" by code_simp
  moreover have "\<not> list_all (\<lambda>i. list_ex has_text (ic_data_types i)) [ex_interconnection]" by code_simp
  moreover have "reads_back ex_register_runtime ex_register_doc"
    by (simp add: reads_back_def ex_register_runtime_def)
  moreover have "list_all (wf_interconnection ex_register_runtime) [ex_interconnection]"
    by (simp add: wf_interconnection_def wf_link_def ex_register_runtime_def ex_interconnection_def)
  ultimately show ?thesis
    using interconnection_register_reload [of ex_register_runtime "[ex_interconnection]"]
    by (simp add: ex_register_doc_def)
qed

end
