(* ===== verification/GenerationContracts.thy ===== *)
theory GenerationContracts
  imports Editing Profiles
begin

text \<open>
  The contracts of model output, \<open>ssp_workspace/generation_contracts.py\<close>: strict parsing of a generation,
  a narrative, a control, a categorization and a patch response against the allowed identifiers and the
  selected profile, and the same policy applied to what people edit. \<open>json.loads\<close> is in the record
  \<open>runtime\<close>, \<open>casefold\<close> and SHA-256 of the question keys in \<open>py_env\<close>; an allowed set is the list of its
  elements. An error has the detail (without the values quoted in it), the kind and whether a repair is tried.
\<close>

datatype generation_error =
    GenerationContractError string string bool
  | ProfileValidationError string
  | ContentValueError
  | ContentTypeError

definition schema_error :: "string \<Rightarrow> generation_error" where
  "schema_error d = GenerationContractError d ''schema'' True"

definition MAX_SECTIONS_PER_RESPONSE :: nat where "MAX_SECTIONS_PER_RESPONSE = 100"
definition MAX_CONTROLS_PER_RESPONSE :: nat where "MAX_CONTROLS_PER_RESPONSE = 2000"
definition MAX_QUESTIONS_PER_RESPONSE :: nat where "MAX_QUESTIONS_PER_RESPONSE = 2000"
definition MAX_PATCHES_PER_RESPONSE :: nat where "MAX_PATCHES_PER_RESPONSE = 50"
definition MAX_CONTENT_LENGTH :: nat where "MAX_CONTENT_LENGTH = 200000"
definition MAX_QUESTION_LENGTH :: nat where "MAX_QUESTION_LENGTH = 8000"

definition IMPLEMENTATION_STATUSES :: "string list" where
  "IMPLEMENTATION_STATUSES = [''implemented'', ''partially_implemented'', ''planned'', ''not_implemented'',
     ''not_applicable'', ''unknown'']"

definition RESPONSIBILITIES :: "string list" where
  "RESPONSIBILITIES = [''system_specific'', ''hybrid'', ''inherited'', ''unknown'']"

definition OWNER_TYPES :: "string list" where
  "OWNER_TYPES = [''isso'', ''agency'', ''technical'', ''system_owner'']"

definition TARGET_TYPES :: "string list" where
  "TARGET_TYPES = [''ssp_section'', ''control'']"

section \<open>Placeholders of organization-defined parameters\<close>

text \<open>The regular expression \<open>\{\{\s*insert\s*:\s*param\s*,\<close>, ignoring case.\<close>

definition skip_spaces :: "string \<Rightarrow> string" where
  "skip_spaces s = dropWhile py_isspace s"

definition eat :: "string \<Rightarrow> string \<Rightarrow> string option" where
  "eat w s = (if py_lower (take (length w) s) = w then Some (drop (length w) s) else None)"

definition eat_spaced :: "string \<Rightarrow> string option \<Rightarrow> string option" where
  "eat_spaced w r = (case r of None \<Rightarrow> None | Some s \<Rightarrow> eat w (skip_spaces s))"

definition param_insert_here :: "string \<Rightarrow> bool" where
  "param_insert_here s =
     (eat_spaced '','' (eat_spaced ''param'' (eat_spaced '':'' (eat_spaced ''insert'' (eat ''{{'' s)))) \<noteq> None)"

fun contains_oscal_parameter_insert_syntax :: "string \<Rightarrow> bool" where
  "contains_oscal_parameter_insert_syntax [] = False"
| "contains_oscal_parameter_insert_syntax (c # s) =
     (param_insert_here (c # s) \<or> contains_oscal_parameter_insert_syntax s)"

section \<open>The policy of a profile\<close>

record item_policy =
  ip_item_id :: string
  ip_required :: bool
  ip_value_type :: string
  ip_min_length :: int
  ip_allowed_values :: "string list"
  ip_standard_refs :: "string list"
  ip_structured_kind :: "string option"

record selected_policy =
  pol_sections :: "(string \<times> item_policy) list"
  pol_response :: control_response_policy
  pol_rules :: deterministic_policy
  pol_parameterized :: "string list"

definition item_policy_of :: "ssp_required_item \<Rightarrow> item_policy" where
  "item_policy_of i = \<lparr>ip_item_id = ri_item_id i, ip_required = ri_required i, ip_value_type = ri_value_type i,
     ip_min_length = (case ri_min_length i of None \<Rightarrow> 1 | Some n \<Rightarrow> n), ip_allowed_values = ri_allowed_values i,
     ip_standard_refs = ri_standard_refs i, ip_structured_kind = ri_structured_kind i\<rparr>"

definition from_resolved :: "resolved_profile \<Rightarrow> selected_policy" where
  "from_resolved p =
     (let rules = sp_deterministic (rp_statement_policy p); response = rp_control_response p in
      \<lparr>pol_sections = dict_of ip_item_id (map item_policy_of (rp_ssp_required_items p)),
       pol_response = response\<lparr>cr_evidence_required := cr_evidence_required response \<and> dp_require_evidence rules\<rparr>,
       pol_rules = rules,
       pol_parameterized = map pc_control_id
         (filter (\<lambda>c. contains_oscal_parameter_insert_syntax (pc_requirement_text c)) (rp_controls p))\<rparr>)"

definition structured :: "item_policy \<Rightarrow> bool" where
  "structured i = (case ip_structured_kind i of None \<Rightarrow> False | Some k \<Rightarrow> k \<noteq> [])"

text \<open>\<open>line.strip().lstrip("-*\<bullet>").strip()\<close>; the bullet is not among the characters modelled.\<close>

definition list_item :: "string \<Rightarrow> string" where
  "list_item line = py_strip (dropWhile (\<lambda>c. c = CHR ''-'' \<or> c = CHR ''*'') (py_strip line))"

definition normalized_string_list_items :: "string \<Rightarrow> string list" where
  "normalized_string_list_items content = filter (\<lambda>i. i \<noteq> []) (map list_item (splitlines content))"

text \<open>A \<open>ValueError\<close> of a register becomes a contract error where the code catches it.\<close>

definition from_register :: "register_error + 'a \<Rightarrow> generation_error + 'a" where
  "from_register r =
     (case r of
        Inr x \<Rightarrow> Inr x
      | Inl e \<Rightarrow> Inl (if is_value_error e then schema_error (case e of RegisterValueError m \<Rightarrow> m | _ \<Rightarrow> []) else ContentTypeError))"

definition uncaught_register :: "register_error + 'a \<Rightarrow> generation_error + 'a" where
  "uncaught_register r =
     (case r of Inr x \<Rightarrow> Inr x | Inl e \<Rightarrow> Inl (if is_value_error e then ContentValueError else ContentTypeError))"

definition validate_structured ::
  "runtime \<Rightarrow> sp800_60_catalog \<Rightarrow> string \<Rightarrow> string \<Rightarrow> generation_error + bool" where
  "validate_structured rt cat kind content =
     (if kind = ''authorization_boundary'' then
        bindR (uncaught_register (parse_authorization_boundary rt content)) (\<lambda>b.
        case b of
          None \<Rightarrow> Inl (schema_error ''requires authorization boundary content'')
        | Some b \<Rightarrow> bindR (from_register (validate_authorization_boundary b)) (\<lambda>_. Inr True))
      else if kind = ''component_inventory'' then
        bindR (from_register (bindR (parse_component_inventory rt content) validate_component_inventory)) (\<lambda>_. Inr True)
      else if kind = ''interconnection_register'' then
        bindR (from_register (bindR (parse_interconnection_register rt content) validate_interconnection_register))
          (\<lambda>_. Inr True)
      else if kind = ''information_type_register'' then
        bindR (from_register (bindR (parse_information_type_register rt content) (validate_information_type_register cat)))
          (\<lambda>_. Inr True)
      else Inr False)"

definition validate_plain :: "string \<Rightarrow> item_policy \<Rightarrow> generation_error + unit" where
  "validate_plain content i =
     (if ip_value_type i = ''string_list'' then
        let items = normalized_string_list_items content in
        if int (length items) < ip_min_length i then Inl (schema_error ''requires at least min_length list items'')
        else guardR (ip_allowed_values i = [] \<or> set items \<subseteq> set (ip_allowed_values i))
          (schema_error ''contains disallowed values'')
      else
        let normalized = py_strip content in
        if int (length normalized) < ip_min_length i then Inl (schema_error ''requires at least min_length characters'')
        else guardR (ip_allowed_values i = [] \<or> normalized \<in> set (ip_allowed_values i))
          (schema_error ''value is not allowed''))"

definition validate_section_content_against_policy ::
  "runtime \<Rightarrow> sp800_60_catalog \<Rightarrow> string \<Rightarrow> item_policy \<Rightarrow> generation_error + unit" where
  "validate_section_content_against_policy rt cat content i =
     bindR (if structured i then validate_structured rt cat (the (ip_structured_kind i)) content else Inr False) (\<lambda>settled.
     if settled then Inr () else validate_plain content i)"

section \<open>Checks on what people edit\<close>

definition as_profile_error :: "generation_error + 'a \<Rightarrow> generation_error + 'a" where
  "as_profile_error r = (case r of Inl (GenerationContractError d k b) \<Rightarrow> Inl (ProfileValidationError d) | _ \<Rightarrow> r)"

definition validate_workspace_section_content ::
  "runtime \<Rightarrow> sp800_60_catalog \<Rightarrow> string \<Rightarrow> string \<Rightarrow> selected_policy \<Rightarrow> generation_error + unit" where
  "validate_workspace_section_content rt cat section_id content pol =
     (if \<not> has_text content then Inr ()
      else case map_of (pol_sections pol) section_id of
        None \<Rightarrow> Inl (ProfileValidationError ''unknown SSP section'')
      | Some i \<Rightarrow> as_profile_error (validate_section_content_against_policy rt cat content i))"

definition or_unknown :: "string option \<Rightarrow> string" where
  "or_unknown v = py_strip (case v of None \<Rightarrow> ''unknown'' | Some s \<Rightarrow> if s = [] then ''unknown'' else s)"

definition validate_workspace_control_fields ::
  "string option \<Rightarrow> string option \<Rightarrow> selected_policy \<Rightarrow> generation_error + unit" where
  "validate_workspace_control_fields status resp pol =
     (if or_unknown status \<notin> set (cr_implementation_statuses (pol_response pol))
      then Inl (ProfileValidationError ''implementation_status is not allowed'')
      else guardR (or_unknown resp \<in> set (cr_responsibilities (pol_response pol)))
        (ProfileValidationError ''responsibility is not allowed''))"

definition validate_workspace_implementation_statement ::
  "string \<Rightarrow> selected_policy option \<Rightarrow> generation_error + unit" where
  "validate_workspace_implementation_statement statement pol =
     guardR (\<not> ((case pol of None \<Rightarrow> True | Some p \<Rightarrow> dp_reject_insert_syntax (pol_rules p)) \<and>
       contains_oscal_parameter_insert_syntax statement))
       (ProfileValidationError ''implementation_statement must not contain OSCAL placeholder syntax'')"

definition validate_workspace_question_owner :: "string \<Rightarrow> selected_policy \<Rightarrow> generation_error + unit" where
  "validate_workspace_question_owner owner pol =
     guardR (owner \<in> set (cr_question_owner_types (pol_response pol))) (ProfileValidationError ''owner_type is not allowed'')"

definition agent_control_requires_facts :: "string \<Rightarrow> string \<Rightarrow> string \<Rightarrow> bool \<Rightarrow> bool" where
  "agent_control_requires_facts status resp statement evidence_required =
     (evidence_required \<and> (has_text statement \<or> status \<noteq> ''unknown'' \<or> resp \<noteq> ''unknown''))"

definition change_or :: "string \<Rightarrow> string \<Rightarrow> targeted_patch \<Rightarrow> string" where
  "change_or k fallback p = (case map_of (tp_changes p) k of None \<Rightarrow> fallback | Some v \<Rightarrow> v)"

definition validate_applied_patch ::
  "runtime \<Rightarrow> sp800_60_catalog \<Rightarrow> selected_policy \<Rightarrow> string list \<Rightarrow> targeted_patch \<Rightarrow> generation_error + unit" where
  "validate_applied_patch rt cat pol allowed_facts p =
     (if \<not> set (tp_supporting_fact_ids p) \<subseteq> set allowed_facts
      then Inl (ProfileValidationError ''unknown supporting_fact_ids'')
      else if tp_target_type p = ''ssp_section'' then
        let content = change_or ''content'' [] p in
        bindR (validate_workspace_section_content rt cat (tp_target_id p) content pol) (\<lambda>_.
        guardR (\<not> (has_text content \<and> tp_supporting_fact_ids p = []))
          (ProfileValidationError ''section has content without supporting facts''))
      else
        let status = change_or ''implementation_status'' ''unknown'' p; resp = change_or ''responsibility'' ''unknown'' p;
            statement = change_or ''implementation_statement'' [] p in
        bindR (validate_workspace_control_fields (Some status) (Some resp) pol) (\<lambda>_.
        bindR (if map_of (tp_changes p) ''implementation_statement'' \<noteq> None
          then validate_workspace_implementation_statement statement (Some pol) else Inr ()) (\<lambda>_.
        guardR (\<not> (agent_control_requires_facts status resp statement (cr_evidence_required (pol_response pol)) \<and>
            tp_supporting_fact_ids p = []))
          (ProfileValidationError ''control requires supporting facts for agent metadata''))))"

definition validate_applied_patch_result ::
  "runtime \<Rightarrow> sp800_60_catalog \<Rightarrow> patch_result \<Rightarrow> selected_policy \<Rightarrow> string list \<Rightarrow> generation_error + unit" where
  "validate_applied_patch_result rt cat result pol allowed_facts =
     bindR (foldR (\<lambda>_ q. validate_workspace_question_owner (gq_owner_type q) pol) () (pr_questions_to_add result)) (\<lambda>_.
     foldR (\<lambda>_ p. validate_applied_patch rt cat pol allowed_facts p) () (pr_patches result))"

end
