(* ===== verification/GenerationParsing.thy ===== *)
theory GenerationParsing
  imports GenerationContracts
begin

text \<open>
  Reading model output, the parsers of \<open>ssp_workspace/generation_contracts.py\<close>: a response is parsed
  strictly (exact keys, bounded arrays and texts, identifiers from the allowed sets, no duplicates) or
  rejected with a \<open>GenerationContractError\<close>. Sets of allowed values are lists.
\<close>

section \<open>JSON text\<close>

fun drop_last_fence :: "string list \<Rightarrow> string list" where
  "drop_last_fence ls = (if ls \<noteq> [] \<and> py_strip (last ls) = ''```'' then butlast ls else ls)"

definition strip_markdown_json_fence :: "string \<Rightarrow> string" where
  "strip_markdown_json_fence raw =
     (let stripped = py_strip raw in
      if take 3 stripped \<noteq> ''```'' then raw
      else
        let ls = splitlines stripped;
            body = (case ls of [] \<Rightarrow> [] | l # rest \<Rightarrow> if take 3 l = ''```'' then rest else ls);
            inner = py_strip (join_with (CHR 0x0A) (drop_last_fence body))
        in if inner = [] then raw else inner)"

definition response_object :: "json \<Rightarrow> generation_error + members" where
  "response_object j = (case j of JObj m \<Rightarrow> Inr m | _ \<Rightarrow> Inl (schema_error ''response must be a JSON object''))"

definition parse_json_object :: "runtime \<Rightarrow> string \<Rightarrow> generation_error + members" where
  "parse_json_object rt raw =
     (case rt_loads rt raw of
        Some j \<Rightarrow> response_object j
      | None \<Rightarrow> (case rt_loads rt (strip_markdown_json_fence raw) of
          Some j \<Rightarrow> response_object j
        | None \<Rightarrow> Inl (GenerationContractError ''response must be strict JSON'' ''parse'' True)))"

section \<open>Fields\<close>

definition require_schema_version :: "members \<Rightarrow> string \<Rightarrow> generation_error + unit" where
  "require_schema_version m expected =
     guardR (map_of m ''schema_version'' = Some (JStr expected)) (schema_error ''unsupported schema_version'')"

definition require_exact_keys :: "members \<Rightarrow> string list \<Rightarrow> generation_error + unit" where
  "require_exact_keys m expected =
     guardR (set (map fst m) = set expected) (schema_error ''keys invalid'')"

definition too_many :: generation_error where
  "too_many = GenerationContractError ''exceeds maximum'' ''schema'' False"

fun is_object :: "json \<Rightarrow> bool" where
  "is_object (JObj _) = True"
| "is_object _ = False"

definition object_list :: "members \<Rightarrow> string \<Rightarrow> nat \<Rightarrow> generation_error + members list" where
  "object_list m k maximum =
     (case map_of m k of
        Some (JArr xs) \<Rightarrow>
          if maximum < length xs then Inl too_many
          else if \<not> list_all is_object xs then Inl (schema_error ''must contain objects'')
          else Inr (map members_of xs)
      | _ \<Rightarrow> Inl (schema_error ''must be an array''))"

fun nonblank_string :: "json \<Rightarrow> bool" where
  "nonblank_string (JStr s) = has_text s"
| "nonblank_string _ = False"

definition string_list :: "members \<Rightarrow> string \<Rightarrow> nat \<Rightarrow> generation_error + string list" where
  "string_list m k maximum =
     (case map_of m k of
        Some (JArr xs) \<Rightarrow>
          if maximum < length xs then Inl too_many
          else if \<not> list_all nonblank_string xs then Inl (schema_error ''must contain non-empty strings'')
          else Inr (map str_of xs)
      | _ \<Rightarrow> Inl (schema_error ''must be an array''))"

definition unique_values :: "'a list \<Rightarrow> generation_error + unit" where
  "unique_values xs = guardR (distinct xs) (GenerationContractError ''duplicate values are not allowed'' ''duplicate'' False)"

definition allowed_fact_ids_field :: "members \<Rightarrow> string list \<Rightarrow> generation_error + string list" where
  "allowed_fact_ids_field m allowed =
     bindR (string_list m ''supporting_fact_ids'' 5000) (\<lambda>ids.
     bindR (unique_values ids) (\<lambda>_.
     if set ids \<subseteq> set allowed then Inr ids
     else Inl (GenerationContractError ''unknown supporting_fact_ids'' ''source_binding'' False)))"

definition text_value :: "json option \<Rightarrow> nat \<Rightarrow> generation_error + string" where
  "text_value v maximum =
     (case v of
        Some (JStr s) \<Rightarrow>
          if maximum < length s then Inl (GenerationContractError ''exceeds maximum length'' ''schema'' False)
          else Inr (py_strip s)
      | _ \<Rightarrow> Inl (schema_error ''must be a string''))"

definition allowed_value :: "json option \<Rightarrow> string list \<Rightarrow> bool \<Rightarrow> generation_error + string" where
  "allowed_value v allowed repairable =
     bindR (text_value v 500) (\<lambda>s.
     if s \<in> set allowed then Inr s
     else Inl (GenerationContractError ''is not allowed'' ''allowlist'' repairable))"

section \<open>The policy in force\<close>

record policy_overrides =
  po_statuses :: "string list option"
  po_responsibilities :: "string list option"
  po_owner_types :: "string list option"
  po_evidence_required :: "bool option"

definition no_overrides :: policy_overrides where
  "no_overrides = \<lparr>po_statuses = None, po_responsibilities = None, po_owner_types = None,
     po_evidence_required = None\<rparr>"

record enforcement =
  en_statuses :: "string list"
  en_responsibilities :: "string list"
  en_owner_types :: "string list"
  en_evidence_required :: bool
  en_sections :: "(string \<times> item_policy) list option"
  en_reject_inserts :: bool

text \<open>\<open>value or default\<close>: an empty set counts as no override.\<close>

definition override_or :: "string list option \<Rightarrow> string list \<Rightarrow> string list" where
  "override_or v fallback = (case v of None \<Rightarrow> fallback | Some xs \<Rightarrow> if xs = [] then fallback else xs)"

definition resolve_enforcement_policy :: "selected_policy option \<Rightarrow> policy_overrides \<Rightarrow> enforcement" where
  "resolve_enforcement_policy pol ov =
     (case pol of
        Some p \<Rightarrow>
          let r = pol_response p in
          \<lparr>en_statuses = cr_implementation_statuses r, en_responsibilities = cr_responsibilities r,
           en_owner_types = cr_question_owner_types r, en_evidence_required = cr_evidence_required r,
           en_sections = Some (pol_sections p), en_reject_inserts = dp_reject_insert_syntax (pol_rules p)\<rparr>
      | None \<Rightarrow>
          \<lparr>en_statuses = override_or (po_statuses ov) IMPLEMENTATION_STATUSES,
           en_responsibilities = override_or (po_responsibilities ov) RESPONSIBILITIES,
           en_owner_types = override_or (po_owner_types ov) OWNER_TYPES,
           en_evidence_required = (case po_evidence_required ov of None \<Rightarrow> True | Some b \<Rightarrow> b),
           en_sections = None, en_reject_inserts = True\<rparr>)"

record allowed_ids =
  al_sections :: "string list"
  al_controls :: "string list"
  al_facts :: "string list"

definition allowed_targets :: "allowed_ids \<Rightarrow> string \<Rightarrow> string list" where
  "allowed_targets al ttype = (if ttype = ''ssp_section'' then al_sections al else al_controls al)"

section \<open>The parts of a response\<close>

definition not_in_profile :: generation_error where
  "not_in_profile = GenerationContractError ''section is not in the selected profile'' ''allowlist'' False"

text \<open>
  Text without facts is dropped; text that breaks the policy is dropped for a structured register and
  an error otherwise.
\<close>

definition checked_section ::
  "runtime \<Rightarrow> sp800_60_catalog \<Rightarrow> (string \<times> item_policy) list \<Rightarrow> string \<Rightarrow> string \<Rightarrow> string list
     \<Rightarrow> generation_error + string \<times> string list" where
  "checked_section rt cat requirements sid content ids =
     (case map_of requirements sid of
        None \<Rightarrow> Inl not_in_profile
      | Some i \<Rightarrow>
          (case validate_section_content_against_policy rt cat content i of
            Inr _ \<Rightarrow> Inr (content, ids)
          | Inl e \<Rightarrow>
              (case e of
                 GenerationContractError _ _ _ \<Rightarrow> if structured i then Inr ([], []) else Inl e
               | _ \<Rightarrow> Inl e)))"

definition parse_section ::
  "runtime \<Rightarrow> sp800_60_catalog \<Rightarrow> allowed_ids \<Rightarrow> (string \<times> item_policy) list option \<Rightarrow> members
     \<Rightarrow> generation_error + generated_section" where
  "parse_section rt cat al requirements m =
     bindR (require_exact_keys m [''section_id'', ''content'', ''supporting_fact_ids'']) (\<lambda>_.
     bindR (allowed_value (map_of m ''section_id'') (al_sections al) False) (\<lambda>sid.
     bindR (text_value (map_of m ''content'') MAX_CONTENT_LENGTH) (\<lambda>text0.
     bindR (allowed_fact_ids_field m (al_facts al)) (\<lambda>ids.
     let text1 = (if text0 \<noteq> [] \<and> ids = [] then [] else text0) in
     bindR (case requirements of
         Some req \<Rightarrow> if has_text text1 then checked_section rt cat req sid text1 ids else Inr (text1, ids)
       | None \<Rightarrow> Inr (text1, ids)) (\<lambda>(text2, ids2).
     Inr \<lparr>gs_section_id = sid, gs_content = text2, gs_supporting_fact_ids = ids2\<rparr>)))))"

definition insert_error :: generation_error where
  "insert_error = GenerationContractError ''must not contain OSCAL placeholder syntax'' ''organization_parameter'' True"

definition needs_facts :: generation_error where
  "needs_facts = GenerationContractError ''requires supporting facts for agent metadata'' ''source_binding'' False"

definition parse_control :: "allowed_ids \<Rightarrow> enforcement \<Rightarrow> members \<Rightarrow> generation_error + generated_control" where
  "parse_control al en m =
     bindR (require_exact_keys m [''control_id'', ''implementation_status'', ''responsibility'',
       ''implementation_statement'', ''supporting_fact_ids'']) (\<lambda>_.
     bindR (allowed_value (map_of m ''control_id'') (al_controls al) False) (\<lambda>cid.
     bindR (allowed_value (map_of m ''implementation_status'') (en_statuses en) True) (\<lambda>status.
     bindR (allowed_value (map_of m ''responsibility'') (en_responsibilities en) True) (\<lambda>resp.
     bindR (text_value (map_of m ''implementation_statement'') MAX_CONTENT_LENGTH) (\<lambda>statement.
     if en_reject_inserts en \<and> contains_oscal_parameter_insert_syntax statement then Inl insert_error
     else bindR (allowed_fact_ids_field m (al_facts al)) (\<lambda>ids.
     if agent_control_requires_facts status resp statement (en_evidence_required en) \<and> ids = [] then Inl needs_facts
     else Inr \<lparr>gc_control_id = cid, gc_implementation_status = status, gc_responsibility = resp,
       gc_implementation_statement = statement, gc_supporting_fact_ids = ids\<rparr>))))))"

definition parse_question ::
  "py_env \<Rightarrow> allowed_ids \<Rightarrow> enforcement \<Rightarrow> members \<Rightarrow> generation_error + generated_question" where
  "parse_question env al en m =
     bindR (require_exact_keys m [''target_type'', ''target_id'', ''question'', ''owner_type'']) (\<lambda>_.
     bindR (allowed_value (map_of m ''target_type'') TARGET_TYPES False) (\<lambda>ttype.
     bindR (allowed_value (map_of m ''target_id'') (allowed_targets al ttype) False) (\<lambda>tid.
     bindR (text_value (map_of m ''question'') MAX_QUESTION_LENGTH) (\<lambda>q.
     bindR (allowed_value (map_of m ''owner_type'') (en_owner_types en) True) (\<lambda>owner.
     Inr \<lparr>gq_question_key = deterministic_question_key env ttype tid q, gq_target_type = ttype,
       gq_target_id = tid, gq_question = q, gq_owner_type = owner\<rparr>)))))"

definition parse_categorization_fields ::
  "allowed_ids \<Rightarrow> members \<Rightarrow> generation_error + generated_categorization" where
  "parse_categorization_fields al m =
     bindR (require_exact_keys m [''confidentiality'', ''integrity'', ''availability'', ''confidentiality_rationale'',
       ''integrity_rationale'', ''availability_rationale'', ''supporting_fact_ids'']) (\<lambda>_.
     bindR (mapR (\<lambda>k. allowed_value (map_of m k) [''low'', ''moderate'', ''high''] False)
       [''confidentiality'', ''integrity'', ''availability'']) (\<lambda>impacts.
     bindR (mapR (\<lambda>k. text_value (map_of m k) MAX_CONTENT_LENGTH)
       [''confidentiality_rationale'', ''integrity_rationale'', ''availability_rationale'']) (\<lambda>rationales.
     if [] \<in> set rationales then Inl (schema_error ''categorization rationales must be non-empty'')
     else bindR (allowed_fact_ids_field m (al_facts al)) (\<lambda>ids.
     if ids = [] then
       Inl (GenerationContractError ''categorization requires supporting facts'' ''source_binding'' False)
     else Inr \<lparr>gcat_confidentiality = impacts ! 0, gcat_integrity = impacts ! 1, gcat_availability = impacts ! 2,
       gcat_confidentiality_rationale = rationales ! 0, gcat_integrity_rationale = rationales ! 1,
       gcat_availability_rationale = rationales ! 2, gcat_supporting_fact_ids = ids\<rparr>))))"

definition parse_categorization ::
  "allowed_ids \<Rightarrow> json option \<Rightarrow> generation_error + generated_categorization option" where
  "parse_categorization al v =
     (case v of
        None \<Rightarrow> Inr None
      | Some JNull \<Rightarrow> Inr None
      | Some (JObj m) \<Rightarrow> bindR (parse_categorization_fields al m) (\<lambda>g. Inr (Some g))
      | Some _ \<Rightarrow> Inl (schema_error ''categorization must be an object or null''))"

section \<open>Whole responses\<close>

definition set_default :: "string \<Rightarrow> json \<Rightarrow> members \<Rightarrow> members" where
  "set_default k v m = (case map_of m k of None \<Rightarrow> m @ [(k, v)] | Some _ \<Rightarrow> m)"

text \<open>An unresolved parameterized control of the response needs a question.\<close>

definition missing_questions ::
  "selected_policy \<Rightarrow> generated_control list \<Rightarrow> generated_question list \<Rightarrow> string list" where
  "missing_questions pol cs qs =
     (let by_id = dict_of gc_control_id cs;
          asked = map gq_target_id (filter (\<lambda>q. gq_target_type q = ''control'') qs) in
      filter (\<lambda>cid.
        case map_of by_id cid of
          None \<Rightarrow> False
        | Some c \<Rightarrow> \<not> has_text (gc_implementation_statement c) \<and> cid \<notin> set asked) (pol_parameterized pol))"

definition validate_parameterized_control_questions ::
  "selected_policy option \<Rightarrow> generated_control list \<Rightarrow> generated_question list \<Rightarrow> generation_error + unit" where
  "validate_parameterized_control_questions pol cs qs =
     (case pol of
        None \<Rightarrow> Inr ()
      | Some p \<Rightarrow>
          if pol_parameterized p = [] \<or> \<not> dp_require_question (pol_rules p) then Inr ()
          else guardR (missing_questions p cs qs = [])
            (GenerationContractError ''parameterized controls require targeted questions'' ''organization_parameter'' True))"

definition parse_controls_and_questions ::
  "py_env \<Rightarrow> allowed_ids \<Rightarrow> enforcement \<Rightarrow> members list \<Rightarrow> members list
     \<Rightarrow> generation_error + generated_control list \<times> generated_question list" where
  "parse_controls_and_questions env al en cs qs =
     bindR (mapR (parse_control al en) cs) (\<lambda>controls.
     bindR (mapR (parse_question env al en) qs) (\<lambda>questions. Inr (controls, questions)))"

definition parse_generation_response ::
  "runtime \<Rightarrow> sp800_60_catalog \<Rightarrow> py_env \<Rightarrow> allowed_ids \<Rightarrow> selected_policy option \<Rightarrow> policy_overrides \<Rightarrow> string
     \<Rightarrow> generation_error + generation_result" where
  "parse_generation_response rt cat env al pol ov raw =
     bindR (parse_json_object rt raw) (\<lambda>payload.
     let m = set_default ''categorization'' JNull payload in
     bindR (require_schema_version m ''1.0.0'') (\<lambda>_.
     bindR (require_exact_keys m [''schema_version'', ''sections'', ''controls'', ''questions'', ''categorization'']) (\<lambda>_.
     bindR (object_list m ''sections'' MAX_SECTIONS_PER_RESPONSE) (\<lambda>section_entries.
     bindR (object_list m ''controls'' MAX_CONTROLS_PER_RESPONSE) (\<lambda>control_entries.
     bindR (object_list m ''questions'' MAX_QUESTIONS_PER_RESPONSE) (\<lambda>question_entries.
     let en = resolve_enforcement_policy pol ov in
     bindR (mapR (parse_section rt cat al (en_sections en)) section_entries) (\<lambda>ss.
     bindR (parse_controls_and_questions env al en control_entries question_entries) (\<lambda>(cs, qs).
     bindR (parse_categorization al (map_of m ''categorization'')) (\<lambda>g.
     bindR (unique_values (map gs_section_id ss)) (\<lambda>_.
     bindR (unique_values (map gc_control_id cs)) (\<lambda>_.
     bindR (unique_values (map gq_question_key qs)) (\<lambda>_.
     bindR (validate_parameterized_control_questions pol cs qs) (\<lambda>_.
     Inr \<lparr>gen_sections = ss, gen_controls = cs, gen_questions = qs, gen_categorization = g\<rparr>)))))))))))))"

definition parse_narrative_generation_response ::
  "runtime \<Rightarrow> sp800_60_catalog \<Rightarrow> allowed_ids \<Rightarrow> selected_policy option \<Rightarrow> string
     \<Rightarrow> generation_error + generated_section list \<times> generated_categorization option" where
  "parse_narrative_generation_response rt cat al pol raw =
     bindR (parse_json_object rt raw) (\<lambda>payload.
     let m = set_default ''categorization'' JNull payload in
     bindR (require_schema_version m ''1.0.0'') (\<lambda>_.
     bindR (require_exact_keys m [''schema_version'', ''sections'', ''categorization'']) (\<lambda>_.
     bindR (object_list m ''sections'' MAX_SECTIONS_PER_RESPONSE) (\<lambda>section_entries.
     bindR (mapR (parse_section rt cat al (map_option pol_sections pol)) section_entries) (\<lambda>ss.
     bindR (unique_values (map gs_section_id ss)) (\<lambda>_.
     bindR (parse_categorization al (map_of m ''categorization'')) (\<lambda>g. Inr (ss, g))))))))"

definition parse_control_generation_response ::
  "runtime \<Rightarrow> py_env \<Rightarrow> allowed_ids \<Rightarrow> selected_policy option \<Rightarrow> string
     \<Rightarrow> generation_error + generated_control list \<times> generated_question list" where
  "parse_control_generation_response rt env al pol raw =
     bindR (parse_json_object rt raw) (\<lambda>payload.
     let m = set_default ''questions'' (JArr []) payload in
     bindR (require_schema_version m ''1.0.0'') (\<lambda>_.
     bindR (require_exact_keys m [''schema_version'', ''controls'', ''questions'']) (\<lambda>_.
     bindR (object_list m ''controls'' MAX_CONTROLS_PER_RESPONSE) (\<lambda>control_entries.
     bindR (object_list m ''questions'' MAX_QUESTIONS_PER_RESPONSE) (\<lambda>question_entries.
     bindR (parse_controls_and_questions env al (resolve_enforcement_policy pol no_overrides)
       control_entries question_entries) (\<lambda>(cs, qs).
     bindR (unique_values (map gc_control_id cs)) (\<lambda>_.
     bindR (unique_values (map gq_question_key qs)) (\<lambda>_.
     bindR (validate_parameterized_control_questions pol cs qs) (\<lambda>_. Inr (cs, qs))))))))))"

definition parse_categorization_proposal_response ::
  "runtime \<Rightarrow> allowed_ids \<Rightarrow> string \<Rightarrow> generation_error + generated_categorization option" where
  "parse_categorization_proposal_response rt al raw =
     bindR (parse_json_object rt raw) (\<lambda>m.
     bindR (guardR (map_of m ''schema_version'' = Some (JStr ''1.0.0''))
       (schema_error ''schema_version must match the categorization proposal contract'')) (\<lambda>_.
     parse_categorization al (map_of m ''categorization'')))"

section \<open>Patches\<close>

type_synonym revision_of_target = "((string \<times> string) \<times> int) list"

definition parse_change :: "enforcement \<Rightarrow> string \<times> json \<Rightarrow> generation_error + string \<times> string" where
  "parse_change en kv =
     (case kv of (k, v) \<Rightarrow>
      bindR (if k = ''implementation_status'' then allowed_value (Some v) (en_statuses en) True
        else if k = ''responsibility'' then allowed_value (Some v) (en_responsibilities en) True
        else text_value (Some v) MAX_CONTENT_LENGTH) (\<lambda>s. Inr (k, s)))"

definition patch_fields :: "string \<Rightarrow> string list" where
  "patch_fields ttype = (if ttype = ''ssp_section'' then [''content'']
     else [''implementation_statement'', ''implementation_status'', ''responsibility''])"

definition patch_revision ::
  "revision_of_target \<Rightarrow> string \<Rightarrow> string \<Rightarrow> json option \<Rightarrow> generation_error + int" where
  "patch_revision current ttype tid v =
     (case v of
        Some (JInt n) \<Rightarrow>
          if n < 1 then Inl (schema_error ''expected_revision must be a positive integer'')
          else (case map_of current (ttype, tid) of
              None \<Rightarrow> Inl (GenerationContractError ''patch target has no current revision'' ''allowlist'' False)
            | Some r \<Rightarrow> if n \<noteq> r then Inl (GenerationContractError ''stale patch target'' ''stale'' False) else Inr n)
      | _ \<Rightarrow> Inl (schema_error ''expected_revision must be a positive integer''))"

definition patch_changes :: "enforcement \<Rightarrow> string \<Rightarrow> json option \<Rightarrow> generation_error + (string \<times> string) list" where
  "patch_changes en ttype v =
     (case v of
        Some (JObj (c # cs)) \<Rightarrow>
          if \<not> fst ` set (c # cs) \<subseteq> set (patch_fields ttype)
          then Inl (GenerationContractError ''unsupported patch fields'' ''allowlist'' False)
          else mapR (parse_change en) (c # cs)
      | _ \<Rightarrow> Inl (schema_error ''changes must be a non-empty object''))"

definition change_of :: "string \<Rightarrow> string \<Rightarrow> (string \<times> string) list \<Rightarrow> string" where
  "change_of k fallback changes = (case map_of changes k of None \<Rightarrow> fallback | Some v \<Rightarrow> v)"

text \<open>A section patch without facts loses its text; its other checks raise.\<close>

definition section_patch_content ::
  "runtime \<Rightarrow> sp800_60_catalog \<Rightarrow> enforcement \<Rightarrow> string \<Rightarrow> (string \<times> string) list \<Rightarrow> string list
     \<Rightarrow> generation_error + (string \<times> string) list" where
  "section_patch_content rt cat en tid changes ids =
     (let content = change_of ''content'' [] changes in
      bindR (case en_sections en of
          Some req \<Rightarrow>
            if has_text content then
              (case map_of req tid of
                 None \<Rightarrow> Inl not_in_profile
               | Some i \<Rightarrow> validate_section_content_against_policy rt cat content i)
            else Inr ()
        | None \<Rightarrow> Inr ()) (\<lambda>_.
      Inr (if has_text content \<and> ids = [] then dict_put ''content'' [] changes else changes)))"

definition control_patch_check ::
  "enforcement \<Rightarrow> (string \<times> string) list \<Rightarrow> string list \<Rightarrow> generation_error + unit" where
  "control_patch_check en changes ids =
     (let statement = change_of ''implementation_statement'' [] changes;
          status = change_of ''implementation_status'' ''unknown'' changes;
          resp = change_of ''responsibility'' ''unknown'' changes in
      if en_reject_inserts en \<and> contains_oscal_parameter_insert_syntax statement then Inl insert_error
      else guardR (\<not> (agent_control_requires_facts status resp statement (en_evidence_required en) \<and> ids = []))
        needs_facts)"

definition parse_patch ::
  "runtime \<Rightarrow> sp800_60_catalog \<Rightarrow> allowed_ids \<Rightarrow> enforcement \<Rightarrow> revision_of_target \<Rightarrow> members
     \<Rightarrow> generation_error + targeted_patch" where
  "parse_patch rt cat al en current m =
     bindR (require_exact_keys m [''target_type'', ''target_id'', ''expected_revision'', ''changes'',
       ''supporting_fact_ids'']) (\<lambda>_.
     bindR (allowed_value (map_of m ''target_type'') TARGET_TYPES False) (\<lambda>ttype.
     bindR (allowed_value (map_of m ''target_id'') (allowed_targets al ttype) False) (\<lambda>tid.
     bindR (patch_revision current ttype tid (map_of m ''expected_revision'')) (\<lambda>revision.
     bindR (patch_changes en ttype (map_of m ''changes'')) (\<lambda>changes.
     bindR (allowed_fact_ids_field m (al_facts al)) (\<lambda>ids.
     bindR (if ttype = ''ssp_section'' then section_patch_content rt cat en tid changes ids
       else bindR (control_patch_check en changes ids) (\<lambda>_. Inr changes)) (\<lambda>changes'.
     Inr \<lparr>tp_target_type = ttype, tp_target_id = tid, tp_expected_revision = revision,
       tp_changes = changes', tp_supporting_fact_ids = ids\<rparr>)))))))"

definition parse_patch_response ::
  "runtime \<Rightarrow> sp800_60_catalog \<Rightarrow> py_env \<Rightarrow> allowed_ids \<Rightarrow> string list \<Rightarrow> revision_of_target
     \<Rightarrow> selected_policy option \<Rightarrow> policy_overrides \<Rightarrow> string \<Rightarrow> generation_error + patch_result" where
  "parse_patch_response rt cat env al allowed_questions current pol ov raw =
     bindR (parse_json_object rt raw) (\<lambda>m.
     bindR (require_schema_version m ''1.0.0'') (\<lambda>_.
     bindR (require_exact_keys m [''schema_version'', ''patches'', ''questions_to_add'', ''question_ids_to_resolve'',
       ''change_summary'']) (\<lambda>_.
     bindR (object_list m ''patches'' MAX_PATCHES_PER_RESPONSE) (\<lambda>patch_entries.
     bindR (object_list m ''questions_to_add'' MAX_QUESTIONS_PER_RESPONSE) (\<lambda>question_entries.
     bindR (string_list m ''question_ids_to_resolve'' MAX_QUESTIONS_PER_RESPONSE) (\<lambda>resolve.
     bindR (guardR (set resolve \<subseteq> set allowed_questions)
       (GenerationContractError ''unknown question_ids_to_resolve'' ''allowlist'' False)) (\<lambda>_.
     let en = resolve_enforcement_policy pol ov in
     bindR (mapR (parse_patch rt cat al en current) patch_entries) (\<lambda>ps.
     bindR (mapR (parse_question env al en) question_entries) (\<lambda>qs.
     bindR (unique_values (map (\<lambda>p. (tp_target_type p, tp_target_id p)) ps)) (\<lambda>_.
     bindR (unique_values (map gq_question_key qs)) (\<lambda>_.
     bindR (unique_values resolve) (\<lambda>_.
     bindR (text_value (map_of m ''change_summary'') 4000) (\<lambda>summary.
     Inr \<lparr>pr_patches = ps, pr_questions_to_add = qs, pr_question_ids_to_resolve = resolve,
       pr_change_summary = summary\<rparr>)))))))))))))"

end
