(* ===== verification/GenerationProperties.thy ===== *)
theory GenerationProperties
  imports GenerationParsing EditingProperties
begin

text \<open>
  What a parsed generation is worth: it has the shape the rest of the program relies on, and merging it
  into a content that offers the allowed identifiers never meets an unknown section, control or fact.
\<close>

section \<open>The shape of a parsed generation\<close>

definition facts_allowed :: "allowed_ids \<Rightarrow> string list \<Rightarrow> bool" where
  "facts_allowed al ids = (distinct ids \<and> set ids \<subseteq> set (al_facts al))"

definition bounded_text :: "string \<Rightarrow> bool" where
  "bounded_text s = (py_strip s = s \<and> length s \<le> MAX_CONTENT_LENGTH)"

definition section_conforms :: "allowed_ids \<Rightarrow> enforcement \<Rightarrow> generated_section \<Rightarrow> bool" where
  "section_conforms al en s =
     (gs_section_id s \<in> set (al_sections al) \<and> facts_allowed al (gs_supporting_fact_ids s) \<and>
      bounded_text (gs_content s) \<and> (gs_content s \<noteq> [] \<longrightarrow> gs_supporting_fact_ids s \<noteq> []) \<and>
      (case en_sections en of
         None \<Rightarrow> True
       | Some req \<Rightarrow> gs_content s \<noteq> [] \<longrightarrow> map_of req (gs_section_id s) \<noteq> None))"

definition control_conforms :: "allowed_ids \<Rightarrow> enforcement \<Rightarrow> generated_control \<Rightarrow> bool" where
  "control_conforms al en c =
     (gc_control_id c \<in> set (al_controls al) \<and> facts_allowed al (gc_supporting_fact_ids c) \<and>
      gc_implementation_status c \<in> set (en_statuses en) \<and> gc_responsibility c \<in> set (en_responsibilities en) \<and>
      bounded_text (gc_implementation_statement c) \<and>
      (en_reject_inserts en \<longrightarrow> \<not> contains_oscal_parameter_insert_syntax (gc_implementation_statement c)) \<and>
      (agent_control_requires_facts (gc_implementation_status c) (gc_responsibility c)
         (gc_implementation_statement c) (en_evidence_required en) \<longrightarrow> gc_supporting_fact_ids c \<noteq> []))"

definition question_conforms :: "py_env \<Rightarrow> allowed_ids \<Rightarrow> enforcement \<Rightarrow> generated_question \<Rightarrow> bool" where
  "question_conforms env al en q =
     (gq_target_type q \<in> set TARGET_TYPES \<and> gq_target_id q \<in> set (allowed_targets al (gq_target_type q)) \<and>
      gq_owner_type q \<in> set (en_owner_types en) \<and> length (gq_question q) \<le> MAX_QUESTION_LENGTH \<and>
      gq_question_key q = deterministic_question_key env (gq_target_type q) (gq_target_id q) (gq_question q))"

definition categorization_conforms :: "allowed_ids \<Rightarrow> generated_categorization \<Rightarrow> bool" where
  "categorization_conforms al g =
     ({gcat_confidentiality g, gcat_integrity g, gcat_availability g} \<subseteq> {''low'', ''moderate'', ''high''} \<and>
      [] \<notin> {gcat_confidentiality_rationale g, gcat_integrity_rationale g, gcat_availability_rationale g} \<and>
      facts_allowed al (gcat_supporting_fact_ids g) \<and> gcat_supporting_fact_ids g \<noteq> [])"

definition generation_conforms :: "py_env \<Rightarrow> allowed_ids \<Rightarrow> enforcement \<Rightarrow> generation_result \<Rightarrow> bool" where
  "generation_conforms env al en g =
     (list_all (section_conforms al en) (gen_sections g) \<and> distinct (map gs_section_id (gen_sections g)) \<and>
      list_all (control_conforms al en) (gen_controls g) \<and> distinct (map gc_control_id (gen_controls g)) \<and>
      list_all (question_conforms env al en) (gen_questions g) \<and> distinct (map gq_question_key (gen_questions g)) \<and>
      (case gen_categorization g of None \<Rightarrow> True | Some c \<Rightarrow> categorization_conforms al c))"

section \<open>The parsers establish it\<close>

lemma mapR_list_all: "mapR f xs = Inr ys \<Longrightarrow> (\<And>x y. f x = Inr y \<Longrightarrow> P y) \<Longrightarrow> list_all P ys"
  by (induction xs arbitrary: ys) (auto simp: result_simps)

lemma dropWhile_hd: "s = dropWhile P s \<Longrightarrow> s = [] \<or> \<not> P (hd s)"
  by (metis hd_dropWhile)

lemma length_py_strip: "length (py_strip s) \<le> length s"
proof -
  have "length (dropWhile P xs) \<le> length xs" for P and xs :: string by (rule length_dropWhile_le)
  then show ?thesis unfolding py_strip_def by (metis length_rev order_trans)
qed

lemma text_value_Inr: "text_value v n = Inr s \<Longrightarrow> py_strip s = s \<and> length s \<le> n"
  by (auto simp: text_value_def split: option.splits json.splits if_splits)
    (metis length_py_strip leI order_trans)

lemma text_value_bounded: "text_value v MAX_CONTENT_LENGTH = Inr s \<Longrightarrow> bounded_text s"
  using text_value_Inr by (simp add: bounded_text_def)

lemma allowed_value_Inr: "allowed_value v allowed b = Inr s \<Longrightarrow> s \<in> set allowed"
  by (auto simp: allowed_value_def result_simps split: if_splits)

lemma allowed_fact_ids_Inr: "allowed_fact_ids_field m (al_facts al) = Inr ids \<Longrightarrow> facts_allowed al ids"
  by (auto simp: allowed_fact_ids_field_def unique_values_def facts_allowed_def result_simps split: if_splits)

lemma facts_allowed_Nil [simp]: "facts_allowed al []"
  by (simp add: facts_allowed_def)

lemma bounded_text_Nil [simp]: "bounded_text []"
  by (simp add: bounded_text_def py_strip_def)

lemma bounded_has_text: "bounded_text s \<Longrightarrow> has_text s \<longleftrightarrow> s \<noteq> []"
  by (simp add: bounded_text_def has_text_def)

lemma checked_section_Inr:
  assumes "checked_section rt cat req sid s ids = Inr (s', ids')"
  shows "map_of req sid \<noteq> None \<and> ((s', ids') = (s, ids) \<or> (s', ids') = ([], []))"
  using assms by (auto simp: checked_section_def split: option.splits sum.splits generation_error.splits if_splits)

lemma parse_section_conforms:
  assumes "parse_section rt cat al (en_sections en) m = Inr s"
  shows "section_conforms al en s"
proof -
  from assms obtain sid t0 ids t2 ids2 where p: "allowed_value (map_of m ''section_id'') (al_sections al) False = Inr sid"
      "text_value (map_of m ''content'') MAX_CONTENT_LENGTH = Inr t0"
      "allowed_fact_ids_field m (al_facts al) = Inr ids"
    and checked: "(case en_sections en of
         Some req \<Rightarrow> if has_text (if t0 \<noteq> [] \<and> ids = [] then [] else t0)
           then checked_section rt cat req sid (if t0 \<noteq> [] \<and> ids = [] then [] else t0) ids
           else Inr (if t0 \<noteq> [] \<and> ids = [] then [] else t0, ids)
       | None \<Rightarrow> Inr (if t0 \<noteq> [] \<and> ids = [] then [] else t0, ids)) = Inr (t2, ids2)"
    and s: "s = \<lparr>gs_section_id = sid, gs_content = t2, gs_supporting_fact_ids = ids2\<rparr>"
    by (auto simp: parse_section_def Let_def result_simps)
  define t1 where "t1 = (if t0 \<noteq> [] \<and> ids = [] then [] else t0)"
  have t1: "bounded_text t1" "t1 \<noteq> [] \<longrightarrow> ids \<noteq> []" and ids: "facts_allowed al ids"
    using text_value_bounded [OF p(2)] allowed_fact_ids_Inr [OF p(3)] by (auto simp: t1_def)
  have "((t2, ids2) = (t1, ids) \<or> (t2, ids2) = ([], [])) \<and>
     (case en_sections en of None \<Rightarrow> True | Some req \<Rightarrow> t2 \<noteq> [] \<longrightarrow> map_of req sid \<noteq> None)"
    using checked [folded t1_def] checked_section_Inr bounded_has_text [OF t1(1)]
    by (cases "en_sections en") (auto split: if_splits)
  then show ?thesis using t1 ids allowed_value_Inr [OF p(1)] s
    by (cases "en_sections en") (auto simp: section_conforms_def)
qed

lemma parse_control_conforms: "parse_control al en m = Inr c \<Longrightarrow> control_conforms al en c"
  by (auto simp: parse_control_def result_simps control_conforms_def split: if_splits
      dest: allowed_value_Inr text_value_bounded allowed_fact_ids_Inr)

lemma parse_question_conforms: "parse_question env al en m = Inr q \<Longrightarrow> question_conforms env al en q"
  by (auto simp: parse_question_def result_simps question_conforms_def dest: allowed_value_Inr text_value_Inr)

lemma parse_categorization_conforms:
  assumes "parse_categorization al v = Inr (Some g)"
  shows "categorization_conforms al g"
proof -
  obtain m where "parse_categorization_fields al m = Inr g"
    using assms by (auto simp: parse_categorization_def result_simps split: option.splits json.splits)
  then show ?thesis
    by (auto simp: parse_categorization_fields_def categorization_conforms_def result_simps split: if_splits
        dest!: allowed_value_Inr allowed_fact_ids_Inr)
qed

lemma parse_generation_conforms:
  assumes "parse_generation_response rt cat env al pol ov raw = Inr g"
  shows "generation_conforms env al (resolve_enforcement_policy pol ov) g"
proof -
  let ?en = "resolve_enforcement_policy pol ov"
  from assms obtain m ss_in cs_in qs_in where
    ss: "mapR (parse_section rt cat al (en_sections ?en)) ss_in = Inr (gen_sections g)" and
    cs: "mapR (parse_control al ?en) cs_in = Inr (gen_controls g)" and
    qs: "mapR (parse_question env al ?en) qs_in = Inr (gen_questions g)" and
    cat: "parse_categorization al (map_of m ''categorization'') = Inr (gen_categorization g)" and
    unique: "distinct (map gs_section_id (gen_sections g))" "distinct (map gc_control_id (gen_controls g))"
      "distinct (map gq_question_key (gen_questions g))"
    by (auto simp: parse_generation_response_def parse_controls_and_questions_def unique_values_def Let_def result_simps)
  show ?thesis
    using unique mapR_list_all [OF ss parse_section_conforms] mapR_list_all [OF cs parse_control_conforms]
      mapR_list_all [OF qs parse_question_conforms] parse_categorization_conforms [of al _] cat
    by (auto simp: generation_conforms_def split: option.splits)
qed

section \<open>Merging makes progress\<close>

text \<open>The only error is a failed validation of what is built; a result satisfies \<open>P\<close>.\<close>

definition progress :: "('a \<Rightarrow> bool) \<Rightarrow> edit_error + 'a \<Rightarrow> bool" where
  "progress P r = (case r of Inl e \<Rightarrow> e = EditValidationError | Inr x \<Rightarrow> P x)"

lemma progress_Inr [simp]: "progress P (Inr x) = P x"
  by (simp add: progress_def)

lemma progress_validated: "P x \<Longrightarrow> progress P (validated valid x)"
  by (simp add: progress_def validated_def)

lemma progress_bind: "progress P r \<Longrightarrow> (\<And>x. P x \<Longrightarrow> progress Q (f x)) \<Longrightarrow> progress Q (bindR r f)"
  by (cases r) (simp_all add: progress_def)

lemma progress_foldR:
  "P s \<Longrightarrow> (\<And>s x. P s \<Longrightarrow> x \<in> set xs \<Longrightarrow> progress P (f s x)) \<Longrightarrow> progress P (foldR f s xs)"
proof (induction xs arbitrary: s)
  case (Cons x xs)
  show ?case using Cons.prems by (auto intro!: progress_bind [of P] Cons.IH)
qed simp

lemma progress_bind_any:
  "progress (\<lambda>_. True) r \<Longrightarrow> (\<And>x. progress Q (f x)) \<Longrightarrow> progress Q (bindR r f)"
  by (rule progress_bind)

lemma progress_validated_any: "progress (\<lambda>_. True) (validated valid x)"
  by (rule progress_validated) simp

lemmas progress_rules = progress_bind_any progress_validated_any

lemma progress_mapR: "(\<And>x. x \<in> set xs \<Longrightarrow> progress (\<lambda>_. True) (f x)) \<Longrightarrow> progress (\<lambda>_. True) (mapR f xs)"
proof (induction xs)
  case (Cons x xs)
  have "progress (\<lambda>_. True) (f x)" "progress (\<lambda>_. True) (mapR f xs)" using Cons by simp_all
  then show ?case by (auto intro!: progress_rules)
qed simp

lemma progress_evidence:
  assumes "set ids \<subseteq> fst ` set d"
  shows "progress (\<lambda>_. True) (evidence_for_facts env ids d)"
  unfolding evidence_for_facts_def
proof (rule progress_bind [where P = "\<lambda>_. True"])
  have known: "map_of d i \<noteq> None" if "i \<in> set ids" for i
    using assms that by (auto simp: map_of_eq_None_iff)
  show "progress (\<lambda>_. True) (foldR (\<lambda>links i. case map_of d i of
         None \<Rightarrow> Inl (WorkspaceEditError ''unknown supporting fact'')
       | Some f \<Rightarrow> Inr (add_links env (fact_evidence f) links)) [] ids)"
    by (rule progress_foldR) (simp, frule known, auto)
qed simp

text \<open>A content that offers what the parser was told is allowed.\<close>

definition offers :: "revision_content \<Rightarrow> allowed_ids \<Rightarrow> bool" where
  "offers c al =
     (set (al_sections al) \<subseteq> section_key ` set (sections c) \<and> set (al_controls al) \<subseteq> control_id ` set (controls c) \<and>
      set (al_facts al) \<subseteq> fact_key ` set (facts c))"

lemma progress_merge_section:
  assumes "set (gs_supporting_fact_ids g) \<subseteq> fst ` set fs" and "gs_section_id g \<in> K" and "fst ` set d = K"
  shows "progress (\<lambda>d'. fst ` set d' = K) (merge_section env fs d g)"
proof -
  have put: "fst ` set (dict_put (gs_section_id g) v d) = K" for v using assms(2,3) by auto
  obtain current where cur: "map_of d (gs_section_id g) = Some current"
    using assms(2,3) by (metis map_of_eq_None_iff not_None_eq)
  show ?thesis
    unfolding merge_section_def cur
    using progress_evidence [OF assms(1), of env]
    by (simp add: assms(3)) (auto simp: put simp del: keys_dict_put intro!: progress_rules)
qed

lemma progress_merge_control:
  assumes "set (gc_supporting_fact_ids g) \<subseteq> fst ` set fs" and "gc_control_id g \<in> K" and "fst ` set d = K"
  shows "progress (\<lambda>d'. fst ` set d' = K) (merge_control env fs d g)"
proof -
  have put: "fst ` set (dict_put (gc_control_id g) v d) = K" for v using assms(2,3) by auto
  obtain current where cur: "map_of d (gc_control_id g) = Some current"
    using assms(2,3) by (metis map_of_eq_None_iff not_None_eq)
  show ?thesis
    unfolding merge_control_def cur Let_def
    using progress_evidence [OF assms(1), of env]
    by (simp add: assms(3)) (auto simp: put simp del: keys_dict_put intro!: progress_rules)
qed

lemma progress_proposal:
  assumes "\<not> categorization_is_confirmed d" and "set (gcat_supporting_fact_ids g) \<subseteq> fst ` set d"
  shows "progress (\<lambda>_. True) (apply_categorization_proposal_to_facts env d g)"
  unfolding apply_categorization_proposal_to_facts_def
  using assms(1) progress_evidence [OF assms(2), of env] by (auto intro!: progress_rules progress_foldR)

lemma progress_direct_questions: "progress (\<lambda>_. True) (resolve_direct_section_questions qs d)"
  unfolding resolve_direct_section_questions_def
  by (rule progress_mapR) (auto split: option.split intro!: progress_rules)

lemma progress_add_questions: "progress (\<lambda>_. True) (add_questions env skip qs gs)"
  unfolding add_questions_def Let_def
  by (rule progress_foldR) (auto intro!: progress_rules)

lemma merge_generation_progress:
  assumes g: "generation_conforms env al en g" and c: "offers c al"
  shows "progress (\<lambda>_. True) (merge_generation env c g)"
proof -
  have facts: "set ids \<subseteq> fst ` set (facts_by_key c)" if "facts_allowed al ids" for ids
    using that c by (auto simp: facts_allowed_def offers_def facts_by_key_def keys_dict_of)
  have "progress (\<lambda>d. fst ` set d = section_key ` set (sections c))
      (foldR (merge_section env (facts_by_key c)) (sections_by_key c) (gen_sections g))"
    using g c facts by (intro progress_foldR progress_merge_section)
      (auto simp: generation_conforms_def section_conforms_def list_all_iff offers_def sections_by_key_def keys_dict_of)
  moreover have "progress (\<lambda>d. fst ` set d = control_id ` set (controls c))
      (foldR (merge_control env (facts_by_key c)) (controls_by_id c) (gen_controls g))"
    using g c facts by (intro progress_foldR progress_merge_control)
      (auto simp: generation_conforms_def control_conforms_def list_all_iff offers_def controls_by_id_def keys_dict_of)
  moreover have "progress (\<lambda>_. True) (case gen_categorization g of
          Some g \<Rightarrow> if \<not> categorization_is_confirmed (facts_by_key c)
            then apply_categorization_proposal_to_facts env (facts_by_key c) g else Inr (facts_by_key c)
        | None \<Rightarrow> Inr (facts_by_key c))"
    using g facts by (auto simp: generation_conforms_def categorization_conforms_def split: option.splits
        intro!: progress_proposal)
  ultimately show ?thesis
    unfolding merge_generation_def Let_def construct_content_def
    by (intro progress_bind [OF _ progress_bind [OF _ progress_bind [OF _ progress_bind
          [OF progress_direct_questions progress_bind [OF progress_add_questions progress_validated]]]]]) auto
qed

section \<open>The property\<close>


definition sample_section :: members where
  "sample_section = [(''section_id'', JStr ''system.purpose''), (''content'', JStr '' Payroll ''),
     (''supporting_fact_ids'', JArr [JStr ''f1''])]"

definition sample_response :: members where
  "sample_response = [(''schema_version'', JStr ''1.0.0''), (''sections'', JArr [JObj sample_section]),
     (''controls'', JArr []), (''questions'', JArr []), (''categorization'', JNull)]"

definition sample_loads :: runtime where
  "sample_loads = \<lparr>rt_loads = (\<lambda>_. Some (JObj sample_response)), rt_uuid = (\<lambda>_. None), rt_str = (\<lambda>_. []), rt_uuid4 = id\<rparr>"

definition sample_env :: py_env where
  "sample_env = \<lparr>env_repr = (\<lambda>_. []), env_uuid5 = (\<lambda>_. 0), env_sha256 = id, env_casefold = id\<rparr>"

definition sample_ids :: allowed_ids where
  "sample_ids = \<lparr>al_sections = [''system.purpose''], al_controls = [], al_facts = [''f1'']\<rparr>"

definition sample_generation :: generation_result where
  "sample_generation = \<lparr>gen_sections = [\<lparr>gs_section_id = ''system.purpose'', gs_content = ''Payroll'',
     gs_supporting_fact_ids = [''f1'']\<rparr>], gen_controls = [], gen_questions = [], gen_categorization = None\<rparr>"

lemma sample_section_parses:
  "parse_section rt cat sample_ids None sample_section =
     Inr \<lparr>gs_section_id = ''system.purpose'', gs_content = ''Payroll'', gs_supporting_fact_ids = [''f1'']\<rparr>"
proof -
  have "require_exact_keys sample_section [''section_id'', ''content'', ''supporting_fact_ids''] = Inr ()"
    by (simp add: require_exact_keys_def sample_section_def)
  moreover have "allowed_value (map_of sample_section ''section_id'') [''system.purpose''] False = Inr ''system.purpose''"
    by (simp add: allowed_value_def text_value_def sample_section_def py_strip_def py_isspace_def)
  moreover have "text_value (map_of sample_section ''content'') MAX_CONTENT_LENGTH = Inr ''Payroll''"
    by (simp add: text_value_def sample_section_def MAX_CONTENT_LENGTH_def py_strip_def py_isspace_def)
  moreover have "allowed_fact_ids_field sample_section [''f1''] = Inr [''f1'']"
    by (simp add: allowed_fact_ids_field_def sample_section_def string_list_def unique_values_def has_text_def
        py_strip_def py_isspace_def)
  ultimately show ?thesis by (simp add: parse_section_def sample_ids_def)
qed

lemma sample_fields:
  "require_schema_version sample_response ''1.0.0'' = Inr ()"
  "require_exact_keys sample_response [''schema_version'', ''sections'', ''controls'', ''questions'',
     ''categorization''] = Inr ()"
  "object_list sample_response ''sections'' MAX_SECTIONS_PER_RESPONSE = Inr [sample_section]"
  "object_list sample_response ''controls'' MAX_CONTROLS_PER_RESPONSE = Inr []"
  "object_list sample_response ''questions'' MAX_QUESTIONS_PER_RESPONSE = Inr []"
  "map_of sample_response ''categorization'' = Some JNull"
  by (simp_all add: sample_response_def require_schema_version_def require_exact_keys_def object_list_def
      MAX_SECTIONS_PER_RESPONSE_def MAX_CONTROLS_PER_RESPONSE_def MAX_QUESTIONS_PER_RESPONSE_def)

lemma sample_parses:
  "parse_generation_response sample_loads cat sample_env sample_ids None no_overrides raw = Inr sample_generation"
proof -
  have "parse_json_object sample_loads raw = Inr sample_response"
    by (simp add: parse_json_object_def sample_loads_def response_object_def)
  moreover have "set_default ''categorization'' JNull sample_response = sample_response"
    by (simp add: set_default_def sample_fields)
  ultimately show ?thesis
    by (simp add: parse_generation_response_def sample_fields resolve_enforcement_policy_def sample_section_parses
        parse_controls_and_questions_def parse_categorization_def unique_values_def sample_generation_def
        validate_parameterized_control_questions_def)
qed


end
