(* ===== verification/Handlers.thy ===== *)
theory Handlers
  imports Prelude
begin

text \<open>
  Handlers: operations that change a state and may raise in the middle of it. A handler gives its result
  and the state at that moment, also when it fails, because a caller that catches the exception keeps
  what was done before. A route runs a handler in a database session: the session commits when the
  handler returns or the route turns the exception into a response, and rolls back otherwise.
\<close>

type_synonym ('e, 'a, 's) handler = "'s \<Rightarrow> ('e + 'a) \<times> 's"

definition returnS :: "'a \<Rightarrow> ('e, 'a, 's) handler" where
  "returnS x s = (Inr x, s)"

definition raiseS :: "'e \<Rightarrow> ('e, 'a, 's) handler" where
  "raiseS e s = (Inl e, s)"

definition bindS :: "('e, 'a, 's) handler \<Rightarrow> ('a \<Rightarrow> ('e, 'b, 's) handler) \<Rightarrow> ('e, 'b, 's) handler" where
  "bindS m f s = (case m s of (Inl e, t) \<Rightarrow> (Inl e, t) | (Inr x, t) \<Rightarrow> f x t)"

definition guardS :: "bool \<Rightarrow> 'e \<Rightarrow> ('e, unit, 's) handler" where
  "guardS ok e = (if ok then returnS () else raiseS e)"

definition liftS :: "('x \<Rightarrow> 'e) \<Rightarrow> 'x + 'a \<Rightarrow> ('e, 'a, 's) handler" where
  "liftS wrap r s = (case r of Inl e \<Rightarrow> (Inl (wrap e), s) | Inr x \<Rightarrow> (Inr x, s))"

definition readS :: "('x \<Rightarrow> 'e) \<Rightarrow> ('s \<Rightarrow> 'x + 'a) \<Rightarrow> ('e, 'a, 's) handler" where
  "readS wrap q s = liftS wrap (q s) s"

definition modifyS :: "('s \<Rightarrow> 's) \<Rightarrow> ('e, unit, 's) handler" where
  "modifyS f s = (Inr (), f s)"

text \<open>An operation that changes nothing when it fails.\<close>

definition callS :: "('x \<Rightarrow> 'e) \<Rightarrow> ('s \<Rightarrow> 'x + 's \<times> 'a) \<Rightarrow> ('e, 'a, 's) handler" where
  "callS wrap p s = (case p s of Inl e \<Rightarrow> (Inl (wrap e), s) | Inr (t, x) \<Rightarrow> (Inr x, t))"

fun forS :: "'x list \<Rightarrow> ('x \<Rightarrow> ('e, 'a, 's) handler) \<Rightarrow> ('e, 'a list, 's) handler" where
  "forS [] f = returnS []"
| "forS (x # xs) f = bindS (f x) (\<lambda>y. bindS (forS xs f) (\<lambda>ys. returnS (y # ys)))"

text \<open>What the session has committed after the route.\<close>

definition committed :: "('e \<Rightarrow> bool) \<Rightarrow> ('e, 'a, 's) handler \<Rightarrow> 's \<Rightarrow> 's" where
  "committed catches m s = (case m s of (Inr x, t) \<Rightarrow> t | (Inl e, t) \<Rightarrow> if catches e then t else s)"

section \<open>Runs\<close>

named_theorems handler_simps "the runs of a handler"

lemma returnS_run [handler_simps]: "returnS x s = (r, t) \<longleftrightarrow> r = Inr x \<and> t = s"
  by (auto simp: returnS_def)

lemma raiseS_run [handler_simps]: "raiseS e s = (r, t) \<longleftrightarrow> r = Inl e \<and> t = s"
  by (auto simp: raiseS_def)

lemma bindS_Inr [handler_simps]: "bindS m f s = (Inr y, u) \<longleftrightarrow> (\<exists>x t. m s = (Inr x, t) \<and> f x t = (Inr y, u))"
  by (auto simp: bindS_def split: prod.splits sum.splits)

lemma bindS_Inl [handler_simps]: "bindS m f s = (Inl e, u) \<longleftrightarrow>
    m s = (Inl e, u) \<or> (\<exists>x t. m s = (Inr x, t) \<and> f x t = (Inl e, u))"
  by (auto simp: bindS_def split: prod.splits sum.splits)

lemma guardS_run [handler_simps]:
  "guardS ok e s = (r, t) \<longleftrightarrow> t = s \<and> r = (if ok then Inr () else Inl e)"
  by (auto simp: guardS_def returnS_def raiseS_def)

lemma liftS_Inr [handler_simps]: "liftS wrap r s = (Inr x, t) \<longleftrightarrow> t = s \<and> r = Inr x"
  by (cases r) (auto simp: liftS_def)

lemma liftS_Inl [handler_simps]: "liftS wrap r s = (Inl e, t) \<longleftrightarrow> t = s \<and> (\<exists>x. r = Inl x \<and> e = wrap x)"
  by (cases r) (auto simp: liftS_def)

lemma readS_run [handler_simps]: "readS wrap q s = (r, t) \<longleftrightarrow> liftS wrap (q s) s = (r, t)"
  by (simp add: readS_def)

lemma modifyS_run [handler_simps]: "modifyS f s = (r, t) \<longleftrightarrow> r = Inr () \<and> t = f s"
  by (auto simp: modifyS_def)

lemma callS_Inr [handler_simps]: "callS wrap p s = (Inr x, t) \<longleftrightarrow> p s = Inr (t, x)"
  by (auto simp: callS_def split: sum.splits prod.splits)

lemma callS_Inl [handler_simps]: "callS wrap p s = (Inl e, t) \<longleftrightarrow> t = s \<and> (\<exists>x. p s = Inl x \<and> e = wrap x)"
  by (auto simp: callS_def split: sum.splits prod.splits)

section \<open>Relations that runs respect\<close>

text \<open>
  A reflexive and transitive relation of states is kept by a handler when every run of it, failed ones
  included, moves along the relation. The rules go from the primitives to whole handlers.
\<close>

definition moves :: "('s \<Rightarrow> 's \<Rightarrow> bool) \<Rightarrow> ('e, 'a, 's) handler \<Rightarrow> bool" where
  "moves R m = (\<forall>s r t. m s = (r, t) \<longrightarrow> R s t)"

text \<open>The same from one state, for the steps that are only right where they are taken.\<close>

definition moves_at :: "('s \<Rightarrow> 's \<Rightarrow> bool) \<Rightarrow> ('e, 'a, 's) handler \<Rightarrow> 's \<Rightarrow> bool" where
  "moves_at R m s = (\<forall>r t. m s = (r, t) \<longrightarrow> R s t)"

lemma moves_iff: "moves R m = (\<forall>s. moves_at R m s)"
  by (auto simp: moves_def moves_at_def)

lemma moves_at_of: "moves R m \<Longrightarrow> moves_at R m s"
  by (simp add: moves_iff)

locale state_relation =
  fixes R :: "'s \<Rightarrow> 's \<Rightarrow> bool"
  assumes refl: "R s s" and trans: "R s t \<Longrightarrow> R t u \<Longrightarrow> R s u"
begin

lemma moves_return: "moves R (returnS x)"
  by (simp add: moves_def returnS_def refl)

lemma moves_raise: "moves R (raiseS e)"
  by (simp add: moves_def raiseS_def refl)

lemma moves_guard: "moves R (guardS ok e)"
  by (simp add: moves_def guardS_def returnS_def raiseS_def refl)

lemma moves_lift: "moves R (liftS wrap r)"
  by (cases r) (auto simp: moves_def liftS_def refl)

lemma moves_read: "moves R (readS wrap q)"
  unfolding moves_def readS_def using moves_lift [unfolded moves_def] by blast

lemma moves_modify: "(\<And>s. R s (f s)) \<Longrightarrow> moves R (modifyS f)"
  by (simp add: moves_def modifyS_def)

lemma moves_call: "(\<And>s t x. p s = Inr (t, x) \<Longrightarrow> R s t) \<Longrightarrow> moves R (callS wrap p)"
  by (auto simp: moves_def callS_def refl split: sum.splits)

lemma moves_bind: "moves R m \<Longrightarrow> (\<And>x. moves R (f x)) \<Longrightarrow> moves R (bindS m f)"
  unfolding moves_def bindS_def by (auto split: prod.splits sum.splits) (meson trans)+

lemma moves_for: "(\<And>x. moves R (f x)) \<Longrightarrow> moves R (forS xs f)"
  by (induction xs) (auto intro: moves_return moves_bind)

lemma moves_if: "moves R m \<Longrightarrow> moves R n \<Longrightarrow> moves R (if b then m else n)"
  by simp

lemma moves_option: "moves R m \<Longrightarrow> (\<And>x. moves R (f x)) \<Longrightarrow> moves R (case v of None \<Rightarrow> m | Some x \<Rightarrow> f x)"
  by (cases v) simp_all

lemma moves_pair: "(\<And>x y. moves R (f x y)) \<Longrightarrow> moves R (case p of (x, y) \<Rightarrow> f x y)"
  by (cases p) simp

lemmas moves_rules = moves_return moves_raise moves_guard moves_lift moves_read moves_if moves_option moves_pair
  moves_for moves_bind

lemma moves_at_bind:
  "moves_at R m s \<Longrightarrow> (\<And>x t. m s = (Inr x, t) \<Longrightarrow> moves_at R (f x) t) \<Longrightarrow> moves_at R (bindS m f) s"
  unfolding moves_at_def bindS_def by (auto split: prod.splits sum.splits) (meson trans)+

lemma moves_at_read_bind:
  "(\<And>x. q s = Inr x \<Longrightarrow> moves_at R (f x) s) \<Longrightarrow> moves_at R (bindS (readS wrap q) f) s"
  by (rule moves_at_bind [OF moves_at_of [OF moves_read]]) (auto simp: handler_simps)

lemma moves_at_lift_bind:
  "(\<And>x. v = Inr x \<Longrightarrow> moves_at R (f x) s) \<Longrightarrow> moves_at R (bindS (liftS wrap v) f) s"
  by (rule moves_at_bind [OF moves_at_of [OF moves_lift]]) (auto simp: handler_simps)

lemma moves_at_call_bind:
  "(\<And>t x. p s = Inr (t, x) \<Longrightarrow> R s t \<and> moves_at R (f x) t) \<Longrightarrow> moves_at R (bindS (callS wrap p) f) s"
  by (rule moves_at_bind) (auto simp: moves_at_def callS_def refl split: sum.splits prod.splits)

lemma committed_moves: "moves R m \<Longrightarrow> R s (committed catches m s)"
  by (auto simp: moves_def committed_def refl split: prod.splits sum.splits)

end

text \<open>A handler that only reads.\<close>

abbreviation reads :: "('e, 'a, 's) handler \<Rightarrow> bool" where
  "reads \<equiv> moves (=)"

interpretation equal_states: state_relation "(=)"
  by unfold_locales simp_all

lemma reads_run: "reads m \<Longrightarrow> m s = (r, t) \<Longrightarrow> t = s"
  by (auto simp: moves_def)

interpretation steps: state_relation "steps_to step" for step
proof
  show "steps_to step s s" for s by (rule steps_refl)
  show "steps_to step s u" if "steps_to step s t" "steps_to step t u" for s t u
    using that(2,1) by (induction rule: steps_to.induct) (auto intro: steps_more)
qed

end
