(* ===== verification/Metrics.thy ===== *)
theory Metrics
  imports Contracts
begin

text \<open>
  The deterministic metrics of a workspace and its reviewability, \<open>ssp_workspace/metrics.py\<close>: which
  requirement of the profile a fact satisfies, which controls are tracked, which block an approval.
\<close>

definition SUPPORTED_SCREENSHOT_MEDIA_TYPES :: "string list" where
  "SUPPORTED_SCREENSHOT_MEDIA_TYPES = [''image/jpeg'', ''image/png'', ''image/tiff'', ''image/webp'']"

record evidence_metric_record =
  emr_state :: evidence_state
  emr_media_type :: string

record workspace_metrics =
  wm_evidence :: nat
  wm_processed_evidence :: nat
  wm_screenshots :: nat
  wm_selected_controls :: nat
  wm_controls_drafted :: nat
  wm_partial_controls :: nat
  wm_open_questions :: nat
  wm_evidence_links :: int
  wm_satisfied_required_items :: nat
  wm_total_required_items :: nat
  wm_ssp_completion_percent :: nat

text \<open>Of \<open>isinstance(value, (int, float)) and not isinstance(value, bool)\<close>.\<close>

fun is_number :: "json \<Rightarrow> bool" where
  "is_number (JInt _) = True"
| "is_number (JFloat _) = True"
| "is_number _ = False"

fun is_bool :: "json \<Rightarrow> bool" where
  "is_bool (JBool _) = True"
| "is_bool _ = False"

definition value_matches :: "profile_requirement \<Rightarrow> json \<Rightarrow> bool" where
  "value_matches r v =
     (if req_value_type r = ''string'' then
        (case v of JStr s \<Rightarrow> req_min_length r \<le> int (length (py_strip s)) \<and>
           (req_enum_values r = [] \<or> s \<in> set (req_enum_values r)) | _ \<Rightarrow> False)
      else if req_value_type r = ''boolean'' then is_bool v
      else if req_value_type r = ''number'' then is_number v
      else if req_value_type r = ''array'' then
        (case v of JArr xs \<Rightarrow> req_min_length r \<le> int (length xs) | _ \<Rightarrow> False)
      else if req_value_type r = ''object'' then
        (case v of JObj m \<Rightarrow> req_min_length r \<le> int (length m) | _ \<Rightarrow> False)
      else False)"

definition requirement_is_satisfied :: "profile_requirement \<Rightarrow> fact_content option \<Rightarrow> bool" where
  "requirement_is_satisfied r fo =
     (case fo of
        None \<Rightarrow> False
      | Some f \<Rightarrow> fact_state f = FACT_ACTIVE \<and> value_matches r (fact_value f) \<and>
          \<not> (req_evidence_required_for_agent_value r \<and> fact_provenance f = AGENT_GENERATED \<and> fact_evidence f = []))"

text \<open>\<open>round(100 * satisfied / total)\<close>: to the nearest integer, a tie to the even one.\<close>

definition round_percent :: "nat \<Rightarrow> nat \<Rightarrow> nat" where
  "round_percent n whole =
     (let q = 100 * n div whole; r = 100 * n mod whole in
      if 2 * r < whole then q
      else if whole < 2 * r then q + 1
      else if even q then q else q + 1)"

definition count_where :: "('a \<Rightarrow> bool) \<Rightarrow> 'a list \<Rightarrow> nat" where
  "count_where P xs = length (filter P xs)"

definition control_is_drafted :: "control_content \<Rightarrow> bool" where
  "control_is_drafted c =
     (has_text (implementation_statement c) \<and> control_state c \<in> {CTL_GENERATED, CTL_PARTIAL, CTL_REVIEWED})"

definition control_is_partial :: "control_content \<Rightarrow> bool" where
  "control_is_partial c =
     (control_state c \<in> {CTL_EMPTY, CTL_PARTIAL} \<or> \<not> has_text (implementation_statement c) \<or> control_evidence c = [])"

definition facts_dict :: "fact_content list \<Rightarrow> (string \<times> fact_content) list" where
  "facts_dict fs = dict_of fact_key fs"

text \<open>\<open>None\<close> is the \<open>ValueError\<close> for a negative number of links.\<close>

definition calculate_workspace_metrics ::
  "evidence_metric_record list \<Rightarrow> fact_content list \<Rightarrow> profile_requirement list \<Rightarrow> control_content list
     \<Rightarrow> question_content list \<Rightarrow> int \<Rightarrow> workspace_metrics option" where
  "calculate_workspace_metrics evidence_rows fs requirements cs qs link_count =
     (if link_count < 0 then None
      else
        let by_key = facts_dict fs; required = filter req_required requirements;
            satisfied = count_where (\<lambda>r. requirement_is_satisfied r (map_of by_key (req_key r))) required;
            n = length required
        in Some \<lparr>wm_evidence = length evidence_rows,
          wm_processed_evidence = count_where (\<lambda>e. emr_state e = EV_PROCESSED) evidence_rows,
          wm_screenshots = count_where
            (\<lambda>e. py_lower (emr_media_type e) \<in> set SUPPORTED_SCREENSHOT_MEDIA_TYPES) evidence_rows,
          wm_selected_controls = length cs, wm_controls_drafted = count_where control_is_drafted cs,
          wm_partial_controls = count_where control_is_partial cs,
          wm_open_questions = count_where (\<lambda>q. question_state q = Q_OPEN) qs,
          wm_evidence_links = link_count, wm_satisfied_required_items = satisfied,
          wm_total_required_items = n,
          wm_ssp_completion_percent = (if n = 0 then 100 else round_percent satisfied n)\<rparr>)"

section \<open>Reviewability\<close>

definition open_targets :: "question_content list \<Rightarrow> (string \<times> string) list" where
  "open_targets qs = map (\<lambda>q. (target_type q, target_key q)) (filter (\<lambda>q. question_state q = Q_OPEN) qs)"

definition control_is_tracked :: "(string \<times> string) list \<Rightarrow> control_content \<Rightarrow> bool" where
  "control_is_tracked targets c =
     (has_text (implementation_statement c) \<or> opt_has_text (unresolved_reason c) \<or>
      (''control'', control_id c) \<in> set targets)"

definition controls_have_tracked_responses ::
  "control_content list \<Rightarrow> (string \<times> string) list \<Rightarrow> bool \<Rightarrow> bool" where
  "controls_have_tracked_responses cs targets required =
     (\<not> required \<or> list_all (control_is_tracked targets) cs)"

text \<open>\<open>(value or "unknown").strip()\<close>\<close>

definition or_unknown_field :: "string option \<Rightarrow> string" where
  "or_unknown_field v = py_strip (case v of None \<Rightarrow> ''unknown'' | Some s \<Rightarrow> if s = [] then ''unknown'' else s)"

definition agent_control_blocks_approval :: "control_content \<Rightarrow> bool \<Rightarrow> bool" where
  "agent_control_blocks_approval c evidence_required =
     (if \<not> evidence_required then False
      else if control_state c = CTL_REVIEWED then False
      else if control_state c \<notin> {CTL_GENERATED, CTL_PARTIAL} then False
      else
        (has_text (implementation_statement c) \<or> or_unknown_field (implementation_status c) \<noteq> ''unknown'' \<or>
         or_unknown_field (responsibility c) \<noteq> ''unknown'') \<and> control_evidence c = [])"

definition requirement_is_tracked ::
  "(string \<times> fact_content) list \<Rightarrow> (string \<times> string) list \<Rightarrow> profile_requirement \<Rightarrow> bool" where
  "requirement_is_tracked by_key targets r =
     (\<not> (req_required r \<and> \<not> requirement_is_satisfied r (map_of by_key (req_key r)) \<and>
        (''fact'', req_key r) \<notin> set targets \<and> (''ssp_section'', req_key r) \<notin> set targets))"

definition workspace_is_reviewable ::
  "profile_requirement list \<Rightarrow> fact_content list \<Rightarrow> control_content list \<Rightarrow> question_content list
     \<Rightarrow> bool \<Rightarrow> bool \<Rightarrow> bool \<Rightarrow> bool \<Rightarrow> bool \<Rightarrow> bool" where
  "workspace_is_reviewable requirements fs cs qs jobs_terminal revision_saved consistent
     evidence_required tracked_required =
     (if \<not> (jobs_terminal \<and> revision_saved \<and> consistent) then False
      else
        let targets = open_targets qs in
        list_all (requirement_is_tracked (facts_dict fs) targets) requirements \<and>
        \<not> list_ex (\<lambda>c. agent_control_blocks_approval c evidence_required) cs \<and>
        controls_have_tracked_responses cs targets tracked_required)"


end
