(* ===== verification/Service.thy ===== *)
theory Service
  imports Handlers Metrics Evidence GenerationParsing AuditTrail
begin

text \<open>
  The application service of a workspace, \<open>ssp_workspace/service.py\<close>: each request loads the current
  revision, checks it against the profile of the workspace, transforms its content and saves a new
  revision with its audit event. Handlers give the state they leave when they fail, because a route that
  turns an exception into a response commits it. What the service takes from its surroundings is the
  record \<open>service_env\<close>; names and external identifiers of systems are read through it, the calls of the
  model are arguments, and so are the identifiers drawn with \<open>uuid4\<close>.
\<close>

datatype service_error =
    Persistence workspace_error
  | EditFailed edit_error
  | ProfileFailed profile_error
  | NotReviewable string
  | ProfileValidationFailed string
  | PatchNotFound
  | PatchState string
  | ServiceValueError string
  | RegisterFailed register_error
  | CategorizationFailed categorization_error
  | AuditFailed audit_error
  | GenerationFailed string string
  | ModelPolicyDenied
  | AuthorizationDenied
  | ServerFault

record service_env =
  sv_sha256 :: "string \<Rightarrow> string"
  sv_read_back :: "revision_content \<Rightarrow> revision_content"
  sv_py :: py_env
  sv_runtime :: runtime
  sv_catalog :: sp800_60_catalog
  sv_system_name :: "uuid \<Rightarrow> string"
  sv_external_id :: "uuid \<Rightarrow> string option"

type_synonym 'a service = "(service_error, 'a, ws_db) handler"

section \<open>Auditing\<close>

text \<open>The caller has checked the key; the constants of the service are accepted, the rest is checked here.\<close>

definition audit_guards :: "string \<Rightarrow> members \<Rightarrow> audit_error + unit" where
  "audit_guards actor meta =
     bindR (require_actor_id actor) (\<lambda>_. bindR (require_metadata meta) (\<lambda>_. Inr ()))"

definition audit_service :: "string \<Rightarrow> string \<Rightarrow> uuid \<Rightarrow> members \<Rightarrow> instant \<Rightarrow> unit service" where
  "audit_service actor act w meta now =
     bindS (liftS AuditFailed (audit_guards actor meta)) (\<lambda>_. modifyS (audit_workspace actor act w meta now))"

section \<open>Loading\<close>

definition stored_content :: "service_env \<Rightarrow> ssp_revision \<Rightarrow> workspace_error + revision_content" where
  "stored_content env r = validate_content (sv_read_back env (rev_content r))"

definition load_exact_current_revision :: "uuid \<Rightarrow> uuid \<Rightarrow> ws_db \<Rightarrow> workspace_error + ssp_revision" where
  "load_exact_current_revision w rid db =
     (case get_workspace db w of
        None \<Rightarrow> Inl StaleWorkspaceRevision
      | Some workspace \<Rightarrow>
          if current_revision_id workspace \<noteq> Some rid then Inl StaleWorkspaceRevision
          else (case get_revision db rid w of None \<Rightarrow> Inl StaleWorkspaceRevision | Some r \<Rightarrow> Inr r))"

text \<open>The current revision and its content, as most requests begin.\<close>

definition current_content :: "service_env \<Rightarrow> uuid \<Rightarrow> uuid \<Rightarrow> (ssp_revision \<times> revision_content) service" where
  "current_content env w rid =
     bindS (readS Persistence (load_exact_current_revision w rid)) (\<lambda>r.
     bindS (liftS Persistence (stored_content env r)) (\<lambda>c. returnS (r, c)))"

definition get_profile_version :: "ws_db \<Rightarrow> uuid \<Rightarrow> profile_version option" where
  "get_profile_version db i = find (\<lambda>p. profile_version_id p = i) (profile_versions db)"

text \<open>\<open>scalar_one()\<close> raises \<open>NoResultFound\<close>, which no route catches.\<close>

definition one :: "'a option \<Rightarrow> service_error + 'a" where
  "one v = (case v of None \<Rightarrow> Inl ServerFault | Some x \<Rightarrow> Inr x)"

section \<open>Impact level\<close>

definition active_facts :: "revision_content \<Rightarrow> fact_dict" where
  "active_facts c = dict_of fact_key (filter (\<lambda>f. fact_state f = FACT_ACTIVE) (facts c))"

text \<open>The first of some facts whose value is a level; a value that is not hashable raises \<open>TypeError\<close>.\<close>

fun first_level :: "(fact_content \<Rightarrow> bool) \<Rightarrow> fact_content list \<Rightarrow> service_error + string option" where
  "first_level P [] = Inr None"
| "first_level P (f # fs) =
     (if P f then
        (if unhashable (Some (fact_value f)) then Inl ServerFault
         else case fact_value f of
             JStr s \<Rightarrow> if s \<in> set FIPS_IMPACT_LEVELS then Inr (Some s) else first_level P fs
           | _ \<Rightarrow> first_level P fs)
      else first_level P fs)"

definition confirmed_impact_level :: "revision_content \<Rightarrow> service_error + string option" where
  "confirmed_impact_level c =
     (if active_categorization_status (active_facts c) \<noteq> Some ''confirmed'' then Inr None
      else first_level (\<lambda>f. fact_key f \<in> set [''system.impact_level'', ''impact_level'']) (facts c))"

definition impact_level :: "revision_content \<Rightarrow> service_error + string" where
  "impact_level c =
     bindR (confirmed_impact_level c) (\<lambda>confirmed.
     case confirmed of
       Some level \<Rightarrow> Inr level
     | None \<Rightarrow>
         bindR (first_level (\<lambda>f. fact_state f = FACT_ACTIVE \<and>
           fact_key f \<in> set [''system.provisional_impact_level'', ''system.impact_level'', ''impact_level'']) (facts c)) (\<lambda>v.
         Inr (case v of None \<Rightarrow> ''moderate'' | Some level \<Rightarrow> level)))"

definition resolved_profile_of :: "service_env \<Rightarrow> ssp_revision \<Rightarrow> revision_content \<Rightarrow> resolved_profile service" where
  "resolved_profile_of env r c =
     bindS (readS id (\<lambda>db. one (get_workspace db (rev_workspace_id r)))) (\<lambda>workspace.
     bindS (readS id (\<lambda>db. one (get_profile_version db (ws_profile_version_id workspace)))) (\<lambda>row.
     bindS (liftS id (impact_level c)) (\<lambda>level.
     liftS ProfileFailed (resolve_stored_profile row level))))"

definition policy_for_revision :: "service_env \<Rightarrow> ssp_revision \<Rightarrow> revision_content \<Rightarrow> selected_policy service" where
  "policy_for_revision env r c =
     bindS (resolved_profile_of env r c) (\<lambda>p. returnS (from_resolved p))"

section \<open>Saving\<close>

definition save_edited_revision ::
  "service_env \<Rightarrow> uuid \<Rightarrow> uuid \<Rightarrow> uuid \<Rightarrow> revision_content \<Rightarrow> string \<Rightarrow> instant \<Rightarrow> string \<Rightarrow> members
     \<Rightarrow> ssp_revision service" where
  "save_edited_revision env new_id w expected c actor now act meta =
     bindS (callS Persistence (save_revision (sv_sha256 env) new_id w c actor now (Some expected))) (\<lambda>saved.
     bindS (audit_service actor act w (meta @ [(''revision_id'', JStr (uuid_str (revision_id saved)))]) now) (\<lambda>_.
     returnS saved))"

text \<open>A violated policy; the other errors of a content check are not \<open>ProfileValidationError\<close>.\<close>

fun policy_failure :: "generation_error \<Rightarrow> service_error" where
  "policy_failure (ProfileValidationError d) = ProfileValidationFailed d"
| "policy_failure (GenerationContractError d k b) = ServiceValueError d"
| "policy_failure ContentValueError = ServiceValueError []"
| "policy_failure ContentTypeError = ServerFault"

section \<open>Direct edits\<close>

definition is_structured_section :: "selected_policy \<Rightarrow> string \<Rightarrow> bool" where
  "is_structured_section pol key = (case map_of (pol_sections pol) key of None \<Rightarrow> False | Some i \<Rightarrow> structured i)"

definition save_section_edit ::
  "service_env \<Rightarrow> uuid \<Rightarrow> uuid \<Rightarrow> uuid \<Rightarrow> string \<Rightarrow> string \<Rightarrow> string \<Rightarrow> instant \<Rightarrow> ssp_revision service" where
  "save_section_edit env new_id w expected key txt0 actor now =
     bindS (current_content env w expected) (\<lambda>(r, c).
     bindS (policy_for_revision env r c) (\<lambda>pol.
     bindS (liftS policy_failure (validate_workspace_section_content (sv_runtime env) (sv_catalog env) key txt0 pol)) (\<lambda>_.
     bindS (guardS (\<not> is_structured_section pol key)
       (ProfileValidationFailed ''structured SSP sections must be saved via dedicated confirm endpoints'')) (\<lambda>_.
     bindS (liftS EditFailed (edit_section c key txt0)) (\<lambda>updated.
     save_edited_revision env new_id w expected updated actor now ''ssp_section_edited''
       [(''section_key'', JStr key)])))))"

definition save_control_edit ::
  "service_env \<Rightarrow> uuid \<Rightarrow> uuid \<Rightarrow> uuid \<Rightarrow> string \<Rightarrow> string \<Rightarrow> string option \<Rightarrow> string option \<Rightarrow> string \<Rightarrow> instant
     \<Rightarrow> ssp_revision service" where
  "save_control_edit env new_id w expected cid statement status resp actor now =
     bindS (current_content env w expected) (\<lambda>(r, c).
     bindS (policy_for_revision env r c) (\<lambda>pol.
     bindS (liftS policy_failure (validate_workspace_control_fields status resp pol)) (\<lambda>_.
     bindS (liftS policy_failure (validate_workspace_implementation_statement statement (Some pol))) (\<lambda>_.
     bindS (liftS EditFailed (edit_control c cid statement status resp)) (\<lambda>updated.
     save_edited_revision env new_id w expected updated actor now ''ssp_control_edited''
       [(''control_id'', JStr cid)])))))"

definition save_question_answer ::
  "service_env \<Rightarrow> uuid \<Rightarrow> uuid \<Rightarrow> uuid \<Rightarrow> uuid \<Rightarrow> string \<Rightarrow> string \<Rightarrow> instant \<Rightarrow> ssp_revision service" where
  "save_question_answer env new_id w expected qid reply actor now =
     bindS (current_content env w expected) (\<lambda>(r, c).
     bindS (liftS EditFailed (answer_question c qid reply)) (\<lambda>updated.
     save_edited_revision env new_id w expected updated actor now ''ssp_question_answered''
       [(''question_id'', JStr (uuid_str qid))]))"

end
