(* ===== verification/ServiceReview.thy ===== *)
theory ServiceReview
  imports Service
begin

text \<open>
  Review and approval in \<open>ssp_workspace/service.py\<close>: the requirements of the stored profile, the facts
  that satisfy them, the part of the workspace envelope an approval reads, and the approval gate.
\<close>

section \<open>Requirements and effective facts\<close>

definition metric_value_type :: "ssp_required_item \<Rightarrow> string" where
  "metric_value_type i =
     (if ri_structured_kind i = Some ''authorization_boundary'' then ''object''
      else if ri_structured_kind i \<in> set (map Some [''component_inventory'', ''interconnection_register'',
          ''information_type_register'']) \<or> ri_value_type i = ''string_list'' then ''array''
      else ''string'')"

definition metric_requirement :: "ssp_required_item \<Rightarrow> service_error + profile_requirement" where
  "metric_requirement i =
     (let r = \<lparr>req_key = ri_item_id i, req_value_type = metric_value_type i, req_required = ri_required i,
        req_enum_values = ri_allowed_values i,
        req_min_length = (case ri_min_length i of None \<Rightarrow> 1 | Some n \<Rightarrow> if n = 0 then 1 else n),
        req_evidence_required_for_agent_value = ri_evidence_required i, req_structured_kind = ri_structured_kind i\<rparr>
      in if valid_requirement r then Inr r else Inl (Persistence PValidationError))"

definition metric_requirements :: "profile_version \<Rightarrow> service_error + profile_requirement list" where
  "metric_requirements row = mapR metric_requirement (pb_ssp_required_items (pv_bundle row))"

definition is_structured_requirement :: "profile_requirement \<Rightarrow> bool" where
  "is_structured_requirement r = (case req_structured_kind r of None \<Rightarrow> False | Some k \<Rightarrow> k \<noteq> [])"

text \<open>The value of a section for its requirement; \<open>None\<close> if it has none.\<close>

definition section_value ::
  "service_env \<Rightarrow> profile_requirement \<Rightarrow> section_content \<Rightarrow> register_error + json option" where
  "section_value env r s =
     (if is_structured_requirement r then
        (if req_structured_kind r = Some ''information_type_register''
         then information_types_metric_value (sv_runtime env) (sv_catalog env) (section_text s)
         else structured_section_metric_value (sv_runtime env) (section_key s) (section_text s) (req_structured_kind r))
      else if req_value_type r = ''array''
      then Inr (Some (JArr (map JStr (normalized_string_list_items (section_text s)))))
      else Inr (Some (JStr (py_strip (section_text s)))))"

definition section_provenance :: "section_content \<Rightarrow> provenance" where
  "section_provenance s = (if section_state s \<in> {SEC_EDITED, SEC_REVIEWED} then ISSO_ENTERED else AGENT_GENERATED)"

definition section_fact ::
  "service_env \<Rightarrow> (string \<times> profile_requirement) list \<Rightarrow> fact_dict \<Rightarrow> section_content \<Rightarrow> service_error + fact_dict" where
  "section_fact env requirements d s =
     (case map_of requirements (section_key s) of
        None \<Rightarrow> Inr d
      | Some r \<Rightarrow>
          if \<not> has_text (section_text s) then Inr d
          else case section_value env r s of
              Inl e \<Rightarrow> Inl (RegisterFailed e)
            | Inr None \<Rightarrow> Inr d
            | Inr (Some v) \<Rightarrow>
                if section_provenance s = AGENT_GENERATED \<and> section_evidence s = [] then Inr d
                else
                  let f = \<lparr>fact_key = section_key s, fact_value = v, fact_provenance = section_provenance s,
                    fact_evidence = section_evidence s, fact_state = FACT_ACTIVE\<rparr>
                  in if valid_fact f then Inr (dict_put (section_key s) f d) else Inl (Persistence PValidationError))"

definition effective_metric_facts ::
  "service_env \<Rightarrow> revision_content \<Rightarrow> profile_requirement list \<Rightarrow> service_error + fact_content list" where
  "effective_metric_facts env c requirements =
     bindR (foldR (section_fact env (dict_of req_key requirements)) (facts_by_key c) (sections c)) (\<lambda>d.
     Inr (sorted_values d))"

section \<open>The envelope of a workspace\<close>

definition evidence_link_count :: "revision_content \<Rightarrow> int" where
  "evidence_link_count c = int (sum_list (map (\<lambda>f. length (fact_evidence f)) (facts c)) +
     sum_list (map (\<lambda>s. length (section_evidence s)) (sections c)) +
     sum_list (map (\<lambda>x. length (control_evidence x)) (controls c)))"

record envelope =
  env_workspace :: ssp_workspace
  env_profile :: profile_version
  env_revision :: "ssp_revision option"
  env_content :: revision_content
  env_evidence :: "evidence_artifact list"
  env_approvals :: "approval_snapshot list"
  env_patches :: "agent_patch list"
  env_requirements :: "profile_requirement list"
  env_satisfied_requirement_ids :: "string list"
  env_metrics :: workspace_metrics
  env_confirmed_impact :: "string option"
  env_impact :: string

text \<open>\<open>ORDER BY ... DESC\<close>.\<close>

definition newest_first :: "('r \<Rightarrow> instant) \<Rightarrow> 'r list \<Rightarrow> 'r list" where
  "newest_first t rows = sort_key (\<lambda>r. - t r) rows"

definition empty_content :: revision_content where
  "empty_content = \<lparr>facts = [], sections = [], controls = [], questions = []\<rparr>"

text \<open>The content of the workspace's current revision, empty if it has none.\<close>

definition envelope_content ::
  "service_env \<Rightarrow> ws_db \<Rightarrow> ssp_workspace \<Rightarrow> service_error + ssp_revision option \<times> revision_content" where
  "envelope_content env db workspace =
     (case current_revision_id workspace of
        None \<Rightarrow> Inr (None, empty_content)
      | Some rid \<Rightarrow>
          bindR (one (find (\<lambda>r. revision_id r = rid) (revisions db))) (\<lambda>r.
          case stored_content env r of Inl e \<Rightarrow> Inl (Persistence e) | Inr c \<Rightarrow> Inr (Some r, c)))"

definition satisfied_requirement_ids :: "profile_requirement list \<Rightarrow> fact_content list \<Rightarrow> string list" where
  "satisfied_requirement_ids requirements effective =
     map req_key (filter (\<lambda>r. requirement_is_satisfied r (map_of (facts_dict effective) (req_key r))) requirements)"

definition load_workspace_envelope :: "service_env \<Rightarrow> uuid \<Rightarrow> ws_db \<Rightarrow> service_error + envelope" where
  "load_workspace_envelope env w db =
     (case get_workspace db w of
        None \<Rightarrow> Inl (Persistence WorkspaceNotFound)
      | Some workspace \<Rightarrow>
          (case get_profile_version db (ws_profile_version_id workspace) of
             None \<Rightarrow> Inl (Persistence WorkspaceNotFound)
           | Some profile \<Rightarrow>
               bindR (envelope_content env db workspace) (\<lambda>(revision, content).
               let live = newest_first ev_uploaded_at
                 (filter (\<lambda>a. ev_workspace_id a = w \<and> removed_at a = None) (evidence db)) in
               bindR (metric_requirements profile) (\<lambda>requirements.
               bindR (effective_metric_facts env content requirements) (\<lambda>effective.
               bindR (one (calculate_workspace_metrics
                   (map (\<lambda>a. \<lparr>emr_state = ev_status a, emr_media_type = ev_media_type a\<rparr>) live)
                   effective requirements (controls content) (questions content) (evidence_link_count content))) (\<lambda>metrics.
               bindR (confirmed_impact_level content) (\<lambda>confirmed.
               bindR (impact_level content) (\<lambda>level.
               case resolve_stored_profile profile level of
                 Inl e \<Rightarrow> Inl (ProfileFailed e)
               | Inr resolved \<Rightarrow> Inr \<lparr>env_workspace = workspace, env_profile = profile, env_revision = revision,
                   env_content = content, env_evidence = live,
                   env_approvals = newest_first approved_at (filter (\<lambda>a. as_workspace_id a = w) (approvals db)),
                   env_patches = newest_first patch_created_at (filter (\<lambda>p. patch_workspace_id p = w) (agent_patches db)),
                   env_requirements = requirements,
                   env_satisfied_requirement_ids = satisfied_requirement_ids requirements effective,
                   env_metrics = metrics, env_confirmed_impact = confirmed, env_impact = level\<rparr>))))))))"

section \<open>Approval\<close>

text \<open>The status of one confirmation: stale and missing ones are refused with different messages.\<close>

definition require_confirmed :: "string option \<Rightarrow> string \<Rightarrow> string \<Rightarrow> service_error + unit" where
  "require_confirmed status stale_message missing_message =
     (if status = Some ''stale'' then Inl (NotReviewable stale_message)
      else guardR (status = Some ''confirmed'') (NotReviewable missing_message))"

definition require_confirmations :: "revision_content \<Rightarrow> service_error + unit" where
  "require_confirmations c =
     (let d = active_facts c in
      bindR (require_confirmed (active_categorization_status d)
        ''system categorization must be re-confirmed before approval''
        ''system categorization must be explicitly confirmed before approval'') (\<lambda>_.
      bindR (require_confirmed (active_system_definition_status d)
        ''system definition must be re-confirmed before approval''
        ''system definition must be explicitly confirmed before approval'') (\<lambda>_.
      require_confirmed (active_information_types_status d)
        ''information type mapping must be re-confirmed before approval''
        ''information type mapping must be explicitly confirmed before approval'')))"

definition nonterminal_evidence :: "ws_db \<Rightarrow> uuid \<Rightarrow> bool" where
  "nonterminal_evidence db w =
     list_ex (\<lambda>a. ev_workspace_id a = w \<and> removed_at a = None \<and> ev_status a \<in> {EV_UPLOADED, EV_PROCESSING})
       (evidence db)"

definition sections_resolved :: "profile_requirement list \<Rightarrow> string list \<Rightarrow> (string \<times> string) list \<Rightarrow> bool" where
  "sections_resolved requirements satisfied targets =
     list_all (\<lambda>r. req_key r \<in> set satisfied \<or> (''ssp_section'', req_key r) \<in> set targets)
       (filter req_required requirements)"

definition approve_workspace_revision ::
  "service_env \<Rightarrow> uuid \<Rightarrow> uuid \<Rightarrow> uuid \<Rightarrow> string \<Rightarrow> instant \<Rightarrow> approval_snapshot service" where
  "approve_workspace_revision env new_id w rid actor now =
     bindS (readS id (\<lambda>db. case get_revision db rid w of
         None \<Rightarrow> Inl (NotReviewable ''current revision is unavailable'') | Some r \<Rightarrow> Inr r)) (\<lambda>r.
     bindS (liftS Persistence (stored_content env r)) (\<lambda>c.
     bindS (liftS id (require_confirmations c)) (\<lambda>_.
     bindS (readS id (\<lambda>db. bindR (one (get_workspace db w)) (\<lambda>workspace.
       one (get_profile_version db (ws_profile_version_id workspace))))) (\<lambda>row.
     bindS (liftS id (impact_level c)) (\<lambda>level.
     bindS (liftS ProfileFailed (resolve_stored_profile row level)) (\<lambda>profile.
     bindS (liftS id (metric_requirements row)) (\<lambda>requirements.
     bindS (readS id (\<lambda>db. Inr (nonterminal_evidence db w))) (\<lambda>nonterminal.
     bindS (readS id (load_workspace_envelope env w)) (\<lambda>document.
     let targets = open_targets (questions c); pol = from_resolved profile in
     bindS (guardS (\<not> list_ex (\<lambda>x. agent_control_blocks_approval x (cr_evidence_required (pol_response pol))) (controls c))
       (NotReviewable ''workspace has ungrounded agent control metadata'')) (\<lambda>_.
     bindS (guardS (\<not> nonterminal \<and>
         sections_resolved requirements (env_satisfied_requirement_ids document) targets \<and>
         controls_have_tracked_responses (controls c) targets (dp_require_gap_or_question (pol_rules pol)))
       (NotReviewable ''workspace has untracked required information gaps'')) (\<lambda>_.
     bindS (callS Persistence
       (approve_current_revision (sv_sha256 env) (sv_read_back env) new_id w rid actor now)) (\<lambda>approval.
     bindS (audit_service actor ''ssp_revision_approved'' w [(''revision_id'', JStr (uuid_str rid))] now) (\<lambda>_.
     returnS approval)))))))))))))"

end
