(* ===== verification/ServicePatches.thy ===== *)
theory ServicePatches
  imports ServiceReview Generation
begin

text \<open>
  The requests of \<open>ssp_workspace/service.py\<close> that call the model, and the life of a proposed patch. Such a
  request reads a snapshot of the workspace in a transaction of its own, asks the model, and writes only if
  the revision it read is still the current one; the state of the snapshot is an argument, because any number
  of transactions can commit before the write. Whether the model may be used, \<open>require_ssp_model_allowed\<close>
  of \<open>model_policy.py\<close>, is the argument \<open>allowed\<close>. A stored patch is read back as it was written.
\<close>

section \<open>The snapshot\<close>

record generation_snapshot =
  sn_workspace_id :: uuid
  sn_revision_id :: uuid
  sn_revision_version :: int
  sn_content :: revision_content
  sn_system_name :: string
  sn_profile :: resolved_profile

definition persistence :: "workspace_error + 'a \<Rightarrow> service_error + 'a" where
  "persistence r = (case r of Inl e \<Rightarrow> Inl (Persistence e) | Inr x \<Rightarrow> Inr x)"

definition generation_context :: "service_env \<Rightarrow> uuid \<Rightarrow> uuid \<Rightarrow> ws_db \<Rightarrow> service_error + generation_snapshot" where
  "generation_context env w rid db =
     bindR (persistence (load_exact_current_revision w rid db)) (\<lambda>r.
     bindR (one (get_workspace db w)) (\<lambda>workspace.
     bindR (one (get_profile_version db (ws_profile_version_id workspace))) (\<lambda>row.
     bindR (persistence (stored_content env r)) (\<lambda>c.
     bindR (impact_level c) (\<lambda>level.
     case resolve_stored_profile row level of
       Inl e \<Rightarrow> Inl (ProfileFailed e)
     | Inr profile \<Rightarrow> Inr \<lparr>sn_workspace_id = workspace_id workspace, sn_revision_id = revision_id r,
         sn_revision_version = rev_version r, sn_content = c,
         sn_system_name = sv_system_name env (ws_system_id workspace), sn_profile = profile\<rparr>)))))"

definition generation_fact :: "runtime \<Rightarrow> fact_content \<Rightarrow> evidence_fact" where
  "generation_fact rt f = \<lparr>ef_fact_id = fact_key f, ef_source_id = uuid_str (artifact_id (hd (fact_evidence f))),
     ef_text = py_str rt (fact_value f)\<rparr>"

definition generation_facts :: "runtime \<Rightarrow> revision_content \<Rightarrow> evidence_fact list" where
  "generation_facts rt c = map (generation_fact rt) (filter (\<lambda>f. fact_evidence f \<noteq> []) (facts c))"

definition source_ids_of :: "revision_content \<Rightarrow> string list" where
  "source_ids_of c = sort (remdups (map (\<lambda>l. uuid_str (artifact_id l)) (concat (map fact_evidence (facts c)))))"

section \<open>Confirmations shown to the model\<close>

definition or_unconfirmed :: "string option \<Rightarrow> string" where
  "or_unconfirmed v = (case v of None \<Rightarrow> ''unconfirmed'' | Some s \<Rightarrow> if s = [] then ''unconfirmed'' else s)"

definition bound_fact_ids :: "revision_content \<Rightarrow> string list \<Rightarrow> string \<Rightarrow> string list" where
  "bound_fact_ids c canonical_keys status =
     (if status = ''confirmed''
      then sort (map fact_key (filter (\<lambda>f. fact_state f = FACT_ACTIVE \<and> fact_key f \<in> set canonical_keys \<and>
        fact_evidence f \<noteq> []) (facts c)))
      else [])"

definition confirmed_sections :: "revision_content \<Rightarrow> string list \<Rightarrow> string \<Rightarrow> (string \<times> string) list" where
  "confirmed_sections c canonical_keys status =
     (if status = ''confirmed''
      then map (\<lambda>s. (section_key s, section_text s))
        (filter (\<lambda>s. section_key s \<in> set canonical_keys \<and> has_text (section_text s)) (sort_key section_key (sections c)))
      else [])"

definition workspace_confirmation_context :: "revision_content \<Rightarrow> confirmation_context" where
  "workspace_confirmation_context c =
     (let d = active_facts c;
          cat = or_unconfirmed (active_categorization_status d);
          sysdef = or_unconfirmed (active_system_definition_status d);
          info = or_unconfirmed (active_information_types_status d) in
      \<lparr>cc_categorization_status = cat, cc_system_definition_status = sysdef, cc_information_types_status = info,
        cc_categorization_fact_ids =
          bound_fact_ids c (CATEGORIZATION_STATUS_KEY # IMPACT_FACT_KEYS @ RATIONALE_FACT_KEYS) cat,
        cc_system_definition_fact_ids = bound_fact_ids c (SYSTEM_DEFINITION_STATUS_KEY # STRUCTURED_SECTION_KEYS) sysdef,
        cc_information_types_fact_ids =
          bound_fact_ids c [INFORMATION_TYPES_SECTION_KEY, INFORMATION_TYPES_STATUS_KEY] info,
        cc_system_definition_sections = confirmed_sections c STRUCTURED_SECTION_KEYS sysdef,
        cc_information_types_sections = confirmed_sections c [INFORMATION_TYPES_SECTION_KEY] info\<rparr>)"

section \<open>Generation\<close>

fun generation_failed :: "generation_failure \<Rightarrow> service_error" where
  "generation_failed (SspGenerationError kind detail attempts repaired raw) = GenerationFailed kind detail"
| "generation_failed (GenerationValueError d) = ServiceValueError d"
| "generation_failed GenerationTypeError = ServerFault"

definition generated :: "generation_failure + 'a \<Rightarrow> service_error + 'a" where
  "generated r = (case r of Inl e \<Rightarrow> Inl (generation_failed e) | Inr x \<Rightarrow> Inr x)"

definition edited :: "edit_error + 'a \<Rightarrow> service_error + 'a" where
  "edited r = (case r of Inl e \<Rightarrow> Inl (EditFailed e) | Inr x \<Rightarrow> Inr x)"

definition initial_request :: "service_env \<Rightarrow> generation_snapshot \<Rightarrow> service_error + initial_generation_request" where
  "initial_request env sn =
     bindR (confirmed_impact_level (sn_content sn)) (\<lambda>level.
     Inr \<lparr>gr_system_name = sn_system_name sn, gr_profile = sn_profile sn, gr_source_ids = source_ids_of (sn_content sn),
       gr_facts = generation_facts (sv_runtime env) (sn_content sn), gr_categorization_confirmed = (level \<noteq> None),
       gr_confirmation_context = Some (workspace_confirmation_context (sn_content sn))\<rparr>)"

definition draft_from_model ::
  "service_env \<Rightarrow> bool \<Rightarrow> model_callable \<Rightarrow> uuid \<Rightarrow> uuid \<Rightarrow> ws_db \<Rightarrow> service_error + revision_content \<times> nat" where
  "draft_from_model env allowed ask w rid db =
     bindR (guardR allowed ModelPolicyDenied) (\<lambda>_.
     bindR (generation_context env w rid db) (\<lambda>sn.
     bindR (initial_request env sn) (\<lambda>r.
     bindR (generated (generate_initial_ssp (sv_runtime env) (sv_catalog env) (sv_py env) ask r)) (\<lambda>ex.
     bindR (edited (merge_generation (sv_py env) (sn_content sn) (ex_value ex))) (\<lambda>updated.
     Inr (updated, ex_attempts ex))))))"

text \<open>
  Without a proposal the code builds \<open>SspGenerationError\<close> from its detail alone; the dataclass has five
  required fields, so \<open>TypeError\<close> is raised instead.
\<close>

definition categorization_from_model ::
  "service_env \<Rightarrow> bool \<Rightarrow> model_callable \<Rightarrow> uuid \<Rightarrow> uuid \<Rightarrow> ws_db \<Rightarrow> service_error + revision_content \<times> nat" where
  "categorization_from_model env allowed ask w rid db =
     bindR (guardR allowed ModelPolicyDenied) (\<lambda>_.
     bindR (generation_context env w rid db) (\<lambda>sn.
     let c = sn_content sn in
     if active_categorization_status (active_facts c) = Some ''confirmed''
     then Inl (EditFailed (WorkspaceEditError ''categorization is already confirmed''))
     else
       bindR (generated (generate_categorization_proposal (sv_runtime env) ask
         \<lparr>gr_system_name = sn_system_name sn, gr_profile = sn_profile sn, gr_source_ids = source_ids_of c,
           gr_facts = generation_facts (sv_runtime env) c\<rparr>)) (\<lambda>ex.
       case ex_value ex of
         None \<Rightarrow> Inl ServerFault
       | Some g \<Rightarrow> bindR (edited (merge_categorization_proposal (sv_py env) c g)) (\<lambda>updated.
           Inr (updated, ex_attempts ex)))))"

text \<open>The write of a result computed from the snapshot of revision \<open>rid\<close>.\<close>

definition save_generated ::
  "service_env \<Rightarrow> uuid \<Rightarrow> uuid \<Rightarrow> uuid \<Rightarrow> string \<Rightarrow> instant \<Rightarrow> string \<Rightarrow> service_error + revision_content \<times> nat
     \<Rightarrow> ssp_revision service" where
  "save_generated env new_id w rid actor now act result =
     bindS (liftS id result) (\<lambda>(updated, attempts).
     bindS (readS Persistence (load_exact_current_revision w rid)) (\<lambda>_.
     save_edited_revision env new_id w rid updated actor now act [(''model_attempts'', JInt (int attempts))]))"

definition generate_workspace_draft ::
  "service_env \<Rightarrow> bool \<Rightarrow> model_callable \<Rightarrow> ws_db \<Rightarrow> uuid \<Rightarrow> uuid \<Rightarrow> uuid \<Rightarrow> string \<Rightarrow> instant \<Rightarrow> ssp_revision service" where
  "generate_workspace_draft env allowed ask snapshot new_id w rid actor now =
     save_generated env new_id w rid actor now ''ssp_draft_generated'' (draft_from_model env allowed ask w rid snapshot)"

definition analyze_workspace_categorization ::
  "service_env \<Rightarrow> bool \<Rightarrow> model_callable \<Rightarrow> ws_db \<Rightarrow> uuid \<Rightarrow> uuid \<Rightarrow> uuid \<Rightarrow> string \<Rightarrow> instant \<Rightarrow> ssp_revision service" where
  "analyze_workspace_categorization env allowed ask snapshot new_id w rid actor now =
     save_generated env new_id w rid actor now ''ssp_categorization_proposed''
       (categorization_from_model env allowed ask w rid snapshot)"

section \<open>Proposing a patch\<close>

definition or_unknown_str :: "string option \<Rightarrow> string" where
  "or_unknown_str v = (case v of None \<Rightarrow> ''unknown'' | Some s \<Rightarrow> if s = [] then ''unknown'' else s)"

definition patch_question :: "question_content \<Rightarrow> open_question_state" where
  "patch_question q = \<lparr>oq_question_id = uuid_str (question_id q), oq_target_type = target_type q,
     oq_target_id = target_key q,
     oq_question = (case answer q of
         None \<Rightarrow> question q
       | Some a \<Rightarrow> if a = [] then question q else question q @ [CHR 0x0A] @ ''Provided answer: '' @ a)\<rparr>"

definition patch_request ::
  "service_env \<Rightarrow> generation_snapshot \<Rightarrow> string \<Rightarrow> service_error + contextual_edit_request" where
  "patch_request env sn instruction =
     (let c = sn_content sn; version = sn_revision_version sn in
      bindR (confirmed_impact_level c) (\<lambda>level.
      Inr \<lparr>gr_system_name = sn_system_name sn, gr_profile = sn_profile sn, gr_source_ids = source_ids_of c,
        gr_facts = generation_facts (sv_runtime env) c,
        gr_sections = map (\<lambda>s. \<lparr>ss_section_id = section_key s, ss_revision = version, ss_content = section_text s\<rparr>)
          (sections c),
        gr_controls = map (\<lambda>x. \<lparr>cs_control_id = control_id x, cs_revision = version,
          cs_implementation_status = or_unknown_str (implementation_status x),
          cs_responsibility = or_unknown_str (responsibility x),
          cs_implementation_statement = implementation_statement x\<rparr>) (controls c),
        gr_open_questions = map patch_question
          (filter (\<lambda>q. question_state q \<noteq> Q_DISMISSED \<and> target_type q \<noteq> ''fact'') (questions c)),
        gr_instruction = instruction, gr_edit_categorization_confirmed = (level \<noteq> None)\<rparr>))"

definition patch_from_model ::
  "service_env \<Rightarrow> bool \<Rightarrow> model_callable \<Rightarrow> uuid \<Rightarrow> uuid \<Rightarrow> string \<Rightarrow> ws_db \<Rightarrow> service_error + patch_result" where
  "patch_from_model env allowed ask w rid instruction db =
     bindR (guardR allowed ModelPolicyDenied) (\<lambda>_.
     bindR (generation_context env w rid db) (\<lambda>sn.
     bindR (patch_request env sn instruction) (\<lambda>r.
     bindR (generated (generate_contextual_patch (sv_runtime env) (sv_catalog env) (sv_py env) ask r)) (\<lambda>ex.
     Inr (ex_value ex)))))"

definition targeted_patch_doc :: "targeted_patch \<Rightarrow> members" where
  "targeted_patch_doc p =
     [(''target_type'', JStr (tp_target_type p)), (''target_id'', JStr (tp_target_id p)),
      (''expected_revision'', JInt (tp_expected_revision p)),
      (''changes'', JObj (map (\<lambda>(k, v). (k, JStr v)) (tp_changes p))),
      (''supporting_fact_ids'', strs (tp_supporting_fact_ids p))]"

definition question_to_add_doc :: "generated_question \<Rightarrow> members" where
  "question_to_add_doc q =
     [(''question_key'', JStr (gq_question_key q)), (''target_type'', JStr (gq_target_type q)),
      (''target_id'', JStr (gq_target_id q)), (''question'', JStr (gq_question q)),
      (''owner_type'', JStr (gq_owner_type q))]"

definition serialize_patch_result :: "patch_result \<Rightarrow> json" where
  "serialize_patch_result r = JObj
     [(''patches'', docs targeted_patch_doc (pr_patches r)),
      (''questions_to_add'', docs question_to_add_doc (pr_questions_to_add r)),
      (''question_ids_to_resolve'', strs (pr_question_ids_to_resolve r)),
      (''change_summary'', JStr (pr_change_summary r))]"

definition patch_row_ok :: "agent_patch \<Rightarrow> bool" where
  "patch_row_ok p =
     (((patch_status p = PATCH_PROPOSED \<and> applied_revision_id p = None \<and> resolved_by p = None \<and> resolved_at p = None) \<or>
       (patch_status p = PATCH_APPLIED \<and> applied_revision_id p \<noteq> None \<and> resolved_by p \<noteq> None \<and> resolved_at p \<noteq> None) \<or>
       (patch_status p \<in> {PATCH_REJECTED, PATCH_STALE} \<and> applied_revision_id p = None \<and> resolved_by p \<noteq> None \<and>
        resolved_at p \<noteq> None)) \<and>
      patch_operations p \<noteq> [] \<and> length_between 1 2000 (patch_summary p) \<and> opt_max_length 255 (resolved_by p))"

definition add_patch :: "agent_patch \<Rightarrow> ws_db \<Rightarrow> workspace_error + ws_db \<times> unit" where
  "add_patch p db =
     (if patch_row_ok p \<and> patch_id p \<notin> patch_id ` set (agent_patches db)
      then Inr (db\<lparr>agent_patches := agent_patches db @ [p]\<rparr>, ()) else Inl DatabaseRejects)"

definition propose_agent_patch ::
  "service_env \<Rightarrow> bool \<Rightarrow> model_callable \<Rightarrow> ws_db \<Rightarrow> uuid \<Rightarrow> uuid \<Rightarrow> uuid \<Rightarrow> string \<Rightarrow> string \<Rightarrow> instant
     \<Rightarrow> agent_patch service" where
  "propose_agent_patch env allowed ask snapshot new_id w rid instruction actor now =
     bindS (liftS id (patch_from_model env allowed ask w rid instruction snapshot)) (\<lambda>result.
     bindS (readS Persistence (load_exact_current_revision w rid)) (\<lambda>_.
     let row = \<lparr>patch_id = new_id, patch_workspace_id = w, base_revision_id = rid, applied_revision_id = None,
       patch_operations = [serialize_patch_result result], patch_summary = pr_change_summary result,
       patch_status = PATCH_PROPOSED, patch_created_at = now, resolved_by = None, resolved_at = None\<rparr> in
     bindS (callS Persistence (add_patch row)) (\<lambda>_.
     bindS (audit_service actor ''ssp_agent_patch_proposed'' w [(''patch_id'', JStr (uuid_str new_id))] now) (\<lambda>_.
     returnS row))))"

section \<open>Reading a stored patch\<close>

definition string_items :: "json list \<Rightarrow> string list option" where
  "string_items xs = (if list_all is_string xs then Some (map str_of xs) else None)"

definition string_members :: "members \<Rightarrow> (string \<times> string) list option" where
  "string_members m = (if list_all (\<lambda>(k, v). is_string v) m then Some (map (\<lambda>(k, v). (k, str_of v)) m) else None)"

definition read_targeted_patch :: "json \<Rightarrow> targeted_patch option" where
  "read_targeted_patch j =
     (case j of
        JObj m \<Rightarrow>
          (case (map_of m ''target_type'', map_of m ''target_id'', map_of m ''expected_revision'', map_of m ''changes'',
              map_of m ''supporting_fact_ids'') of
             (Some (JStr t), Some (JStr i), Some (JInt n), Some (JObj ch), Some (JArr ids)) \<Rightarrow>
               (case (string_members ch, string_items ids) of
                  (Some changes, Some fact_ids) \<Rightarrow> Some \<lparr>tp_target_type = t, tp_target_id = i, tp_expected_revision = n,
                    tp_changes = changes, tp_supporting_fact_ids = fact_ids\<rparr>
                | _ \<Rightarrow> None)
           | _ \<Rightarrow> None)
      | _ \<Rightarrow> None)"

definition read_question_to_add :: "json \<Rightarrow> generated_question option" where
  "read_question_to_add j =
     (case j of
        JObj m \<Rightarrow>
          (case (map_of m ''question_key'', map_of m ''target_type'', map_of m ''target_id'', map_of m ''question'',
              map_of m ''owner_type'') of
             (Some (JStr k), Some (JStr t), Some (JStr i), Some (JStr q), Some (JStr ow)) \<Rightarrow>
               Some \<lparr>gq_question_key = k, gq_target_type = t, gq_target_id = i, gq_question = q, gq_owner_type = ow\<rparr>
           | _ \<Rightarrow> None)
      | _ \<Rightarrow> None)"

definition read_patch_document :: "members \<Rightarrow> patch_result option" where
  "read_patch_document m =
     (case (map_of m ''patches'', map_of m ''questions_to_add'', map_of m ''question_ids_to_resolve'',
         map_of m ''change_summary'') of
        (Some (JArr ps), Some (JArr qs), Some (JArr ids), Some (JStr summary)) \<Rightarrow>
          (case (those (map read_targeted_patch ps), those (map read_question_to_add qs), string_items ids) of
             (Some patches, Some qs', Some resolve) \<Rightarrow> Some \<lparr>pr_patches = patches, pr_questions_to_add = qs',
               pr_question_ids_to_resolve = resolve, pr_change_summary = summary\<rparr>
           | _ \<Rightarrow> None)
      | _ \<Rightarrow> None)"

definition deserialize_patch_result :: "json list \<Rightarrow> service_error + patch_result" where
  "deserialize_patch_result operations =
     (case operations of
        [JObj m] \<Rightarrow> (case read_patch_document m of
            None \<Rightarrow> Inl (PatchState ''stored agent patch is malformed'') | Some r \<Rightarrow> Inr r)
      | _ \<Rightarrow> Inl (PatchState ''stored agent patch is malformed''))"

section \<open>Resolving a patch\<close>

definition load_patch_for_update :: "uuid \<Rightarrow> uuid \<Rightarrow> ws_db \<Rightarrow> service_error + agent_patch" where
  "load_patch_for_update w pid db =
     (case find (\<lambda>p. patch_workspace_id p = w \<and> patch_id p = pid) (agent_patches db) of
        None \<Rightarrow> Inl PatchNotFound
      | Some p \<Rightarrow> Inr p)"

definition require_proposed :: "agent_patch \<Rightarrow> service_error + unit" where
  "require_proposed p = guardR (patch_status p = PATCH_PROPOSED) (PatchState ''agent patch is not proposed'')"

definition set_patch :: "uuid \<Rightarrow> (agent_patch \<Rightarrow> agent_patch) \<Rightarrow> ws_db \<Rightarrow> workspace_error + ws_db \<times> unit" where
  "set_patch pid f db =
     (if list_all (\<lambda>p. patch_id p = pid \<longrightarrow> patch_row_ok (f p)) (agent_patches db)
      then Inr (db\<lparr>agent_patches := update_where (\<lambda>p. patch_id p = pid) f (agent_patches db)\<rparr>, ())
      else Inl DatabaseRejects)"

definition resolve_patch :: "patch_state \<Rightarrow> uuid option \<Rightarrow> string \<Rightarrow> instant \<Rightarrow> agent_patch \<Rightarrow> agent_patch" where
  "resolve_patch st applied actor now p =
     p\<lparr>patch_status := st, applied_revision_id := applied, resolved_by := Some actor, resolved_at := Some now\<rparr>"

text \<open>The keys of the facts that have evidence.\<close>

definition evidenced_facts :: "revision_content \<Rightarrow> string list" where
  "evidenced_facts c = map fact_key (filter (\<lambda>f. fact_evidence f \<noteq> []) (facts c))"

definition apply_proposed_patch ::
  "service_env \<Rightarrow> uuid \<Rightarrow> uuid \<Rightarrow> uuid \<Rightarrow> uuid \<Rightarrow> string \<Rightarrow> instant \<Rightarrow> uuid service" where
  "apply_proposed_patch env new_id w pid expected actor now =
     bindS (readS id (load_patch_for_update w pid)) (\<lambda>p.
     bindS (liftS id (require_proposed p)) (\<lambda>_.
     if base_revision_id p \<noteq> expected then
       bindS (callS Persistence (set_patch pid (resolve_patch PATCH_STALE (applied_revision_id p) actor now))) (\<lambda>_.
       raiseS (Persistence StaleWorkspaceRevision))
     else
       bindS (readS Persistence (load_exact_current_revision w expected)) (\<lambda>r.
       bindS (liftS id (deserialize_patch_result (patch_operations p))) (\<lambda>result.
       bindS (liftS Persistence (stored_content env r)) (\<lambda>c.
       bindS (policy_for_revision env r c) (\<lambda>pol.
       bindS (liftS policy_failure
         (validate_applied_patch_result (sv_runtime env) (sv_catalog env) result pol (evidenced_facts c))) (\<lambda>_.
       bindS (liftS EditFailed (apply_agent_patch (sv_py env) c result (rev_version r))) (\<lambda>updated.
       bindS (save_edited_revision env new_id w expected updated actor now ''ssp_agent_patch_applied''
         [(''patch_id'', JStr (uuid_str pid))]) (\<lambda>saved.
       bindS (callS Persistence (set_patch pid (resolve_patch PATCH_APPLIED (Some (revision_id saved)) actor now))) (\<lambda>_.
       returnS pid))))))))))"

definition reject_proposed_patch :: "uuid \<Rightarrow> uuid \<Rightarrow> string \<Rightarrow> instant \<Rightarrow> uuid service" where
  "reject_proposed_patch w pid actor now =
     bindS (readS id (load_patch_for_update w pid)) (\<lambda>p.
     bindS (liftS id (require_proposed p)) (\<lambda>_.
     bindS (callS Persistence (set_patch pid (resolve_patch PATCH_REJECTED (applied_revision_id p) actor now))) (\<lambda>_.
     bindS (audit_service actor ''ssp_agent_patch_rejected'' w [(''patch_id'', JStr (uuid_str pid))] now) (\<lambda>_.
     returnS pid))))"

end
