(* ===== verification/ServiceMigration.thy ===== *)
theory ServiceMigration
  imports ServicePatches
begin

text \<open>
  The requests of \<open>ssp_workspace/service.py\<close> that pin a profile version: creating a workspace with its first
  revision, restoring an earlier revision, migrating to another profile or impact level, and confirming the
  categorization, which is a migration. Restoring and migrating switch the profile of the workspace before
  they save the revision. Identifiers of new rows are arguments.
\<close>

section \<open>Creating\<close>

definition nonempty :: "string option \<Rightarrow> string option" where
  "nonempty v = (case v of None \<Rightarrow> None | Some s \<Rightarrow> if s = [] then None else Some s)"

definition initial_content ::
  "service_env \<Rightarrow> uuid \<Rightarrow> resolved_profile \<Rightarrow> string option \<Rightarrow> string \<Rightarrow> revision_content" where
  "initial_content env sys p requested level = \<lparr>
     facts = [isso_fact ''profile_id'' (JStr (rp_profile_id p)) [],
       isso_fact ''profile_version'' (JStr (rp_profile_version p)) [],
       isso_fact ''system.name'' (JStr (sv_system_name env sys)) [],
       isso_fact (if requested \<noteq> None then ''system.impact_level'' else ''system.provisional_impact_level'')
         (JStr level) []] @
       (case nonempty (sv_external_id env sys) of
          None \<Rightarrow> [] | Some x \<Rightarrow> [isso_fact ''system.identifier'' (JStr x) []]),
     sections = map (\<lambda>i. \<lparr>section_key = ri_item_id i, section_title = ri_title i, section_text = [],
       section_state = SEC_EMPTY, section_evidence = []\<rparr>) (rp_ssp_required_items p),
     controls = map (\<lambda>c. \<lparr>control_id = pc_control_id c, control_title = pc_title c,
       implementation_status = Some ''unknown'', implementation_statement = [], responsibility = Some ''unknown'',
       control_state = CTL_EMPTY, control_evidence = [], unresolved_reason = None\<rparr>) (rp_controls p),
     questions = []\<rparr>"

definition create_initialized_workspace ::
  "service_env \<Rightarrow> uuid \<Rightarrow> uuid \<Rightarrow> uuid \<Rightarrow> uuid \<Rightarrow> string option \<Rightarrow> string \<Rightarrow> instant \<Rightarrow> ssp_workspace service" where
  "create_initialized_workspace env new_ws new_rev sys pv requested actor now =
     bindS (readS id (\<lambda>db. case get_profile_version db pv of
         None \<Rightarrow> Inl (Persistence ProfileVersionNotFound)
       | Some row \<Rightarrow> if profile_status row = PROFILE_ACTIVE then Inr row
           else Inl (Persistence ProfileVersionNotFound))) (\<lambda>row.
     let level = (case nonempty requested of None \<Rightarrow> ''moderate'' | Some l \<Rightarrow> l) in
     bindS (liftS ProfileFailed (resolve_stored_profile row level)) (\<lambda>p.
     bindS (readS id (\<lambda>db. one (find (\<lambda>s. s = sys) (systems db)))) (\<lambda>_.
     bindS (callS Persistence (create_workspace new_ws sys pv actor now)) (\<lambda>workspace.
     bindS (liftS Persistence (validate_content (initial_content env sys p requested level))) (\<lambda>c.
     bindS (callS Persistence (save_revision (sv_sha256 env) new_rev (workspace_id workspace) c actor now None)) (\<lambda>saved.
     bindS (audit_service actor ''ssp_workspace_created'' (workspace_id workspace)
       [(''profile_version_id'', JStr (uuid_str pv)), (''revision_id'', JStr (uuid_str (revision_id saved)))] now) (\<lambda>_.
     returnS workspace)))))))"

section \<open>Restoring\<close>

definition pin_profile :: "uuid \<Rightarrow> uuid \<Rightarrow> unit service" where
  "pin_profile w pv = modifyS (set_workspace w (\<lambda>x. x\<lparr>ws_profile_version_id := pv\<rparr>))"

text \<open>
  A fact value in the query for the profile: a missing one and \<open>null\<close> match no row, a value that is not a
  string is refused by the database driver.
\<close>

definition query_text :: "fact_dict \<Rightarrow> string \<Rightarrow> service_error + string option" where
  "query_text d key =
     (case map_of d key of
        None \<Rightarrow> Inr None
      | Some f \<Rightarrow> (case fact_value f of JStr s \<Rightarrow> Inr (Some s) | JNull \<Rightarrow> Inr None | _ \<Rightarrow> Inl ServerFault))"

definition profile_of_content :: "revision_content \<Rightarrow> ws_db \<Rightarrow> service_error + profile_version" where
  "profile_of_content c db =
     bindR (query_text (facts_by_key c) ''profile_id'') (\<lambda>key.
     bindR (query_text (facts_by_key c) ''profile_version'') (\<lambda>version.
     case find (\<lambda>p. Some (profile_key p) = key \<and> Some (profile_version_name p) = version) (profile_versions db) of
       None \<Rightarrow> Inl (ServiceValueError ''restored revision profile is unavailable'')
     | Some p \<Rightarrow> Inr p))"

definition restore_workspace_revision ::
  "service_env \<Rightarrow> uuid \<Rightarrow> uuid \<Rightarrow> uuid \<Rightarrow> uuid \<Rightarrow> string \<Rightarrow> instant \<Rightarrow> ssp_revision service" where
  "restore_workspace_revision env new_id w rid expected actor now =
     bindS (readS Persistence (load_exact_current_revision w expected)) (\<lambda>_.
     bindS (readS id (\<lambda>db. case get_revision db rid w of
         None \<Rightarrow> Inl (Persistence StaleWorkspaceRevision) | Some r \<Rightarrow> Inr r)) (\<lambda>target.
     bindS (liftS Persistence (stored_content env target)) (\<lambda>c.
     bindS (readS id (profile_of_content c)) (\<lambda>row.
     bindS (readS id (\<lambda>db. one (get_workspace db w))) (\<lambda>_.
     bindS (pin_profile w (profile_version_id row)) (\<lambda>_.
     save_edited_revision env new_id w expected c actor now ''ssp_revision_restored''
       [(''restored_revision_id'', JStr (uuid_str rid))]))))))"

section \<open>The difference of two profiles\<close>

definition profile_control_ids :: "resolved_profile \<Rightarrow> string list" where
  "profile_control_ids p = map pc_control_id (rp_controls p)"

definition profile_item_ids :: "resolved_profile \<Rightarrow> string list" where
  "profile_item_ids p = map ri_item_id (rp_ssp_required_items p)"

definition impact_profile_diff :: "resolved_profile \<Rightarrow> resolved_profile \<Rightarrow> profile_diff" where
  "impact_profile_diff old new = \<lparr>pd_old_profile_version = rp_profile_version old,
     pd_new_profile_version = rp_profile_version new, pd_impact_level = rp_impact_level new,
     pd_added_control_ids = sorted_difference (profile_control_ids new) (profile_control_ids old),
     pd_removed_control_ids = sorted_difference (profile_control_ids old) (profile_control_ids new),
     pd_changed_control_ids = [], pd_added_ssp_item_ids = [], pd_removed_ssp_item_ids = [],
     pd_changed_ssp_item_ids = [], pd_source_version_changes = [], pd_policy_changed = False,
     pd_old_policy_version = None, pd_new_policy_version = None\<rparr>"

text \<open>
  \<open>diff_profiles\<close> compares one impact level at a time: between two versions it is taken at the old level and
  the control identifiers are those of the actual pair.
\<close>

definition migration_diff ::
  "profile_version \<Rightarrow> resolved_profile \<Rightarrow> resolved_profile \<Rightarrow> profile_error + profile_diff" where
  "migration_diff new_row old new =
     (if rp_profile_version old = rp_profile_version new then
        (if rp_impact_level old \<noteq> rp_impact_level new then Inr (impact_profile_diff old new)
         else diff_profiles old new)
      else
        bindR (if rp_impact_level old = rp_impact_level new then Inr new
          else resolve_stored_profile new_row (rp_impact_level old)) (\<lambda>target.
        bindR (diff_profiles old target) (\<lambda>d.
        Inr (d\<lparr>pd_impact_level := rp_impact_level new,
          pd_added_control_ids := sorted_difference (profile_control_ids new) (profile_control_ids old),
          pd_removed_control_ids := sorted_difference (profile_control_ids old) (profile_control_ids new),
          pd_changed_control_ids := changed_keys (controls_dict old) (controls_dict new)\<rparr>))))"

section \<open>The migrated content\<close>

definition not_allowed :: "string option \<Rightarrow> string list \<Rightarrow> bool" where
  "not_allowed v allowed = (case v of None \<Rightarrow> False | Some s \<Rightarrow> s \<notin> set allowed)"

definition incompatible_control :: "resolved_profile \<Rightarrow> control_content \<Rightarrow> bool" where
  "incompatible_control new x =
     (control_id x \<in> set (profile_control_ids new) \<and>
      (not_allowed (implementation_status x) (cr_implementation_statuses (rp_control_response new)) \<or>
       not_allowed (responsibility x) (cr_responsibilities (rp_control_response new))))"

definition changed_controls ::
  "revision_content \<Rightarrow> resolved_profile \<Rightarrow> resolved_profile \<Rightarrow> profile_diff \<Rightarrow> string list" where
  "changed_controls c old new d =
     pd_changed_control_ids d @
     (if pd_policy_changed d \<or> rp_control_response old \<noteq> rp_control_response new
      then filter (\<lambda>i. i \<in> set (profile_control_ids new)) (map control_id (controls c)) else [])"

definition put_isso :: "string \<Rightarrow> string \<Rightarrow> fact_dict \<Rightarrow> fact_dict" where
  "put_isso key v d = dict_put key (isso_fact key (JStr v) []) d"

definition pop_key :: "string \<Rightarrow> (string \<times> 'a) list \<Rightarrow> (string \<times> 'a) list" where
  "pop_key key d = filter (\<lambda>(k, _). k \<noteq> key) d"

definition affected_items :: "profile_diff \<Rightarrow> string list" where
  "affected_items d = pd_added_ssp_item_ids d @ pd_removed_ssp_item_ids d @ pd_changed_ssp_item_ids d"

definition categorized_facts :: "fact_dict option \<Rightarrow> string \<Rightarrow> fact_dict \<Rightarrow> fact_dict" where
  "categorized_facts categorization level d =
     (case categorization of
        Some cf \<Rightarrow> fold (\<lambda>(k, f) acc. dict_put k f acc) cf (pop_key ''system.provisional_impact_level'' d)
      | None \<Rightarrow>
          if active_categorization_status d = Some ''confirmed''
          then put_isso ''system.provisional_impact_level'' level (put_isso CATEGORIZATION_STATUS_KEY ''stale'' d)
          else d)"

definition migrated_facts ::
  "fact_dict option \<Rightarrow> resolved_profile \<Rightarrow> string \<Rightarrow> profile_diff \<Rightarrow> fact_dict \<Rightarrow> fact_dict" where
  "migrated_facts categorization new level diff d =
     (let d1 = put_isso ''system.impact_level'' level (put_isso ''profile_version'' (rp_profile_version new)
            (put_isso ''profile_id'' (rp_profile_id new) d));
          d2 = categorized_facts categorization level d1;
          d3 = (if set (affected_items diff) \<inter> set STRUCTURED_SECTION_KEYS \<noteq> {} \<and>
              active_system_definition_status d2 = Some ''confirmed''
            then put_isso SYSTEM_DEFINITION_STATUS_KEY ''stale'' d2 else d2)
      in if INFORMATION_TYPES_SECTION_KEY \<in> set (affected_items diff) \<and>
            active_information_types_status d3 = Some ''confirmed''
         then put_isso INFORMATION_TYPES_STATUS_KEY ''stale'' d3 else d3)"

definition migrated_section ::
  "section_dict \<Rightarrow> string list \<Rightarrow> ssp_required_item \<Rightarrow> workspace_error + section_content" where
  "migrated_section old changed i =
     (case map_of old (ri_item_id i) of
        None \<Rightarrow>
          let s = \<lparr>section_key = ri_item_id i, section_title = ri_title i, section_text = [],
            section_state = SEC_EMPTY, section_evidence = []\<rparr>
          in if valid_section s then Inr s else Inl PValidationError
      | Some s \<Rightarrow> Inr (s\<lparr>section_title := ri_title i,
          section_state := (if ri_item_id i \<in> set changed \<and> section_state s = SEC_REVIEWED
            then SEC_EDITED else section_state s)\<rparr>))"

definition migration_marker :: "string \<Rightarrow> string" where
  "migration_marker version = ''Profile migration changed this control requirement; review it against profile '' @
     version @ '' before approval.''"

definition unknown_if_allowed :: "string list \<Rightarrow> string option" where
  "unknown_if_allowed allowed = (if ''unknown'' \<in> set allowed then Some ''unknown'' else None)"

definition migrated_control ::
  "resolved_profile \<Rightarrow> control_dict \<Rightarrow> string list \<Rightarrow> profile_control \<Rightarrow> workspace_error + control_content" where
  "migrated_control new old changed c =
     (case map_of old (pc_control_id c) of
        None \<Rightarrow>
          let x = \<lparr>control_id = pc_control_id c, control_title = pc_title c,
            implementation_status = unknown_if_allowed (cr_implementation_statuses (rp_control_response new)),
            implementation_statement = [],
            responsibility = unknown_if_allowed (cr_responsibilities (rp_control_response new)),
            control_state = CTL_EMPTY, control_evidence = [], unresolved_reason = None\<rparr>
          in if valid_control x then Inr x else Inl PValidationError
      | Some x \<Rightarrow>
          let y = x\<lparr>control_title := pc_title c\<rparr>; marker = migration_marker (rp_profile_version new) in
          if pc_control_id c \<notin> set changed then Inr y
          else Inr (y\<lparr>control_state := CTL_PARTIAL,
            unresolved_reason := Some (case unresolved_reason x of
                None \<Rightarrow> marker
              | Some reason \<Rightarrow> if has_text reason then py_strip reason @ [CHR 0x0A] @ marker else marker)\<rparr>))"

definition migrated_question :: "resolved_profile \<Rightarrow> question_content \<Rightarrow> question_content" where
  "migrated_question new q =
     (if question_state q = Q_OPEN \<and>
         ((target_type q = ''control'' \<and> target_key q \<notin> set (profile_control_ids new)) \<or>
          (target_type q = ''ssp_section'' \<and> target_key q \<notin> set (profile_item_ids new)))
      then q\<lparr>question_state := Q_DISMISSED\<rparr> else q)"

text \<open>\<open>model_copy\<close> does not validate the content it builds.\<close>

definition migrated_content ::
  "fact_dict option \<Rightarrow> resolved_profile \<Rightarrow> resolved_profile \<Rightarrow> string \<Rightarrow> profile_diff \<Rightarrow> revision_content
     \<Rightarrow> workspace_error + revision_content" where
  "migrated_content categorization old new level diff c =
     bindR (mapR (migrated_section (sections_by_key c) (pd_changed_ssp_item_ids diff)) (rp_ssp_required_items new)) (\<lambda>ss.
     bindR (mapR (migrated_control new (controls_by_id c) (changed_controls c old new diff)) (rp_controls new)) (\<lambda>xs.
     Inr \<lparr>facts = sorted_values (migrated_facts categorization new level diff (facts_by_key c)),
       sections = ss, controls = xs, questions = map (migrated_question new) (questions c)\<rparr>))"

section \<open>Migrating\<close>

definition migrate_workspace_profile ::
  "service_env \<Rightarrow> uuid \<Rightarrow> uuid \<Rightarrow> uuid \<Rightarrow> string \<Rightarrow> uuid \<Rightarrow> string \<Rightarrow> instant \<Rightarrow> fact_dict option \<Rightarrow> string
     \<Rightarrow> (ssp_revision \<times> profile_diff) service" where
  "migrate_workspace_profile env new_id w pv level expected actor now categorization act =
     bindS (readS Persistence (load_exact_current_revision w expected)) (\<lambda>current.
     bindS (readS id (\<lambda>db. one (get_workspace db w))) (\<lambda>workspace.
     bindS (guardS (current_revision_id workspace = Some expected) (Persistence StaleWorkspaceRevision)) (\<lambda>_.
     bindS (readS id (\<lambda>db. one (get_profile_version db (ws_profile_version_id workspace)))) (\<lambda>old_row.
     bindS (readS id (\<lambda>db. case find (\<lambda>p. profile_version_id p = pv \<and> profile_status p = PROFILE_ACTIVE)
           (profile_versions db) of
         None \<Rightarrow> Inl (ServiceValueError ''target profile version is not active'') | Some row \<Rightarrow> Inr row)) (\<lambda>new_row.
     bindS (liftS Persistence (stored_content env current)) (\<lambda>c.
     bindS (liftS id (impact_level c)) (\<lambda>old_level.
     bindS (liftS ProfileFailed (resolve_stored_profile old_row old_level)) (\<lambda>old.
     bindS (liftS ProfileFailed (resolve_stored_profile new_row level)) (\<lambda>new.
     bindS (guardS (rp_profile_id old = rp_profile_id new)
       (ServiceValueError ''profile migration requires the same profile_id'')) (\<lambda>_.
     if categorization = None \<and> ws_profile_version_id workspace = pv \<and> old_level = level
     then returnS (current, impact_profile_diff old new)
     else
       bindS (liftS ProfileFailed (migration_diff new_row old new)) (\<lambda>diff.
       bindS (guardS (\<not> list_ex (incompatible_control new) (controls c))
         (ProfileValidationFailed ''profile migration cannot preserve incompatible control enum values'')) (\<lambda>_.
       bindS (liftS Persistence (migrated_content categorization old new level diff c)) (\<lambda>migrated.
       bindS (pin_profile w pv) (\<lambda>_.
       bindS (save_edited_revision env new_id w expected migrated actor now act
         [(''old_profile_version'', JStr (rp_profile_version old)), (''new_profile_version'', JStr (rp_profile_version new)),
          (''old_impact_level'', JStr (rp_impact_level old)), (''new_impact_level'', JStr (rp_impact_level new))]) (\<lambda>saved.
       returnS (saved, diff))))))))))))))))"

section \<open>Confirming the categorization\<close>

definition resolve_workspace_evidence_links ::
  "'e \<Rightarrow> uuid \<Rightarrow> evidence_link list \<Rightarrow> ws_db \<Rightarrow> 'e + evidence_link list" where
  "resolve_workspace_evidence_links failure w links db =
     (if links = [] then Inr []
      else bindR (guardR (artifact_id ` set links \<subseteq> active_evidence_ids db w) failure) (\<lambda>_. Inr links))"

definition save_system_categorization ::
  "service_env \<Rightarrow> uuid \<Rightarrow> uuid \<Rightarrow> uuid \<Rightarrow> string \<times> string \<times> string \<Rightarrow> string \<times> string \<times> string
     \<Rightarrow> evidence_link list \<times> evidence_link list \<times> evidence_link list \<Rightarrow> string \<Rightarrow> instant
     \<Rightarrow> (ssp_revision \<times> profile_diff) service" where
  "save_system_categorization env new_id w expected impacts rationales links actor now =
     (case (impacts, rationales, links) of ((c, i, a), (rc, ri, ra), (lc, li, la)) \<Rightarrow>
      let gone = CategorizationValidationError ''confidentiality_evidence'' in
      bindS (liftS CategorizationFailed (validate_categorization_impacts c i a)) (\<lambda>_.
      bindS (liftS CategorizationFailed (validate_categorization_rationales rc ri ra)) (\<lambda>texts.
      bindS (readS CategorizationFailed (resolve_workspace_evidence_links gone w lc)) (\<lambda>ec.
      bindS (readS CategorizationFailed (resolve_workspace_evidence_links gone w li)) (\<lambda>ei.
      bindS (readS CategorizationFailed (resolve_workspace_evidence_links gone w la)) (\<lambda>ea.
      bindS (liftS CategorizationFailed (validate_categorization_evidence ec ei ea)) (\<lambda>_.
      bindS (readS id (\<lambda>db. one (get_workspace db w))) (\<lambda>workspace.
      bindS (liftS id (one (high_water_mark_impact c i a))) (\<lambda>overall.
      migrate_workspace_profile env new_id w (ws_profile_version_id workspace) overall expected actor now
        (Some (build_confirmed_categorization_facts c i a texts ec ei ea)) ''ssp_categorization_confirmed'')))))))))"

end
