(* ===== verification/ServiceConfirmations.thy ===== *)
theory ServiceConfirmations
  imports ServiceMigration
begin

text \<open>
  Confirming the structured sections in \<open>ssp_workspace/service.py\<close>: the system definition and the SP 800-60
  information types. The route passes the dump of a validated request, so the fields have their types; an
  empty identifier is replaced by the \<open>n\<close>-th drawn one (\<open>rt_uuid4\<close>).
\<close>

section \<open>Entries\<close>

definition fresh_id :: "service_env \<Rightarrow> nat \<Rightarrow> string \<Rightarrow> string" where
  "fresh_id env n s = (if s = [] then uuid_str (rt_uuid4 (sv_runtime env) n) else s)"

definition links_of_request ::
  "register_error \<Rightarrow> uuid \<Rightarrow> evidence_link list \<Rightarrow> ws_db \<Rightarrow> register_error + evidence_link list" where
  "links_of_request failure w links db =
     bindR (guardR (list_all valid_evidence_link links) RegisterValidationError) (\<lambda>_.
     resolve_workspace_evidence_links failure w links db)"

definition missing_artifact :: register_error where
  "missing_artifact = RegisterValueError ''system definition evidence must reference workspace artifacts''"

definition resolve_component ::
  "service_env \<Rightarrow> uuid \<Rightarrow> ws_db \<Rightarrow> nat \<times> system_component \<Rightarrow> register_error + system_component" where
  "resolve_component env w db entry =
     (case entry of (n, x) \<Rightarrow>
      bindR (links_of_request missing_artifact w (sc_evidence x) db) (\<lambda>ev.
      Inr (x\<lparr>sc_component_id := fresh_id env n (sc_component_id x), sc_evidence := ev\<rparr>)))"

definition resolve_interconnection ::
  "service_env \<Rightarrow> uuid \<Rightarrow> ws_db \<Rightarrow> nat \<times> interconnection \<Rightarrow> register_error + interconnection" where
  "resolve_interconnection env w db entry =
     (case entry of (n, x) \<Rightarrow>
      bindR (links_of_request missing_artifact w (ic_evidence x) db) (\<lambda>ev.
      Inr (x\<lparr>ic_interconnection_id := fresh_id env n (ic_interconnection_id x), ic_evidence := ev\<rparr>)))"

definition resolve_diagram_link :: "uuid \<Rightarrow> ws_db \<Rightarrow> diagram_link \<Rightarrow> register_error + evidence_link list" where
  "resolve_diagram_link w db l =
     links_of_request missing_artifact w [\<lparr>artifact_id = dl_artifact_id l, locator = dl_locator l\<rparr>] db"

definition resolve_mapping ::
  "service_env \<Rightarrow> uuid \<Rightarrow> ws_db \<Rightarrow> nat \<times> information_type_mapping \<Rightarrow> register_error + information_type_mapping" where
  "resolve_mapping env w db entry =
     (case entry of (n, x) \<Rightarrow>
      bindR (links_of_request (RegisterValueError ''information type evidence must reference workspace artifacts'')
        w (im_evidence x) db) (\<lambda>ev.
      Inr (x\<lparr>im_entry_id := fresh_id env n (im_entry_id x), im_evidence := ev\<rparr>)))"

definition numbered :: "nat \<Rightarrow> 'a list \<Rightarrow> (nat \<times> 'a) list" where
  "numbered n xs = zip [n..<n + length xs] xs"

section \<open>Requests\<close>

definition save_system_definition ::
  "service_env \<Rightarrow> uuid \<Rightarrow> uuid \<Rightarrow> uuid \<Rightarrow> string \<Rightarrow> diagram_link list \<Rightarrow> system_component list \<Rightarrow> interconnection list
     \<Rightarrow> string \<Rightarrow> instant \<Rightarrow> ssp_revision service" where
  "save_system_definition env new_id w expected narrative links components interconnections actor now =
     (let boundary = \<lparr>ab_narrative = narrative, ab_diagram_links = links\<rparr> in
      bindS (current_content env w expected) (\<lambda>(r, c).
      bindS (liftS RegisterFailed (validate_authorization_boundary boundary)) (\<lambda>_.
      bindS (readS RegisterFailed (\<lambda>db. mapR (resolve_component env w db) (numbered 0 components))) (\<lambda>comps.
      bindS (liftS RegisterFailed (validate_component_inventory comps)) (\<lambda>_.
      bindS (readS RegisterFailed (\<lambda>db. mapR (resolve_interconnection env w db)
        (numbered (length components) interconnections))) (\<lambda>ics.
      bindS (liftS RegisterFailed (validate_interconnection_register ics)) (\<lambda>_.
      bindS (readS RegisterFailed (\<lambda>db. mapR (resolve_diagram_link w db) links)) (\<lambda>_.
      bindS (liftS RegisterFailed (apply_system_definition_sections c boundary comps ics)) (\<lambda>updated.
      save_edited_revision env new_id w expected updated actor now ''ssp_system_definition_confirmed''
        [(''component_count'', JInt (int (length comps))),
         (''interconnection_count'', JInt (int (length ics)))])))))))))"

definition save_information_types ::
  "service_env \<Rightarrow> uuid \<Rightarrow> uuid \<Rightarrow> uuid \<Rightarrow> information_type_mapping list \<Rightarrow> string \<Rightarrow> instant
     \<Rightarrow> ssp_revision service" where
  "save_information_types env new_id w expected mappings actor now =
     bindS (current_content env w expected) (\<lambda>(r, c).
     bindS (readS RegisterFailed (\<lambda>db. mapR (resolve_mapping env w db) (numbered 0 mappings))) (\<lambda>parsed.
     bindS (liftS RegisterFailed (apply_information_type_register (sv_catalog env) c parsed)) (\<lambda>updated.
     save_edited_revision env new_id w expected updated actor now ''ssp_information_types_confirmed''
       [(''mapping_count'', JInt (int (length parsed)))])))"

end
