(* ===== verification/ServiceRoutes.thy ===== *)
theory ServiceRoutes
  imports ServiceConfirmations
begin

text \<open>
  The routes of \<open>ssp_workspace/api.py\<close> that change a workspace: authorization, the request, the envelope that
  answers it, the exceptions the route turns into a response, and what its session has committed then. Whether
  the principal has the roles of the route is the argument \<open>authorized\<close>.
\<close>

section \<open>Exceptions\<close>

text \<open>The subclasses of \<open>WorkspacePersistenceError\<close>, and the other errors by their Python class.\<close>

fun persistence_class :: "workspace_error \<Rightarrow> bool" where
  "persistence_class PValueError = False"
| "persistence_class PValidationError = False"
| "persistence_class EvidenceRemoval = False"
| "persistence_class DatabaseRejects = False"
| "persistence_class _ = True"

fun is_persistence_error :: "service_error \<Rightarrow> bool" where
  "is_persistence_error (Persistence e) = persistence_class e"
| "is_persistence_error _ = False"

fun is_value_error_class :: "service_error \<Rightarrow> bool" where
  "is_value_error_class (Persistence e) = (\<not> persistence_class e \<and> e \<noteq> DatabaseRejects)"
| "is_value_error_class (EditFailed e) = True"
| "is_value_error_class (ProfileFailed e) = (e \<notin> {ProfileKeyError, ProfileDatabaseRejects})"
| "is_value_error_class (NotReviewable d) = True"
| "is_value_error_class (ProfileValidationFailed d) = True"
| "is_value_error_class PatchNotFound = True"
| "is_value_error_class (PatchState d) = True"
| "is_value_error_class (ServiceValueError d) = True"
| "is_value_error_class (RegisterFailed e) = is_value_error e"
| "is_value_error_class (CategorizationFailed e) = True"
| "is_value_error_class (AuditFailed e) = (case e of AuditValidationError d \<Rightarrow> True | _ \<Rightarrow> False)"
| "is_value_error_class _ = False"

text \<open>The status and the code of \<open>_error_response\<close>.\<close>

fun persistence_response :: "workspace_error \<Rightarrow> nat \<times> string" where
  "persistence_response WorkspaceNotFound = (404, ''resource_not_found'')"
| "persistence_response ProfileVersionNotFound = (404, ''resource_not_found'')"
| "persistence_response IllegalWorkspaceState = (409, ''illegal_state_transition'')"
| "persistence_response EvidenceRemoval = (409, ''illegal_state_transition'')"
| "persistence_response StaleWorkspaceRevision = (409, ''revision_stale'')"
| "persistence_response RevisionIntegrity = (422, ''revision_integrity_failed'')"
| "persistence_response EvidenceReference = (422, ''evidence_reference_invalid'')"
| "persistence_response _ = (422, ''validation_failed'')"

fun error_response :: "service_error \<Rightarrow> nat \<times> string" where
  "error_response AuthorizationDenied = (403, ''authorization_denied'')"
| "error_response (Persistence e) = persistence_response e"
| "error_response (EditFailed WorkspaceQuestionStateError) = (409, ''illegal_state_transition'')"
| "error_response (ProfileFailed ProfileAlreadyImported) = (409, ''profile_already_imported'')"
| "error_response (ProfileFailed ProfileNotFound) = (404, ''resource_not_found'')"
| "error_response (NotReviewable d) = (422, ''workspace_not_reviewable'')"
| "error_response (ProfileValidationFailed d) = (422, ''profile_validation_failed'')"
| "error_response PatchNotFound = (404, ''resource_not_found'')"
| "error_response (PatchState d) = (409, ''illegal_state_transition'')"
| "error_response (GenerationFailed kind d) =
     (if kind = ''context_budget'' then (422, ''model_context_budget_exceeded'') else (502, ''model_generation_failed''))"
| "error_response ModelPolicyDenied = (403, ''model_policy_not_approved'')"
| "error_response (CategorizationFailed e) = (422, ''request_schema_invalid'')"
| "error_response _ = (422, ''validation_failed'')"

section \<open>What the routes catch\<close>

definition caught_always :: "service_error \<Rightarrow> bool" where
  "caught_always e = (e = AuthorizationDenied \<or> is_persistence_error e)"

definition catches_edit :: "service_error \<Rightarrow> bool" where
  "catches_edit e = (caught_always e \<or> is_value_error_class e)"

definition catches_create :: "service_error \<Rightarrow> bool" where
  "catches_create e = (caught_always e \<or> (case e of ProfileFailed (ProfileBundleError d) \<Rightarrow> True | _ \<Rightarrow> False))"

definition catches_generate :: "service_error \<Rightarrow> bool" where
  "catches_generate e = (caught_always e \<or> e = ModelPolicyDenied \<or> (case e of GenerationFailed k d \<Rightarrow> True | _ \<Rightarrow> False))"

definition catches_analyze :: "service_error \<Rightarrow> bool" where
  "catches_analyze e = (catches_generate e \<or>
     (case e of EditFailed (WorkspaceEditError d) \<Rightarrow> True | EditFailed WorkspaceQuestionStateError \<Rightarrow> True | _ \<Rightarrow> False))"

definition catches_patch :: "service_error \<Rightarrow> bool" where
  "catches_patch e = (caught_always e \<or> e = PatchNotFound \<or> (case e of PatchState d \<Rightarrow> True | _ \<Rightarrow> False))"

definition catches_approve :: "service_error \<Rightarrow> bool" where
  "catches_approve e = (caught_always e \<or> (case e of NotReviewable d \<Rightarrow> True | _ \<Rightarrow> False))"

section \<open>Routes\<close>

definition authorize_workspace :: "bool \<Rightarrow> uuid \<Rightarrow> ws_db \<Rightarrow> service_error + unit" where
  "authorize_workspace authorized w db =
     (case get_workspace db w of
        None \<Rightarrow> Inl (Persistence WorkspaceNotFound) | Some _ \<Rightarrow> guardR authorized AuthorizationDenied)"

definition with_envelope :: "service_env \<Rightarrow> ('a \<Rightarrow> uuid) \<Rightarrow> 'a service \<Rightarrow> envelope service" where
  "with_envelope env key m = bindS m (\<lambda>x. readS id (load_workspace_envelope env (key x)))"

text \<open>Authorization, the operation, the envelope: \<open>_edit_route\<close> and the routes written like it.\<close>

definition edit_route :: "service_env \<Rightarrow> bool \<Rightarrow> uuid \<Rightarrow> 'a service \<Rightarrow> envelope service" where
  "edit_route env authorized w m =
     bindS (readS id (authorize_workspace authorized w)) (\<lambda>_. with_envelope env (\<lambda>_. w) m)"

text \<open>The routes that call the model end the transaction of the authorization first.\<close>

definition model_route :: "bool \<Rightarrow> uuid \<Rightarrow> ws_db \<Rightarrow> 'a service \<Rightarrow> 'a service" where
  "model_route authorized w snapshot m = bindS (liftS id (authorize_workspace authorized w snapshot)) (\<lambda>_. m)"

definition post_workspace ::
  "service_env \<Rightarrow> bool \<Rightarrow> uuid \<Rightarrow> uuid \<Rightarrow> uuid \<Rightarrow> uuid \<Rightarrow> string \<Rightarrow> instant \<Rightarrow> envelope service" where
  "post_workspace env authorized new_ws new_rev sys pv actor now =
     bindS (readS id (\<lambda>db. guardR (sys \<in> set (systems db)) (Persistence WorkspaceNotFound))) (\<lambda>_.
     bindS (guardS authorized AuthorizationDenied) (\<lambda>_.
     with_envelope env workspace_id (create_initialized_workspace env new_ws new_rev sys pv None actor now)))"

definition post_generate ::
  "service_env \<Rightarrow> bool \<Rightarrow> bool \<Rightarrow> model_callable \<Rightarrow> ws_db \<Rightarrow> uuid \<Rightarrow> uuid \<Rightarrow> uuid \<Rightarrow> string \<Rightarrow> instant
     \<Rightarrow> envelope service" where
  "post_generate env authorized allowed ask snapshot new_id w rid actor now =
     model_route authorized w snapshot (with_envelope env (\<lambda>_. w)
       (generate_workspace_draft env allowed ask snapshot new_id w rid actor now))"

definition post_categorization_analyze ::
  "service_env \<Rightarrow> bool \<Rightarrow> bool \<Rightarrow> model_callable \<Rightarrow> ws_db \<Rightarrow> uuid \<Rightarrow> uuid \<Rightarrow> uuid \<Rightarrow> string \<Rightarrow> instant
     \<Rightarrow> envelope service" where
  "post_categorization_analyze env authorized allowed ask snapshot new_id w rid actor now =
     model_route authorized w snapshot (with_envelope env (\<lambda>_. w)
       (analyze_workspace_categorization env allowed ask snapshot new_id w rid actor now))"

definition post_agent_patch ::
  "service_env \<Rightarrow> bool \<Rightarrow> bool \<Rightarrow> model_callable \<Rightarrow> ws_db \<Rightarrow> uuid \<Rightarrow> uuid \<Rightarrow> uuid \<Rightarrow> string \<Rightarrow> string \<Rightarrow> instant
     \<Rightarrow> agent_patch service" where
  "post_agent_patch env authorized allowed ask snapshot new_id w rid instruction actor now =
     model_route authorized w snapshot
       (propose_agent_patch env allowed ask snapshot new_id w rid instruction actor now)"

definition patch_section_route ::
  "service_env \<Rightarrow> bool \<Rightarrow> uuid \<Rightarrow> uuid \<Rightarrow> uuid \<Rightarrow> string \<Rightarrow> string \<Rightarrow> string \<Rightarrow> instant \<Rightarrow> envelope service" where
  "patch_section_route env authorized new_id w rid key content actor now =
     edit_route env authorized w (save_section_edit env new_id w rid key content actor now)"

definition patch_control_route ::
  "service_env \<Rightarrow> bool \<Rightarrow> uuid \<Rightarrow> uuid \<Rightarrow> uuid \<Rightarrow> string \<Rightarrow> string \<Rightarrow> string option \<Rightarrow> string option \<Rightarrow> string \<Rightarrow> instant
     \<Rightarrow> envelope service" where
  "patch_control_route env authorized new_id w rid cid statement status resp actor now =
     edit_route env authorized w (save_control_edit env new_id w rid cid statement status resp actor now)"

definition post_question_answer ::
  "service_env \<Rightarrow> bool \<Rightarrow> uuid \<Rightarrow> uuid \<Rightarrow> uuid \<Rightarrow> uuid \<Rightarrow> string \<Rightarrow> string \<Rightarrow> instant \<Rightarrow> envelope service" where
  "post_question_answer env authorized new_id w rid qid reply actor now =
     edit_route env authorized w (save_question_answer env new_id w rid qid reply actor now)"

definition post_apply_patch ::
  "service_env \<Rightarrow> bool \<Rightarrow> uuid \<Rightarrow> uuid \<Rightarrow> uuid \<Rightarrow> uuid \<Rightarrow> string \<Rightarrow> instant \<Rightarrow> envelope service" where
  "post_apply_patch env authorized new_id w pid rid actor now =
     edit_route env authorized w (apply_proposed_patch env new_id w pid rid actor now)"

definition post_reject_patch ::
  "service_env \<Rightarrow> bool \<Rightarrow> uuid \<Rightarrow> uuid \<Rightarrow> string \<Rightarrow> instant \<Rightarrow> envelope service" where
  "post_reject_patch env authorized w pid actor now =
     edit_route env authorized w (reject_proposed_patch w pid actor now)"

definition post_approve ::
  "service_env \<Rightarrow> bool \<Rightarrow> uuid \<Rightarrow> uuid \<Rightarrow> uuid \<Rightarrow> string \<Rightarrow> instant \<Rightarrow> envelope service" where
  "post_approve env authorized new_id w rid actor now =
     edit_route env authorized w (approve_workspace_revision env new_id w rid actor now)"

definition post_restore_revision ::
  "service_env \<Rightarrow> bool \<Rightarrow> uuid \<Rightarrow> uuid \<Rightarrow> uuid \<Rightarrow> uuid \<Rightarrow> string \<Rightarrow> instant \<Rightarrow> envelope service" where
  "post_restore_revision env authorized new_id w old rid actor now =
     edit_route env authorized w (restore_workspace_revision env new_id w old rid actor now)"

definition post_migrate_profile ::
  "service_env \<Rightarrow> bool \<Rightarrow> uuid \<Rightarrow> uuid \<Rightarrow> uuid \<Rightarrow> string \<Rightarrow> uuid \<Rightarrow> string \<Rightarrow> instant \<Rightarrow> envelope service" where
  "post_migrate_profile env authorized new_id w pv level rid actor now =
     edit_route env authorized w
       (migrate_workspace_profile env new_id w pv level rid actor now None ''ssp_profile_migrated'')"

definition post_categorization ::
  "service_env \<Rightarrow> bool \<Rightarrow> uuid \<Rightarrow> uuid \<Rightarrow> uuid \<Rightarrow> string \<times> string \<times> string \<Rightarrow> string \<times> string \<times> string
     \<Rightarrow> evidence_link list \<times> evidence_link list \<times> evidence_link list \<Rightarrow> string \<Rightarrow> instant \<Rightarrow> envelope service" where
  "post_categorization env authorized new_id w rid impacts rationales links actor now =
     edit_route env authorized w (save_system_categorization env new_id w rid impacts rationales links actor now)"

definition post_system_definition ::
  "service_env \<Rightarrow> bool \<Rightarrow> uuid \<Rightarrow> uuid \<Rightarrow> uuid \<Rightarrow> string \<Rightarrow> diagram_link list \<Rightarrow> system_component list
     \<Rightarrow> interconnection list \<Rightarrow> string \<Rightarrow> instant \<Rightarrow> envelope service" where
  "post_system_definition env authorized new_id w rid narrative dls comps ics actor now =
     edit_route env authorized w (save_system_definition env new_id w rid narrative dls comps ics actor now)"

definition post_information_types ::
  "service_env \<Rightarrow> bool \<Rightarrow> uuid \<Rightarrow> uuid \<Rightarrow> uuid \<Rightarrow> information_type_mapping list \<Rightarrow> string \<Rightarrow> instant
     \<Rightarrow> envelope service" where
  "post_information_types env authorized new_id w rid mappings actor now =
     edit_route env authorized w (save_information_types env new_id w rid mappings actor now)"

lemmas edit_route_defs = patch_section_route_def patch_control_route_def post_question_answer_def
  post_apply_patch_def post_reject_patch_def post_approve_def post_restore_revision_def post_migrate_profile_def
  post_categorization_def post_system_definition_def post_information_types_def

text \<open>
  The transactions of the service on the workspace tables: one per route, evidence uploads and removals, and
  the administration of systems and profiles.
\<close>

inductive service_step :: "service_env \<Rightarrow> ws_db \<Rightarrow> ws_db \<Rightarrow> bool" for env where
  post_workspace: "service_step env db
    (committed catches_create (post_workspace env authorized new_ws new_rev sys pv actor now) db)"
| patch_section: "service_step env db (committed catches_edit
    (patch_section_route env authorized i w rid key content actor now) db)"
| patch_control: "service_step env db (committed catches_edit
    (patch_control_route env authorized i w rid cid statement status resp actor now) db)"
| post_answer: "service_step env db (committed catches_edit
    (post_question_answer env authorized i w rid qid reply actor now) db)"
| post_generate: "service_step env db (committed catches_generate
    (post_generate env authorized allowed ask snapshot i w rid actor now) db)"
| post_analyze: "service_step env db (committed catches_analyze
    (post_categorization_analyze env authorized allowed ask snapshot i w rid actor now) db)"
| post_patch: "service_step env db (committed catches_generate
    (post_agent_patch env authorized allowed ask snapshot i w rid instruction actor now) db)"
| apply_patch: "service_step env db (committed catches_patch
    (post_apply_patch env authorized i w pid rid actor now) db)"
| reject_patch: "service_step env db (committed catches_patch
    (post_reject_patch env authorized w pid actor now) db)"
| approve: "service_step env db (committed catches_approve
    (post_approve env authorized i w rid actor now) db)"
| restore: "service_step env db (committed catches_edit
    (post_restore_revision env authorized i w old rid actor now) db)"
| migrate: "service_step env db (committed catches_edit
    (post_migrate_profile env authorized i w pv level rid actor now) db)"
| categorize: "service_step env db (committed catches_edit
    (post_categorization env authorized i w rid impacts rationales links actor now) db)"
| define_system: "service_step env db (committed catches_edit
    (post_system_definition env authorized i w rid narrative dls comps ics actor now) db)"
| map_information: "service_step env db (committed catches_edit
    (post_information_types env authorized i w rid mappings actor now) db)"
| upload_evidence: "ingest_workspace_evidence (sv_sha256 env) (sv_read_back env) i art w rid names stored ext actor now
    db = Inr (db', d) \<Longrightarrow> service_step env db db'"
| remove_evidence: "remove_workspace_evidence (sv_sha256 env) (sv_read_back env) i w art rid actor now db = Inr db' \<Longrightarrow>
    service_step env db db'"
| administer: "service_step env db (db\<lparr>systems := ss, profile_versions := ps\<rparr>)"

end
