(* ===== verification/ServiceSystem.thy ===== *)
theory ServiceSystem
  imports ServiceRoutes WorkspaceProperties
begin

text \<open>
  The service implements the workspace tables: whatever a route commits, failed requests included, is a
  sequence of steps of the tables, so what holds of these (\<open>WorkspaceProperties\<close>) holds of the service.
  A relation between states that the table operations and the audit respect is respected by every request;
  the locale states it once, and \<open>tables\<close> is its instance on the steps of the tables.
\<close>

section \<open>Relations the operations respect\<close>

locale service_relation = state_relation R for R :: "ws_db \<Rightarrow> ws_db \<Rightarrow> bool" +
  fixes env :: service_env
  assumes pin: "R db (set_workspace w (\<lambda>x. x\<lparr>ws_profile_version_id := p\<rparr>) db)"
    and audit: "R db (audit_workspace actor act w meta now db)"
    and save: "save_revision (sv_sha256 env) i w c who now expected db = Inr (db', saved) \<Longrightarrow> R db db'"
    and create: "create_workspace i s p who now db = Inr (db', workspace) \<Longrightarrow> R db db'"
    and approve: "approve_current_revision (sv_sha256 env) (sv_read_back env) i w rid who now db = Inr (db', approval) \<Longrightarrow>
      R db db'"
begin

lemma moves_pin: "moves R (pin_profile w pv)"
  unfolding pin_profile_def by (rule moves_modify) (rule pin)

lemma moves_audit: "moves R (audit_service actor act w meta now)"
  unfolding audit_service_def by (intro moves_rules moves_modify audit)

lemma moves_save: "moves R (callS wrap (save_revision (sv_sha256 env) i w c who now expected))"
  by (rule moves_call) (rule save)

lemma moves_create: "moves R (callS wrap (create_workspace i s p who now))"
  by (rule moves_call) (rule create)

lemma moves_approve:
  "moves R (callS wrap (approve_current_revision (sv_sha256 env) (sv_read_back env) i w rid who now))"
  by (rule moves_call) (rule approve)

lemma moves_save_edited: "moves R (save_edited_revision env i w rid c actor now act meta)"
  unfolding save_edited_revision_def by (intro moves_rules moves_save moves_audit)

lemma moves_current_content: "moves R (current_content env w rid)"
  unfolding current_content_def by (intro moves_rules)

lemma moves_policy: "moves R (policy_for_revision env r c)"
  unfolding policy_for_revision_def resolved_profile_of_def by (intro moves_rules)

lemmas request_rules = moves_pin moves_audit moves_create moves_save moves_approve moves_save_edited
  moves_current_content moves_policy moves_rules

lemma edits_move:
  "moves R (save_section_edit env i w rid key content actor now)"
  "moves R (save_control_edit env i w rid cid statement status resp actor now)"
  "moves R (save_question_answer env i w rid qid reply actor now)"
  unfolding save_section_edit_def save_control_edit_def save_question_answer_def by (intro request_rules)+

lemma migrate_moves: "moves R (migrate_workspace_profile env i w pv level rid actor now categorization act)"
  unfolding migrate_workspace_profile_def by (intro request_rules)

lemma pinning_moves:
  "moves R (create_initialized_workspace env i j sys pv requested actor now)"
  "moves R (restore_workspace_revision env i w old rid actor now)"
  "moves R (save_system_categorization env i w rid impacts rationales links actor now)"
  unfolding create_initialized_workspace_def restore_workspace_revision_def save_system_categorization_def Let_def
  by (intro request_rules migrate_moves)+

lemma confirmations_move:
  "moves R (save_system_definition env i w rid narrative dls comps ics actor now)"
  "moves R (save_information_types env i w rid mappings actor now)"
  unfolding save_system_definition_def save_information_types_def Let_def by (intro request_rules)+

lemma generations_move:
  "moves R (generate_workspace_draft env allowed ask snapshot i w rid actor now)"
  "moves R (analyze_workspace_categorization env allowed ask snapshot i w rid actor now)"
  unfolding generate_workspace_draft_def analyze_workspace_categorization_def save_generated_def
  by (intro request_rules)+

lemma approval_moves: "moves R (approve_workspace_revision env i w rid actor now)"
  unfolding approve_workspace_revision_def Let_def by (intro request_rules)

lemma with_envelope_moves: "moves R m \<Longrightarrow> moves R (with_envelope env key m)"
  unfolding with_envelope_def by (intro moves_rules)

lemma edit_route_moves: "moves R m \<Longrightarrow> moves R (edit_route env authorized w m)"
  unfolding edit_route_def by (intro moves_rules with_envelope_moves)

lemma model_route_moves: "moves R m \<Longrightarrow> moves R (model_route authorized w snapshot m)"
  unfolding model_route_def by (intro moves_rules)

lemma posts_move:
  "moves R (post_workspace env authorized i j sys pv actor now)"
  "moves R (post_generate env authorized allowed ask snapshot i w rid actor now)"
  "moves R (post_categorization_analyze env authorized allowed ask snapshot i w rid actor now)"
  unfolding post_workspace_def post_generate_def post_categorization_analyze_def
  by (intro moves_rules model_route_moves with_envelope_moves pinning_moves generations_move)+

lemmas route_rules = edit_route_moves posts_move edits_move migrate_moves pinning_moves confirmations_move
  approval_moves

text \<open>Every transaction of the service, given those that write patches or evidence.\<close>

lemma service_step_respects:
  assumes "service_step env db db'"
    and "\<And>authorized allowed ask snapshot i w rid instruction actor now.
      moves R (post_agent_patch env authorized allowed ask snapshot i w rid instruction actor now)"
    and "\<And>i w pid rid actor now. moves R (apply_proposed_patch env i w pid rid actor now)"
    and "\<And>w pid actor now. moves R (reject_proposed_patch w pid actor now)"
    and "\<And>i art w rid names stored ext actor now db db' d. ingest_workspace_evidence (sv_sha256 env) (sv_read_back env)
      i art w rid names stored ext actor now db = Inr (db', d) \<Longrightarrow> R db db'"
    and "\<And>i w art rid actor now db db'. remove_workspace_evidence (sv_sha256 env) (sv_read_back env)
      i w art rid actor now db = Inr db' \<Longrightarrow> R db db'"
    and "\<And>db ss ps. R db (db\<lparr>systems := ss, profile_versions := ps\<rparr>)"
  shows "R db db'"
  using assms(1)
proof (induction rule: service_step.induct)
  case (upload_evidence i art w rid names stored ext actor now db db' d)
  then show ?case by (rule assms(5))
next
  case (remove_evidence i w art rid actor now db db')
  then show ?case by (rule assms(6))
next
  case (administer db ss ps)
  show ?case by (rule assms(7))
qed (rule committed_moves; (unfold edit_route_defs)?; intro route_rules assms(2-4))+

end

section \<open>The steps of the tables\<close>

abbreviation tables_step :: "service_env \<Rightarrow> ws_db \<Rightarrow> ws_db \<Rightarrow> bool" where
  "tables_step env \<equiv> ws_step (sv_sha256 env) (sv_read_back env)"

lemma other_step:
  assumes "db' = db\<lparr>systems := systems db', profile_versions := profile_versions db',
    agent_patches := agent_patches db', audited := audited db'\<rparr>"
  shows "steps_to (tables_step env) db db'"
  by (subst assms) (rule steps_one, rule step_other)

interpretation tables: service_relation "steps_to (tables_step env)" env for env
proof unfold_locales
  show "steps_to (tables_step env) db (set_workspace w (\<lambda>x. x\<lparr>ws_profile_version_id := p\<rparr>) db)" for db w p
    by (rule steps_one) (rule step_profile)
  show "steps_to (tables_step env) db (audit_workspace actor act w meta now db)" for actor act w meta now db
    by (rule other_step) (simp add: audit_workspace_def)
qed (blast intro: steps_one step_save step_create step_approve)+

lemma set_patch_steps: "moves (steps_to (tables_step env)) (callS wrap (set_patch pid f))"
  by (rule steps.moves_call, rule other_step) (auto simp: set_patch_def split: if_splits)

lemma add_patch_steps: "moves (steps_to (tables_step env)) (callS wrap (add_patch p))"
  by (rule steps.moves_call, rule other_step) (auto simp: add_patch_def split: if_splits)

lemma patch_requests_step:
  "moves (steps_to (tables_step env)) (post_agent_patch env authorized allowed ask snapshot i w rid instruction actor now)"
  "moves (steps_to (tables_step env)) (apply_proposed_patch env i w pid rid actor now)"
  "moves (steps_to (tables_step env)) (reject_proposed_patch w pid actor now)"
  unfolding post_agent_patch_def propose_agent_patch_def apply_proposed_patch_def reject_proposed_patch_def Let_def
  by (intro set_patch_steps add_patch_steps tables.model_route_moves tables.request_rules)+

lemma service_step_tables: "service_step env db db' \<Longrightarrow> steps_to (tables_step env) db db'"
proof (erule tables.service_step_respects)
  show "steps_to (tables_step env) db (db\<lparr>systems := ss, profile_versions := ps\<rparr>)" for db ss ps
    by (rule other_step) simp
qed (blast intro: patch_requests_step steps_one step_ingest step_remove)+

section \<open>Reachable states\<close>

definition service_start :: "ws_db \<Rightarrow> bool" where
  "service_start db = (ws_start db \<and> agent_patches db = [])"

abbreviation service_reachable :: "service_env \<Rightarrow> ws_db \<Rightarrow> bool" where
  "service_reachable env \<equiv> reachable_from service_start (service_step env)"

lemma service_reachable_tables: "service_reachable env db \<Longrightarrow> ws_reachable (sv_sha256 env) (sv_read_back env) db"
proof (induction rule: reachable_from.induct)
  case (reach_start s)
  then show ?case by (intro reachable_from.reach_start) (simp add: service_start_def)
next
  case (reach_step s t)
  then show ?case by (blast intro: reachable_steps service_step_tables)
qed

lemma service_inv: "service_reachable env db \<Longrightarrow> ws_inv (sv_sha256 env) db"
  by (rule workspace_tables.reachable_inv [OF service_reachable_tables])


end
