(* ===== verification/PatchLifecycle.thy ===== *)
theory PatchLifecycle
  imports ServiceSystem
begin

text \<open>
  The life of a proposed patch: it is resolved at most once, and an applied patch produced the revision that
  directly follows the one it was proposed for. The relation \<open>patch_evolves\<close> is one instance of
  \<open>service_relation\<close>; the requests that write patches respect it where they write.
\<close>

section \<open>The invariant and the relation\<close>

definition rev_line :: "ssp_revision \<Rightarrow> uuid \<times> uuid \<times> uuid option" where
  "rev_line r = (revision_id r, rev_workspace_id r, parent_revision_id r)"

definition rev_lines :: "ws_db \<Rightarrow> (uuid \<times> uuid \<times> uuid option) list" where
  "rev_lines db = map rev_line (revisions db)"

definition patch_ok :: "ws_db \<Rightarrow> agent_patch \<Rightarrow> bool" where
  "patch_ok db p =
     (patch_row_ok p \<and>
      (case applied_revision_id p of
         None \<Rightarrow> patch_status p \<noteq> PATCH_APPLIED
       | Some i \<Rightarrow> patch_status p = PATCH_APPLIED \<and>
           (i, patch_workspace_id p, Some (base_revision_id p)) \<in> set (rev_lines db)))"

definition patches_ok :: "ws_db \<Rightarrow> bool" where
  "patches_ok db = (distinct (map patch_id (agent_patches db)) \<and> (\<forall>p \<in> set (agent_patches db). patch_ok db p))"

definition patch_moves :: "agent_patch \<Rightarrow> agent_patch \<Rightarrow> bool" where
  "patch_moves p p' = (p' = p \<or> (patch_status p = PATCH_PROPOSED \<and> patch_status p' \<noteq> PATCH_PROPOSED \<and>
     (\<exists>applied actor now. p' = resolve_patch (patch_status p') applied actor now p)))"

definition patches_kept :: "ws_db \<Rightarrow> ws_db \<Rightarrow> bool" where
  "patches_kept db db' = (\<forall>p \<in> set (agent_patches db). \<exists>p' \<in> set (agent_patches db'). patch_moves p p')"

definition patch_evolves :: "ws_db \<Rightarrow> ws_db \<Rightarrow> bool" where
  "patch_evolves db db' =
     (set (rev_lines db) \<subseteq> set (rev_lines db') \<and> (patches_ok db \<longrightarrow> patches_ok db' \<and> patches_kept db db'))"

lemma patch_moves_refl [simp]: "patch_moves p p"
  by (simp add: patch_moves_def)

lemma patch_moves_trans: "patch_moves p q \<Longrightarrow> patch_moves q r \<Longrightarrow> patch_moves p r"
  by (auto simp: patch_moves_def)

lemma patch_moves_fields:
  assumes "patch_moves p q"
  shows "patch_id q = patch_id p \<and> patch_operations q = patch_operations p \<and> patch_summary q = patch_summary p \<and>
    base_revision_id q = base_revision_id p \<and> (patch_status p \<noteq> PATCH_PROPOSED \<longrightarrow> q = p)"
proof (cases "q = p")
  case False
  then obtain st applied actor now where "q = resolve_patch st applied actor now p" "patch_status p = PATCH_PROPOSED"
    using assms by (auto simp: patch_moves_def)
  then show ?thesis by (simp add: resolve_patch_def)
qed simp

lemma patches_kept_trans: "patches_kept a b \<Longrightarrow> patches_kept b c \<Longrightarrow> patches_kept a c"
  unfolding patches_kept_def by (meson patch_moves_trans)

lemma patch_ok_mono: "patch_ok db p \<Longrightarrow> set (rev_lines db) \<subseteq> set (rev_lines db') \<Longrightarrow> patch_ok db' p"
  by (auto simp: patch_ok_def split: option.splits)

lemma evolves_untouched:
  assumes "agent_patches db' = agent_patches db" and "set (rev_lines db) \<subseteq> set (rev_lines db')"
  shows "patch_evolves db db'"
proof -
  have "patches_kept db db'" unfolding patches_kept_def using assms(1) patch_moves_refl by metis
  moreover have "patches_ok db' = patches_ok db \<or> patches_ok db'" if "patches_ok db"
    using that assms(1) patch_ok_mono [OF _ assms(2)] by (auto simp: patches_ok_def)
  ultimately show ?thesis using assms(2) by (auto simp: patch_evolves_def)
qed

lemma evolves_trans: "patch_evolves a b \<Longrightarrow> patch_evolves b c \<Longrightarrow> patch_evolves a c"
  unfolding patch_evolves_def by (blast intro: patches_kept_trans)

section \<open>The operations of the tables\<close>

lemma lines_status: "rev_lines (set_revision_status i st db) = rev_lines db"
  by (simp add: rev_lines_def set_revision_status_def update_where_def comp_def rev_line_def)

lemma lines_supersede: "rev_lines (supersede c db) = rev_lines db"
  by (simp add: supersede_def lines_status split: option.split)

lemma save_lines:
  assumes "save_revision sha256 i w c who now expected db = Inr (db', r)"
  shows "rev_lines db' = rev_lines db @ [(i, w, expected)]" and "agent_patches db' = agent_patches db"
    and "r \<in> set (revisions db')" and "revision_id r = i"
proof -
  obtain cur where "db' = saved_db r cur db" and r: "r = new_revision sha256 i w c (py_strip who) now expected db"
    by (rule save_Inr [OF assms]) blast
  then show "rev_lines db' = rev_lines db @ [(i, w, expected)]" "agent_patches db' = agent_patches db"
      "r \<in> set (revisions db')" "revision_id r = i"
    using lines_supersede [of cur db] by (simp_all add: rev_lines_def rev_line_def)
qed

lemma save_evolves: "save_revision sha256 i w c who now expected db = Inr (db', r) \<Longrightarrow> patch_evolves db db'"
  by (rule evolves_untouched) (auto simp: save_lines(1,2))

lemma save_with_facts_evolves:
  "save_with_facts sha256 rb i w r fs who now expected db = Inr db' \<Longrightarrow> patch_evolves db db'"
  by (auto simp: save_with_facts_def result_simps split: if_splits intro: save_evolves evolves_untouched)

lemma same_evolves: "agent_patches db' = agent_patches db \<Longrightarrow> revisions db' = revisions db \<Longrightarrow> patch_evolves db db'"
  by (rule evolves_untouched) (simp_all add: rev_lines_def)

interpretation lifecycle: service_relation patch_evolves env for env
proof unfold_locales
  show "patch_evolves db db" for db by (rule same_evolves) simp_all
  show "patch_evolves a c" if "patch_evolves a b" "patch_evolves b c" for a b c using that by (rule evolves_trans)
  show "patch_evolves db (set_workspace w (\<lambda>x. x\<lparr>ws_profile_version_id := p\<rparr>) db)" for db w p
    by (rule same_evolves) (simp_all add: set_workspace_def)
  show "patch_evolves db (audit_workspace actor act w meta now db)" for actor act w meta now db
    by (rule same_evolves) (simp_all add: audit_workspace_def)
  show "patch_evolves db db'" if "create_workspace i s p who now db = Inr (db', workspace)" for i s p who now db db' workspace
    using that by (intro same_evolves)
      (auto simp: create_workspace_def add_workspace_def result_simps Let_def split: option.splits if_splits)
  show "patch_evolves db db'"
    if "approve_current_revision (sv_sha256 env) (sv_read_back env) i w rid who now db = Inr (db', approval)"
    for i w rid who now db db' approval
    using that
  proof (rule approve_Inr)
    assume db': "db' = set_revision_status rid REV_APPROVED db\<lparr>approvals := approvals db @ [approval]\<rparr>"
    show ?thesis
      by (rule evolves_untouched)
        (simp add: db' set_revision_status_def,
         use lines_status [of rid REV_APPROVED db] in \<open>simp add: db' rev_lines_def\<close>)
  qed
qed (rule save_evolves)

section \<open>Evidence\<close>

lemma set_evidence_evolves: "patch_evolves db (set_evidence a f db)"
  by (rule same_evolves) (simp_all add: set_evidence_def)

lemma audit_evolves: "patch_evolves db (audit_workspace actor act w meta now db)"
  by (rule lifecycle.audit)

lemma ingest_evolves:
  assumes "ingest_workspace_evidence sha256 rb i art w expected names stored ext who now db = Inr (db', d)"
  shows "patch_evolves db db'"
proof (rule ingest_cases [OF assms])
  assume "db' = db"
  then show ?thesis by (simp add: same_evolves)
next
  fix r d assume "restore_evidence sha256 rb i w r d who now expected db = Inr db'"
  then show ?thesis
    by (auto simp: restore_evidence_def result_simps Let_def
        intro: evolves_trans [OF evolves_trans [OF set_evidence_evolves save_with_facts_evolves] audit_evolves])
next
  fix r d fs assume "store_evidence sha256 rb i w r d fs who now expected db = Inr db'"
  then obtain db1 db2 where add: "add_evidence d db = Inr db1"
      and save: "save_with_facts sha256 rb i w r fs who now expected db1 = Inr db2"
      and audit: "patch_evolves db2 db'"
    by (auto simp: store_evidence_def result_simps Let_def intro: audit_evolves)
  have "patch_evolves db db1" using add by (intro same_evolves) (auto simp: add_evidence_def split: if_splits)
  then show ?thesis by (blast intro: evolves_trans save_with_facts_evolves [OF save] audit)
qed

lemma remove_evolves:
  assumes "remove_workspace_evidence sha256 rb i w art expected who now db = Inr db'"
  shows "patch_evolves db db'"
  by (rule remove_Inr [OF assms])
    (auto intro: evolves_trans [OF evolves_trans [OF save_evolves set_evidence_evolves] audit_evolves])

section \<open>The requests that write patches\<close>

lemma add_patch_evolves:
  assumes "add_patch p db = Inr (db', u)" and "patch_status p = PATCH_PROPOSED"
  shows "patch_evolves db db'"
proof -
  have db': "db' = db\<lparr>agent_patches := agent_patches db @ [p]\<rparr>" and ok: "patch_row_ok p"
      and fresh: "patch_id p \<notin> patch_id ` set (agent_patches db)"
    using assms(1) by (auto simp: add_patch_def split: if_splits)
  have lines: "rev_lines db' = rev_lines db" by (simp add: db' rev_lines_def)
  have "applied_revision_id p = None" using ok assms(2) by (simp add: patch_row_ok_def)
  then have "patch_ok db' p" using ok assms(2) by (simp add: patch_ok_def)
  moreover have "patches_kept db db'"
    unfolding patches_kept_def
  proof
    fix q assume "q \<in> set (agent_patches db)"
    then show "\<exists>q' \<in> set (agent_patches db'). patch_moves q q'" by (intro bexI [of _ q]) (simp_all add: db')
  qed
  ultimately show ?thesis
    using fresh patch_ok_mono [of db _ db'] lines
    by (auto simp: patch_evolves_def patches_ok_def db')
qed

text \<open>A patch found proposed in some state can be resolved there, when the applied revision is the right one.\<close>

definition resolvable :: "ws_db \<Rightarrow> uuid \<Rightarrow> patch_state \<Rightarrow> uuid option \<Rightarrow> agent_patch \<Rightarrow> bool" where
  "resolvable db pid st applied p =
     (p \<in> set (agent_patches db) \<and> patch_id p = pid \<and> patch_status p = PATCH_PROPOSED \<and> st \<noteq> PATCH_PROPOSED \<and>
      (case applied of None \<Rightarrow> st \<noteq> PATCH_APPLIED
       | Some i \<Rightarrow> st = PATCH_APPLIED \<and> (i, patch_workspace_id p, Some (base_revision_id p)) \<in> set (rev_lines db)))"

lemma set_patch_evolves:
  assumes "set_patch pid (resolve_patch st applied actor now) db = Inr (db', u)" and can: "patches_ok db \<Longrightarrow> resolvable db pid st applied p"
  shows "patch_evolves db db'"
proof -
  let ?f = "resolve_patch st applied actor now"
  have db': "db' = db\<lparr>agent_patches := update_where (\<lambda>p. patch_id p = pid) ?f (agent_patches db)\<rparr>"
      and oks: "list_all (\<lambda>p. patch_id p = pid \<longrightarrow> patch_row_ok (?f p)) (agent_patches db)"
    using assms(1) by (simp_all add: set_patch_def split: if_splits)
  have lines: "rev_lines db' = rev_lines db" by (simp add: db' rev_lines_def)
  have "patches_ok db' \<and> patches_kept db db'" if inv: "patches_ok db"
  proof -
    note p = can [OF inv]
    have ok: "patch_row_ok (?f p)" using oks p by (simp add: resolvable_def list_all_iff)
    have only: "q = p" if "q \<in> set (agent_patches db)" "patch_id q = pid" for q
      using inv p that distinct_key_unique [of patch_id "agent_patches db" q p]
      by (simp add: patches_ok_def resolvable_def)
    have kept: "patches_kept db db'"
      unfolding patches_kept_def
    proof
      fix q assume q: "q \<in> set (agent_patches db)"
      show "\<exists>q' \<in> set (agent_patches db'). patch_moves q q'"
      proof (cases "patch_id q = pid")
        case True
        then have "q = p" by (rule only [OF q])
        moreover have "patch_moves p (?f p)"
          using p by (auto simp: patch_moves_def resolvable_def resolve_patch_def)
        ultimately show ?thesis
          using in_update_where(2) [OF q, of "\<lambda>p. patch_id p = pid" ?f] True by (auto simp: db')
      next
        case False
        then show ?thesis
          using in_update_where(1) [OF q, of "\<lambda>p. patch_id p = pid" ?f]
          by (intro bexI [of _ q]) (simp_all add: db')
      qed
    qed
    have "patch_ok db' (?f p)"
      using ok p lines by (auto simp: patch_ok_def resolvable_def resolve_patch_def split: option.splits)
    moreover have "map patch_id (agent_patches db') = map patch_id (agent_patches db)"
      by (simp add: db' map_key_update_where resolve_patch_def)
    ultimately have "patches_ok db'"
      using inv only patch_ok_mono [of db _ db'] lines
      unfolding patches_ok_def by (auto simp: db' set_update_where)
    with kept show ?thesis by simp
  qed
  then show ?thesis using lines by (simp add: patch_evolves_def)
qed


section \<open>The requests\<close>

lemma propose_moves: "moves patch_evolves (propose_agent_patch env allowed ask snapshot i w rid instruction actor now)"
  unfolding propose_agent_patch_def Let_def
  by (intro lifecycle.moves_rules lifecycle.moves_call lifecycle.moves_audit) (auto intro: add_patch_evolves)

lemma loaded_patch:
  assumes "load_patch_for_update w pid db = Inr p" and "require_proposed p = Inr u"
  shows "p \<in> set (agent_patches db) \<and> patch_id p = pid \<and> patch_workspace_id p = w \<and> patch_status p = PATCH_PROPOSED"
  using assms by (auto simp: load_patch_for_update_def require_proposed_def result_simps find_Some_iff
      split: option.splits if_splits)

lemma patches_okD: "patches_ok db \<Longrightarrow> p \<in> set (agent_patches db) \<Longrightarrow> patch_ok db p"
  by (simp add: patches_ok_def)

lemma proposed_unapplied: "patch_ok db p \<Longrightarrow> patch_status p = PATCH_PROPOSED \<Longrightarrow> applied_revision_id p = None"
  by (simp add: patch_ok_def patch_row_ok_def)

lemma resolves_moves_at:
  assumes "patches_ok db \<Longrightarrow> resolvable db pid st applied p" and "\<And>x. moves patch_evolves (f x)"
  shows "moves_at patch_evolves (bindS (callS wrap (set_patch pid (resolve_patch st applied actor now))) f) db"
proof (rule lifecycle.moves_at_call_bind, rule conjI)
  show "patch_evolves db t" if "set_patch pid (resolve_patch st applied actor now) db = Inr (t, x)" for t x
    using that assms(1) by (rule set_patch_evolves)
  show "moves_at patch_evolves (f x) t" for t x by (rule moves_at_of) (rule assms(2))
qed

text \<open>A resolution that applies no revision.\<close>

lemma settles_moves_at:
  assumes "load_patch_for_update w pid db = Inr p" and "require_proposed p = Inr u" and "st \<in> {PATCH_REJECTED, PATCH_STALE}"
    and "\<And>x. moves patch_evolves (f x)"
  shows "moves_at patch_evolves
    (bindS (callS wrap (set_patch pid (resolve_patch st (applied_revision_id p) actor now))) f) db"
proof (rule resolves_moves_at)
  assume "patches_ok db"
  then show "resolvable db pid st (applied_revision_id p) p"
    using loaded_patch [OF assms(1,2)] assms(3) proposed_unapplied [OF patches_okD] by (auto simp: resolvable_def)
qed (rule assms(4))

lemma reject_moves: "moves patch_evolves (reject_proposed_patch w pid actor now)"
  unfolding moves_iff reject_proposed_patch_def
  by (intro allI lifecycle.moves_at_read_bind lifecycle.moves_at_lift_bind settles_moves_at lifecycle.moves_rules
    lifecycle.moves_audit; (assumption | simp)?)

text \<open>After the save the patch is still there, and the new revision follows the one the patch was made for.\<close>

lemma reads_policy: "reads (policy_for_revision env r c)"
  unfolding policy_for_revision_def resolved_profile_of_def by (intro equal_states.moves_rules)

lemma saved_edited:
  assumes "save_edited_revision env i w rid c actor now act meta db = (Inr saved, t)"
  shows "agent_patches t = agent_patches db \<and> (i, w, Some rid) \<in> set (rev_lines t) \<and> revision_id saved = i"
proof -
  obtain t0 where save: "save_revision (sv_sha256 env) i w c actor now (Some rid) db = Inr (t0, saved)"
      and t: "agent_patches t = agent_patches t0" "revisions t = revisions t0"
    using assms by (auto simp: save_edited_revision_def audit_service_def audit_workspace_def handler_simps)
  show ?thesis using save_lines [OF save] t by (simp add: rev_lines_def)
qed

lemma apply_moves: "moves patch_evolves (apply_proposed_patch env i w pid rid actor now)"
  unfolding moves_iff apply_proposed_patch_def
proof (intro allI lifecycle.moves_at_read_bind lifecycle.moves_at_lift_bind)
  fix db p u assume p: "load_patch_for_update w pid db = Inr p" "require_proposed p = Inr u"
  let ?apply = "\<lambda>saved. bindS (callS Persistence (set_patch pid
    (resolve_patch PATCH_APPLIED (Some (revision_id saved)) actor now))) (\<lambda>_. returnS pid)"
  have last: "moves_at patch_evolves
      (bindS (save_edited_revision env i w rid c actor now act meta) ?apply) t"
    if "t = db" "base_revision_id p = rid" for t c act meta
  proof (rule lifecycle.moves_at_bind [OF moves_at_of [OF lifecycle.moves_save_edited]], rule resolves_moves_at)
    fix saved u
    assume "save_edited_revision env i w rid c actor now act meta t = (Inr saved, u)"
    note new = saved_edited [OF this]
    show "resolvable u pid PATCH_APPLIED (Some (revision_id saved)) p"
      using loaded_patch [OF p] new that by (simp add: resolvable_def)
  qed (intro lifecycle.moves_rules)
  show "moves_at patch_evolves
    (if base_revision_id p \<noteq> rid then
       bindS (callS Persistence (set_patch pid (resolve_patch PATCH_STALE (applied_revision_id p) actor now))) (\<lambda>_.
       raiseS (Persistence StaleWorkspaceRevision))
     else
       bindS (readS Persistence (load_exact_current_revision w rid)) (\<lambda>r.
       bindS (liftS id (deserialize_patch_result (patch_operations p))) (\<lambda>result.
       bindS (liftS Persistence (stored_content env r)) (\<lambda>c.
       bindS (policy_for_revision env r c) (\<lambda>pol.
       bindS (liftS policy_failure
         (validate_applied_patch_result (sv_runtime env) (sv_catalog env) result pol (evidenced_facts c))) (\<lambda>_.
       bindS (liftS EditFailed (apply_agent_patch (sv_py env) c result (rev_version r))) (\<lambda>updated.
       bindS (save_edited_revision env i w rid updated actor now ''ssp_agent_patch_applied''
         [(''patch_id'', JStr (uuid_str pid))]) ?apply))))))) db"
  proof (cases "base_revision_id p = rid")
    case False
    then show ?thesis
      by simp (rule settles_moves_at [OF p]; simp add: lifecycle.moves_raise)
  next
    case True
    have policy: "moves_at patch_evolves (policy_for_revision env r c) db" for r c
      by (rule moves_at_of) (rule lifecycle.moves_policy)
    show ?thesis
      using True
      by (simp, intro lifecycle.moves_at_read_bind lifecycle.moves_at_lift_bind lifecycle.moves_at_bind [OF policy])
        (rule last, auto dest: reads_run [OF reads_policy])
  qed
qed


lemma service_step_evolves: "service_step env db db' \<Longrightarrow> patch_evolves db db'"
proof (erule lifecycle.service_step_respects)
  show "moves patch_evolves (post_agent_patch env authorized allowed ask snapshot i w rid instruction actor now)"
    for authorized allowed ask snapshot i w rid instruction actor now
    unfolding post_agent_patch_def by (intro lifecycle.model_route_moves propose_moves)
  show "patch_evolves db (db\<lparr>systems := ss, profile_versions := ps\<rparr>)" for db ss ps
    by (rule same_evolves) simp_all
qed (blast intro: apply_moves reject_moves ingest_evolves remove_evolves)+

lemma reachable_patches: "service_reachable env db \<Longrightarrow> patches_ok db"
proof (induction rule: reachable_from.induct)
  case (reach_start s)
  then show ?case by (simp add: service_start_def patches_ok_def)
next
  case (reach_step s t)
  then show ?case using service_step_evolves by (auto simp: patch_evolves_def)
qed

section \<open>The life of a patch\<close>

text \<open>The states of a patch over a run, in short.\<close>

lemma rev_line_in: "(i, w, e) \<in> set (rev_lines db) \<longleftrightarrow>
    (\<exists>r \<in> set (revisions db). revision_id r = i \<and> rev_workspace_id r = w \<and> parent_revision_id r = e)"
  by (auto simp: rev_lines_def rev_line_def)

lemma service_run_evolves: "steps_to (service_step env) db db' \<Longrightarrow> patch_evolves db db'"
proof (induction rule: steps_to.induct)
  case (steps_refl s)
  show ?case by (rule lifecycle.refl)
next
  case (steps_more s t u)
  then show ?case by (blast intro: lifecycle.trans service_step_evolves)
qed

text \<open>C14: The life of an agent patch in the running service. Of a reachable state, every patch is proposed,
  applied, rejected or stale; it is applied exactly if it names a revision, and that revision is stored, belongs
  to the patch's workspace and has the revision the patch was proposed for as its parent. Over any further
  transactions the patch is still there with its operations, its summary and its base revision, and once it is
  not proposed any more it never changes again: it is resolved at most once.\<close>

theorem patch_is_resolved_once:
  assumes "service_reachable env db" and "p \<in> set (agent_patches db)" and "steps_to (service_step env) db db'"
  shows "(patch_status p = PATCH_APPLIED) = (applied_revision_id p \<noteq> None) \<and>
    (\<forall>i. applied_revision_id p = Some i \<longrightarrow> (\<exists>r \<in> set (revisions db). revision_id r = i \<and>
       rev_workspace_id r = patch_workspace_id p \<and> parent_revision_id r = Some (base_revision_id p))) \<and>
    (\<exists>p' \<in> set (agent_patches db'). patch_id p' = patch_id p \<and> patch_operations p' = patch_operations p \<and>
       patch_summary p' = patch_summary p \<and> base_revision_id p' = base_revision_id p \<and>
       (patch_status p \<noteq> PATCH_PROPOSED \<longrightarrow> p' = p)) \<and>
    distinct (map patch_id (agent_patches db'))"
proof -
  have inv: "patches_ok db" by (rule reachable_patches [OF assms(1)])
  have "patches_ok db'" "patches_kept db db'"
    using service_run_evolves [OF assms(3)] inv by (simp_all add: patch_evolves_def)
  then obtain p' where "p' \<in> set (agent_patches db')" "patch_moves p p'" "distinct (map patch_id (agent_patches db'))"
    using assms(2) by (auto simp: patches_kept_def patches_ok_def)
  then show ?thesis
    using patches_okD [OF inv assms(2)] patch_moves_fields [of p p']
    by (auto simp: patch_ok_def rev_line_in split: option.splits)
qed

end
