(* ===== verification/ServiceExample.thy ===== *)
theory ServiceExample
  imports PatchLifecycle WorkspaceExample
begin

text \<open>
  One run of the service: a workspace is created through its route, a patch is proposed by a model that
  suggests nothing, and the patch is rejected. The witnesses of the service properties live on these states.
\<close>

section \<open>The environment and the workspace\<close>

definition ex_reply :: members where
  "ex_reply = [(''schema_version'', JStr ''1.0.0''), (''patches'', JArr []), (''questions_to_add'', JArr []),
     (''question_ids_to_resolve'', JArr []), (''change_summary'', JStr ''None'')]"

definition ex_env :: service_env where
  "ex_env = \<lparr>sv_sha256 = ex_hash, sv_read_back = ex_rb,
     sv_py = \<lparr>env_repr = (\<lambda>_. []), env_uuid5 = (\<lambda>_. 0), env_sha256 = id, env_casefold = id\<rparr>,
     sv_runtime = \<lparr>rt_loads = (\<lambda>_. Some (JObj ex_reply)), rt_uuid = (\<lambda>_. None), rt_str = (\<lambda>_. []), rt_uuid4 = id\<rparr>,
     sv_catalog = \<lparr>cat_source_id = [], cat_title = [], cat_version = [], cat_reference = [], cat_types = []\<rparr>,
     sv_system_name = (\<lambda>_. ''Portal''), sv_external_id = (\<lambda>_. None)\<rparr>"

lemma ex_env_simps [simp]:
  "sv_sha256 ex_env = ex_hash" "sv_read_back ex_env = ex_rb" "sv_system_name ex_env s = ''Portal''"
  "sv_external_id ex_env s = None" "rt_loads (sv_runtime ex_env) t = Some (JObj ex_reply)"
  by (simp_all add: ex_env_def)

definition ex_resolved :: resolved_profile where
  "ex_resolved = (case resolve_stored_profile ex_profile_version ''moderate'' of Inr p \<Rightarrow> p)"

lemma ex_resolve: "resolve_stored_profile ex_profile_version ''moderate'' = Inr ex_resolved"
  by (simp add: ex_resolved_def resolve_stored_profile_def resolve_profile_def control_ids_for_def ex_profile_version_def
    ex_bundle_def FIPS_IMPACT_LEVELS_def dict_of_def)


definition ex_fact :: "string \<Rightarrow> string \<Rightarrow> fact_content" where
  "ex_fact key v = \<lparr>fact_key = key, fact_value = JStr v, fact_provenance = ISSO_ENTERED, fact_evidence = [],
     fact_state = FACT_ACTIVE\<rparr>"

definition ex_control :: control_content where
  "ex_control = \<lparr>control_id = ''AC-1'', control_title = ''Policy'', implementation_status = Some ''unknown'',
     implementation_statement = [], responsibility = Some ''unknown'', control_state = CTL_EMPTY,
     control_evidence = [], unresolved_reason = None\<rparr>"

definition ex_initial :: revision_content where
  "ex_initial = \<lparr>facts = [ex_fact ''profile_id'' ''fisma'', ex_fact ''profile_version'' ''1'',
     ex_fact ''system.name'' ''Portal'', ex_fact ''system.provisional_impact_level'' ''moderate''],
   sections = [], controls = [ex_control], questions = []\<rparr>"

lemma ex_initial_content: "initial_content ex_env 1 ex_resolved None ''moderate'' = ex_initial"
  by (simp add: initial_content_def ex_initial_def ex_fact_def ex_control_def isso_fact_def nonempty_def ex_resolved_def
    resolve_stored_profile_def resolve_profile_def control_ids_for_def ex_profile_version_def ex_bundle_def
    FIPS_IMPACT_LEVELS_def dict_of_def)

lemma ex_initial_valid_content: "valid_content ex_initial"
proof -
  have "control_id_pattern ''AC-1''" by code_simp
  then show ?thesis
    by (auto simp: valid_content_def ex_initial_def ex_fact_def ex_control_def valid_fact_def valid_control_def
      length_between_def has_text_def py_strip_def py_isspace_def opt_max_length_def)
qed

lemma ex_initial_valid: "validate_content ex_initial = Inr ex_initial"
  by (simp add: validate_content_def ex_initial_valid_content)

lemma ex_initial_rows: "materialized_ok i ex_initial db"
  by (auto simp: materialized_ok_def ex_initial_def ex_fact_def ex_control_def make_fact_row_def make_control_row_def
    fact_row_ok_def control_row_ok_def length_between_def pg_has_text_def pg_trim_def evidence_link_rows_def
    make_link_rows_def opt_max_length_def)

lemma ex_initial_ids: "content_evidence_ids ex_initial = {}"
  by (simp add: content_evidence_ids_def ex_initial_def ex_fact_def ex_control_def)

lemma ex_impact: "impact_level ex_initial = Inr ''moderate''" "confirmed_impact_level ex_initial = Inr None"
  by code_simp+

definition ex_row :: ssp_revision where
  "ex_row = new_revision ex_hash 11 5 ex_initial ''isso'' 100 None ex_created"

definition ex_stored :: ws_db where
  "ex_stored = saved_db ex_row None ex_created"

lemma ex_initial_save:
  "save_revision ex_hash 11 5 ex_initial ''isso'' 100 None ex_created = Inr (ex_stored, ex_row)"
  unfolding ex_stored_def
  by (rule save_succeeds [OF workspace_tables.reachable_inv [OF ex_created_reachable] ex_strip _ _
      ex_created_simps(1)])
    (simp_all add: ex_workspace_def ex_initial_ids ex_created_simps ex_initial_rows ex_row_def)

lemma ex_isso: "require_actor_id ''isso'' = Inr ''isso''"
  by (simp add: require_actor_id_def)

lemma ex_uuids:
  "uuid_str 7 = ''00000000-0000-0000-0000-000000000007''" "uuid_str 11 = ''00000000-0000-0000-0000-00000000000b''"
  "uuid_str 20 = ''00000000-0000-0000-0000-000000000014''"
  by code_simp+

lemma ex_metadata_items:
  "require_metadata_item (''profile_version_id'', JStr (uuid_str 7)) = Inr (''profile_version_id'', JStr (uuid_str 7))"
  "require_metadata_item (''revision_id'', JStr (uuid_str 11)) = Inr (''revision_id'', JStr (uuid_str 11))"
  "require_metadata_item (''patch_id'', JStr (uuid_str 20)) = Inr (''patch_id'', JStr (uuid_str 20))"
  unfolding ex_uuids by code_simp+

lemma ex_guards:
  "audit_guards ''isso'' [(''profile_version_id'', JStr (uuid_str 7)), (''revision_id'', JStr (uuid_str 11))] = Inr ()"
  "audit_guards ''isso'' [(''patch_id'', JStr (uuid_str 20))] = Inr ()"
  by (simp_all add: audit_guards_def ex_isso require_metadata_def ex_metadata_items)

definition ex_live :: ws_db where
  "ex_live = audit_workspace ''isso'' ''ssp_workspace_created'' 5
     [(''profile_version_id'', JStr (uuid_str 7)), (''revision_id'', JStr (uuid_str 11))] 100 ex_stored"

lemma ex_live_simps:
  "get_workspace ex_live 5 = Some (ex_workspace (Some 11))" "get_profile_version ex_live 7 = Some ex_profile_version"
  "revisions ex_live = [ex_row]" "revision_id ex_row = 11" "rev_workspace_id ex_row = 5" "rev_content ex_row = ex_initial"
  "evidence ex_live = []" "approvals ex_live = []" "agent_patches ex_live = []" "rev_version ex_row = 1"
  by (simp_all add: ex_live_def ex_stored_def ex_row_def audit_workspace_def get_workspace_def get_profile_version_def
    ex_created_def ex_workspace_def supersede_def ex_empty_def ex_profile_version_def max_version_def)

lemmas handler_defs = bindS_def readS_def liftS_def callS_def returnS_def guardS_def raiseS_def modifyS_def

lemma ex_create_isso: "create_workspace 5 1 7 ''isso'' 100 ex_empty = Inr (ex_created, ex_workspace None)"
  by code_simp

lemma ex_create_run:
  "create_initialized_workspace ex_env 5 11 1 7 None ''isso'' 100 ex_empty = (Inr (ex_workspace None), ex_live)"
proof -
  have "get_profile_version ex_empty 7 = Some ex_profile_version" "profile_status ex_profile_version = PROFILE_ACTIVE"
    "find (\<lambda>s. s = 1) (systems ex_empty) = Some 1"
    by (simp_all add: get_profile_version_def ex_empty_def ex_profile_version_def)
  moreover have "workspace_id (ex_workspace None) = 5" by (simp add: ex_workspace_def)
  ultimately show ?thesis
    by (simp add: create_initialized_workspace_def handler_defs nonempty_def ex_resolve one_def ex_create_isso
        ex_initial_content ex_initial_valid ex_initial_save ex_live_simps audit_service_def ex_guards ex_live_def
        del: One_nat_def)
qed

lemma ex_profile_of: "ws_profile_version_id (ex_workspace c) = 7" "ws_system_id (ex_workspace c) = 1"
    "workspace_id (ex_workspace c) = 5" "current_revision_id (ex_workspace c) = c"
  by (simp_all add: ex_workspace_def)

lemma ex_envelope_of:
  assumes "get_workspace db 5 = Some (ex_workspace (Some 11))" and "get_profile_version db 7 = Some ex_profile_version"
    and "revisions db = [r]" and "revision_id r = 11" and "rev_content r = c" and "valid_content c" and "sections c = []"
    and "impact_level c = Inr ''moderate''" and "confirmed_impact_level c = Inr level"
  shows "\<exists>document. load_workspace_envelope ex_env 5 db = Inr document \<and> env_requirements document = []"
proof -
  have "metric_requirements ex_profile_version = Inr []"
    by (simp add: metric_requirements_def ex_profile_version_def ex_bundle_def)
  moreover have "effective_metric_facts ex_env c [] = Inr (sorted_values (facts_by_key c))"
    by (simp add: effective_metric_facts_def assms)
  moreover have "envelope_content ex_env db (ex_workspace (Some 11)) = Inr (Some r, c)"
    by (simp add: envelope_content_def ex_profile_of assms one_def stored_content_def validate_content_def)
  moreover have "\<not> evidence_link_count c < 0" by (simp add: evidence_link_count_def)
  ultimately show ?thesis
    by (simp add: load_workspace_envelope_def assms ex_resolve calculate_workspace_metrics_def one_def Let_def ex_profile_of)
qed

lemma ex_envelope: "\<exists>document. load_workspace_envelope ex_env 5 ex_live = Inr document"
  using ex_envelope_of [OF ex_live_simps(1-4,6) ex_initial_valid_content _ ex_impact] by (auto simp: ex_initial_def)

lemma ex_post: "committed catches_create (post_workspace ex_env True 5 11 1 7 ''isso'' 100) ex_empty = ex_live"
proof -
  obtain document where "load_workspace_envelope ex_env 5 ex_live = Inr document" using ex_envelope by blast
  moreover have "1 \<in> set (systems ex_empty)" by (simp add: ex_empty_def)
  ultimately show ?thesis
    by (simp add: committed_def post_workspace_def with_envelope_def handler_defs guardR_def ex_create_run ex_profile_of
        del: One_nat_def)
qed

lemma ex_start_reachable: "service_reachable ex_env ex_empty"
  by (rule reach_start) (simp add: service_start_def ws_start_def ex_empty_def)

lemma ex_live_step: "service_step ex_env ex_empty ex_live"
  using service_step.post_workspace [of ex_env ex_empty True 5 11 1 7 "''isso''" 100] by (simp only: ex_post)

lemma ex_live_reachable: "service_reachable ex_env ex_live"
  by (rule reach_step [OF ex_start_reachable ex_live_step])

section \<open>A patch\<close>

definition ex_ask :: model_callable where
  "ex_ask = (\<lambda>n prompt. ModelText [])"

definition ex_result :: patch_result where
  "ex_result = \<lparr>pr_patches = [], pr_questions_to_add = [], pr_question_ids_to_resolve = [], pr_change_summary = ''None''\<rparr>"

definition ex_snapshot :: generation_snapshot where
  "ex_snapshot = \<lparr>sn_workspace_id = 5, sn_revision_id = 11, sn_revision_version = 1, sn_content = ex_initial,
     sn_system_name = ''Portal'', sn_profile = ex_resolved\<rparr>"

lemma ex_current: "load_exact_current_revision 5 11 ex_live = Inr ex_row"
  by (simp add: load_exact_current_revision_def ex_live_simps ex_profile_of get_revision_def)

lemma ex_context: "generation_context ex_env 5 11 ex_live = Inr ex_snapshot"
  by (simp add: generation_context_def persistence_def ex_current one_def ex_live_simps ex_profile_of
    stored_content_def ex_initial_valid ex_impact ex_resolve ex_snapshot_def del: One_nat_def)

lemma ex_no_evidence: "generation_facts rt ex_initial = []" "source_ids_of ex_initial = []"
  by (simp_all add: generation_facts_def source_ids_of_def ex_initial_def ex_fact_def)

definition ex_request :: contextual_edit_request where
  "ex_request = (case patch_request ex_env ex_snapshot ''Check.'' of Inr r \<Rightarrow> r)"

lemma ex_patch_request: "patch_request ex_env ex_snapshot ''Check.'' = Inr ex_request"
  by (simp add: ex_request_def patch_request_def ex_snapshot_def ex_impact Let_def)

lemma ex_resolved_simps:
  "rp_profile_id ex_resolved = ''fisma''" "rp_profile_version ex_resolved = ''1''" "rp_ssp_required_items ex_resolved = []"
  "map pc_control_id (rp_controls ex_resolved) = [''AC-1'']"
  by (simp_all add: ex_resolved_def resolve_stored_profile_def resolve_profile_def control_ids_for_def
    ex_profile_version_def ex_bundle_def FIPS_IMPACT_LEVELS_def dict_of_def)

lemma ex_request_simps:
  "gr_system_name ex_request = ''Portal''" "gr_profile ex_request = ex_resolved" "gr_source_ids ex_request = []"
  "gr_facts ex_request = []" "gr_sections ex_request = []" "map cs_control_id (gr_controls ex_request) = [''AC-1'']"
  "map cs_revision (gr_controls ex_request) = [1]" "cs_control_id ` set (gr_controls ex_request) = {''AC-1''}"
  "gr_open_questions ex_request = []" "gr_instruction ex_request = ''Check.''"
  "gr_edit_categorization_confirmed ex_request = False"
  using ex_no_evidence
  by (simp_all add: ex_request_def patch_request_def ex_snapshot_def ex_impact Let_def)
    (simp_all add: ex_initial_def ex_control_def)

lemmas text_checks = bounded_text_check_def has_text_def py_strip_def py_isspace_def unique_check_def check_all_def

lemma ex_valid_request:
  "validate_common_inputs ex_request = Inr ()"
  "bounded_text_check ''Check.'' MAX_INSTRUCTION_CHARACTERS = Inr ()"
  "validate_current_state ex_request [] [''AC-1''] = Inr ()"
  "validate_confirmation_context (default_context False) [] = Inr ()"
  by (simp_all add: validate_common_inputs_def validate_current_state_def validate_confirmation_context_def
    check_fact_ids_def check_confirmed_sections_def default_context_def ex_request_simps ex_resolved_simps text_checks
    MAX_INSTRUCTION_CHARACTERS_def guardR_def)

lemma ex_reply_fields:
  "set_default ''question_ids_to_resolve'' (JArr []) (set_default ''questions_to_add'' (JArr [])
     (set_default ''schema_version'' (JStr ''1.0.0'') ex_reply)) = ex_reply"
  "require_schema_version ex_reply ''1.0.0'' = Inr ()"
  "require_exact_keys ex_reply [''schema_version'', ''patches'', ''questions_to_add'', ''question_ids_to_resolve'',
     ''change_summary''] = Inr ()"
  "object_list ex_reply ''patches'' n = Inr []" "object_list ex_reply ''questions_to_add'' n = Inr []"
  "string_list ex_reply ''question_ids_to_resolve'' n = Inr []"
  "text_value (map_of ex_reply ''change_summary'') 4000 = Inr ''None''"
  by (simp_all add: ex_reply_def set_default_def require_schema_version_def require_exact_keys_def object_list_def
    string_list_def text_value_def py_strip_def py_isspace_def)

lemma ex_reply_parses:
  "parse_patch_response (sv_runtime ex_env) cat env al [] current pol ov body = Inr ex_result"
proof -
  have "parse_json_object (sv_runtime ex_env) body = Inr ex_reply"
    by (simp add: parse_json_object_def response_object_def ex_reply_def)
  then show ?thesis
    by (simp add: parse_patch_response_def ex_reply_fields Let_def unique_values_def ex_result_def)
qed

lemma ex_generate:
  "generate_contextual_patch (sv_runtime ex_env) cat py ex_ask ex_request =
     Inr \<lparr>ex_value = ex_result, ex_attempts = 1, ex_repair_attempted = False\<rparr>"
proof -
  obtain user where "patch_user_prompt ex_request = Inr user"
    by (simp add: patch_user_prompt_def common_prompt_payload_def ex_request_simps ex_valid_request Let_def)
  moreover have "request_ids ex_request = \<lparr>al_sections = [], al_controls = [''AC-1''], al_facts = []\<rparr>"
    by (simp add: request_ids_def ex_request_simps ex_resolved_simps)
  ultimately show ?thesis
    by (simp add: generate_contextual_patch_def ex_valid_request invoke_with_one_repair_def attempt_def invoke_model_def
      ex_ask_def normalize_envelope_def patch_defaults_def ex_reply_parses ex_request_simps)
qed

definition ex_patch :: agent_patch where
  "ex_patch = \<lparr>patch_id = 20, patch_workspace_id = 5, base_revision_id = 11, applied_revision_id = None,
     patch_operations = [serialize_patch_result ex_result], patch_summary = ''None'', patch_status = PATCH_PROPOSED,
     patch_created_at = 200, resolved_by = None, resolved_at = None\<rparr>"

definition ex_proposed :: ws_db where
  "ex_proposed = audit_workspace ''isso'' ''ssp_agent_patch_proposed'' 5 [(''patch_id'', JStr (uuid_str 20))] 200
     (ex_live\<lparr>agent_patches := [ex_patch]\<rparr>)"

lemma ex_add: "add_patch ex_patch ex_live = Inr (ex_live\<lparr>agent_patches := [ex_patch]\<rparr>, ())"
  by (simp add: add_patch_def ex_live_simps patch_row_ok_def ex_patch_def length_between_def opt_max_length_def)

lemma ex_from_model: "patch_from_model ex_env True ex_ask 5 11 ''Check.'' ex_live = Inr ex_result"
  by (simp add: patch_from_model_def guardR_def ex_context ex_patch_request generated_def ex_generate)

lemma ex_propose:
  "committed catches_generate (post_agent_patch ex_env True True ex_ask ex_live 20 5 11 ''Check.'' ''isso'' 200) ex_live
     = ex_proposed"
proof -
  have "propose_agent_patch ex_env True ex_ask ex_live 20 5 11 ''Check.'' ''isso'' 200 ex_live = (Inr ex_patch, ex_proposed)"
    using ex_add
    by (simp add: propose_agent_patch_def handler_defs ex_from_model ex_current Let_def audit_service_def ex_guards
        ex_proposed_def ex_patch_def ex_result_def)
  then show ?thesis
    by (simp add: committed_def post_agent_patch_def model_route_def handler_defs authorize_workspace_def ex_live_simps
      guardR_def)
qed

lemma ex_proposed_step: "service_step ex_env ex_live ex_proposed"
  using service_step.post_patch [of ex_env ex_live True True ex_ask ex_live 20 5 11 "''Check.''" "''isso''" 200]
  by (simp only: ex_propose)

lemma ex_proposed_reachable: "service_reachable ex_env ex_proposed"
  by (rule reach_step [OF ex_live_reachable ex_proposed_step])

lemma ex_proposed_simps: "agent_patches ex_proposed = [ex_patch]" "get_workspace ex_proposed 5 = Some (ex_workspace (Some 11))"
  using ex_live_simps(1) by (simp_all add: ex_proposed_def audit_workspace_def get_workspace_def)

definition ex_rejected :: ws_db where
  "ex_rejected = committed catches_patch
     (post_reject_patch ex_env True 5 20 ''isso'' 300) ex_proposed"

lemma ex_rejected_step: "service_step ex_env ex_proposed ex_rejected"
  unfolding ex_rejected_def by (rule service_step.reject_patch)

lemma ex_rejected_reachable: "service_reachable ex_env ex_rejected"
  by (rule reach_step [OF ex_proposed_reachable ex_rejected_step])

lemma ex_rejected_run: "steps_to (service_step ex_env) ex_proposed ex_rejected"
  by (rule steps_one) (rule ex_rejected_step)

section \<open>Witnesses\<close>


text \<open>The patch proposed in the run is still there, with its operations, after its rejection.\<close>

theorem patch_is_resolved_once_witness:
  "applied_revision_id ex_patch = None \<and> (\<exists>p \<in> set (agent_patches ex_rejected). patch_id p = 20 \<and>
     patch_operations p = [serialize_patch_result ex_result] \<and> base_revision_id p = 11)"
  using patch_is_resolved_once [of ex_env ex_proposed ex_patch ex_rejected, OF ex_proposed_reachable _
    ex_rejected_run]
  by (auto simp: ex_proposed_simps ex_patch_def)

end
