(* ===== verification/ServiceProperties.thy ===== *)
theory ServiceProperties
  imports ServiceExample
begin

text \<open>
  Properties of single requests of the service: what a stored patch keeps and what an approval has checked.
\<close>

section \<open>Stored patches\<close>

lemma those_Some_map: "(\<And>x. x \<in> set xs \<Longrightarrow> f (g x) = Some x) \<Longrightarrow> those (map f (map g xs)) = Some xs"
  by (induction xs) simp_all

lemma string_items_strs: "string_items (map JStr xs) = Some xs"
  by (simp add: string_items_def list_all_iff comp_def)

lemma string_members_doc: "string_members (map (\<lambda>(k, v). (k, JStr v)) m) = Some m"
  by (auto simp: string_members_def list_all_iff comp_def split_def)

lemma read_targeted_patch_doc: "read_targeted_patch (JObj (targeted_patch_doc p)) = Some p"
  by (simp add: read_targeted_patch_def targeted_patch_doc_def strs_def string_items_strs string_members_doc)

lemma read_question_to_add_doc: "read_question_to_add (JObj (question_to_add_doc q)) = Some q"
  by (simp add: read_question_to_add_def question_to_add_doc_def)

text \<open>C16: Storing and reading back: the document \<open>propose_agent_patch\<close> stores is read back by
  \<open>apply_proposed_patch\<close> as exactly the result the model's answer was parsed into.\<close>

theorem stored_patch_reads_back: "deserialize_patch_result [serialize_patch_result r] = Inr r"
proof -
  have "those (map read_targeted_patch (map (\<lambda>p. JObj (targeted_patch_doc p)) ps)) = Some ps" for ps
    by (rule those_Some_map) (rule read_targeted_patch_doc)
  moreover have "those (map read_question_to_add (map (\<lambda>q. JObj (question_to_add_doc q)) qs)) = Some qs" for qs
    by (rule those_Some_map) (rule read_question_to_add_doc)
  ultimately show ?thesis
    by (simp add: deserialize_patch_result_def serialize_patch_result_def read_patch_document_def docs_def strs_def
        string_items_strs)
qed

section \<open>Approval\<close>

lemma guard_passed: "guardS ok e s = (Inr x, t) \<longleftrightarrow> ok \<and> t = s"
  by (auto simp: guardS_def returnS_def raiseS_def)

lemma read_passed: "readS wrap q s = (Inr x, t) \<longleftrightarrow> t = s \<and> q s = Inr x"
  by (simp add: readS_run liftS_Inr)

lemma require_confirmed_Inr: "require_confirmed st m n = Inr u \<longleftrightarrow> st = Some ''confirmed''"
  by (auto simp: require_confirmed_def result_simps)

text \<open>What an approval has read and checked.\<close>

lemma approve_checked:
  assumes "approve_workspace_revision env i w rid actor now db = (Inr a, db')"
  obtains r c ws row level profile requirements document t where
    "get_revision db rid w = Some r" and "stored_content env r = Inr c" and "require_confirmations c = Inr ()"
    and "get_workspace db w = Some ws" and "get_profile_version db (ws_profile_version_id ws) = Some row"
    and "impact_level c = Inr level" and "resolve_stored_profile row level = Inr profile"
    and "metric_requirements row = Inr requirements" and "\<not> nonterminal_evidence db w"
    and "load_workspace_envelope env w db = Inr document"
    and "\<not> list_ex (\<lambda>x. agent_control_blocks_approval x
      (cr_evidence_required (pol_response (from_resolved profile)))) (controls c)"
    and "sections_resolved requirements (env_satisfied_requirement_ids document) (open_targets (questions c))"
    and "controls_have_tracked_responses (controls c) (open_targets (questions c))
      (dp_require_gap_or_question (pol_rules (from_resolved profile)))"
    and "approve_current_revision (sv_sha256 env) (sv_read_back env) i w rid actor now db = Inr (t, a)"
    and "audit_service actor ''ssp_revision_approved'' w [(''revision_id'', JStr (uuid_str rid))] now t = (Inr (), db')"
  using assms
  by (auto simp: approve_workspace_revision_def Let_def bindS_Inr read_passed liftS_Inr guard_passed callS_Inr returnS_run
      one_def result_simps split: option.splits)

lemma stored_by_id:
  assumes "get_revision db rid w = Some r" and "distinct (map revision_id (revisions db))"
  shows "find (\<lambda>x. revision_id x = rid) (revisions db) = Some r"
proof -
  have "r \<in> set (revisions db)" "revision_id r = rid" using get_revisionD [OF assms(1)] by simp_all
  then obtain x where x: "find (\<lambda>x. revision_id x = rid) (revisions db) = Some x"
    by (cases "find (\<lambda>x. revision_id x = rid) (revisions db)") (auto simp: find_None_iff)
  with find_SomeD [OF x] show ?thesis
    using get_revisionD [OF assms(1)] distinct_key_unique [OF assms(2), of x r] by simp
qed

lemma envelope_satisfied:
  assumes "load_workspace_envelope env w db = Inr document" and "get_workspace db w = Some ws"
    and "current_revision_id ws = Some rid" and "get_profile_version db (ws_profile_version_id ws) = Some row"
    and "metric_requirements row = Inr requirements" and "get_revision db rid w = Some r"
    and "distinct (map revision_id (revisions db))" and "stored_content env r = Inr c"
  obtains effective where "effective_metric_facts env c requirements = Inr effective"
    and "env_satisfied_requirement_ids document = satisfied_requirement_ids requirements effective"
proof -
  have "envelope_content env db ws = Inr (Some r, c)"
    using assms(3,8) stored_by_id [OF assms(6,7)] by (simp add: envelope_content_def one_def)
  then show ?thesis
    using assms(1,2,4,5) that
    by (auto simp: load_workspace_envelope_def Let_def result_simps split: sum.splits) (metis sum.exhaust)
qed

lemma resolved_are_tracked:
  assumes "sections_resolved requirements (satisfied_requirement_ids requirements effective) targets"
    and "distinct (map req_key requirements)"
  shows "list_all (requirement_is_tracked (facts_dict effective) targets) requirements"
proof (unfold list_all_iff, rule ballI)
  fix r assume r: "r \<in> set requirements"
  have "requirement_is_satisfied r (map_of (facts_dict effective) (req_key r))"
    if "req_key r \<in> set (satisfied_requirement_ids requirements effective)"
    using that distinct_key_unique [OF assms(2) _ r] by (auto simp: satisfied_requirement_ids_def)
  then show "requirement_is_tracked (facts_dict effective) targets r"
    using assms(1) r by (auto simp: sections_resolved_def requirement_is_tracked_def list_all_iff)
qed

lemma approve_result:
  assumes "approve_current_revision sha256 read_back i w rid who now db = Inr (t, a)" and "get_workspace db w = Some ws"
    and "get_revision db rid w = Some r"
  shows "current_revision_id ws = Some rid" and "rev_status r = REV_WORKING" and "as_revision_id a = rid"
    and "revision_sha256 a = content_sha256 r" and "revisions t = revisions (set_revision_status rid REV_APPROVED db)"
    and "approvals t = approvals db @ [a]"
  by (rule approve_Inr [OF assms(1)], use assms(2,3) in force)+

text \<open>C15: The approval gate. A successful approval recorded the current, still working revision of the
  workspace with its digest, and before that the three confirmations were in force, no evidence was still being
  processed, no control carried ungrounded model output, and every required item was satisfied by the facts in
  effect or had an open question; with distinct requirement keys this is the reviewability gate of the metrics
  module. The approval only sets the status of the revision and adds itself.\<close>

theorem approval_passes_gate:
  assumes "distinct (map revision_id (revisions db))"
    and run: "approve_workspace_revision env i w rid actor now db = (Inr a, db')"
  shows "\<exists>ws r c row level profile requirements effective.
    get_workspace db w = Some ws \<and> current_revision_id ws = Some rid \<and> get_revision db rid w = Some r \<and>
    rev_status r = REV_WORKING \<and> stored_content env r = Inr c \<and>
    active_categorization_status (active_facts c) = Some ''confirmed'' \<and>
    active_system_definition_status (active_facts c) = Some ''confirmed'' \<and>
    active_information_types_status (active_facts c) = Some ''confirmed'' \<and>
    \<not> nonterminal_evidence db w \<and>
    get_profile_version db (ws_profile_version_id ws) = Some row \<and> impact_level c = Inr level \<and>
    resolve_stored_profile row level = Inr profile \<and> metric_requirements row = Inr requirements \<and>
    effective_metric_facts env c requirements = Inr effective \<and>
    sections_resolved requirements (satisfied_requirement_ids requirements effective) (open_targets (questions c)) \<and>
    (distinct (map req_key requirements) \<longrightarrow>
       workspace_is_reviewable requirements effective (controls c) (questions c) True True True
         (cr_evidence_required (pol_response (from_resolved profile)))
         (dp_require_gap_or_question (pol_rules (from_resolved profile)))) \<and>
    as_revision_id a = rid \<and> revision_sha256 a = content_sha256 r \<and>
    revisions db' = revisions (set_revision_status rid REV_APPROVED db) \<and> approvals db' = approvals db @ [a]"
  using run
proof (rule approve_checked)
  fix r c ws row level profile requirements document t
  assume checked: "get_revision db rid w = Some r" "stored_content env r = Inr c" "require_confirmations c = Inr ()"
      "get_workspace db w = Some ws" "get_profile_version db (ws_profile_version_id ws) = Some row"
      "impact_level c = Inr level" "resolve_stored_profile row level = Inr profile"
      "metric_requirements row = Inr requirements" "\<not> nonterminal_evidence db w"
      "load_workspace_envelope env w db = Inr document"
      "\<not> list_ex (\<lambda>x. agent_control_blocks_approval x
        (cr_evidence_required (pol_response (from_resolved profile)))) (controls c)"
      "sections_resolved requirements (env_satisfied_requirement_ids document) (open_targets (questions c))"
      "controls_have_tracked_responses (controls c) (open_targets (questions c))
        (dp_require_gap_or_question (pol_rules (from_resolved profile)))"
    and approve: "approve_current_revision (sv_sha256 env) (sv_read_back env) i w rid actor now db = Inr (t, a)"
    and audit: "audit_service actor ''ssp_revision_approved'' w [(''revision_id'', JStr (uuid_str rid))] now t = (Inr (), db')"
  note approved = approve_result [OF approve checked(4,1)]
  have audited: "revisions db' = revisions t" "approvals db' = approvals t"
    using audit by (auto simp: audit_service_def audit_workspace_def handler_simps)
  obtain effective where effective: "effective_metric_facts env c requirements = Inr effective"
      "env_satisfied_requirement_ids document = satisfied_requirement_ids requirements effective"
    by (rule envelope_satisfied [OF checked(10,4) approved(1) checked(5,8,1) assms(1) checked(2)])
  have "workspace_is_reviewable requirements effective (controls c) (questions c) True True True
         (cr_evidence_required (pol_response (from_resolved profile)))
         (dp_require_gap_or_question (pol_rules (from_resolved profile)))"
    if "distinct (map req_key requirements)"
    using checked(11-13) resolved_are_tracked [OF _ that] effective
    by (simp add: workspace_is_reviewable_def Let_def)
  note reviewable = this
  have confirmed: "active_categorization_status (active_facts c) = Some ''confirmed''"
      "active_system_definition_status (active_facts c) = Some ''confirmed''"
      "active_information_types_status (active_facts c) = Some ''confirmed''"
    using checked(3) by (simp_all add: require_confirmations_def Let_def result_simps require_confirmed_Inr)
  show ?thesis
    by (intro exI [of _ ws] exI [of _ r] exI [of _ c] exI [of _ row] exI [of _ level] exI [of _ profile]
        exI [of _ requirements] exI [of _ effective])
      (use approved audited checked effective confirmed reviewable in simp)
qed

text \<open>An approval in the workspace of the run, of a revision with the three confirmations and one reviewed control.\<close>

definition ex_ready :: revision_content where
  "ex_ready = \<lparr>facts = [ex_fact CATEGORIZATION_STATUS_KEY ''confirmed'', ex_fact SYSTEM_DEFINITION_STATUS_KEY ''confirmed'',
     ex_fact INFORMATION_TYPES_STATUS_KEY ''confirmed''], sections = [],
   controls = [ex_control\<lparr>implementation_statement := ''Done.'', control_state := CTL_REVIEWED\<rparr>], questions = []\<rparr>"

lemmas ex_ready_defs = ex_ready_def ex_fact_def ex_control_def CATEGORIZATION_STATUS_KEY_def
  SYSTEM_DEFINITION_STATUS_KEY_def INFORMATION_TYPES_STATUS_KEY_def

lemma ex_ready_valid: "valid_content ex_ready"
proof -
  have "control_id_pattern ''AC-1''" by code_simp
  then show ?thesis
    by (auto simp: valid_content_def ex_ready_defs valid_fact_def valid_control_def length_between_def has_text_def
      py_strip_def py_isspace_def opt_max_length_def)
qed

lemma ex_ready_confirmed: "require_confirmations ex_ready = Inr ()"
  by code_simp

lemma ex_ready_impact: "impact_level ex_ready = Inr ''moderate''" "confirmed_impact_level ex_ready = Inr None"
  by code_simp+


definition ex_ready_row :: ssp_revision where
  "ex_ready_row = new_revision ex_hash 11 5 ex_ready ''isso'' 100 None ex_created"

definition ex_ready_db :: ws_db where
  "ex_ready_db = saved_db ex_ready_row None ex_created"

lemma ex_ready_simps:
  "get_workspace ex_ready_db 5 = Some (ex_workspace (Some 11))" "get_profile_version ex_ready_db 7 = Some ex_profile_version"
  "revisions ex_ready_db = [ex_ready_row]" "revision_id ex_ready_row = 11" "rev_workspace_id ex_ready_row = 5"
  "rev_content ex_ready_row = ex_ready" "rev_status ex_ready_row = REV_WORKING"
  "content_sha256 ex_ready_row = revision_content_sha256 ex_hash ex_ready"
  "evidence ex_ready_db = []" "approvals ex_ready_db = []" "ws_status (ex_workspace c) = WS_WORKING"
  by (simp_all add: ex_ready_db_def ex_ready_row_def get_workspace_def get_profile_version_def ex_created_def
    ex_workspace_def supersede_def ex_empty_def ex_profile_version_def)

lemma ex_ready_get: "get_revision ex_ready_db 11 5 = Some ex_ready_row"
  by (simp add: get_revision_def ex_ready_simps)

definition ex_approval :: approval_snapshot where
  "ex_approval = \<lparr>approval_snapshot_id = 30, as_workspace_id = 5, as_revision_id = 11,
     revision_sha256 = revision_content_sha256 ex_hash ex_ready, approved_by = ''isso'', approved_at = 400\<rparr>"

lemma ex_ready_approve: "\<exists>db'. approve_workspace_revision ex_env 30 5 11 ''isso'' 400 ex_ready_db = (Inr ex_approval, db')"
proof -
  obtain document where "load_workspace_envelope ex_env 5 ex_ready_db = Inr document"
    using ex_envelope_of [OF ex_ready_simps(1-4,6) ex_ready_valid _ ex_ready_impact] by (auto simp: ex_ready_def)
  moreover have "metric_requirements ex_profile_version = Inr []"
    by (simp add: metric_requirements_def ex_profile_version_def ex_bundle_def)
  moreover have "stored_content ex_env ex_ready_row = Inr ex_ready"
    by (simp add: stored_content_def ex_ready_simps validate_content_def ex_ready_valid)
  moreover have "\<not> nonterminal_evidence ex_ready_db 5" by (simp add: nonterminal_evidence_def ex_ready_simps)
  moreover have "\<not> list_ex (\<lambda>x. agent_control_blocks_approval x b) (controls ex_ready)"
      "controls_have_tracked_responses (controls ex_ready) targets b" for b targets
    by (simp_all add: ex_ready_defs agent_control_blocks_approval_def controls_have_tracked_responses_def
        control_is_tracked_def has_text_def py_strip_def py_isspace_def)
  moreover have "\<exists>t. approve_current_revision ex_hash ex_rb 30 5 11 ''isso'' 400 ex_ready_db = Inr (t, ex_approval)"
    by (simp add: approve_current_revision_def require_actor_def load_workspace_for_update_def ex_ready_simps ex_ready_get
        ex_profile_of ex_strip validate_content_def ex_ready_valid add_approval_def approval_row_ok_def Let_def
        set_revision_status_def length_between_def ex_approval_def)
  moreover have "audit_guards ''isso'' [(''revision_id'', JStr (uuid_str 11))] = Inr ()"
    by (simp add: audit_guards_def ex_isso require_metadata_def ex_metadata_items)
  ultimately show ?thesis
    by (auto simp: approve_workspace_revision_def handler_defs Let_def ex_ready_get ex_ready_confirmed ex_ready_simps
        ex_profile_of one_def ex_ready_impact ex_resolve sections_resolved_def audit_service_def)
qed

theorem approval_passes_gate_witness:
  "\<exists>db'. approve_workspace_revision ex_env 30 5 11 ''isso'' 400 ex_ready_db = (Inr ex_approval, db') \<and>
     approvals db' = [ex_approval]"
proof -
  obtain db' where run: "approve_workspace_revision ex_env 30 5 11 ''isso'' 400 ex_ready_db = (Inr ex_approval, db')"
    using ex_ready_approve by blast
  show ?thesis using approval_passes_gate [OF _ run] run by (auto simp: ex_ready_simps)
qed

end
