(* ===== verification/Access.thy ===== *)
theory Access
  imports Json
begin

text \<open>
  Who may do what: the authenticated principal of \<open>auth_context.py\<close> and the package roles of
  \<open>package_rbac.py\<close>. The configured role groups, a global of the module, are an argument. The normalisation
  of origins and the CSRF check are not modelled.
\<close>

section \<open>Principals\<close>

datatype auth_error = AuthorizationDenied | AuthValueError string

record principal =
  actor_id :: string
  principal_groups :: "string list"

record system_target =
  owner_group :: string
  viewer_groups :: "string list"

definition MAX_GROUP_ID_LENGTH :: nat where "MAX_GROUP_ID_LENGTH = 255"
definition MAX_ACTOR_ID_LENGTH :: nat where "MAX_ACTOR_ID_LENGTH = 255"

definition normalize_group_id :: "string \<Rightarrow> auth_error + string" where
  "normalize_group_id s =
     (let g = py_strip s in
      if g = [] then Inl (AuthValueError ''group id must be nonempty'')
      else if MAX_GROUP_ID_LENGTH < length g then Inl (AuthValueError ''group id exceeds maximum length'')
      else Inr g)"

text \<open>In the order of their first occurrence.\<close>

definition normalize_groups :: "string list \<Rightarrow> auth_error + string list" where
  "normalize_groups gs =
     bindR (foldR (\<lambda>acc raw. bindR (normalize_group_id raw) (\<lambda>g.
       Inr (if g \<in> set acc then acc else acc @ [g]))) [] gs) (\<lambda>normalized.
     if normalized = [] then Inl (AuthValueError ''groups must be nonempty'') else Inr normalized)"

definition authenticated_principal :: "string \<Rightarrow> string list \<Rightarrow> auth_error + principal" where
  "authenticated_principal actor gs =
     (let a = py_strip actor in
      if a = [] then Inl (AuthValueError ''actor_id must be nonempty'')
      else if MAX_ACTOR_ID_LENGTH < length a then Inl (AuthValueError ''actor_id exceeds maximum length'')
      else bindR (normalize_groups gs) (\<lambda>normalized. Inr \<lparr>actor_id = a, principal_groups = normalized\<rparr>))"

definition is_member_of :: "principal \<Rightarrow> string \<Rightarrow> auth_error + bool" where
  "is_member_of p group_id = bindR (normalize_group_id group_id) (\<lambda>g. Inr (g \<in> set (principal_groups p)))"

text \<open>\<open>any(principal.is_member_of(group) for group in groups)\<close> stops at the first hit.\<close>

fun any_member :: "principal \<Rightarrow> string list \<Rightarrow> auth_error + bool" where
  "any_member p [] = Inr False"
| "any_member p (g # gs) = bindR (is_member_of p g) (\<lambda>hit. if hit then Inr True else any_member p gs)"

definition can_read_system :: "principal \<Rightarrow> system_target \<Rightarrow> auth_error + bool" where
  "can_read_system p sys =
     bindR (is_member_of p (owner_group sys)) (\<lambda>owner. if owner then Inr True else any_member p (viewer_groups sys))"

definition require_that :: "auth_error + bool \<Rightarrow> auth_error + unit" where
  "require_that r = bindR r (\<lambda>ok. guardR ok AuthorizationDenied)"

definition require_system_read_access :: "principal \<Rightarrow> system_target \<Rightarrow> auth_error + unit" where
  "require_system_read_access p sys = require_that (can_read_system p sys)"

definition require_system_mutation_access :: "principal \<Rightarrow> system_target \<Rightarrow> auth_error + unit" where
  "require_system_mutation_access p sys = require_that (is_member_of p (owner_group sys))"

section \<open>Roles\<close>

type_synonym role_groups = "(string \<times> string list) list"

definition DEFAULT_PACKAGE_ROLE_GROUPS :: role_groups where
  "DEFAULT_PACKAGE_ROLE_GROUPS =
     [(''system_owner'', [''owners'', ''system-owners'']), (''isso'', [''isso'', ''owners'']),
      (''control_owner'', [''control-owners'', ''owners'']), (''assessor'', [''assessors'']),
      (''reviewer'', [''reviewers'', ''owners'']), (''approver'', [''approvers'']),
      (''ao_custodian'', [''ao-custodians'', ''approvers'']), (''viewer'', [''viewers'', ''owners'']),
      (''platform_admin'', [''platform-admins''])]"

definition groups_of :: "role_groups \<Rightarrow> string \<Rightarrow> string list" where
  "groups_of rg role = (case map_of rg role of None \<Rightarrow> [] | Some gs \<Rightarrow> gs)"

definition extend_groups :: "string list list \<Rightarrow> string list" where
  "extend_groups gss = fold (\<lambda>g acc. if g \<in> set acc then acc else acc @ [g]) (concat gss) []"

definition apply_single_user_role_mapping :: "role_groups \<Rightarrow> role_groups" where
  "apply_single_user_role_mapping rg =
     (let approvers = extend_groups [groups_of rg ''approver'', groups_of rg ''system_owner'', groups_of rg ''reviewer'']
      in dict_put ''ao_custodian'' (extend_groups [groups_of rg ''ao_custodian'', approvers])
           (dict_put ''approver'' approvers rg))"

text \<open>The groups of one role in the configuration: strings that are not blank, stripped.\<close>

definition configured_groups :: "json \<Rightarrow> string list" where
  "configured_groups j =
     (case j of JArr xs \<Rightarrow> [py_strip s. JStr s \<leftarrow> xs, py_strip s \<noteq> []] | _ \<Rightarrow> [])"

definition configure_role :: "role_groups \<Rightarrow> string \<times> json \<Rightarrow> role_groups" where
  "configure_role rg entry =
     (case entry of (role, groups) \<Rightarrow>
        if role \<notin> fst ` set rg \<or> configured_groups groups = [] then rg
        else dict_put role (configured_groups groups) rg)"

definition configure_package_role_groups :: "members \<Rightarrow> role_groups" where
  "configure_package_role_groups doc =
     (let resolved = (case map_of doc ''OIDC_GROUP_ROLE_MAPPING'' of
          Some (JObj mapping) \<Rightarrow> foldl configure_role DEFAULT_PACKAGE_ROLE_GROUPS mapping
        | _ \<Rightarrow> DEFAULT_PACKAGE_ROLE_GROUPS)
      in if map_of doc ''SINGLE_USER_MODE_ENABLED'' = Some (JBool True)
         then apply_single_user_role_mapping resolved else resolved)"

definition principal_has_role :: "role_groups \<Rightarrow> principal \<Rightarrow> string \<Rightarrow> auth_error + bool" where
  "principal_has_role rg p role = any_member p (groups_of rg role)"

definition require_package_role :: "role_groups \<Rightarrow> principal \<Rightarrow> system_target \<Rightarrow> string \<Rightarrow> auth_error + unit" where
  "require_package_role rg p sys role =
     (if role = ''viewer'' then require_system_read_access p sys
      else
        bindR (principal_has_role rg p role) (\<lambda>has.
        if has then Inr ()
        else if role \<in> set [''reviewer'', ''system_owner'', ''isso'']
        then require_that (is_member_of p (owner_group sys))
        else Inl AuthorizationDenied))"

text \<open>Only a denial lets the next role be tried.\<close>

fun require_any_package_role ::
  "role_groups \<Rightarrow> principal \<Rightarrow> system_target \<Rightarrow> string list \<Rightarrow> auth_error + unit" where
  "require_any_package_role rg p sys [] = Inl AuthorizationDenied"
| "require_any_package_role rg p sys (role # roles) =
     (case require_package_role rg p sys role of
        Inl AuthorizationDenied \<Rightarrow> require_any_package_role rg p sys roles
      | r \<Rightarrow> r)"

section \<open>What the checks decide\<close>

text \<open>Group identifiers as the system and the configuration should hold them.\<close>

definition group_ok :: "string \<Rightarrow> bool" where
  "group_ok g = (py_strip g \<noteq> [] \<and> length (py_strip g) \<le> MAX_GROUP_ID_LENGTH)"

definition in_group :: "principal \<Rightarrow> string \<Rightarrow> bool" where
  "in_group p g = (py_strip g \<in> set (principal_groups p))"

lemma is_member_of_ok: "group_ok g \<Longrightarrow> is_member_of p g = Inr (in_group p g)"
  by (simp add: group_ok_def is_member_of_def normalize_group_id_def Let_def in_group_def)

lemma any_member_ok: "list_all group_ok gs \<Longrightarrow> any_member p gs = Inr (list_ex (in_group p) gs)"
  by (induction gs) (auto simp: is_member_of_ok)

definition targets_ok :: "role_groups \<Rightarrow> system_target \<Rightarrow> bool" where
  "targets_ok rg sys = (group_ok (owner_group sys) \<and> list_all group_ok (viewer_groups sys) \<and>
     (\<forall>entry \<in> set rg. list_all group_ok (snd entry)))"

lemma groups_of_ok: "targets_ok rg sys \<Longrightarrow> list_all group_ok (groups_of rg role)"
  by (auto simp: groups_of_def targets_ok_def split: option.split dest!: map_of_SomeD)

text \<open>The access relation the checks implement.\<close>

definition may_act :: "role_groups \<Rightarrow> principal \<Rightarrow> system_target \<Rightarrow> string \<Rightarrow> bool" where
  "may_act rg p sys role =
     (if role = ''viewer'' then in_group p (owner_group sys) \<or> (\<exists>g \<in> set (viewer_groups sys). in_group p g)
      else (\<exists>g \<in> set (groups_of rg role). in_group p g) \<or>
        role \<in> {''reviewer'', ''system_owner'', ''isso''} \<and> in_group p (owner_group sys))"

lemma require_package_role_decides:
  assumes "targets_ok rg sys"
  shows "require_package_role rg p sys role = (if may_act rg p sys role then Inr () else Inl AuthorizationDenied)"
  using assms any_member_ok [OF groups_of_ok [OF assms], of p role]
  by (auto simp: require_package_role_def require_system_read_access_def require_that_def can_read_system_def
      is_member_of_ok any_member_ok targets_ok_def guardR_def may_act_def principal_has_role_def list_ex_iff)

lemma require_any_decides:
  assumes "targets_ok rg sys"
  shows "require_any_package_role rg p sys roles =
    (if \<exists>role \<in> set roles. may_act rg p sys role then Inr () else Inl AuthorizationDenied)"
  by (induction roles) (auto simp: require_package_role_decides [OF assms])

text \<open>Single-user mode.\<close>

lemma set_extend: "set (fold (\<lambda>g acc. if g \<in> set acc then acc else acc @ [g]) gs acc) = set gs \<union> set acc"
  for gs acc :: "string list"
  by (induction gs arbitrary: acc) auto

lemma set_extend_groups: "set (extend_groups gss) = \<Union> (set (map set gss))"
  by (simp add: extend_groups_def set_extend)

definition single_user_groups :: "role_groups \<Rightarrow> string \<Rightarrow> string set" where
  "single_user_groups rg role =
     (if role \<in> {''approver'', ''ao_custodian''}
      then set (groups_of rg ''system_owner'') \<union> set (groups_of rg ''reviewer'') \<union> set (groups_of rg ''approver'')
      else {})"

lemma groups_of_single_user:
  "set (groups_of (apply_single_user_role_mapping rg) role) = set (groups_of rg role) \<union> single_user_groups rg role"
  by (auto simp: apply_single_user_role_mapping_def Let_def groups_of_def set_extend_groups single_user_groups_def)

lemma single_user_ok:
  assumes "targets_ok rg sys"
  shows "targets_ok (apply_single_user_role_mapping rg) sys"
proof -
  have put: "(\<forall>entry \<in> set d. list_all group_ok (snd entry)) \<Longrightarrow> list_all group_ok gs \<Longrightarrow>
      \<forall>entry \<in> set (dict_put role gs d). list_all group_ok (snd entry)" for d :: role_groups and role gs
    using set_dict_put [of role gs d] by auto
  have extended: "list_all (list_all group_ok) gss \<Longrightarrow> list_all group_ok (extend_groups gss)" for gss
    by (auto simp: list_all_iff set_extend_groups)
  show ?thesis
    using assms unfolding targets_ok_def apply_single_user_role_mapping_def Let_def
    by (intro conjI put extended) (simp_all add: groups_of_ok [OF assms] extended)
qed

lemma may_act_single_user:
  "may_act (apply_single_user_role_mapping rg) p sys role =
     (may_act rg p sys role \<or> (\<exists>g \<in> single_user_groups rg role. in_group p g))"
  by (auto simp: may_act_def groups_of_single_user single_user_groups_def)

text \<open>C39: The role checks decide the access relation: with well-formed group identifiers the check for any of
  some roles passes exactly if the principal may act in one of them (reading needs the owner or a viewer group of
  this very system; the other roles a configured group, three of them also the owner group) and denies otherwise.
  Single-user mode adds exactly one thing: owners and reviewers may approve, and approvers may act as custodians.\<close>

theorem role_checks_decide_access:
  assumes "targets_ok rg sys"
  shows "require_any_package_role rg p sys roles =
      (if \<exists>role \<in> set roles. may_act rg p sys role then Inr () else Inl AuthorizationDenied) \<and>
    require_any_package_role (apply_single_user_role_mapping rg) p sys roles =
      (if \<exists>role \<in> set roles. may_act rg p sys role \<or> (\<exists>g \<in> single_user_groups rg role. in_group p g)
       then Inr () else Inl AuthorizationDenied)"
  using require_any_decides [OF assms] require_any_decides [OF single_user_ok [OF assms]]
  by (simp add: may_act_single_user)

definition ex_target :: system_target where
  "ex_target = \<lparr>owner_group = ''alpha'', viewer_groups = [''beta'']\<rparr>"

definition ex_owner :: principal where
  "ex_owner = \<lparr>actor_id = ''ann'', principal_groups = [''owners'']\<rparr>"

text \<open>A member of the group of owners may edit a package but not approve; in single-user mode it may.\<close>

theorem role_checks_decide_access_witness:
  "require_any_package_role DEFAULT_PACKAGE_ROLE_GROUPS ex_owner ex_target [''approver'', ''ao_custodian''] =
     Inl AuthorizationDenied \<and>
   require_any_package_role (apply_single_user_role_mapping DEFAULT_PACKAGE_ROLE_GROUPS) ex_owner ex_target
     [''approver''] = Inr ()"
proof -
  let ?rg = "DEFAULT_PACKAGE_ROLE_GROUPS"
  have "targets_ok ?rg ex_target" by code_simp
  note decided = role_checks_decide_access [OF this, of ex_owner]
  have "\<not> may_act ?rg ex_owner ex_target ''approver''" "\<not> may_act ?rg ex_owner ex_target ''ao_custodian''"
    by code_simp+
  moreover have "in_group ex_owner ''owners''" by code_simp
  moreover have "''owners'' \<in> single_user_groups ?rg ''approver''"
    by (simp add: single_user_groups_def groups_of_def DEFAULT_PACKAGE_ROLE_GROUPS_def)
  ultimately show ?thesis
    using decided [of "[''approver'', ''ao_custodian'']"] decided [of "[''approver'']"]
    by (auto simp del: require_any_package_role.simps)
qed

end
