(* ===== verification/Idempotency.thy ===== *)
theory Idempotency
  imports AuditTrail Handlers
begin

text \<open>
  Replay-safe requests: the records of \<open>idempotency.py\<close>, keyed by principal, operation and key, and the entity
  tags of \<open>concurrency.py\<close>. SHA-256 is the argument \<open>sha256\<close>, its digest in hexadecimal.
\<close>

section \<open>Secrets in payloads\<close>

datatype request_error =
    IdempotencyValidationError string
  | IdempotencyConflict
  | IdempotencyIntegrity
  | IfMatchRequired
  | EtagMismatch
  | EtagValueError

definition secret_field_words :: "string list" where
  "secret_field_words = [''password'', ''passwd'', ''secret''] @
     concat (map (\<lambda>(a, b). [a @ b, a @ ''_'' @ b, a @ ''-'' @ b])
       [(''api'', ''key''), (''private'', ''key''), (''access'', ''token''), (''refresh'', ''token''), (''auth'', ''token'')]) @
     [''bearer'', ''session'']"

text \<open>A word between underscores or the ends of the name; the end is also before a final newline.\<close>

definition is_secret_field :: "string \<Rightarrow> bool" where
  "is_secret_field k =
     (let s = CHR ''_'' # map to_lower k in
      list_ex (\<lambda>w. contains (CHR ''_'' # w @ ''_'') (s @ ''_'') \<or> contains (CHR ''_'' # w @ ''_'') (chomp s @ ''_''))
        secret_field_words)"

fun reject_obvious_secrets :: "json \<Rightarrow> request_error + unit"
  and reject_secret_items :: "json list \<Rightarrow> request_error + unit"
  and reject_secret_members :: "members \<Rightarrow> request_error + unit" where
  "reject_obvious_secrets (JObj m) = reject_secret_members m"
| "reject_obvious_secrets (JArr xs) = reject_secret_items xs"
| "reject_obvious_secrets (JStr s) =
     guardR (\<not> is_secret_value s) (IdempotencyValidationError ''contains secret-like material'')"
| "reject_obvious_secrets JNull = Inr ()"
| "reject_obvious_secrets (JBool b) = Inr ()"
| "reject_obvious_secrets (JInt n) = Inr ()"
| "reject_obvious_secrets (JFloat t) = Inr ()"
| "reject_secret_items [] = Inr ()"
| "reject_secret_items (x # xs) = bindR (reject_obvious_secrets x) (\<lambda>_. reject_secret_items xs)"
| "reject_secret_members [] = Inr ()"
| "reject_secret_members ((k, v) # m) =
     (if is_secret_field k then Inl (IdempotencyValidationError ''uses a secret-bearing field name'')
      else bindR (reject_obvious_secrets v) (\<lambda>_. reject_secret_members m))"

definition request_json_bytes :: "members \<Rightarrow> request_error + string" where
  "request_json_bytes doc = bindR (reject_obvious_secrets (JObj doc)) (\<lambda>_. Inr (canonical_json_bytes (JObj doc)))"

definition request_digest_from_payload :: "(string \<Rightarrow> string) \<Rightarrow> members \<Rightarrow> request_error + string" where
  "request_digest_from_payload sha256 doc = bindR (request_json_bytes doc) (\<lambda>bytes. Inr (sha256 bytes))"

section \<open>Checks\<close>

definition require_principal :: "string \<Rightarrow> request_error + string" where
  "require_principal s = (if s = [] \<or> 255 < length s
     then Inl (IdempotencyValidationError ''principal must be between 1 and 255 characters'') else Inr s)"

definition require_operation :: "string \<Rightarrow> request_error + string" where
  "require_operation s = (if s = [] \<or> 128 < length s
     then Inl (IdempotencyValidationError ''operation must be between 1 and 128 characters'') else Inr s)"

definition is_key_char :: "char \<Rightarrow> bool" where
  "is_key_char c = (is_alnum c \<or> c \<in> set ''._:-'')"

definition require_idempotency_key :: "string \<Rightarrow> request_error + string" where
  "require_idempotency_key s = (if 16 \<le> length s \<and> length s \<le> 128 \<and> list_all is_key_char s then Inr s
     else Inl (IdempotencyValidationError ''idempotency_key must match the contract idempotency-key pattern''))"

definition require_request_digest :: "string \<Rightarrow> request_error + string" where
  "require_request_digest s = (if is_sha256_hex s then Inr s
     else Inl (IdempotencyValidationError ''request_digest must be a lowercase SHA-256 hex digest''))"

definition require_response_status :: "int \<Rightarrow> request_error + int" where
  "require_response_status n = (if n < 100 \<or> 599 < n
     then Inl (IdempotencyValidationError ''response_status must be between 100 and 599'') else Inr n)"

definition require_response_body :: "members \<Rightarrow> request_error + members" where
  "require_response_body body = bindR (reject_obvious_secrets (JObj body)) (\<lambda>_. Inr body)"

definition FORBIDDEN_RESPONSE_HEADER_NAMES :: "string list" where
  "FORBIDDEN_RESPONSE_HEADER_NAMES = [''authorization'', ''cookie'', ''set-cookie'', ''x-csrf-token'']"

definition is_header_name_char :: "char \<Rightarrow> bool" where
  "is_header_name_char c = (is_alnum c \<or> c \<in> set ''!#$%&*+.^_`|~-'' \<or> c = CHR 0x27)"

definition is_header_value_char :: "char \<Rightarrow> bool" where
  "is_header_value_char c = (c = CHR 0x09 \<or> (CHR 0x20 \<le> c \<and> c \<le> CHR 0x7E))"

definition require_response_header :: "string \<times> string \<Rightarrow> request_error + string \<times> string" where
  "require_response_header h =
     (if fst h = [] then Inl (IdempotencyValidationError ''response header names must be nonempty strings'')
      else if py_lower (fst h) \<in> set FORBIDDEN_RESPONSE_HEADER_NAMES
      then Inl (IdempotencyValidationError ''response header must not be stored'')
      else if \<not> list_all is_header_name_char (fst h)
      then Inl (IdempotencyValidationError ''response header name is not valid'')
      else if \<not> list_all is_header_value_char (snd h)
      then Inl (IdempotencyValidationError ''response header value is not valid'')
      else Inr h)"

definition require_response_headers :: "(string \<times> string) list \<Rightarrow> request_error + (string \<times> string) list" where
  "require_response_headers hs = mapR require_response_header hs"

definition request_aware_utc :: "datetime \<Rightarrow> request_error + instant" where
  "request_aware_utc d = (case d of
     Naive t \<Rightarrow> Inl (IdempotencyValidationError ''now must be a timezone-aware datetime'') | Aware t \<Rightarrow> Inr t)"

section \<open>Records\<close>

definition IDEMPOTENCY_RETENTION :: int where
  "IDEMPOTENCY_RETENTION = 24 * 60 * 60 * 1000000"

record idempotency_record =
  idem_principal :: string
  idem_operation :: string
  idem_key :: string
  idem_digest :: string
  idem_status :: int
  idem_body :: members
  idem_headers :: "(string \<times> string) list"
  idem_created_at :: instant
  idem_expires_at :: instant

record idempotency_replay =
  replay_status :: int
  replay_body :: members
  replay_headers :: "(string \<times> string) list"

definition record_key :: "idempotency_record \<Rightarrow> string \<times> string \<times> string" where
  "record_key r = (idem_principal r, idem_operation r, idem_key r)"

text \<open>Two signed 32-bit numbers from the first eight bytes of the digest.\<close>

definition hex_value :: "string \<Rightarrow> nat" where
  "hex_value s = foldl (\<lambda>n c. 16 * n + (if is_digit c then of_char c - 48 else of_char c - 87)) 0 s"

definition signed_int32 :: "string \<Rightarrow> int" where
  "signed_int32 s = (let n = hex_value s in if n < 2 ^ 31 then int n else int n - 2 ^ 32)"

definition idempotency_advisory_lock_keys ::
  "(string \<Rightarrow> string) \<Rightarrow> string \<Rightarrow> string \<Rightarrow> string \<Rightarrow> int \<times> int" where
  "idempotency_advisory_lock_keys sha256 p operation key =
     (let digest = sha256 (utf8_encode (p @ [CHR 0x00] @ operation @ [CHR 0x00] @ key)) in
      (signed_int32 (take 8 digest), signed_int32 (take 8 (drop 8 digest))))"

text \<open>The advisory lock serialises the requests of one key, so the steps below run one after the other.\<close>

definition load_idempotency_replay ::
  "string \<Rightarrow> string \<Rightarrow> string \<Rightarrow> string \<Rightarrow> datetime \<Rightarrow> idempotency_record list
     \<Rightarrow> request_error + idempotency_record list \<times> idempotency_replay option" where
  "load_idempotency_replay p operation key digest now rows =
     bindR (require_principal p) (\<lambda>p. bindR (require_operation operation) (\<lambda>operation.
     bindR (require_idempotency_key key) (\<lambda>key. bindR (require_request_digest digest) (\<lambda>digest.
     bindR (request_aware_utc now) (\<lambda>t.
     case find (\<lambda>r. record_key r = (p, operation, key)) rows of
       None \<Rightarrow> Inr (rows, None)
     | Some r \<Rightarrow>
         if idem_expires_at r \<le> t then Inr (filter (\<lambda>x. record_key x \<noteq> record_key r) rows, None)
         else if idem_digest r = digest
         then Inr (rows, Some \<lparr>replay_status = idem_status r, replay_body = idem_body r, replay_headers = idem_headers r\<rparr>)
         else Inl IdempotencyConflict)))))"

text \<open>The unique constraint of the table refuses a second record of a key.\<close>

definition record_idempotency_outcome ::
  "string \<Rightarrow> string \<Rightarrow> string \<Rightarrow> string \<Rightarrow> int \<Rightarrow> members \<Rightarrow> (string \<times> string) list \<Rightarrow> datetime
     \<Rightarrow> idempotency_record list \<Rightarrow> request_error + idempotency_record list \<times> unit" where
  "record_idempotency_outcome p operation key digest status body headers now rows =
     bindR (require_principal p) (\<lambda>p. bindR (require_operation operation) (\<lambda>operation.
     bindR (require_idempotency_key key) (\<lambda>key. bindR (require_request_digest digest) (\<lambda>digest.
     bindR (require_response_status status) (\<lambda>status. bindR (require_response_body body) (\<lambda>body.
     bindR (require_response_headers headers) (\<lambda>headers. bindR (request_aware_utc now) (\<lambda>t.
     let r = \<lparr>idem_principal = p, idem_operation = operation, idem_key = key, idem_digest = digest,
       idem_status = status, idem_body = body, idem_headers = headers, idem_created_at = t,
       idem_expires_at = t + IDEMPOTENCY_RETENTION\<rparr> in
     bindR (guardR (record_key r \<notin> record_key ` set rows) IdempotencyIntegrity) (\<lambda>_.
     Inr (rows @ [r], ()))))))))))"

section \<open>Entity tags\<close>

definition format_package_revision_etag :: "int \<Rightarrow> request_error + string" where
  "format_package_revision_etag version =
     (if version < 1 then Inl EtagValueError
      else let token = CHR ''v'' # dec_int version in
        if 128 < length token then Inl EtagValueError else Inr ([CHR 0x22] @ token @ [CHR 0x22]))"

definition parse_package_revision_etag :: "string \<Rightarrow> request_error + int" where
  "parse_package_revision_etag s =
     (if list_ex py_isspace s \<or> is_prefix ''W/'' s \<or> s = ''*'' then Inl EtagValueError
      else let digits = butlast (drop 2 s) in
        if is_prefix [CHR 0x22, CHR ''v''] s \<and> 4 \<le> length s \<and> last s = CHR 0x22 \<and> length digits \<le> 127 \<and>
           list_all is_digit digits \<and> hd digits \<noteq> CHR ''0''
        then Inr (int (dec_val digits)) else Inl EtagValueError)"

definition assert_if_match :: "string option \<Rightarrow> int \<Rightarrow> request_error + unit" where
  "assert_if_match header current =
     (case header of
        None \<Rightarrow> Inl IfMatchRequired
      | Some s \<Rightarrow> (case parse_package_revision_etag s of
            Inl e \<Rightarrow> Inl EtagMismatch | Inr provided \<Rightarrow> guardR (provided = current) EtagMismatch))"

definition etag_header :: "(string \<times> string) list \<Rightarrow> string option" where
  "etag_header hs = map_of hs ''ETag''"

definition replay_etag_from_outcome :: "members \<Rightarrow> (string \<times> string) list \<Rightarrow> request_error + string option" where
  "replay_etag_from_outcome body headers =
     (case etag_header headers of
        Some tag \<Rightarrow> Inr (Some tag)
      | None \<Rightarrow> (case map_of body ''revision_version'' of
            Some (JInt n) \<Rightarrow> if 1 \<le> n then bindR (format_package_revision_etag n) (\<lambda>tag. Inr (Some tag)) else Inr None
          | Some (JBool True) \<Rightarrow> Inl EtagValueError
          | _ \<Rightarrow> Inr None))"

section \<open>Properties\<close>

lemma load_replay_eq:
  assumes "require_principal p = Inr p'" "require_operation op = Inr op'" "require_idempotency_key key = Inr key'"
    and "require_request_digest digest = Inr digest'"
  shows "load_idempotency_replay p op key digest (Aware t) rows =
     (case find (\<lambda>r. record_key r = (p, op, key)) rows of
       None \<Rightarrow> Inr (rows, None)
     | Some r \<Rightarrow>
         if idem_expires_at r \<le> t then Inr (filter (\<lambda>x. record_key x \<noteq> record_key r) rows, None)
         else if idem_digest r = digest
         then Inr (rows, Some \<lparr>replay_status = idem_status r, replay_body = idem_body r, replay_headers = idem_headers r\<rparr>)
         else Inl IdempotencyConflict)"
  using assms
  by (auto simp: load_idempotency_replay_def request_aware_utc_def require_principal_def require_operation_def
      require_idempotency_key_def require_request_digest_def split: if_splits)

lemma response_headers_same: "mapR require_response_header hs = Inr ys \<Longrightarrow> ys = hs"
  by (induction hs arbitrary: ys) (auto simp: result_simps require_response_header_def split: if_splits)

lemma record_outcome_Inr:
  assumes "record_idempotency_outcome p op key digest status body headers (Aware now) rows = Inr (rows', u)"
  obtains r where "rows' = rows @ [r]" and "record_key r = (p, op, key)" and "(p, op, key) \<notin> record_key ` set rows"
    and "idem_digest r = digest" and "idem_status r = status" and "idem_body r = body" and "idem_headers r = headers"
    and "idem_expires_at r = now + IDEMPOTENCY_RETENTION"
    and "require_principal p = Inr p" and "require_operation op = Inr op" and "require_idempotency_key key = Inr key"
    and "require_request_digest digest = Inr digest"
  using assms
  by (auto simp: record_idempotency_outcome_def result_simps Let_def request_aware_utc_def require_principal_def
      require_operation_def require_idempotency_key_def require_request_digest_def require_response_status_def
      require_response_body_def require_response_headers_def record_key_def dest!: response_headers_same split: if_splits)

lemma recorded_replay:
  assumes "record_idempotency_outcome p op key digest status body headers (Aware now) rows = Inr (rows', u)"
    and "require_request_digest digest' = Inr digest'"
  shows "load_idempotency_replay p op key digest' (Aware t) rows' =
      (if now + IDEMPOTENCY_RETENTION \<le> t then Inr (rows, None)
       else if digest' = digest
       then Inr (rows', Some \<lparr>replay_status = status, replay_body = body, replay_headers = headers\<rparr>)
       else Inl IdempotencyConflict) \<and>
    ((p2, op2, key2) \<noteq> (p, op, key) \<longrightarrow>
       find (\<lambda>r. record_key r = (p2, op2, key2)) rows' = find (\<lambda>r. record_key r = (p2, op2, key2)) rows)"
  using assms(1)
proof (rule record_outcome_Inr)
  fix r assume r: "rows' = rows @ [r]" "record_key r = (p, op, key)" "(p, op, key) \<notin> record_key ` set rows"
      "idem_digest r = digest" "idem_status r = status" "idem_body r = body" "idem_headers r = headers"
      "idem_expires_at r = now + IDEMPOTENCY_RETENTION"
    and ok: "require_principal p = Inr p" "require_operation op = Inr op" "require_idempotency_key key = Inr key"
  have none: "find (\<lambda>x. record_key x = (p, op, key)) rows = None" using r(3) by (force simp: find_None_iff)
  have found: "find (\<lambda>x. record_key x = (p, op, key)) rows' = Some r"
    using r none by (simp add: find_append)
  have rest: "filter (\<lambda>x. record_key x \<noteq> record_key r) rows' = rows"
    using r(1-3) by (force simp: filter_id_conv)
  show ?thesis
    using r found rest by (auto simp: load_replay_eq [OF ok assms(2)] find_append split: option.split)
qed

text \<open>C40: A recorded outcome is replayed for a day. After an outcome has been recorded for a principal, an
  operation and a key, the next request with that key gets exactly that outcome if its digest is the same and a
  conflict if it is another one, in both cases without changing the records; once the retention of 24 hours is
  over the record is deleted and the key is free. Requests with another key are not affected.\<close>

theorem recorded_outcome_is_replayed:
  assumes "record_idempotency_outcome p op key digest status body headers (Aware now) rows = Inr (rows', u)"
    and "require_request_digest digest' = Inr digest'"
  shows "load_idempotency_replay p op key digest' (Aware t) rows' =
      (if now + IDEMPOTENCY_RETENTION \<le> t then Inr (rows, None)
       else if digest' = digest
       then Inr (rows', Some \<lparr>replay_status = status, replay_body = body, replay_headers = headers\<rparr>)
       else Inl IdempotencyConflict) \<and>
    ((p2, op2, key2) \<noteq> (p, op, key) \<longrightarrow>
       find (\<lambda>r. record_key r = (p2, op2, key2)) rows' = find (\<lambda>r. record_key r = (p2, op2, key2)) rows)"
  by (rule recorded_replay [OF assms])

lemma dec_nat_dec_val:
  assumes "list_all is_digit ds" and "ds \<noteq> []" and "hd ds \<noteq> CHR ''0''"
  shows "dec_nat (dec_val ds) = ds"
  using assms
proof (induction ds rule: rev_induct)
  case (snoc d ds)
  have d: "digit_val d < 10" "digit_char (digit_val d) = d" using snoc.prems(1) by (simp_all add: digit_val_less digit_char_val)
  show ?case
  proof (cases "ds = []")
    case True
    then show ?thesis using d by (simp add: dec_val_singleton dec_nat.simps [of "digit_val d"])
  next
    case False
    then have ih: "dec_nat (dec_val ds) = ds" using snoc by simp
    have "0 < dec_val ds" using snoc.prems False by (intro dec_val_pos) auto
    then show ?thesis
      using d ih by (simp add: dec_val_snoc dec_nat.simps [of "dec_val ds * 10 + digit_val d"])
  qed
qed simp

lemma digit_not_space: "is_digit c \<Longrightarrow> \<not> py_isspace c"
  by (auto simp: is_digit_def py_isspace_def Let_def)

lemma dec_int_pos: "1 \<le> n \<Longrightarrow> dec_int n = dec_nat (nat n)"
  by (simp add: dec_int_def)

lemma tag_shape:
  assumes "is_prefix [CHR 0x22, CHR ''v''] s" and "4 \<le> length s" and "last s = CHR 0x22"
  shows "s = CHR 0x22 # CHR ''v'' # butlast (drop 2 s) @ [CHR 0x22]" and "butlast (drop 2 s) \<noteq> []"
proof -
  obtain rest where s: "s = CHR 0x22 # CHR ''v'' # rest"
    using assms(1) by (cases s; cases "tl s") auto
  then have "rest \<noteq> []" "last rest = CHR 0x22" "2 \<le> length rest" using assms(2,3) by (auto split: if_splits)
  then show "s = CHR 0x22 # CHR ''v'' # butlast (drop 2 s) @ [CHR 0x22]" "butlast (drop 2 s) \<noteq> []"
    using s append_butlast_last_id [of rest] by (auto simp: butlast_conv_take)
qed

text \<open>Entity tags: a tag is accepted exactly if it is the tag the service writes for the current version, so a
  client that sends back the tag of its response passes and every other spelling of a number is refused.\<close>

theorem if_match_accepts_own_tag:
  "(assert_if_match header v = Inr ()) = (\<exists>tag. header = Some tag \<and> format_package_revision_etag v = Inr tag)"
proof -
  have parsed: "(parse_package_revision_etag s = Inr n) = (format_package_revision_etag n = Inr s)" for s n
  proof
    assume "parse_package_revision_etag s = Inr n"
    then have s: "is_prefix [CHR 0x22, CHR ''v''] s" "4 \<le> length s" "last s = CHR 0x22"
        "length (butlast (drop 2 s)) \<le> 127" "list_all is_digit (butlast (drop 2 s))"
        "hd (butlast (drop 2 s)) \<noteq> CHR ''0''" "n = int (dec_val (butlast (drop 2 s)))"
      by (auto simp: parse_package_revision_etag_def Let_def split: if_splits)
    note shape = tag_shape [OF s(1-3)]
    have "0 < dec_val (butlast (drop 2 s))" by (rule dec_val_pos [OF s(5) shape(2) s(6)])
    then show "format_package_revision_etag n = Inr s"
      using dec_nat_dec_val [OF s(5) shape(2) s(6)] s(4,7) shape(1)
      by (simp add: format_package_revision_etag_def dec_int_def)
  next
    assume "format_package_revision_etag n = Inr s"
    then have n: "1 \<le> n" "length (dec_nat (nat n)) \<le> 127" and s: "s = CHR 0x22 # CHR ''v'' # dec_nat (nat n) @ [CHR 0x22]"
      by (auto simp: format_package_revision_etag_def dec_int_pos Let_def split: if_splits)
    have digits: "list_all is_digit (dec_nat (nat n))" by (rule dec_nat_digits)
    then have "\<not> list_ex py_isspace s"
      using digit_not_space by (auto simp: s list_ex_iff list_all_iff py_isspace_def)
    moreover have "1 \<le> length (dec_nat (nat n))" by (simp add: Suc_le_eq)
    ultimately show "parse_package_revision_etag s = Inr n"
      using n digits dec_nat_hd [of "nat n"] by (simp add: s parse_package_revision_etag_def Let_def)
  qed
  show ?thesis
    by (cases header) (auto simp: assert_if_match_def guardR_def parsed [symmetric] split: sum.split)
qed


section \<open>Witnesses\<close>

definition ex_key :: string where "ex_key = ''request-key-0001''"
definition ex_digest :: string where "ex_digest = replicate 64 CHR ''a''"
definition ex_body :: members where "ex_body = [(''status'', JStr ''ok'')]"

definition ex_row :: idempotency_record where
  "ex_row = \<lparr>idem_principal = ''ann'', idem_operation = ''runs.start'', idem_key = ex_key, idem_digest = ex_digest,
     idem_status = 202, idem_body = ex_body, idem_headers = [], idem_created_at = 0,
     idem_expires_at = IDEMPOTENCY_RETENTION\<rparr>"

lemma ex_recorded:
  "record_idempotency_outcome ''ann'' ''runs.start'' ex_key ex_digest 202 ex_body [] (Aware 0) [] = Inr ([ex_row], ())"
  by code_simp

theorem recorded_outcome_is_replayed_witness:
  "record_idempotency_outcome ''ann'' ''runs.start'' ex_key ex_digest 202 ex_body [] (Aware 0) [] = Inr ([ex_row], ()) \<and>
     load_idempotency_replay ''ann'' ''runs.start'' ex_key ex_digest (Aware 5) [ex_row] =
       Inr ([ex_row], Some \<lparr>replay_status = 202, replay_body = ex_body, replay_headers = []\<rparr>) \<and>
     load_idempotency_replay ''ann'' ''runs.start'' ex_key (replicate 64 CHR ''b'') (Aware 5) [ex_row] = Inl IdempotencyConflict"
proof -
  have digests: "require_request_digest ex_digest = Inr ex_digest"
      "require_request_digest (replicate 64 CHR ''b'') = Inr (replicate 64 CHR ''b'')" "replicate 64 CHR ''b'' \<noteq> ex_digest"
    by code_simp+
  show ?thesis
    using recorded_outcome_is_replayed [OF ex_recorded digests(1), of 5] recorded_outcome_is_replayed [OF ex_recorded digests(2), of 5]
      ex_recorded digests(3) by (simp add: IDEMPOTENCY_RETENTION_def)
qed

end
