(* ===== verification/Pagination.thy ===== *)
theory Pagination
  imports Json Calendar
begin

text \<open>
  Opaque cursors and pages, \<open>pagination.py\<close>: the position of an item is its creation time and identifier,
  written as a JSON document in unpadded base64. The listings of the service ask for the items below the
  position of a cursor, newest first, one more than the page holds. \<open>json.loads\<close> is an argument that
  returns nothing for a text it refuses; identifiers are numbers below \<open>16 ^ 32\<close>.
\<close>

datatype page_error = InvalidPaginationCursor | InvalidPageLimit

section \<open>Page limits\<close>

definition DEFAULT_PAGE_LIMIT :: int where "DEFAULT_PAGE_LIMIT = 50"
definition MIN_PAGE_LIMIT :: int where "MIN_PAGE_LIMIT = 1"
definition MAX_PAGE_LIMIT :: int where "MAX_PAGE_LIMIT = 100"
definition MAX_CURSOR_LENGTH :: nat where "MAX_CURSOR_LENGTH = 2048"
definition MAX_CURSOR_JSON_BYTES :: nat where "MAX_CURSOR_JSON_BYTES = 512"

definition validate_page_limit :: "int option \<Rightarrow> page_error + int" where
  "validate_page_limit limit =
     (case limit of
        None \<Rightarrow> Inr DEFAULT_PAGE_LIMIT
      | Some n \<Rightarrow> if n < MIN_PAGE_LIMIT \<or> MAX_PAGE_LIMIT < n then Inl InvalidPageLimit else Inr n)"

section \<open>Base64\<close>

text \<open>The URL-safe alphabet of \<open>base64.urlsafe_b64encode\<close>; padding is cut off after encoding.\<close>

definition b64_char :: "nat \<Rightarrow> char" where
  "b64_char n =
     (if n < 26 then char_of (n + 65) else if n < 52 then char_of (n + 71)
      else if n < 62 then char_of (n - 4) else if n = 62 then CHR ''-'' else CHR ''_'')"

definition b64_val :: "char \<Rightarrow> nat" where
  "b64_val c =
     (if is_upper c then of_char c - 65 else if is_lower c then of_char c - 71
      else if is_digit c then of_char c + 4 else if c = CHR ''-'' then 62 else 63)"

definition is_b64_char :: "char \<Rightarrow> bool" where
  "is_b64_char c = (is_upper c \<or> is_lower c \<or> is_digit c \<or> c = CHR ''_'' \<or> c = CHR ''-'')"

fun b64_sextets :: "nat list \<Rightarrow> nat list" where
  "b64_sextets [] = []"
| "b64_sextets [a] = [a div 4, a mod 4 * 16]"
| "b64_sextets [a, b] = [a div 4, a mod 4 * 16 + b div 16, b mod 16 * 4]"
| "b64_sextets (a # b # c # r) =
     [a div 4, a mod 4 * 16 + b div 16, b mod 16 * 4 + c div 64, c mod 64] @ b64_sextets r"

text \<open>A single character left over cannot be padded to a group.\<close>

fun b64_bytes :: "nat list \<Rightarrow> nat list option" where
  "b64_bytes [] = Some []"
| "b64_bytes [a] = None"
| "b64_bytes [a, b] = Some [a * 4 + b div 16]"
| "b64_bytes [a, b, c] = Some [a * 4 + b div 16, b mod 16 * 16 + c div 4]"
| "b64_bytes (a # b # c # d # r) =
     (case b64_bytes r of None \<Rightarrow> None
      | Some bs \<Rightarrow> Some ([a * 4 + b div 16, b mod 16 * 16 + c div 4, c mod 4 * 64 + d] @ bs))"

definition urlsafe_b64 :: "string \<Rightarrow> string" where
  "urlsafe_b64 s = map b64_char (b64_sextets (map of_char s))"

definition decode_canonical_urlsafe_base64 :: "string \<Rightarrow> page_error + string" where
  "decode_canonical_urlsafe_base64 cursor =
     (if cursor = [] \<or> \<not> list_all is_b64_char cursor then Inl InvalidPaginationCursor
      else case b64_bytes (map b64_val cursor) of
        None \<Rightarrow> Inl InvalidPaginationCursor
      | Some bs \<Rightarrow> let decoded = map char_of bs in
          if urlsafe_b64 decoded = cursor then Inr decoded else Inl InvalidPaginationCursor)"

section \<open>Times\<close>

text \<open>\<open>isoformat(timespec="microseconds")\<close>, with a fraction of zero cut off.\<close>

definition format_cursor_created_at :: "instant \<Rightarrow> string" where
  "format_cursor_created_at t =
     date_text (zpad 4) t @ CHR ''T'' # clock_text t @
       (if utc_microsecond t = 0 then [] else CHR ''.'' # zpad 6 (utc_microsecond t)) @ ''Z''"

text \<open>\<open>^[0-9]{4}-[0-9]{2}-[0-9]{2}T[0-9]{2}:[0-9]{2}:[0-9]{2}(?:\.[0-9]{1,6})?Z$\<close>\<close>

definition utc_datetime_pattern :: "string \<Rightarrow> bool" where
  "utc_datetime_pattern s =
     (20 \<le> length s \<and>
      list_all (\<lambda>i. if i \<in> set [4, 7] then s ! i = CHR ''-'' else if i = 10 then s ! i = CHR ''T''
        else if i \<in> set [13, 16] then s ! i = CHR '':'' else is_digit (s ! i)) [0..<19] \<and>
      (let rest = drop 19 s; fraction = butlast (drop 1 rest) in
         rest = ''Z'' \<or>
         (hd rest = CHR ''.'' \<and> last rest = CHR ''Z'' \<and> list_all is_digit fraction \<and>
          1 \<le> length fraction \<and> length fraction \<le> 6)))"

definition valid_date :: "nat \<Rightarrow> nat \<Rightarrow> nat \<Rightarrow> bool" where
  "valid_date y m d = (1 \<le> y \<and> y \<le> 9999 \<and> 1 \<le> m \<and> m \<le> 12 \<and> 1 \<le> d \<and> d \<le> days_in_month y m)"

text \<open>\<open>datetime(year, month, day, hour, minute, second, microsecond, tzinfo=timezone.utc)\<close>\<close>

definition utc_datetime :: "nat \<times> nat \<times> nat \<Rightarrow> nat \<times> nat \<times> nat \<Rightarrow> nat \<Rightarrow> instant option" where
  "utc_datetime date clock us =
     (case date of (y, m, d) \<Rightarrow> case clock of (h, mi, s) \<Rightarrow>
        if valid_date y m d \<and> h < 24 \<and> mi < 60 \<and> s < 60 \<and> us < 1000000
        then Some (int (((ymd2ord (y, m, d) - 1) * 86400 + (h * 3600 + mi * 60 + s)) * 1000000 + us)
               - 719162 * 86400000000)
        else None)"

definition parse_cursor_created_at :: "string \<Rightarrow> instant option" where
  "parse_cursor_created_at s =
     (if \<not> utc_datetime_pattern s then None
      else let fraction = butlast (drop 20 s); field = (\<lambda>i w. dec_val (take w (drop i s)));
          us = dec_val (take 6 (fraction @ replicate (6 - length fraction) CHR ''0'')) in
        case utc_datetime (field 0 4, field 5 2, field 8 2) (field 11 2, field 14 2, field 17 2) us of
          None \<Rightarrow> None
        | Some t \<Rightarrow> if fraction \<noteq> rstrip_zeros fraction then None else Some t)"

section \<open>Cursors\<close>

type_synonym cursor_position = "instant \<times> uuid"

definition uuid_v4_pattern :: "string \<Rightarrow> bool" where
  "uuid_v4_pattern s =
     (length s = 36 \<and>
      list_all (\<lambda>i. if i \<in> set [8, 13, 18, 23] then s ! i = CHR ''-'' else is_hex_lower (s ! i)) [0..<36] \<and>
      s ! 14 = CHR ''4'' \<and> s ! 19 \<in> set ''89ab'')"

text \<open>\<open>UUID(item_id)\<close>\<close>

definition uuid_of_str :: "string \<Rightarrow> uuid" where
  "uuid_of_str s = foldl (\<lambda>n c. n * 16 + hex_val c) 0 (filter (\<lambda>c. c \<noteq> CHR ''-'') s)"

definition cursor_payload :: "cursor_position \<Rightarrow> json" where
  "cursor_payload p = JObj [(''created_at'', JStr (format_cursor_created_at (fst p))),
     (''id'', JStr (uuid_str (snd p))), (''v'', JInt 1)]"

definition encode_pagination_cursor :: "cursor_position \<Rightarrow> string" where
  "encode_pagination_cursor p = urlsafe_b64 (canonical_json_bytes (cursor_payload p))"

definition validate_cursor_payload :: "json \<Rightarrow> page_error + cursor_position" where
  "validate_cursor_payload payload =
     (case payload of
        JObj m \<Rightarrow>
          if set (map fst m) \<noteq> {''v'', ''created_at'', ''id''} \<or> map_of m ''v'' \<noteq> Some (JInt 1)
          then Inl InvalidPaginationCursor
          else (case (map_of m ''created_at'', map_of m ''id'') of
              (Some (JStr created), Some (JStr item)) \<Rightarrow>
                if \<not> utc_datetime_pattern created \<or> \<not> uuid_v4_pattern item then Inl InvalidPaginationCursor
                else (case parse_cursor_created_at created of
                    None \<Rightarrow> Inl InvalidPaginationCursor | Some t \<Rightarrow> Inr (t, uuid_of_str item))
            | _ \<Rightarrow> Inl InvalidPaginationCursor)
      | _ \<Rightarrow> Inl InvalidPaginationCursor)"

definition decode_pagination_cursor :: "(string \<Rightarrow> json option) \<Rightarrow> string \<Rightarrow> page_error + cursor_position" where
  "decode_pagination_cursor loads cursor =
     (if cursor = [] \<or> MAX_CURSOR_LENGTH < length cursor then Inl InvalidPaginationCursor
      else bindR (decode_canonical_urlsafe_base64 cursor) (\<lambda>decoded.
        if MAX_CURSOR_JSON_BYTES < length decoded then Inl InvalidPaginationCursor
        else (case loads decoded of None \<Rightarrow> Inl InvalidPaginationCursor | Some payload \<Rightarrow> validate_cursor_payload payload)))"

section \<open>Pages\<close>

text \<open>
  What \<open>list_systems\<close>, \<open>list_package_revisions\<close> and \<open>list_review_comments\<close> ask the database:
  \<open>order_by(created_at.desc(), id.desc()).limit(page_limit + 1)\<close>, below the position of the cursor.
\<close>

definition select_page :: "('r \<Rightarrow> cursor_position) \<Rightarrow> cursor_position option \<Rightarrow> nat \<Rightarrow> 'r list \<Rightarrow> 'r list" where
  "select_page key after n rows =
     take (n + 1) (rev (sort_key key (filter (\<lambda>r. case after of None \<Rightarrow> True | Some p \<Rightarrow> key r < p) rows)))"

definition page_of :: "('r \<Rightarrow> cursor_position) \<Rightarrow> nat \<Rightarrow> 'r list \<Rightarrow> 'r list \<times> string option" where
  "page_of key n selected =
     (if n < length selected then (take n selected, Some (encode_pagination_cursor (key (selected ! (n - 1)))))
      else (selected, None))"

definition list_page ::
  "(string \<Rightarrow> json option) \<Rightarrow> ('r \<Rightarrow> cursor_position) \<Rightarrow> nat \<Rightarrow> 'r list \<Rightarrow> string option
     \<Rightarrow> page_error + 'r list \<times> string option" where
  "list_page loads key n rows cursor =
     bindR (case cursor of None \<Rightarrow> Inr None
        | Some c \<Rightarrow> bindR (decode_pagination_cursor loads c) (\<lambda>p. Inr (Some p))) (\<lambda>after.
     Inr (page_of key n (select_page key after n rows)))"

text \<open>A client that follows the cursors.\<close>

fun follow_pages ::
  "(string \<Rightarrow> json option) \<Rightarrow> ('r \<Rightarrow> cursor_position) \<Rightarrow> nat \<Rightarrow> 'r list \<Rightarrow> nat \<Rightarrow> string option
     \<Rightarrow> page_error + 'r list" where
  "follow_pages loads key n rows 0 cursor = Inr []"
| "follow_pages loads key n rows (Suc fuel) cursor =
     bindR (list_page loads key n rows cursor) (\<lambda>(items, next_cursor).
     case next_cursor of
       None \<Rightarrow> Inr items
     | Some c \<Rightarrow> bindR (follow_pages loads key n rows fuel (Some c)) (\<lambda>more. Inr (items @ more)))"

section \<open>Base64 round trip\<close>

lemma b64_alphabet:
  assumes "n < 64"
  shows "b64_val (b64_char n) = n" "is_b64_char (b64_char n)"
proof -
  consider "n < 26" | "26 \<le> n" "n < 52" | "52 \<le> n" "n < 62" | "n = 62" | "n = 63" using assms by linarith
  then have "b64_val (b64_char n) = n \<and> is_b64_char (b64_char n)"
    by cases (auto simp: b64_char_def b64_val_def is_b64_char_def is_upper_def is_lower_def is_digit_def Let_def)
  then show "b64_val (b64_char n) = n" "is_b64_char (b64_char n)" by simp_all
qed

lemma quotients:
  fixes a :: nat
  assumes "a < 256"
  shows "a div 4 < 64" "a div 16 < 16" "a div 64 < 4" "a mod 4 \<le> 3" "a mod 16 \<le> 15"
proof -
  show "a div 4 < 64" "a div 16 < 16" "a div 64 < 4" using assms by (simp_all add: div_less_iff_less_mult)
  have "a mod 4 < 4" "a mod 16 < 16" by simp_all
  then show "a mod 4 \<le> 3" "a mod 16 \<le> 15" by linarith+
qed

text \<open>Two neighbouring groups of bits, put together and taken apart.\<close>

lemma group_join:
  fixes x y :: nat
  assumes "y < k"
  shows "(x * k + y) div k = x" "(x * k + y) mod k = y"
  using assms by simp_all

lemma sextets_bound: "(\<And>x. x \<in> set bs \<Longrightarrow> x < 256) \<Longrightarrow> x \<in> set (b64_sextets bs) \<Longrightarrow> x < 64"
proof (induction bs rule: b64_sextets.induct)
  case (2 a)
  then show ?case using quotients [of a] by auto
next
  case (3 a b)
  then show ?case using quotients [of a] quotients [of b] by auto
next
  case (4 a b c r)
  then show ?case using quotients [of a] quotients [of b] quotients [of c] by auto
qed simp

lemma first_byte: "b < 256 \<Longrightarrow> a div 4 * 4 + (a mod 4 * 16 + b div 16) div 16 = (a :: nat)"
  using group_join(1) [OF quotients(2), of b "a mod 4"] by simp

lemma second_byte:
  assumes "b < 256" "c < 256"
  shows "(a mod 4 * 16 + b div 16) mod 16 * 16 + (b mod 16 * 4 + c div 64) div 4 = (b :: nat)"
  using group_join(2) [OF quotients(2) [OF assms(1)], of "a mod 4"] group_join(1) [OF quotients(3) [OF assms(2)], of "b mod 16"]
  by simp

lemma third_byte: "c < 256 \<Longrightarrow> (b mod 16 * 4 + c div 64) mod 4 * 64 + c mod 64 = (c :: nat)"
  using group_join(2) [OF quotients(3), of c "b mod 16"] by simp

lemma bytes_sextets: "(\<And>x. x \<in> set bs \<Longrightarrow> x < 256) \<Longrightarrow> b64_bytes (b64_sextets bs) = Some bs"
proof (induction bs rule: b64_sextets.induct)
  case (2 a)
  show ?case using first_byte [of 0 a] by simp
next
  case (3 a b)
  then show ?case using first_byte [of b a] second_byte [of b 0 a] by simp
next
  case (4 a b c r)
  then show ?case using first_byte [of b a] second_byte [of b c a] third_byte [of c b] by simp
qed simp

lemma length_sextets: "length (b64_sextets bs) \<le> 2 * length bs" "bs \<noteq> [] \<Longrightarrow> b64_sextets bs \<noteq> []"
  by (induction bs rule: b64_sextets.induct) auto

lemma decode_urlsafe_b64:
  assumes "s \<noteq> []"
  shows "decode_canonical_urlsafe_base64 (urlsafe_b64 s) = Inr s"
proof -
  let ?bs = "map of_char s :: nat list"
  have bytes: "x < 256" if "x \<in> set ?bs" for x using that by auto
  have small: "x < 64" if "x \<in> set (b64_sextets ?bs)" for x using sextets_bound [of ?bs x] bytes that by blast
  have "list_all is_b64_char (urlsafe_b64 s)"
    using small b64_alphabet(2) by (auto simp: urlsafe_b64_def list_all_iff)
  moreover have "map b64_val (urlsafe_b64 s) = b64_sextets ?bs"
    using small b64_alphabet(1) by (auto simp: urlsafe_b64_def intro!: map_idI)
  moreover have "urlsafe_b64 s \<noteq> []" using length_sextets(2) [of ?bs] assms by (simp add: urlsafe_b64_def)
  moreover have "map char_of ?bs = s" by (simp add: comp_def)
  ultimately show ?thesis
    using bytes_sextets [of ?bs] bytes by (simp add: decode_canonical_urlsafe_base64_def Let_def)
qed

text \<open>Every accepted text is the one its bytes are written as.\<close>

lemma decoded_is_canonical: "decode_canonical_urlsafe_base64 c = Inr s \<Longrightarrow> urlsafe_b64 s = c"
  by (auto simp: decode_canonical_urlsafe_base64_def Let_def split: if_splits option.splits)

section \<open>Printed times\<close>

lemma ordinal_year:
  fixes a b c e :: nat
  assumes "146097 * a + 36524 * b + 1461 * c + 365 * e \<le> 3652058" and "e \<le> 4" and "c \<le> 24" and "b \<le> 4"
  shows "a * 400 + 1 + b * 100 + c * 4 + e \<le> 9999"
proof (cases "a \<le> 23")
  case False
  then have a: "a = 24" using assms(1) by linarith
  show ?thesis
  proof (cases "b \<le> 2")
    case False
    then have b: "b = 3" using assms(1) a by linarith
    show ?thesis
    proof (cases "c \<le> 23")
      case False
      then have "c = 24" "e \<le> 2" using assms a b by linarith+
      then show ?thesis using a b by simp
    qed (use assms a b in linarith)
  qed (use assms a in linarith)
qed (use assms in linarith)

lemma ord2ymd_valid:
  assumes "1 \<le> n" and "n \<le> 3652059" and "ord2ymd n = (y, m, d)"
  shows "valid_date y m d"
proof -
  obtain a b c e r where n: "n - 1 = 146097 * a + 36524 * b + 1461 * c + 365 * e + r"
      and ab: "a = (n - 1) div 146097" "b = (n - 1) mod 146097 div 36524"
      and ce: "c = (n - 1) mod 146097 mod 36524 div 1461"
        "e = (n - 1) mod 146097 mod 36524 mod 1461 div 365"
      and r: "r = (n - 1) mod 146097 mod 36524 mod 1461 mod 365"
      and bounds: "r < 365" "365 * e + r < 1461" "1461 * c + 365 * e + r < 36524"
        "36524 * b + 1461 * c + 365 * e + r < 146097"
    by (rule ordinal_parts [of "n - 1"])
  let ?y = "a * 400 + 1 + b * 100 + c * 4 + e"
  have ord: "ord2ymd n = (if e = 4 \<or> b = 4 then (?y - 1, 12, 31)
      else (?y, month_of_day ?y r, r - days_before_month ?y (month_of_day ?y r) + 1))"
    unfolding ord2ymd_def Let_def ab ce r by (rule refl)
  have le: "e \<le> 4" "c \<le> 24" "b \<le> 4" using bounds by linarith+
  have year: "?y \<le> 9999" using n assms(2) le by (intro ordinal_year) linarith+
  have "r < 365 + (if is_leap ?y then 1 else 0)" using bounds by simp
  note mo = month_of_day_bounds [OF this]
  show ?thesis
    using assms(3) year mo le by (auto simp: ord valid_date_def days_in_month_def split: if_splits)
qed

lemma utc_date_valid:
  assumes "datetime_range t" and "utc_date t = (y, m, d)"
  shows "valid_date y m d"
proof -
  have "utc_total t div 86400000000 < 3652059"
    using assms(1) by (simp add: datetime_range_def div_less_iff_less_mult)
  then show ?thesis
    using assms(2) by (intro ord2ymd_valid [of "utc_total t div 86400000000 + 1"]) (simp_all add: utc_date_def)
qed

lemma utc_clock_valid:
  assumes "utc_clock t = (h, mi, s)"
  shows "h < 24" "mi < 60" "s < 60" "utc_second t = h * 3600 + mi * 60 + s"
proof -
  have sec: "utc_second t < 86400" by (simp add: utc_second_def)
  have eqs: "h = utc_second t div 3600" "mi = utc_second t div 60 mod 60" "s = utc_second t mod 60"
    using assms by (simp_all add: utc_clock_def)
  show "h < 24" using sec by (simp add: eqs(1) div_less_iff_less_mult)
  show "mi < 60" "s < 60" by (simp_all add: eqs)
  have "utc_second t div 3600 = utc_second t div 60 div 60" by (simp add: div_mult2_eq [symmetric])
  moreover have "utc_second t = utc_second t div 60 * 60 + s" by (simp add: eqs)
  moreover have "utc_second t div 60 = utc_second t div 60 div 60 * 60 + mi" by (simp add: eqs)
  ultimately show "utc_second t = h * 3600 + mi * 60 + s" unfolding eqs(1) by linarith
qed

text \<open>The fields of an instant give the instant back.\<close>

lemma utc_datetime_fields:
  assumes "datetime_range t"
  shows "utc_datetime (utc_date t) (utc_clock t) (utc_microsecond t) = Some t"
proof -
  obtain y m d where date: "utc_date t = (y, m, d)" by (metis prod_cases3)
  obtain h mi s where clock: "utc_clock t = (h, mi, s)" by (metis prod_cases3)
  have us: "utc_microsecond t < 1000000" by (simp add: utc_microsecond_def)
  let ?n = "utc_total t"
  have "ymd2ord (y, m, d) = ?n div 86400000000 + 1"
    using ymd2ord_ord2ymd [of "?n div 86400000000 + 1"] by (simp flip: date add: utc_date_def)
  moreover have "?n = (?n div 86400000000 * 86400 + utc_second t) * 1000000 + utc_microsecond t"
  proof -
    have "?n div 86400000000 = ?n div 1000000 div 86400" by (simp add: div_mult2_eq [symmetric])
    moreover have "?n = ?n div 1000000 * 1000000 + ?n mod 1000000" by simp
    moreover have "?n div 1000000 = ?n div 1000000 div 86400 * 86400 + ?n div 1000000 mod 86400" by simp
    ultimately show ?thesis by (simp add: utc_second_def utc_microsecond_def)
  qed
  moreover have "int ?n = t + 719162 * 86400000000"
    using assms by (simp add: utc_total_def datetime_range_def)
  ultimately show ?thesis
    using utc_date_valid [OF assms date] utc_clock_valid [OF clock] us by (simp add: utc_datetime_def date clock)
qed

lemma length4: "length s = 4 \<Longrightarrow> \<exists>a b c d. s = [a, b, c, d]"
  by (simp add: numeral_eq_Suc length_Suc_conv) blast

lemma length2: "length s = 2 \<Longrightarrow> \<exists>a b. s = [a, b]"
  by (simp add: numeral_eq_Suc length_Suc_conv) blast

lemma date_length:
  assumes "datetime_range t" and "utc_date t = (y, m, d)"
  shows "length (zpad 4 y) = 4" "length (zpad 2 m) = 2" "length (zpad 2 d) = 2"
proof -
  have valid: "valid_date y m d" by (rule utc_date_valid [OF assms])
  then have "1 \<le> m" "m \<le> 12" by (simp_all add: valid_date_def)
  from month_cases [OF this] have "days_in_month y m \<le> 31"
    by (elim insertE) (simp_all add: days_in_month_def)
  with valid show "length (zpad 4 y) = 4" "length (zpad 2 m) = 2" "length (zpad 2 d) = 2"
    by (intro length_zpad; simp add: valid_date_def)+
qed

text \<open>A printed time, character by character.\<close>

lemma printed_time:
  assumes "datetime_range t" and "utc_date t = (y, m, d)" and "utc_clock t = (h, mi, s)"
  obtains a b c e m1 m2 d1 d2 h1 h2 i1 i2 s1 s2 where
    "date_text (zpad 4) t @ CHR ''T'' # clock_text t @ rest = [a, b, c, e, CHR ''-'', m1, m2, CHR ''-'', d1, d2, CHR ''T'',
       h1, h2, CHR '':'', i1, i2, CHR '':'', s1, s2] @ rest"
    and "zpad 4 y = [a, b, c, e]" "zpad 2 m = [m1, m2]" "zpad 2 d = [d1, d2]"
    and "zpad 2 h = [h1, h2]" "zpad 2 mi = [i1, i2]" "zpad 2 s = [s1, s2]"
    and "list_all is_digit [a, b, c, e, m1, m2, d1, d2, h1, h2, i1, i2, s1, s2]"
proof -
  note len = date_length [OF assms(1,2)]
  note cl = utc_clock_valid [OF assms(3)]
  have two: "length (zpad 2 h) = 2" "length (zpad 2 mi) = 2" "length (zpad 2 s) = 2"
    using cl by (intro length_zpad; simp)+
  obtain a b c e where f1: "zpad 4 y = [a, b, c, e]" using length4 [OF len(1)] by blast
  obtain m1 m2 d1 d2 where f2: "zpad 2 m = [m1, m2]" "zpad 2 d = [d1, d2]"
    using length2 [OF len(2)] length2 [OF len(3)] by blast
  obtain h1 h2 i1 i2 s1 s2 where f3: "zpad 2 h = [h1, h2]" "zpad 2 mi = [i1, i2]" "zpad 2 s = [s1, s2]"
    using length2 [OF two(1)] length2 [OF two(2)] length2 [OF two(3)] by blast
  have "list_all is_digit (zpad 4 y @ zpad 2 m @ zpad 2 d @ zpad 2 h @ zpad 2 mi @ zpad 2 s)" by simp
  then have digits: "list_all is_digit [a, b, c, e, m1, m2, d1, d2, h1, h2, i1, i2, s1, s2]" by (simp add: f1 f2 f3)
  show ?thesis
    by (rule that [OF _ f1 f2 f3 digits]) (simp add: date_text_def clock_text_def assms(2,3) f1 f2 f3)
qed

definition cursor_precision :: "instant \<Rightarrow> bool" where
  "cursor_precision t = (utc_microsecond t = 0 \<or> utc_microsecond t mod 10 \<noteq> 0)"

lemma fraction_canonical:
  assumes "list_all is_digit f" and "f \<noteq> []"
  shows "f = rstrip_zeros f \<longleftrightarrow> dec_val f mod 10 \<noteq> 0"
proof -
  obtain g x where f: "f = g @ [x]" using assms(2) by (metis rev_exhaust)
  have x: "is_digit x" using assms(1) by (simp add: f)
  have "f = rstrip_zeros f \<longleftrightarrow> x \<noteq> CHR ''0''"
  proof (cases "x = CHR ''0''")
    case True
    have "length (rstrip_zeros f) \<le> length g"
      using length_dropWhile_le [of "\<lambda>c. c = CHR ''0''" "rev g"] by (simp add: rstrip_char_def f True)
    then have "length (rstrip_zeros f) < length f" by (simp add: f)
    then have "f \<noteq> rstrip_zeros f" by (rule contrapos_pn) (erule arg_cong [THEN eq_refl, THEN leD])
    then show ?thesis using True by simp
  qed (simp add: rstrip_char_def f)
  moreover have "x = CHR ''0'' \<longleftrightarrow> digit_val x = 0"
    using digit_char_val [OF x] by (auto simp: digit_val_def digit_char_zero)
  moreover have "dec_val f mod 10 = digit_val x" using digit_val_less [OF x] by (simp add: f)
  ultimately show ?thesis by simp
qed

lemma upt_19: "[0..<19] = [0, 1, 2, 3, 4, 5, 6, 7, 8, 9, 10, 11, 12, 13, 14, 15, 16, 17, 18]"
  by (simp add: upt_rec)

lemma formatted_pattern:
  assumes "datetime_range t"
  shows "utc_datetime_pattern (format_cursor_created_at t)"
proof -
  obtain y m d where date: "utc_date t = (y, m, d)" by (metis prod_cases3)
  obtain h mi s where clock: "utc_clock t = (h, mi, s)" by (metis prod_cases3)
  let ?rest = "(if utc_microsecond t = 0 then [] else CHR ''.'' # zpad 6 (utc_microsecond t)) @ ''Z''"
  have "length (zpad 6 (utc_microsecond t)) = 6" by (intro length_zpad) (simp_all add: utc_microsecond_def)
  then have rest: "?rest = ''Z'' \<or> hd ?rest = CHR ''.'' \<and> last ?rest = CHR ''Z'' \<and>
      list_all is_digit (butlast (drop 1 ?rest)) \<and> 1 \<le> length (butlast (drop 1 ?rest)) \<and> length (butlast (drop 1 ?rest)) \<le> 6"
    by auto
  obtain a b c e m1 m2 d1 d2 h1 h2 i1 i2 s1 s2 where
    shape: "date_text (zpad 4) t @ CHR ''T'' # clock_text t @ ?rest = [a, b, c, e, CHR ''-'', m1, m2, CHR ''-'', d1, d2, CHR ''T'',
       h1, h2, CHR '':'', i1, i2, CHR '':'', s1, s2] @ ?rest"
    and digits: "list_all is_digit [a, b, c, e, m1, m2, d1, d2, h1, h2, i1, i2, s1, s2]"
    by (rule printed_time [OF assms date clock, of ?rest]) blast
  have form: "format_cursor_created_at t = [a, b, c, e, CHR ''-'', m1, m2, CHR ''-'', d1, d2, CHR ''T'',
       h1, h2, CHR '':'', i1, i2, CHR '':'', s1, s2] @ ?rest"
    using shape by (simp only: format_cursor_created_at_def append_assoc)
  show ?thesis
    unfolding form utc_datetime_pattern_def Let_def using digits rest by (simp add: upt_19)
qed

lemma parse_formatted:
  assumes "datetime_range t"
  shows "parse_cursor_created_at (format_cursor_created_at t) = (if cursor_precision t then Some t else None)"
proof -
  let ?us = "utc_microsecond t"
  obtain y m d where date: "utc_date t = (y, m, d)" by (metis prod_cases3)
  obtain h mi s where clock: "utc_clock t = (h, mi, s)" by (metis prod_cases3)
  have us: "?us < 1000000" by (simp add: utc_microsecond_def)
  then have six: "length (zpad 6 ?us) = 6" by (intro length_zpad) simp_all
  define rest where "rest = (if ?us = 0 then [] else CHR ''.'' # zpad 6 ?us) @ ''Z''"
  obtain a b c e m1 m2 d1 d2 h1 h2 i1 i2 s1 s2 where
    shape: "date_text (zpad 4) t @ CHR ''T'' # clock_text t @ rest = [a, b, c, e, CHR ''-'', m1, m2, CHR ''-'', d1, d2, CHR ''T'',
       h1, h2, CHR '':'', i1, i2, CHR '':'', s1, s2] @ rest"
    and f: "zpad 4 y = [a, b, c, e]" "zpad 2 m = [m1, m2]" "zpad 2 d = [d1, d2]"
      "zpad 2 h = [h1, h2]" "zpad 2 mi = [i1, i2]" "zpad 2 s = [s1, s2]"
    by (rule printed_time [OF assms date clock, of rest]) blast
  have form: "format_cursor_created_at t = [a, b, c, e, CHR ''-'', m1, m2, CHR ''-'', d1, d2, CHR ''T'',
       h1, h2, CHR '':'', i1, i2, CHR '':'', s1, s2] @ rest"
    using shape by (simp only: format_cursor_created_at_def rest_def append_assoc)
  define fraction where "fraction = butlast (drop 20 (format_cursor_created_at t))"
  have frac: "fraction = (if ?us = 0 then [] else zpad 6 ?us)"
    by (simp add: fraction_def form rest_def)
  have padded: "dec_val (take 6 (fraction @ replicate (6 - length fraction) CHR ''0'')) = ?us"
    using six dec_val_zeros [of 6 "[]"] by (simp add: frac)
  have canonical: "fraction \<noteq> rstrip_zeros fraction \<longleftrightarrow> \<not> cursor_precision t"
  proof (cases "?us = 0")
    case False
    have "zpad 6 ?us \<noteq> []" using six by fastforce
    from fraction_canonical [OF zpad_digits this] show ?thesis using False by (simp add: frac cursor_precision_def)
  qed (simp add: frac cursor_precision_def rstrip_char_def)
  have vals: "dec_val [a, b, c, e] = y" "dec_val [m1, m2] = m" "dec_val [d1, d2] = d" "dec_val [h1, h2] = h"
      "dec_val [i1, i2] = mi" "dec_val [s1, s2] = s"
    by (simp_all flip: f)
  have fields: "dec_val (take 4 (drop 0 (format_cursor_created_at t))) = y" "dec_val (take 2 (drop 5 (format_cursor_created_at t))) = m"
      "dec_val (take 2 (drop 8 (format_cursor_created_at t))) = d" "dec_val (take 2 (drop 11 (format_cursor_created_at t))) = h"
      "dec_val (take 2 (drop 14 (format_cursor_created_at t))) = mi" "dec_val (take 2 (drop 17 (format_cursor_created_at t))) = s"
    unfolding form by (simp_all add: vals)
  show ?thesis
    using utc_datetime_fields [OF assms] formatted_pattern [OF assms]
    unfolding parse_cursor_created_at_def Let_def fraction_def [symmetric] padded fields canonical date clock by simp
qed

section \<open>Cursors read back\<close>

lemma foldl_hex_digits: "foldl (\<lambda>n c. n * 16 + hex_val c) 0 (hex_digits w n) = n mod 16 ^ w"
proof (induction w arbitrary: n)
  case (Suc w)
  have "n mod (16 * 16 ^ w) = 16 * (n div 16 mod 16 ^ w) + n mod 16" by (rule mod_mult2_eq)
  then show ?case using Suc by (simp add: mult.commute)
qed simp

lemma hex_char_range:
  assumes "d < 16"
  shows "(of_char (hex_char d) :: nat) \<in> {48..57} \<union> {97..102}"
  using assms by (simp add: hex_char_def)

lemma hex_digits_range: "c \<in> set (hex_digits w n) \<Longrightarrow> (of_char c :: nat) \<in> {48..57} \<union> {97..102}"
proof (induction w arbitrary: n)
  case (Suc w)
  then show ?case using hex_char_range [of "n mod 16"] by (cases "c = hex_char (n mod 16)") auto
qed simp

lemma hex_digits_no_dash:
  assumes "c \<in> set (hex_digits w n)"
  shows "c \<noteq> CHR ''-''"
proof
  assume "c = CHR ''-''"
  then have "(of_char CHR ''-'' :: nat) \<in> {48..57} \<union> {97..102}" using hex_digits_range [OF assms] by simp
  then show False by simp
qed

lemma uuid_of_uuid_str: "i < 16 ^ 32 \<Longrightarrow> uuid_of_str (uuid_str i) = i"
proof -
  assume i: "i < 16 ^ 32"
  let ?h = "hex_digits 32 i"
  have keep: "filter (\<lambda>c. c \<noteq> CHR ''-'') s = s" if "set s \<subseteq> set ?h" for s
    using that hex_digits_no_dash by (intro filter_True) blast
  have parts: "set (take n (drop k ?h)) \<subseteq> set ?h" "set (drop k ?h) \<subseteq> set ?h" "set (take n ?h) \<subseteq> set ?h" for n k
    using set_take_subset set_drop_subset by fast+
  have "?h = take 8 ?h @ take 4 (drop 8 ?h) @ take 4 (drop 12 ?h) @ take 4 (drop 16 ?h) @ drop 20 ?h"
  proof -
    have "drop k ?h = take 4 (drop k ?h) @ drop (k + 4) ?h" for k
      using append_take_drop_id [of 4 "drop k ?h"] by (simp add: add.commute)
    from this [of 8] this [of 12] this [of 16] show ?thesis using append_take_drop_id [of 8 ?h] by simp
  qed
  then have "filter (\<lambda>c. c \<noteq> CHR ''-'') (uuid_str i) = ?h"
    by (simp add: uuid_str_def Let_def keep parts)
  then show ?thesis using i foldl_hex_digits [of 32 i] by (simp add: uuid_of_str_def)
qed

text \<open>The characters of a cursor document are written as they are.\<close>

definition plain_char :: "char \<Rightarrow> bool" where
  "plain_char c = (let n = (of_char c :: nat) in 32 \<le> n \<and> n < 127 \<and> n \<noteq> 34 \<and> n \<noteq> 92)"

lemma utf8_ascii: "list_all (\<lambda>c. (of_char c :: nat) < 128) s \<Longrightarrow> utf8_encode s = s"
proof (induction s)
  case (Cons c s)
  then have "utf8_char c = [c]" by (simp add: utf8_char_def Let_def)
  then show ?case using Cons by (simp add: utf8_encode_def)
qed (simp add: utf8_encode_def)

lemma not_plain: "\<not> plain_char CHR 0x22" "\<not> plain_char CHR 0x5C" "\<not> plain_char CHR 0x0A" "\<not> plain_char CHR 0x0D"
  "\<not> plain_char CHR 0x09" "\<not> plain_char CHR 0x0C" "\<not> plain_char CHR 0x08"
  by (simp_all add: plain_char_def)

lemma escape_plain:
  assumes "plain_char c"
  shows "escape_char c = [c]"
proof -
  have "\<not> (of_char c :: nat) < 32" using assms by (simp add: plain_char_def Let_def)
  moreover have "c \<noteq> CHR 0x22" "c \<noteq> CHR 0x5C" "c \<noteq> CHR 0x0A" "c \<noteq> CHR 0x0D" "c \<noteq> CHR 0x09" "c \<noteq> CHR 0x0C"
      "c \<noteq> CHR 0x08"
    using assms not_plain by metis+
  ultimately show ?thesis unfolding escape_char_def by (simp only: if_False)
qed

lemma quote_plain: "list_all plain_char s \<Longrightarrow> quote_string s = CHR 0x22 # s @ [CHR 0x22]"
  by (induction s) (auto simp: quote_string_def escape_plain)

lemma digit_plain: "is_digit c \<Longrightarrow> plain_char c"
  by (auto simp: is_digit_def plain_char_def Let_def)

lemma plain_ascii: "plain_char c \<Longrightarrow> (of_char c :: nat) < 128"
  by (simp add: plain_char_def Let_def)

lemma uuid_plain: "list_all plain_char (uuid_str i)"
proof -
  have hex: "plain_char c" if "c \<in> set (hex_digits 32 i)" for c
    using hex_digits_range [OF that] by (auto simp: plain_char_def Let_def)
  have "plain_char CHR ''-''" by (simp add: plain_char_def)
  moreover have "plain_char c" if "c \<in> set (take n (drop k (hex_digits 32 i)))" for c n k
    using hex that by (meson in_set_dropD in_set_takeD)
  ultimately show ?thesis
    using hex by (auto simp: uuid_str_def Let_def list_all_iff dest: in_set_takeD in_set_dropD)
qed

lemma length_uuid_str: "length (uuid_str i) = 36"
  by (simp add: uuid_str_def Let_def)

lemma format_plain:
  assumes "datetime_range t"
  shows "list_all plain_char (format_cursor_created_at t)" "length (format_cursor_created_at t) \<le> 27"
proof -
  obtain y m d where date: "utc_date t = (y, m, d)" by (metis prod_cases3)
  obtain h mi s where clock: "utc_clock t = (h, mi, s)" by (metis prod_cases3)
  define rest where "rest = (if utc_microsecond t = 0 then [] else CHR ''.'' # zpad 6 (utc_microsecond t)) @ ''Z''"
  have "length (zpad 6 (utc_microsecond t)) = 6" by (intro length_zpad) (simp_all add: utc_microsecond_def)
  then have len: "length rest \<le> 8" by (simp add: rest_def)
  have plain: "plain_char CHR ''-''" "plain_char CHR '':''" "plain_char CHR ''T''" "plain_char CHR ''Z''" "plain_char CHR ''.''"
    by (simp_all add: plain_char_def)
  have "list_all is_digit (zpad 6 (utc_microsecond t))" by simp
  then have rest: "list_all plain_char rest" using plain digit_plain by (auto simp: rest_def list_all_iff)
  obtain a b c e m1 m2 d1 d2 h1 h2 i1 i2 s1 s2 where
    shape: "date_text (zpad 4) t @ CHR ''T'' # clock_text t @ rest = [a, b, c, e, CHR ''-'', m1, m2, CHR ''-'', d1, d2, CHR ''T'',
       h1, h2, CHR '':'', i1, i2, CHR '':'', s1, s2] @ rest"
    and digits: "list_all is_digit [a, b, c, e, m1, m2, d1, d2, h1, h2, i1, i2, s1, s2]"
    by (rule printed_time [OF assms date clock, of rest]) blast
  have form: "format_cursor_created_at t = [a, b, c, e, CHR ''-'', m1, m2, CHR ''-'', d1, d2, CHR ''T'',
       h1, h2, CHR '':'', i1, i2, CHR '':'', s1, s2] @ rest"
    using shape by (simp only: format_cursor_created_at_def rest_def append_assoc)
  show "list_all plain_char (format_cursor_created_at t)"
    using digits rest plain digit_plain by (simp add: form)
  show "length (format_cursor_created_at t) \<le> 27" using len by (simp add: form)
qed

lemma canon_cursor_payload: "canon (cursor_payload p) = cursor_payload p"
  by (simp add: cursor_payload_def)

lemma cursor_bytes:
  assumes "datetime_range t"
  shows "canonical_json_bytes (cursor_payload (t, i)) \<noteq> []"
    and "length (canonical_json_bytes (cursor_payload (t, i))) \<le> 112"
proof -
  let ?d = "dump (cursor_payload (t, i))"
  have one: "dec_int 1 = ''1''" by code_simp
  have d: "?d = ''{\"created_at\":\"'' @ format_cursor_created_at t @ ''\",\"id\":\"'' @ uuid_str i @ ''\",\"v\":1}''"
    using format_plain(1) [OF assms] uuid_plain [of i]
    by (simp add: cursor_payload_def quote_plain plain_char_def one)
  have "list_all (\<lambda>c. (of_char c :: nat) < 128) ?d"
    using format_plain(1) [OF assms] uuid_plain [of i] plain_ascii by (auto simp: d list_all_iff)
  then have "canonical_json_bytes (cursor_payload (t, i)) = ?d"
    by (simp only: canonical_json_bytes_def canon_cursor_payload utf8_ascii)
  then show "canonical_json_bytes (cursor_payload (t, i)) \<noteq> []"
      "length (canonical_json_bytes (cursor_payload (t, i))) \<le> 112"
    using format_plain(2) [OF assms] by (simp_all add: d length_uuid_str)
qed

text \<open>What the service needs of the position of an item for a cursor to it to be read back.\<close>

definition position_ok :: "(string \<Rightarrow> json option) \<Rightarrow> cursor_position \<Rightarrow> bool" where
  "position_ok loads p =
     (datetime_range (fst p) \<and> snd p < 16 ^ 32 \<and> uuid_v4_pattern (uuid_str (snd p)) \<and>
      loads (canonical_json_bytes (cursor_payload p)) = Some (cursor_payload p))"

lemma decode_encoded:
  assumes "position_ok loads p"
  shows "decode_pagination_cursor loads (encode_pagination_cursor p) =
    (if cursor_precision (fst p) then Inr p else Inl InvalidPaginationCursor)"
proof -
  obtain t i where p: "p = (t, i)" by (cases p)
  let ?bytes = "canonical_json_bytes (cursor_payload (t, i))"
  have t: "datetime_range t" and i: "i < 16 ^ 32" "uuid_v4_pattern (uuid_str i)"
    and loads: "loads ?bytes = Some (cursor_payload (t, i))"
    using assms by (simp_all add: position_ok_def p)
  note bytes = cursor_bytes [OF t, of i]
  have "length (urlsafe_b64 ?bytes) \<le> 2 * length ?bytes"
    using length_sextets(1) [of "map of_char ?bytes :: nat list"] by (simp add: urlsafe_b64_def)
  then have len: "length (urlsafe_b64 ?bytes) \<le> MAX_CURSOR_LENGTH" "length ?bytes \<le> MAX_CURSOR_JSON_BYTES"
    using bytes(2) by (simp_all add: MAX_CURSOR_LENGTH_def MAX_CURSOR_JSON_BYTES_def)
  have decoded: "decode_canonical_urlsafe_base64 (urlsafe_b64 ?bytes) = Inr ?bytes"
    by (rule decode_urlsafe_b64 [OF bytes(1)])
  then have nonempty: "urlsafe_b64 ?bytes \<noteq> []" by (auto simp: decode_canonical_urlsafe_base64_def)
  have "validate_cursor_payload (cursor_payload (t, i)) =
      (case parse_cursor_created_at (format_cursor_created_at t) of
         None \<Rightarrow> Inl InvalidPaginationCursor | Some t' \<Rightarrow> Inr (t', uuid_of_str (uuid_str i)))"
    using formatted_pattern [OF t] i(2) by (auto simp: validate_cursor_payload_def cursor_payload_def)
  then have "validate_cursor_payload (cursor_payload (t, i)) =
      (if cursor_precision t then Inr (t, i) else Inl InvalidPaginationCursor)"
    by (simp add: parse_formatted [OF t] uuid_of_uuid_str [OF i(1)])
  then show ?thesis
    using len nonempty
    by (simp add: p decode_pagination_cursor_def encode_pagination_cursor_def decoded loads not_less)
qed

section \<open>Walking the pages\<close>

definition below :: "('r \<Rightarrow> cursor_position) \<Rightarrow> cursor_position option \<Rightarrow> 'r \<Rightarrow> bool" where
  "below key after r = (case after of None \<Rightarrow> True | Some p \<Rightarrow> key r < p)"

definition newest_first :: "('r \<Rightarrow> cursor_position) \<Rightarrow> 'r list \<Rightarrow> 'r list" where
  "newest_first key rows = rev (sort_key key rows)"

lemma newest_first_set [simp]: "set (newest_first key rows) = set rows" "length (newest_first key rows) = length rows"
  by (simp_all add: newest_first_def)

lemma newest_first_filter: "newest_first key (filter P rows) = filter P (newest_first key rows)"
  by (simp add: newest_first_def filter_sort [symmetric] rev_filter)

lemma newest_first_descends:
  assumes "distinct (map key rows)"
  shows "sorted_wrt (\<lambda>x y. key y < key x) (newest_first key rows)"
proof -
  have "distinct (map key (sort_key key rows))" using assms by (simp add: distinct_map_sort_key)
  then have "sorted_wrt (<) (map key (sort_key key rows))" by (simp add: strict_sorted_iff)
  then show ?thesis by (simp add: newest_first_def sorted_wrt_rev sorted_wrt_map)
qed

lemma filter_below_nth:
  assumes "sorted_wrt (\<lambda>x y. key y < (key x :: cursor_position)) l" and "m < length l"
  shows "filter (\<lambda>r. key r < key (l ! m)) l = drop (Suc m) l"
proof -
  have "filter (\<lambda>r. key r < key (l ! m)) (take (Suc m) l) = []"
  proof -
    have "\<not> key x < key (l ! m)" if "x \<in> set (take (Suc m) l)" for x
    proof -
      from that obtain j where j: "j < Suc m" "x = l ! j" using assms(2) by (auto simp: in_set_conv_nth)
      show ?thesis
      proof (cases "j = m")
        case False
        then have "key (l ! m) < key (l ! j)" using j(1) assms by (simp add: sorted_wrt_iff_nth_less)
        then show ?thesis by (simp add: j(2))
      qed (simp add: j(2))
    qed
    then show ?thesis by (auto simp: filter_empty_conv)
  qed
  moreover have "filter (\<lambda>r. key r < key (l ! m)) (drop (Suc m) l) = drop (Suc m) l"
  proof (rule filter_True, rule ballI)
    fix x assume "x \<in> set (drop (Suc m) l)"
    then obtain j where "j < length l - Suc m" "x = l ! (Suc m + j)" by (auto simp: in_set_conv_nth)
    then show "key x < key (l ! m)" using assms by (auto simp: sorted_wrt_iff_nth_less)
  qed
  ultimately show ?thesis by (metis append.left_neutral append_take_drop_id filter_append)
qed

lemma below_narrows:
  "below key after (r :: 'r) \<Longrightarrow> filter (below key (Some (key r))) (filter (below key after) rows) = filter (below key (Some (key r))) rows"
  by (auto simp: below_def filter_filter intro!: filter_cong split: option.splits)

definition cursor_at :: "cursor_position option \<Rightarrow> string option" where
  "cursor_at after = map_option encode_pagination_cursor after"

lemma list_page_at:
  assumes "\<And>p. after = Some p \<Longrightarrow> position_ok loads p \<and> cursor_precision (fst p)"
  shows "list_page loads key n rows (cursor_at after) =
    Inr (page_of key n (take (n + 1) (newest_first key (filter (below key after) rows))))"
  using assms
  by (cases after) (auto simp: list_page_def cursor_at_def select_page_def newest_first_def below_def [abs_def] decode_encoded)

lemma follow_from:
  assumes "distinct (map key rows)" and "1 \<le> n"
    and "\<And>r. r \<in> set rows \<Longrightarrow> position_ok loads (key r) \<and> cursor_precision (fst (key r))"
  shows "(\<And>p. after = Some p \<Longrightarrow> \<exists>r \<in> set rows. p = key r) \<Longrightarrow>
    length (filter (below key after) rows) < fuel \<Longrightarrow>
    follow_pages loads key n rows fuel (cursor_at after) = Inr (newest_first key (filter (below key after) rows))"
proof (induction fuel arbitrary: after)
  case (Suc fuel)
  let ?l = "newest_first key (filter (below key after) rows)"
  have page: "list_page loads key n rows (cursor_at after) = Inr (page_of key n (take (n + 1) ?l))"
    by (rule list_page_at) (use Suc.prems(1) assms(3) in blast)
  show ?case
  proof (cases "length ?l \<le> n")
    case True
    then show ?thesis by (simp add: page page_of_def)
  next
    case False
    let ?r = "?l ! (n - 1)"
    have n: "n - 1 < length ?l" using False assms(2) by simp
    then have r: "?r \<in> set rows" "below key after ?r" using nth_mem [OF n] by auto
    have next_page: "page_of key n (take (n + 1) ?l) = (take n ?l, cursor_at (Some (key ?r)))"
      using False assms(2) by (simp add: page_of_def cursor_at_def)
    have desc: "sorted_wrt (\<lambda>x y. key y < key x) ?l"
      using assms(1) by (intro newest_first_descends) (simp add: distinct_map_filter)
    have rest: "newest_first key (filter (below key (Some (key ?r))) rows) = drop n ?l"
    proof -
      have "newest_first key (filter (below key (Some (key ?r))) rows) = filter (below key (Some (key ?r))) ?l"
        by (simp only: newest_first_filter [symmetric] below_narrows [OF r(2)])
      also have "\<dots> = drop (Suc (n - 1)) ?l"
        using filter_below_nth [OF desc n] by (simp add: below_def [abs_def])
      finally show ?thesis using assms(2) by simp
    qed
    have "length (filter (below key (Some (key ?r))) rows) = length (drop n ?l)"
      using arg_cong [OF rest, of length] by simp
    then have "length (filter (below key (Some (key ?r))) rows) < fuel" using Suc.prems(2) False assms(2) by simp
    with r have "follow_pages loads key n rows fuel (cursor_at (Some (key ?r))) = Inr (drop n ?l)"
      using Suc.IH [of "Some (key ?r)"] rest by auto
    moreover have "cursor_at (Some (key ?r)) = Some (encode_pagination_cursor (key ?r))" by (simp add: cursor_at_def)
    ultimately show ?thesis using next_page by (simp add: page)
  qed
qed simp

section \<open>Properties\<close>

text \<open>C38: A cursor the service hands out is read back as the position it was made from exactly if the microseconds
  of the creation time are zero or do not end in zero. The encoder writes all six digits, the decoder refuses a
  fraction with a trailing zero, so a listing whose page happens to end at another time answers its own cursor
  with an error.\<close>

theorem cursor_reads_back:
  assumes "position_ok loads p"
  shows "decode_pagination_cursor loads (encode_pagination_cursor p) =
    (if utc_microsecond (fst p) = 0 \<or> utc_microsecond (fst p) mod 10 \<noteq> 0 then Inr p else Inl InvalidPaginationCursor)"
  using decode_encoded [OF assms] by (simp add: cursor_precision_def)

text \<open>C37: Following the cursors lists every item once. From the first page, with any page size, a client that
  passes on each cursor gets all items, newest first, in at most one request more than there are items, provided
  the keys are distinct and the times are ones whose cursors are read back.\<close>

theorem pages_list_everything_once:
  assumes "distinct (map key rows)" and "1 \<le> n" and "length rows < fuel"
    and "\<And>r. r \<in> set rows \<Longrightarrow> position_ok loads (key r) \<and> cursor_precision (fst (key r))"
  shows "follow_pages loads key n rows fuel None = Inr (newest_first key rows)"
  using follow_from [OF assms(1,2,4), of None fuel] assms(3) by (simp add: cursor_at_def below_def [abs_def])

definition ex_position :: "nat \<Rightarrow> cursor_position" where
  "ex_position k = (int k, 4 * 16 ^ 19 + 8 * 16 ^ 15 + k)"

definition ex_loads :: "string \<Rightarrow> json option" where
  "ex_loads s = (case find (\<lambda>p. canonical_json_bytes (cursor_payload p) = s) (map ex_position [1, 2, 10]) of
     None \<Rightarrow> None | Some p \<Rightarrow> Some (cursor_payload p))"

lemma cursor_bytes_inject:
  "canonical_json_bytes (cursor_payload p) = canonical_json_bytes (cursor_payload q) \<longleftrightarrow> cursor_payload p = cursor_payload q"
proof -
  have "wf_json (cursor_payload p)" for p by (simp add: cursor_payload_def)
  from canonical_bytes_inject [OF this this] show ?thesis by (simp only: canon_cursor_payload)
qed

lemma hex_digits_numeral:
  "hex_digits (numeral k) n = hex_digits (pred_numeral k) (n div 16) @ [hex_char (n mod 16)]"
  by (subst numeral_eq_Suc) (rule hex_digits.simps(2))

lemma ex_hex_chars:
  "hex_char 0 = CHR ''0''" "hex_char 1 = CHR ''1''" "hex_char (Suc 0) = CHR ''1''" "hex_char 2 = CHR ''2''"
  "hex_char 4 = CHR ''4''" "hex_char 8 = CHR ''8''" "hex_char 10 = CHR ''a''"
  by code_simp+

lemma ex_hex:
  "hex_digits 32 (4 * 16 ^ 19 + 8 * 16 ^ 15 + 1) = ''00000000000040008000000000000001''"
  "hex_digits 32 (4 * 16 ^ 19 + 8 * 16 ^ 15 + 2) = ''00000000000040008000000000000002''"
  "hex_digits 32 (4 * 16 ^ 19 + 8 * 16 ^ 15 + 10) = ''0000000000004000800000000000000a''"
  by (simp_all add: hex_digits_numeral ex_hex_chars)

lemma ex_position_ok:
  assumes "k \<in> {1, 2, 10}"
  shows "position_ok ex_loads (ex_position k)"
proof -
  have "ex_loads (canonical_json_bytes (cursor_payload (ex_position k))) = Some (cursor_payload (ex_position k))"
    using assms by (auto simp: ex_loads_def cursor_bytes_inject)
  moreover have "uuid_str (snd (ex_position k)) = ''00000000-0000-4000-8000-00000000000'' @ [hex_char k]"
    unfolding ex_position_def uuid_str_def snd_conv using assms
    by (elim insertE emptyE) (simp_all only: ex_hex Let_def, simp_all add: ex_hex_chars)
  then have "uuid_v4_pattern (uuid_str (snd (ex_position k)))"
    using assms by (auto simp: uuid_v4_pattern_def ex_hex_chars is_hex_lower_def upt_rec)
  ultimately show ?thesis
    using assms by (auto simp: position_ok_def ex_position_def datetime_range_def utc_total_def)
qed

theorem cursor_reads_back_witness:
  "decode_pagination_cursor ex_loads (encode_pagination_cursor (ex_position 1)) = Inr (ex_position 1) \<and>
     decode_pagination_cursor ex_loads (encode_pagination_cursor (ex_position 10)) = Inl InvalidPaginationCursor"
proof -
  have us: "utc_microsecond (fst (ex_position 1)) = 1" "utc_microsecond (fst (ex_position 10)) = 10"
    by (simp_all add: ex_position_def utc_microsecond_def utc_total_def)
  show ?thesis
    using cursor_reads_back [OF ex_position_ok, of 1] cursor_reads_back [OF ex_position_ok, of 10] by (simp add: us del: One_nat_def)
qed

theorem pages_list_everything_once_witness:
  "follow_pages ex_loads ex_position 1 [1, 2] 3 None = Inr [2, 1]"
proof -
  have "cursor_precision (fst (ex_position k))" if "k \<in> {1, 2}" for k
    using that by (auto simp: ex_position_def cursor_precision_def utc_microsecond_def utc_total_def)
  then have "\<And>r. r \<in> set [1, 2] \<Longrightarrow> position_ok ex_loads (ex_position r) \<and> cursor_precision (fst (ex_position r))"
    using ex_position_ok by auto
  moreover have "newest_first ex_position [1, 2] = [2, 1]" by (simp add: newest_first_def ex_position_def)
  moreover have "distinct (map ex_position [1, 2])" by (simp add: ex_position_def)
  ultimately show ?thesis
    using pages_list_everything_once [of ex_position "[1, 2]" 1 3 ex_loads] by simp
qed

end
