(* ===== verification/Reviews.thy ===== *)
theory Reviews
  imports Access Idempotency Pagination Handlers Lifecycle
begin

text \<open>
  Human review of an analysis run: \<open>review_revisions.py\<close>, the routing of dispositions to evidence requests
  and POA\&M candidates in \<open>poam_routing.py\<close>, and the routes of \<open>extended_api_router.py\<close> that change a review.
  The tables the reviews write are the state; the runs, package revisions, systems and matrix rows, which
  they only read, the configured roles, the digest functions and the audit key are the record
  \<open>review_env\<close>. Identifiers drawn with \<open>uuid4\<close> and the time of the request are arguments. A query without
  an order returns the rows in the order of the table.
\<close>

section \<open>Tables\<close>

record matrix_row =
  mrow_id :: uuid
  mrow_run_id :: uuid
  mrow_item_type :: string
  mrow_item_id :: string
  mrow_proposed_status :: string
  mrow_system_status :: string
  mrow_finding_summary :: string
  mrow_gaps :: "string list"
  mrow_assessor_questions :: "string list"
  mrow_citations :: "members list"
  mrow_context_complete :: bool
  mrow_producing_run_id :: uuid
  mrow_source_run_id :: uuid

record review_revision =
  rr_id :: uuid
  rr_run_id :: uuid
  rr_version :: int
  rr_status :: string
  rr_created_by :: string
  rr_created_at :: instant

record disposition =
  dp_id :: uuid
  dp_review_id :: uuid
  dp_row_id :: uuid
  dp_decision :: string
  dp_edited_summary :: "string option"
  dp_notes :: "string option"
  dp_version :: int
  dp_decided_by :: string
  dp_decided_at :: instant

text \<open>Evidence requests and POA\&M candidates have the same columns; the summary is called \<open>finding_summary\<close> in
  the first table and \<open>weakness_summary\<close> in the second.\<close>

record routed_item =
  ri_id :: uuid
  ri_review_id :: uuid
  ri_disposition_id :: uuid
  ri_row_id :: uuid
  ri_run_id :: uuid
  ri_item_id :: string
  ri_item_type :: string
  ri_system_status :: string
  ri_summary :: string
  ri_provenance :: members
  ri_created_by :: string
  ri_created_at :: instant

record review_comment =
  cm_id :: uuid
  cm_review_id :: uuid
  cm_row_id :: "uuid option"
  cm_body :: string
  cm_created_by :: string
  cm_created_at :: instant

record review_db =
  rv_reviews :: "review_revision list"
  rv_dispositions :: "disposition list"
  rv_requests :: "routed_item list"
  rv_candidates :: "routed_item list"
  rv_comments :: "review_comment list"
  rv_idempotency :: "idempotency_record list"
  rv_audit :: "audit_event list"

record review_env =
  re_hmac :: "string \<Rightarrow> string \<Rightarrow> string"
  re_key :: "string option"
  re_sha256 :: "string \<Rightarrow> string"
  re_roles :: role_groups
  re_loads :: "string \<Rightarrow> json option"
  re_runs :: "(uuid \<times> uuid) list"
  re_revisions :: "(uuid \<times> uuid) list"
  re_systems :: "(uuid \<times> system_target) list"
  re_matrix :: "matrix_row list"

datatype review_error =
    ReviewNotFound
  | ReviewInvalid string string
  | ReviewAccess auth_error
  | ReviewRequest request_error
  | ReviewAudit audit_error
  | ReviewPage page_error
  | ReviewIntegrity
  | MultipleResultsFound

type_synonym 'a review_op = "(review_error, 'a, review_db) handler"

section \<open>Constraints of the tables\<close>

definition REVIEW_REVISION_STATUS_VALUES :: "string list" where
  "REVIEW_REVISION_STATUS_VALUES = [''draft'', ''submitted'', ''superseded'']"

definition DISPOSITION_DECISION_VALUES :: "string list" where
  "DISPOSITION_DECISION_VALUES = [''pending'', ''accepted'', ''edited'', ''rejected'', ''evidence_requested'', ''weakness_confirmed'']"

definition MATRIX_STATUS_VALUES :: "string list" where
  "MATRIX_STATUS_VALUES = [''supported'', ''partial'', ''unsupported'', ''insufficient_evidence'']"

definition ASSESSMENT_ITEM_TYPE_VALUES :: "string list" where
  "ASSESSMENT_ITEM_TYPE_VALUES = [''nist_control'', ''fedramp_rule'', ''fedramp_ksi'']"

definition int4_positive :: "int \<Rightarrow> bool" where
  "int4_positive n = (1 \<le> n \<and> n < 2 ^ 31)"

definition review_row_ok :: "review_revision \<Rightarrow> bool" where
  "review_row_ok r = (rr_status r \<in> set REVIEW_REVISION_STATUS_VALUES \<and> int4_positive (rr_version r) \<and>
     length (rr_created_by r) \<le> 255)"

definition text_fits :: "nat \<Rightarrow> string option \<Rightarrow> bool" where
  "text_fits n v = (case v of None \<Rightarrow> True | Some s \<Rightarrow> length s \<le> n)"

definition disposition_row_ok :: "disposition \<Rightarrow> bool" where
  "disposition_row_ok d = (dp_decision d \<in> set DISPOSITION_DECISION_VALUES \<and> int4_positive (dp_version d) \<and>
     text_fits 4000 (dp_edited_summary d) \<and> text_fits 4000 (dp_notes d) \<and> length (dp_decided_by d) \<le> 255)"

definition routed_row_ok :: "routed_item \<Rightarrow> bool" where
  "routed_row_ok i = (ri_system_status i \<in> set MATRIX_STATUS_VALUES \<and> ri_item_type i \<in> set ASSESSMENT_ITEM_TYPE_VALUES \<and>
     length (ri_item_id i) \<le> 128 \<and> length (ri_summary i) \<le> 4000 \<and> length (ri_created_by i) \<le> 255)"

definition comment_row_ok :: "review_comment \<Rightarrow> bool" where
  "comment_row_ok c = (cm_body c \<noteq> [] \<and> length (cm_body c) \<le> 4000 \<and> length (cm_created_by c) \<le> 255)"

text \<open>Insertions are checked against the keys and unique constraints too.\<close>

definition insert_review :: "review_revision \<Rightarrow> unit review_op" where
  "insert_review r = callS (\<lambda>e. e) (\<lambda>db.
     if review_row_ok r \<and> rr_id r \<notin> rr_id ` set (rv_reviews db) \<and>
        (rr_run_id r, rr_version r) \<notin> (\<lambda>x. (rr_run_id x, rr_version x)) ` set (rv_reviews db)
     then Inr (db\<lparr>rv_reviews := rv_reviews db @ [r]\<rparr>, ()) else Inl ReviewIntegrity)"

definition insert_disposition :: "disposition \<Rightarrow> unit review_op" where
  "insert_disposition d = callS (\<lambda>e. e) (\<lambda>db.
     if disposition_row_ok d \<and> dp_id d \<notin> dp_id ` set (rv_dispositions db) \<and>
        (dp_review_id d, dp_row_id d) \<notin> (\<lambda>x. (dp_review_id x, dp_row_id x)) ` set (rv_dispositions db)
     then Inr (db\<lparr>rv_dispositions := rv_dispositions db @ [d]\<rparr>, ()) else Inl ReviewIntegrity)"

definition routed_unique :: "routed_item \<Rightarrow> routed_item list \<Rightarrow> bool" where
  "routed_unique i items = (ri_id i \<notin> ri_id ` set items \<and> ri_disposition_id i \<notin> ri_disposition_id ` set items \<and>
     (ri_review_id i, ri_row_id i) \<notin> (\<lambda>x. (ri_review_id x, ri_row_id x)) ` set items)"

definition insert_request :: "routed_item \<Rightarrow> unit review_op" where
  "insert_request i = callS (\<lambda>e. e) (\<lambda>db.
     if routed_row_ok i \<and> routed_unique i (rv_requests db)
     then Inr (db\<lparr>rv_requests := rv_requests db @ [i]\<rparr>, ()) else Inl ReviewIntegrity)"

definition insert_candidate :: "routed_item \<Rightarrow> unit review_op" where
  "insert_candidate i = callS (\<lambda>e. e) (\<lambda>db.
     if routed_row_ok i \<and> routed_unique i (rv_candidates db)
     then Inr (db\<lparr>rv_candidates := rv_candidates db @ [i]\<rparr>, ()) else Inl ReviewIntegrity)"

definition insert_comment :: "review_comment \<Rightarrow> unit review_op" where
  "insert_comment c = callS (\<lambda>e. e) (\<lambda>db.
     if comment_row_ok c \<and> cm_id c \<notin> cm_id ` set (rv_comments db)
     then Inr (db\<lparr>rv_comments := rv_comments db @ [c]\<rparr>, ()) else Inl ReviewIntegrity)"

section \<open>Documents\<close>

text \<open>\<open>strftime("%Y-%m-%dT%H:%M:%SZ")\<close>\<close>

definition review_format_utc :: "instant \<Rightarrow> string" where
  "review_format_utc t = strftime_seconds t @ ''Z''"

definition optional_text :: "string option \<Rightarrow> json" where
  "optional_text v = (case v of None \<Rightarrow> JNull | Some s \<Rightarrow> JStr s)"

definition map_disposition_to_domain :: "disposition \<Rightarrow> members" where
  "map_disposition_to_domain d =
     [(''matrix_row_id'', JStr (uuid_str (dp_row_id d))), (''decision'', JStr (dp_decision d)),
      (''edited_summary'', optional_text (dp_edited_summary d)), (''notes'', optional_text (dp_notes d)),
      (''version'', JInt (dp_version d)), (''decided_by'', JStr (dp_decided_by d)),
      (''decided_at'', JStr (review_format_utc (dp_decided_at d)))]"

definition map_review_revision_to_domain :: "review_revision \<Rightarrow> disposition list \<Rightarrow> members" where
  "map_review_revision_to_domain r ds =
     [(''schema_version'', JStr ''2.0.0''), (''object_type'', JStr ''review_revision''),
      (''review_revision_id'', JStr (uuid_str (rr_id r))), (''run_id'', JStr (uuid_str (rr_run_id r))),
      (''version'', JInt (rr_version r)), (''status'', JStr (rr_status r)),
      (''dispositions'', JArr (map (\<lambda>d. JObj (map_disposition_to_domain d)) ds)),
      (''created_by'', JStr (rr_created_by r)), (''created_at'', JStr (review_format_utc (rr_created_at r)))]"

definition map_review_comment_to_domain :: "review_comment \<Rightarrow> members" where
  "map_review_comment_to_domain c =
     [(''comment_id'', JStr (uuid_str (cm_id c))), (''review_revision_id'', JStr (uuid_str (cm_review_id c))),
      (''matrix_row_id'', optional_text (map_option uuid_str (cm_row_id c))), (''body'', JStr (cm_body c)),
      (''created_by'', JStr (cm_created_by c)), (''created_at'', JStr (review_format_utc (cm_created_at c)))]"

definition build_provenance ::
  "uuid \<Rightarrow> uuid \<Rightarrow> uuid \<Rightarrow> uuid \<Rightarrow> string \<Rightarrow> string \<Rightarrow> string \<Rightarrow> string \<Rightarrow> members" where
  "build_provenance review_id disposition_id row_id run_id item_id item_type system_status decision =
     [(''review_revision_id'', JStr (uuid_str review_id)), (''disposition_id'', JStr (uuid_str disposition_id)),
      (''matrix_row_id'', JStr (uuid_str row_id)), (''run_id'', JStr (uuid_str run_id)),
      (''assessment_item_id'', JStr item_id), (''assessment_item_type'', JStr item_type),
      (''system_status'', JStr system_status), (''decision'', JStr decision), (''source'', JStr ''human_disposition'')]"

section \<open>Loading\<close>

text \<open>\<open>_load_run_context\<close>: the system of the run and the rows of its matrix.\<close>

definition load_run_context :: "review_env \<Rightarrow> uuid \<Rightarrow> review_error + system_target \<times> matrix_row list" where
  "load_run_context env run_id =
     (case map_of (re_runs env) run_id of
        None \<Rightarrow> Inl ReviewNotFound
      | Some revision_id \<Rightarrow> (case map_of (re_revisions env) revision_id of
          None \<Rightarrow> Inl ReviewNotFound
        | Some system_id \<Rightarrow> (case map_of (re_systems env) system_id of
            None \<Rightarrow> Inl ReviewNotFound
          | Some sys \<Rightarrow> Inr (sys, filter (\<lambda>r. mrow_run_id r = run_id) (re_matrix env)))))"

definition load_review :: "uuid \<Rightarrow> review_db \<Rightarrow> review_error + review_revision" where
  "load_review i db = (case find (\<lambda>r. rr_id r = i) (rv_reviews db) of None \<Rightarrow> Inl ReviewNotFound | Some r \<Rightarrow> Inr r)"

definition load_dispositions :: "uuid \<Rightarrow> review_db \<Rightarrow> disposition list" where
  "load_dispositions i db = filter (\<lambda>d. dp_review_id d = i) (rv_dispositions db)"

definition scalar_one_or_none :: "'a list \<Rightarrow> review_error + 'a option" where
  "scalar_one_or_none xs = (case xs of [] \<Rightarrow> Inr None | [x] \<Rightarrow> Inr (Some x) | _ \<Rightarrow> Inl MultipleResultsFound)"

definition require_role :: "review_env \<Rightarrow> principal \<Rightarrow> system_target \<Rightarrow> string \<Rightarrow> unit review_op" where
  "require_role env p sys role = liftS ReviewAccess (require_package_role (re_roles env) p sys role)"

section \<open>Calls of the shared services\<close>

definition audit_review ::
  "review_env \<Rightarrow> uuid \<Rightarrow> string \<Rightarrow> string \<Rightarrow> string \<Rightarrow> string \<Rightarrow> members \<Rightarrow> instant \<Rightarrow> unit review_op" where
  "audit_review env event_id actor act otype oid meta now =
     callS ReviewAudit (\<lambda>db.
       bindR (append_audit_event (re_hmac env) event_id now (rv_audit db) (re_key env) ''user'' actor act otype oid
           ''succeeded'' None (Some meta) (Some (Aware now))) (\<lambda>(e, rows).
       Inr (db\<lparr>rv_audit := rows\<rparr>, ())))"

definition load_replay :: "string \<Rightarrow> string \<Rightarrow> string \<Rightarrow> string \<Rightarrow> instant \<Rightarrow> idempotency_replay option review_op" where
  "load_replay actor operation key digest now =
     callS ReviewRequest (\<lambda>db.
       bindR (load_idempotency_replay actor operation key digest (Aware now) (rv_idempotency db)) (\<lambda>(rows, replay).
       Inr (db\<lparr>rv_idempotency := rows\<rparr>, replay)))"

definition record_outcome ::
  "string \<Rightarrow> string \<Rightarrow> string \<Rightarrow> string \<Rightarrow> int \<Rightarrow> members \<Rightarrow> (string \<times> string) list \<Rightarrow> instant \<Rightarrow> unit review_op" where
  "record_outcome actor operation key digest status body headers now =
     callS ReviewRequest (\<lambda>db.
       bindR (record_idempotency_outcome actor operation key digest status body headers (Aware now) (rv_idempotency db))
         (\<lambda>(rows, _). Inr (db\<lparr>rv_idempotency := rows\<rparr>, ())))"

section \<open>Creating a review\<close>

definition OPERATION_CREATE :: string where "OPERATION_CREATE = ''review_revisions.create''"
definition OPERATION_CREATE_COMMENT :: string where "OPERATION_CREATE_COMMENT = ''review_revisions.comment.create''"

definition TERMINAL_REVIEW_STATUSES :: "string list" where
  "TERMINAL_REVIEW_STATUSES = [''submitted'', ''superseded'']"

definition RESOLVED_DISPOSITION_DECISIONS :: "string list" where
  "RESOLVED_DISPOSITION_DECISIONS = [''accepted'', ''edited'', ''rejected'', ''evidence_requested'', ''weakness_confirmed'']"

record review_result =
  result_payload :: members
  result_status :: int
  result_etag :: string
  result_replayed :: bool

definition review_mutation_result :: "review_revision \<Rightarrow> disposition list \<Rightarrow> int \<Rightarrow> review_result review_op" where
  "review_mutation_result r ds status =
     bindS (liftS ReviewRequest (format_package_revision_etag (rr_version r))) (\<lambda>tag.
     returnS \<lparr>result_payload = map_review_revision_to_domain r ds, result_status = status, result_etag = tag,
       result_replayed = False\<rparr>)"

text \<open>An existing review of the run is returned as it is, without a look at the idempotency key.\<close>

definition existing_review :: "uuid \<Rightarrow> review_db \<Rightarrow> review_error + review_revision option" where
  "existing_review run_id db =
     bindR (scalar_one_or_none (filter (\<lambda>r. rr_run_id r = run_id \<and> rr_status r = ''draft'') (rv_reviews db))) (\<lambda>draft.
     Inr (case draft of
         Some r \<Rightarrow> Some r
       | None \<Rightarrow> find (\<lambda>r. rr_run_id r = run_id \<and> rr_status r = ''submitted'') (rv_reviews db)))"

definition pending_disposition :: "uuid \<Rightarrow> (uuid \<Rightarrow> uuid) \<Rightarrow> string \<Rightarrow> instant \<Rightarrow> matrix_row \<Rightarrow> disposition" where
  "pending_disposition review_id disposition_ids actor now row =
     \<lparr>dp_id = disposition_ids (mrow_id row), dp_review_id = review_id, dp_row_id = mrow_id row, dp_decision = ''pending'',
      dp_edited_summary = None, dp_notes = None, dp_version = 1, dp_decided_by = actor, dp_decided_at = now\<rparr>"

definition create_review_revision ::
  "review_env \<Rightarrow> principal \<Rightarrow> uuid \<Rightarrow> string \<Rightarrow> uuid \<Rightarrow> (uuid \<Rightarrow> uuid) \<Rightarrow> uuid \<Rightarrow> instant \<Rightarrow> review_result review_op" where
  "create_review_revision env p run_id key review_id disposition_ids event_id now =
     (let actor = principal.actor_id p in
      bindS (readS (\<lambda>e. e) (\<lambda>_. load_run_context env run_id)) (\<lambda>(sys, matrix_rows).
      bindS (require_role env p sys ''reviewer'') (\<lambda>_.
      bindS (readS (\<lambda>e. e) (existing_review run_id)) (\<lambda>existing.
      case existing of
        Some r \<Rightarrow>
          bindS (readS (\<lambda>e. e) (\<lambda>db. Inr (load_dispositions (rr_id r) db))) (\<lambda>ds. review_mutation_result r ds 200)
      | None \<Rightarrow>
          bindS (liftS ReviewRequest (request_digest_from_payload (re_sha256 env) [(''run_id'', JStr (uuid_str run_id))]))
            (\<lambda>digest.
          bindS (load_replay actor OPERATION_CREATE key digest now) (\<lambda>replay.
          case replay of
            Some rep \<Rightarrow> returnS \<lparr>result_payload = replay_body rep, result_status = replay_status rep,
                result_etag = (case etag_header (replay_headers rep) of None \<Rightarrow> ''\"v1\"'' | Some tag \<Rightarrow> tag),
                result_replayed = True\<rparr>
          | None \<Rightarrow>
              let r = \<lparr>rr_id = review_id, rr_run_id = run_id, rr_version = 1, rr_status = ''draft'',
                    rr_created_by = actor, rr_created_at = now\<rparr>;
                  ds = map (pending_disposition review_id disposition_ids actor now) matrix_rows;
                  payload = map_review_revision_to_domain r ds in
              bindS (insert_review r) (\<lambda>_.
              bindS (forS ds insert_disposition) (\<lambda>_.
              bindS (liftS ReviewRequest (format_package_revision_etag (rr_version r))) (\<lambda>tag.
              bindS (audit_review env event_id actor ''review_revision.create'' ''review_revision'' (uuid_str review_id)
                [(''run_id'', JStr (uuid_str run_id))] now) (\<lambda>_.
              bindS (record_outcome actor OPERATION_CREATE key digest 201 payload [(''ETag'', tag)] now) (\<lambda>_.
              returnS \<lparr>result_payload = payload, result_status = 201, result_etag = tag, result_replayed = False\<rparr>)))))))))))"

section \<open>Submitting\<close>

definition set_review :: "(review_revision \<Rightarrow> review_revision) \<Rightarrow> uuid \<Rightarrow> review_db \<Rightarrow> review_db" where
  "set_review f i db = db\<lparr>rv_reviews := update_where (\<lambda>r. rr_id r = i) f (rv_reviews db)\<rparr>"

definition submit_review_revision ::
  "review_env \<Rightarrow> principal \<Rightarrow> uuid \<Rightarrow> string option \<Rightarrow> string \<Rightarrow> uuid \<Rightarrow> instant \<Rightarrow> review_result review_op" where
  "submit_review_revision env p review_id if_match key event_id now =
     bindS (readS (\<lambda>e. e) (load_review review_id)) (\<lambda>r.
     bindS (readS (\<lambda>e. e) (\<lambda>_. load_run_context env (rr_run_id r))) (\<lambda>(sys, _).
     bindS (require_role env p sys ''reviewer'') (\<lambda>_.
     bindS (liftS ReviewRequest (assert_if_match if_match (rr_version r))) (\<lambda>_.
     bindS (readS (\<lambda>e. e) (\<lambda>db. Inr (load_dispositions review_id db))) (\<lambda>ds.
     bindS (guardS (\<not> list_ex (\<lambda>d. dp_decision d = ''pending'') ds)
       (ReviewInvalid ''review_incomplete'' ''all dispositions must be resolved before submit'')) (\<lambda>_.
     bindS (guardS (rr_status r = ''draft'')
       (ReviewInvalid ''illegal_state_transition'' ''review revision is not in draft status'')) (\<lambda>_.
     let submitted = r\<lparr>rr_status := ''submitted''\<rparr> in
     bindS (modifyS (set_review (\<lambda>_. submitted) review_id)) (\<lambda>_.
     bindS (liftS ReviewRequest (format_package_revision_etag (rr_version r))) (\<lambda>tag.
     bindS (audit_review env event_id (principal.actor_id p) ''review_revision.submit'' ''review_revision''
       (uuid_str review_id) [(''run_id'', JStr (uuid_str (rr_run_id r)))] now) (\<lambda>_.
     returnS \<lparr>result_payload = map_review_revision_to_domain submitted ds, result_status = 200, result_etag = tag,
       result_replayed = False\<rparr>))))))))))"

section \<open>Routing a disposition\<close>

record poam_routing_result =
  evidence_request_id :: "uuid option"
  poam_candidate_id :: "uuid option"
  routing_created :: bool

definition load_existing_evidence_request :: "uuid \<Rightarrow> uuid \<Rightarrow> review_db \<Rightarrow> routed_item option" where
  "load_existing_evidence_request review_id row_id db =
     find (\<lambda>i. ri_review_id i = review_id \<and> ri_row_id i = row_id) (rv_requests db)"

definition load_existing_poam_candidate :: "uuid \<Rightarrow> uuid \<Rightarrow> review_db \<Rightarrow> routed_item option" where
  "load_existing_poam_candidate review_id row_id db =
     find (\<lambda>i. ri_review_id i = review_id \<and> ri_row_id i = row_id) (rv_candidates db)"

definition routed_item_of :: "review_revision \<Rightarrow> disposition \<Rightarrow> matrix_row \<Rightarrow> string \<Rightarrow> string \<Rightarrow> uuid \<Rightarrow> instant \<Rightarrow> routed_item" where
  "routed_item_of r d row decision actor new_id now =
     \<lparr>ri_id = new_id, ri_review_id = rr_id r, ri_disposition_id = dp_id d, ri_row_id = mrow_id row, ri_run_id = rr_run_id r,
      ri_item_id = mrow_item_id row, ri_item_type = mrow_item_type row, ri_system_status = mrow_system_status row,
      ri_summary = mrow_finding_summary row,
      ri_provenance = build_provenance (rr_id r) (dp_id d) (mrow_id row) (rr_run_id r) (mrow_item_id row)
        (mrow_item_type row) (mrow_system_status row) decision,
      ri_created_by = actor, ri_created_at = now\<rparr>"

definition routing_metadata :: "routed_item \<Rightarrow> members" where
  "routing_metadata i = [(''review_revision_id'', JStr (uuid_str (ri_review_id i))),
     (''matrix_row_id'', JStr (uuid_str (ri_row_id i))), (''assessment_item_id'', JStr (ri_item_id i))]"

text \<open>A candidate that another request has inserted meanwhile is taken instead of an integrity error.\<close>

definition insert_candidate_or_existing :: "routed_item \<Rightarrow> routed_item option review_op" where
  "insert_candidate_or_existing i db =
     (case insert_candidate i db of
        (Inr _, db') \<Rightarrow> (Inr None, db')
      | (Inl e, db') \<Rightarrow>
          (case (e, load_existing_poam_candidate (ri_review_id i) (ri_row_id i) db') of
             (ReviewIntegrity, Some x) \<Rightarrow> (Inr (Some x), db')
           | _ \<Rightarrow> (Inl e, db')))"

definition route_disposition_side_effects ::
  "review_env \<Rightarrow> routed_item \<Rightarrow> string \<Rightarrow> string \<Rightarrow> uuid \<Rightarrow> instant \<Rightarrow> poam_routing_result review_op" where
  "route_disposition_side_effects env i decision actor event_id now =
     (if decision = ''evidence_requested'' then
        bindS (readS (\<lambda>e. e) (\<lambda>db. Inr (load_existing_evidence_request (ri_review_id i) (ri_row_id i) db))) (\<lambda>existing.
        case existing of
          Some x \<Rightarrow> returnS \<lparr>evidence_request_id = Some (ri_id x), poam_candidate_id = None, routing_created = False\<rparr>
        | None \<Rightarrow>
            bindS (insert_request i) (\<lambda>_.
            bindS (audit_review env event_id actor ''evidence_request.created'' ''evidence_request'' (uuid_str (ri_id i))
              (routing_metadata i) now) (\<lambda>_.
            returnS \<lparr>evidence_request_id = Some (ri_id i), poam_candidate_id = None, routing_created = True\<rparr>)))
      else if decision = ''weakness_confirmed'' then
        bindS (readS (\<lambda>e. e) (\<lambda>db. Inr (load_existing_poam_candidate (ri_review_id i) (ri_row_id i) db))) (\<lambda>existing.
        case existing of
          Some x \<Rightarrow> returnS \<lparr>evidence_request_id = None, poam_candidate_id = Some (ri_id x), routing_created = False\<rparr>
        | None \<Rightarrow>
            bindS (insert_candidate_or_existing i) (\<lambda>found.
            case found of
              Some x \<Rightarrow> returnS \<lparr>evidence_request_id = None, poam_candidate_id = Some (ri_id x), routing_created = False\<rparr>
            | None \<Rightarrow>
                bindS (audit_review env event_id actor ''poam_candidate.created'' ''poam_candidate'' (uuid_str (ri_id i))
                  (routing_metadata i) now) (\<lambda>_.
                returnS \<lparr>evidence_request_id = None, poam_candidate_id = Some (ri_id i), routing_created = True\<rparr>)))
      else returnS \<lparr>evidence_request_id = None, poam_candidate_id = None, routing_created = False\<rparr>)"

section \<open>Deciding a row\<close>

definition validate_disposition_decision :: "string \<Rightarrow> string option \<Rightarrow> review_error + unit" where
  "validate_disposition_decision decision edited_summary =
     (if decision \<notin> set RESOLVED_DISPOSITION_DECISIONS
      then Inl (ReviewInvalid ''request_schema_invalid'' ''invalid disposition decision'')
      else if decision = ''edited'' \<and> (case edited_summary of None \<Rightarrow> True | Some s \<Rightarrow> py_strip s = [])
      then Inl (ReviewInvalid ''request_schema_invalid'' ''edited disposition requires edited_summary'')
      else Inr ())"

definition load_disposition :: "uuid \<Rightarrow> uuid \<Rightarrow> review_db \<Rightarrow> review_error + disposition" where
  "load_disposition review_id row_id db =
     (case find (\<lambda>d. dp_review_id d = review_id \<and> dp_row_id d = row_id) (rv_dispositions db) of
        None \<Rightarrow> Inl ReviewNotFound | Some d \<Rightarrow> Inr d)"

definition load_matrix_row :: "review_env \<Rightarrow> uuid \<Rightarrow> review_error + matrix_row" where
  "load_matrix_row env row_id =
     (case find (\<lambda>r. mrow_id r = row_id) (re_matrix env) of None \<Rightarrow> Inl ReviewNotFound | Some r \<Rightarrow> Inr r)"

definition invalid_disposition :: "disposition_error \<Rightarrow> review_error" where
  "invalid_disposition e = (case e of DispositionTransitionError code message \<Rightarrow> ReviewInvalid code message)"

text \<open>The changed rows are written, under the constraints of their tables, before the routing reads.\<close>

definition store_decision :: "disposition \<Rightarrow> review_revision \<Rightarrow> unit review_op" where
  "store_decision d r = callS (\<lambda>e. e) (\<lambda>db.
     if disposition_row_ok d \<and> review_row_ok r
     then Inr (db\<lparr>rv_dispositions := update_where (\<lambda>x. dp_id x = dp_id d) (\<lambda>_. d) (rv_dispositions db),
                 rv_reviews := update_where (\<lambda>x. rr_id x = rr_id r) (\<lambda>_. r) (rv_reviews db)\<rparr>, ())
     else Inl ReviewIntegrity)"

definition disposition_payload :: "disposition \<Rightarrow> poam_routing_result \<Rightarrow> members" where
  "disposition_payload d routing =
     map_disposition_to_domain d @
     (case evidence_request_id routing of None \<Rightarrow> [] | Some i \<Rightarrow> [(''evidence_request_id'', JStr (uuid_str i))]) @
     (case poam_candidate_id routing of None \<Rightarrow> [] | Some i \<Rightarrow> [(''poam_candidate_id'', JStr (uuid_str i))])"

definition update_disposition ::
  "review_env \<Rightarrow> principal \<Rightarrow> uuid \<Rightarrow> uuid \<Rightarrow> string \<Rightarrow> string option \<Rightarrow> string option \<Rightarrow> string option \<Rightarrow> uuid \<Rightarrow> uuid \<Rightarrow> uuid
     \<Rightarrow> instant \<Rightarrow> (members \<times> string) review_op" where
  "update_disposition env p review_id row_id decision edited_summary notes if_match new_id routing_event event_id now =
     (let actor = principal.actor_id p in
      bindS (readS (\<lambda>e. e) (load_review review_id)) (\<lambda>r.
      bindS (guardS (rr_status r \<notin> set TERMINAL_REVIEW_STATUSES)
        (ReviewInvalid ''illegal_state_transition'' ''review revision is immutable'')) (\<lambda>_.
      bindS (readS (\<lambda>e. e) (\<lambda>_. load_run_context env (rr_run_id r))) (\<lambda>(sys, _).
      bindS (require_role env p sys ''reviewer'') (\<lambda>_.
      bindS (liftS ReviewRequest (assert_if_match if_match (rr_version r))) (\<lambda>_.
      bindS (liftS (\<lambda>e. e) (validate_disposition_decision decision edited_summary)) (\<lambda>_.
      bindS (readS (\<lambda>e. e) (load_disposition review_id row_id)) (\<lambda>d.
      bindS (liftS (\<lambda>e. e) (load_matrix_row env row_id)) (\<lambda>row.
      bindS (liftS invalid_disposition (require_decision_compatible_with_matrix_status decision (mrow_system_status row)))
        (\<lambda>_.
      let d' = d\<lparr>dp_decision := decision, dp_edited_summary := edited_summary, dp_notes := notes,
                 dp_version := dp_version d + 1, dp_decided_by := actor, dp_decided_at := now\<rparr>;
          r' = r\<lparr>rr_version := rr_version r + 1\<rparr> in
      bindS (store_decision d' r') (\<lambda>_.
      bindS (route_disposition_side_effects env (routed_item_of r' d' row decision actor new_id now) decision actor
        routing_event now) (\<lambda>routing.
      bindS (liftS ReviewRequest (format_package_revision_etag (rr_version r'))) (\<lambda>tag.
      bindS (audit_review env event_id actor ''review_revision.disposition'' ''disposition'' (uuid_str (dp_id d))
        [(''decision'', JStr decision),
         (''evidence_request_created'', JBool (evidence_request_id routing \<noteq> None \<and> routing_created routing)),
         (''poam_candidate_created'', JBool (poam_candidate_id routing \<noteq> None \<and> routing_created routing))] now) (\<lambda>_.
      returnS (disposition_payload d' routing, tag)))))))))))))))"

section \<open>Comments\<close>

definition create_review_comment ::
  "review_env \<Rightarrow> principal \<Rightarrow> uuid \<Rightarrow> uuid option \<Rightarrow> string \<Rightarrow> string \<Rightarrow> uuid \<Rightarrow> uuid \<Rightarrow> instant
     \<Rightarrow> (members \<times> int \<times> bool) review_op" where
  "create_review_comment env p review_id row_id body key comment_id event_id now =
     (let actor = principal.actor_id p in
      bindS (guardS (py_strip body \<noteq> []) (ReviewInvalid ''request_schema_invalid'' ''comment body is required'')) (\<lambda>_.
      bindS (readS (\<lambda>e. e) (load_review review_id)) (\<lambda>r.
      bindS (guardS (rr_status r \<notin> set TERMINAL_REVIEW_STATUSES)
        (ReviewInvalid ''illegal_state_transition'' ''review revision is immutable'')) (\<lambda>_.
      bindS (readS (\<lambda>e. e) (\<lambda>_. load_run_context env (rr_run_id r))) (\<lambda>(sys, matrix_rows).
      bindS (require_role env p sys ''reviewer'') (\<lambda>_.
      bindS (guardS (case row_id of None \<Rightarrow> True | Some i \<Rightarrow> i \<in> mrow_id ` set matrix_rows) ReviewNotFound) (\<lambda>_.
      bindS (liftS ReviewRequest (request_digest_from_payload (re_sha256 env)
        [(''review_revision_id'', JStr (uuid_str review_id)), (''matrix_row_id'', optional_text (map_option uuid_str row_id)),
         (''body'', JStr (py_strip body))])) (\<lambda>digest.
      bindS (load_replay actor OPERATION_CREATE_COMMENT key digest now) (\<lambda>replay.
      case replay of
        Some rep \<Rightarrow> returnS (replay_body rep, replay_status rep, True)
      | None \<Rightarrow>
          let c = \<lparr>cm_id = comment_id, cm_review_id = review_id, cm_row_id = row_id, cm_body = py_strip body,
                cm_created_by = actor, cm_created_at = now\<rparr>;
              payload = map_review_comment_to_domain c in
          bindS (insert_comment c) (\<lambda>_.
          bindS (audit_review env event_id actor ''review_revision.comment'' ''review_comment'' (uuid_str comment_id)
            [(''review_revision_id'', JStr (uuid_str review_id))] now) (\<lambda>_.
          bindS (record_outcome actor OPERATION_CREATE_COMMENT key digest 201 payload [] now) (\<lambda>_.
          returnS (payload, 201, False)))))))))))))"

definition comment_key :: "review_comment \<Rightarrow> cursor_position" where
  "comment_key c = (cm_created_at c, cm_id c)"

definition page_limit_of :: "int option \<Rightarrow> review_error + nat" where
  "page_limit_of limit = (case validate_page_limit limit of Inl e \<Rightarrow> Inl (ReviewPage e) | Inr n \<Rightarrow> Inr (nat n))"

definition list_review_comments ::
  "review_env \<Rightarrow> principal \<Rightarrow> uuid \<Rightarrow> string option \<Rightarrow> int option \<Rightarrow> (members list \<times> string option) review_op" where
  "list_review_comments env p review_id cursor limit =
     bindS (readS (\<lambda>e. e) (load_review review_id)) (\<lambda>r.
     bindS (readS (\<lambda>e. e) (\<lambda>_. load_run_context env (rr_run_id r))) (\<lambda>(sys, _).
     bindS (require_role env p sys ''viewer'') (\<lambda>_.
     bindS (liftS (\<lambda>e. e) (page_limit_of limit)) (\<lambda>n.
     bindS (readS (\<lambda>_. ReviewInvalid ''malformed_request'' ''invalid pagination cursor'') (\<lambda>db.
       list_page (re_loads env) comment_key n (filter (\<lambda>c. cm_review_id c = review_id) (rv_comments db)) cursor))
       (\<lambda>(comments, next_cursor).
     returnS (map map_review_comment_to_domain comments, next_cursor))))))"

section \<open>Routes\<close>

text \<open>The exceptions that the routes of \<open>extended_api_router.py\<close> turn into a response; the creation of a review
  turns only the first kind.\<close>

definition caught_by_create :: "review_error \<Rightarrow> bool" where
  "caught_by_create e = (case e of ReviewInvalid _ _ \<Rightarrow> True | _ \<Rightarrow> False)"

definition caught_by_route :: "review_error \<Rightarrow> bool" where
  "caught_by_route e = (e = ReviewNotFound \<or> caught_by_create e)"

definition error_status :: "review_error \<Rightarrow> int" where
  "error_status e = (case e of
     ReviewNotFound \<Rightarrow> 404
   | ReviewInvalid code _ \<Rightarrow> if code = ''illegal_state_transition'' then 409 else 422
   | _ \<Rightarrow> 500)"

text \<open>What a request leaves in the database.\<close>

definition post_review_revision ::
  "review_env \<Rightarrow> principal \<Rightarrow> uuid \<Rightarrow> string \<Rightarrow> uuid \<Rightarrow> (uuid \<Rightarrow> uuid) \<Rightarrow> uuid \<Rightarrow> instant \<Rightarrow> review_db \<Rightarrow> review_db" where
  "post_review_revision env p run_id key review_id disposition_ids event_id now =
     committed caught_by_create (create_review_revision env p run_id key review_id disposition_ids event_id now)"

definition post_review_revision_submit ::
  "review_env \<Rightarrow> principal \<Rightarrow> uuid \<Rightarrow> string option \<Rightarrow> string \<Rightarrow> uuid \<Rightarrow> instant \<Rightarrow> review_db \<Rightarrow> review_db" where
  "post_review_revision_submit env p review_id if_match key event_id now =
     committed caught_by_route (submit_review_revision env p review_id if_match key event_id now)"

definition patch_disposition ::
  "review_env \<Rightarrow> principal \<Rightarrow> uuid \<Rightarrow> uuid \<Rightarrow> string \<Rightarrow> string option \<Rightarrow> string option \<Rightarrow> string option \<Rightarrow> uuid \<Rightarrow> uuid \<Rightarrow> uuid
     \<Rightarrow> instant \<Rightarrow> review_db \<Rightarrow> review_db" where
  "patch_disposition env p review_id row_id decision edited_summary notes if_match new_id routing_event event_id now =
     committed caught_by_route
       (update_disposition env p review_id row_id decision edited_summary notes if_match new_id routing_event event_id now)"

definition post_review_comment ::
  "review_env \<Rightarrow> principal \<Rightarrow> uuid \<Rightarrow> uuid option \<Rightarrow> string \<Rightarrow> string \<Rightarrow> uuid \<Rightarrow> uuid \<Rightarrow> instant \<Rightarrow> review_db \<Rightarrow> review_db" where
  "post_review_comment env p review_id row_id body key comment_id event_id now =
     committed caught_by_route (create_review_comment env p review_id row_id body key comment_id event_id now)"

text \<open>The requests in any order, with any arguments, failed ones included.\<close>

inductive review_step :: "review_env \<Rightarrow> review_db \<Rightarrow> review_db \<Rightarrow> bool" for env where
  step_create: "review_step env db (post_review_revision env p run_id key review_id disposition_ids event_id now db)"
| step_submit: "review_step env db (post_review_revision_submit env p review_id if_match key event_id now db)"
| step_decide: "review_step env db (patch_disposition env p review_id row_id decision edited_summary notes if_match
     new_id routing_event event_id now db)"
| step_comment: "review_step env db (post_review_comment env p review_id row_id body key comment_id event_id now db)"

definition empty_reviews :: review_db where
  "empty_reviews = \<lparr>rv_reviews = [], rv_dispositions = [], rv_requests = [], rv_candidates = [], rv_comments = [],
     rv_idempotency = [], rv_audit = []\<rparr>"

end
