(* ===== verification/ReviewProperties.thy ===== *)
theory ReviewProperties
  imports Reviews
begin

text \<open>
  What the reviews keep: the effect of every request, the invariant of the tables, and that a submitted
  review rests.
\<close>

section \<open>Effects\<close>

text \<open>The rows of the domain, without the records of idempotency and audit.\<close>

definition rows_of :: "review_db \<Rightarrow> review_revision list \<times> disposition list \<times> routed_item list \<times> routed_item list \<times> review_comment list" where
  "rows_of db = (rv_reviews db, rv_dispositions db, rv_requests db, rv_candidates db, rv_comments db)"

lemma load_replay_rows: "load_replay a op k dg now db = (Inr x, db') \<Longrightarrow> rows_of db' = rows_of db"
  by (auto simp: load_replay_def callS_Inr bindR_eq_Inr rows_of_def)

lemma record_outcome_rows: "record_outcome a op k dg st b h now db = (Inr x, db') \<Longrightarrow> rows_of db' = rows_of db"
  by (auto simp: record_outcome_def callS_Inr bindR_eq_Inr rows_of_def)

lemma audit_review_rows: "audit_review env i a act ty oid meta now db = (Inr x, db') \<Longrightarrow> rows_of db' = rows_of db"
  by (auto simp: audit_review_def callS_Inr bindR_eq_Inr rows_of_def)

lemmas kept_rows = load_replay_rows record_outcome_rows audit_review_rows

text \<open>Only errors that no route catches come out of them.\<close>

lemma caught_simps [simp]:
  "\<not> caught_by_route (ReviewRequest x)" "\<not> caught_by_route (ReviewAccess y)" "\<not> caught_by_route (ReviewAudit z)"
  "\<not> caught_by_route ReviewIntegrity"
  by (simp_all add: caught_by_route_def caught_by_create_def)

lemma service_errors:
  "load_replay a op k dg now db = (Inl e, db') \<Longrightarrow> \<not> caught_by_route e"
  "record_outcome a op k dg st b h now db = (Inl e, db') \<Longrightarrow> \<not> caught_by_route e"
  "audit_review env i a act ty oid meta now db = (Inl e, db') \<Longrightarrow> \<not> caught_by_route e"
  "liftS ReviewRequest v db = (Inl e, db') \<Longrightarrow> \<not> caught_by_route e"
  "require_role env p sys role db = (Inl e, db') \<Longrightarrow> \<not> caught_by_route e"
  by (auto simp: load_replay_def record_outcome_def audit_review_def require_role_def handler_simps
      caught_by_route_def caught_by_create_def)

lemma insertion_errors:
  "insert_review r db = (Inl e, db') \<Longrightarrow> \<not> caught_by_route e"
  "insert_disposition d db = (Inl e, db') \<Longrightarrow> \<not> caught_by_route e"
  "insert_request i db = (Inl e, db') \<Longrightarrow> \<not> caught_by_route e"
  "insert_candidate i db = (Inl e, db') \<Longrightarrow> \<not> caught_by_route e"
  "insert_comment c db = (Inl e, db') \<Longrightarrow> \<not> caught_by_route e"
  "store_decision d r db = (Inl e, db') \<Longrightarrow> \<not> caught_by_route e"
  by (auto simp: insert_review_def insert_disposition_def insert_request_def insert_candidate_def insert_comment_def
      store_decision_def handler_simps caught_by_route_def caught_by_create_def split: if_splits)

lemma insert_dispositions_errors: "forS ds insert_disposition db = (Inl e, db') \<Longrightarrow> \<not> caught_by_route e"
  by (induction ds arbitrary: db) (auto simp: handler_simps dest: insertion_errors)

lemma insert_runs:
  "insert_review r db = (Inr u, db') \<longleftrightarrow> review_row_ok r \<and> rr_id r \<notin> rr_id ` set (rv_reviews db) \<and>
     (rr_run_id r, rr_version r) \<notin> (\<lambda>x. (rr_run_id x, rr_version x)) ` set (rv_reviews db) \<and>
     db' = db\<lparr>rv_reviews := rv_reviews db @ [r]\<rparr>"
  "insert_disposition d db = (Inr u, db') \<longleftrightarrow> disposition_row_ok d \<and> dp_id d \<notin> dp_id ` set (rv_dispositions db) \<and>
     (dp_review_id d, dp_row_id d) \<notin> (\<lambda>x. (dp_review_id x, dp_row_id x)) ` set (rv_dispositions db) \<and>
     db' = db\<lparr>rv_dispositions := rv_dispositions db @ [d]\<rparr>"
  "insert_request i db = (Inr u, db') \<longleftrightarrow> routed_row_ok i \<and> routed_unique i (rv_requests db) \<and>
     db' = db\<lparr>rv_requests := rv_requests db @ [i]\<rparr>"
  "insert_candidate i db = (Inr u, db') \<longleftrightarrow> routed_row_ok i \<and> routed_unique i (rv_candidates db) \<and>
     db' = db\<lparr>rv_candidates := rv_candidates db @ [i]\<rparr>"
  "insert_comment c db = (Inr u, db') \<longleftrightarrow> comment_row_ok c \<and> cm_id c \<notin> cm_id ` set (rv_comments db) \<and>
     db' = db\<lparr>rv_comments := rv_comments db @ [c]\<rparr>"
  "store_decision d r db = (Inr u, db') \<longleftrightarrow> disposition_row_ok d \<and> review_row_ok r \<and>
     db' = db\<lparr>rv_dispositions := update_where (\<lambda>x. dp_id x = dp_id d) (\<lambda>_. d) (rv_dispositions db),
             rv_reviews := update_where (\<lambda>x. rr_id x = rr_id r) (\<lambda>_. r) (rv_reviews db)\<rparr>"
  by (auto simp: insert_review_def insert_disposition_def insert_request_def insert_candidate_def insert_comment_def
      store_decision_def callS_def)

lemma insert_dispositions_run:
  "forS ds insert_disposition db = (Inr us, db') \<Longrightarrow>
     db' = db\<lparr>rv_dispositions := rv_dispositions db @ ds\<rparr> \<and>
     (distinct (map dp_id (rv_dispositions db)) \<longrightarrow> distinct (map dp_id (rv_dispositions db @ ds))) \<and>
     (distinct (map (\<lambda>x. (dp_review_id x, dp_row_id x)) (rv_dispositions db)) \<longrightarrow>
        distinct (map (\<lambda>x. (dp_review_id x, dp_row_id x)) (rv_dispositions db @ ds)))"
proof (induction ds arbitrary: db us)
  case (Cons d ds)
  from Cons.prems obtain us' where first: "dp_id d \<notin> dp_id ` set (rv_dispositions db)"
    "(dp_review_id d, dp_row_id d) \<notin> (\<lambda>x. (dp_review_id x, dp_row_id x)) ` set (rv_dispositions db)"
    and rest: "forS ds insert_disposition (db\<lparr>rv_dispositions := rv_dispositions db @ [d]\<rparr>) = (Inr us', db')"
    by (auto simp: handler_simps insert_runs)
  from Cons.IH [OF rest] first show ?case by simp
qed (simp add: handler_simps)

section \<open>Outcomes of the operations\<close>

text \<open>A new review of a run without one, with a pending disposition for every row of its matrix.\<close>

definition created :: "review_env \<Rightarrow> review_db \<Rightarrow> review_db \<Rightarrow> bool" where
  "created env db db' =
     (\<exists>r ds. rows_of db' = (rv_reviews db @ [r], rv_dispositions db @ ds, rv_requests db, rv_candidates db, rv_comments db) \<and>
        (\<forall>x \<in> set (rv_reviews db). rr_run_id x = rr_run_id r \<longrightarrow> rr_status x \<noteq> ''draft'' \<and> rr_status x \<noteq> ''submitted'') \<and>
        rr_id r \<notin> rr_id ` set (rv_reviews db) \<and> rr_status r = ''draft'' \<and> rr_version r = 1 \<and>
        (\<forall>d \<in> set ds. dp_review_id d = rr_id r \<and> dp_decision d = ''pending'' \<and> dp_version d = 1) \<and>
        map dp_row_id ds = map mrow_id (filter (\<lambda>m. mrow_run_id m = rr_run_id r) (re_matrix env)) \<and>
        (distinct (map dp_id (rv_dispositions db)) \<longrightarrow> distinct (map dp_id (rv_dispositions db @ ds))) \<and>
        (distinct (map (\<lambda>x. (dp_review_id x, dp_row_id x)) (rv_dispositions db)) \<longrightarrow>
           distinct (map (\<lambda>x. (dp_review_id x, dp_row_id x)) (rv_dispositions db @ ds))))"

lemma existing_none:
  "existing_review run_id db = Inr None \<Longrightarrow>
     \<forall>x \<in> set (rv_reviews db). rr_run_id x = run_id \<longrightarrow> rr_status x \<noteq> ''draft'' \<and> rr_status x \<noteq> ''submitted''"
  by (auto simp: existing_review_def scalar_one_or_none_def bindR_eq_Inr find_None_iff filter_empty_conv
      split: list.splits option.splits)

lemma context_rows:
  "load_run_context env run_id = Inr (sys, rows) \<Longrightarrow> rows = filter (\<lambda>m. mrow_run_id m = run_id) (re_matrix env)"
  by (auto simp: load_run_context_def split: option.splits)

lemma mutation_result_error: "review_mutation_result r ds st db = (Inl e, db') \<Longrightarrow> \<not> caught_by_route e"
  by (auto simp: review_mutation_result_def handler_simps caught_by_route_def caught_by_create_def)

lemma existing_error: "existing_review run_id db = Inl e \<Longrightarrow> \<not> caught_by_route e"
  by (auto simp: existing_review_def scalar_one_or_none_def bindR_eq_Inl caught_by_route_def caught_by_create_def
      split: list.splits)

lemma context_error: "load_run_context env run_id = Inl e \<Longrightarrow> \<not> caught_by_create e"
  by (auto simp: load_run_context_def caught_by_create_def split: option.splits)

lemma caught_create_route: "caught_by_create e \<Longrightarrow> caught_by_route e"
  by (simp add: caught_by_route_def)

lemmas create_errors = mutation_result_error existing_error service_errors insertion_errors insert_dispositions_errors

lemma create_error:
  assumes "create_review_revision env p run_id key rid dids eid now db = (Inl e, db')"
  shows "\<not> caught_by_create e"
proof
  assume "caught_by_create e"
  note caught = this caught_create_route [OF this]
  from assms caught show False
    by (auto simp: create_review_revision_def Let_def handler_simps dest: create_errors context_error split: option.splits)
qed

abbreviation draft_review :: "uuid \<Rightarrow> uuid \<Rightarrow> string \<Rightarrow> instant \<Rightarrow> review_revision" where
  "draft_review rid run_id actor now \<equiv> \<lparr>rr_id = rid, rr_run_id = run_id, rr_version = 1, rr_status = ''draft'',
     rr_created_by = actor, rr_created_at = now\<rparr>"

lemma created_run:
  assumes "existing_review run_id db = Inr None" and "load_run_context env run_id = Inr (sys, rows)"
    and "rows_of db1 = rows_of db" and ins: "insert_review (draft_review rid run_id actor now) db1 = (Inr (), db2)"
    and "forS (map (pending_disposition rid dids actor now) rows) insert_disposition db2 = (Inr us, db3)"
    and "rows_of db' = rows_of db3"
  shows "created env db db'"
proof -
  let ?r = "draft_review rid run_id actor now" and ?ds = "map (pending_disposition rid dids actor now) rows"
  note ds = insert_dispositions_run [OF assms(5)]
  have "rows_of db' = (rv_reviews db @ [?r], rv_dispositions db @ ?ds, rv_requests db, rv_candidates db, rv_comments db)"
    using ins ds assms(3,6) by (simp add: insert_runs rows_of_def)
  moreover have "rv_dispositions db2 = rv_dispositions db" "rid \<notin> rr_id ` set (rv_reviews db)"
    using ins assms(3) by (simp_all add: insert_runs rows_of_def)
  moreover have "map dp_row_id ?ds = map mrow_id rows" by (simp add: pending_disposition_def)
  ultimately show ?thesis
    unfolding created_def using ds context_rows [OF assms(2)] existing_none [OF assms(1)]
    by (intro exI [of _ ?r] exI [of _ ?ds]) (auto simp: pending_disposition_def)
qed

lemma create_rows:
  assumes "create_review_revision env p run_id key rid dids eid now db = (Inr x, db')"
  shows "rows_of db' = rows_of db \<or> created env db db'"
proof -
  from assms obtain sys rows existing where
    scope: "load_run_context env run_id = Inr (sys, rows)" and existing: "existing_review run_id db = Inr existing"
    by (auto simp: create_review_revision_def Let_def handler_simps require_role_def)
  show ?thesis
  proof (cases existing)
    case (Some r)
    then show ?thesis using assms scope existing
      by (auto simp: create_review_revision_def Let_def handler_simps require_role_def review_mutation_result_def)
  next
    case None
    with assms scope existing show ?thesis
      by (auto simp: create_review_revision_def Let_def handler_simps require_role_def split: option.splits)
        (metis load_replay_rows, metis created_run kept_rows)
  qed
qed

text \<open>The review is submitted: it was a draft without pending dispositions.\<close>

definition was_submitted :: "review_db \<Rightarrow> review_db \<Rightarrow> bool" where
  "was_submitted db db' =
     (\<exists>r. find (\<lambda>x. rr_id x = rr_id r) (rv_reviews db) = Some r \<and> rr_status r = ''draft'' \<and>
        (\<forall>d \<in> set (rv_dispositions db). dp_review_id d = rr_id r \<longrightarrow> dp_decision d \<noteq> ''pending'') \<and>
        rows_of db' = rows_of (set_review (\<lambda>_. r\<lparr>rr_status := ''submitted''\<rparr>) (rr_id r) db))"

lemma load_review_find: "load_review i db = Inr r \<Longrightarrow> find (\<lambda>x. rr_id x = i) (rv_reviews db) = Some r \<and> rr_id r = i"
  by (auto simp: load_review_def dest: find_SomeD split: option.splits)

lemma submit_error:
  assumes "submit_review_revision env p rid im key eid now db = (Inl e, db')" and "caught_by_route e"
  shows "db' = db"
  using assms
  by (auto simp: submit_review_revision_def Let_def handler_simps require_role_def dest: service_errors split: if_splits)

lemma submit_rows:
  assumes "submit_review_revision env p rid im key eid now db = (Inr x, db')"
  shows "was_submitted db db'"
proof -
  from assms obtain r where r: "load_review rid db = Inr r" "rr_status r = ''draft''"
      "\<not> list_ex (\<lambda>d. dp_decision d = ''pending'') (load_dispositions rid db)"
    and rows: "rows_of db' = rows_of (set_review (\<lambda>_. r\<lparr>rr_status := ''submitted''\<rparr>) rid db)"
    by (auto simp: submit_review_revision_def Let_def handler_simps require_role_def dest!: audit_review_rows split: if_splits)
  then show ?thesis
    using load_review_find [OF r(1)]
    by (auto simp: was_submitted_def load_dispositions_def list_ex_iff intro!: exI [of _ r])
qed

section \<open>Deciding a row\<close>

lemma routing_error: "route_disposition_side_effects env i decision actor ev now db = (Inl e, db') \<Longrightarrow> \<not> caught_by_route e"
  by (auto simp: route_disposition_side_effects_def handler_simps insert_candidate_or_existing_def
      dest: service_errors insertion_errors split: if_splits option.splits prod.splits sum.splits review_error.splits)

lemma insert_candidate_or_existing_run:
  "insert_candidate_or_existing i db = (Inr found, db') \<longleftrightarrow>
     (case found of
        None \<Rightarrow> insert_candidate i db = (Inr (), db')
      | Some x \<Rightarrow> db' = db \<and> insert_candidate i db = (Inl ReviewIntegrity, db) \<and>
          load_existing_poam_candidate (ri_review_id i) (ri_row_id i) db = Some x)"
  by (auto simp: insert_candidate_or_existing_def insert_candidate_def callS_def split: option.splits if_splits)

definition routed :: "string \<Rightarrow> routed_item \<Rightarrow> review_db \<Rightarrow> review_db \<Rightarrow> bool" where
  "routed decision i db db' =
     (rows_of db' = rows_of db \<or>
      decision = ''evidence_requested'' \<and> routed_unique i (rv_requests db) \<and>
        rows_of db' = rows_of (db\<lparr>rv_requests := rv_requests db @ [i]\<rparr>) \<or>
      decision = ''weakness_confirmed'' \<and> routed_unique i (rv_candidates db) \<and>
        rows_of db' = rows_of (db\<lparr>rv_candidates := rv_candidates db @ [i]\<rparr>))"

lemma routing_rows:
  assumes "route_disposition_side_effects env i decision actor ev now db = (Inr res, db')"
  shows "routed decision i db db'"
    and "decision = ''evidence_requested'' \<Longrightarrow> \<exists>x \<in> set (rv_requests db'). ri_review_id x = ri_review_id i \<and> ri_row_id x = ri_row_id i"
    and "decision = ''weakness_confirmed'' \<Longrightarrow> \<exists>x \<in> set (rv_candidates db'). ri_review_id x = ri_review_id i \<and> ri_row_id x = ri_row_id i"
proof -
  show "routed decision i db db'"
    using assms
    by (auto simp: routed_def route_disposition_side_effects_def handler_simps insert_runs insert_candidate_or_existing_run
        dest!: audit_review_rows split: if_splits option.splits)
qed (use assms in \<open>auto simp: route_disposition_side_effects_def handler_simps insert_runs insert_candidate_or_existing_run
    load_existing_evidence_request_def load_existing_poam_candidate_def rows_of_def
    dest!: audit_review_rows find_SomeD split: if_splits option.splits\<close>)

text \<open>A row that needs one has its evidence request or candidate.\<close>

definition routing_done :: "string \<Rightarrow> uuid \<Rightarrow> uuid \<Rightarrow> review_db \<Rightarrow> bool" where
  "routing_done decision review_id row_id db =
     ((decision = ''evidence_requested'' \<longrightarrow> (\<exists>x \<in> set (rv_requests db). ri_review_id x = review_id \<and> ri_row_id x = row_id)) \<and>
      (decision = ''weakness_confirmed'' \<longrightarrow> (\<exists>x \<in> set (rv_candidates db). ri_review_id x = review_id \<and> ri_row_id x = row_id)))"

text \<open>One row of a draft is decided, its version and the version of the review counted up.\<close>

definition decided :: "review_env \<Rightarrow> review_db \<Rightarrow> review_db \<Rightarrow> bool" where
  "decided env db db' =
     (\<exists>r d d' i row.
        find (\<lambda>x. rr_id x = rr_id r) (rv_reviews db) = Some r \<and> rr_status r \<notin> {''submitted'', ''superseded''} \<and>
        find (\<lambda>x. dp_review_id x = rr_id r \<and> dp_row_id x = mrow_id row) (rv_dispositions db) = Some d \<and>
        row \<in> set (re_matrix env) \<and>
        d' = d\<lparr>dp_decision := dp_decision d', dp_edited_summary := dp_edited_summary d', dp_notes := dp_notes d',
           dp_version := dp_version d + 1, dp_decided_by := dp_decided_by d', dp_decided_at := dp_decided_at d'\<rparr> \<and>
        dp_decision d' \<in> set RESOLVED_DISPOSITION_DECISIONS \<and>
        require_decision_compatible_with_matrix_status (dp_decision d') (mrow_system_status row) = Inr () \<and>
        ri_review_id i = rr_id r \<and> ri_row_id i = mrow_id row \<and> ri_disposition_id i = dp_id d \<and>
        ri_system_status i = mrow_system_status row \<and>
        routed (dp_decision d') i
          (db\<lparr>rv_dispositions := update_where (\<lambda>x. dp_id x = dp_id d) (\<lambda>_. d') (rv_dispositions db),
              rv_reviews := update_where (\<lambda>x. rr_id x = rr_id r) (\<lambda>_. r\<lparr>rr_version := rr_version r + 1\<rparr>) (rv_reviews db)\<rparr>)
          db' \<and>
        routing_done (dp_decision d') (rr_id r) (mrow_id row) db')"

lemma routing_rows':
  "route_disposition_side_effects env i decision actor ev now db = (Inr res, db') \<Longrightarrow>
    routed decision i db db' \<and> routing_done decision (ri_review_id i) (ri_row_id i) db'"
  using routing_rows unfolding routing_done_def by metis

lemma update_error:
  assumes "update_disposition env p rid row_id decision summary notes im nid ev eid now db = (Inl e, db')" and "caught_by_route e"
  shows "db' = db"
  using assms
  by (auto simp: update_disposition_def Let_def handler_simps require_role_def
      dest: service_errors insertion_errors routing_error split: if_splits)

lemma update_rows:
  assumes "update_disposition env p rid row_id decision summary notes im nid ev eid now db = (Inr x, db')"
  shows "decided env db db'"
proof -
  let ?actor = "principal.actor_id p"
  from assms obtain r d row db1 where
    r: "load_review rid db = Inr r" "rr_status r \<notin> set TERMINAL_REVIEW_STATUSES"
    and decision: "validate_disposition_decision decision summary = Inr ()"
    and d: "load_disposition rid row_id db = Inr d"
    and row: "load_matrix_row env row_id = Inr row"
      "require_decision_compatible_with_matrix_status decision (mrow_system_status row) = Inr ()"
    and rest: "let d' = d\<lparr>dp_decision := decision, dp_edited_summary := summary, dp_notes := notes,
          dp_version := dp_version d + 1, dp_decided_by := ?actor, dp_decided_at := now\<rparr>;
        r' = r\<lparr>rr_version := rr_version r + 1\<rparr>;
        i = routed_item_of r' d' row decision ?actor nid now;
        db0 = db\<lparr>rv_dispositions := update_where (\<lambda>x. dp_id x = dp_id d) (\<lambda>_. d') (rv_dispositions db),
              rv_reviews := update_where (\<lambda>x. rr_id x = rr_id r) (\<lambda>_. r') (rv_reviews db)\<rparr>
      in routed decision i db0 db1 \<and> routing_done decision (ri_review_id i) (ri_row_id i) db1"
      and rows: "rows_of db' = rows_of db1"
    by (auto simp: update_disposition_def Let_def handler_simps require_role_def insert_runs
        dest!: audit_review_rows routing_rows' split: if_splits)
  note found = load_review_find [OF r(1)]
  have mrow: "mrow_id row = row_id" "row \<in> set (re_matrix env)" using row(1) by (auto simp: load_matrix_row_def dest: find_SomeD split: option.splits)
  have disp: "find (\<lambda>x. dp_review_id x = rid \<and> dp_row_id x = row_id) (rv_dispositions db) = Some d"
    using d by (auto simp: load_disposition_def split: option.splits)
  have resolved: "decision \<in> set RESOLVED_DISPOSITION_DECISIONS"
    using decision by (auto simp: validate_disposition_decision_def split: if_splits)
  have tables: "routing_done a k l db' = routing_done a k l db1" for a k l using rows by (simp add: rows_of_def routing_done_def)
  have routed: "routed a i db0 db'" if "routed a i db0 db1" for a i db0
    using that rows by (simp add: routed_def)
  show ?thesis
    unfolding decided_def
    using found mrow disp resolved row(2) r(2) rest tables
    by (intro exI [of _ r] exI [of _ d] exI [of _ "d\<lparr>dp_decision := decision, dp_edited_summary := summary, dp_notes := notes,
          dp_version := dp_version d + 1, dp_decided_by := ?actor, dp_decided_at := now\<rparr>"]
        exI [of _ "routed_item_of (r\<lparr>rr_version := rr_version r + 1\<rparr>) (d\<lparr>dp_decision := decision, dp_edited_summary := summary,
          dp_notes := notes, dp_version := dp_version d + 1, dp_decided_by := ?actor, dp_decided_at := now\<rparr>) row decision ?actor nid now"]
        exI [of _ row])
      (auto simp: Let_def routed_item_of_def TERMINAL_REVIEW_STATUSES_def intro: routed)
qed

section \<open>Comments\<close>

definition commented :: "review_db \<Rightarrow> review_db \<Rightarrow> bool" where
  "commented db db' =
     (\<exists>c r. find (\<lambda>x. rr_id x = cm_review_id c) (rv_reviews db) = Some r \<and> rr_status r \<notin> {''submitted'', ''superseded''} \<and>
        cm_id c \<notin> cm_id ` set (rv_comments db) \<and> rows_of db' = rows_of (db\<lparr>rv_comments := rv_comments db @ [c]\<rparr>))"

lemma comment_error:
  assumes "create_review_comment env p rid row_id body key cid eid now db = (Inl e, db')" and "caught_by_route e"
  shows "db' = db"
  using assms
  by (auto simp: create_review_comment_def Let_def handler_simps require_role_def
      dest: service_errors insertion_errors split: if_splits option.splits)

lemma comment_rows:
  assumes "create_review_comment env p rid row_id body key cid eid now db = (Inr x, db')"
  shows "rows_of db' = rows_of db \<or> commented db db'"
proof -
  let ?c = "\<lparr>cm_id = cid, cm_review_id = rid, cm_row_id = row_id, cm_body = py_strip body,
    cm_created_by = principal.actor_id p, cm_created_at = now\<rparr>"
  from assms obtain r where r: "load_review rid db = Inr r" "rr_status r \<notin> set TERMINAL_REVIEW_STATUSES"
    by (auto simp: create_review_comment_def Let_def handler_simps require_role_def split: if_splits)
  have added: "commented db db'"
    if "rows_of db1 = rows_of db" "insert_comment ?c db1 = (Inr (), db2)" "rows_of db' = rows_of db2" for db1 db2
    unfolding commented_def using that load_review_find [OF r(1)] r(2)
    by (intro exI [of _ ?c] exI [of _ r]) (auto simp: insert_runs rows_of_def TERMINAL_REVIEW_STATUSES_def)
  from assms show ?thesis
    by (auto simp: create_review_comment_def Let_def handler_simps require_role_def split: if_splits option.splits)
      (metis load_replay_rows, metis added kept_rows)+
qed

section \<open>Requests\<close>

lemma review_step_rows:
  assumes "review_step env db db'"
  shows "rows_of db' = rows_of db \<or> created env db db' \<or> was_submitted db db' \<or> decided env db db' \<or> commented db db'"
  using assms
proof cases
  case (step_create p run_id key review_id disposition_ids event_id now)
  then show ?thesis
    using create_rows [of env p run_id key review_id disposition_ids event_id now db]
      create_error [of env p run_id key review_id disposition_ids event_id now db]
    by (auto simp: post_review_revision_def committed_def split: prod.splits sum.splits)
next
  case (step_submit p review_id if_match key event_id now)
  then show ?thesis
    using submit_rows [of env p review_id if_match key event_id now db]
      submit_error [of env p review_id if_match key event_id now db]
    by (auto simp: post_review_revision_submit_def committed_def split: prod.splits sum.splits)
next
  case (step_decide p review_id row_id decision summary remarks if_match new_id routing_event event_id now)
  then show ?thesis
    using update_rows [of env p review_id row_id decision summary remarks if_match new_id routing_event event_id now db]
      update_error [of env p review_id row_id decision summary remarks if_match new_id routing_event event_id now db]
    by (auto simp: patch_disposition_def committed_def split: prod.splits sum.splits)
next
  case (step_comment p review_id row_id body key comment_id event_id now)
  then show ?thesis
    using comment_rows [of env p review_id row_id body key comment_id event_id now db]
      comment_error [of env p review_id row_id body key comment_id event_id now db]
    by (auto simp: post_review_comment_def committed_def split: prod.splits sum.splits)
qed

end
