(* ===== verification/ReviewInvariant.thy ===== *)
theory ReviewInvariant
  imports ReviewProperties
begin

text \<open>
  The invariant of the review tables and the rest of submitted reviews. The invariant speaks about the lists
  of reviews, dispositions, evidence requests and candidates; each part is kept by each of the effects of
  \<open>ReviewProperties\<close>, and the locale \<open>invariant_system\<close> carries it to all reachable states.
\<close>

section \<open>The invariant\<close>

definition pairs :: "disposition list \<Rightarrow> (uuid \<times> uuid) list" where
  "pairs ds = map (\<lambda>x. (dp_review_id x, dp_row_id x)) ds"

definition of_review :: "uuid \<Rightarrow> disposition list \<Rightarrow> disposition list" where
  "of_review i ds = filter (\<lambda>d. dp_review_id d = i) ds"

definition keys_ok :: "review_revision list \<Rightarrow> disposition list \<Rightarrow> bool" where
  "keys_ok rs ds = (distinct (map rr_id rs) \<and> distinct (map rr_run_id rs) \<and> distinct (map dp_id ds) \<and> distinct (pairs ds) \<and>
     (\<forall>r \<in> set rs. rr_status r = ''draft'' \<or> rr_status r = ''submitted'') \<and>
     (\<forall>d \<in> set ds. dp_review_id d \<in> rr_id ` set rs \<and> dp_decision d \<in> set DISPOSITION_DECISION_VALUES))"

text \<open>A review has one disposition for each row of the matrix, and no pending one once it is submitted; its version
  counts the decisions.\<close>

definition review_ok :: "review_env \<Rightarrow> disposition list \<Rightarrow> review_revision \<Rightarrow> bool" where
  "review_ok env ds r =
     (map dp_row_id (of_review (rr_id r) ds) = map mrow_id (filter (\<lambda>m. mrow_run_id m = rr_run_id r) (re_matrix env)) \<and>
      (rr_status r = ''submitted'' \<longrightarrow> (\<forall>d \<in> set (of_review (rr_id r) ds). dp_decision d \<noteq> ''pending'')) \<and>
      rr_version r = 1 + (\<Sum>d\<leftarrow>of_review (rr_id r) ds. dp_version d - 1))"

definition item_ok :: "string list \<Rightarrow> disposition list \<Rightarrow> routed_item \<Rightarrow> bool" where
  "item_ok statuses ds i = (ri_system_status i \<in> set statuses \<and>
     (\<exists>d \<in> set ds. dp_id d = ri_disposition_id i \<and> dp_review_id d = ri_review_id i \<and> dp_row_id d = ri_row_id i))"

definition items_ok :: "string list \<Rightarrow> disposition list \<Rightarrow> routed_item list \<Rightarrow> bool" where
  "items_ok statuses ds items = (distinct (map (\<lambda>x. (ri_review_id x, ri_row_id x)) items) \<and> (\<forall>i \<in> set items. item_ok statuses ds i))"

definition all_routed :: "disposition list \<Rightarrow> review_db \<Rightarrow> bool" where
  "all_routed ds db = (\<forall>d \<in> set ds. routing_done (dp_decision d) (dp_review_id d) (dp_row_id d) db)"

definition reviews_ok :: "review_env \<Rightarrow> review_db \<Rightarrow> bool" where
  "reviews_ok env db =
     (keys_ok (rv_reviews db) (rv_dispositions db) \<and>
      (\<forall>r \<in> set (rv_reviews db). review_ok env (rv_dispositions db) r) \<and>
      items_ok [''insufficient_evidence''] (rv_dispositions db) (rv_requests db) \<and>
      items_ok [''partial'', ''unsupported''] (rv_dispositions db) (rv_candidates db) \<and>
      all_routed (rv_dispositions db) db)"

lemma reviews_ok_rows: "rows_of db' = rows_of db \<Longrightarrow> reviews_ok env db' = reviews_ok env db"
  by (simp add: reviews_ok_def rows_of_def all_routed_def routing_done_def)

section \<open>Creation and submission\<close>

lemma of_review_append: "of_review i (xs @ ys) = of_review i xs @ of_review i ys"
  by (simp add: of_review_def)

lemma items_ok_more: "items_ok st ds items \<Longrightarrow> set ds \<subseteq> set ds' \<Longrightarrow> items_ok st ds' items"
  by (fastforce simp: items_ok_def item_ok_def)

lemma created_ok:
  assumes "created env db db'" and ok: "reviews_ok env db"
  shows "reviews_ok env db'"
proof -
  let ?R = "rv_reviews db" and ?D = "rv_dispositions db"
  from assms(1) obtain r ds where
    rows: "rows_of db' = (?R @ [r], ?D @ ds, rv_requests db, rv_candidates db, rv_comments db)"
    and run: "\<And>x. x \<in> set ?R \<Longrightarrow> rr_run_id x = rr_run_id r \<Longrightarrow> rr_status x \<noteq> ''draft'' \<and> rr_status x \<noteq> ''submitted''"
    and r: "rr_id r \<notin> rr_id ` set ?R" "rr_status r = ''draft''" "rr_version r = 1"
    and ds: "\<And>d. d \<in> set ds \<Longrightarrow> dp_review_id d = rr_id r \<and> dp_decision d = ''pending'' \<and> dp_version d = 1"
    and row_ids: "map dp_row_id ds = map mrow_id (filter (\<lambda>m. mrow_run_id m = rr_run_id r) (re_matrix env))"
    and dist: "distinct (map dp_id ?D) \<Longrightarrow> distinct (map dp_id (?D @ ds))" "distinct (pairs ?D) \<Longrightarrow> distinct (pairs (?D @ ds))"
    unfolding created_def pairs_def by blast
  have db': "rv_reviews db' = ?R @ [r]" "rv_dispositions db' = ?D @ ds" "rv_requests db' = rv_requests db"
      "rv_candidates db' = rv_candidates db"
    using rows by (simp_all add: rows_of_def)
  have keys: "keys_ok ?R ?D" using ok by (simp add: reviews_ok_def)
  have "rr_run_id r \<notin> rr_run_id ` set ?R" using run keys by (fastforce simp: keys_ok_def)
  then have "keys_ok (?R @ [r]) (?D @ ds)"
    using keys r(1,2) ds dist by (auto simp: keys_ok_def DISPOSITION_DECISION_VALUES_def)
  moreover have "review_ok env (?D @ ds) x" if "x \<in> set ?R" for x
  proof -
    have "rr_id x \<noteq> rr_id r" using that r(1) by (metis imageI)
    then have "of_review (rr_id x) ds = []" using ds by (auto simp: of_review_def filter_empty_conv)
    then show ?thesis using that ok by (simp add: reviews_ok_def review_ok_def of_review_append)
  qed
  moreover have "review_ok env (?D @ ds) r"
  proof -
    have "dp_review_id d \<noteq> rr_id r" if "d \<in> set ?D" for d
      using keys r(1) that unfolding keys_ok_def by metis
    then have none: "of_review (rr_id r) ?D = []" by (simp add: of_review_def filter_empty_conv)
    have all: "of_review (rr_id r) ds = ds" using ds by (simp add: of_review_def)
    have "(\<Sum>d\<leftarrow>ds. dp_version d - 1) = 0" using ds by (induction ds) auto
    then show ?thesis using none all row_ids r by (simp add: review_ok_def of_review_append)
  qed
  moreover have "all_routed (?D @ ds) db'"
    using ok ds by (auto simp: all_routed_def reviews_ok_def routing_done_def db')
  ultimately show ?thesis
    using ok unfolding reviews_ok_def db' by (auto intro: items_ok_more)
qed

lemma submitted_ok:
  assumes "was_submitted db db'" and ok: "reviews_ok env db"
  shows "reviews_ok env db'"
proof -
  let ?R = "rv_reviews db" and ?D = "rv_dispositions db"
  from assms(1) obtain r where r: "find (\<lambda>x. rr_id x = rr_id r) ?R = Some r" "rr_status r = ''draft''"
    and resolved: "\<And>d. d \<in> set ?D \<Longrightarrow> dp_review_id d = rr_id r \<Longrightarrow> dp_decision d \<noteq> ''pending''"
    and rows: "rows_of db' = rows_of (set_review (\<lambda>_. r\<lparr>rr_status := ''submitted''\<rparr>) (rr_id r) db)"
    unfolding was_submitted_def by blast
  have keys: "keys_ok ?R ?D" using ok by (simp add: reviews_ok_def)
  obtain a b where R: "?R = a @ r # b" using find_SomeD [OF r(1)] by (meson split_list)
  have "distinct (map rr_id (a @ r # b))" using keys by (simp add: keys_ok_def R)
  then have upd: "update_where (\<lambda>x. rr_id x = rr_id r) (\<lambda>_. r\<lparr>rr_status := ''submitted''\<rparr>) ?R = a @ r\<lparr>rr_status := ''submitted''\<rparr> # b"
    unfolding R by (rule update_where_split)
  have "reviews_ok env (db\<lparr>rv_reviews := a @ r\<lparr>rr_status := ''submitted''\<rparr> # b\<rparr>)"
    using ok resolved unfolding reviews_ok_def R
    by (auto simp: keys_ok_def review_ok_def of_review_def all_routed_def routing_done_def)
  moreover have "rows_of db' = rows_of (db\<lparr>rv_reviews := a @ r\<lparr>rr_status := ''submitted''\<rparr> # b\<rparr>)"
    using rows by (simp add: set_review_def rows_of_def upd)
  ultimately show ?thesis using reviews_ok_rows by blast
qed

section \<open>Decisions\<close>

text \<open>Replacing a disposition by a later version of the same row.\<close>

lemma replaced_items:
  assumes "dp_id d' = dp_id d" "dp_review_id d' = dp_review_id d" "dp_row_id d' = dp_row_id d"
    and "items_ok st (a @ d # b) items"
  shows "items_ok st (a @ d' # b) items"
  using assms by (auto simp: items_ok_def item_ok_def)

lemma items_ok_add:
  assumes "items_ok st ds items" and "routed_unique i items" and "ri_system_status i \<in> set st"
    and "d \<in> set ds" "dp_id d = ri_disposition_id i" "dp_review_id d = ri_review_id i" "dp_row_id d = ri_row_id i"
  shows "items_ok st ds (items @ [i])"
  using assms by (auto simp: items_ok_def item_ok_def routed_unique_def)

lemma replaced_keys:
  assumes "keys_ok (ra @ r # rb) (da @ d # db)" and "rr_id r' = rr_id r" "rr_run_id r' = rr_run_id r" "rr_status r' = rr_status r"
    and "dp_id d' = dp_id d" "dp_review_id d' = dp_review_id d" "dp_row_id d' = dp_row_id d"
    and "dp_decision d' \<in> set DISPOSITION_DECISION_VALUES"
  shows "keys_ok (ra @ r' # rb) (da @ d' # db)"
  using assms by (auto simp: keys_ok_def pairs_def)

lemma replaced_review_other:
  assumes "review_ok env (da @ d # db) x" and "dp_review_id d \<noteq> rr_id x" and "dp_review_id d' = dp_review_id d"
  shows "review_ok env (da @ d' # db) x"
  using assms by (simp add: review_ok_def of_review_def)

lemma replaced_review:
  assumes "review_ok env (da @ d # db) r" and "dp_review_id d' = dp_review_id d" "dp_row_id d' = dp_row_id d"
    and "dp_review_id d = rr_id r" "dp_version d' = dp_version d + 1" "rr_status r = ''draft''"
  shows "review_ok env (da @ d' # db) (r\<lparr>rr_version := rr_version r + 1\<rparr>)"
  using assms by (auto simp: review_ok_def of_review_def)

lemma routing_done_mono:
  "routing_done dec i j db \<Longrightarrow> set (rv_requests db) \<subseteq> set (rv_requests db') \<Longrightarrow> set (rv_candidates db) \<subseteq> set (rv_candidates db') \<Longrightarrow>
     routing_done dec i j db'"
  by (auto simp: routing_done_def)

lemma compatible_status:
  assumes "require_decision_compatible_with_matrix_status decision st = Inr ()"
  shows "decision = ''evidence_requested'' \<Longrightarrow> st \<in> set [''insufficient_evidence'']"
    and "decision = ''weakness_confirmed'' \<Longrightarrow> st \<in> set [''partial'', ''unsupported'']"
  using assms by (auto simp: require_decision_compatible_with_matrix_status_def split: if_splits)

lemma decided_ok:
  assumes "decided env db db'" and ok: "reviews_ok env db"
  shows "reviews_ok env db'"
proof -
  let ?R = "rv_reviews db" and ?D = "rv_dispositions db"
  from assms(1) obtain r d d' i and row :: matrix_row where r: "find (\<lambda>x. rr_id x = rr_id r) ?R = Some r" "rr_status r \<notin> {''submitted'', ''superseded''}"
    and d: "find (\<lambda>x. dp_review_id x = rr_id r \<and> dp_row_id x = mrow_id row) ?D = Some d"
    and d'_eq: "d' = d\<lparr>dp_decision := dp_decision d', dp_edited_summary := dp_edited_summary d', dp_notes := dp_notes d',
           dp_version := dp_version d + 1, dp_decided_by := dp_decided_by d', dp_decided_at := dp_decided_at d'\<rparr>"
    and decision: "dp_decision d' \<in> set RESOLVED_DISPOSITION_DECISIONS"
    and compat: "require_decision_compatible_with_matrix_status (dp_decision d') (mrow_system_status row) = Inr ()"
    and i: "ri_review_id i = rr_id r" "ri_row_id i = mrow_id row" "ri_disposition_id i = dp_id d" "ri_system_status i = mrow_system_status row"
    and routed: "routed (dp_decision d') i
          (db\<lparr>rv_dispositions := update_where (\<lambda>x. dp_id x = dp_id d) (\<lambda>_. d') ?D,
              rv_reviews := update_where (\<lambda>x. rr_id x = rr_id r) (\<lambda>_. r\<lparr>rr_version := rr_version r + 1\<rparr>) ?R\<rparr>) db'"
    and done_now: "routing_done (dp_decision d') (rr_id r) (mrow_id row) db'"
    unfolding decided_def by (elim exE conjE) (rule that; assumption)
  let ?r' = "r\<lparr>rr_version := rr_version r + 1\<rparr>"
  have keys: "keys_ok ?R ?D" using ok by (simp add: reviews_ok_def)
  obtain ra rb da dd where R: "?R = ra @ r # rb" and D: "?D = da @ d # dd"
    using find_SomeD [OF r(1)] find_SomeD [OF d] by (meson split_list)
  have d_of: "dp_review_id d = rr_id r" "dp_row_id d = mrow_id row" using find_SomeD [OF d] by simp_all
  have d': "dp_id d' = dp_id d" "dp_review_id d' = dp_review_id d" "dp_row_id d' = dp_row_id d" "dp_version d' = dp_version d + 1"
    using arg_cong [OF d'_eq, of dp_id] arg_cong [OF d'_eq, of dp_review_id] arg_cong [OF d'_eq, of dp_row_id]
      arg_cong [OF d'_eq, of dp_version] by simp_all
  have dist: "distinct (map rr_id (ra @ r # rb))" "distinct (map dp_id (da @ d # dd))"
    using keys by (simp_all add: keys_ok_def R D)
  have upd: "update_where (\<lambda>x. rr_id x = rr_id r) (\<lambda>_. ?r') ?R = ra @ ?r' # rb"
      "update_where (\<lambda>x. dp_id x = dp_id d) (\<lambda>_. d') ?D = da @ d' # dd"
    unfolding R D by (rule update_where_split [OF dist(1)], rule update_where_split [OF dist(2)])
  have draft: "rr_status r = ''draft''" using keys r(2) find_SomeD [OF r(1)] by (auto simp: keys_ok_def)
  have "keys_ok (ra @ ?r' # rb) (da @ d' # dd)"
  proof (rule replaced_keys [of ra r rb da d dd])
    show "keys_ok (ra @ r # rb) (da @ d # dd)" using keys by (simp only: R D)
    show "dp_decision d' \<in> set DISPOSITION_DECISION_VALUES"
      using decision by (auto simp: RESOLVED_DISPOSITION_DECISIONS_def DISPOSITION_DECISION_VALUES_def)
  qed (simp_all add: d')
  moreover have "review_ok env (da @ d' # dd) x" if "x \<in> set (ra @ ?r' # rb)" for x
  proof (cases "x = ?r'")
    case True
    have "review_ok env (da @ d # dd) r" using ok by (simp add: reviews_ok_def R D)
    from replaced_review [OF this d'(2,3) d_of(1) d'(4) draft] show ?thesis by (simp add: True)
  next
    case False
    then have x: "x \<in> set ra \<union> set rb" using that by auto
    then have "rr_id x \<noteq> rr_id r" using dist(1) by (auto intro: rev_image_eqI)
    moreover have "review_ok env (da @ d # dd) x" using ok x by (auto simp: reviews_ok_def R D)
    ultimately show ?thesis using replaced_review_other d_of(1) d'(2) by metis
  qed
  moreover have items: "items_ok [''insufficient_evidence''] (da @ d' # dd) (rv_requests db)"
      "items_ok [''partial'', ''unsupported''] (da @ d' # dd) (rv_candidates db)"
    using ok replaced_items [OF d'(1,2,3)] by (simp_all add: reviews_ok_def D)
  moreover have "all_routed (da @ d' # dd) db'"
  proof -
    have sub: "set (rv_requests db) \<subseteq> set (rv_requests db')" "set (rv_candidates db) \<subseteq> set (rv_candidates db')"
      using routed by (auto simp: routed_def rows_of_def)
    have "all_routed (da @ d # dd) db" using ok by (simp add: reviews_ok_def D)
    then show ?thesis using routing_done_mono [OF _ sub] done_now d'(2,3) d_of by (auto simp: all_routed_def)
  qed
  moreover have "rv_reviews db' = ra @ ?r' # rb" "rv_dispositions db' = da @ d' # dd"
    using routed by (auto simp: routed_def rows_of_def upd)
  moreover have "items_ok [''insufficient_evidence''] (da @ d' # dd) (rv_requests db')"
    using routed items(1) items_ok_add [OF items(1), of i d'] compatible_status(1) [OF compat] i d' d_of
    by (auto simp: routed_def rows_of_def)
  moreover have "items_ok [''partial'', ''unsupported''] (da @ d' # dd) (rv_candidates db')"
    using routed items(2) items_ok_add [OF items(2), of i d'] compatible_status(2) [OF compat] i d' d_of
    by (auto simp: routed_def rows_of_def)
  ultimately show ?thesis by (simp add: reviews_ok_def)
qed

section \<open>Reachable states\<close>

lemma commented_ok: "commented db db' \<Longrightarrow> reviews_ok env db \<Longrightarrow> reviews_ok env db'"
  by (auto simp: commented_def reviews_ok_def rows_of_def all_routed_def routing_done_def)

lemma review_step_ok: "reviews_ok env db \<Longrightarrow> review_step env db db' \<Longrightarrow> reviews_ok env db'"
  using review_step_rows created_ok submitted_ok decided_ok commented_ok reviews_ok_rows by metis

lemma empty_reviews_ok: "reviews_ok env empty_reviews"
  by (simp add: empty_reviews_def reviews_ok_def keys_ok_def items_ok_def all_routed_def pairs_def)

interpretation reviews: invariant_system "\<lambda>db. db = empty_reviews" "review_step env" "reviews_ok env" for env
  by unfold_locales (auto intro: empty_reviews_ok review_step_ok)

section \<open>Submitted reviews\<close>

text \<open>Everything the tables hold of a review.\<close>

definition parts_of :: "uuid \<Rightarrow> review_db \<Rightarrow> review_revision list \<times> disposition list \<times> routed_item list \<times> routed_item list \<times> review_comment list" where
  "parts_of i db = (filter (\<lambda>r. rr_id r = i) (rv_reviews db), of_review i (rv_dispositions db),
     filter (\<lambda>x. ri_review_id x = i) (rv_requests db), filter (\<lambda>x. ri_review_id x = i) (rv_candidates db),
     filter (\<lambda>x. cm_review_id x = i) (rv_comments db))"

lemma parts_of_rows: "rows_of db' = rows_of db \<Longrightarrow> parts_of i db' = parts_of i db"
  by (simp add: rows_of_def parts_of_def)

lemma filter_updated_other:
  "k \<noteq> i \<Longrightarrow> (\<And>x. P x \<Longrightarrow> key x = k) \<Longrightarrow> key y = k \<Longrightarrow> filter (\<lambda>x. key x = i) (update_where P (\<lambda>_. y) rows) = filter (\<lambda>x. key x = i) rows"
  by (induction rows) auto

lemma routed_parts:
  "routed decision x db db' \<Longrightarrow> ri_review_id x \<noteq> i \<Longrightarrow> parts_of i db' = parts_of i db"
  by (auto simp: routed_def rows_of_def parts_of_def)

lemma submitted_unchanged:
  assumes "reviews_ok env db" and "review_step env db db'" and sub: "r \<in> set (rv_reviews db)" "rr_status r = ''submitted''"
  shows "parts_of (rr_id r) db' = parts_of (rr_id r) db"
proof -
  let ?i = "rr_id r"
  have keys: "keys_ok (rv_reviews db) (rv_dispositions db)" using assms(1) by (simp add: reviews_ok_def)
  have other: "rr_id x \<noteq> ?i" if "find (\<lambda>y. rr_id y = rr_id x) (rv_reviews db) = Some x" "rr_status x \<noteq> ''submitted''" for x
    using that sub keys distinct_key_unique [of rr_id "rv_reviews db" r x] find_SomeD [OF that(1)] by (auto simp: keys_ok_def)
  from review_step_rows [OF assms(2)] show ?thesis
  proof (elim disjE)
    assume "created env db db'"
    then obtain x ds where rows: "rows_of db' = (rv_reviews db @ [x], rv_dispositions db @ ds, rv_requests db, rv_candidates db, rv_comments db)"
      and x: "rr_id x \<notin> rr_id ` set (rv_reviews db)" and ds: "\<And>d. d \<in> set ds \<Longrightarrow> dp_review_id d = rr_id x"
      unfolding created_def by blast
    have "rr_id x \<noteq> ?i" using x sub(1) by (metis imageI)
    then have "of_review ?i ds = []" "filter (\<lambda>r. rr_id r = ?i) [x] = []" using ds by (simp_all add: of_review_def filter_empty_conv)
    then show ?thesis using rows by (simp add: rows_of_def parts_of_def of_review_append)
  next
    assume "was_submitted db db'"
    then obtain x where x: "find (\<lambda>y. rr_id y = rr_id x) (rv_reviews db) = Some x" "rr_status x = ''draft''"
      and rows: "rows_of db' = rows_of (set_review (\<lambda>_. x\<lparr>rr_status := ''submitted''\<rparr>) (rr_id x) db)"
      unfolding was_submitted_def by blast
    have "rr_id x \<noteq> ?i" using other [OF x(1)] x(2) by simp
    then show ?thesis using rows
      by (simp add: rows_of_def parts_of_def set_review_def filter_updated_other)
  next
    assume "decided env db db'"
    then obtain x d d' y and row :: matrix_row where x: "find (\<lambda>y. rr_id y = rr_id x) (rv_reviews db) = Some x" "rr_status x \<notin> {''submitted'', ''superseded''}"
      and d: "find (\<lambda>z. dp_review_id z = rr_id x \<and> dp_row_id z = mrow_id row) (rv_dispositions db) = Some d"
      and d': "d' = d\<lparr>dp_decision := dp_decision d', dp_edited_summary := dp_edited_summary d', dp_notes := dp_notes d',
           dp_version := dp_version d + 1, dp_decided_by := dp_decided_by d', dp_decided_at := dp_decided_at d'\<rparr>"
      and y: "ri_review_id y = rr_id x"
      and routed: "routed (dp_decision d') y
          (db\<lparr>rv_dispositions := update_where (\<lambda>x. dp_id x = dp_id d) (\<lambda>_. d') (rv_dispositions db),
              rv_reviews := update_where (\<lambda>y. rr_id y = rr_id x) (\<lambda>_. x\<lparr>rr_version := rr_version x + 1\<rparr>) (rv_reviews db)\<rparr>) db'"
      unfolding decided_def by (elim exE conjE) (rule that; assumption)
    have ne: "rr_id x \<noteq> ?i" using other [OF x(1)] x(2) by simp
    have din: "d \<in> set (rv_dispositions db)" "dp_review_id d = rr_id x" using find_SomeD [OF d] by simp_all
    have "distinct (map dp_id (rv_dispositions db))" using keys by (simp add: keys_ok_def)
    obtain a b where D: "rv_dispositions db = a @ d # b" using split_list [OF din(1)] by blast
    have "update_where (\<lambda>x. dp_id x = dp_id d) (\<lambda>_. d') (rv_dispositions db) = a @ d' # b"
      using keys unfolding D by (intro update_where_split) (simp add: keys_ok_def)
    moreover have "dp_review_id d' = rr_id x" using arg_cong [OF d', of dp_review_id] din(2) by simp
    ultimately have "of_review ?i (update_where (\<lambda>x. dp_id x = dp_id d) (\<lambda>_. d') (rv_dispositions db)) = of_review ?i (rv_dispositions db)"
      using ne din(2) by (simp add: of_review_def D)
    then have "parts_of ?i (db\<lparr>rv_dispositions := update_where (\<lambda>x. dp_id x = dp_id d) (\<lambda>_. d') (rv_dispositions db),
        rv_reviews := update_where (\<lambda>y. rr_id y = rr_id x) (\<lambda>_. x\<lparr>rr_version := rr_version x + 1\<rparr>) (rv_reviews db)\<rparr>) = parts_of ?i db"
      using ne by (simp add: parts_of_def filter_updated_other)
    then show ?thesis using routed_parts [OF routed] y ne by simp
  next
    assume "commented db db'"
    then obtain c x where x: "find (\<lambda>y. rr_id y = cm_review_id c) (rv_reviews db) = Some x" "rr_status x \<notin> {''submitted'', ''superseded''}"
      and rows: "rows_of db' = rows_of (db\<lparr>rv_comments := rv_comments db @ [c]\<rparr>)"
      unfolding commented_def by blast
    have "cm_review_id c \<noteq> ?i" using other [of x] x find_SomeD [OF x(1)] by auto
    then show ?thesis using rows by (simp add: rows_of_def parts_of_def)
  qed (rule parts_of_rows)
qed

end
