(* ===== verification/ReviewExample.thy ===== *)
theory ReviewExample
  imports ReviewInvariant
begin

text \<open>
  One review on a small system: it is created, its only row is decided, and it is submitted. The run gives the
  hypotheses of the properties of the reviews a concrete instance.
\<close>

section \<open>The run\<close>

definition ex_mrow :: matrix_row where
  "ex_mrow = \<lparr>mrow_id = 40, mrow_run_id = 10, mrow_item_type = ''nist_control'', mrow_item_id = ''AC-2'',
     mrow_proposed_status = ''partial'', mrow_system_status = ''partial'', mrow_finding_summary = ''No review of accounts'',
     mrow_gaps = [], mrow_assessor_questions = [], mrow_citations = [], mrow_context_complete = True,
     mrow_producing_run_id = 10, mrow_source_run_id = 10\<rparr>"

definition ex_renv :: review_env where
  "ex_renv = \<lparr>re_hmac = (\<lambda>_ _. replicate 64 CHR ''a''), re_key = Some (replicate 32 CHR ''k''),
     re_sha256 = (\<lambda>_. ex_digest), re_roles = DEFAULT_PACKAGE_ROLE_GROUPS, re_loads = (\<lambda>_. None),
     re_runs = [(10, 20)], re_revisions = [(20, 30)], re_systems = [(30, ex_target)], re_matrix = [ex_mrow]\<rparr>"

lemma ex_uuid_texts:
  "uuid_str 10 = ''00000000-0000-0000-0000-00000000000a''" "uuid_str 40 = ''00000000-0000-0000-0000-000000000028''"
  "uuid_str 50 = ''00000000-0000-0000-0000-000000000032''" "uuid_str 60 = ''00000000-0000-0000-0000-00000000003c''"
  "uuid_str 70 = ''00000000-0000-0000-0000-000000000046''"
  by code_simp+

lemma ex_time: "review_format_utc 0 = ''1970-01-01T00:00:00Z''"
proof -
  have "ord2ymd 719163 = (1970, 1, 1)"
    by (simp add: ord2ymd_def month_of_day_def month_from.simps days_before_month_def Let_def)
  then have "utc_date 0 = (1970, 1, 1)" by (simp add: utc_date_def utc_total_def)
  moreover have "utc_clock 0 = (0, 0, 0)" by (simp add: utc_clock_def utc_second_def utc_total_def)
  moreover have "dec_nat 1970 = ''1970''" "zpad 2 1 = ''01''" "zpad 2 0 = ''00''" by code_simp+
  ultimately show ?thesis
    by (simp add: review_format_utc_def strftime_seconds_def date_text_def clock_text_def)
qed

definition ex_review :: "string \<Rightarrow> int \<Rightarrow> review_revision" where
  "ex_review status version = \<lparr>rr_id = 50, rr_run_id = 10, rr_version = version, rr_status = status, rr_created_by = ''ann'',
     rr_created_at = 0\<rparr>"

definition ex_pending :: disposition where
  "ex_pending = \<lparr>dp_id = 60, dp_review_id = 50, dp_row_id = 40, dp_decision = ''pending'', dp_edited_summary = None,
     dp_notes = None, dp_version = 1, dp_decided_by = ''ann'', dp_decided_at = 0\<rparr>"

definition ex_created_payload :: members where
  "ex_created_payload =
     [(''schema_version'', JStr ''2.0.0''), (''object_type'', JStr ''review_revision''),
      (''review_revision_id'', JStr ''00000000-0000-0000-0000-000000000032''),
      (''run_id'', JStr ''00000000-0000-0000-0000-00000000000a''), (''version'', JInt 1), (''status'', JStr ''draft''),
      (''dispositions'', JArr [JObj [(''matrix_row_id'', JStr ''00000000-0000-0000-0000-000000000028''),
         (''decision'', JStr ''pending''), (''edited_summary'', JNull), (''notes'', JNull), (''version'', JInt 1),
         (''decided_by'', JStr ''ann''), (''decided_at'', JStr ''1970-01-01T00:00:00Z'')]]),
      (''created_by'', JStr ''ann''), (''created_at'', JStr ''1970-01-01T00:00:00Z'')]"

lemma ex_payload: "map_review_revision_to_domain (ex_review ''draft'' 1) [ex_pending] = ex_created_payload"
  by (simp add: map_review_revision_to_domain_def map_disposition_to_domain_def ex_review_def ex_pending_def
      ex_created_payload_def ex_uuid_texts ex_time optional_text_def)

definition ex_tag :: string where "ex_tag = ''\"v1\"''"

definition ex_created_record :: idempotency_record where
  "ex_created_record = \<lparr>idem_principal = ''ann'', idem_operation = OPERATION_CREATE, idem_key = ex_key, idem_digest = ex_digest,
     idem_status = 201, idem_body = ex_created_payload, idem_headers = [(''ETag'', ex_tag)], idem_created_at = 0,
     idem_expires_at = IDEMPOTENCY_RETENTION\<rparr>"

lemma ex_parts:
  "load_run_context ex_renv 10 = Inr (ex_target, [ex_mrow])"
  "require_package_role (re_roles ex_renv) ex_owner ex_target ''reviewer'' = Inr ()"
  "existing_review 10 empty_reviews = Inr None"
  "request_digest_from_payload (re_sha256 ex_renv) [(''run_id'', JStr (uuid_str 10))] = Inr ex_digest"
  "load_idempotency_replay ''ann'' OPERATION_CREATE ex_key ex_digest (Aware 0) [] = Inr ([], None)"
  "format_package_revision_etag 1 = Inr ex_tag"
  by code_simp+

lemma ex_created_recorded:
  "record_idempotency_outcome ''ann'' OPERATION_CREATE ex_key ex_digest 201 ex_created_payload [(''ETag'', ex_tag)] (Aware 0) [] =
     Inr ([ex_created_record], ())"
  by code_simp

definition ex_event :: "uuid \<Rightarrow> audit_event list \<Rightarrow> string \<Rightarrow> string \<Rightarrow> string \<Rightarrow> members \<Rightarrow> audit_event" where
  "ex_event i rows act otype oid meta =
     (draft_event i 0 ''user'' ''ann'' act otype oid ''succeeded'' None meta
        (case load_latest_audit_event rows of None \<Rightarrow> GENESIS_PREVIOUS_EVENT_HASH | Some e \<Rightarrow> event_hash e))
     \<lparr>event_hash := replicate 64 CHR ''a''\<rparr>"

lemma ex_append:
  assumes "require_action act = Inr act" "require_object_type otype = Inr otype" "require_object_id oid = Inr oid"
    and "require_metadata meta = Inr meta"
  shows "audit_review ex_renv i ''ann'' act otype oid meta 0 db =
    (Inr (), db\<lparr>rv_audit := rv_audit db @ [ex_event i (rv_audit db) act otype oid meta]\<rparr>)"
proof -
  have parts: "require_audit_hmac_key (re_key ex_renv) = Inr (replicate 32 CHR ''k'')"
      "require_actor_type ''user'' = Inr ''user''" "require_actor_id ''ann'' = Inr ''ann''"
      "require_outcome ''succeeded'' = Inr ''succeeded''" "require_reason_code None = Inr None"
    by code_simp+
  then have "require_audit_hmac_key (Some (replicate 32 CHR ''k'')) = Inr (replicate 32 CHR ''k'')"
    by (simp add: ex_renv_def)
  then show ?thesis
    using assms parts
    by (simp add: audit_review_def callS_def append_audit_event_def audit_require_aware_utc_def compute_audit_event_hash_def
        ex_event_def ex_renv_def Let_def)
qed

lemma ex_metadata:
  "require_metadata [(''run_id'', JStr ''00000000-0000-0000-0000-00000000000a'')] =
     Inr [(''run_id'', JStr ''00000000-0000-0000-0000-00000000000a'')]"
  "require_metadata [(''decision'', JStr ''accepted''), (''evidence_request_created'', JBool False), (''poam_candidate_created'', JBool False)] =
     Inr [(''decision'', JStr ''accepted''), (''evidence_request_created'', JBool False), (''poam_candidate_created'', JBool False)]"
  "require_metadata [(''decision'', JStr ''weakness_confirmed''), (''evidence_request_created'', JBool False), (''poam_candidate_created'', JBool True)] =
     Inr [(''decision'', JStr ''weakness_confirmed''), (''evidence_request_created'', JBool False), (''poam_candidate_created'', JBool True)]"
  "require_metadata [(''review_revision_id'', JStr ''00000000-0000-0000-0000-000000000032''),
       (''matrix_row_id'', JStr ''00000000-0000-0000-0000-000000000028''), (''assessment_item_id'', JStr ''AC-2'')] =
     Inr [(''review_revision_id'', JStr ''00000000-0000-0000-0000-000000000032''),
       (''matrix_row_id'', JStr ''00000000-0000-0000-0000-000000000028''), (''assessment_item_id'', JStr ''AC-2'')]"
  by code_simp+

lemma ex_names:
  "require_action ''review_revision.create'' = Inr ''review_revision.create''"
  "require_action ''review_revision.submit'' = Inr ''review_revision.submit''"
  "require_action ''review_revision.disposition'' = Inr ''review_revision.disposition''"
  "require_action ''poam_candidate.created'' = Inr ''poam_candidate.created''"
  "require_object_type ''review_revision'' = Inr ''review_revision''"
  "require_object_type ''disposition'' = Inr ''disposition''"
  "require_object_type ''poam_candidate'' = Inr ''poam_candidate''"
  by code_simp+

lemma ex_object_ids [simp]: "require_object_id (uuid_str i) = Inr (uuid_str i)"
  using length_uuid_str [of i] by (auto simp: require_object_id_def)

definition ex_draft :: review_db where
  "ex_draft = \<lparr>rv_reviews = [ex_review ''draft'' 1], rv_dispositions = [ex_pending], rv_requests = [], rv_candidates = [],
     rv_comments = [], rv_idempotency = [ex_created_record],
     rv_audit = [ex_event 70 [] ''review_revision.create'' ''review_revision'' (uuid_str 50) [(''run_id'', JStr (uuid_str 10))]]\<rparr>"

lemma ex_create_reviews:
  "post_review_revision ex_renv ex_owner 10 ex_key 50 (\<lambda>_. 60) 70 0 empty_reviews = ex_draft"
proof -
  have actor: "principal.actor_id ex_owner = ''ann''" by (simp add: ex_owner_def)
  have d: "pending_disposition 50 (\<lambda>_. 60) ''ann'' 0 ex_mrow = ex_pending"
    by (simp add: pending_disposition_def ex_pending_def ex_mrow_def)
  have r: "draft_review 50 10 ''ann'' 0 = ex_review ''draft'' 1" by (simp add: ex_review_def)
  have ok: "review_row_ok (ex_review ''draft'' 1)" "disposition_row_ok ex_pending" by code_simp+
  have version: "rr_version (ex_review ''draft'' 1) = 1" by (simp add: ex_review_def)
  let ?db1 = "empty_reviews\<lparr>rv_reviews := [ex_review ''draft'' 1]\<rparr>"
  let ?db2 = "?db1\<lparr>rv_dispositions := [ex_pending]\<rparr>"
  let ?db3 = "?db2\<lparr>rv_audit := [ex_event 70 [] ''review_revision.create'' ''review_revision'' (uuid_str 50)
    [(''run_id'', JStr (uuid_str 10))]]\<rparr>"
  have runs: "load_replay ''ann'' OPERATION_CREATE ex_key ex_digest 0 empty_reviews = (Inr None, empty_reviews)"
      "insert_review (ex_review ''draft'' 1) empty_reviews = (Inr (), ?db1)"
      "forS [ex_pending] insert_disposition ?db1 = (Inr [()], ?db2)"
      "audit_review ex_renv 70 ''ann'' ''review_revision.create'' ''review_revision'' (uuid_str 50)
         [(''run_id'', JStr (uuid_str 10))] 0 ?db2 = (Inr (), ?db3)"
      "record_outcome ''ann'' OPERATION_CREATE ex_key ex_digest 201 ex_created_payload [(''ETag'', ex_tag)] 0 ?db3 = (Inr (), ex_draft)"
  proof -
    show "load_replay ''ann'' OPERATION_CREATE ex_key ex_digest 0 empty_reviews = (Inr None, empty_reviews)"
      by (simp add: load_replay_def callS_def ex_parts empty_reviews_def)
    show "insert_review (ex_review ''draft'' 1) empty_reviews = (Inr (), ?db1)"
      by (simp add: insert_runs ok empty_reviews_def)
    have "insert_disposition ex_pending ?db1 = (Inr (), ?db2)" by (simp add: insert_runs ok empty_reviews_def)
    then show "forS [ex_pending] insert_disposition ?db1 = (Inr [()], ?db2)" by (simp add: bindS_def returnS_def)
    show "audit_review ex_renv 70 ''ann'' ''review_revision.create'' ''review_revision'' (uuid_str 50)
         [(''run_id'', JStr (uuid_str 10))] 0 ?db2 = (Inr (), ?db3)"
      by (subst ex_append) (simp_all add: ex_names ex_metadata ex_uuid_texts(1) empty_reviews_def)
    show "record_outcome ''ann'' OPERATION_CREATE ex_key ex_digest 201 ex_created_payload [(''ETag'', ex_tag)] 0 ?db3 = (Inr (), ex_draft)"
      by (simp add: record_outcome_def callS_def ex_created_recorded ex_draft_def empty_reviews_def)
  qed
  have "create_review_revision ex_renv ex_owner 10 ex_key 50 (\<lambda>_. 60) 70 0 empty_reviews =
      (Inr \<lparr>result_payload = ex_created_payload, result_status = 201, result_etag = ex_tag, result_replayed = False\<rparr>, ex_draft)"
    unfolding create_review_revision_def Let_def actor r
    by (simp add: bindS_def readS_def liftS_def returnS_def require_role_def ex_parts runs d ex_payload version
        del: forS.simps)
  then show ?thesis by (simp add: post_review_revision_def committed_def)
qed

text \<open>The row is first confirmed as a weakness, then accepted; the review is submitted.\<close>

definition ex_decision :: "string \<Rightarrow> int \<Rightarrow> disposition" where
  "ex_decision decision version = \<lparr>dp_id = 60, dp_review_id = 50, dp_row_id = 40, dp_decision = decision,
     dp_edited_summary = None, dp_notes = None, dp_version = version, dp_decided_by = ''ann'', dp_decided_at = 0\<rparr>"

definition ex_candidate :: routed_item where
  "ex_candidate = routed_item_of (ex_review ''draft'' 2) (ex_decision ''weakness_confirmed'' 2) ex_mrow ''weakness_confirmed'' ''ann'' 61 0"

definition ex_rows :: "review_revision \<Rightarrow> disposition \<Rightarrow> routed_item list \<Rightarrow> audit_event list \<Rightarrow> review_db" where
  "ex_rows r d candidates events = \<lparr>rv_reviews = [r], rv_dispositions = [d], rv_requests = [], rv_candidates = candidates,
     rv_comments = [], rv_idempotency = [ex_created_record], rv_audit = events\<rparr>"

lemma ex_draft_rows: "ex_draft = ex_rows (ex_review ''draft'' 1) (ex_decision ''pending'' 1) [] (rv_audit ex_draft)"
  by (simp add: ex_draft_def ex_rows_def ex_pending_def ex_decision_def)

lemma ex_rows_simps [simp]:
  "rv_reviews (ex_rows r d cs es) = [r]" "rv_dispositions (ex_rows r d cs es) = [d]" "rv_requests (ex_rows r d cs es) = []"
  "rv_candidates (ex_rows r d cs es) = cs" "rv_comments (ex_rows r d cs es) = []" "rv_audit (ex_rows r d cs es) = es"
  "(ex_rows r d cs es)\<lparr>rv_audit := es'\<rparr> = ex_rows r d cs es'"
  "(ex_rows r d cs es)\<lparr>rv_candidates := cs'\<rparr> = ex_rows r d cs' es"
  "(ex_rows r d cs es)\<lparr>rv_reviews := [r']\<rparr> = ex_rows r' d cs es"
  "(ex_rows r d cs es)\<lparr>rv_dispositions := [d'], rv_reviews := [r']\<rparr> = ex_rows r' d' cs es"
  by (simp_all add: ex_rows_def)

definition ex_weak :: review_db where
  "ex_weak =
     (let es = rv_audit ex_draft;
          es1 = es @ [ex_event 71 es ''poam_candidate.created'' ''poam_candidate'' (uuid_str 61) (routing_metadata ex_candidate)]
      in ex_rows (ex_review ''draft'' 2) (ex_decision ''weakness_confirmed'' 2) [ex_candidate]
           (es1 @ [ex_event 72 es1 ''review_revision.disposition'' ''disposition'' (uuid_str 60)
              [(''decision'', JStr ''weakness_confirmed''), (''evidence_request_created'', JBool False),
               (''poam_candidate_created'', JBool True)]]))"

lemma ex_tags: "assert_if_match (Some ''\"v1\"'') 1 = Inr ()" "assert_if_match (Some ''\"v2\"'') 2 = Inr ()"
  "assert_if_match (Some ''\"v3\"'') 3 = Inr ()"
  "format_package_revision_etag 2 = Inr ''\"v2\"''" "format_package_revision_etag 3 = Inr ''\"v3\"''"
  by code_simp+

lemma ex_row_checks:
  "validate_disposition_decision ''weakness_confirmed'' None = Inr ()" "validate_disposition_decision ''accepted'' None = Inr ()"
  "load_matrix_row ex_renv 40 = Inr ex_mrow"
  "require_decision_compatible_with_matrix_status ''weakness_confirmed'' (mrow_system_status ex_mrow) = Inr ()"
  "require_decision_compatible_with_matrix_status ''accepted'' (mrow_system_status ex_mrow) = Inr ()"
  "disposition_row_ok (ex_decision ''weakness_confirmed'' 2)" "disposition_row_ok (ex_decision ''accepted'' 3)"
  "review_row_ok (ex_review ''draft'' 2)" "review_row_ok (ex_review ''draft'' 3)" "routed_row_ok ex_candidate"
  by code_simp+

lemma ex_fields [simp]:
  "rr_id (ex_review st v) = 50" "rr_run_id (ex_review st v) = 10" "rr_version (ex_review st v) = v" "rr_status (ex_review st v) = st"
  "(ex_review st v)\<lparr>rr_version := v'\<rparr> = ex_review st v'" "(ex_review st v)\<lparr>rr_status := st'\<rparr> = ex_review st' v"
  "dp_id (ex_decision dec n) = 60" "dp_review_id (ex_decision dec n) = 50" "dp_row_id (ex_decision dec n) = 40"
  "dp_decision (ex_decision dec n) = dec" "dp_version (ex_decision dec n) = n"
  "(ex_decision dec n)\<lparr>dp_decision := dec', dp_edited_summary := None, dp_notes := None, dp_version := n', dp_decided_by := ''ann'',
     dp_decided_at := 0\<rparr> = ex_decision dec' n'"
  "principal.actor_id ex_owner = ''ann''"
  by (simp_all add: ex_review_def ex_decision_def ex_owner_def)

lemma ex_candidate_fields [simp]:
  "ri_id ex_candidate = 61" "ri_review_id ex_candidate = 50" "ri_row_id ex_candidate = 40" "ri_disposition_id ex_candidate = 60"
  "ri_system_status ex_candidate = ''partial''" "ri_item_id ex_candidate = ''AC-2''"
  by (simp_all add: ex_candidate_def routed_item_of_def ex_mrow_def)

lemma ex_routing_metadata:
  "routing_metadata ex_candidate = [(''review_revision_id'', JStr ''00000000-0000-0000-0000-000000000032''),
     (''matrix_row_id'', JStr ''00000000-0000-0000-0000-000000000028''), (''assessment_item_id'', JStr ''AC-2'')]"
  by (simp add: routing_metadata_def ex_uuid_texts)

lemma ex_decide_weakness:
  "patch_disposition ex_renv ex_owner 50 40 ''weakness_confirmed'' None None (Some ''\"v1\"'') 61 71 72 0 ex_draft = ex_weak"
proof -
  let ?es = "rv_audit ex_draft"
  let ?stored = "ex_rows (ex_review ''draft'' 2) (ex_decision ''weakness_confirmed'' 2) [] ?es"
  let ?routed = "ex_rows (ex_review ''draft'' 2) (ex_decision ''weakness_confirmed'' 2) [ex_candidate]
    (?es @ [ex_event 71 ?es ''poam_candidate.created'' ''poam_candidate'' (uuid_str 61) (routing_metadata ex_candidate)])"
  have loads: "load_review 50 ex_draft = Inr (ex_review ''draft'' 1)" "load_disposition 50 40 ex_draft = Inr (ex_decision ''pending'' 1)"
    by (subst ex_draft_rows, simp add: load_review_def load_disposition_def)+
  have stored: "store_decision (ex_decision ''weakness_confirmed'' 2) (ex_review ''draft'' 2) ex_draft = (Inr (), ?stored)"
    by (subst ex_draft_rows) (simp add: insert_runs ex_row_checks)
  have item: "routed_item_of (ex_review ''draft'' 2) (ex_decision ''weakness_confirmed'' 2) ex_mrow ''weakness_confirmed'' ''ann'' 61 0 = ex_candidate"
    by (simp add: ex_candidate_def)
  have ins: "insert_candidate_or_existing ex_candidate ?stored =
      (Inr None, ex_rows (ex_review ''draft'' 2) (ex_decision ''weakness_confirmed'' 2) [ex_candidate] ?es)"
    by (simp add: insert_candidate_or_existing_run insert_runs ex_row_checks routed_unique_def)
  have routed: "route_disposition_side_effects ex_renv ex_candidate ''weakness_confirmed'' ''ann'' 71 0 ?stored =
      (Inr \<lparr>evidence_request_id = None, poam_candidate_id = Some 61, routing_created = True\<rparr>, ?routed)"
    by (simp add: route_disposition_side_effects_def bindS_def readS_def liftS_def load_existing_poam_candidate_def ins
        ex_append ex_names ex_metadata ex_routing_metadata returnS_def)
  have audited: "audit_review ex_renv 72 ''ann'' ''review_revision.disposition'' ''disposition'' (uuid_str 60)
        [(''decision'', JStr ''weakness_confirmed''), (''evidence_request_created'', JBool False), (''poam_candidate_created'', JBool True)]
        0 ?routed = (Inr (), ex_weak)"
    by (simp add: ex_append ex_names ex_metadata ex_weak_def Let_def)
  show ?thesis
    by (simp add: patch_disposition_def committed_def update_disposition_def bindS_def readS_def liftS_def guardS_def returnS_def
        require_role_def loads ex_parts ex_tags ex_row_checks stored item routed audited TERMINAL_REVIEW_STATUSES_def Let_def)
qed

text \<open>Changing the decision leaves the candidate where it is.\<close>

definition ex_accepted :: review_db where
  "ex_accepted = (let es = rv_audit ex_weak in
     ex_rows (ex_review ''draft'' 3) (ex_decision ''accepted'' 3) [ex_candidate]
       (es @ [ex_event 73 es ''review_revision.disposition'' ''disposition'' (uuid_str 60)
          [(''decision'', JStr ''accepted''), (''evidence_request_created'', JBool False), (''poam_candidate_created'', JBool False)]]))"

definition ex_submitted :: review_db where
  "ex_submitted = (let es = rv_audit ex_weak in
     ex_rows (ex_review ''submitted'' 2) (ex_decision ''weakness_confirmed'' 2) [ex_candidate]
       (es @ [ex_event 74 es ''review_revision.submit'' ''review_revision'' (uuid_str 50) [(''run_id'', JStr (uuid_str 10))]]))"

lemma ex_weak_rows:
  "ex_weak = ex_rows (ex_review ''draft'' 2) (ex_decision ''weakness_confirmed'' 2) [ex_candidate] (rv_audit ex_weak)"
  by (simp add: ex_weak_def Let_def)

lemma ex_weak_loads:
  "load_review 50 ex_weak = Inr (ex_review ''draft'' 2)" "load_disposition 50 40 ex_weak = Inr (ex_decision ''weakness_confirmed'' 2)"
  "load_dispositions 50 ex_weak = [ex_decision ''weakness_confirmed'' 2]"
  by (subst ex_weak_rows, simp add: load_review_def load_disposition_def load_dispositions_def)+

lemma ex_accept:
  "patch_disposition ex_renv ex_owner 50 40 ''accepted'' None None (Some ''\"v2\"'') 62 75 73 0 ex_weak = ex_accepted"
proof -
  let ?stored = "ex_rows (ex_review ''draft'' 3) (ex_decision ''accepted'' 3) [ex_candidate] (rv_audit ex_weak)"
  have stored: "store_decision (ex_decision ''accepted'' 3) (ex_review ''draft'' 3) ex_weak = (Inr (), ?stored)"
    by (subst ex_weak_rows) (simp add: insert_runs ex_row_checks)
  have audited: "audit_review ex_renv 73 ''ann'' ''review_revision.disposition'' ''disposition'' (uuid_str 60)
        [(''decision'', JStr ''accepted''), (''evidence_request_created'', JBool False), (''poam_candidate_created'', JBool False)]
        0 ?stored = (Inr (), ex_accepted)"
    by (simp add: ex_append ex_names ex_metadata ex_accepted_def Let_def)
  show ?thesis
    by (simp add: patch_disposition_def committed_def update_disposition_def bindS_def readS_def liftS_def guardS_def returnS_def
        require_role_def ex_weak_loads ex_parts ex_tags ex_row_checks stored audited TERMINAL_REVIEW_STATUSES_def Let_def
        route_disposition_side_effects_def)
qed

lemma ex_submit:
  "post_review_revision_submit ex_renv ex_owner 50 (Some ''\"v2\"'') ex_key 74 0 ex_weak = ex_submitted"
proof -
  let ?set = "ex_rows (ex_review ''submitted'' 2) (ex_decision ''weakness_confirmed'' 2) [ex_candidate] (rv_audit ex_weak)"
  have set_to: "set_review (\<lambda>_. ex_review ''submitted'' 2) 50 ex_weak = ?set"
    by (subst ex_weak_rows) (simp add: set_review_def)
  have audited: "audit_review ex_renv 74 ''ann'' ''review_revision.submit'' ''review_revision'' (uuid_str 50)
        [(''run_id'', JStr (uuid_str 10))] 0 ?set = (Inr (), ex_submitted)"
    by (simp add: ex_append ex_names ex_metadata ex_uuid_texts(1) ex_submitted_def Let_def)
  show ?thesis
    by (simp add: post_review_revision_submit_def committed_def submit_review_revision_def bindS_def readS_def liftS_def guardS_def
        returnS_def modifyS_def require_role_def ex_weak_loads ex_parts ex_tags set_to audited Let_def)
qed

abbreviation ex_reachable :: "review_db \<Rightarrow> bool" where
  "ex_reachable \<equiv> reachable_from (\<lambda>db. db = empty_reviews) (review_step ex_renv)"

lemma ex_steps:
  "review_step ex_renv empty_reviews ex_draft" "review_step ex_renv ex_draft ex_weak"
  "review_step ex_renv ex_weak ex_accepted" "review_step ex_renv ex_weak ex_submitted"
  using step_create [of ex_renv empty_reviews ex_owner 10 ex_key 50 "\<lambda>_. 60" 70 0]
    step_decide [of ex_renv ex_draft ex_owner 50 40 "''weakness_confirmed''" None None "Some ''\"v1\"''" 61 71 72 0]
    step_decide [of ex_renv ex_weak ex_owner 50 40 "''accepted''" None None "Some ''\"v2\"''" 62 75 73 0]
    step_submit [of ex_renv ex_weak ex_owner 50 "Some ''\"v2\"''" ex_key 74 0]
  by (simp_all only: ex_create_reviews ex_decide_weakness ex_accept ex_submit)

lemma ex_reached: "ex_reachable ex_draft" "ex_reachable ex_weak" "ex_reachable ex_submitted"
proof -
  have "ex_reachable empty_reviews" by (rule reach_start) simp
  then show draft: "ex_reachable ex_draft" by (rule reach_step) (rule ex_steps)
  then show weak: "ex_reachable ex_weak" by (rule reach_step) (rule ex_steps)
  then show "ex_reachable ex_submitted" by (rule reach_step) (rule ex_steps)
qed

section \<open>Properties\<close>



lemma items_stay:
  assumes "review_step env db db'"
  shows "set (rv_requests db) \<subseteq> set (rv_requests db') \<and> set (rv_candidates db) \<subseteq> set (rv_candidates db')"
  using review_step_rows [OF assms]
  by (auto simp: created_def was_submitted_def decided_def commented_def routed_def rows_of_def set_review_def)

lemma one_item:
  assumes "distinct (map f items)" and "x \<in> set items"
  shows "length (filter (\<lambda>y. f y = f x) items) = 1"
  using filter_unique_key [OF assms] by simp

text \<open>C36: A confirmed weakness has exactly one POA\&M candidate, a row that asks for evidence exactly one evidence
  request, however often it is decided; and no later request withdraws a candidate or a request, also not one that
  changes the decision.\<close>

theorem routed_items_stay:
  assumes "reachable_from (\<lambda>db. db = empty_reviews) (review_step env) db" and "d \<in> set (rv_dispositions db)"
  shows "(dp_decision d = ''weakness_confirmed'' \<longrightarrow>
      length (filter (\<lambda>i. (ri_review_id i, ri_row_id i) = (dp_review_id d, dp_row_id d)) (rv_candidates db)) = 1) \<and>
    (dp_decision d = ''evidence_requested'' \<longrightarrow>
      length (filter (\<lambda>i. (ri_review_id i, ri_row_id i) = (dp_review_id d, dp_row_id d)) (rv_requests db)) = 1) \<and>
    (steps_to (review_step env) db db' \<longrightarrow>
      set (rv_requests db) \<subseteq> set (rv_requests db') \<and> set (rv_candidates db) \<subseteq> set (rv_candidates db'))"
proof -
  have ok: "reviews_ok env db" by (rule reviews.reachable_inv [OF assms(1)])
  then have unique: "distinct (map (\<lambda>x. (ri_review_id x, ri_row_id x)) (rv_requests db))"
      "distinct (map (\<lambda>x. (ri_review_id x, ri_row_id x)) (rv_candidates db))"
    by (simp_all add: reviews_ok_def items_ok_def)
  have "routing_done (dp_decision d) (dp_review_id d) (dp_row_id d) db"
    using ok assms(2) by (simp add: reviews_ok_def all_routed_def)
  then have "dp_decision d = ''weakness_confirmed'' \<Longrightarrow>
      length (filter (\<lambda>i. (ri_review_id i, ri_row_id i) = (dp_review_id d, dp_row_id d)) (rv_candidates db)) = 1"
    and "dp_decision d = ''evidence_requested'' \<Longrightarrow>
      length (filter (\<lambda>i. (ri_review_id i, ri_row_id i) = (dp_review_id d, dp_row_id d)) (rv_requests db)) = 1"
    using one_item [OF unique(2)] one_item [OF unique(1)] by (fastforce simp: routing_done_def)+
  moreover have "set (rv_requests db) \<subseteq> set (rv_requests db') \<and> set (rv_candidates db) \<subseteq> set (rv_candidates db')"
    if "steps_to (review_step env) db db'"
    using that
  proof (induction rule: steps_to.induct)
    case (steps_more s t u)
    then show ?case using items_stay [OF steps_more.hyps(2)] by blast
  qed simp
  ultimately show ?thesis by blast
qed



theorem routed_items_stay_witness:
  "rv_candidates ex_weak = [ex_candidate] \<and> ex_candidate \<in> set (rv_candidates ex_accepted) \<and>
   rv_dispositions ex_accepted = [ex_decision ''accepted'' 3]"
proof -
  have weak: "rv_dispositions ex_weak = [ex_decision ''weakness_confirmed'' 2]" "rv_candidates ex_weak = [ex_candidate]"
    by (simp_all add: ex_weak_def Let_def)
  have "ex_candidate \<in> set (rv_candidates ex_accepted)"
    using routed_items_stay [OF ex_reached(2), of "ex_decision ''weakness_confirmed'' 2" ex_accepted]
      steps_one [of "review_step ex_renv" ex_weak ex_accepted, OF ex_steps(3)] by (simp add: weak)
  then show ?thesis by (simp add: weak ex_accepted_def Let_def)
qed

section \<open>Retried comments\<close>

abbreviation new_comment :: "principal \<Rightarrow> uuid \<Rightarrow> uuid option \<Rightarrow> string \<Rightarrow> uuid \<Rightarrow> instant \<Rightarrow> review_comment" where
  "new_comment p rid row_id body cid now \<equiv> \<lparr>cm_id = cid, cm_review_id = rid, cm_row_id = row_id, cm_body = py_strip body,
     cm_created_by = principal.actor_id p, cm_created_at = now\<rparr>"

abbreviation comment_request :: "uuid \<Rightarrow> uuid option \<Rightarrow> string \<Rightarrow> members" where
  "comment_request rid row_id body \<equiv> [(''review_revision_id'', JStr (uuid_str rid)),
     (''matrix_row_id'', optional_text (map_option uuid_str row_id)), (''body'', JStr (py_strip body))]"

text \<open>The checks of the handler, and what it does once they have passed.\<close>

definition comment_checks ::
  "review_env \<Rightarrow> principal \<Rightarrow> uuid \<Rightarrow> uuid option \<Rightarrow> string \<Rightarrow> string \<Rightarrow> review_db \<Rightarrow> bool" where
  "comment_checks env p rid row_id body digest db =
     (\<exists>r sys rows. py_strip body \<noteq> [] \<and> load_review rid db = Inr r \<and> rr_status r \<notin> set TERMINAL_REVIEW_STATUSES \<and>
        load_run_context env (rr_run_id r) = Inr (sys, rows) \<and>
        require_package_role (re_roles env) p sys ''reviewer'' = Inr () \<and>
        (case row_id of None \<Rightarrow> True | Some i \<Rightarrow> i \<in> mrow_id ` set rows) \<and>
        request_digest_from_payload (re_sha256 env) (comment_request rid row_id body) = Inr digest)"

definition store_comment ::
  "review_env \<Rightarrow> principal \<Rightarrow> uuid \<Rightarrow> uuid option \<Rightarrow> string \<Rightarrow> string \<Rightarrow> string \<Rightarrow> uuid \<Rightarrow> uuid \<Rightarrow> instant
     \<Rightarrow> (members \<times> int \<times> bool) review_op" where
  "store_comment env p rid row_id body key digest cid eid now =
     (let c = new_comment p rid row_id body cid now; payload = map_review_comment_to_domain c; actor = principal.actor_id p in
      bindS (load_replay actor OPERATION_CREATE_COMMENT key digest now) (\<lambda>replay.
      case replay of
        Some rep \<Rightarrow> returnS (replay_body rep, replay_status rep, True)
      | None \<Rightarrow>
          bindS (insert_comment c) (\<lambda>_.
          bindS (audit_review env eid actor ''review_revision.comment'' ''review_comment'' (uuid_str cid)
            [(''review_revision_id'', JStr (uuid_str rid))] now) (\<lambda>_.
          bindS (record_outcome actor OPERATION_CREATE_COMMENT key digest 201 payload [] now) (\<lambda>_.
          returnS (payload, 201, False))))))"

lemma checks_run:
  "bindS (guardS ok e) f s = (Inr y, u) \<longleftrightarrow> ok \<and> f () s = (Inr y, u)"
  "bindS (readS w q) g s = (Inr y, u) \<longleftrightarrow> (\<exists>x. q s = Inr x \<and> g x s = (Inr y, u))"
  "bindS (liftS w v) h s = (Inr y, u) \<longleftrightarrow> (\<exists>x. v = Inr x \<and> h x s = (Inr y, u))"
  by (auto simp: handler_simps)

lemma ex_unit: "(\<exists>x :: unit. P x) = P ()"
  by auto

lemma comment_split:
  "create_review_comment env p rid row_id body key cid eid now db = (Inr x, db') \<longleftrightarrow>
     (\<exists>digest. comment_checks env p rid row_id body digest db \<and>
        store_comment env p rid row_id body key digest cid eid now db = (Inr x, db'))"
proof -
  have "create_review_comment env p rid row_id body key cid eid now db = (Inr x, db') \<longleftrightarrow>
     (\<exists>r sys rows digest. py_strip body \<noteq> [] \<and> load_review rid db = Inr r \<and> rr_status r \<notin> set TERMINAL_REVIEW_STATUSES \<and>
        load_run_context env (rr_run_id r) = Inr (sys, rows) \<and>
        require_package_role (re_roles env) p sys ''reviewer'' = Inr () \<and>
        (case row_id of None \<Rightarrow> True | Some i \<Rightarrow> i \<in> mrow_id ` set rows) \<and>
        request_digest_from_payload (re_sha256 env) (comment_request rid row_id body) = Inr digest \<and>
        store_comment env p rid row_id body key digest cid eid now db = (Inr x, db'))"
    unfolding create_review_comment_def store_comment_def Let_def
    by (simp only: checks_run require_role_def split_paired_Ex prod.case ex_unit) blast
  then show ?thesis unfolding comment_checks_def by blast
qed

lemma first_comment:
  assumes "store_comment env p rid row_id body key digest cid eid now db = (Inr (payload, status, False), db')"
  shows "\<exists>d. rv_reviews d = rv_reviews db \<and>
    record_outcome (principal.actor_id p) OPERATION_CREATE_COMMENT key digest status payload [] now d = (Inr (), db')"
proof -
  have reviews: "rv_reviews d = rv_reviews db"
    if "rows_of a = rows_of db" "insert_comment (new_comment p rid row_id body cid now) a = (Inr (), b)" "rows_of d = rows_of b" for a b d
    using that by (simp add: insert_runs rows_of_def)
  from assms show ?thesis
    by (auto simp: store_comment_def Let_def handler_simps split: option.splits)
      (metis reviews load_replay_rows audit_review_rows)
qed


definition ex_comment :: review_comment where
  "ex_comment = new_comment ex_owner 50 None ''Please check'' 90 0"

definition ex_comment_payload :: members where
  "ex_comment_payload = [(''comment_id'', JStr ''00000000-0000-0000-0000-00000000005a''),
     (''review_revision_id'', JStr ''00000000-0000-0000-0000-000000000032''), (''matrix_row_id'', JNull),
     (''body'', JStr ''Please check''), (''created_by'', JStr ''ann''), (''created_at'', JStr ''1970-01-01T00:00:00Z'')]"

definition ex_comment_record :: idempotency_record where
  "ex_comment_record = \<lparr>idem_principal = ''ann'', idem_operation = OPERATION_CREATE_COMMENT, idem_key = ex_key,
     idem_digest = ex_digest, idem_status = 201, idem_body = ex_comment_payload, idem_headers = [], idem_created_at = 0,
     idem_expires_at = IDEMPOTENCY_RETENTION\<rparr>"

definition ex_commented :: review_db where
  "ex_commented = ex_draft\<lparr>rv_comments := [ex_comment],
     rv_audit := rv_audit ex_draft @ [ex_event 91 (rv_audit ex_draft) ''review_revision.comment'' ''review_comment'' (uuid_str 90)
       [(''review_revision_id'', JStr (uuid_str 50))]],
     rv_idempotency := [ex_created_record, ex_comment_record]\<rparr>"

lemma ex_comment_facts:
  "uuid_str 90 = ''00000000-0000-0000-0000-00000000005a''" "py_strip ''Please check'' = ''Please check''"
  "request_digest_from_payload (re_sha256 ex_renv) (comment_request 50 None ''Please check'') = Inr ex_digest"
  "load_idempotency_replay ''ann'' OPERATION_CREATE_COMMENT ex_key ex_digest (Aware 0) [ex_created_record] = Inr ([ex_created_record], None)"
  "record_idempotency_outcome ''ann'' OPERATION_CREATE_COMMENT ex_key ex_digest 201 ex_comment_payload [] (Aware 0) [ex_created_record] =
     Inr ([ex_created_record, ex_comment_record], ())"
  "require_action ''review_revision.comment'' = Inr ''review_revision.comment''"
  "require_object_type ''review_comment'' = Inr ''review_comment''"
  "require_metadata [(''review_revision_id'', JStr ''00000000-0000-0000-0000-000000000032'')] =
     Inr [(''review_revision_id'', JStr ''00000000-0000-0000-0000-000000000032'')]"
  by code_simp+

lemma ex_comment_run:
  "create_review_comment ex_renv ex_owner 50 None ''Please check'' ex_key 90 91 0 ex_draft =
    (Inr (ex_comment_payload, 201, False), ex_commented)"
proof -
  have checks: "comment_checks ex_renv ex_owner 50 None ''Please check'' ex_digest ex_draft"
    unfolding comment_checks_def using ex_comment_facts(3)
    by (intro exI [of _ "ex_review ''draft'' 1"] exI [of _ ex_target] exI [of _ "[ex_mrow]"], subst ex_draft_rows)
      (simp add: load_review_def ex_parts ex_comment_facts TERMINAL_REVIEW_STATUSES_def)
  let ?db1 = "ex_draft\<lparr>rv_comments := [ex_comment]\<rparr>"
  let ?db2 = "?db1\<lparr>rv_audit := rv_audit ex_draft @ [ex_event 91 (rv_audit ex_draft) ''review_revision.comment'' ''review_comment''
      (uuid_str 90) [(''review_revision_id'', JStr (uuid_str 50))]]\<rparr>"
  have idem: "rv_idempotency ex_draft = [ex_created_record]" "rv_comments ex_draft = []" by (simp_all add: ex_draft_def)
  have payload: "map_review_comment_to_domain ex_comment = ex_comment_payload"
    by (simp add: map_review_comment_to_domain_def ex_comment_def ex_comment_payload_def ex_uuid_texts ex_comment_facts ex_time
        optional_text_def)
  have "comment_row_ok ex_comment" "cm_id ex_comment = 90"
    by (simp_all add: comment_row_ok_def ex_comment_def ex_comment_facts)
  then have ins: "insert_comment ex_comment ex_draft = (Inr (), ?db1)" by (simp add: insert_runs idem)
  have replay: "load_replay ''ann'' OPERATION_CREATE_COMMENT ex_key ex_digest 0 ex_draft = (Inr None, ex_draft)"
    by (simp add: load_replay_def callS_def idem ex_comment_facts)
  have audited: "audit_review ex_renv 91 ''ann'' ''review_revision.comment'' ''review_comment'' (uuid_str 90)
      [(''review_revision_id'', JStr (uuid_str 50))] 0 ?db1 = (Inr (), ?db2)"
    by (subst ex_append) (simp_all add: ex_comment_facts(6-8) ex_uuid_texts(3))
  have recorded: "record_outcome ''ann'' OPERATION_CREATE_COMMENT ex_key ex_digest 201 ex_comment_payload [] 0 ?db2 = (Inr (), ex_commented)"
    by (simp add: record_outcome_def callS_def idem ex_comment_facts ex_commented_def)
  have c: "new_comment ex_owner 50 None ''Please check'' 90 0 = ex_comment" by (simp add: ex_comment_def)
  have "store_comment ex_renv ex_owner 50 None ''Please check'' ex_key ex_digest 90 91 0 ex_draft =
      (Inr (ex_comment_payload, 201, False), ex_commented)"
    unfolding store_comment_def c by (simp add: bindS_def returnS_def payload replay ins audited recorded Let_def)
  with checks show ?thesis unfolding comment_split by blast
qed


end
