(* ===== verification/Spec2Isabelle.thy ===== *)
theory Spec2Isabelle
  imports JobProperties AuditProperties WorkspaceExample EditingExample Citations RegisterProperties GenerationProperties
    ServiceProperties ReviewExample
begin

text \<open>
  Verification library of the ATO service (\<open>src/src/ato_service\<close>): a web service in which a team prepares a
  system security plan (SSP) or an assessment package with the help of a language model, and people review,
  correct and approve what the model wrote. PostgreSQL holds the state; every request is one transaction.

  \<^bold>\<open>Parts and theories.\<close> Each theory below opens with a text that names its sources.

  \<^item> Foundations. \<open>Prelude\<close> (results, tables as lists of rows, reachability, Python strings), \<open>Handlers\<close> (operations
    that may raise after a change, and what their transaction commits), \<open>Json\<close> (canonical bytes), \<open>Calendar\<close>.
  \<^item> Jobs. \<open>Jobs\<close> models \<open>jobs.py\<close>: claiming, heartbeats, completion, failure and recovery of leased jobs over the
    tables of \<open>db/models.py\<close>; \<open>Lifecycle\<close> holds \<open>lifecycle_transitions.py\<close> and \<open>disposition_transitions.py\<close>.
    \<open>JobSystem\<close>, \<open>JobInvariant\<close> and \<open>JobProperties\<close> make the operations one system, with its invariant, lease
    fencing and exclusiveness, the recovery table and the totality of claims and recovery.
  \<^item> Audit. \<open>AuditTrail\<close> models \<open>audit.py\<close>, \<open>AuditChain\<close> the verifier \<open>audit_chain_verify.py\<close>; \<open>AuditProperties\<close> shows
    that a head hash commits to the history up to a digest clash, when an append keeps the chain, and that the
    batched verifier is the one in memory.
  \<^item> SSP workspace tables. \<open>Contracts\<close> (content models and digest, \<open>ssp_workspace/contracts.py\<close>), \<open>Workspace\<close>
    (\<open>persistence.py\<close>), \<open>Evidence\<close> (\<open>evidence.py\<close>); \<open>WorkspaceInvariant\<close>, \<open>WorkspaceSystem\<close> and \<open>WorkspaceProperties\<close>:
    revisions form a line and never change, no update is lost, approvals are bound to digests, removed evidence is
    hidden. \<open>WorkspaceExample\<close> is a concrete life of a workspace.
  \<^item> SSP content. \<open>Editing\<close> (\<open>editing.py\<close>), \<open>Markers\<close> (confirmations and what makes them stale), \<open>Registers\<close>
    (\<open>system_definition.py\<close>, \<open>information_types.py\<close>, \<open>sp800_60_catalog.py\<close>), \<open>Metrics\<close>, with \<open>EditingProperties\<close>,
    \<open>EditingExample\<close> and \<open>RegisterProperties\<close>: edits keep content valid and touch only their targets, generated text
    never replaces human text, registers read back.
  \<^item> Model output. \<open>GenerationContracts\<close> and \<open>GenerationParsing\<close> (\<open>generation_contracts.py\<close>), \<open>Generation\<close>
    (\<open>generation.py\<close>: validation, prompts, one repair), \<open>GenerationProperties\<close>; \<open>Citations\<close> (\<open>evidence_chunking.py\<close>,
    \<open>citation_validation.py\<close>): accepted citations are bound to a sealed text.
  \<^item> Profiles. \<open>OscalCatalog\<close> (\<open>oscal_catalog.py\<close>) and \<open>Profiles\<close> (\<open>profile_bundles.py\<close>, \<open>profiles.py\<close>).
  \<^item> SSP service. \<open>Service\<close>, \<open>ServiceReview\<close>, \<open>ServicePatches\<close>, \<open>ServiceMigration\<close> and \<open>ServiceConfirmations\<close> model the
    requests of \<open>service.py\<close> as handlers over the workspace tables, \<open>ServiceRoutes\<close> the routes of \<open>api.py\<close> and what they
    commit. \<open>ServiceSystem\<close> proves the refinement: whatever a route commits, failed requests included, is a sequence
    of steps of the tables, so the properties of the tables hold of the service; \<open>PatchLifecycle\<close> and
    \<open>ServiceProperties\<close> add the life of a patch and the gate of an approval, \<open>ServiceExample\<close> a concrete run.
  \<^item> Shared services of the package workflow. \<open>Access\<close> (\<open>auth_context.py\<close>, \<open>package_rbac.py\<close>), \<open>Idempotency\<close>
    (\<open>idempotency.py\<close>, \<open>concurrency.py\<close>), \<open>Pagination\<close> (\<open>pagination.py\<close>): who may act, replay of recorded
    outcomes, entity tags, and cursors that list everything once.
  \<^item> Human review. \<open>Reviews\<close> models \<open>review_revisions.py\<close>, \<open>poam_routing.py\<close> and their routes over explicit tables,
    with the services above and the audit chain; \<open>ReviewProperties\<close> gives the effect of each request,
    \<open>ReviewInvariant\<close> the invariant and the rest of submitted reviews, \<open>ReviewExample\<close> a concrete review and the
    properties.

  \<^bold>\<open>How the model follows the code.\<close> A table is a list of records in insertion order, an exception a value of a sum
  type, a pure function a function into such a sum, and a request either a function of its tables or a handler that
  also gives the state it leaves when it raises. The unique keys, foreign keys and checks of the tables that an
  operation can violate are conditions of its insertions. Concurrent requests are sequences of transactions; the
  row and advisory locks of the code justify this where it takes them, and a finding of the manifest names a place
  where it does not.

  \<^bold>\<open>Interfaces.\<close> Locales state what components rely on, each interpreted on the model: \<open>invariant_system\<close> (jobs,
  workspace tables, content edits, reviews), \<open>lifecycle\<close> (both status tables), \<open>stale_marker\<close> (three confirmations),
  \<open>state_relation\<close> and \<open>service_relation\<close> (what runs of handlers keep: equality, steps of the tables, evolution of
  patches).

  \<^bold>\<open>Parameters.\<close> SHA-256, HMAC, version 5 UUIDs, Python's \<open>repr\<close>, \<open>casefold\<close> and \<open>json.loads\<close>, JSON-schema validation,
  the language model, scanner, extractors and blob store are arguments; identifiers drawn by \<open>uuid4\<close> and the clock are
  too. Where a property needs a law of one (that \<open>json.loads\<close> reads back what was written), it is a hypothesis, and
  a witness meets it with a concrete function. Digest properties hold up to an explicit clash. Characters are code
  points below 256.

  \<^bold>\<open>Bounds.\<close> All functions are total; loops that are not structural have a measure (chunking, the walk of a catalog).
  The one piece of fuel, the number of pages a client follows in \<open>Pagination\<close>, is enough when it exceeds the number
  of items, which the property proves.

  \<^bold>\<open>Not modelled.\<close> Intake and extraction of files, creation and sealing of package revisions, normalization, start and
  cancellation of runs, package exports and approvals, and package chat (left out for time, except for file formats
  and model calls); rendering of documents, HTTP clients, sign-in, configuration, migrations and operator tools
  (input, output and third-party libraries). The manifest lists every part with its reason.
\<close>

end
